(* ===== verification/Orbit_Prelude.thy ===== *)
theory Orbit_Prelude
  imports Main "HOL-Library.Sublist"
begin

section \<open>Shared vocabulary of the OrbitJob model\<close>

text \<open>
  What every component of the development uses: error values and their wrapping,
  computations that read and write a world and may fail, the parts of the Go standard
  library the program relies on (instants and durations, decimal conversion,
  \<open>strings.TrimSpace\<close>), and the interface every lifecycle of the program satisfies.

  Strings are lists of bytes, as Go's are. An instant is the number of nanoseconds since
  Go's zero time, so the zero \<open>time.Time\<close> is \<open>0\<close>; a duration is a number of nanoseconds.
\<close>

named_theorems io_simps \<open>unfolding a computation step by step\<close>
named_theorems io_intros \<open>rules that split a computation into its steps\<close>
named_theorems ledger_simps \<open>definitions of the ledger operations\<close>

type_synonym time = int
type_synonym duration = int

abbreviation second_ns :: duration where "second_ns \<equiv> 1000000000"
abbreviation minute_ns :: duration where "minute_ns \<equiv> 60000000000"
abbreviation hour_ns :: duration where "hour_ns \<equiv> 3600000000000"

subsection \<open>Instants and durations\<close>

definition time_IsZero :: "time \<Rightarrow> bool" where
  "time_IsZero t \<longleftrightarrow> t = 0"

text \<open>\<open>time.Time.Sub\<close> saturates at the range of a 64-bit duration.\<close>

definition time_Sub :: "time \<Rightarrow> time \<Rightarrow> duration" where
  "time_Sub a b = max (- (2 ^ 63)) (min (2 ^ 63 - 1) (a - b))"

text \<open>\<open>time.Time.Truncate\<close> rounds down to a multiple of the duration since the zero time.\<close>

definition time_Truncate :: "time \<Rightarrow> duration \<Rightarrow> time" where
  "time_Truncate t d = (if d \<le> 0 then t else t - t mod d)"

lemma time_Truncate_le: "time_Truncate t d \<le> t"
  by (simp add: time_Truncate_def)

lemma time_Truncate_gt: "0 < d \<Longrightarrow> t < time_Truncate t d + d"
  by (simp add: time_Truncate_def)

lemma time_Truncate_mod: "0 < d \<Longrightarrow> time_Truncate t d mod d = 0"
  by (simp add: time_Truncate_def mod_diff_eq minus_mod_eq_div_mult)

lemma time_Truncate_mono: "0 < d \<Longrightarrow> s \<le> t \<Longrightarrow> time_Truncate s d \<le> time_Truncate t d"
  by (simp add: time_Truncate_def minus_mod_eq_div_mult zdiv_mono1)

lemma time_Sub_less_iff:
  "- (2 ^ 63) < c \<Longrightarrow> c \<le> 2 ^ 63 - 1 \<Longrightarrow> time_Sub a b < c \<longleftrightarrow> a - b < c"
  by (auto simp: time_Sub_def max_def min_def)

lemma time_Sub_greater_iff:
  "- (2 ^ 63) \<le> c \<Longrightarrow> c < 2 ^ 63 - 1 \<Longrightarrow> c < time_Sub a b \<longleftrightarrow> c < a - b"
  by (auto simp: time_Sub_def max_def min_def)

subsection \<open>Errors\<close>

text \<open>
  The program's sentinel errors, its typed errors, the errors of the database driver and of
  the Kubernetes API, and errors made by \<open>fmt.Errorf\<close>. A message is identified by its
  fixed text; the formatted arguments are not part of the model. \<open>Wrapf\<close> is the \<open>%w\<close> verb:
  \<open>errors.Is\<close> looks through it.
\<close>

datatype err =
    ErrInvalidTransition
  | ErrRunTerminal
  | ErrRevisionConflict
  | ErrAttemptConflict
  | ErrNoAttempt
  | ErrAttemptOwnership
  | ErrForeignJob
  | ErrInvalidIdentity
  | ErrInvalidInput
  | ErrPrivilegeEscalation
  | ErrPlatformPolicyImmutable
  | ValidationError string
  | NotFoundError string
  | ConflictError string
  | ScopeError string
  | DbError string
  | ApiNotFound
  | ApiAlreadyExists
  | ApiError string
  | Errorf string
  | Wrapf string err

fun err_is :: "err \<Rightarrow> err \<Rightarrow> bool" where
  "err_is (Wrapf m e) t = (Wrapf m e = t \<or> err_is e t)"
| "err_is e t = (e = t)"

lemma err_is_refl [simp]: "err_is e e"
  by (cases e) simp_all

type_synonym 'a result = "err + 'a"

definition wrap_result :: "string \<Rightarrow> 'a result \<Rightarrow> 'a result" where
  "wrap_result m r = (case r of Inl e \<Rightarrow> Inl (Wrapf m e) | Inr a \<Rightarrow> Inr a)"

lemma wrap_result_simps [simp]:
  "wrap_result m (Inl e) = Inl (Wrapf m e)"
  "wrap_result m (Inr a) = Inr a"
  by (simp_all add: wrap_result_def)

definition rbind :: "'a result \<Rightarrow> ('a \<Rightarrow> 'b result) \<Rightarrow> 'b result" where
  "rbind r f = (case r of Inl e \<Rightarrow> Inl e | Inr a \<Rightarrow> f a)"

lemma rbind_simps [simp]:
  "rbind (Inl e) f = Inl e"
  "rbind (Inr a) f = f a"
  by (simp_all add: rbind_def)

lemma rbind_InrD: "rbind r f = Inr b \<Longrightarrow> \<exists>a. r = Inr a \<and> f a = Inr b"
  by (cases r) auto

subsection \<open>Computations over a world\<close>

text \<open>
  A call of the program that may fail and may change the world (the database, the cluster,
  the clock's reader): a function from the world to a result and the new world. An early
  return on error is \<open>io_bind\<close>: the world keeps every effect made so far.
\<close>

type_synonym ('w, 'a) io = "'w \<Rightarrow> 'a result \<times> 'w"

definition io_return :: "'a \<Rightarrow> ('w, 'a) io" where
  "io_return a = (\<lambda>w. (Inr a, w))"

definition io_fail :: "err \<Rightarrow> ('w, 'a) io" where
  "io_fail e = (\<lambda>w. (Inl e, w))"

definition io_lift :: "'a result \<Rightarrow> ('w, 'a) io" where
  "io_lift r = (\<lambda>w. (r, w))"

definition io_bind :: "('w, 'a) io \<Rightarrow> ('a \<Rightarrow> ('w, 'b) io) \<Rightarrow> ('w, 'b) io" where
  "io_bind m f = (\<lambda>w. case m w of (Inl e, w') \<Rightarrow> (Inl e, w') | (Inr a, w') \<Rightarrow> f a w')"

text \<open>The result of a call, kept as a value: Go code that inspects \<open>err\<close> before it returns.\<close>

definition io_try :: "('w, 'a) io \<Rightarrow> ('w, 'a result) io" where
  "io_try m = (\<lambda>w. case m w of (r, w') \<Rightarrow> (Inr r, w'))"

definition io_wrap :: "string \<Rightarrow> ('w, 'a) io \<Rightarrow> ('w, 'a) io" where
  "io_wrap msg m = (\<lambda>w. case m w of (r, w') \<Rightarrow> (wrap_result msg r, w'))"

lemma io_return_apply [io_simps]: "io_return a w = (Inr a, w)"
  by (simp add: io_return_def)

lemma io_fail_apply [io_simps]: "io_fail e w = (Inl e, w)"
  by (simp add: io_fail_def)

lemma io_lift_apply [io_simps]: "io_lift r w = (r, w)"
  by (simp add: io_lift_def)

lemma io_bind_apply [io_simps]:
  "io_bind m f w = (case m w of (Inl e, w') \<Rightarrow> (Inl e, w') | (Inr a, w') \<Rightarrow> f a w')"
  by (simp add: io_bind_def)

lemma io_try_apply [io_simps]: "io_try m w = (case m w of (r, w') \<Rightarrow> (Inr r, w'))"
  by (simp add: io_try_def)

lemma io_wrap_apply [io_simps]: "io_wrap msg m w = (case m w of (r, w') \<Rightarrow> (wrap_result msg r, w'))"
  by (simp add: io_wrap_def)

lemma io_bind_return [simp]: "io_bind (io_return a) f = f a"
  by (rule ext) (simp add: io_simps)

lemma io_bind_fail [simp]: "io_bind (io_fail e) f = io_fail e"
  by (rule ext) (simp add: io_simps)

lemma io_bind_lift [simp]:
  "io_bind (io_lift (Inr a)) f = f a"
  "io_bind (io_lift (Inl e)) f = io_fail e"
  by (rule ext, simp add: io_simps)+

text \<open>A loop over a list that stops at the first error, keeping the effects made so far.\<close>

fun io_iter :: "('a \<Rightarrow> ('w, unit) io) \<Rightarrow> 'a list \<Rightarrow> ('w, unit) io" where
  "io_iter f [] = io_return ()"
| "io_iter f (x # xs) = io_bind (f x) (\<lambda>_. io_iter f xs)"

text \<open>The same with a count per element: the total of a loop that ran to its end.\<close>

fun io_sum :: "('a \<Rightarrow> ('w, int) io) \<Rightarrow> 'a list \<Rightarrow> ('w, int) io" where
  "io_sum f [] = io_return 0"
| "io_sum f (x # xs) = io_bind (f x) (\<lambda>n. io_bind (io_sum f xs) (\<lambda>m. io_return (n + m)))"

subsection \<open>Database transactions\<close>

text \<open>
  What the connection does to a transaction: nothing, it refuses \<open>BeginTx\<close>, or it reports an error of \<open>Commit\<close> although the server
  has committed. A \<open>Commit\<close> that fails before the server has committed leaves what a refused \<open>BeginTx\<close> leaves. \<open>sql_tx\<close> is
  \<open>BeginTx\<close>, the body, and \<open>Rollback\<close> on its error or \<open>Commit\<close>; \<open>call_with\<close> is the same fault seen by the caller of a method that runs
  one transaction.
\<close>

datatype fault = NoFault | FailBefore | FailAfter

definition sql_tx :: "fault \<Rightarrow> ('w, 'a) io \<Rightarrow> ('w, 'a) io" where
  "sql_tx f body = (\<lambda>w.
     if f = FailBefore then (Inl (DbError ''connection''), w)
     else case body w of
         (Inl e, _) \<Rightarrow> (Inl e, w)
       | (Inr a, w') \<Rightarrow> if f = FailAfter then (Inl (DbError ''connection''), w') else (Inr a, w'))"

definition call_with :: "fault \<Rightarrow> ('w, 'a) io \<Rightarrow> ('w, 'a) io" where
  "call_with f m = (\<lambda>w. case f of
       NoFault \<Rightarrow> m w
     | FailBefore \<Rightarrow> (Inl (DbError ''connection''), w)
     | FailAfter \<Rightarrow> (case m w of (Inl e, w') \<Rightarrow> (Inl e, w') | (Inr a, w') \<Rightarrow> (Inl (DbError ''connection''), w')))"

lemma sql_tx_commits: "sql_tx NoFault body w = (case body w of (Inl e, _) \<Rightarrow> (Inl e, w) | (Inr a, w') \<Rightarrow> (Inr a, w'))"
  by (simp add: sql_tx_def split: prod.split sum.split)

lemma call_with_sql_tx: "call_with f (sql_tx NoFault body) = sql_tx f body"
  by (rule ext) (auto simp: call_with_def sql_tx_def split: fault.split prod.split sum.split)

lemma sql_tx_all_or_nothing: "sql_tx f body w = (r, w') \<Longrightarrow> w' = w \<or> (\<exists>a. body w = (Inr a, w'))"
  by (auto simp: sql_tx_def split: if_splits prod.splits sum.splits)

subsection \<open>What a computation keeps\<close>

text \<open>
  \<open>io_keeps R m\<close>: whatever \<open>m\<close> returns, error or not, the world before and the world after
  are related by \<open>R\<close>. For a reflexive and transitive \<open>R\<close> the property passes through
  sequencing, which is what carries a store's guarantee to the handlers that call it.
\<close>

definition io_keeps :: "('w \<Rightarrow> 'w \<Rightarrow> bool) \<Rightarrow> ('w, 'a) io \<Rightarrow> bool" where
  "io_keeps R m \<longleftrightarrow> (\<forall>w. R w (snd (m w)))"

lemma io_keepsD: "io_keeps R m \<Longrightarrow> R w (snd (m w))"
  by (simp add: io_keeps_def)

lemma io_keepsD': "io_keeps R m \<Longrightarrow> m w = (r, w') \<Longrightarrow> R w w'"
  by (metis io_keepsD snd_conv)

lemma io_keeps_pure [io_intros]:
  assumes "reflp R"
  shows "io_keeps R (io_return a)" and "io_keeps R (io_fail e)" and "io_keeps R (io_lift r)"
  using assms by (simp_all add: io_keeps_def io_simps reflp_def)

lemma io_keeps_bind [io_intros]:
  assumes "transp R" and "io_keeps R m" and "\<And>a. io_keeps R (f a)"
  shows "io_keeps R (io_bind m f)"
  unfolding io_keeps_def
proof
  fix w
  obtain r w' where m: "m w = (r, w')" by (cases "m w")
  with assms(2) have step: "R w w'" by (rule io_keepsD')
  show "R w (snd (io_bind m f w))"
  proof (cases r)
    case (Inl e)
    with m step show ?thesis by (simp add: io_bind_apply)
  next
    case (Inr a)
    have "R w' (snd (f a w'))" using assms(3) by (rule io_keepsD)
    with step assms(1) have "R w (snd (f a w'))" by (blast dest: transpD)
    with m Inr show ?thesis by (simp add: io_bind_apply)
  qed
qed

lemma io_keeps_try [io_intros]: "io_keeps R m \<Longrightarrow> io_keeps R (io_try m)"
  by (simp add: io_keeps_def io_try_apply split: prod.splits) (metis snd_conv)

lemma io_keeps_wrap [io_intros]: "io_keeps R m \<Longrightarrow> io_keeps R (io_wrap msg m)"
  by (simp add: io_keeps_def io_wrap_apply split: prod.splits) (metis snd_conv)

lemma io_keeps_iter [io_intros]:
  assumes "reflp R" and "transp R" and "\<And>x. io_keeps R (f x)"
  shows "io_keeps R (io_iter f xs)"
proof (induction xs)
  case Nil
  show ?case using assms(1) by (simp add: io_keeps_pure)
next
  case (Cons x xs)
  then show ?case by (auto intro!: io_keeps_bind assms)
qed

lemma io_keeps_sum [io_intros]:
  assumes "reflp R" and "transp R" and "\<And>x. io_keeps R (f x)"
  shows "io_keeps R (io_sum f xs)"
proof (induction xs)
  case Nil
  show ?case using assms(1) by (simp add: io_keeps_pure)
next
  case (Cons x xs)
  then show ?case by (auto intro!: io_keeps_bind io_keeps_pure assms)
qed

text \<open>
  \<open>io_holds P m Q\<close>: from a world that satisfies \<open>P\<close>, a successful run of \<open>m\<close> returns a value
  and a world that satisfy \<open>Q\<close>.
\<close>

definition io_holds :: "('w \<Rightarrow> bool) \<Rightarrow> ('w, 'a) io \<Rightarrow> ('a \<Rightarrow> 'w \<Rightarrow> bool) \<Rightarrow> bool" where
  "io_holds P m Q \<longleftrightarrow> (\<forall>w a w'. P w \<longrightarrow> m w = (Inr a, w') \<longrightarrow> Q a w')"

lemma io_bind_InrD:
  "io_bind m f w = (Inr b, w'') \<Longrightarrow> \<exists>a w'. m w = (Inr a, w') \<and> f a w' = (Inr b, w'')"
  by (auto simp: io_bind_apply split: prod.splits sum.splits)

lemma io_wrap_InrD: "io_wrap msg m w = (Inr b, w') \<Longrightarrow> m w = (Inr b, w')"
  by (auto simp: io_wrap_apply wrap_result_def split: prod.splits sum.splits)

subsection \<open>Lifecycles\<close>

text \<open>
  The contract between a lifecycle and the code that records its phases: a terminal phase
  has no successor. The clients are the reconcilers, which drive a run along the
  transitions and stop at a terminal phase.
\<close>

locale lifecycle =
  fixes can :: "'p \<Rightarrow> 'p \<Rightarrow> bool"
    and terminal :: "'p \<Rightarrow> bool"
  assumes terminal_final: "terminal p \<Longrightarrow> \<not> can p q"
begin

lemma path_from_terminal: "can\<^sup>*\<^sup>* p q \<Longrightarrow> terminal p \<Longrightarrow> q = p"
  by (induction rule: converse_rtranclp_induct) (auto dest: terminal_final)

lemma terminal_unique:
  assumes "can\<^sup>*\<^sup>* p q" and "can\<^sup>*\<^sup>* q r" and "terminal q"
  shows "r = q"
  using assms path_from_terminal by blast

lemma no_step_after_terminal:
  "can\<^sup>*\<^sup>* p q \<Longrightarrow> can\<^sup>*\<^sup>* p r \<Longrightarrow> terminal q \<Longrightarrow> can\<^sup>*\<^sup>* q r \<Longrightarrow> r = q"
  using path_from_terminal by blast

end

end
