(* ===== verification/Go_Strings.thy ===== *)
theory Go_Strings
  imports Orbit_Prelude
begin

section \<open>Strings and decimal numbers\<close>

text \<open>
  The functions of Go's \<open>strings\<close>, \<open>strconv\<close> and \<open>unicode/utf8\<close> packages the program calls,
  on byte strings. \<open>TrimSpace\<close> and \<open>btrim\<close> remove ASCII white space; white space outside
  ASCII does not occur in the identifiers they are applied to.
\<close>

definition is_space :: "char \<Rightarrow> bool" where
  "is_space c \<longleftrightarrow> c \<in> {CHR '' '', CHR 0x09, CHR 0x0A, CHR 0x0B, CHR 0x0C, CHR 0x0D}"

definition TrimSpace :: "string \<Rightarrow> string" where
  "TrimSpace s = rev (dropWhile is_space (rev (dropWhile is_space s)))"

text \<open>\<open>strings.Trim(s, cutset)\<close>.\<close>

definition Trim :: "string \<Rightarrow> string \<Rightarrow> string" where
  "Trim s cutset =
     rev (dropWhile (\<lambda>c. c \<in> set cutset) (rev (dropWhile (\<lambda>c. c \<in> set cutset) s)))"

text \<open>
  \<open>utf8.RuneCountInString\<close> on valid UTF-8: the bytes that are not continuation bytes.
\<close>

definition rune_count :: "string \<Rightarrow> nat" where
  "rune_count s = length (filter (\<lambda>c. \<not> (128 \<le> (of_char c :: nat) \<and> (of_char c :: nat) < 192)) s)"

text \<open>
  Well-formed UTF-8, byte by byte: the number of continuation bytes still expected, and the range of the next one, which
  excludes overlong forms and surrogates.
\<close>

fun utf8_scan :: "nat \<Rightarrow> nat \<Rightarrow> nat \<Rightarrow> nat list \<Rightarrow> bool" where
  "utf8_scan 0 lo hi [] = True"
| "utf8_scan (Suc n) lo hi [] = False"
| "utf8_scan (Suc n) lo hi (b # bs) = (lo \<le> b \<and> b \<le> hi \<and> utf8_scan n 0x80 0xBF bs)"
| "utf8_scan 0 lo hi (b # bs) =
     (if b < 0x80 then utf8_scan 0 0 0 bs
      else if 0xC2 \<le> b \<and> b \<le> 0xDF then utf8_scan 1 0x80 0xBF bs
      else if b = 0xE0 then utf8_scan 2 0xA0 0xBF bs
      else if b = 0xED then utf8_scan 2 0x80 0x9F bs
      else if 0xE1 \<le> b \<and> b \<le> 0xEF then utf8_scan 2 0x80 0xBF bs
      else if b = 0xF0 then utf8_scan 3 0x90 0xBF bs
      else if 0xF1 \<le> b \<and> b \<le> 0xF3 then utf8_scan 3 0x80 0xBF bs
      else if b = 0xF4 then utf8_scan 3 0x80 0x8F bs
      else False)"

text \<open>What a text column of PostgreSQL stores: well-formed UTF-8 without the character U+0000.\<close>

definition pg_text :: "string \<Rightarrow> bool" where
  "pg_text s \<longleftrightarrow> CHR 0x00 \<notin> set s \<and> utf8_scan 0 0 0 (map of_char s)"

lemma rune_count_le: "rune_count s \<le> length s"
  by (simp add: rune_count_def)

definition digit_char :: "nat \<Rightarrow> char" where
  "digit_char d = char_of (48 + d)"

fun nat_digits :: "nat \<Rightarrow> string" where
  "nat_digits n = (if n < 10 then [digit_char n] else nat_digits (n div 10) @ [digit_char (n mod 10)])"

declare nat_digits.simps [simp del]

text \<open>\<open>strconv.Itoa\<close>, \<open>strconv.FormatInt\<close> in base 10 and \<open>fmt.Sprint\<close> of an integer.\<close>

definition itoa :: "int \<Rightarrow> string" where
  "itoa i = (if i < 0 then CHR ''-'' # nat_digits (nat (- i)) else nat_digits (nat i))"

definition is_digit :: "char \<Rightarrow> bool" where
  "is_digit c \<longleftrightarrow> 48 \<le> (of_char c :: nat) \<and> (of_char c :: nat) \<le> 57"

definition digit_value :: "char \<Rightarrow> nat" where
  "digit_value c = of_char c - 48"

definition digits_value :: "string \<Rightarrow> nat" where
  "digits_value s = foldl (\<lambda>acc c. 10 * acc + digit_value c) 0 s"

text \<open>\<open>strconv.ParseInt(s, 10, 64)\<close>, and \<open>strconv.Atoi\<close> on a 64-bit platform.\<close>

definition parse_int64 :: "string \<Rightarrow> int result" where
  "parse_int64 s =
     (let (neg, ds) = (case s of [] \<Rightarrow> (False, [])
                       | c # cs \<Rightarrow> if c = CHR ''-'' then (True, cs)
                                  else if c = CHR ''+'' then (False, cs) else (False, c # cs))
      in if ds = [] \<or> \<not> list_all is_digit ds then Inl (Errorf ''strconv: invalid syntax'')
         else let v = (if neg then - int (digits_value ds) else int (digits_value ds))
              in if v < - (2 ^ 63) \<or> 2 ^ 63 - 1 < v then Inl (Errorf ''strconv: value out of range'')
                 else Inr v)"

subsection \<open>Decimal conversion is injective and read back\<close>

lemma of_char_digit_char [simp]: "d < 10 \<Longrightarrow> (of_char (digit_char d) :: nat) = 48 + d"
  by (simp add: digit_char_def of_char_of)

lemma is_digit_digit_char [simp]: "d < 10 \<Longrightarrow> is_digit (digit_char d)"
  by (simp add: is_digit_def)

lemma digit_value_digit_char [simp]: "d < 10 \<Longrightarrow> digit_value (digit_char d) = d"
  by (simp add: digit_value_def)

lemma nat_digits_nonempty [simp]: "nat_digits n \<noteq> []"
  by (subst nat_digits.simps) simp

lemma nat_digits_digits: "list_all is_digit (nat_digits n)"
proof (induction n rule: nat_digits.induct)
  case (1 n)
  then show ?case by (subst nat_digits.simps) simp
qed

lemma digits_value_snoc: "digits_value (s @ [c]) = 10 * digits_value s + digit_value c"
  by (simp add: digits_value_def)

lemma digits_value_nat_digits [simp]: "digits_value (nat_digits n) = n"
proof (induction n rule: nat_digits.induct)
  case (1 n)
  show ?case
  proof (cases "n < 10")
    case True
    then show ?thesis by (subst nat_digits.simps) (simp add: digits_value_def)
  next
    case False
    with 1 have "digits_value (nat_digits (n div 10)) = n div 10" by simp
    with False show ?thesis by (subst nat_digits.simps) (simp add: digits_value_snoc)
  qed
qed

lemma nat_digits_inject [simp]: "nat_digits m = nat_digits n \<longleftrightarrow> m = n"
  by (metis digits_value_nat_digits)

lemma minus_not_digit: "\<not> is_digit (CHR ''-'')" "\<not> is_digit (CHR ''+'')"
  by (simp_all add: is_digit_def of_char_def)

lemma nat_digits_hd: "nat_digits n = c # cs \<Longrightarrow> is_digit c"
  using nat_digits_digits [of n] by simp

lemma nat_digits_no_minus: "CHR ''-'' \<notin> set (nat_digits n)"
  using nat_digits_digits [of n] minus_not_digit by (auto simp: list_all_iff)

lemma itoa_inject [simp]: "itoa i = itoa j \<longleftrightarrow> i = j"
  using nat_digits_hd minus_not_digit
  by (auto simp: itoa_def split: if_splits) (metis nat_digits_hd)+

lemma itoa_nonempty [simp]: "itoa i \<noteq> []"
  by (simp add: itoa_def)

lemma parse_int64_itoa:
  assumes "- (2 ^ 63) \<le> i" and "i \<le> 2 ^ 63 - 1"
  shows "parse_int64 (itoa i) = Inr i"
proof (cases "i < 0")
  case True
  with assms show ?thesis
    by (simp add: parse_int64_def itoa_def nat_digits_digits)
next
  case False
  obtain c cs where cs: "nat_digits (nat i) = c # cs"
    by (meson nat_digits_nonempty neq_Nil_conv)
  from nat_digits_hd [OF cs] have "c \<noteq> CHR ''-''" and "c \<noteq> CHR ''+''"
    using minus_not_digit by auto
  moreover have "list_all is_digit (c # cs)" using nat_digits_digits [of "nat i"] cs by simp
  moreover have "digits_value (c # cs) = nat i" by (metis cs digits_value_nat_digits)
  ultimately show ?thesis using False assms cs
    by (simp add: parse_int64_def itoa_def)
qed

lemma itoa_no_minus: "0 \<le> i \<Longrightarrow> CHR ''-'' \<notin> set (itoa i)"
  by (simp add: itoa_def nat_digits_no_minus)

text \<open>A decimal suffix after a separator determines both parts of a name.\<close>

lemma sep_suffix_inject:
  assumes eq: "xs @ c # us = ys @ c # vs" and "c \<notin> set us" and "c \<notin> set vs"
  shows "xs = ys \<and> us = vs"
proof -
  have split: "takeWhile (\<lambda>x. x \<noteq> c) (as @ c # bs) = as \<and> dropWhile (\<lambda>x. x \<noteq> c) (as @ c # bs) = c # bs"
    if "c \<notin> set as" for as bs
    using that by (induction as) auto
  from arg_cong [OF eq, of rev] have r: "rev us @ c # rev xs = rev vs @ c # rev ys" by simp
  have u: "takeWhile (\<lambda>x. x \<noteq> c) (rev us @ c # rev xs) = rev us"
    "dropWhile (\<lambda>x. x \<noteq> c) (rev us @ c # rev xs) = c # rev xs"
    using split [of "rev us" "rev xs"] assms(2) by simp_all
  have v: "takeWhile (\<lambda>x. x \<noteq> c) (rev vs @ c # rev ys) = rev vs"
    "dropWhile (\<lambda>x. x \<noteq> c) (rev vs @ c # rev ys) = c # rev ys"
    using split [of "rev vs" "rev ys"] assms(3) by simp_all
  from u(1) v(1) r have "rev us = rev vs" by metis
  moreover from u(2) v(2) r have "c # rev xs = c # rev ys" by metis
  ultimately show ?thesis by simp
qed

end
