(* ===== verification/Job_Run.thy ===== *)
theory Job_Run
  imports Go_Strings
begin

section \<open>The lifecycle of one logical run\<close>

text \<open>
  The run domain of \<open>internal/core/domain/jobrun\<close>: the phases and triggers, the transition
  relation \<open>CanTransition\<close> with \<open>Transition\<close>, \<open>StartAttempt\<close>, \<open>RequestCancel\<close> and
  \<open>ConfirmCanceled\<close> (\<open>types.go\<close>, \<open>transition.go\<close>), and the stored progress a reconciler decides
  from (\<open>stored.go\<close>). Phases and triggers are typed strings in the source; a string that is
  none of the constants is \<open>OtherPhase\<close> or \<open>OtherTrigger\<close>.
\<close>

subsection \<open>Phases and triggers\<close>

datatype phase =
    Pending | CreatingAttempt | Running | RetryWaiting | Succeeded | Failed
  | CancelRequested | Canceled | CancelUnknown | OtherPhase string

fun phase_string :: "phase \<Rightarrow> string" where
  "phase_string Pending = ''Pending''"
| "phase_string CreatingAttempt = ''CreatingAttempt''"
| "phase_string Running = ''Running''"
| "phase_string RetryWaiting = ''RetryWaiting''"
| "phase_string Succeeded = ''Succeeded''"
| "phase_string Failed = ''Failed''"
| "phase_string CancelRequested = ''CancelRequested''"
| "phase_string Canceled = ''Canceled''"
| "phase_string CancelUnknown = ''CancelUnknown''"
| "phase_string (OtherPhase s) = s"

text \<open>The conversion \<open>jobrun.Phase(s)\<close> of a stored string.\<close>

definition phase_of :: "string \<Rightarrow> phase" where
  "phase_of s =
     (case map_of (map (\<lambda>p. (phase_string p, p))
             [Pending, CreatingAttempt, Running, RetryWaiting, Succeeded, Failed,
              CancelRequested, Canceled, CancelUnknown]) s of
        Some p \<Rightarrow> p | None \<Rightarrow> OtherPhase s)"

datatype trigger =
  Schedule | Manual | Retry | Check | Workflow | Function | OtherTrigger string

fun trigger_string :: "trigger \<Rightarrow> string" where
  "trigger_string Schedule = ''Schedule''"
| "trigger_string Manual = ''Manual''"
| "trigger_string Retry = ''Retry''"
| "trigger_string Check = ''Check''"
| "trigger_string Workflow = ''Workflow''"
| "trigger_string Function = ''Function''"
| "trigger_string (OtherTrigger s) = s"

record JobRun =
  jr_ID :: string
  jr_SourceUID :: string
  jr_RevisionID :: string
  jr_OccurrenceKey :: string
  jr_RevisionGeneration :: int
  jr_Attempt :: int
  jr_Trigger :: trigger
  jr_Phase :: phase
  jr_ScheduledFor :: time

text \<open>Go's zero value: the fields a composite literal does not name.\<close>

definition JobRun_zero :: JobRun where
  "JobRun_zero = \<lparr>jr_ID = '''', jr_SourceUID = '''', jr_RevisionID = '''', jr_OccurrenceKey = '''',
     jr_RevisionGeneration = 0, jr_Attempt = 0, jr_Trigger = OtherTrigger '''',
     jr_Phase = OtherPhase '''', jr_ScheduledFor = 0\<rparr>"

record Attempt =
  at_ID :: string
  at_JobRunID :: string
  at_KubernetesJobName :: string
  at_KubernetesJobUID :: string
  at_ObservedResourceVersion :: string
  at_Number :: int
  at_Phase :: phase
  at_StartedAt :: time

definition Attempt_zero :: Attempt where
  "Attempt_zero = \<lparr>at_ID = '''', at_JobRunID = '''', at_KubernetesJobName = '''',
     at_KubernetesJobUID = '''', at_ObservedResourceVersion = '''', at_Number = 0,
     at_Phase = OtherPhase '''', at_StartedAt = 0\<rparr>"

subsection \<open>Transitions\<close>

fun CanTransition :: "phase \<Rightarrow> phase \<Rightarrow> bool" where
  "CanTransition Pending to \<longleftrightarrow> to = CreatingAttempt \<or> to = CancelRequested"
| "CanTransition CreatingAttempt to \<longleftrightarrow> to = Running \<or> to = CancelRequested"
| "CanTransition Running to \<longleftrightarrow>
     to = RetryWaiting \<or> to = Succeeded \<or> to = Failed \<or> to = CancelRequested"
| "CanTransition RetryWaiting to \<longleftrightarrow> to = CreatingAttempt \<or> to = CancelRequested \<or> to = Failed"
| "CanTransition CancelRequested to \<longleftrightarrow> to = Canceled \<or> to = CancelUnknown"
| "CanTransition _ to \<longleftrightarrow> False"

definition Terminal :: "phase \<Rightarrow> bool" where
  "Terminal p \<longleftrightarrow> p = Succeeded \<or> p = Failed \<or> p = Canceled"

definition Transition :: "JobRun \<Rightarrow> phase \<Rightarrow> JobRun result" where
  "Transition run to =
     (if \<not> CanTransition (jr_Phase run) to then Inl ErrInvalidTransition
      else Inr (run\<lparr>jr_Phase := to\<rparr>))"

definition StartAttempt :: "JobRun \<Rightarrow> Attempt \<Rightarrow> time \<Rightarrow> (JobRun \<times> Attempt) result" where
  "StartAttempt run attempt now =
     (if at_Number attempt \<le> 0 \<or> at_JobRunID attempt \<noteq> jr_ID run
         \<or> (jr_Phase run \<noteq> Pending \<and> jr_Phase run \<noteq> RetryWaiting)
      then Inl ErrInvalidTransition
      else if time_IsZero now then Inl ErrInvalidTransition
      else Inr (run\<lparr>jr_Phase := CreatingAttempt, jr_Attempt := at_Number attempt\<rparr>,
                attempt\<lparr>at_Phase := CreatingAttempt\<rparr>))"

definition RequestCancel :: "JobRun \<Rightarrow> time \<Rightarrow> JobRun result" where
  "RequestCancel run now =
     (if time_IsZero now \<or> \<not> CanTransition (jr_Phase run) CancelRequested
      then Inl ErrInvalidTransition
      else Inr (run\<lparr>jr_Phase := CancelRequested\<rparr>))"

definition ConfirmCanceled :: "JobRun \<Rightarrow> time \<Rightarrow> JobRun result" where
  "ConfirmCanceled run now =
     (if time_IsZero now \<or> jr_Phase run \<noteq> CancelRequested then Inl ErrInvalidTransition
      else Inr (run\<lparr>jr_Phase := Canceled\<rparr>))"

subsection \<open>Stored progress\<close>

record StoredRun =
  sr_ID :: int
  sr_RevisionID :: int
  sr_Phase :: phase
  sr_Attempt :: int
  sr_MaxAttempts :: int
  sr_Epoch :: int
  sr_ScheduledFor :: time

definition StoredRun_zero :: StoredRun where
  "StoredRun_zero = \<lparr>sr_ID = 0, sr_RevisionID = 0, sr_Phase = OtherPhase '''', sr_Attempt = 0,
     sr_MaxAttempts = 0, sr_Epoch = 0, sr_ScheduledFor = 0\<rparr>"

definition NextAttempt :: "StoredRun \<Rightarrow> int" where
  "NextAttempt s = sr_Attempt s + 1"

definition AttemptInFlight :: "StoredRun \<Rightarrow> bool" where
  "AttemptInFlight s =
     (if sr_Attempt s < 1 then False
      else sr_Phase s = Running \<or> sr_Phase s = CreatingAttempt)"

definition CanStartAttempt :: "StoredRun \<Rightarrow> bool" where
  "CanStartAttempt s =
     (if AttemptInFlight s then False
      else if NextAttempt s > sr_MaxAttempts s then False
      else (case sr_Phase s of Pending \<Rightarrow> True | RetryWaiting \<Rightarrow> True | _ \<Rightarrow> False))"

record PrunableRun =
  pr_ID :: int
  pr_OccurrenceKey :: string
  pr_Phase :: phase

record OpenRun =
  or_ID :: int
  or_RevisionID :: int
  or_OccurrenceKey :: string
  or_Phase :: phase
  or_ScheduledFor :: time

subsection \<open>The lifecycle contract\<close>

interpretation run_lifecycle: lifecycle CanTransition Terminal
proof
  fix p q
  assume "Terminal p"
  then show "\<not> CanTransition p q" by (auto simp: Terminal_def)
qed

lemma phase_of_string: "(\<And>s. p \<noteq> OtherPhase s) \<Longrightarrow> phase_of (phase_string p) = p"
  by (cases p) (simp_all add: phase_of_def)

lemma phase_string_of [simp]: "phase_string (phase_of s) = s"
  by (auto simp: phase_of_def split: option.split)

lemmas terminal_phases = Terminal_def

lemma not_Terminal_simps [simp]:
  "\<not> Terminal Pending" "\<not> Terminal CreatingAttempt" "\<not> Terminal Running"
  "\<not> Terminal RetryWaiting" "\<not> Terminal CancelRequested" "\<not> Terminal CancelUnknown"
  "\<not> Terminal (OtherPhase s)" "Terminal Succeeded" "Terminal Failed" "Terminal Canceled"
  by (simp_all add: Terminal_def)

fun_cases CanTransition_toE: "CanTransition p q"

lemma CanTransition_to_Canceled: "CanTransition p Canceled \<longleftrightarrow> p = CancelRequested"
  by (cases p) simp_all

lemma CanTransition_CancelUnknown: "\<not> CanTransition CancelUnknown q"
  by simp

text \<open>A path of the lifecycle as the list of phases it visits, first to last.\<close>

fun lifecycle_path :: "phase list \<Rightarrow> bool" where
  "lifecycle_path [] \<longleftrightarrow> False"
| "lifecycle_path [p] \<longleftrightarrow> True"
| "lifecycle_path (p # q # ps) \<longleftrightarrow> CanTransition p q \<and> lifecycle_path (q # ps)"

lemma lifecycle_path_Canceled:
  assumes "lifecycle_path ps" and "hd ps \<noteq> Canceled" and "Canceled \<in> set ps"
  shows "sublist [CancelRequested, Canceled] ps"
  using assms
proof (induction ps rule: lifecycle_path.induct)
  case (3 p q ps)
  show ?case
  proof (cases "q = Canceled")
    case True
    with 3 have "p = CancelRequested" by (simp add: CanTransition_to_Canceled)
    with True show ?thesis by (simp add: sublist_Cons_right)
  next
    case False
    with 3 show ?thesis by (auto simp: sublist_Cons_right)
  qed
qed auto

lemma Terminal_end_of_path:
  assumes "lifecycle_path (xs @ p # ys)" and "Terminal p"
  shows "ys = []"
proof (cases ys)
  case (Cons y ys')
  from assms(1) have "CanTransition p y"
    unfolding Cons by (induction xs rule: lifecycle_path.induct) auto
  with assms(2) show ?thesis using run_lifecycle.terminal_final by blast
qed simp

end
