(* ===== verification/Workload_Types.thy ===== *)
theory Workload_Types
  imports Job_Run
begin

section \<open>The custom resources\<close>

text \<open>
  The specs of the four custom resources (\<open>api/kubernetes/workloads/v1alpha1/types.go\<close>), the
  budget and naming rules every writer shares (\<open>EffectiveMaxAttempts\<close>, \<open>RunObjectName\<close>,
  \<open>WorkflowRunObjectName\<close>) and the structural validation of workflow specs. Typed strings
  are datatypes with one constructor per constant and one for every other string.
\<close>

subsection \<open>ScheduledJob\<close>

datatype ConcurrencyPolicy = Allow | Forbid | Replace | OtherConcurrency string
datatype MisfirePolicy = Skip | FireOnce | CatchUpBounded | OtherMisfire string

record HistoryPolicy =
  SuccessfulRuns :: int
  FailedRuns :: int

record RetryPolicy =
  rp_MaxAttempts :: int

record JobTemplateSpec =
  jt_Image :: string
  jt_Command :: "string list"
  jt_Args :: "string list"
  jt_BackoffLimit :: int

record ScheduledJobSpec =
  ss_Schedule :: string
  ss_History :: HistoryPolicy
  ss_Suspend :: bool
  ss_ConcurrencyPolicy :: ConcurrencyPolicy
  ss_MisfirePolicy :: MisfirePolicy
  ss_TimeoutSeconds :: int
  ss_JobTemplate :: JobTemplateSpec
  ss_RetryPolicy :: RetryPolicy

definition EffectiveMaxAttempts :: "RetryPolicy \<Rightarrow> int" where
  "EffectiveMaxAttempts p = (if rp_MaxAttempts p < 1 then 1 else rp_MaxAttempts p)"

subsection \<open>JobRun\<close>

record ObjectReference =
  ref_Name :: string
  ref_UID :: string

record JobRunSpec =
  js_ScheduledJobRef :: ObjectReference
  js_DefinitionRevision :: int
  js_Trigger :: trigger
  js_Actor :: string
  js_OccurrenceKey :: string
  js_TimeoutSeconds :: int
  js_CancelRequested :: bool

text \<open>The metadata of an object the operator writes or reads.\<close>

record OwnerReference =
  own_Kind :: string
  own_Name :: string
  own_UID :: string
  own_Controller :: bool
  own_BlockOwnerDeletion :: bool

record ObjectMeta =
  om_Name :: string
  om_Namespace :: string
  om_UID :: string
  om_Labels :: "(string \<times> string) list"
  om_Annotations :: "(string \<times> string) list"
  om_OwnerReferences :: "OwnerReference list"

record JobRunObject =
  jo_Meta :: ObjectMeta
  jo_Spec :: JobRunSpec

definition RunObjectName :: "string \<Rightarrow> string \<Rightarrow> string" where
  "RunObjectName scheduledJobName occurrenceKey =
     (let suffix = occurrenceKey;
          suffix = (if 8 < length suffix then take 8 suffix else suffix);
          suffix = (if suffix = '''' then ''unknown'' else suffix)
      in scheduledJobName @ ''-'' @ suffix)"

definition WorkflowRunObjectName :: "string \<Rightarrow> string \<Rightarrow> string" where
  "WorkflowRunObjectName workflowJobName occurrenceKey =
     RunObjectName workflowJobName occurrenceKey"

record Condition =
  cd_Type :: string
  cd_Status :: string
  cd_Reason :: string
  cd_Message :: string

text \<open>\<open>ReplaceCondition\<close>: the loop carries the output and whether a condition was replaced.\<close>

fun ReplaceCondition_loop ::
  "Condition list \<Rightarrow> Condition \<Rightarrow> Condition list \<Rightarrow> bool \<Rightarrow> Condition list \<times> bool" where
  "ReplaceCondition_loop [] next out replaced = (out, replaced)"
| "ReplaceCondition_loop (c # cs) next out replaced =
     (if cd_Type c = cd_Type next then ReplaceCondition_loop cs next (out @ [next]) True
      else ReplaceCondition_loop cs next (out @ [c]) replaced)"

definition ReplaceCondition :: "Condition list \<Rightarrow> Condition \<Rightarrow> Condition list" where
  "ReplaceCondition conditions next =
     (case ReplaceCondition_loop conditions next [] False of
        (out, replaced) \<Rightarrow> if \<not> replaced then out @ [next] else out)"

subsection \<open>WorkflowJob and WorkflowRun\<close>

datatype FailPolicy = FailFast | Continue | OtherFailPolicy string
datatype ConditionType = ConditionAll | ConditionAny | OtherConditionType string
datatype Field = FieldPhase | FieldAttempts | FieldDurationMs | OtherField string
datatype Operator =
    OpEq | OpNe | OpIn | OpNotIn | OpLt | OpLe | OpGt | OpGe | OtherOperator string

record WorkflowRule =
  wr_Task :: string
  wr_Field :: Field
  wr_Operator :: Operator
  wr_Values :: "string list"
  wr_Number :: "int option"

record WorkflowConditionSpec =
  wc_Type :: ConditionType
  wc_Rules :: "WorkflowRule list"

record WorkflowTaskSpec =
  wt_Name :: string
  wt_JobRef :: string
  wt_DependsOn :: "string list"
  wt_Condition :: "WorkflowConditionSpec option"

record WorkflowJobSpec =
  ws_Schedule :: string
  ws_History :: HistoryPolicy
  ws_Suspend :: bool
  ws_ConcurrencyPolicy :: ConcurrencyPolicy
  ws_TimeoutSeconds :: int
  ws_FailPolicy :: FailPolicy
  ws_Tasks :: "WorkflowTaskSpec list"

record WorkflowRunSpec =
  wrs_WorkflowRef :: ObjectReference
  wrs_DefinitionRevision :: int
  wrs_Trigger :: trigger
  wrs_Actor :: string
  wrs_OccurrenceKey :: string
  wrs_CancelRequested :: bool

text \<open>\<open>WorkflowJobSpec.Validate\<close>, loop by loop.\<close>

fun validate_names :: "WorkflowTaskSpec list \<Rightarrow> string list \<Rightarrow> string list result" where
  "validate_names [] names = Inr names"
| "validate_names (t # ts) names =
     (if wt_Name t = '''' then Inl (Errorf ''task name must not be empty'')
      else if wt_Name t \<in> set names then Inl (Errorf ''duplicate task name'')
      else if wt_JobRef t = '''' then Inl (Errorf ''jobRef.name is required'')
      else validate_names ts (wt_Name t # names))"

fun validate_deps :: "string \<Rightarrow> string list \<Rightarrow> string list \<Rightarrow> string list \<Rightarrow> unit result" where
  "validate_deps self names [] seen = Inr ()"
| "validate_deps self names (d # ds) seen =
     (if d = self then Inl (Errorf ''depends on itself'')
      else if d \<notin> set names then Inl (Errorf ''depends on unknown task'')
      else if d \<in> set seen then Inl (Errorf ''depends on a task twice'')
      else validate_deps self names ds (d # seen))"

definition is_numeric_op :: "Operator \<Rightarrow> bool" where
  "is_numeric_op op \<longleftrightarrow> op = OpLt \<or> op = OpLe \<or> op = OpGt \<or> op = OpGe"

definition is_string_op :: "Operator \<Rightarrow> bool" where
  "is_string_op op \<longleftrightarrow> op = OpEq \<or> op = OpNe \<or> op = OpIn \<or> op = OpNotIn"

definition validate_rule :: "WorkflowRule \<Rightarrow> string list \<Rightarrow> unit result" where
  "validate_rule r deps =
     (if wr_Task r = '''' then Inl (Errorf ''condition.rules: task must not be empty'')
      else if wr_Task r \<notin> set deps then Inl (Errorf ''condition.rules: task is not in dependsOn'')
      else if wr_Field r \<noteq> FieldPhase \<and> wr_Field r \<noteq> FieldAttempts \<and> wr_Field r \<noteq> FieldDurationMs
        then Inl (Errorf ''condition.rules: unknown field'')
      else if \<not> is_numeric_op (wr_Operator r) \<and> \<not> is_string_op (wr_Operator r)
        then Inl (Errorf ''condition.rules: unknown operator'')
      else if is_numeric_op (wr_Operator r) then
        (if wr_Field r = FieldPhase then Inl (Errorf ''condition.rules: operator does not apply'')
         else if wr_Number r = None then Inl (Errorf ''condition.rules: operator requires number'')
         else if wr_Values r \<noteq> [] then Inl (Errorf ''condition.rules: takes number, not values'')
         else Inr ())
      else if wr_Field r \<noteq> FieldPhase then Inl (Errorf ''condition.rules: operator does not apply'')
      else if wr_Number r \<noteq> None then Inl (Errorf ''condition.rules: takes values, not number'')
      else if (wr_Operator r = OpEq \<or> wr_Operator r = OpNe) \<and> length (wr_Values r) \<noteq> 1
        then Inl (Errorf ''condition.rules: requires exactly one value'')
      else if (wr_Operator r = OpIn \<or> wr_Operator r = OpNotIn) \<and> length (wr_Values r) < 1
        then Inl (Errorf ''condition.rules: requires at least one value'')
      else Inr ())"

fun validate_rules :: "WorkflowRule list \<Rightarrow> string list \<Rightarrow> unit result" where
  "validate_rules [] deps = Inr ()"
| "validate_rules (r # rs) deps = rbind (validate_rule r deps) (\<lambda>_. validate_rules rs deps)"

definition validateCondition :: "WorkflowConditionSpec \<Rightarrow> string list \<Rightarrow> unit result" where
  "validateCondition cond dependsOn =
     (if wc_Type cond \<noteq> ConditionAll \<and> wc_Type cond \<noteq> ConditionAny
        then Inl (Errorf ''condition.type must be all or any'')
      else if wc_Rules cond = [] then Inl (Errorf ''condition.rules must have at least one rule'')
      else validate_rules (wc_Rules cond) dependsOn)"

fun validate_tasks :: "string list \<Rightarrow> WorkflowTaskSpec list \<Rightarrow> unit result" where
  "validate_tasks names [] = Inr ()"
| "validate_tasks names (t # ts) =
     rbind (validate_deps (wt_Name t) names (wt_DependsOn t) []) (\<lambda>_.
     rbind (case wt_Condition t of None \<Rightarrow> Inr ()
            | Some c \<Rightarrow> wrap_result ''workflowJobSpec.tasks'' (validateCondition c (wt_DependsOn t)))
       (\<lambda>_. validate_tasks names ts))"

definition WorkflowJobSpec_Validate :: "WorkflowJobSpec \<Rightarrow> unit result" where
  "WorkflowJobSpec_Validate s =
     (if ws_Schedule s = '''' then Inl (Errorf ''workflowJobSpec.schedule is required'')
      else if ws_Tasks s = [] then Inl (Errorf ''workflowJobSpec.tasks must have at least one task'')
      else rbind (validate_names (ws_Tasks s) []) (\<lambda>names. validate_tasks names (ws_Tasks s)))"

definition WorkflowRunSpec_Validate :: "WorkflowRunSpec \<Rightarrow> unit result" where
  "WorkflowRunSpec_Validate s =
     (if ref_Name (wrs_WorkflowRef s) = '''' \<or> ref_UID (wrs_WorkflowRef s) = ''''
        then Inl (Errorf ''workflowRunSpec.workflowRef requires name and uid'')
      else if wrs_DefinitionRevision s < 1
        then Inl (Errorf ''workflowRunSpec.definitionRevision must be at least 1'')
      else if wrs_Trigger s \<noteq> Manual then Inl (Errorf ''workflowRunSpec.trigger must be Manual'')
      else if wrs_Actor s = '''' then Inl (Errorf ''workflowRunSpec.actor is required'')
      else if wrs_OccurrenceKey s = '''' then Inl (Errorf ''workflowRunSpec.occurrenceKey is required'')
      else Inr ())"

record WorkflowRunStatusStep =
  wss_Task :: string
  wss_Phase :: string
  wss_Attempt :: int
  wss_OccurrenceKey :: string
  wss_Skipped :: bool
  wss_SkipReason :: string

record WorkflowRunStatus =
  wst_Phase :: string
  wst_Steps :: "WorkflowRunStatusStep list"
  wst_StartedAt :: "time option"
  wst_CompletedAt :: "time option"

subsection \<open>Budget and names\<close>

lemma EffectiveMaxAttempts_pos: "1 \<le> EffectiveMaxAttempts p"
  by (simp add: EffectiveMaxAttempts_def)

lemma RunObjectName_long:
  "8 \<le> length key \<Longrightarrow> RunObjectName name key = name @ ''-'' @ take 8 key"
  by (auto simp: RunObjectName_def Let_def)

lemma RunObjectName_nonempty [simp]: "RunObjectName name key \<noteq> ''''"
  by (simp add: RunObjectName_def Let_def)

lemma ReplaceCondition_loop_out:
  "ReplaceCondition_loop cs next out r =
     (out @ map (\<lambda>c. if cd_Type c = cd_Type next then next else c) cs,
      r \<or> cd_Type next \<in> cd_Type ` set cs)"
  by (induction cs arbitrary: out r) auto

text \<open>Replacing keeps every other condition and leaves exactly the new one of its type.\<close>

lemma ReplaceCondition_set:
  "set (ReplaceCondition cs next) = insert next {c \<in> set cs. cd_Type c \<noteq> cd_Type next}"
  by (auto simp: ReplaceCondition_def ReplaceCondition_loop_out)

end
