(* ===== verification/Workflow_Domain.thy ===== *)
theory Workflow_Domain
  imports Workload_Types "HOL-Library.AList"
begin

section \<open>Workflow runs: phases, conditions, roll-up\<close>

text \<open>
  The pure workflow domain of \<open>internal/core/domain/workflow\<close>: its types (\<open>workflow.go\<close>), the
  condition grammar (\<open>condition.go\<close>) and the derivation of a run's phase from its tasks'
  ledger facts (\<open>derive.go\<close>). The DAG itself is in \<open>Workflow_Dag\<close>. A Go map that is only
  looked up is a partial function; the decision trail, which is stored, is an association
  list read by \<open>map_of\<close>.
\<close>

subsection \<open>Types\<close>

datatype wphase =
    PhasePending | PhaseRunning | PhaseCancelRequested | PhaseSucceeded | PhaseFailed
  | PhaseCanceled | PhaseCancelUnknown | OtherWPhase string

fun wphase_string :: "wphase \<Rightarrow> string" where
  "wphase_string PhasePending = ''Pending''"
| "wphase_string PhaseRunning = ''Running''"
| "wphase_string PhaseCancelRequested = ''CancelRequested''"
| "wphase_string PhaseSucceeded = ''Succeeded''"
| "wphase_string PhaseFailed = ''Failed''"
| "wphase_string PhaseCanceled = ''Canceled''"
| "wphase_string PhaseCancelUnknown = ''CancelUnknown''"
| "wphase_string (OtherWPhase s) = s"

definition WTerminal :: "wphase \<Rightarrow> bool" where
  "WTerminal p \<longleftrightarrow> p = PhaseSucceeded \<or> p = PhaseFailed \<or> p = PhaseCanceled"

definition ReasonCanceled :: string where "ReasonCanceled = ''canceled''"
definition ReasonFailFast :: string where "ReasonFailFast = ''fail_fast''"
definition ReasonCondition :: string where "ReasonCondition = ''condition''"
definition ReasonDeadline :: string where "ReasonDeadline = ''deadline''"

lemmas reason_defs = ReasonCanceled_def ReasonFailFast_def ReasonCondition_def ReasonDeadline_def

record TaskDecision =
  td_Skipped :: bool
  td_Reason :: string

definition TaskDecision_zero :: TaskDecision where
  "TaskDecision_zero = \<lparr>td_Skipped = False, td_Reason = ''''\<rparr>"

type_synonym decisions = "(string \<times> TaskDecision) list"

record Run =
  wf_ID :: int
  wf_TenantID :: string
  wf_SourceUID :: string
  wf_RevisionID :: int
  wf_OccurrenceKey :: string
  wf_Trigger :: trigger
  wf_Actor :: string
  wf_Phase :: wphase
  wf_TaskDecisions :: decisions
  wf_CreatedAt :: time
  wf_UpdatedAt :: time

record StepRun =
  st_ID :: int
  st_WorkflowRunID :: int
  st_SourceUID :: string
  st_RevisionID :: int
  st_OccurrenceKey :: string
  st_Trigger :: trigger
  st_Phase :: phase
  st_Attempt :: int
  st_CreatedAt :: time
  st_UpdatedAt :: time

record StepState =
  ss_Phase :: phase
  ss_Attempt :: int
  ss_DurationMs :: int

record Rule =
  ru_Task :: string
  ru_Field :: Field
  ru_Operator :: Operator
  ru_Values :: "string list"
  ru_Number :: "int option"

record Cond =
  co_Type :: ConditionType
  co_Rules :: "Rule list"

record Task =
  tk_Name :: string
  tk_JobRef :: string
  tk_DependsOn :: "string list"
  tk_Condition :: "Cond option"

record DAG =
  dag_FailPolicy :: FailPolicy
  dag_TimeoutSeconds :: int
  dag_Tasks :: "Task list"

subsection \<open>Conditions\<close>

fun go_contains :: "string list \<Rightarrow> string \<Rightarrow> bool" where
  "go_contains [] want = False"
| "go_contains (v # vs) want = (if v = want then True else go_contains vs want)"

definition isStringOperator :: "Operator \<Rightarrow> bool" where
  "isStringOperator op \<longleftrightarrow> op = OpEq \<or> op = OpNe \<or> op = OpIn \<or> op = OpNotIn"

definition isNumericOperator :: "Operator \<Rightarrow> bool" where
  "isNumericOperator op \<longleftrightarrow> op = OpLt \<or> op = OpLe \<or> op = OpGt \<or> op = OpGe"

definition evaluateRule :: "Rule \<Rightarrow> (string \<rightharpoonup> StepState) \<Rightarrow> bool result" where
  "evaluateRule rule states =
     (case states (ru_Task rule) of
        None \<Rightarrow> Inl (Errorf ''condition rule has no recorded state'')
      | Some state \<Rightarrow>
          if isStringOperator (ru_Operator rule) then
            (if ru_Field rule \<noteq> FieldPhase then Inl (Errorf ''operator does not apply to field'')
             else if ru_Number rule \<noteq> None then Inl (Errorf ''operator takes values, not a number'')
             else let phase = phase_string (ss_Phase state) in
               (case ru_Operator rule of
                  OpEq \<Rightarrow> (if length (ru_Values rule) \<noteq> 1 then Inl (Errorf ''operator requires exactly one value'')
                          else Inr (phase = ru_Values rule ! 0))
                | OpNe \<Rightarrow> (if length (ru_Values rule) \<noteq> 1 then Inl (Errorf ''operator requires exactly one value'')
                          else Inr (phase \<noteq> ru_Values rule ! 0))
                | OpIn \<Rightarrow> (if length (ru_Values rule) < 1 then Inl (Errorf ''operator requires at least one value'')
                          else Inr (go_contains (ru_Values rule) phase))
                | _ \<Rightarrow> (if length (ru_Values rule) < 1 then Inl (Errorf ''operator requires at least one value'')
                       else Inr (\<not> go_contains (ru_Values rule) phase))))
          else if \<not> isNumericOperator (ru_Operator rule) then Inl (Errorf ''unknown operator'')
          else if ru_Field rule = FieldPhase then Inl (Errorf ''operator does not apply to field'')
          else case ru_Number rule of
            None \<Rightarrow> Inl (Errorf ''operator requires a number'')
          | Some number \<Rightarrow>
              rbind (case ru_Field rule of
                       FieldAttempts \<Rightarrow> Inr (ss_Attempt state)
                     | FieldDurationMs \<Rightarrow> Inr (ss_DurationMs state)
                     | _ \<Rightarrow> Inl (Errorf ''field has no numeric value''))
                (\<lambda>actual. case ru_Operator rule of
                    OpLt \<Rightarrow> Inr (actual < number)
                  | OpLe \<Rightarrow> Inr (actual \<le> number)
                  | OpGt \<Rightarrow> Inr (actual > number)
                  | OpGe \<Rightarrow> Inr (actual \<ge> number)
                  | _ \<Rightarrow> Inl (Errorf ''unknown operator'')))"

fun evaluate_all :: "Rule list \<Rightarrow> (string \<rightharpoonup> StepState) \<Rightarrow> bool result" where
  "evaluate_all [] states = Inr True"
| "evaluate_all (r # rs) states =
     (case evaluateRule r states of Inl e \<Rightarrow> Inl e
      | Inr pass \<Rightarrow> if \<not> pass then Inr False else evaluate_all rs states)"

fun evaluate_any :: "Rule list \<Rightarrow> (string \<rightharpoonup> StepState) \<Rightarrow> bool result" where
  "evaluate_any [] states = Inr False"
| "evaluate_any (r # rs) states =
     (case evaluateRule r states of Inl e \<Rightarrow> Inl e
      | Inr pass \<Rightarrow> if pass then Inr True else evaluate_any rs states)"

definition EvaluateCondition :: "Cond option \<Rightarrow> (string \<rightharpoonup> StepState) \<Rightarrow> bool result" where
  "EvaluateCondition cond states =
     (case cond of None \<Rightarrow> Inr True
      | Some c \<Rightarrow>
          if co_Rules c = [] then Inr True
          else case co_Type c of
            ConditionAll \<Rightarrow> evaluate_all (co_Rules c) states
          | ConditionAny \<Rightarrow> evaluate_any (co_Rules c) states
          | OtherConditionType s \<Rightarrow> Inl (Errorf ''unknown condition type''))"

subsection \<open>The phase of a run\<close>

text \<open>The loop of \<open>DerivePhase\<close> over its four flags.\<close>

record derive_flags =
  df_unknown :: bool
  df_failed :: bool
  df_canceled :: bool
  df_accounted :: bool

fun derive_loop :: "string list \<Rightarrow> (string \<rightharpoonup> StepState) \<Rightarrow> (string \<rightharpoonup> TaskDecision)
    \<Rightarrow> derive_flags \<Rightarrow> derive_flags" where
  "derive_loop [] steps decisions f = f"
| "derive_loop (task # tasks) steps decisions f =
     derive_loop tasks steps decisions
       (case steps task of
          Some state \<Rightarrow>
            (case ss_Phase state of
               CancelUnknown \<Rightarrow> f\<lparr>df_unknown := True\<rparr>
             | Failed \<Rightarrow> f\<lparr>df_failed := True\<rparr>
             | Canceled \<Rightarrow> f\<lparr>df_canceled := True\<rparr>
             | _ \<Rightarrow> f)
        | None \<Rightarrow>
            (case decisions task of
               None \<Rightarrow> f\<lparr>df_accounted := False\<rparr>
             | Some d \<Rightarrow>
                 if \<not> td_Skipped d then f\<lparr>df_accounted := False\<rparr>
                 else if td_Reason d = ReasonCanceled then f\<lparr>df_canceled := True\<rparr>
                 else f))"

definition DerivePhase :: "string list \<Rightarrow> (string \<rightharpoonup> StepState) \<Rightarrow> (string \<rightharpoonup> TaskDecision)
    \<Rightarrow> wphase \<times> bool" where
  "DerivePhase tasks steps decisions =
     (let f = derive_loop tasks steps decisions
                \<lparr>df_unknown = False, df_failed = False, df_canceled = False, df_accounted = True\<rparr>
      in if df_unknown f then (PhaseCancelUnknown, False)
         else if \<not> df_accounted f then (PhaseRunning, False)
         else if df_failed f then (PhaseFailed, True)
         else if df_canceled f then (PhaseCanceled, True)
         else (PhaseSucceeded, True))"

subsection \<open>What a condition means\<close>

text \<open>
  The reference meaning of a rule: the comparison the operator names, applied to the fact
  the field names.
\<close>

fun numeric_fact :: "Field \<Rightarrow> StepState \<Rightarrow> int" where
  "numeric_fact FieldDurationMs s = ss_DurationMs s"
| "numeric_fact _ s = ss_Attempt s"

fun rule_meaning :: "Operator \<Rightarrow> Field \<Rightarrow> string list \<Rightarrow> int option \<Rightarrow> StepState \<Rightarrow> bool" where
  "rule_meaning OpEq f vs n s \<longleftrightarrow> vs = [phase_string (ss_Phase s)]"
| "rule_meaning OpNe f vs n s \<longleftrightarrow> vs \<noteq> [phase_string (ss_Phase s)]"
| "rule_meaning OpIn f vs n s \<longleftrightarrow> phase_string (ss_Phase s) \<in> set vs"
| "rule_meaning OpNotIn f vs n s \<longleftrightarrow> phase_string (ss_Phase s) \<notin> set vs"
| "rule_meaning OpLt f vs n s \<longleftrightarrow> (\<exists>k. n = Some k \<and> numeric_fact f s < k)"
| "rule_meaning OpLe f vs n s \<longleftrightarrow> (\<exists>k. n = Some k \<and> numeric_fact f s \<le> k)"
| "rule_meaning OpGt f vs n s \<longleftrightarrow> (\<exists>k. n = Some k \<and> numeric_fact f s > k)"
| "rule_meaning OpGe f vs n s \<longleftrightarrow> (\<exists>k. n = Some k \<and> numeric_fact f s \<ge> k)"
| "rule_meaning (OtherOperator x) f vs n s \<longleftrightarrow> False"

definition rule_of_spec :: "WorkflowRule \<Rightarrow> Rule" where
  "rule_of_spec r = \<lparr>ru_Task = wr_Task r, ru_Field = wr_Field r, ru_Operator = wr_Operator r,
     ru_Values = wr_Values r, ru_Number = wr_Number r\<rparr>"

definition cond_of_spec :: "WorkflowConditionSpec \<Rightarrow> Cond" where
  "cond_of_spec c = \<lparr>co_Type = wc_Type c, co_Rules = map rule_of_spec (wc_Rules c)\<rparr>"

lemma go_contains_iff [simp]: "go_contains vs w \<longleftrightarrow> w \<in> set vs"
  by (induction vs) auto

lemmas operator_classes =
  isStringOperator_def isNumericOperator_def is_numeric_op_def is_string_op_def

text \<open>A rule the CR validation accepts is decided, not refused, once its task has a state.\<close>

lemma evaluateRule_valid:
  assumes "validate_rule r deps = Inr ()" and "states (wr_Task r) = Some s"
  shows "evaluateRule (rule_of_spec r) states =
    Inr (rule_meaning (wr_Operator r) (wr_Field r) (wr_Values r) (wr_Number r) s)"
proof (cases "is_numeric_op (wr_Operator r)")
  case True
  with assms show ?thesis
    by (cases "wr_Operator r"; cases "wr_Field r")
       (auto simp: validate_rule_def evaluateRule_def rule_of_spec_def operator_classes
             split: if_splits)
next
  case False
  with assms show ?thesis
    by (cases "wr_Operator r"; cases "wr_Values r")
       (auto simp: validate_rule_def evaluateRule_def rule_of_spec_def operator_classes Let_def
             split: if_splits)
qed

lemma validate_rule_task: "validate_rule r deps = Inr () \<Longrightarrow> wr_Task r \<in> set deps"
  by (auto simp: validate_rule_def split: if_splits)

lemma validate_rule_state:
  assumes "validate_rule r deps = Inr ()" and "set deps \<subseteq> dom states"
  obtains s where "states (wr_Task r) = Some s"
  using validate_rule_task [OF assms(1)] assms(2) by blast

lemma validate_rules_all: "validate_rules rs deps = Inr () \<longleftrightarrow> (\<forall>r \<in> set rs. validate_rule r deps = Inr ())"
  by (induction rs) (auto simp: rbind_def split: sum.splits)

definition rule_holds :: "(string \<rightharpoonup> StepState) \<Rightarrow> WorkflowRule \<Rightarrow> bool" where
  "rule_holds states r =
     (case states (wr_Task r) of None \<Rightarrow> False
      | Some s \<Rightarrow> rule_meaning (wr_Operator r) (wr_Field r) (wr_Values r) (wr_Number r) s)"

lemma evaluate_valid:
  assumes "\<forall>r \<in> set rs. validate_rule r deps = Inr ()" and "set deps \<subseteq> dom states"
  shows "evaluate_all (map rule_of_spec rs) states = Inr (\<forall>r \<in> set rs. rule_holds states r)"
    and "evaluate_any (map rule_of_spec rs) states = Inr (\<exists>r \<in> set rs. rule_holds states r)"
  using assms(1)
proof (induction rs)
  case (Cons r rs)
  {
    case 1
    then have "validate_rule r deps = Inr ()" by simp
    then obtain s where s: "states (wr_Task r) = Some s"
      using assms(2) by (rule validate_rule_state)
    with 1 Cons.IH show ?case by (auto simp: evaluateRule_valid rule_holds_def)
  next
    case 2
    then have "validate_rule r deps = Inr ()" by simp
    then obtain s where s: "states (wr_Task r) = Some s"
      using assms(2) by (rule validate_rule_state)
    with 2 Cons.IH show ?case by (auto simp: evaluateRule_valid rule_holds_def)
  }
qed simp_all

subsection \<open>What the roll-up means\<close>

definition task_unknown :: "(string \<rightharpoonup> StepState) \<Rightarrow> string \<Rightarrow> bool" where
  "task_unknown steps t \<longleftrightarrow> (\<exists>s. steps t = Some s \<and> ss_Phase s = CancelUnknown)"

definition task_failed :: "(string \<rightharpoonup> StepState) \<Rightarrow> string \<Rightarrow> bool" where
  "task_failed steps t \<longleftrightarrow> (\<exists>s. steps t = Some s \<and> ss_Phase s = Failed)"

definition task_accounted ::
  "(string \<rightharpoonup> StepState) \<Rightarrow> (string \<rightharpoonup> TaskDecision) \<Rightarrow> string \<Rightarrow> bool" where
  "task_accounted steps decisions t \<longleftrightarrow>
     steps t \<noteq> None \<or> (\<exists>d. decisions t = Some d \<and> td_Skipped d)"

definition task_canceled ::
  "(string \<rightharpoonup> StepState) \<Rightarrow> (string \<rightharpoonup> TaskDecision) \<Rightarrow> string \<Rightarrow> bool" where
  "task_canceled steps decisions t \<longleftrightarrow>
     (case steps t of Some s \<Rightarrow> ss_Phase s = Canceled
      | None \<Rightarrow> (\<exists>d. decisions t = Some d \<and> td_Skipped d \<and> td_Reason d = ReasonCanceled))"

lemmas task_facts = task_unknown_def task_failed_def task_accounted_def task_canceled_def

lemma derive_loop_flags:
  "df_unknown (derive_loop ts steps ds f) = (df_unknown f \<or> (\<exists>t \<in> set ts. task_unknown steps t))"
  "df_failed (derive_loop ts steps ds f) = (df_failed f \<or> (\<exists>t \<in> set ts. task_failed steps t))"
  "df_canceled (derive_loop ts steps ds f) = (df_canceled f \<or> (\<exists>t \<in> set ts. task_canceled steps ds t))"
  "df_accounted (derive_loop ts steps ds f) = (df_accounted f \<and> (\<forall>t \<in> set ts. task_accounted steps ds t))"
  by (induction ts arbitrary: f) (auto simp: task_facts split: option.splits phase.splits)

lemma DerivePhase_eq:
  "DerivePhase ts steps ds =
     (if \<exists>t \<in> set ts. task_unknown steps t then (PhaseCancelUnknown, False)
      else if \<exists>t \<in> set ts. \<not> task_accounted steps ds t then (PhaseRunning, False)
      else if \<exists>t \<in> set ts. task_failed steps t then (PhaseFailed, True)
      else if \<exists>t \<in> set ts. task_canceled steps ds t then (PhaseCanceled, True)
      else (PhaseSucceeded, True))"
  by (simp add: DerivePhase_def derive_loop_flags Let_def)

lemma DerivePhase_terminal: "snd (DerivePhase ts steps ds) = WTerminal (fst (DerivePhase ts steps ds))"
  by (simp add: DerivePhase_eq WTerminal_def)

end
