(* ===== verification/Revision_Domain.thy ===== *)
theory Revision_Domain
  imports Workload_Types
begin

section \<open>Definition revisions and occurrence keys\<close>

text \<open>
  \<open>internal/core/domain/revision/types.go\<close> and
  \<open>internal/core/domain/coordination/coordination.go\<close>. The hexadecimal SHA-256 digest is the
  parameter \<open>sha\<close>, the RFC 3339 rendering of an instant the parameter \<open>rfc\<close>.
\<close>

record Identity =
  id_SourceMode :: string
  id_SourceUID :: string
  id_Namespace :: string
  id_Name :: string

record Revision =
  rev_ID :: int
  rev_Identity :: Identity
  rev_Generation :: int
  rev_SpecHash :: string
  rev_NormalizedSpec :: string
  rev_CreatedAt :: time
  rev_Actor :: string
  rev_ResourceGroupID :: string

definition Revision_New ::
    "(string \<Rightarrow> string) \<Rightarrow> Identity \<Rightarrow> int \<Rightarrow> string \<Rightarrow> string \<Rightarrow> string \<Rightarrow> time \<Rightarrow> Revision result" where
  "Revision_New sha identity generation normalizedSpec actor resourceGroupID now =
     (if id_SourceMode identity = '''' \<or> id_SourceUID identity = ''''
         \<or> id_Namespace identity = '''' \<or> id_Name identity = '''' then Inl ErrInvalidIdentity
      else if generation \<le> 0 \<or> TrimSpace normalizedSpec = '''' then Inl ErrInvalidInput
      else if time_IsZero now then Inl ErrInvalidInput
      else Inr \<lparr>rev_ID = 0, rev_Identity = identity, rev_Generation = generation,
                rev_SpecHash = sha normalizedSpec, rev_NormalizedSpec = normalizedSpec,
                rev_CreatedAt = now, rev_Actor = actor,
                rev_ResourceGroupID = TrimSpace resourceGroupID\<rparr>)"

definition IsImmutableComparedTo :: "Revision \<Rightarrow> Revision \<Rightarrow> bool" where
  "IsImmutableComparedTo r other \<longleftrightarrow>
     rev_Identity r = rev_Identity other \<and> rev_Generation r = rev_Generation other
     \<and> rev_SpecHash r = rev_SpecHash other \<and> rev_NormalizedSpec r = rev_NormalizedSpec other"

text \<open>The text an occurrence key digests.\<close>

definition occurrence_text :: "(time \<Rightarrow> string) \<Rightarrow> string \<Rightarrow> int \<Rightarrow> time \<Rightarrow> string" where
  "occurrence_text rfc sourceUID revisionID scheduledAt = sourceUID @ '':'' @ itoa revisionID @ '':'' @ rfc scheduledAt"

definition OccurrenceKey ::
    "(string \<Rightarrow> string) \<Rightarrow> (time \<Rightarrow> string) \<Rightarrow> string \<Rightarrow> int \<Rightarrow> time \<Rightarrow> string" where
  "OccurrenceKey sha rfc sourceUID revisionID scheduledAt =
     sha (occurrence_text rfc sourceUID revisionID scheduledAt)"

lemma Revision_New_ok:
  assumes "Revision_New sha i g spec actor grp now = Inr r"
  shows "rev_Identity r = i" "rev_Generation r = g" "0 < g" "rev_SpecHash r = sha spec"
    "rev_NormalizedSpec r = spec" "rev_Actor r = actor" "id_SourceMode i \<noteq> ''''" "id_SourceUID i \<noteq> ''''"
  using assms by (auto simp: Revision_New_def split: if_splits)

text \<open>
  Two occurrences of one definition share a key only when they are the same revision at the
  same instant: the decimal revision id cannot contain the separator that ends it.
\<close>

lemma itoa_no_colon: "CHR '':'' \<notin> set (itoa i)"
proof -
  have "\<not> is_digit (CHR '':'')" by (simp add: is_digit_def)
  then have "CHR '':'' \<notin> set (nat_digits n)" for n
    using nat_digits_digits [of n] by (auto simp: list_all_iff)
  then show ?thesis by (auto simp: itoa_def)
qed

lemma sep_prefix_inject:
  assumes "us @ c # xs = vs @ c # ys" and "c \<notin> set us" and "c \<notin> set vs"
  shows "us = vs \<and> xs = ys"
  using assms by (auto simp: append_eq_append_conv2 append_eq_Cons_conv Cons_eq_append_conv)

lemma OccurrenceKey_inject:
  assumes "inj_on sha texts" and "{occurrence_text rfc uid r t, occurrence_text rfc uid r' t'} \<subseteq> texts"
    and "rfc t = rfc t' \<longleftrightarrow> t = t'"
    and "OccurrenceKey sha rfc uid r t = OccurrenceKey sha rfc uid r' t'"
  shows "r = r' \<and> t = t'"
proof -
  from assms(1,2,4) have "itoa r @ CHR '':'' # rfc t = itoa r' @ CHR '':'' # rfc t'"
    by (auto simp: OccurrenceKey_def occurrence_text_def dest!: inj_onD)
  from sep_prefix_inject [OF this itoa_no_colon itoa_no_colon] have "itoa r = itoa r'" "rfc t = rfc t'"
    by auto
  with assms(3) show ?thesis by auto
qed

end
