(* ===== verification/Ledger.thy ===== *)
theory Ledger
  imports Workflow_Domain Revision_Domain "HOL-Library.Char_ord" "HOL-Library.List_Lexorder"
begin

section \<open>The run ledger\<close>

text \<open>
  The control-plane tables and every operation of
  \<open>internal/core/store/postgres/control_plane_repository.go\<close> and \<open>tenant_transaction.go\<close>.
  A table is a list of rows in insertion order, a SQL statement a function on the ledger with
  the statement's own predicates, and a repository method the transaction that runs its
  statements: an error rolls back, so the ledger is the one before the call.

  From the schema the model takes the unique constraints, the foreign keys with their delete
  actions, and the \<open>CHECK\<close>s on generations and attempt counters. A row-level-security policy is
  the tenant predicate every statement also carries; where a conflicting row belongs to
  another tenant, an \<open>ON CONFLICT DO UPDATE\<close> is refused. Column widths, collations, the
  sub-microsecond part of an instant and gaps in a sequence are not represented.
  \<open>lg_clock\<close> is the database's \<open>now()\<close>; the argument \<open>now\<close> is the repository's own clock, and
  \<open>jsonb\<close> the text PostgreSQL renders a JSON document to, \<open>None\<close> for invalid JSON.
\<close>

subsection \<open>Tables\<close>

record RevisionRow =
  vr_tenant :: string
  vr_rev :: Revision
  vr_active :: bool

record RunRow =
  rn_id :: int
  rn_tenant :: string
  rn_source_uid :: string
  rn_revision_id :: int
  rn_occurrence_key :: string
  rn_trigger :: trigger
  rn_actor :: string
  rn_phase :: phase
  rn_attempt :: int
  rn_max_attempts :: int
  rn_scheduled_for :: "time option"
  rn_group :: "string option"
  rn_workflow :: "int option"
  rn_created_at :: time
  rn_updated_at :: time

record AttemptRow =
  ta_id :: int
  ta_tenant :: string
  ta_run :: int
  ta_number :: int
  ta_phase :: phase
  ta_job_name :: string
  ta_job_uid :: string
  ta_resource_version :: string
  ta_started_at :: "time option"
  ta_completed_at :: "time option"

datatype jval = JStr string | JInt int | JBool bool

record AuditRow =
  au_tenant :: string
  au_actor :: "string option"
  au_event :: string
  au_resource :: string
  au_resource_id :: string
  au_diff :: "(string \<times> jval) list"

record ledger =
  lg_tenants :: "string list"
  lg_revisions :: "RevisionRow list"
  lg_runs :: "RunRow list"
  lg_attempts :: "AttemptRow list"
  lg_wruns :: "Run list"
  lg_audit :: "AuditRow list"
  lg_rev_seq :: int
  lg_run_seq :: int
  lg_att_seq :: int
  lg_wrun_seq :: int
  lg_clock :: time

subsection \<open>Transactions, actors and audit rows\<close>

definition WithTenant :: "string \<Rightarrow> (ledger, unit) io" where
  "WithTenant tenantID =
     (if tenantID = '''' then io_fail (Errorf ''tenant id is required'') else io_return ())"

text \<open>
  The transaction on every connection, and the transaction on a connection that neither refuses it nor loses the answer to its
  commit. The operations below are written with the second; the first is what a process sees of them, since the world of a
  process puts the fault around each call (\<open>store_call\<close>, \<open>tenant_transaction_call\<close>).
\<close>

definition tenant_transaction :: "fault \<Rightarrow> string \<Rightarrow> (ledger, 'a) io \<Rightarrow> (ledger, 'a) io" where
  "tenant_transaction f tenantID fn = (\<lambda>l.
     if f = FailBefore then (Inl (DbError ''connection''), l)
     else case io_bind (WithTenant tenantID) (\<lambda>_. fn) l of
         (Inl e, _) \<Rightarrow> (Inl e, l)
       | (Inr a, l') \<Rightarrow> if f = FailAfter then (Inl (DbError ''connection''), l') else (Inr a, l'))"

definition WithTenantTransaction :: "string \<Rightarrow> (ledger, 'a) io \<Rightarrow> (ledger, 'a) io" where
  "WithTenantTransaction = tenant_transaction NoFault"

lemma WithTenantTransaction_eq:
  "WithTenantTransaction tenantID fn = (\<lambda>l.
     case io_bind (WithTenant tenantID) (\<lambda>_. fn) l of
       (Inl e, _) \<Rightarrow> (Inl e, l)
     | (Inr a, l') \<Rightarrow> (Inr a, l'))"
  by (rule ext) (simp add: WithTenantTransaction_def tenant_transaction_def split: prod.split sum.split)

lemma tenant_transaction_call: "call_with f (WithTenantTransaction t fn) = tenant_transaction f t fn"
proof -
  have "tenant_transaction g t fn = sql_tx g (io_bind (WithTenant t) (\<lambda>_. fn))" for g
    by (rule ext) (simp add: tenant_transaction_def sql_tx_def)
  then show ?thesis by (simp add: WithTenantTransaction_def call_with_sql_tx)
qed

definition maxActorLength :: nat where "maxActorLength = 64"

definition validateActor :: "string \<Rightarrow> unit result" where
  "validateActor actor =
     (if TrimSpace actor = '''' then Inl (Errorf ''actor is required'')
      else if rune_count actor > maxActorLength then Inl (Errorf ''actor is too long'')
      else Inr ())"

definition io_get :: "(ledger \<Rightarrow> 'a) \<Rightarrow> (ledger, 'a) io" where
  "io_get f = (\<lambda>l. (Inr (f l), l))"

definition insertControlPlaneAudit ::
    "string \<Rightarrow> string \<Rightarrow> string \<Rightarrow> string \<Rightarrow> string \<Rightarrow> (string \<times> jval) list \<Rightarrow> (ledger, unit) io" where
  "insertControlPlaneAudit tenantID actor eventType resourceType resourceID diff = (\<lambda>l.
     if tenantID \<notin> set (lg_tenants l)
       then (Inl (Wrapf ''insert audit event'' (DbError ''foreign key'')), l)
     else (Inr (), l\<lparr>lg_audit := lg_audit l @
       [\<lparr>au_tenant = tenantID, au_actor = (if actor = '''' then None else Some actor),
         au_event = eventType, au_resource = resourceType, au_resource_id = resourceID,
         au_diff = diff\<rparr>]\<rparr>))"

definition auditEventRevisionProjected :: string where
  "auditEventRevisionProjected = ''definition_revision.projected''"
definition auditEventRunCreated :: string where "auditEventRunCreated = ''job_run.created''"
definition auditEventRunStatusChanged :: string where
  "auditEventRunStatusChanged = ''job_run.status_changed''"
definition auditEventRunPruned :: string where "auditEventRunPruned = ''job_run.pruned''"
definition auditEventAttemptCreated :: string where
  "auditEventAttemptCreated = ''job_run_attempt.created''"
definition auditEventAttemptStatusChanged :: string where
  "auditEventAttemptStatusChanged = ''job_run_attempt.status_changed''"
definition auditResourceRevision :: string where
  "auditResourceRevision = ''job_definition_revision''"
definition auditResourceRun :: string where "auditResourceRun = ''job_run''"
definition auditResourceAttempt :: string where "auditResourceAttempt = ''job_run_attempt''"

definition terminalPhases :: "phase list" where
  "terminalPhases = [Succeeded, Failed, Canceled]"

definition retentionPhases :: "phase list" where
  "retentionPhases = terminalPhases @ [CancelUnknown]"

subsection \<open>Definition revisions\<close>

definition same_identity :: "string \<Rightarrow> string \<Rightarrow> RevisionRow \<Rightarrow> bool" where
  "same_identity mode uid row \<longleftrightarrow>
     id_SourceMode (rev_Identity (vr_rev row)) = mode \<and> id_SourceUID (rev_Identity (vr_rev row)) = uid"

definition applyRevisionSQL ::
    "(string \<Rightarrow> string option) \<Rightarrow> string \<Rightarrow> Revision \<Rightarrow> (ledger, int option) io" where
  "applyRevisionSQL jsonb tenantID rv = (\<lambda>l.
     case jsonb (rev_NormalizedSpec rv) of
       None \<Rightarrow> (Inl (DbError ''invalid input syntax for type json''), l)
     | Some text \<Rightarrow>
         if rev_Generation rv \<le> 0 then (Inl (DbError ''check constraint''), l)
         else if \<exists>row \<in> set (lg_revisions l).
             same_identity (id_SourceMode (rev_Identity rv)) (id_SourceUID (rev_Identity rv)) row
             \<and> rev_Generation (vr_rev row) = rev_Generation rv
           then (Inr None, l)
         else if tenantID \<notin> set (lg_tenants l) then (Inl (DbError ''foreign key''), l)
         else (Inr (Some (lg_rev_seq l)),
               l\<lparr>lg_revisions := lg_revisions l @
                    [\<lparr>vr_tenant = tenantID,
                      vr_rev = rv\<lparr>rev_ID := lg_rev_seq l, rev_NormalizedSpec := text,
                                   rev_CreatedAt := lg_clock l\<rparr>,
                      vr_active = False\<rparr>],
                 lg_rev_seq := lg_rev_seq l + 1\<rparr>))"

definition selectRevisionIdentitySQL ::
    "string \<Rightarrow> string \<Rightarrow> int \<Rightarrow> string \<Rightarrow> ledger \<Rightarrow> (int \<times> string) option" where
  "selectRevisionIdentitySQL mode uid generation tenantID l =
     map_option (\<lambda>row. (rev_ID (vr_rev row), rev_SpecHash (vr_rev row)))
       (find (\<lambda>row. same_identity mode uid row \<and> rev_Generation (vr_rev row) = generation
                    \<and> vr_tenant row = tenantID) (lg_revisions l))"

definition deactivateRevisionsSQL ::
    "string \<Rightarrow> string \<Rightarrow> string \<Rightarrow> int \<Rightarrow> (ledger, nat) io" where
  "deactivateRevisionsSQL mode uid tenantID i = (\<lambda>l.
     let hit = (\<lambda>row. same_identity mode uid row \<and> vr_tenant row = tenantID \<and> vr_active row
                      \<and> rev_ID (vr_rev row) \<noteq> i)
     in (Inr (length (filter hit (lg_revisions l))),
         l\<lparr>lg_revisions := map (\<lambda>row. if hit row then row\<lparr>vr_active := False\<rparr> else row)
                              (lg_revisions l)\<rparr>))"

text \<open>The partial unique index refuses a second active row of the identity, whoever owns it.\<close>

definition activateRevisionSQL :: "int \<Rightarrow> string \<Rightarrow> (ledger, nat) io" where
  "activateRevisionSQL i tenantID = (\<lambda>l.
     let hit = (\<lambda>row. rev_ID (vr_rev row) = i \<and> vr_tenant row = tenantID \<and> \<not> vr_active row)
     in if \<exists>row \<in> set (lg_revisions l). hit row \<and>
            (\<exists>other \<in> set (lg_revisions l). vr_active other \<and>
               same_identity (id_SourceMode (rev_Identity (vr_rev row)))
                 (id_SourceUID (rev_Identity (vr_rev row))) other)
        then (Inl (DbError ''unique constraint''), l)
        else (Inr (length (filter hit (lg_revisions l))),
              l\<lparr>lg_revisions := map (\<lambda>row. if hit row then row\<lparr>vr_active := True\<rparr> else row)
                                   (lg_revisions l)\<rparr>))"

text \<open>Insert the generation, or read it back and refuse a different hash.\<close>

definition project_generation ::
    "(string \<Rightarrow> string option) \<Rightarrow> string \<Rightarrow> Revision \<Rightarrow> (ledger, int \<times> bool) io" where
  "project_generation jsonb tenantID rv =
     io_bind (applyRevisionSQL jsonb tenantID rv) (\<lambda>inserted.
       case inserted of
         Some i \<Rightarrow> io_return (i, True)
       | None \<Rightarrow>
           io_bind (io_get (selectRevisionIdentitySQL (id_SourceMode (rev_Identity rv))
               (id_SourceUID (rev_Identity rv)) (rev_Generation rv) tenantID)) (\<lambda>found.
           case found of
             None \<Rightarrow> io_fail (Wrapf ''read projected revision'' (DbError ''no rows''))
           | Some (i, storedHash) \<Rightarrow>
               if storedHash \<noteq> rev_SpecHash rv then io_fail ErrRevisionConflict
               else io_return (i, False)))"

definition ApplyRevisionForTenant ::
    "(string \<Rightarrow> string option) \<Rightarrow> string \<Rightarrow> Revision \<Rightarrow> (ledger, int) io" where
  "ApplyRevisionForTenant jsonb tenantID rv =
     (let mode = id_SourceMode (rev_Identity rv); uid = id_SourceUID (rev_Identity rv) in
      if mode = [] \<or> uid = [] then io_fail (Errorf ''revision identity is required'')
      else io_bind (io_lift (validateActor (rev_Actor rv))) (\<lambda>_.
        WithTenantTransaction tenantID
          (io_bind (project_generation jsonb tenantID rv) (\<lambda>(i, created).
           io_bind (deactivateRevisionsSQL mode uid tenantID i) (\<lambda>previousActive.
           io_bind (activateRevisionSQL i tenantID) (\<lambda>currentActive.
           if \<not> created \<and> previousActive = 0 \<and> currentActive = 0 then io_return i
           else io_bind (insertControlPlaneAudit tenantID (rev_Actor rv) auditEventRevisionProjected
                  auditResourceRevision (itoa i)
                  [(''source_uid'', JStr uid), (''generation'', JInt (rev_Generation rv)),
                   (''spec_hash'', JStr (rev_SpecHash rv)), (''revision_created'', JBool created)])
                (\<lambda>_. io_return i)))))))"

text \<open>The columns a revision is read with: the resource group is not among them.\<close>

definition scanRevision :: "RevisionRow \<Rightarrow> Revision" where
  "scanRevision row = (vr_rev row)\<lparr>rev_ResourceGroupID := ''''\<rparr>"

definition RevisionByID :: "string \<Rightarrow> int \<Rightarrow> (ledger, Revision) io" where
  "RevisionByID tenantID i = WithTenantTransaction tenantID
     (io_bind (io_get (\<lambda>l. find (\<lambda>row. rev_ID (vr_rev row) = i \<and> vr_tenant row = tenantID)
                            (lg_revisions l)))
        (\<lambda>found. case found of
            None \<Rightarrow> io_fail (NotFoundError ''job_definition_revision'')
          | Some row \<Rightarrow> io_return (scanRevision row)))"

definition sourceModeKubernetes :: string where "sourceModeKubernetes = ''kubernetes''"
definition SourceModeCheck :: string where "SourceModeCheck = ''check''"
definition SourceModeFunction :: string where "SourceModeFunction = ''function''"
definition SourceModeWorkflow :: string where "SourceModeWorkflow = ''workflow''"

definition ActiveRevision :: "string \<Rightarrow> string \<Rightarrow> (ledger, Revision) io" where
  "ActiveRevision tenantID sourceUID = WithTenantTransaction tenantID
     (io_bind (io_get (\<lambda>l. find (\<lambda>row. same_identity sourceModeKubernetes sourceUID row
                            \<and> vr_tenant row = tenantID \<and> vr_active row) (lg_revisions l)))
        (\<lambda>found. case found of
            None \<Rightarrow> io_fail (NotFoundError ''job_definition_revision'')
          | Some row \<Rightarrow> io_return (scanRevision row)))"

definition ActiveFunctionRevision :: "string \<Rightarrow> string \<Rightarrow> (ledger, int \<times> string) io" where
  "ActiveFunctionRevision tenantID sourceUID = WithTenantTransaction tenantID
     (io_bind (io_get (\<lambda>l. find (\<lambda>row. same_identity SourceModeFunction sourceUID row
                            \<and> vr_tenant row = tenantID \<and> vr_active row) (lg_revisions l)))
        (\<lambda>found. case found of
            None \<Rightarrow> io_fail (NotFoundError ''function_definition_revision'')
          | Some row \<Rightarrow> io_return (rev_ID (vr_rev row), id_Namespace (rev_Identity (vr_rev row)))))"

definition revisionSourceModes :: "string list" where
  "revisionSourceModes = [sourceModeKubernetes, SourceModeCheck]"

definition scanRevisions :: "RevisionRow list \<Rightarrow> Revision list" where
  "scanRevisions rows = sort_key (\<lambda>rv. id_SourceUID (rev_Identity rv)) (map scanRevision rows)"

definition ActiveRevisions :: "string \<Rightarrow> (ledger, Revision list) io" where
  "ActiveRevisions tenantID = WithTenantTransaction tenantID
     (io_get (\<lambda>l. scanRevisions (filter (\<lambda>row. vr_active row \<and> vr_tenant row = tenantID
        \<and> id_SourceMode (rev_Identity (vr_rev row)) \<in> set revisionSourceModes) (lg_revisions l))))"

definition ActiveWorkflowRevisions :: "string \<Rightarrow> (ledger, Revision list) io" where
  "ActiveWorkflowRevisions tenantID = WithTenantTransaction tenantID
     (io_get (\<lambda>l. scanRevisions (filter (\<lambda>row. vr_active row \<and> vr_tenant row = tenantID
        \<and> id_SourceMode (rev_Identity (vr_rev row)) = SourceModeWorkflow) (lg_revisions l))))"

subsection \<open>Runs\<close>

definition insertOccurrenceSQL ::
    "string \<Rightarrow> string \<Rightarrow> int \<Rightarrow> string \<Rightarrow> trigger \<Rightarrow> string \<Rightarrow> phase \<Rightarrow> int \<Rightarrow> time option \<Rightarrow> int option
     \<Rightarrow> (ledger, int option) io" where
  "insertOccurrenceSQL tenantID sourceUID revisionID key trig actor ph maxAttempts sched wfid = (\<lambda>l.
     if \<exists>row \<in> set (lg_runs l). rn_source_uid row = sourceUID \<and> rn_occurrence_key row = key
       then (Inr None, l)
     else if tenantID \<notin> set (lg_tenants l)
         \<or> revisionID \<notin> (\<lambda>row. rev_ID (vr_rev row)) ` set (lg_revisions l)
         \<or> (case wfid of None \<Rightarrow> False | Some w \<Rightarrow> w \<notin> wf_ID ` set (lg_wruns l))
       then (Inl (DbError ''foreign key''), l)
     else (Inr (Some (lg_run_seq l)),
           l\<lparr>lg_runs := lg_runs l @
                [\<lparr>rn_id = lg_run_seq l, rn_tenant = tenantID, rn_source_uid = sourceUID,
                  rn_revision_id = revisionID, rn_occurrence_key = key, rn_trigger = trig,
                  rn_actor = actor, rn_phase = ph, rn_attempt = 0, rn_max_attempts = maxAttempts,
                  rn_scheduled_for = sched,
                  rn_group =
                    (case find (\<lambda>row. rev_ID (vr_rev row) = revisionID \<and> vr_tenant row = tenantID)
                            (lg_revisions l) of
                       None \<Rightarrow> None
                     | Some row \<Rightarrow> (if rev_ResourceGroupID (vr_rev row) = '''' then None
                                    else Some (rev_ResourceGroupID (vr_rev row)))),
                  rn_workflow = wfid, rn_created_at = lg_clock l, rn_updated_at = lg_clock l\<rparr>],
             lg_run_seq := lg_run_seq l + 1\<rparr>))"

definition null_time :: "time option \<Rightarrow> time" where
  "null_time t = (case t of None \<Rightarrow> 0 | Some t \<Rightarrow> t)"

definition scanStoredRun :: "string \<Rightarrow> string \<Rightarrow> string \<Rightarrow> ledger \<Rightarrow> StoredRun option" where
  "scanStoredRun tenantID sourceUID key l =
     map_option (\<lambda>row. StoredRun_zero\<lparr>sr_ID := rn_id row, sr_RevisionID := rn_revision_id row,
         sr_Phase := rn_phase row, sr_Attempt := rn_attempt row,
         sr_MaxAttempts := rn_max_attempts row,
         sr_ScheduledFor := null_time (rn_scheduled_for row)\<rparr>)
       (find (\<lambda>row. rn_source_uid row = sourceUID \<and> rn_occurrence_key row = key
                    \<and> rn_tenant row = tenantID) (lg_runs l))"

definition CreateOccurrenceForTenant ::
    "string \<Rightarrow> JobRun \<Rightarrow> int \<Rightarrow> string \<Rightarrow> (ledger, StoredRun \<times> bool) io" where
  "CreateOccurrenceForTenant tenantID run maxAttempts actor =
     (if jr_SourceUID run = '''' \<or> jr_OccurrenceKey run = ''''
        then io_fail (Errorf ''run identity is required'')
      else if jr_Phase run \<noteq> OtherPhase '''' \<and> jr_Phase run \<noteq> Pending
        then io_fail (Errorf ''a run is created in Pending'')
      else io_bind (io_lift (validateActor actor)) (\<lambda>_.
        io_bind (io_lift (wrap_result ''revision id is not an id'' (parse_int64 (jr_RevisionID run)))) (\<lambda>revisionID.
        let maxAttempts = (if maxAttempts < 1 then 1 else maxAttempts);
            scheduledFor = (if time_IsZero (jr_ScheduledFor run) then None else Some (jr_ScheduledFor run))
        in WithTenantTransaction tenantID
          (io_bind (insertOccurrenceSQL tenantID (jr_SourceUID run) revisionID (jr_OccurrenceKey run)
              (jr_Trigger run) actor Pending maxAttempts scheduledFor None) (\<lambda>inserted.
           io_bind (io_get (scanStoredRun tenantID (jr_SourceUID run) (jr_OccurrenceKey run))) (\<lambda>found.
           case found of
             None \<Rightarrow> io_fail (Wrapf ''read occurrence'' (DbError ''no rows''))
           | Some stored \<Rightarrow>
               if inserted = None then io_return (stored, False)
               else io_bind (insertControlPlaneAudit tenantID actor auditEventRunCreated
                      auditResourceRun (itoa (sr_ID stored))
                      [(''source_uid'', JStr (jr_SourceUID run)), (''revision_id'', JInt revisionID),
                       (''occurrence_key'', JStr (jr_OccurrenceKey run)),
                       (''trigger'', JStr (trigger_string (jr_Trigger run)))])
                    (\<lambda>_. io_return (stored, True))))))))"

definition RunByOccurrence :: "string \<Rightarrow> string \<Rightarrow> string \<Rightarrow> (ledger, StoredRun option) io" where
  "RunByOccurrence tenantID sourceUID key =
     WithTenantTransaction tenantID (io_get (scanStoredRun tenantID sourceUID key))"

definition run_by_id :: "string \<Rightarrow> int \<Rightarrow> ledger \<Rightarrow> RunRow option" where
  "run_by_id tenantID i l = find (\<lambda>row. rn_id row = i \<and> rn_tenant row = tenantID) (lg_runs l)"

text \<open>
  The guarded write returns the row as it was before the update, from which the phase, the
  attempt and the actor of the \<open>RETURNING\<close> clause are read.
\<close>

definition updateRunPhaseSQL ::
    "int \<Rightarrow> string \<Rightarrow> phase \<Rightarrow> int \<Rightarrow> time \<Rightarrow> (ledger, RunRow option) io" where
  "updateRunPhaseSQL runID tenantID ph attempt now = (\<lambda>l.
     let hit = (\<lambda>row. rn_id row = runID \<and> rn_tenant row = tenantID
                 \<and> (rn_phase row \<noteq> ph \<or> rn_attempt row \<noteq> attempt)
                 \<and> rn_phase row \<notin> set terminalPhases)
     in if attempt < 0 \<and> (\<exists>row \<in> set (lg_runs l). hit row)
          then (Inl (DbError ''check constraint''), l)
        else (Inr (find hit (lg_runs l)),
              l\<lparr>lg_runs := map (\<lambda>row. if hit row
                  then row\<lparr>rn_phase := ph, rn_attempt := attempt, rn_updated_at := now\<rparr>
                  else row) (lg_runs l)\<rparr>))"

definition UpdateRunPhase :: "time \<Rightarrow> string \<Rightarrow> int \<Rightarrow> phase \<Rightarrow> int \<Rightarrow> (ledger, bool) io" where
  "UpdateRunPhase now tenantID runID ph attempt = WithTenantTransaction tenantID
     (io_bind (updateRunPhaseSQL runID tenantID ph attempt now) (\<lambda>written.
      case written of
        Some prior \<Rightarrow>
          io_bind (insertControlPlaneAudit tenantID (rn_actor prior) auditEventRunStatusChanged
             auditResourceRun (itoa runID)
             [(''from_phase'', JStr (phase_string (rn_phase prior))),
              (''to_phase'', JStr (phase_string ph)),
              (''from_attempt'', JInt (rn_attempt prior)), (''to_attempt'', JInt attempt)])
            (\<lambda>_. io_return (rn_phase prior \<noteq> ph))
      | None \<Rightarrow>
          io_bind (io_get (run_by_id tenantID runID)) (\<lambda>current.
          case current of
            None \<Rightarrow> io_fail (NotFoundError ''job_run'')
          | Some row \<Rightarrow>
              if rn_phase row = ph \<and> rn_attempt row = attempt then io_return False
              else if Terminal (rn_phase row) then io_fail ErrRunTerminal
              else io_fail (Errorf ''run phase write matched no row''))))"

definition open_rows :: "string \<Rightarrow> string \<Rightarrow> ledger \<Rightarrow> RunRow list" where
  "open_rows tenantID sourceUID l =
     filter (\<lambda>row. rn_tenant row = tenantID \<and> rn_source_uid row = sourceUID
                   \<and> rn_phase row \<notin> set terminalPhases) (lg_runs l)"

definition CountOpenRuns :: "string \<Rightarrow> string \<Rightarrow> (ledger, nat) io" where
  "CountOpenRuns tenantID sourceUID =
     WithTenantTransaction tenantID (io_get (\<lambda>l. length (open_rows tenantID sourceUID l)))"

definition OpenRuns :: "string \<Rightarrow> string \<Rightarrow> (ledger, OpenRun list) io" where
  "OpenRuns tenantID sourceUID = WithTenantTransaction tenantID
     (io_get (\<lambda>l. map (\<lambda>row. \<lparr>or_ID = rn_id row, or_RevisionID = rn_revision_id row,
          or_OccurrenceKey = rn_occurrence_key row, or_Phase = rn_phase row,
          or_ScheduledFor = null_time (rn_scheduled_for row)\<rparr>)
        (sort_key rn_id (open_rows tenantID sourceUID l))))"

text \<open>\<open>row_number() OVER (PARTITION BY phase ORDER BY created_at DESC, id DESC)\<close>.\<close>

definition retention_rank :: "RunRow list \<Rightarrow> RunRow \<Rightarrow> nat" where
  "retention_rank rows row = 1 + length (filter (\<lambda>other. rn_phase other = rn_phase row \<and>
     (rn_created_at row < rn_created_at other
      \<or> rn_created_at row = rn_created_at other \<and> rn_id row < rn_id other)) rows)"

definition prunable_rows :: "string \<Rightarrow> string \<Rightarrow> int \<Rightarrow> int \<Rightarrow> ledger \<Rightarrow> RunRow list" where
  "prunable_rows tenantID sourceUID keepSuccessful keepFailed l =
     (let eligible = filter (\<lambda>row. rn_tenant row = tenantID \<and> rn_source_uid row = sourceUID
             \<and> rn_phase row \<in> set retentionPhases \<and> rn_workflow row = None) (lg_runs l);
          keep = (\<lambda>row. if rn_phase row = Succeeded then keepSuccessful else keepFailed)
      in sort_key rn_id (filter (\<lambda>row. keep row < int (retention_rank eligible row)) eligible))"

definition PrunableRuns :: "string \<Rightarrow> string \<Rightarrow> int \<Rightarrow> int \<Rightarrow> (ledger, PrunableRun list) io" where
  "PrunableRuns tenantID sourceUID keepSuccessful keepFailed = WithTenantTransaction tenantID
     (io_get (\<lambda>l. map (\<lambda>row. \<lparr>pr_ID = rn_id row, pr_OccurrenceKey = rn_occurrence_key row,
                              pr_Phase = rn_phase row\<rparr>)
        (prunable_rows tenantID sourceUID (max 0 keepSuccessful) (max 0 keepFailed) l)))"

text \<open>Deleting a run takes its attempts with it.\<close>

definition delete_runs :: "(RunRow \<Rightarrow> bool) \<Rightarrow> ledger \<Rightarrow> ledger" where
  "delete_runs hit l =
     l\<lparr>lg_runs := filter (\<lambda>row. \<not> hit row) (lg_runs l),
       lg_attempts := filter (\<lambda>a. ta_run a \<notin> rn_id ` set (filter hit (lg_runs l))) (lg_attempts l)\<rparr>"

definition deleteRunSQL :: "int \<Rightarrow> string \<Rightarrow> (ledger, RunRow option) io" where
  "deleteRunSQL runID tenantID = (\<lambda>l.
     let hit = (\<lambda>row. rn_id row = runID \<and> rn_tenant row = tenantID
                      \<and> rn_phase row \<in> set terminalPhases \<and> rn_workflow row = None)
     in (Inr (find hit (lg_runs l)), delete_runs hit l))"

definition DeleteRun :: "string \<Rightarrow> int \<Rightarrow> (ledger, bool) io" where
  "DeleteRun tenantID runID = WithTenantTransaction tenantID
     (io_bind (deleteRunSQL runID tenantID) (\<lambda>gone.
      case gone of
        None \<Rightarrow> io_return False
      | Some row \<Rightarrow>
          io_bind (insertControlPlaneAudit tenantID (rn_actor row) auditEventRunPruned
             auditResourceRun (itoa runID)
             [(''occurrence_key'', JStr (rn_occurrence_key row)),
              (''phase'', JStr (phase_string (rn_phase row)))])
            (\<lambda>_. io_return True)))"

subsection \<open>Attempts\<close>

definition insertAttemptSQL :: "string \<Rightarrow> int \<Rightarrow> Attempt \<Rightarrow> (ledger, int option) io" where
  "insertAttemptSQL tenantID runID attempt = (\<lambda>l.
     case find (\<lambda>a. ta_run a = runID \<and> ta_number a = at_Number attempt) (lg_attempts l) of
       Some a \<Rightarrow>
         if ta_tenant a \<noteq> tenantID then (Inl (DbError ''row-level security''), l)
         else if ta_job_name a = at_KubernetesJobName attempt \<and> ta_job_uid a = at_KubernetesJobUID attempt
           then (Inr (Some (ta_id a)),
             l\<lparr>lg_attempts := map (\<lambda>b. if ta_id b = ta_id a \<and> ta_tenant b = tenantID
                 then b\<lparr>ta_resource_version := (if at_ObservedResourceVersion attempt = ''''
                        then ta_resource_version b else at_ObservedResourceVersion attempt)\<rparr>
                 else b) (lg_attempts l)\<rparr>)
         else (Inr None, l)
     | None \<Rightarrow>
         if \<exists>a \<in> set (lg_attempts l). ta_job_name a = at_KubernetesJobName attempt
           then (Inl (DbError ''unique constraint''), l)
         else if runID \<notin> rn_id ` set (lg_runs l) \<or> tenantID \<notin> set (lg_tenants l)
           then (Inl (DbError ''foreign key''), l)
         else (Inr (Some (lg_att_seq l)),
           l\<lparr>lg_attempts := lg_attempts l @
               [\<lparr>ta_id = lg_att_seq l, ta_tenant = tenantID, ta_run = runID,
                 ta_number = at_Number attempt, ta_phase = at_Phase attempt,
                 ta_job_name = at_KubernetesJobName attempt, ta_job_uid = at_KubernetesJobUID attempt,
                 ta_resource_version = at_ObservedResourceVersion attempt,
                 ta_started_at = (if time_IsZero (at_StartedAt attempt) then None
                                  else Some (at_StartedAt attempt)),
                 ta_completed_at = None\<rparr>],
             lg_att_seq := lg_att_seq l + 1\<rparr>))"

definition advanceRunForAttemptSQL ::
    "phase \<Rightarrow> int \<Rightarrow> time \<Rightarrow> int \<Rightarrow> string \<Rightarrow> (ledger, RunRow option) io" where
  "advanceRunForAttemptSQL ph number now runID tenantID = (\<lambda>l.
     let hit = (\<lambda>row. rn_id row = runID \<and> rn_tenant row = tenantID \<and> rn_phase row \<notin> set terminalPhases)
     in (Inr (find hit (lg_runs l)),
         l\<lparr>lg_runs := map (\<lambda>row. if hit row
             then row\<lparr>rn_phase := ph, rn_attempt := number, rn_updated_at := now\<rparr>
             else row) (lg_runs l)\<rparr>))"

definition CreateAttemptForTenant ::
    "time \<Rightarrow> string \<Rightarrow> int \<Rightarrow> Attempt \<Rightarrow> phase \<Rightarrow> (ledger, unit) io" where
  "CreateAttemptForTenant now tenantID runID attempt runPhase =
     (if at_Number attempt < 1 \<or> at_KubernetesJobName attempt = '''' \<or> at_KubernetesJobUID attempt = ''''
        then io_fail (Errorf ''attempt identity is required'')
      else WithTenantTransaction tenantID
        (io_bind (insertAttemptSQL tenantID runID attempt) (\<lambda>inserted.
         case inserted of
           None \<Rightarrow> io_fail ErrAttemptConflict
         | Some attemptID \<Rightarrow>
             io_bind (advanceRunForAttemptSQL runPhase (at_Number attempt) now runID tenantID) (\<lambda>advanced.
             case advanced of
               None \<Rightarrow> io_fail ErrRunTerminal
             | Some row \<Rightarrow>
                 insertControlPlaneAudit tenantID (rn_actor row) auditEventAttemptCreated
                   auditResourceAttempt (itoa attemptID)
                   [(''run_id'', JInt runID), (''attempt_number'', JInt (at_Number attempt)),
                    (''kubernetes_job_name'', JStr (at_KubernetesJobName attempt)),
                    (''phase'', JStr (phase_string (at_Phase attempt)))]))))"

text \<open>
  The statement returns the attempt as it was before the update and whether the observed UID
  owns it; the actor is the run's.
\<close>

definition owns_attempt :: "string \<Rightarrow> string \<Rightarrow> AttemptRow \<Rightarrow> bool" where
  "owns_attempt ph jobUID a \<longleftrightarrow>
     (ph = ''Canceled'' \<and> jobUID = '''') \<or> (jobUID \<noteq> '''' \<and> ta_job_uid a = jobUID)"

definition updateAttemptPhaseSQL ::
    "string \<Rightarrow> string \<Rightarrow> string \<Rightarrow> string \<Rightarrow> string \<Rightarrow> bool \<Rightarrow> time \<Rightarrow> (ledger, (AttemptRow \<times> bool) option) io" where
  "updateAttemptPhaseSQL jobName tenantID ph jobUID resourceVersion terminal now = (\<lambda>l.
     case find (\<lambda>a. ta_job_name a = jobName \<and> ta_tenant a = tenantID) (lg_attempts l) of
       None \<Rightarrow> (Inr None, l)
     | Some prior \<Rightarrow>
         if owns_attempt ph jobUID prior
         then (Inr (Some (prior, True)),
           l\<lparr>lg_attempts := map (\<lambda>a. if ta_id a = ta_id prior \<and> ta_tenant a = tenantID
               then a\<lparr>ta_phase := phase_of ph,
                      ta_resource_version := (if resourceVersion = '''' then ta_resource_version a
                                              else resourceVersion),
                      ta_completed_at := (if terminal \<and> ta_completed_at a = None then Some now
                                          else ta_completed_at a)\<rparr>
               else a) (lg_attempts l)\<rparr>)
         else (Inr (Some (prior, False)), l))"

definition UpdateAttemptPhase ::
    "time \<Rightarrow> string \<Rightarrow> string \<Rightarrow> string \<Rightarrow> string \<Rightarrow> string \<Rightarrow> (ledger, int \<times> int) io" where
  "UpdateAttemptPhase now tenantID jobName ph jobUID resourceVersion =
     (if jobName = '''' \<or> ph = '''' then io_fail (Errorf ''job name and phase are required'')
      else WithTenantTransaction tenantID
        (io_bind (updateAttemptPhaseSQL jobName tenantID ph jobUID resourceVersion
                    (Terminal (phase_of ph)) now) (\<lambda>found.
         case found of
           None \<Rightarrow> io_fail ErrNoAttempt
         | Some (prior, owns) \<Rightarrow>
             io_bind (io_get (run_by_id tenantID (ta_run prior))) (\<lambda>run.
             case run of
               None \<Rightarrow> io_fail (DbError ''converting NULL to string'')
             | Some row \<Rightarrow>
                 if \<not> owns then io_fail ErrAttemptOwnership
                 else if phase_string (ta_phase prior) = ph
                   then io_return (ta_run prior, ta_number prior)
                 else io_bind (insertControlPlaneAudit tenantID (rn_actor row)
                      auditEventAttemptStatusChanged auditResourceAttempt (itoa (ta_id prior))
                      [(''run_id'', JInt (ta_run prior)), (''attempt_number'', JInt (ta_number prior)),
                       (''from_phase'', JStr (phase_string (ta_phase prior))), (''to_phase'', JStr ph)])
                     (\<lambda>_. io_return (ta_run prior, ta_number prior))))))"

record TerminalOutcome =
  to_RunID :: int
  to_SourceUID :: string
  to_OccurrenceKey :: string
  to_ScheduledFor :: time
  to_Phase :: phase
  to_StartedAt :: time
  to_CompletedAt :: time

definition latest_attempt :: "int \<Rightarrow> ledger \<Rightarrow> AttemptRow option" where
  "latest_attempt runID l =
     (case rev (sort_key ta_number (filter (\<lambda>a. ta_run a = runID) (lg_attempts l))) of
        [] \<Rightarrow> None | a # _ \<Rightarrow> Some a)"

definition TerminalOutcome_read :: "string \<Rightarrow> int \<Rightarrow> (ledger, TerminalOutcome) io" where
  "TerminalOutcome_read tenantID runID = WithTenantTransaction tenantID
     (io_bind (io_get (\<lambda>l. (run_by_id tenantID runID l, latest_attempt runID l))) (\<lambda>(run, a).
      case run of
        None \<Rightarrow> io_fail (NotFoundError ''job_run'')
      | Some row \<Rightarrow> io_return
          \<lparr>to_RunID = runID, to_SourceUID = rn_source_uid row, to_OccurrenceKey = rn_occurrence_key row,
           to_ScheduledFor = null_time (rn_scheduled_for row), to_Phase = rn_phase row,
           to_StartedAt = null_time (Option.bind a ta_started_at),
           to_CompletedAt = null_time (Option.bind a ta_completed_at)\<rparr>))"

end
