(* ===== verification/Ledger_Laws.thy ===== *)
theory Ledger_Laws
  imports Ledger
begin

section \<open>What the run ledger promises\<close>

text \<open>
  Two facts about every operation of the ledger. \<open>ledger_evolves\<close> relates the ledger before
  and after: identity columns never change, a terminal row is never rewritten, a completion
  instant is stamped once, ids are never reused, no revision is lost or edited, and the audit
  trail only grows. \<open>ledger_wf\<close> is the state invariant: the unique and foreign keys, at most
  one active revision of an identity, counters in range, and an attempt or step that belongs
  to its run's or workflow's tenant.
\<close>

subsection \<open>Tables whose rows evolve\<close>

text \<open>
  A table whose rows carry an id drawn from a sequence and change only along \<open>ev\<close>. Every row
  of the later table descends from a row of the earlier one or has a fresh id.
\<close>

definition descends :: "('r \<Rightarrow> int) \<Rightarrow> ('r \<Rightarrow> 'r \<Rightarrow> bool) \<Rightarrow> int \<Rightarrow> 'r list \<Rightarrow> 'r list \<Rightarrow> bool" where
  "descends rid ev sq rows rows' \<longleftrightarrow>
     (\<forall>r' \<in> set rows'. sq \<le> rid r' \<or> (\<exists>r \<in> set rows. ev r r'))"

locale evolving_table =
  fixes rid :: "'r \<Rightarrow> int" and ev :: "'r \<Rightarrow> 'r \<Rightarrow> bool"
  assumes ev_refl: "ev r r"
    and ev_trans: "ev r s \<Longrightarrow> ev s t \<Longrightarrow> ev r t"
    and ev_id: "ev r s \<Longrightarrow> rid s = rid r"
begin

lemma table_refl: "descends rid ev sq rows rows"
  using ev_refl by (auto simp: descends_def)

lemma table_trans:
  assumes "descends rid ev sq rows rows'" and "descends rid ev sq' rows' rows''" and "sq \<le> sq'"
  shows "descends rid ev sq rows rows''"
  unfolding descends_def
proof
  fix r'' assume "r'' \<in> set rows''"
  with assms(2) consider "sq' \<le> rid r''" | r' where "r' \<in> set rows'" "ev r' r''"
    by (auto simp: descends_def)
  then show "sq \<le> rid r'' \<or> (\<exists>r \<in> set rows. ev r r'')"
  proof cases
    case 1
    with assms(3) show ?thesis by simp
  next
    case 2
    with assms(1) consider "sq \<le> rid r'" | r where "r \<in> set rows" "ev r r'"
      by (auto simp: descends_def)
    then show ?thesis using 2 ev_id ev_trans by cases metis+
  qed
qed

lemma table_append: "sq \<le> rid r \<Longrightarrow> descends rid ev sq rows (rows @ [r])"
  using ev_refl by (auto simp: descends_def)

lemma table_map: "(\<And>r. r \<in> set rows \<Longrightarrow> ev r (f r)) \<Longrightarrow> descends rid ev sq rows (map f rows)"
  by (auto simp: descends_def)

lemma table_filter: "descends rid ev sq rows (filter P rows)"
  using ev_refl by (auto simp: descends_def)

lemma table_row:
  assumes "descends rid ev sq rows rows'" and "distinct (map rid rows)" and "\<forall>r \<in> set rows. rid r < sq"
    and "r \<in> set rows" and "r' \<in> set rows'" and "rid r' = rid r"
  shows "ev r r'"
proof -
  from assms obtain s where s: "s \<in> set rows" "ev s r'" by (force simp: descends_def)
  with ev_id assms have "rid s = rid r" by metis
  with s assms show ?thesis by (metis distinct_map inj_onD)
qed

end

definition run_evolves :: "RunRow \<Rightarrow> RunRow \<Rightarrow> bool" where
  "run_evolves r s \<longleftrightarrow>
     s = r\<lparr>rn_phase := rn_phase s, rn_attempt := rn_attempt s, rn_updated_at := rn_updated_at s\<rparr>
     \<and> (Terminal (rn_phase r) \<longrightarrow> s = r)"

definition attempt_evolves :: "AttemptRow \<Rightarrow> AttemptRow \<Rightarrow> bool" where
  "attempt_evolves a b \<longleftrightarrow>
     b = a\<lparr>ta_phase := ta_phase b, ta_resource_version := ta_resource_version b,
           ta_completed_at := ta_completed_at b\<rparr>
     \<and> (ta_completed_at a \<noteq> None \<longrightarrow> ta_completed_at b = ta_completed_at a)"

text \<open>A workflow run keeps its identity, is final once terminal, and never loses a decision.\<close>

definition wrun_evolves :: "Run \<Rightarrow> Run \<Rightarrow> bool" where
  "wrun_evolves w v \<longleftrightarrow>
     v = w\<lparr>wf_Phase := wf_Phase v, wf_TaskDecisions := wf_TaskDecisions v, wf_UpdatedAt := wf_UpdatedAt v\<rparr>
     \<and> (WTerminal (wf_Phase w) \<longrightarrow> v = w)
     \<and> dom (map_of (wf_TaskDecisions w)) \<subseteq> dom (map_of (wf_TaskDecisions v))"

lemma run_evolves_trans: "run_evolves r s \<Longrightarrow> run_evolves s t \<Longrightarrow> run_evolves r t"
  by (cases r, cases s, cases t) (auto simp: run_evolves_def)

lemma attempt_evolves_trans: "attempt_evolves a b \<Longrightarrow> attempt_evolves b c \<Longrightarrow> attempt_evolves a c"
  by (cases a, cases b, cases c) (auto simp: attempt_evolves_def)

lemma wrun_evolves_trans: "wrun_evolves u v \<Longrightarrow> wrun_evolves v w \<Longrightarrow> wrun_evolves u w"
  by (cases u, cases v, cases w) (auto simp: wrun_evolves_def)

interpretation run_table: evolving_table rn_id run_evolves
proof
  show "run_evolves r r" for r by (simp add: run_evolves_def)
  show "run_evolves r t" if "run_evolves r s" "run_evolves s t" for r s t
    using that by (rule run_evolves_trans)
  show "rn_id s = rn_id r" if "run_evolves r s" for r s
    using that by (cases r, cases s) (auto simp: run_evolves_def)
qed

interpretation attempt_table: evolving_table ta_id attempt_evolves
proof
  show "attempt_evolves r r" for r by (simp add: attempt_evolves_def)
  show "attempt_evolves r t" if "attempt_evolves r s" "attempt_evolves s t" for r s t
    using that by (rule attempt_evolves_trans)
  show "ta_id s = ta_id r" if "attempt_evolves r s" for r s
    using that by (cases r, cases s) (auto simp: attempt_evolves_def)
qed

interpretation wrun_table: evolving_table wf_ID wrun_evolves
proof
  show "wrun_evolves r r" for r by (simp add: wrun_evolves_def)
  show "wrun_evolves r t" if "wrun_evolves r s" "wrun_evolves s t" for r s t
    using that by (rule wrun_evolves_trans)
  show "wf_ID s = wf_ID r" if "wrun_evolves r s" for r s
    using that by (cases r, cases s) (auto simp: wrun_evolves_def)
qed

definition revisions_kept :: "RevisionRow list \<Rightarrow> RevisionRow list \<Rightarrow> bool" where
  "revisions_kept rows rows' \<longleftrightarrow> prefix (map (\<lambda>r. (vr_tenant r, vr_rev r)) rows)
                                        (map (\<lambda>r. (vr_tenant r, vr_rev r)) rows')"

definition ledger_evolves :: "ledger \<Rightarrow> ledger \<Rightarrow> bool" where
  "ledger_evolves l m \<longleftrightarrow>
     lg_tenants m = lg_tenants l \<and> lg_clock l \<le> lg_clock m \<and>
     lg_rev_seq l \<le> lg_rev_seq m \<and> lg_run_seq l \<le> lg_run_seq m \<and>
     lg_att_seq l \<le> lg_att_seq m \<and> lg_wrun_seq l \<le> lg_wrun_seq m \<and>
     revisions_kept (lg_revisions l) (lg_revisions m) \<and>
     descends rn_id run_evolves (lg_run_seq l) (lg_runs l) (lg_runs m) \<and>
     descends ta_id attempt_evolves (lg_att_seq l) (lg_attempts l) (lg_attempts m) \<and>
     descends wf_ID wrun_evolves (lg_wrun_seq l) (lg_wruns l) (lg_wruns m) \<and>
     prefix (lg_audit l) (lg_audit m)"

lemma ledger_evolves_refl: "reflp ledger_evolves"
  by (auto simp: reflp_def ledger_evolves_def revisions_kept_def run_table.table_refl
      attempt_table.table_refl wrun_table.table_refl)

lemma ledger_evolves_trans: "transp ledger_evolves"
proof (rule transpI)
  fix l m n
  assume a: "ledger_evolves l m" and b: "ledger_evolves m n"
  show "ledger_evolves l n"
    using a b run_table.table_trans [of "lg_run_seq l" "lg_runs l" "lg_runs m" "lg_run_seq m" "lg_runs n"]
      attempt_table.table_trans [of "lg_att_seq l" "lg_attempts l" "lg_attempts m" "lg_att_seq m" "lg_attempts n"]
      wrun_table.table_trans [of "lg_wrun_seq l" "lg_wruns l" "lg_wruns m" "lg_wrun_seq m" "lg_wruns n"]
    by (auto simp: ledger_evolves_def revisions_kept_def dest: prefix_order.trans)
qed

lemmas table_intros =
  run_table.table_refl run_table.table_append run_table.table_map run_table.table_filter
  attempt_table.table_refl attempt_table.table_append attempt_table.table_map attempt_table.table_filter
  wrun_table.table_refl wrun_table.table_append wrun_table.table_map wrun_table.table_filter

subsection \<open>The contract of a store\<close>

text \<open>
  A guarantee of a store is a reflexive and transitive relation between the state before and
  after. What each operation keeps, a transaction keeps, and so does any program that is
  built from operations by sequencing, branching and iteration.
\<close>

locale store_guarantee =
  fixes R :: "ledger \<Rightarrow> ledger \<Rightarrow> bool"
  assumes R_refl: "reflp R" and R_trans: "transp R"
begin

lemma keeps_transaction: "io_keeps R fn \<Longrightarrow> io_keeps R (WithTenantTransaction t fn)"
  using R_refl
  by (auto simp: io_keeps_def WithTenantTransaction_eq WithTenant_def io_simps reflp_def
      split: prod.splits sum.splits) (metis snd_conv)

text \<open>Only what commits has to be kept.\<close>

lemma keeps_transaction_ok:
  "(\<And>l a m. fn l = (Inr a, m) \<Longrightarrow> R l m) \<Longrightarrow> io_keeps R (WithTenantTransaction t fn)"
  using R_refl
  by (auto simp: io_keeps_def WithTenantTransaction_eq WithTenant_def io_simps reflp_def
      split: prod.splits sum.splits)

lemma keeps_get: "io_keeps R (io_get f)"
  using R_refl by (simp add: io_keeps_def io_get_def reflp_def)

lemmas keeps_pure = io_keeps_pure [OF R_refl]
lemmas keeps_bind = io_keeps_bind [OF R_trans]

lemma keeps_read: "io_keeps R (WithTenantTransaction t (io_bind (io_get f) (\<lambda>x. io_lift (g x))))"
  by (intro keeps_transaction keeps_bind keeps_get keeps_pure)

end

interpretation evolution: store_guarantee ledger_evolves
  by unfold_locales (rule ledger_evolves_refl ledger_evolves_trans)+

subsection \<open>Every statement and operation evolves the ledger\<close>

lemma in_terminalPhases [simp]: "p \<in> set terminalPhases \<longleftrightarrow> Terminal p"
  by (auto simp: terminalPhases_def Terminal_def)

lemma in_retentionPhases [simp]: "p \<in> set retentionPhases \<longleftrightarrow> Terminal p \<or> p = CancelUnknown"
  by (auto simp: retentionPhases_def)

lemmas evolves_simps = ledger_evolves_def revisions_kept_def

lemma evolves_audit [io_intros]: "io_keeps ledger_evolves (insertControlPlaneAudit t a e r i d)"
  by (auto simp: io_keeps_def insertControlPlaneAudit_def evolves_simps intro!: table_intros)

lemma evolves_insertOccurrence [io_intros]:
  "io_keeps ledger_evolves (insertOccurrenceSQL t s r k tr a p m sc w)"
  by (auto simp: io_keeps_def insertOccurrenceSQL_def evolves_simps intro!: table_intros)

lemma evolves_updateRunPhase [io_intros]: "io_keeps ledger_evolves (updateRunPhaseSQL r t p n now)"
  by (auto simp: io_keeps_def updateRunPhaseSQL_def evolves_simps Let_def run_evolves_def
      intro!: table_intros)

lemma evolves_advanceRun [io_intros]: "io_keeps ledger_evolves (advanceRunForAttemptSQL p n now r t)"
  by (auto simp: io_keeps_def advanceRunForAttemptSQL_def evolves_simps Let_def run_evolves_def
      intro!: table_intros)

lemma evolves_deleteRun [io_intros]: "io_keeps ledger_evolves (deleteRunSQL r t)"
  by (auto simp: io_keeps_def deleteRunSQL_def delete_runs_def evolves_simps Let_def intro!: table_intros)

lemma evolves_insertAttempt [io_intros]: "io_keeps ledger_evolves (insertAttemptSQL t r a)"
  by (auto simp: io_keeps_def insertAttemptSQL_def evolves_simps attempt_evolves_def Let_def
      intro!: table_intros split: option.splits)

lemma evolves_updateAttempt [io_intros]:
  "io_keeps ledger_evolves (updateAttemptPhaseSQL j t p u v b now)"
  by (auto simp: io_keeps_def updateAttemptPhaseSQL_def evolves_simps attempt_evolves_def Let_def
      intro!: table_intros split: option.splits)

lemma evolves_applyRevision [io_intros]: "io_keeps ledger_evolves (applyRevisionSQL j t r)"
  by (auto simp: io_keeps_def applyRevisionSQL_def evolves_simps intro!: table_intros split: option.splits)

lemma map_keep_columns:
  "map (\<lambda>r. (vr_tenant r, vr_rev r)) (map (\<lambda>r. if P r then r\<lparr>vr_active := b\<rparr> else r) rows)
     = map (\<lambda>r. (vr_tenant r, vr_rev r)) rows"
  by auto

lemma evolves_deactivate [io_intros]: "io_keeps ledger_evolves (deactivateRevisionsSQL m u t i)"
  by (auto simp: io_keeps_def deactivateRevisionsSQL_def ledger_evolves_def revisions_kept_def Let_def
      map_keep_columns simp del: map_map intro!: table_intros)

lemma evolves_activate [io_intros]: "io_keeps ledger_evolves (activateRevisionSQL i t)"
  by (auto simp: io_keeps_def activateRevisionSQL_def ledger_evolves_def revisions_kept_def Let_def
      map_keep_columns simp del: map_map intro!: table_intros)

lemmas evolves_intros = evolution.keeps_transaction evolution.keeps_bind evolution.keeps_pure
  evolution.keeps_get io_keeps_try io_keeps_wrap

lemma evolves_project [io_intros]: "io_keeps ledger_evolves (project_generation j t r)"
  unfolding project_generation_def
  by (auto intro!: evolves_intros io_intros split: option.splits prod.splits)

lemma evolves_ApplyRevision [io_intros]: "io_keeps ledger_evolves (ApplyRevisionForTenant j t r)"
  unfolding ApplyRevisionForTenant_def Let_def
  by (auto intro!: evolves_intros io_intros split: option.splits prod.splits)

lemma evolves_CreateOccurrence [io_intros]: "io_keeps ledger_evolves (CreateOccurrenceForTenant t r m a)"
  unfolding CreateOccurrenceForTenant_def Let_def
  by (auto intro!: evolves_intros io_intros split: option.splits)

lemma evolves_UpdateRunPhase [io_intros]: "io_keeps ledger_evolves (UpdateRunPhase now t i p n)"
  unfolding UpdateRunPhase_def
  by (auto intro!: evolves_intros io_intros split: option.splits)

lemma evolves_DeleteRun [io_intros]: "io_keeps ledger_evolves (DeleteRun t i)"
  unfolding DeleteRun_def
  by (auto intro!: evolves_intros io_intros split: option.splits)

lemma evolves_CreateAttempt [io_intros]: "io_keeps ledger_evolves (CreateAttemptForTenant now t i a p)"
  unfolding CreateAttemptForTenant_def
  by (auto intro!: evolves_intros io_intros split: option.splits)

lemma evolves_UpdateAttemptPhase [io_intros]:
  "io_keeps ledger_evolves (UpdateAttemptPhase now t j p u v)"
  unfolding UpdateAttemptPhase_def
  by (auto intro!: evolves_intros io_intros split: option.splits)

end
