(* ===== verification/Ledger_Invariant.thy ===== *)
theory Ledger_Invariant
  imports Ledger_Laws
begin

section \<open>The state invariant of the run ledger\<close>

text \<open>
  \<open>ledger_wf\<close> collects the schema's constraints and the facts the code itself maintains:
  the tenant of an attempt is its run's, the tenant of a step its workflow's. Each operation
  keeps it on every branch.
\<close>

definition rev_key :: "RevisionRow \<Rightarrow> string \<times> string" where
  "rev_key row = (id_SourceMode (rev_Identity (vr_rev row)), id_SourceUID (rev_Identity (vr_rev row)))"

text \<open>At most one active revision of a definition identity.\<close>

definition one_active :: "RevisionRow list \<Rightarrow> bool" where
  "one_active rows \<longleftrightarrow> (\<forall>r \<in> set rows. \<forall>s \<in> set rows.
     vr_active r \<and> vr_active s \<and> rev_key r = rev_key s \<longrightarrow> rev_ID (vr_rev r) = rev_ID (vr_rev s))"

lemma one_activeD:
  "one_active rows \<Longrightarrow> r \<in> set rows \<Longrightarrow> s \<in> set rows \<Longrightarrow> vr_active r \<Longrightarrow> vr_active s
   \<Longrightarrow> rev_key r = rev_key s \<Longrightarrow> rev_ID (vr_rev r) = rev_ID (vr_rev s)"
  unfolding one_active_def by blast

definition revisions_wf :: "string list \<Rightarrow> int \<Rightarrow> RevisionRow list \<Rightarrow> bool" where
  "revisions_wf tenants sq rows \<longleftrightarrow>
     distinct (map (\<lambda>r. rev_ID (vr_rev r)) rows) \<and> (\<forall>r \<in> set rows. rev_ID (vr_rev r) < sq) \<and>
     distinct (map (\<lambda>r. (rev_key r, rev_Generation (vr_rev r))) rows) \<and>
     one_active rows \<and>
     (\<forall>r \<in> set rows. vr_tenant r \<in> set tenants \<and> 0 < rev_Generation (vr_rev r))"

definition runs_wf :: "string list \<Rightarrow> int set \<Rightarrow> (int \<times> string) set \<Rightarrow> int \<Rightarrow> RunRow list \<Rightarrow> bool" where
  "runs_wf tenants revs wfs sq rows \<longleftrightarrow>
     distinct (map rn_id rows) \<and> (\<forall>r \<in> set rows. rn_id r < sq) \<and>
     distinct (map (\<lambda>r. (rn_source_uid r, rn_occurrence_key r)) rows) \<and>
     (\<forall>r \<in> set rows. rn_tenant r \<in> set tenants \<and> rn_revision_id r \<in> revs \<and> 0 \<le> rn_attempt r
        \<and> 1 \<le> rn_max_attempts r
        \<and> (\<forall>w. rn_workflow r = Some w \<longrightarrow> (w, rn_tenant r) \<in> wfs))"

definition attempts_wf :: "(int \<times> string) set \<Rightarrow> int \<Rightarrow> AttemptRow list \<Rightarrow> bool" where
  "attempts_wf runs sq rows \<longleftrightarrow>
     distinct (map ta_id rows) \<and> (\<forall>a \<in> set rows. ta_id a < sq) \<and>
     distinct (map (\<lambda>a. (ta_run a, ta_number a)) rows) \<and> distinct (map ta_job_name rows) \<and>
     (\<forall>a \<in> set rows. (ta_run a, ta_tenant a) \<in> runs \<and> 1 \<le> ta_number a
        \<and> ta_job_name a \<noteq> '''' \<and> ta_job_uid a \<noteq> '''')"

definition wruns_wf :: "string list \<Rightarrow> int set \<Rightarrow> int \<Rightarrow> Run list \<Rightarrow> bool" where
  "wruns_wf tenants revs sq rows \<longleftrightarrow>
     distinct (map wf_ID rows) \<and> (\<forall>w \<in> set rows. wf_ID w < sq) \<and>
     distinct (map (\<lambda>w. (wf_SourceUID w, wf_OccurrenceKey w)) rows) \<and>
     (\<forall>w \<in> set rows. wf_TenantID w \<in> set tenants \<and> wf_RevisionID w \<in> revs \<and> 0 < wf_ID w)"

definition run_ids :: "RunRow list \<Rightarrow> (int \<times> string) set" where
  "run_ids rows = (\<lambda>r. (rn_id r, rn_tenant r)) ` set rows"

definition wrun_ids :: "Run list \<Rightarrow> (int \<times> string) set" where
  "wrun_ids rows = (\<lambda>w. (wf_ID w, wf_TenantID w)) ` set rows"

definition rev_ids :: "RevisionRow list \<Rightarrow> int set" where
  "rev_ids rows = (\<lambda>r. rev_ID (vr_rev r)) ` set rows"

definition ledger_wf :: "ledger \<Rightarrow> bool" where
  "ledger_wf l \<longleftrightarrow>
     revisions_wf (lg_tenants l) (lg_rev_seq l) (lg_revisions l) \<and>
     runs_wf (lg_tenants l) (rev_ids (lg_revisions l)) (wrun_ids (lg_wruns l)) (lg_run_seq l) (lg_runs l) \<and>
     attempts_wf (run_ids (lg_runs l)) (lg_att_seq l) (lg_attempts l) \<and>
     wruns_wf (lg_tenants l) (rev_ids (lg_revisions l)) (lg_wrun_seq l) (lg_wruns l) \<and>
     1 \<le> lg_wrun_seq l"

abbreviation wf_kept :: "ledger \<Rightarrow> ledger \<Rightarrow> bool" where
  "wf_kept l m \<equiv> ledger_wf l \<longrightarrow> ledger_wf m"

interpretation wf_store: store_guarantee "\<lambda>l m. ledger_wf l \<longrightarrow> ledger_wf m"
  by unfold_locales (auto simp: reflp_def transp_def)

lemmas wf_intros = wf_store.keeps_transaction wf_store.keeps_bind wf_store.keeps_pure
  wf_store.keeps_get io_keeps_try io_keeps_wrap

subsection \<open>Table edits that keep the invariant\<close>

lemma runs_wf_mono:
  "runs_wf t revs wfs sq rows \<Longrightarrow> revs \<subseteq> revs' \<Longrightarrow> wfs \<subseteq> wfs' \<Longrightarrow> runs_wf t revs' wfs' sq rows"
  by (auto simp: runs_wf_def)

lemma wruns_wf_mono: "wruns_wf t revs sq rows \<Longrightarrow> revs \<subseteq> revs' \<Longrightarrow> wruns_wf t revs' sq rows"
  by (auto simp: wruns_wf_def)

lemma attempts_wf_mono: "attempts_wf runs sq rows \<Longrightarrow> runs \<subseteq> runs' \<Longrightarrow> attempts_wf runs' sq rows"
  by (auto simp: attempts_wf_def)

lemma distinct_map_filterI: "distinct (map f xs) \<Longrightarrow> distinct (map f (filter P xs))"
  by (auto simp: distinct_map inj_on_def)

lemma attempts_wf_filter: "attempts_wf runs sq rows \<Longrightarrow> attempts_wf runs sq (filter P rows)"
  by (auto simp: attempts_wf_def distinct_map_filterI)

lemma runs_wf_filter: "runs_wf t revs wfs sq rows \<Longrightarrow> runs_wf t revs wfs sq (filter P rows)"
  by (auto simp: runs_wf_def distinct_map_filterI)

lemma wf_audit [io_intros]: "io_keeps wf_kept (insertControlPlaneAudit t a e r i d)"
  by (auto simp: io_keeps_def insertControlPlaneAudit_def ledger_wf_def)

text \<open>An edit of the progress columns, on whichever rows.\<close>

lemma run_progress_columns:
  assumes "\<And>r. f r = r \<or> f r = r\<lparr>rn_phase := p, rn_attempt := n, rn_updated_at := u\<rparr>"
  shows "map rn_id (map f rows) = map rn_id rows"
    and "map (\<lambda>r. (rn_source_uid r, rn_occurrence_key r)) (map f rows)
         = map (\<lambda>r. (rn_source_uid r, rn_occurrence_key r)) rows"
    and "run_ids (map f rows) = run_ids rows"
proof -
  have cols: "rn_id (f r) = rn_id r" "rn_source_uid (f r) = rn_source_uid r"
      "rn_occurrence_key (f r) = rn_occurrence_key r" "rn_tenant (f r) = rn_tenant r" for r
    using assms [of r] by auto
  then show "map rn_id (map f rows) = map rn_id rows"
    and "map (\<lambda>r. (rn_source_uid r, rn_occurrence_key r)) (map f rows)
         = map (\<lambda>r. (rn_source_uid r, rn_occurrence_key r)) rows"
    and "run_ids (map f rows) = run_ids rows"
    by (auto simp: run_ids_def image_image)
qed

lemma runs_wf_progress:
  assumes wf: "runs_wf t revs wfs sq rows"
    and f: "\<And>r. f r = r \<or> f r = r\<lparr>rn_phase := p, rn_attempt := n, rn_updated_at := u\<rparr>"
    and n: "0 \<le> n \<or> (\<forall>r \<in> set rows. f r = r)"
  shows "runs_wf t revs wfs sq (map f rows)"
proof -
  have "rn_id (f r) < sq \<and> rn_tenant (f r) \<in> set t \<and> rn_revision_id (f r) \<in> revs
      \<and> 0 \<le> rn_attempt (f r) \<and> 1 \<le> rn_max_attempts (f r)
      \<and> (\<forall>w. rn_workflow (f r) = Some w \<longrightarrow> (w, rn_tenant (f r)) \<in> wfs)" if "r \<in> set rows" for r
  proof (cases "f r = r")
    case True
    with that wf show ?thesis by (auto simp: runs_wf_def)
  next
    case False
    with f [of r] n that have "f r = r\<lparr>rn_phase := p, rn_attempt := n, rn_updated_at := u\<rparr>" "0 \<le> n"
      by auto
    with that wf show ?thesis by (auto simp: runs_wf_def)
  qed
  moreover have "distinct (map rn_id (map f rows))"
      "distinct (map (\<lambda>r. (rn_source_uid r, rn_occurrence_key r)) (map f rows))"
    using wf unfolding run_progress_columns [OF f] by (auto simp: runs_wf_def)
  ultimately show ?thesis by (auto simp: runs_wf_def)
qed

lemma wf_updateRunPhase [io_intros]: "io_keeps wf_kept (updateRunPhaseSQL r t p n now)"
proof -
  let ?hit = "\<lambda>row. rn_id row = r \<and> rn_tenant row = t \<and> (rn_phase row \<noteq> p \<or> rn_attempt row \<noteq> n)
                 \<and> rn_phase row \<notin> set terminalPhases"
  let ?f = "\<lambda>row. if ?hit row then row\<lparr>rn_phase := p, rn_attempt := n, rn_updated_at := now\<rparr> else row"
  have "ledger_wf (l\<lparr>lg_runs := map ?f (lg_runs l)\<rparr>)"
    if "ledger_wf l" and n: "\<not> (n < 0 \<and> (\<exists>row \<in> set (lg_runs l). ?hit row))" for l
  proof -
    have f: "?f row = row \<or> ?f row = row\<lparr>rn_phase := p, rn_attempt := n, rn_updated_at := now\<rparr>" for row
      by simp
    have "0 \<le> n \<or> (\<forall>row \<in> set (lg_runs l). ?f row = row)" using n by auto
    with that(1) show ?thesis
      using runs_wf_progress [where rows = "lg_runs l" and f = ?f, OF _ f]
        run_progress_columns(3) [where rows = "lg_runs l" and f = ?f, OF f]
      by (simp add: ledger_wf_def)
  qed
  then show ?thesis
    by (auto simp: io_keeps_def updateRunPhaseSQL_def Let_def simp del: in_terminalPhases)
qed

lemma wf_advanceRun [io_intros]: "0 \<le> n \<Longrightarrow> io_keeps wf_kept (advanceRunForAttemptSQL p n now r t)"
proof -
  assume n: "0 \<le> n"
  let ?hit = "\<lambda>row. rn_id row = r \<and> rn_tenant row = t \<and> rn_phase row \<notin> set terminalPhases"
  let ?f = "\<lambda>row. if ?hit row then row\<lparr>rn_phase := p, rn_attempt := n, rn_updated_at := now\<rparr> else row"
  have f: "?f row = row \<or> ?f row = row\<lparr>rn_phase := p, rn_attempt := n, rn_updated_at := now\<rparr>" for row
    by simp
  have "ledger_wf (l\<lparr>lg_runs := map ?f (lg_runs l)\<rparr>)" if "ledger_wf l" for l
    using that n runs_wf_progress [where rows = "lg_runs l" and f = ?f, OF _ f]
      run_progress_columns(3) [where rows = "lg_runs l" and f = ?f, OF f]
    by (simp add: ledger_wf_def)
  then show ?thesis
    by (auto simp: io_keeps_def advanceRunForAttemptSQL_def Let_def simp del: in_terminalPhases)
qed

lemma runs_wf_snoc:
  assumes "runs_wf t revs wfs sq rows" and "rn_id row = sq" and "rn_tenant row \<in> set t"
    and "rn_revision_id row \<in> revs" and "0 \<le> rn_attempt row" and "1 \<le> rn_max_attempts row"
    and "\<forall>q \<in> set rows. (rn_source_uid q, rn_occurrence_key q) \<noteq> (rn_source_uid row, rn_occurrence_key row)"
    and "\<And>w. rn_workflow row = Some w \<Longrightarrow> (w, rn_tenant row) \<in> wfs"
  shows "runs_wf t revs wfs (sq + 1) (rows @ [row])"
  using assms by (force simp: runs_wf_def)

lemma wf_insertOccurrence:
  assumes wf: "ledger_wf l" and ok: "insertOccurrenceSQL t s r k tr a p m sc w l = (Inr x, l')"
    and m: "1 \<le> m" and w: "\<And>i. w = Some i \<Longrightarrow> (i, t) \<in> wrun_ids (lg_wruns l)"
  shows "ledger_wf l'"
proof (cases x)
  case None
  with ok have "l' = l" by (auto simp: insertOccurrenceSQL_def split: if_splits)
  with wf show ?thesis by simp
next
  case (Some i)
  with ok obtain row where l': "l' = l\<lparr>lg_runs := lg_runs l @ [row], lg_run_seq := lg_run_seq l + 1\<rparr>"
      and row: "rn_id row = lg_run_seq l" "rn_tenant row \<in> set (lg_tenants l)" "rn_tenant row = t"
        "rn_revision_id row \<in> rev_ids (lg_revisions l)" "rn_attempt row = 0" "rn_max_attempts row = m"
        "rn_workflow row = w"
        "\<forall>q \<in> set (lg_runs l). (rn_source_uid q, rn_occurrence_key q)
                                \<noteq> (rn_source_uid row, rn_occurrence_key row)"
    by (auto simp: insertOccurrenceSQL_def rev_ids_def split: if_splits)
  have "runs_wf (lg_tenants l) (rev_ids (lg_revisions l)) (wrun_ids (lg_wruns l))
      (lg_run_seq l + 1) (lg_runs l @ [row])"
    using wf row m w by (intro runs_wf_snoc) (auto simp: ledger_wf_def)
  with wf l' show ?thesis
    by (auto simp: ledger_wf_def run_ids_def elim!: attempts_wf_mono)
qed

lemma wf_delete_runs: "ledger_wf l \<Longrightarrow> ledger_wf (delete_runs hit l)"
proof -
  assume wf: "ledger_wf l"
  have "attempts_wf (run_ids (filter (\<lambda>r. \<not> hit r) (lg_runs l))) (lg_att_seq l)
      (filter (\<lambda>a. ta_run a \<notin> rn_id ` set (filter hit (lg_runs l))) (lg_attempts l))"
  proof -
    have "(ta_run a, ta_tenant a) \<in> run_ids (filter (\<lambda>r. \<not> hit r) (lg_runs l))"
      if "a \<in> set (lg_attempts l)" "ta_run a \<notin> rn_id ` set (filter hit (lg_runs l))" for a
    proof -
      from wf that(1) obtain r where "r \<in> set (lg_runs l)" "ta_run a = rn_id r" "ta_tenant a = rn_tenant r"
        by (auto simp: ledger_wf_def attempts_wf_def run_ids_def)
      with that(2) show ?thesis by (auto simp: run_ids_def)
    qed
    with wf show ?thesis by (auto simp: ledger_wf_def attempts_wf_def distinct_map_filterI)
  qed
  with wf show ?thesis by (simp add: ledger_wf_def delete_runs_def runs_wf_filter)
qed

lemma wf_deleteRun [io_intros]: "io_keeps wf_kept (deleteRunSQL r t)"
  by (simp add: io_keeps_def deleteRunSQL_def Let_def wf_delete_runs)

lemma attempts_wf_map:
  assumes "attempts_wf runs sq rows"
    and cols: "\<And>a. ta_id (f a) = ta_id a" "\<And>a. ta_tenant (f a) = ta_tenant a" "\<And>a. ta_run (f a) = ta_run a"
      "\<And>a. ta_number (f a) = ta_number a" "\<And>a. ta_job_name (f a) = ta_job_name a"
      "\<And>a. ta_job_uid (f a) = ta_job_uid a"
  shows "attempts_wf runs sq (map f rows)"
  using assms(1) by (simp add: attempts_wf_def comp_def cols)

lemma attempts_wf_snoc:
  assumes "attempts_wf runs sq rows" and "ta_id a = sq" and "(ta_run a, ta_tenant a) \<in> runs"
    and "1 \<le> ta_number a" and "ta_job_name a \<noteq> []" and "ta_job_uid a \<noteq> []"
    and "\<forall>b \<in> set rows. (ta_run b, ta_number b) \<noteq> (ta_run a, ta_number a)"
    and "\<forall>b \<in> set rows. ta_job_name b \<noteq> ta_job_name a"
  shows "attempts_wf runs (sq + 1) (rows @ [a])"
  using assms by (force simp: attempts_wf_def)

lemma wf_updateAttempt [io_intros]: "io_keeps wf_kept (updateAttemptPhaseSQL j t p u v b now)"
proof -
  have "ledger_wf (l\<lparr>lg_attempts := map (\<lambda>a. if ta_id a = i \<and> ta_tenant a = t
      then a\<lparr>ta_phase := q, ta_resource_version := g a, ta_completed_at := h a\<rparr> else a) (lg_attempts l)\<rparr>)"
    if "ledger_wf l" for l i q g h
    using that by (auto simp: ledger_wf_def intro!: attempts_wf_map)
  then show ?thesis
    by (auto simp: io_keeps_def updateAttemptPhaseSQL_def split: option.splits)
qed

lemma wf_insertAttempt:
  assumes wf: "ledger_wf l" and run: "(r, t) \<in> run_ids (lg_runs l)"
    and at: "1 \<le> at_Number a" "at_KubernetesJobName a \<noteq> []" "at_KubernetesJobUID a \<noteq> []"
  shows "ledger_wf (snd (insertAttemptSQL t r a l))"
proof (cases "find (\<lambda>b. ta_run b = r \<and> ta_number b = at_Number a) (lg_attempts l)")
  case (Some b)
  have "ledger_wf (l\<lparr>lg_attempts := map (\<lambda>c. if ta_id c = ta_id b \<and> ta_tenant c = t
      then c\<lparr>ta_resource_version := g c\<rparr> else c) (lg_attempts l)\<rparr>)" for g
    using wf by (auto simp: ledger_wf_def intro!: attempts_wf_map)
  with Some wf show ?thesis by (simp add: insertAttemptSQL_def)
next
  case None
  then have new: "\<forall>b \<in> set (lg_attempts l). (ta_run b, ta_number b) \<noteq> (r, at_Number a)"
    by (auto simp: find_None_iff)
  have "ledger_wf (l\<lparr>lg_attempts := lg_attempts l @ [b], lg_att_seq := lg_att_seq l + 1\<rparr>)"
    if "ta_id b = lg_att_seq l" "ta_run b = r" "ta_tenant b = t" "ta_number b = at_Number a"
      "ta_job_name b = at_KubernetesJobName a" "ta_job_uid b = at_KubernetesJobUID a"
      "\<forall>c \<in> set (lg_attempts l). ta_job_name c \<noteq> at_KubernetesJobName a" for b
    using that wf run at new by (auto simp: ledger_wf_def intro!: attempts_wf_snoc)
  with None wf show ?thesis by (auto simp: insertAttemptSQL_def)
qed

subsection \<open>Revisions\<close>

lemma rev_ids_map: "(\<And>r. vr_rev (f r) = vr_rev r) \<Longrightarrow> rev_ids (map f rows) = rev_ids rows"
  by (simp add: rev_ids_def image_image)

lemma revisions_wf_map:
  assumes wf: "revisions_wf t sq rows"
    and f [simp]: "\<And>r. vr_rev (f r) = vr_rev r" "\<And>r. vr_tenant (f r) = vr_tenant r"
    and act: "\<And>r s. r \<in> set rows \<Longrightarrow> s \<in> set rows \<Longrightarrow> vr_active (f r) \<Longrightarrow> vr_active (f s)
        \<Longrightarrow> rev_key r = rev_key s \<Longrightarrow> rev_ID (vr_rev r) = rev_ID (vr_rev s)"
  shows "revisions_wf t sq (map f rows)"
proof -
  have [simp]: "rev_key (f r) = rev_key r" for r by (simp add: rev_key_def)
  have "one_active (map f rows)" unfolding one_active_def set_map ball_simps(9)
  proof (intro ballI impI, elim conjE)
    fix r s
    assume "r \<in> set rows" "s \<in> set rows" "vr_active (f r)" "vr_active (f s)" "rev_key (f r) = rev_key (f s)"
    then show "rev_ID (vr_rev (f r)) = rev_ID (vr_rev (f s))" using act [of r s] by simp
  qed
  with wf show ?thesis by (simp add: revisions_wf_def comp_def)
qed

lemma ledger_wf_flag:
  assumes wf: "ledger_wf l" and f: "\<And>r. f r = r \<or> (\<exists>b. f r = r\<lparr>vr_active := b\<rparr>)"
    and act: "\<And>r s. r \<in> set (lg_revisions l) \<Longrightarrow> s \<in> set (lg_revisions l) \<Longrightarrow> vr_active (f r)
        \<Longrightarrow> vr_active (f s) \<Longrightarrow> rev_key r = rev_key s \<Longrightarrow> rev_ID (vr_rev r) = rev_ID (vr_rev s)"
  shows "ledger_wf (l\<lparr>lg_revisions := map f (lg_revisions l)\<rparr>)"
proof -
  have cols: "vr_rev (f r) = vr_rev r" "vr_tenant (f r) = vr_tenant r" for r using f [of r] by auto
  have "revisions_wf (lg_tenants l) (lg_rev_seq l) (map f (lg_revisions l))"
    using wf cols by (intro revisions_wf_map act) (auto simp: ledger_wf_def)
  with wf show ?thesis using rev_ids_map [of f "lg_revisions l", OF cols(1)] by (simp add: ledger_wf_def)
qed

lemma wf_deactivate [io_intros]: "io_keeps wf_kept (deactivateRevisionsSQL m u t i)"
proof -
  have "ledger_wf (l\<lparr>lg_revisions := map (\<lambda>row. if P row then row\<lparr>vr_active := False\<rparr> else row) (lg_revisions l)\<rparr>)"
    if "ledger_wf l" for l P
    using that
    by (intro ledger_wf_flag) (auto simp: ledger_wf_def revisions_wf_def split: if_splits intro: one_activeD)
  then show ?thesis by (simp add: io_keeps_def deactivateRevisionsSQL_def Let_def)
qed

lemma same_identity_key:
  "same_identity (id_SourceMode (rev_Identity (vr_rev r))) (id_SourceUID (rev_Identity (vr_rev r))) s
   \<longleftrightarrow> rev_key r = rev_key s"
  by (auto simp: same_identity_def rev_key_def)

lemma wf_activate [io_intros]: "io_keeps wf_kept (activateRevisionSQL i t)"
proof -
  let ?hit = "\<lambda>row. rev_ID (vr_rev row) = i \<and> vr_tenant row = t \<and> \<not> vr_active row"
  have "ledger_wf (l\<lparr>lg_revisions := map (\<lambda>row. if ?hit row then row\<lparr>vr_active := True\<rparr> else row) (lg_revisions l)\<rparr>)"
    if wf: "ledger_wf l" and free: "\<not> (\<exists>row \<in> set (lg_revisions l). ?hit row \<and>
        (\<exists>other \<in> set (lg_revisions l). vr_active other \<and> rev_key row = rev_key other))" for l
  proof (rule ledger_wf_flag [OF wf])
    fix r s
    assume rows: "r \<in> set (lg_revisions l)" "s \<in> set (lg_revisions l)" and key: "rev_key r = rev_key s"
      and "vr_active (if ?hit r then r\<lparr>vr_active := True\<rparr> else r)"
        "vr_active (if ?hit s then s\<lparr>vr_active := True\<rparr> else s)"
    then have "vr_active r \<or> ?hit r" "vr_active s \<or> ?hit s" by (auto split: if_splits)
    then consider "vr_active r" "vr_active s" | "?hit r" "?hit s" | "vr_active r" "?hit s" | "?hit r" "vr_active s"
      by blast
    then show "rev_ID (vr_rev r) = rev_ID (vr_rev s)"
    proof cases
      case 1
      with rows key wf show ?thesis by (auto simp: ledger_wf_def revisions_wf_def intro: one_activeD)
    next
      case 2
      then show ?thesis by simp
    next
      case 3
      with free rows key show ?thesis by metis
    next
      case 4
      with free rows key show ?thesis by metis
    qed
  qed auto
  then show ?thesis
    unfolding io_keeps_def activateRevisionSQL_def Let_def same_identity_key by simp
qed

lemma revisions_wf_snoc:
  assumes wf: "revisions_wf t sq rows" and row: "rev_ID (vr_rev row) = sq" "\<not> vr_active row"
    "vr_tenant row \<in> set t" "0 < rev_Generation (vr_rev row)"
    "\<forall>q \<in> set rows. (rev_key q, rev_Generation (vr_rev q)) \<noteq> (rev_key row, rev_Generation (vr_rev row))"
  shows "revisions_wf t (sq + 1) (rows @ [row])"
proof -
  have "\<forall>q \<in> set rows. rev_ID (vr_rev q) \<noteq> sq" using wf by (auto simp: revisions_wf_def)
  then have "sq \<notin> (\<lambda>r. rev_ID (vr_rev r)) ` set rows" by auto
  moreover have "(rev_key row, rev_Generation (vr_rev row)) \<notin> (\<lambda>r. (rev_key r, rev_Generation (vr_rev r))) ` set rows"
    using row(5) by auto
  moreover have "\<forall>r \<in> set rows. rev_ID (vr_rev r) < sq + 1" using wf by (auto simp: revisions_wf_def)
  moreover have "one_active (rows @ [row])"
    unfolding one_active_def
  proof (intro ballI impI, elim conjE)
    fix r s
    assume a: "r \<in> set (rows @ [row])" "s \<in> set (rows @ [row])" "vr_active r" "vr_active s" "rev_key r = rev_key s"
    with row(2) have "r \<in> set rows" "s \<in> set rows" by auto
    with a wf show "rev_ID (vr_rev r) = rev_ID (vr_rev s)" by (auto simp: revisions_wf_def intro: one_activeD)
  qed
  ultimately show ?thesis using wf row(1-4) by (simp add: revisions_wf_def)
qed

lemma wf_applyRevision [io_intros]: "io_keeps wf_kept (applyRevisionSQL j t r)"
proof -
  have "ledger_wf (l\<lparr>lg_revisions := lg_revisions l @ [row], lg_rev_seq := lg_rev_seq l + 1\<rparr>)"
    if wf: "ledger_wf l" and row: "rev_ID (vr_rev row) = lg_rev_seq l" "\<not> vr_active row"
      "vr_tenant row \<in> set (lg_tenants l)" "0 < rev_Generation (vr_rev row)"
      "\<forall>q \<in> set (lg_revisions l). (rev_key q, rev_Generation (vr_rev q)) \<noteq> (rev_key row, rev_Generation (vr_rev row))"
    for l row
  proof -
    have "revisions_wf (lg_tenants l) (lg_rev_seq l + 1) (lg_revisions l @ [row])"
      using wf row by (intro revisions_wf_snoc) (auto simp: ledger_wf_def)
    with wf show ?thesis
      by (auto simp: ledger_wf_def rev_ids_def elim!: runs_wf_mono wruns_wf_mono)
  qed
  then show ?thesis
    by (auto simp: io_keeps_def applyRevisionSQL_def rev_key_def same_identity_def split: option.splits)
qed

subsection \<open>Every operation keeps the invariant\<close>

lemma wf_project [io_intros]: "io_keeps wf_kept (project_generation j t r)"
  unfolding project_generation_def
  by (auto intro!: wf_intros io_intros split: option.splits prod.splits)

lemma wf_ApplyRevision [io_intros]: "io_keeps wf_kept (ApplyRevisionForTenant j t r)"
  unfolding ApplyRevisionForTenant_def Let_def
  by (auto intro!: wf_intros io_intros split: option.splits prod.splits)

lemma wf_UpdateRunPhase [io_intros]: "io_keeps wf_kept (UpdateRunPhase now t i p n)"
  unfolding UpdateRunPhase_def
  by (auto intro!: wf_intros io_intros split: option.splits)

lemma wf_DeleteRun [io_intros]: "io_keeps wf_kept (DeleteRun t i)"
  unfolding DeleteRun_def
  by (auto intro!: wf_intros io_intros split: option.splits)

lemma wf_UpdateAttemptPhase [io_intros]: "io_keeps wf_kept (UpdateAttemptPhase now t j p u v)"
  unfolding UpdateAttemptPhase_def
  by (auto intro!: wf_intros io_intros split: option.splits)

lemma wf_insertOccurrence_plain [io_intros]:
  "1 \<le> m \<Longrightarrow> io_keeps wf_kept (insertOccurrenceSQL t s r k tr a p m sc None)"
  unfolding io_keeps_def
proof (intro allI impI)
  fix l
  assume "1 \<le> m" and wf: "ledger_wf l"
  show "ledger_wf (snd (insertOccurrenceSQL t s r k tr a p m sc None l))"
  proof (cases "insertOccurrenceSQL t s r k tr a p m sc None l")
    case (Pair x l')
    show ?thesis
    proof (cases x)
      case (Inl e)
      with Pair wf show ?thesis by (auto simp: insertOccurrenceSQL_def split: if_splits)
    next
      case (Inr y)
      from wf_insertOccurrence [OF wf Pair [unfolded Inr] \<open>1 \<le> m\<close>] Pair show ?thesis by simp
    qed
  qed
qed

lemma wf_CreateOccurrence [io_intros]: "io_keeps wf_kept (CreateOccurrenceForTenant t r m a)"
  unfolding CreateOccurrenceForTenant_def Let_def
  by (auto intro!: wf_intros io_intros split: option.splits)

lemma wf_CreateAttempt [io_intros]: "io_keeps wf_kept (CreateAttemptForTenant now t i a p)"
proof (cases "at_Number a < 1 \<or> at_KubernetesJobName a = [] \<or> at_KubernetesJobUID a = []")
  case True
  then show ?thesis by (auto simp: CreateAttemptForTenant_def intro: wf_intros)
next
  case False
  then have at: "1 \<le> at_Number a" "at_KubernetesJobName a \<noteq> []" "at_KubernetesJobUID a \<noteq> []" by auto
  let ?body = "\<lambda>aid. io_bind (advanceRunForAttemptSQL p (at_Number a) now i t) (\<lambda>advanced.
       case advanced of None \<Rightarrow> io_fail ErrRunTerminal
       | Some row \<Rightarrow> insertControlPlaneAudit t (rn_actor row) auditEventAttemptCreated
           auditResourceAttempt (itoa aid)
           [(''run_id'', JInt i), (''attempt_number'', JInt (at_Number a)),
            (''kubernetes_job_name'', JStr (at_KubernetesJobName a)),
            (''phase'', JStr (phase_string (at_Phase a)))])"
  have body: "io_keeps wf_kept (?body aid)" for aid
    using at by (auto intro!: wf_intros io_intros split: option.splits)
  have run: "(i, t) \<in> run_ids (lg_runs l)" if "?body aid l = (Inr x, m)" for aid l x m
  proof -
    from that have "find (\<lambda>row. rn_id row = i \<and> rn_tenant row = t \<and> rn_phase row \<notin> set terminalPhases)
        (lg_runs l) \<noteq> None"
      by (auto simp: io_simps advanceRunForAttemptSQL_def Let_def split: option.splits)
    then show ?thesis unfolding find_None_iff run_ids_def by auto
  qed
  have "ledger_wf m" if wf: "ledger_wf l" and ok: "io_bind (insertAttemptSQL t i a)
      (\<lambda>ins. case ins of None \<Rightarrow> io_fail ErrAttemptConflict | Some aid \<Rightarrow> ?body aid) l = (Inr x, m)" for l x m
  proof -
    from io_bind_InrD [OF ok] obtain aid l1 where ins: "insertAttemptSQL t i a l = (Inr (Some aid), l1)"
      and b: "?body aid l1 = (Inr x, m)"
      by (auto simp: io_fail_apply split: option.splits)
    have "lg_runs l1 = lg_runs l"
      using ins by (auto simp: insertAttemptSQL_def split: option.splits if_splits)
    with run [OF b] wf_insertAttempt [OF wf _ at, of i t] ins have "ledger_wf l1" by simp
    with io_keepsD [OF body, of l1 aid] b show ?thesis by simp
  qed
  then show ?thesis using False
    by (auto simp: CreateAttemptForTenant_def intro!: wf_store.keeps_transaction_ok)
qed

end
