(* ===== verification/Workflow_Ledger.thy ===== *)
theory Workflow_Ledger
  imports Ledger_Invariant
begin

section \<open>The workflow ledger\<close>

text \<open>
  Every operation of \<open>internal/core/store/postgres/workflow_repository.go\<close>, on the same ledger:
  the workflow table, the step-grouping column of the run table and the audit trail. The
  decision trail is an association list; \<open>jsonb\<close> concatenation is \<open>AList.merge\<close>, in which the
  incoming decision of a task wins. The trail is stored and read back as the value itself,
  so its JSON encoding and decoding are the identity of the model.
\<close>

text \<open>As \<open>tenant_transaction\<close>: the transaction on every connection, and on one that commits.\<close>

definition workflow_transaction :: "fault \<Rightarrow> string \<Rightarrow> (ledger, 'a) io \<Rightarrow> (ledger, 'a) io" where
  "workflow_transaction f tenantID fn = (\<lambda>l.
     if f = FailBefore then (Inl (Wrapf ''begin workflow tx'' (DbError ''connection'')), l)
     else case io_bind (WithTenant tenantID) (\<lambda>_. fn) l of
         (Inl e, _) \<Rightarrow> (Inl e, l)
       | (Inr a, l') \<Rightarrow> if f = FailAfter then (Inl (DbError ''connection''), l') else (Inr a, l'))"

definition withTenantTx :: "string \<Rightarrow> (ledger, 'a) io \<Rightarrow> (ledger, 'a) io" where
  "withTenantTx = workflow_transaction NoFault"

lemma withTenantTx_eq: "withTenantTx = WithTenantTransaction"
  by (intro ext) (simp add: withTenantTx_def workflow_transaction_def WithTenantTransaction_eq split: prod.split sum.split)

definition auditEventWorkflowRunCreated :: string where
  "auditEventWorkflowRunCreated = ''workflow_run.created''"
definition auditEventWorkflowRunPhaseChanged :: string where
  "auditEventWorkflowRunPhaseChanged = ''workflow_run.phase_changed''"
definition auditEventWorkflowRunPruned :: string where
  "auditEventWorkflowRunPruned = ''workflow_run.pruned''"
definition auditResourceWorkflowRun :: string where "auditResourceWorkflowRun = ''workflow_run''"

definition terminalWorkflowPhases :: "wphase list" where
  "terminalWorkflowPhases = [PhaseSucceeded, PhaseFailed, PhaseCanceled]"

definition workflowRetentionPhases :: "wphase list" where
  "workflowRetentionPhases = terminalWorkflowPhases @ [PhaseCancelUnknown]"

definition workflowRetentionPhasesContains :: "wphase \<Rightarrow> bool" where
  "workflowRetentionPhasesContains p = list_ex (\<lambda>eligible. eligible = p) workflowRetentionPhases"

subsection \<open>Workflow runs\<close>

definition insertWorkflowRunSQL ::
    "string \<Rightarrow> string \<Rightarrow> int \<Rightarrow> string \<Rightarrow> trigger \<Rightarrow> string \<Rightarrow> wphase \<Rightarrow> (ledger, int option) io" where
  "insertWorkflowRunSQL tenantID sourceUID revisionID key trig actor ph = (\<lambda>l.
     if \<exists>w \<in> set (lg_wruns l). wf_SourceUID w = sourceUID \<and> wf_OccurrenceKey w = key
       then (Inr None, l)
     else if tenantID \<notin> set (lg_tenants l)
         \<or> revisionID \<notin> (\<lambda>row. rev_ID (vr_rev row)) ` set (lg_revisions l)
       then (Inl (DbError ''foreign key''), l)
     else (Inr (Some (lg_wrun_seq l)),
           l\<lparr>lg_wruns := lg_wruns l @
               [\<lparr>wf_ID = lg_wrun_seq l, wf_TenantID = tenantID, wf_SourceUID = sourceUID,
                 wf_RevisionID = revisionID, wf_OccurrenceKey = key, wf_Trigger = trig,
                 wf_Actor = actor, wf_Phase = ph, wf_TaskDecisions = [],
                 wf_CreatedAt = lg_clock l, wf_UpdatedAt = lg_clock l\<rparr>],
             lg_wrun_seq := lg_wrun_seq l + 1\<rparr>))"

text \<open>The projection a row is read with: the tenant is the caller's, not a column of it.\<close>

definition scanWorkflowRunRow :: "Run \<Rightarrow> Run" where
  "scanWorkflowRunRow row = row\<lparr>wf_TenantID := ''''\<rparr>"

definition wrun_by_occurrence :: "string \<Rightarrow> string \<Rightarrow> string \<Rightarrow> ledger \<Rightarrow> Run option" where
  "wrun_by_occurrence sourceUID key tenantID l = map_option scanWorkflowRunRow
     (find (\<lambda>w. wf_SourceUID w = sourceUID \<and> wf_OccurrenceKey w = key \<and> wf_TenantID w = tenantID)
        (lg_wruns l))"

definition wrun_by_id :: "string \<Rightarrow> int \<Rightarrow> ledger \<Rightarrow> Run option" where
  "wrun_by_id tenantID i l = find (\<lambda>w. wf_ID w = i \<and> wf_TenantID w = tenantID) (lg_wruns l)"

definition CreateRunForTenant :: "string \<Rightarrow> Run \<Rightarrow> (ledger, Run \<times> bool) io" where
  "CreateRunForTenant tenantID run =
     (if wf_SourceUID run = '''' \<or> wf_OccurrenceKey run = ''''
        then io_fail (Errorf ''workflow run identity is required'')
      else if wf_Trigger run = OtherTrigger '''' then io_fail (Errorf ''workflow run trigger is required'')
      else if wf_Phase run \<noteq> OtherWPhase '''' \<and> wf_Phase run \<noteq> PhasePending
        then io_fail (Errorf ''a workflow run is created in Pending'')
      else io_bind (io_lift (validateActor (wf_Actor run))) (\<lambda>_.
        withTenantTx tenantID
          (io_bind (insertWorkflowRunSQL tenantID (wf_SourceUID run) (wf_RevisionID run)
              (wf_OccurrenceKey run) (wf_Trigger run) (wf_Actor run) PhasePending) (\<lambda>inserted.
           io_bind (io_get (wrun_by_occurrence (wf_SourceUID run) (wf_OccurrenceKey run) tenantID)) (\<lambda>found.
           case found of
             None \<Rightarrow> io_fail (Wrapf ''read workflow run occurrence'' (DbError ''no rows''))
           | Some stored \<Rightarrow>
               if inserted = None then io_return (stored, False)
               else io_bind (insertControlPlaneAudit tenantID (wf_Actor run) auditEventWorkflowRunCreated
                      auditResourceWorkflowRun (itoa (wf_ID stored))
                      [(''source_uid'', JStr (wf_SourceUID run)), (''revision_id'', JInt (wf_RevisionID run)),
                       (''occurrence_key'', JStr (wf_OccurrenceKey run)),
                       (''trigger'', JStr (trigger_string (wf_Trigger run)))])
                    (\<lambda>_. io_return (stored, True)))))))"

definition WorkflowRunByOccurrence :: "string \<Rightarrow> string \<Rightarrow> string \<Rightarrow> (ledger, Run option) io" where
  "WorkflowRunByOccurrence tenantID sourceUID key =
     withTenantTx tenantID (io_get (wrun_by_occurrence sourceUID key tenantID))"

definition WorkflowRunByID :: "string \<Rightarrow> int \<Rightarrow> (ledger, Run option) io" where
  "WorkflowRunByID tenantID i =
     withTenantTx tenantID (io_get (\<lambda>l. map_option scanWorkflowRunRow (wrun_by_id tenantID i l)))"

definition WorkflowOpenRuns :: "string \<Rightarrow> (ledger, Run list) io" where
  "WorkflowOpenRuns tenantID = withTenantTx tenantID (io_get (\<lambda>l.
     map scanWorkflowRunRow (sort_key wf_ID
       (filter (\<lambda>w. wf_TenantID w = tenantID \<and> wf_Phase w \<notin> set terminalWorkflowPhases) (lg_wruns l)))))"

definition defaultRunPage :: int where "defaultRunPage = 50"

definition RunsForDefinition :: "string \<Rightarrow> string \<Rightarrow> int \<Rightarrow> int \<Rightarrow> (ledger, Run list) io" where
  "RunsForDefinition tenantID sourceUID limit offset =
     (let limit = (if limit < 1 then defaultRunPage else limit);
          offset = (if offset < 0 then 0 else offset)
      in withTenantTx tenantID (io_get (\<lambda>l.
           map scanWorkflowRunRow (take (nat limit) (drop (nat offset)
             (rev (sort_key wf_CreatedAt (sort_key wf_ID
               (filter (\<lambda>w. wf_TenantID w = tenantID \<and> wf_SourceUID w = sourceUID) (lg_wruns l)))))))))) "

subsection \<open>Steps\<close>

text \<open>A row read as a step: scanning a null grouping column into an integer fails.\<close>

definition scan_step :: "RunRow \<Rightarrow> StepRun result" where
  "scan_step row =
     (case rn_workflow row of
        None \<Rightarrow> Inl (DbError ''converting NULL to int64'')
      | Some w \<Rightarrow> Inr \<lparr>st_ID = rn_id row, st_WorkflowRunID = w, st_SourceUID = rn_source_uid row,
          st_RevisionID = rn_revision_id row, st_OccurrenceKey = rn_occurrence_key row,
          st_Trigger = rn_trigger row, st_Phase = rn_phase row, st_Attempt = rn_attempt row,
          st_CreatedAt = rn_created_at row, st_UpdatedAt = rn_updated_at row\<rparr>)"

fun scan_steps :: "RunRow list \<Rightarrow> StepRun list result" where
  "scan_steps [] = Inr []"
| "scan_steps (row # rows) = rbind (scan_step row) (\<lambda>st. rbind (scan_steps rows) (\<lambda>sts. Inr (st # sts)))"

definition step_rows :: "string \<Rightarrow> int \<Rightarrow> ledger \<Rightarrow> RunRow list" where
  "step_rows tenantID workflowRunID l =
     sort_key rn_id (filter (\<lambda>row. rn_workflow row = Some workflowRunID \<and> rn_tenant row = tenantID) (lg_runs l))"

definition Steps :: "string \<Rightarrow> int \<Rightarrow> (ledger, StepRun list) io" where
  "Steps tenantID workflowRunID = withTenantTx tenantID
     (io_bind (io_get (step_rows tenantID workflowRunID)) (\<lambda>rows. io_lift (scan_steps rows)))"

definition CreateStepForTenant ::
    "string \<Rightarrow> int \<Rightarrow> StepRun \<Rightarrow> int \<Rightarrow> string \<Rightarrow> (ledger, StepRun \<times> bool) io" where
  "CreateStepForTenant tenantID workflowRunID step maxAttempts actor =
     (if workflowRunID \<le> 0 then io_fail (Errorf ''workflow run id is required'')
      else if st_SourceUID step = '''' \<or> st_OccurrenceKey step = ''''
        then io_fail (Errorf ''step identity is required'')
      else if st_Trigger step \<noteq> Workflow
        then io_fail (Errorf ''a workflow step is created with trigger Workflow'')
      else if st_Phase step \<noteq> OtherPhase '''' \<and> st_Phase step \<noteq> Pending
        then io_fail (Errorf ''a step is created in Pending'')
      else io_bind (io_lift (validateActor actor)) (\<lambda>_.
        let maxAttempts = (if maxAttempts < 1 then 1 else maxAttempts) in
        withTenantTx tenantID
          (io_bind (io_get (wrun_by_id tenantID workflowRunID)) (\<lambda>known.
           case known of
             None \<Rightarrow> io_fail (NotFoundError auditResourceWorkflowRun)
           | Some _ \<Rightarrow>
           io_bind (insertOccurrenceSQL tenantID (st_SourceUID step) (st_RevisionID step)
              (st_OccurrenceKey step) (st_Trigger step) actor Pending maxAttempts None
              (Some workflowRunID)) (\<lambda>inserted.
           io_bind (io_get (\<lambda>l. find (\<lambda>row. rn_source_uid row = st_SourceUID step
               \<and> rn_occurrence_key row = st_OccurrenceKey step \<and> rn_tenant row = tenantID) (lg_runs l))) (\<lambda>row.
           io_bind (io_lift (wrap_result ''read step occurrence''
               (case row of None \<Rightarrow> Inl (DbError ''no rows'') | Some row \<Rightarrow> scan_step row))) (\<lambda>stored.
           if inserted = None then io_return (stored, False)
           else io_bind (insertControlPlaneAudit tenantID actor auditEventRunCreated auditResourceRun
                  (itoa (st_ID stored))
                  [(''source_uid'', JStr (st_SourceUID step)), (''revision_id'', JInt (st_RevisionID step)),
                   (''occurrence_key'', JStr (st_OccurrenceKey step)),
                   (''trigger'', JStr (trigger_string (st_Trigger step))),
                   (''workflow_run_id'', JInt workflowRunID)])
                (\<lambda>_. io_return (stored, True)))))))))"

subsection \<open>The phase and the decision trail\<close>

definition decisionsWouldChange :: "decisions \<Rightarrow> decisions \<Rightarrow> bool" where
  "decisionsWouldChange stored incoming =
     list_ex (\<lambda>(name, decision).
       (case map_of stored name of None \<Rightarrow> TaskDecision_zero | Some d \<Rightarrow> d) \<noteq> decision) incoming"

text \<open>\<open>task_decisions <> (task_decisions || incoming)\<close>.\<close>

definition decisions_differ :: "decisions \<Rightarrow> decisions \<Rightarrow> bool" where
  "decisions_differ a b = list_ex (\<lambda>k. map_of a k \<noteq> map_of b k) (map fst (a @ b))"

definition updateWorkflowPhaseSQL ::
    "int \<Rightarrow> string \<Rightarrow> wphase \<Rightarrow> decisions \<Rightarrow> time \<Rightarrow> (ledger, Run option) io" where
  "updateWorkflowPhaseSQL runID tenantID ph incoming now = (\<lambda>l.
     let hit = (\<lambda>w. wf_ID w = runID \<and> wf_TenantID w = tenantID
                 \<and> wf_Phase w \<notin> set terminalWorkflowPhases
                 \<and> (wf_Phase w \<noteq> ph
                    \<or> decisions_differ (wf_TaskDecisions w) (AList.merge (wf_TaskDecisions w) incoming)))
     in (Inr (find hit (lg_wruns l)),
         l\<lparr>lg_wruns := map (\<lambda>w. if hit w
             then w\<lparr>wf_Phase := ph, wf_TaskDecisions := AList.merge (wf_TaskDecisions w) incoming,
                    wf_UpdatedAt := now\<rparr>
             else w) (lg_wruns l)\<rparr>))"

definition UpdatePhase :: "time \<Rightarrow> string \<Rightarrow> int \<Rightarrow> wphase \<Rightarrow> decisions \<Rightarrow> (ledger, bool) io" where
  "UpdatePhase now tenantID runID ph decisions =
     (if ph = OtherWPhase '''' then io_fail (Errorf ''phase is required'')
      else withTenantTx tenantID
        (io_bind (updateWorkflowPhaseSQL runID tenantID ph decisions now) (\<lambda>written.
         case written of
           Some prior \<Rightarrow>
             if wf_Phase prior = ph
               then io_return (decisionsWouldChange (wf_TaskDecisions prior) decisions)
             else io_bind (insertControlPlaneAudit tenantID (wf_Actor prior)
                  auditEventWorkflowRunPhaseChanged auditResourceWorkflowRun (itoa runID)
                  [(''from_phase'', JStr (wphase_string (wf_Phase prior))),
                   (''to_phase'', JStr (wphase_string ph))])
                (\<lambda>_. io_return True)
         | None \<Rightarrow>
             io_bind (io_get (wrun_by_id tenantID runID)) (\<lambda>current.
             case current of
               None \<Rightarrow> io_fail (NotFoundError auditResourceWorkflowRun)
             | Some w \<Rightarrow>
                 if wf_Phase w = ph \<and> \<not> decisionsWouldChange (wf_TaskDecisions w) decisions
                   then io_return False
                 else if WTerminal (wf_Phase w) then io_fail (ConflictError auditResourceWorkflowRun)
                 else io_fail (Errorf ''workflow run phase write matched no row'')))))"

subsection \<open>Retention\<close>

record PrunableWorkflowRun =
  pw_ID :: int
  pw_OccurrenceKey :: string
  pw_Phase :: wphase

definition workflow_rank :: "Run list \<Rightarrow> Run \<Rightarrow> nat" where
  "workflow_rank rows w = 1 + length (filter (\<lambda>v. wf_Phase v = wf_Phase w \<and>
     (wf_CreatedAt w < wf_CreatedAt v \<or> wf_CreatedAt w = wf_CreatedAt v \<and> wf_ID w < wf_ID v)) rows)"

definition prunable_wruns :: "string \<Rightarrow> string \<Rightarrow> int \<Rightarrow> int \<Rightarrow> ledger \<Rightarrow> Run list" where
  "prunable_wruns tenantID sourceUID keepSuccessful keepFailed l =
     (let eligible = filter (\<lambda>w. wf_TenantID w = tenantID \<and> wf_SourceUID w = sourceUID
             \<and> wf_Phase w \<in> set workflowRetentionPhases) (lg_wruns l);
          keep = (\<lambda>w. if wf_Phase w = PhaseSucceeded then keepSuccessful else keepFailed)
      in sort_key wf_ID (filter (\<lambda>w. keep w < int (workflow_rank eligible w)) eligible))"

definition PrunableWorkflowRuns ::
    "string \<Rightarrow> string \<Rightarrow> int \<Rightarrow> int \<Rightarrow> (ledger, PrunableWorkflowRun list) io" where
  "PrunableWorkflowRuns tenantID sourceUID keepSuccessful keepFailed = withTenantTx tenantID
     (io_get (\<lambda>l. map (\<lambda>w. \<lparr>pw_ID = wf_ID w, pw_OccurrenceKey = wf_OccurrenceKey w, pw_Phase = wf_Phase w\<rparr>)
        (prunable_wruns tenantID sourceUID (max 0 keepSuccessful) (max 0 keepFailed) l)))"

definition pruneWorkflowStepsSQL :: "int \<Rightarrow> string \<Rightarrow> (ledger, RunRow list) io" where
  "pruneWorkflowStepsSQL runID tenantID = (\<lambda>l.
     let hit = (\<lambda>row. rn_workflow row = Some runID \<and> rn_tenant row = tenantID)
     in (Inr (filter hit (lg_runs l)), delete_runs hit l))"

text \<open>The foreign key restricts: a row that still has steps cannot go.\<close>

definition pruneWorkflowRowSQL :: "int \<Rightarrow> string \<Rightarrow> (ledger, Run option) io" where
  "pruneWorkflowRowSQL runID tenantID = (\<lambda>l.
     let hit = (\<lambda>w. wf_ID w = runID \<and> wf_TenantID w = tenantID \<and> wf_Phase w \<in> set workflowRetentionPhases)
     in if (\<exists>w \<in> set (lg_wruns l). hit w) \<and> (\<exists>row \<in> set (lg_runs l). rn_workflow row = Some runID)
          then (Inl (DbError ''foreign key''), l)
        else (Inr (find hit (lg_wruns l)), l\<lparr>lg_wruns := filter (\<lambda>w. \<not> hit w) (lg_wruns l)\<rparr>))"

definition PruneRun :: "string \<Rightarrow> int \<Rightarrow> (ledger, bool \<times> int) io" where
  "PruneRun tenantID runID = withTenantTx tenantID
     (io_bind (io_get (wrun_by_id tenantID runID)) (\<lambda>found.
      case found of
        None \<Rightarrow> io_return (False, 0)
      | Some w \<Rightarrow>
      if \<not> workflowRetentionPhasesContains (wf_Phase w) then io_return (False, 0)
      else io_bind (pruneWorkflowStepsSQL runID tenantID) (\<lambda>steps.
        io_bind (io_iter (\<lambda>row. insertControlPlaneAudit tenantID (rn_actor row) auditEventRunPruned
            auditResourceRun (itoa (rn_id row))
            [(''occurrence_key'', JStr (rn_occurrence_key row)),
             (''phase'', JStr (phase_string (rn_phase row))),
             (''workflow_run_id'', JInt runID)]) steps) (\<lambda>_.
        io_bind (pruneWorkflowRowSQL runID tenantID) (\<lambda>gone.
        case gone of
          None \<Rightarrow> io_fail (Errorf ''workflow run became unprunable'')
        | Some row \<Rightarrow>
            io_bind (insertControlPlaneAudit tenantID (wf_Actor row) auditEventWorkflowRunPruned
               auditResourceWorkflowRun (itoa runID)
               [(''occurrence_key'', JStr (wf_OccurrenceKey row)),
                (''phase'', JStr (wphase_string (wf_Phase row))),
                (''steps_deleted'', JInt (int (length steps)))])
              (\<lambda>_. io_return (True, int (length steps))))))))"

end
