(* ===== verification/Workflow_Ledger_Laws.thy ===== *)
theory Workflow_Ledger_Laws
  imports Workflow_Ledger
begin

section \<open>What the workflow ledger promises\<close>

text \<open>
  The workflow operations evolve the same ledger and keep its invariant: a terminal workflow
  row is final, the decision trail only gains tasks, a step belongs to a workflow of its own
  tenant, and the prune takes a row only together with every step that points to it.
\<close>

lemma in_terminalWorkflowPhases [simp]: "p \<in> set terminalWorkflowPhases \<longleftrightarrow> WTerminal p"
  by (auto simp: terminalWorkflowPhases_def WTerminal_def)

lemma in_workflowRetentionPhases [simp]:
  "p \<in> set workflowRetentionPhases \<longleftrightarrow> WTerminal p \<or> p = PhaseCancelUnknown"
  by (auto simp: workflowRetentionPhases_def)

lemma workflowRetentionPhasesContains_iff [simp]:
  "workflowRetentionPhasesContains p \<longleftrightarrow> WTerminal p \<or> p = PhaseCancelUnknown"
  using in_workflowRetentionPhases [of p]
  by (auto simp: workflowRetentionPhasesContains_def list_ex_iff simp del: in_workflowRetentionPhases)

lemma decisions_differ_iff: "decisions_differ a b \<longleftrightarrow> map_of a \<noteq> map_of b"
proof -
  have "map_of a k = map_of b k" if "k \<notin> set (map fst (a @ b))" for k
    using that by (metis (no_types, lifting) UnCI map_append map_of_eq_None_iff set_append set_map)
  then show ?thesis
    unfolding decisions_differ_def list_ex_iff fun_eq_iff by blast
qed

lemma dom_merge: "dom (map_of a) \<subseteq> dom (map_of (AList.merge a b))"
  by (auto simp: merge_conv')

subsection \<open>Evolution\<close>

lemma evolves_insertWorkflowRun [io_intros]:
  "io_keeps ledger_evolves (insertWorkflowRunSQL t s r k tr a p)"
  by (auto simp: io_keeps_def insertWorkflowRunSQL_def evolves_simps intro!: table_intros)

lemma evolves_updateWorkflowPhase [io_intros]:
  "io_keeps ledger_evolves (updateWorkflowPhaseSQL i t p d now)"
proof -
  have "wrun_evolves w (w\<lparr>wf_Phase := p, wf_TaskDecisions := AList.merge (wf_TaskDecisions w) d,
      wf_UpdatedAt := now\<rparr>)" if "\<not> WTerminal (wf_Phase w)" for w
    using that dom_merge [of "wf_TaskDecisions w" d] by (auto simp: wrun_evolves_def)
  then show ?thesis
    by (auto simp: io_keeps_def updateWorkflowPhaseSQL_def evolves_simps Let_def wrun_table.ev_refl
        intro!: table_intros)
qed

lemma evolves_pruneSteps [io_intros]: "io_keeps ledger_evolves (pruneWorkflowStepsSQL i t)"
  by (auto simp: io_keeps_def pruneWorkflowStepsSQL_def delete_runs_def evolves_simps Let_def
      intro!: table_intros)

lemma evolves_pruneRow [io_intros]: "io_keeps ledger_evolves (pruneWorkflowRowSQL i t)"
  by (auto simp: io_keeps_def pruneWorkflowRowSQL_def evolves_simps Let_def intro!: table_intros)

lemmas evolves_iter = io_keeps_iter [OF ledger_evolves_refl ledger_evolves_trans]

lemma evolves_CreateRun [io_intros]: "io_keeps ledger_evolves (CreateRunForTenant t r)"
  unfolding CreateRunForTenant_def withTenantTx_eq
  by (auto intro!: evolves_intros io_intros split: option.splits)

lemma evolves_CreateStep [io_intros]: "io_keeps ledger_evolves (CreateStepForTenant t w s m a)"
  unfolding CreateStepForTenant_def Let_def withTenantTx_eq
  by (auto intro!: evolves_intros io_intros split: option.splits)

lemma evolves_UpdatePhase [io_intros]: "io_keeps ledger_evolves (UpdatePhase now t i p d)"
  unfolding UpdatePhase_def withTenantTx_eq
  by (auto intro!: evolves_intros io_intros split: option.splits)

lemma evolves_PruneRun [io_intros]: "io_keeps ledger_evolves (PruneRun t i)"
  unfolding PruneRun_def withTenantTx_eq
  by (auto intro!: evolves_intros evolves_iter evolves_audit io_intros split: option.splits)

subsection \<open>The invariant\<close>

lemma wruns_wf_snoc:
  assumes "wruns_wf t revs sq rows" and "wf_ID w = sq" and "wf_TenantID w \<in> set t"
    and "wf_RevisionID w \<in> revs" and "0 < sq"
    and "\<forall>v \<in> set rows. (wf_SourceUID v, wf_OccurrenceKey v) \<noteq> (wf_SourceUID w, wf_OccurrenceKey w)"
  shows "wruns_wf t revs (sq + 1) (rows @ [w])"
  using assms by (force simp: wruns_wf_def)

lemma wf_insertWorkflowRun [io_intros]: "io_keeps wf_kept (insertWorkflowRunSQL t s r k tr a p)"
proof -
  have "ledger_wf (l\<lparr>lg_wruns := lg_wruns l @ [w], lg_wrun_seq := lg_wrun_seq l + 1\<rparr>)"
    if wf: "ledger_wf l" and w: "wf_ID w = lg_wrun_seq l" "wf_TenantID w \<in> set (lg_tenants l)"
      "wf_RevisionID w \<in> rev_ids (lg_revisions l)"
      "\<forall>v \<in> set (lg_wruns l). (wf_SourceUID v, wf_OccurrenceKey v) \<noteq> (wf_SourceUID w, wf_OccurrenceKey w)"
    for l w
  proof -
    have "wruns_wf (lg_tenants l) (rev_ids (lg_revisions l)) (lg_wrun_seq l + 1) (lg_wruns l @ [w])"
      using wf w by (intro wruns_wf_snoc) (auto simp: ledger_wf_def)
    with wf show ?thesis by (auto simp: ledger_wf_def wrun_ids_def elim!: runs_wf_mono)
  qed
  then show ?thesis
    by (auto simp: io_keeps_def insertWorkflowRunSQL_def rev_ids_def)
qed

lemma wf_updateWorkflowPhase [io_intros]: "io_keeps wf_kept (updateWorkflowPhaseSQL i t p d now)"
proof -
  have "ledger_wf (l\<lparr>lg_wruns := map f (lg_wruns l)\<rparr>)"
    if wf: "ledger_wf l" and f: "\<And>w. wf_ID (f w) = wf_ID w" "\<And>w. wf_TenantID (f w) = wf_TenantID w"
      "\<And>w. wf_SourceUID (f w) = wf_SourceUID w" "\<And>w. wf_OccurrenceKey (f w) = wf_OccurrenceKey w"
      "\<And>w. wf_RevisionID (f w) = wf_RevisionID w" for l f
  proof -
    have "wrun_ids (map f (lg_wruns l)) = wrun_ids (lg_wruns l)"
      by (simp add: wrun_ids_def image_image f)
    with wf show ?thesis by (simp add: ledger_wf_def wruns_wf_def comp_def f)
  qed
  then show ?thesis by (simp add: io_keeps_def updateWorkflowPhaseSQL_def Let_def)
qed

lemma wf_pruneSteps [io_intros]: "io_keeps wf_kept (pruneWorkflowStepsSQL i t)"
  by (simp add: io_keeps_def pruneWorkflowStepsSQL_def Let_def wf_delete_runs)

lemma wf_pruneRow [io_intros]: "io_keeps wf_kept (pruneWorkflowRowSQL i t)"
proof -
  let ?hit = "\<lambda>w. wf_ID w = i \<and> wf_TenantID w = t \<and> wf_Phase w \<in> set workflowRetentionPhases"
  have "ledger_wf (l\<lparr>lg_wruns := filter (\<lambda>w. \<not> ?hit w) (lg_wruns l)\<rparr>)"
    if wf: "ledger_wf l" and free: "\<not> ((\<exists>w \<in> set (lg_wruns l). ?hit w) \<and> (\<exists>row \<in> set (lg_runs l). rn_workflow row = Some i))" for l
  proof -
    have "(j, rn_tenant row) \<in> wrun_ids (filter (\<lambda>w. \<not> ?hit w) (lg_wruns l))"
      if "row \<in> set (lg_runs l)" "rn_workflow row = Some j" for row j
    proof -
      from wf that have "(j, rn_tenant row) \<in> wrun_ids (lg_wruns l)"
        by (simp add: ledger_wf_def runs_wf_def)
      then obtain w where "w \<in> set (lg_wruns l)" "j = wf_ID w" "rn_tenant row = wf_TenantID w"
        by (auto simp: wrun_ids_def)
      with free that show ?thesis by (auto simp: wrun_ids_def)
    qed
    then have "runs_wf (lg_tenants l) (rev_ids (lg_revisions l))
        (wrun_ids (filter (\<lambda>w. \<not> ?hit w) (lg_wruns l))) (lg_run_seq l) (lg_runs l)"
      using wf unfolding ledger_wf_def runs_wf_def by blast
    moreover have "wruns_wf (lg_tenants l) (rev_ids (lg_revisions l)) (lg_wrun_seq l)
        (filter (\<lambda>w. \<not> ?hit w) (lg_wruns l))"
      using wf unfolding ledger_wf_def wruns_wf_def by (simp add: distinct_map_filterI)
    ultimately show ?thesis using wf by (simp add: ledger_wf_def)
  qed
  then show ?thesis by (auto simp: io_keeps_def pruneWorkflowRowSQL_def Let_def)
qed

lemmas wf_iter = io_keeps_iter [OF wf_store.R_refl wf_store.R_trans]

lemma wf_CreateRun [io_intros]: "io_keeps wf_kept (CreateRunForTenant t r)"
  unfolding CreateRunForTenant_def withTenantTx_eq
  by (auto intro!: wf_intros io_intros split: option.splits)

lemma wf_UpdatePhase [io_intros]: "io_keeps wf_kept (UpdatePhase now t i p d)"
  unfolding UpdatePhase_def withTenantTx_eq
  by (auto intro!: wf_intros io_intros split: option.splits)

lemma wf_PruneRun [io_intros]: "io_keeps wf_kept (PruneRun t i)"
  unfolding PruneRun_def withTenantTx_eq
  by (auto intro!: wf_intros wf_iter wf_audit io_intros split: option.splits)

lemma wf_insert_step:
  assumes wf: "ledger_wf l" and w: "wrun_by_id t i l \<noteq> None" and m: "1 \<le> m"
  shows "ledger_wf (snd (insertOccurrenceSQL t s r k tr a p m sc (Some i) l))"
proof -
  from w have run: "(i, t) \<in> wrun_ids (lg_wruns l)"
    by (auto simp: wrun_by_id_def find_None_iff wrun_ids_def)
  obtain x l' where out: "insertOccurrenceSQL t s r k tr a p m sc (Some i) l = (x, l')"
    by (cases "insertOccurrenceSQL t s r k tr a p m sc (Some i) l")
  show ?thesis
  proof (cases x)
    case (Inl e)
    with out wf show ?thesis by (auto simp: insertOccurrenceSQL_def split: if_splits)
  next
    case (Inr y)
    from wf_insertOccurrence [OF wf out [unfolded Inr] m] run out show ?thesis by simp
  qed
qed

lemma wf_step_transaction:
  assumes n: "1 \<le> n" and f: "\<And>x. io_keeps wf_kept (f x)"
  shows "io_keeps wf_kept (withTenantTx t (io_bind (io_get (wrun_by_id t i)) (\<lambda>known.
      case known of None \<Rightarrow> io_fail e | Some _ \<Rightarrow>
        io_bind (insertOccurrenceSQL t su r k tr a p n sc (Some i)) f)))"
  unfolding withTenantTx_eq
proof (rule wf_store.keeps_transaction, unfold io_keeps_def, intro allI impI)
  fix l
  assume wf: "ledger_wf l"
  let ?ins = "insertOccurrenceSQL t su r k tr a p n sc (Some i)"
  show "ledger_wf (snd (io_bind (io_get (wrun_by_id t i)) (\<lambda>known.
      case known of None \<Rightarrow> io_fail e | Some _ \<Rightarrow> io_bind ?ins f) l))"
  proof (cases "wrun_by_id t i l")
    case None
    with wf show ?thesis by (simp add: io_simps io_get_def)
  next
    case (Some w)
    then have "ledger_wf (snd (?ins l))" using wf_insert_step [OF wf _ n] by simp
    moreover obtain x l' where "?ins l = (x, l')" by (cases "?ins l")
    ultimately show ?thesis using Some io_keepsD [OF f, of l']
      by (auto simp: io_simps io_get_def split: sum.splits)
  qed
qed

lemma wf_CreateStep [io_intros]: "io_keeps wf_kept (CreateStepForTenant t i s m a)"
  unfolding CreateStepForTenant_def Let_def
  by (auto intro!: wf_step_transaction wf_store.keeps_bind wf_store.keeps_pure wf_store.keeps_get
      wf_audit split: option.splits simp del: option.case)

end
