(* ===== verification/Ledger_Facts.thy ===== *)
theory Ledger_Facts
  imports Workflow_Ledger_Laws
begin

section \<open>What a caller of the ledger can rely on\<close>

text \<open>
  The functional behaviour of the operations: a failed operation leaves the ledger as it was,
  no operation touches another tenant's rows, what each write stores and returns on its
  branches, and the convergence of replayed writes.
\<close>

subsection \<open>Atomicity\<close>

definition io_atomic :: "('w, 'a) io \<Rightarrow> bool" where
  "io_atomic m \<longleftrightarrow> (\<forall>w e w'. m w = (Inl e, w') \<longrightarrow> w' = w)"

lemma io_atomicD: "io_atomic m \<Longrightarrow> m w = (Inl e, w') \<Longrightarrow> w' = w"
  by (simp add: io_atomic_def)

lemma atomic_pure [io_intros]: "io_atomic (io_return a)" "io_atomic (io_fail e)" "io_atomic (io_lift r)"
  by (auto simp: io_atomic_def io_simps)

lemma atomic_lift_bind [io_intros]: "(\<And>a. io_atomic (f a)) \<Longrightarrow> io_atomic (io_bind (io_lift r) f)"
  by (cases r) (auto simp: atomic_pure)

lemma atomic_transaction [io_intros]: "io_atomic (WithTenantTransaction t fn)"
  by (auto simp: io_atomic_def WithTenantTransaction_eq split: prod.splits sum.splits)

lemma atomic_operations:
  "io_atomic (ApplyRevisionForTenant j t r)" "io_atomic (CreateOccurrenceForTenant t run m a)"
  "io_atomic (UpdateRunPhase now t i p n)" "io_atomic (DeleteRun t i)"
  "io_atomic (CreateAttemptForTenant now t i att p)" "io_atomic (UpdateAttemptPhase now t job ph u v)"
  "io_atomic (CreateRunForTenant t wrun)" "io_atomic (CreateStepForTenant t i s m a)"
  "io_atomic (UpdatePhase now t i wp d)" "io_atomic (PruneRun t i)"
  unfolding ApplyRevisionForTenant_def CreateOccurrenceForTenant_def UpdateRunPhase_def DeleteRun_def
    CreateAttemptForTenant_def UpdateAttemptPhase_def CreateRunForTenant_def CreateStepForTenant_def
    UpdatePhase_def PruneRun_def withTenantTx_eq Let_def
  by (auto intro!: io_intros)

lemma transaction_InrD: "WithTenantTransaction t fn l = (Inr a, m) \<Longrightarrow> t \<noteq> [] \<and> fn l = (Inr a, m)"
  by (auto simp: WithTenantTransaction_eq WithTenant_def io_simps split: prod.splits sum.splits if_splits)

lemma transaction_apply:
  "t \<noteq> [] \<Longrightarrow> fn l = (Inr a, m) \<Longrightarrow> WithTenantTransaction t fn l = (Inr a, m)"
  "t \<noteq> [] \<Longrightarrow> fn l = (Inl e, m) \<Longrightarrow> WithTenantTransaction t fn l = (Inl e, l)"
  by (simp_all add: WithTenantTransaction_eq WithTenant_def io_simps)

lemma transaction_eval:
  "t \<noteq> [] \<Longrightarrow> WithTenantTransaction t fn l =
     (case fn l of (Inl e, _) \<Rightarrow> (Inl e, l) | (Inr a, m) \<Rightarrow> (Inr a, m))"
  by (simp add: WithTenantTransaction_eq WithTenant_def io_simps)

lemma audit_apply:
  assumes "t \<in> set (lg_tenants l)"
  obtains a where "insertControlPlaneAudit t actor e r i d l = (Inr (), l\<lparr>lg_audit := lg_audit l @ [a]\<rparr>)"
    and "au_tenant a = t" and "au_event a = e" and "au_resource_id a = i"
  using assms by (auto simp: insertControlPlaneAudit_def)

subsection \<open>Tenant isolation\<close>

text \<open>The rows of every other tenant, in every table, are the ones before the call.\<close>

definition tenant_frame :: "string \<Rightarrow> ledger \<Rightarrow> ledger \<Rightarrow> bool" where
  "tenant_frame t l m \<longleftrightarrow>
     filter (\<lambda>r. rn_tenant r \<noteq> t) (lg_runs m) = filter (\<lambda>r. rn_tenant r \<noteq> t) (lg_runs l) \<and>
     filter (\<lambda>a. ta_tenant a \<noteq> t) (lg_attempts m) = filter (\<lambda>a. ta_tenant a \<noteq> t) (lg_attempts l) \<and>
     filter (\<lambda>r. vr_tenant r \<noteq> t) (lg_revisions m) = filter (\<lambda>r. vr_tenant r \<noteq> t) (lg_revisions l) \<and>
     filter (\<lambda>w. wf_TenantID w \<noteq> t) (lg_wruns m) = filter (\<lambda>w. wf_TenantID w \<noteq> t) (lg_wruns l) \<and>
     filter (\<lambda>a. au_tenant a \<noteq> t) (lg_audit m) = filter (\<lambda>a. au_tenant a \<noteq> t) (lg_audit l)"

interpretation frame: store_guarantee "tenant_frame t" for t
  by unfold_locales (auto simp: reflp_def transp_def tenant_frame_def)

interpretation wf_frame: store_guarantee "\<lambda>l m. ledger_wf l \<longrightarrow> ledger_wf m \<and> tenant_frame t l m" for t
  using frame.R_refl [of t] frame.R_trans [of t]
  by unfold_locales (auto simp: reflp_def transp_def)

lemma filter_map_other:
  "(\<And>r. r \<in> set rows \<Longrightarrow> P (f r) \<longleftrightarrow> P r) \<Longrightarrow> (\<And>r. r \<in> set rows \<Longrightarrow> P r \<Longrightarrow> f r = r)
   \<Longrightarrow> filter P (map f rows) = filter P rows"
  by (induction rows) auto

lemmas frame_simps = io_keeps_def tenant_frame_def Let_def

lemma frame_audit: "io_keeps (tenant_frame t) (insertControlPlaneAudit t a e r i d)"
  by (auto simp: frame_simps insertControlPlaneAudit_def intro!: filter_map_other split: option.splits if_splits)

lemma frame_applyRevision: "io_keeps (tenant_frame t) (applyRevisionSQL j t rv)"
  by (auto simp: frame_simps applyRevisionSQL_def intro!: filter_map_other split: option.splits if_splits)

lemma frame_deactivate: "io_keeps (tenant_frame t) (deactivateRevisionsSQL mo u t n)"
  by (auto simp: frame_simps deactivateRevisionsSQL_def intro!: filter_map_other split: option.splits if_splits)

lemma frame_activate: "io_keeps (tenant_frame t) (activateRevisionSQL n t)"
  by (auto simp: frame_simps activateRevisionSQL_def intro!: filter_map_other split: option.splits if_splits)

lemma frame_insertOccurrence: "io_keeps (tenant_frame t) (insertOccurrenceSQL t s rid k tr a p mx sc w)"
  by (auto simp: frame_simps insertOccurrenceSQL_def intro!: filter_map_other split: option.splits if_splits)

lemma frame_updateRunPhase: "io_keeps (tenant_frame t) (updateRunPhaseSQL rid t p n now)"
  by (auto simp: frame_simps updateRunPhaseSQL_def intro!: filter_map_other split: option.splits if_splits)

lemma frame_advanceRun: "io_keeps (tenant_frame t) (advanceRunForAttemptSQL p n now rid t)"
  by (auto simp: frame_simps advanceRunForAttemptSQL_def intro!: filter_map_other split: option.splits if_splits)

lemma frame_attempts_map:
  "tenant_frame t l (l\<lparr>lg_attempts := map (\<lambda>b. if ta_id b = i \<and> ta_tenant b = t
     then b\<lparr>ta_phase := f b, ta_resource_version := g b, ta_completed_at := h b\<rparr> else b) (lg_attempts l)\<rparr>)"
  by (auto simp: tenant_frame_def intro!: filter_map_other split: if_splits)

lemma frame_attempts_version:
  "tenant_frame t l (l\<lparr>lg_attempts := map (\<lambda>b. if ta_id b = i \<and> ta_tenant b = t
     then b\<lparr>ta_resource_version := g b\<rparr> else b) (lg_attempts l)\<rparr>)"
  by (auto simp: tenant_frame_def intro!: filter_map_other split: if_splits)

lemma frame_attempts_add:
  "ta_tenant a = t \<Longrightarrow> tenant_frame t l (l\<lparr>lg_attempts := lg_attempts l @ [a], lg_att_seq := s\<rparr>)"
  by (simp add: tenant_frame_def)

lemma frame_insertAttempt: "io_keeps (tenant_frame t) (insertAttemptSQL t rid att)"
  using frame.R_refl [of t]
  by (auto simp: io_keeps_def insertAttemptSQL_def reflp_def split: option.split
      intro: frame_attempts_version frame_attempts_add simp del: if_split split: if_splits)

lemma frame_updateAttempt: "io_keeps (tenant_frame t) (updateAttemptPhaseSQL job t ph u v b now)"
  using frame.R_refl [of t]
  by (auto simp: io_keeps_def updateAttemptPhaseSQL_def reflp_def intro: frame_attempts_map split: option.split)

lemma frame_insertWorkflowRun: "io_keeps (tenant_frame t) (insertWorkflowRunSQL t s rid k tr a wp)"
  by (auto simp: frame_simps insertWorkflowRunSQL_def intro!: filter_map_other split: option.splits if_splits)

lemma frame_updateWorkflowPhase: "io_keeps (tenant_frame t) (updateWorkflowPhaseSQL n t wp dc now)"
  by (auto simp: frame_simps updateWorkflowPhaseSQL_def intro!: filter_map_other split: option.splits if_splits)

lemmas frame_statements = frame_audit frame_applyRevision frame_deactivate frame_activate frame_insertOccurrence frame_updateRunPhase frame_advanceRun frame_insertAttempt frame_updateAttempt frame_insertWorkflowRun frame_updateWorkflowPhase

lemma frame_delete_runs:
  assumes wf: "ledger_wf l" and hit: "\<And>r. hit r \<Longrightarrow> rn_tenant r = t"
  shows "tenant_frame t l (delete_runs hit l)"
proof -
  have "ta_tenant a = t"
    if "a \<in> set (lg_attempts l)" "ta_run a \<in> rn_id ` set (filter hit (lg_runs l))" for a
  proof -
    from that(2) obtain r where r: "r \<in> set (lg_runs l)" "hit r" "ta_run a = rn_id r" by auto
    from wf that(1) obtain s where s: "s \<in> set (lg_runs l)" "ta_run a = rn_id s" "ta_tenant a = rn_tenant s"
      by (auto simp: ledger_wf_def attempts_wf_def run_ids_def)
    from wf have "distinct (map rn_id (lg_runs l))" by (simp add: ledger_wf_def runs_wf_def)
    with r s have "r = s" by (metis distinct_map inj_onD)
    with r s hit show ?thesis by simp
  qed
  then have "filter (\<lambda>a. ta_tenant a \<noteq> t \<and> ta_run a \<notin> rn_id ` set (filter hit (lg_runs l))) (lg_attempts l)
      = filter (\<lambda>a. ta_tenant a \<noteq> t) (lg_attempts l)"
    by (intro filter_cong) auto
  moreover have "filter (\<lambda>r. rn_tenant r \<noteq> t \<and> \<not> hit r) (lg_runs l) = filter (\<lambda>r. rn_tenant r \<noteq> t) (lg_runs l)"
    using hit by (intro filter_cong) auto
  ultimately show ?thesis
    by (simp add: tenant_frame_def delete_runs_def conj_commute)
qed

lemma wf_frame_lift:
  "io_keeps wf_kept m \<Longrightarrow> io_keeps (tenant_frame t) m \<Longrightarrow>
   io_keeps (\<lambda>l m. ledger_wf l \<longrightarrow> ledger_wf m \<and> tenant_frame t l m) m"
  by (simp add: io_keeps_def)

lemma wf_frame_deletes:
  "io_keeps (\<lambda>l m. ledger_wf l \<longrightarrow> ledger_wf m \<and> tenant_frame t l m) (deleteRunSQL i t)"
  "io_keeps (\<lambda>l m. ledger_wf l \<longrightarrow> ledger_wf m \<and> tenant_frame t l m) (pruneWorkflowStepsSQL i t)"
  by (auto simp: io_keeps_def deleteRunSQL_def pruneWorkflowStepsSQL_def Let_def wf_delete_runs
      intro!: frame_delete_runs)

lemma frame_pruneRow: "io_keeps (tenant_frame t) (pruneWorkflowRowSQL i t)"
  by (auto simp: io_keeps_def tenant_frame_def pruneWorkflowRowSQL_def Let_def intro!: filter_cong)

lemmas frame_intros = frame.keeps_transaction frame.keeps_bind frame.keeps_pure frame.keeps_get

lemmas wf_frame_intros = wf_frame.keeps_transaction wf_frame.keeps_bind wf_frame.keeps_pure
  wf_frame.keeps_get wf_frame_deletes io_keeps_iter [OF wf_frame.R_refl wf_frame.R_trans]
  wf_frame_lift [OF wf_audit frame_statements(1)] wf_frame_lift [OF wf_pruneRow frame_pruneRow]

lemma frame_project: "io_keeps (tenant_frame t) (project_generation j t r)"
  unfolding project_generation_def
  by (auto intro!: frame_intros frame_statements split: option.splits prod.splits)

lemma frame_operations:
  "io_keeps (tenant_frame t) (ApplyRevisionForTenant j t r)"
  "io_keeps (tenant_frame t) (CreateOccurrenceForTenant t run m a)"
  "io_keeps (tenant_frame t) (UpdateRunPhase now t i p n)"
  "io_keeps (tenant_frame t) (CreateAttemptForTenant now t i att p)"
  "io_keeps (tenant_frame t) (UpdateAttemptPhase now t job ph u v)"
  "io_keeps (tenant_frame t) (CreateRunForTenant t wrun)"
  "io_keeps (tenant_frame t) (CreateStepForTenant t i s m a)"
  "io_keeps (tenant_frame t) (UpdatePhase now t i wp d)"
  unfolding ApplyRevisionForTenant_def CreateOccurrenceForTenant_def UpdateRunPhase_def
    CreateAttemptForTenant_def UpdateAttemptPhase_def CreateRunForTenant_def CreateStepForTenant_def
    UpdatePhase_def withTenantTx_eq Let_def
  by (auto intro!: frame_intros frame_statements frame_project split: option.splits prod.splits)

lemma frame_removals:
  "io_keeps (\<lambda>l m. ledger_wf l \<longrightarrow> ledger_wf m \<and> tenant_frame t l m) (DeleteRun t i)"
  "io_keeps (\<lambda>l m. ledger_wf l \<longrightarrow> ledger_wf m \<and> tenant_frame t l m) (PruneRun t i)"
  unfolding DeleteRun_def PruneRun_def withTenantTx_eq
  by (auto intro!: wf_frame_intros split: option.splits)

end
