(* ===== verification/Ledger_Behaviour.thy ===== *)
theory Ledger_Behaviour
  imports Ledger_Facts
begin

section \<open>The ledger's operations, branch by branch\<close>

text \<open>
  What each write returns and stores, from a well-formed ledger: occurrences converge on one
  row, a terminal run refuses every different write, an attempt and the counter that names it
  commit together, a revision is projected once and read back unchanged, and retention keeps
  the newest runs of each outcome.
\<close>

lemma find_unique:
  assumes "distinct (map f xs)" and "x \<in> set xs" and "P x" and "\<And>y. y \<in> set xs \<Longrightarrow> P y \<Longrightarrow> f y = f x"
  shows "find P xs = Some x"
proof (cases "find P xs")
  case None
  with assms show ?thesis by (auto simp: find_None_iff)
next
  case (Some y)
  then have "y \<in> set xs" "P y" by (auto simp: find_Some_iff)
  with assms have "y = x" by (metis distinct_map inj_onD)
  with Some show ?thesis by simp
qed

lemma distinct_map_eq: "distinct (map f xs) \<Longrightarrow> x \<in> set xs \<Longrightarrow> y \<in> set xs \<Longrightarrow> f x = f y \<Longrightarrow> x = y"
  by (metis distinct_map inj_onD)

lemma find_SomeD: "find P xs = Some x \<Longrightarrow> x \<in> set xs \<and> P x"
  by (auto simp: find_Some_iff)

subsection \<open>Occurrences\<close>

definition stored_of :: "RunRow \<Rightarrow> StoredRun" where
  "stored_of row = StoredRun_zero\<lparr>sr_ID := rn_id row, sr_RevisionID := rn_revision_id row,
     sr_Phase := rn_phase row, sr_Attempt := rn_attempt row, sr_MaxAttempts := rn_max_attempts row,
     sr_ScheduledFor := null_time (rn_scheduled_for row)\<rparr>"

lemma scanStoredRun_row:
  assumes "ledger_wf l" and "row \<in> set (lg_runs l)"
  shows "scanStoredRun (rn_tenant row) (rn_source_uid row) (rn_occurrence_key row) l = Some (stored_of row)"
proof -
  have "find (\<lambda>r. rn_source_uid r = rn_source_uid row \<and> rn_occurrence_key r = rn_occurrence_key row
      \<and> rn_tenant r = rn_tenant row) (lg_runs l) = Some row"
    using assms by (intro find_unique [where f = "\<lambda>r. (rn_source_uid r, rn_occurrence_key r)"])
      (auto simp: ledger_wf_def runs_wf_def)
  then show ?thesis by (simp add: scanStoredRun_def stored_of_def)
qed

text \<open>What the caller has to pass for a run to be recorded under revision \<open>rid\<close>.\<close>

definition creatable :: "JobRun \<Rightarrow> string \<Rightarrow> int \<Rightarrow> bool" where
  "creatable run actor rid \<longleftrightarrow> jr_SourceUID run \<noteq> [] \<and> jr_OccurrenceKey run \<noteq> [] \<and>
     (jr_Phase run = OtherPhase [] \<or> jr_Phase run = Pending) \<and> validateActor actor = Inr () \<and>
     parse_int64 (jr_RevisionID run) = Inr rid"

lemma CreateOccurrence_existing:
  assumes wf: "ledger_wf l" and t: "t \<noteq> []" and ok: "creatable run actor rid"
    and row: "row \<in> set (lg_runs l)" "rn_tenant row = t" "rn_source_uid row = jr_SourceUID run"
      "rn_occurrence_key row = jr_OccurrenceKey run"
  shows "CreateOccurrenceForTenant t run m actor l = (Inr (stored_of row, False), l)"
proof -
  have ins: "insertOccurrenceSQL t (jr_SourceUID run) rid (jr_OccurrenceKey run) tr a p n sc w l = (Inr None, l)"
    for tr a p n sc w using row by (auto simp: insertOccurrenceSQL_def)
  have "scanStoredRun t (jr_SourceUID run) (jr_OccurrenceKey run) l = Some (stored_of row)"
    using scanStoredRun_row [OF wf row(1)] row by simp
  with ok t ins show ?thesis
    by (auto simp: CreateOccurrenceForTenant_def creatable_def Let_def io_simps io_get_def
        intro!: transaction_apply)
qed

text \<open>The key is another tenant's: refused, and nothing of the other tenant is shown.\<close>

lemma CreateOccurrence_foreign:
  assumes wf: "ledger_wf l" and t: "t \<noteq> []" and ok: "creatable run actor rid"
    and row: "row \<in> set (lg_runs l)" "rn_tenant row \<noteq> t" "rn_source_uid row = jr_SourceUID run"
      "rn_occurrence_key row = jr_OccurrenceKey run"
  shows "CreateOccurrenceForTenant t run m actor l = (Inl (Wrapf ''read occurrence'' (DbError ''no rows'')), l)"
proof -
  have ins: "insertOccurrenceSQL t (jr_SourceUID run) rid (jr_OccurrenceKey run) tr a p n sc w l = (Inr None, l)"
    for tr a p n sc w using row by (auto simp: insertOccurrenceSQL_def)
  have none: "find (\<lambda>r. rn_source_uid r = jr_SourceUID run \<and> rn_occurrence_key r = jr_OccurrenceKey run
      \<and> rn_tenant r = t) (lg_runs l) = None"
  proof -
    have "r = row" if "r \<in> set (lg_runs l)" "rn_source_uid r = jr_SourceUID run"
        "rn_occurrence_key r = jr_OccurrenceKey run" for r
    proof -
      from wf have "distinct (map (\<lambda>r. (rn_source_uid r, rn_occurrence_key r)) (lg_runs l))"
        by (simp add: ledger_wf_def runs_wf_def)
      from distinct_map_eq [OF this that(1) row(1)] that row show ?thesis by simp
    qed
    with row(2) show ?thesis by (auto simp: find_None_iff)
  qed
  with ok t ins show ?thesis
    by (auto simp: CreateOccurrenceForTenant_def creatable_def Let_def io_simps io_get_def scanStoredRun_def
        intro!: transaction_apply)
qed

lemma CreateOccurrence_fresh:
  assumes wf: "ledger_wf l" and t: "t \<noteq> []" "t \<in> set (lg_tenants l)" and ok: "creatable run actor rid"
    and rid: "rid \<in> rev_ids (lg_revisions l)"
    and new: "\<forall>row \<in> set (lg_runs l). (rn_source_uid row, rn_occurrence_key row)
                                       \<noteq> (jr_SourceUID run, jr_OccurrenceKey run)"
  obtains row l' where "CreateOccurrenceForTenant t run m actor l = (Inr (stored_of row, True), l')"
    and "lg_runs l' = lg_runs l @ [row]" and "length (lg_audit l') = length (lg_audit l) + 1"
    and "rn_id row = lg_run_seq l" and "rn_tenant row = t" and "rn_source_uid row = jr_SourceUID run"
    and "rn_occurrence_key row = jr_OccurrenceKey run" and "rn_revision_id row = rid"
    and "rn_phase row = Pending" and "rn_attempt row = 0" and "rn_max_attempts row = max 1 m"
    and "rn_actor row = actor"
proof -
  let ?n = "if m < 1 then 1 else m"
  let ?sc = "if time_IsZero (jr_ScheduledFor run) then None else Some (jr_ScheduledFor run)"
  obtain row where ins: "insertOccurrenceSQL t (jr_SourceUID run) rid (jr_OccurrenceKey run) (jr_Trigger run)
        actor Pending ?n ?sc None l
      = (Inr (Some (lg_run_seq l)), l\<lparr>lg_runs := lg_runs l @ [row], lg_run_seq := lg_run_seq l + 1\<rparr>)"
    and row: "rn_id row = lg_run_seq l" "rn_tenant row = t" "rn_source_uid row = jr_SourceUID run"
      "rn_occurrence_key row = jr_OccurrenceKey run" "rn_revision_id row = rid" "rn_phase row = Pending"
      "rn_attempt row = 0" "rn_max_attempts row = ?n" "rn_actor row = actor"
    using t rid new by (auto simp: insertOccurrenceSQL_def rev_ids_def)
  define l1 where "l1 = l\<lparr>lg_runs := lg_runs l @ [row], lg_run_seq := lg_run_seq l + 1\<rparr>"
  have "ledger_wf l1" using wf_insertOccurrence [OF wf ins] unfolding l1_def by simp
  then have "scanStoredRun t (jr_SourceUID run) (jr_OccurrenceKey run) l1 = Some (stored_of row)"
    using scanStoredRun_row [of l1 row] row by (simp add: l1_def)
  with ok t ins have "CreateOccurrenceForTenant t run m actor l = (Inr (stored_of row, True),
      l1\<lparr>lg_audit := lg_audit l @ [\<lparr>au_tenant = t, au_actor = (if actor = [] then None else Some actor),
         au_event = auditEventRunCreated, au_resource = auditResourceRun,
         au_resource_id = itoa (sr_ID (stored_of row)),
         au_diff = [(''source_uid'', JStr (jr_SourceUID run)), (''revision_id'', JInt rid),
                    (''occurrence_key'', JStr (jr_OccurrenceKey run)),
                    (''trigger'', JStr (trigger_string (jr_Trigger run)))]\<rparr>]\<rparr>)"
    by (auto simp: CreateOccurrenceForTenant_def creatable_def Let_def io_simps io_get_def l1_def
        insertControlPlaneAudit_def intro!: transaction_apply)
  then show thesis using row by (intro that) (auto simp: l1_def)
qed

subsection \<open>The phase of a run\<close>

lemma run_by_id_row:
  assumes "ledger_wf l" and "row \<in> set (lg_runs l)"
  shows "run_by_id (rn_tenant row) (rn_id row) l = Some row"
  unfolding run_by_id_def using assms
  by (intro find_unique [where f = rn_id]) (auto simp: ledger_wf_def runs_wf_def)

text \<open>No row is hit: the statement changes nothing.\<close>

lemma updateRunPhase_skip:
  assumes "\<And>row. row \<in> set (lg_runs l) \<Longrightarrow> rn_id row = i \<Longrightarrow> rn_tenant row = t
      \<Longrightarrow> rn_phase row = p \<and> rn_attempt row = n \<or> Terminal (rn_phase row)"
  shows "updateRunPhaseSQL i t p n now l = (Inr None, l)"
proof -
  let ?hit = "\<lambda>row. rn_id row = i \<and> rn_tenant row = t \<and> (rn_phase row \<noteq> p \<or> rn_attempt row \<noteq> n)
    \<and> rn_phase row \<notin> set terminalPhases"
  have no: "\<not> ?hit row" if "row \<in> set (lg_runs l)" for row using assms [OF that] by auto
  then have "find ?hit (lg_runs l) = None" by (simp add: find_None_iff)
  moreover have "map (\<lambda>row. if ?hit row then row\<lparr>rn_phase := p, rn_attempt := n, rn_updated_at := now\<rparr> else row)
      (lg_runs l) = lg_runs l"
    by (rule map_idI, rule if_not_P, rule no)
  moreover have "\<not> (n < 0 \<and> (\<exists>row \<in> set (lg_runs l). ?hit row))" using no by blast
  ultimately show ?thesis unfolding updateRunPhaseSQL_def Let_def by simp
qed

lemma run_by_id_unique:
  assumes "ledger_wf l" and "run_by_id t i l = Some row" and "r \<in> set (lg_runs l)" and "rn_id r = i"
  shows "r = row"
proof -
  from assms(2) have "row \<in> set (lg_runs l)" "rn_id row = i" by (auto simp: run_by_id_def dest: find_SomeD)
  with assms show ?thesis by (auto simp: ledger_wf_def runs_wf_def intro: distinct_map_eq)
qed

lemma UpdateRunPhase_missing:
  assumes "t \<noteq> []" and "run_by_id t i l = None"
  shows "UpdateRunPhase now t i p n l = (Inl (NotFoundError ''job_run''), l)"
proof -
  have "updateRunPhaseSQL i t p n now l = (Inr None, l)"
    using assms(2) by (intro updateRunPhase_skip) (auto simp: run_by_id_def find_None_iff)
  with assms show ?thesis
    by (auto simp: UpdateRunPhase_def io_simps io_get_def intro!: transaction_apply)
qed

lemma UpdateRunPhase_terminal:
  assumes "ledger_wf l" and "t \<noteq> []" and row: "run_by_id t i l = Some row" and "Terminal (rn_phase row)"
  shows "UpdateRunPhase now t i p n l =
    ((if rn_phase row = p \<and> rn_attempt row = n then Inr False else Inl ErrRunTerminal), l)"
proof -
  have "updateRunPhaseSQL i t p n now l = (Inr None, l)"
    using assms run_by_id_unique [OF assms(1) row] by (intro updateRunPhase_skip) auto
  with assms show ?thesis
    by (auto simp: UpdateRunPhase_def io_simps io_get_def intro!: transaction_apply)
qed

lemma UpdateRunPhase_same:
  assumes "ledger_wf l" and "t \<noteq> []" and row: "run_by_id t i l = Some row"
    and "rn_phase row = p" and "rn_attempt row = n"
  shows "UpdateRunPhase now t i p n l = (Inr False, l)"
proof -
  have "updateRunPhaseSQL i t p n now l = (Inr None, l)"
    using assms run_by_id_unique [OF assms(1) row] by (intro updateRunPhase_skip) auto
  with assms show ?thesis
    by (auto simp: UpdateRunPhase_def io_simps io_get_def intro!: transaction_apply)
qed

lemma find_map_other:
  "(\<And>x. x \<in> set xs \<Longrightarrow> P (f x) \<longleftrightarrow> P x) \<Longrightarrow> find P (map f xs) = map_option f (find P xs)"
  by (induction xs) auto

lemma UpdateRunPhase_writes:
  assumes wf: "ledger_wf l" and t: "t \<noteq> []" "t \<in> set (lg_tenants l)" and row: "run_by_id t i l = Some row"
    and live: "\<not> Terminal (rn_phase row)" and new: "rn_phase row \<noteq> p \<or> rn_attempt row \<noteq> n" and n: "0 \<le> n"
  obtains l' where "UpdateRunPhase now t i p n l = (Inr (rn_phase row \<noteq> p), l')"
    and "run_by_id t i l' = Some (row\<lparr>rn_phase := p, rn_attempt := n, rn_updated_at := now\<rparr>)"
    and "length (lg_audit l') = length (lg_audit l) + 1"
    and "filter (\<lambda>r. rn_id r \<noteq> i) (lg_runs l') = filter (\<lambda>r. rn_id r \<noteq> i) (lg_runs l)"
proof -
  let ?hit = "\<lambda>row. rn_id row = i \<and> rn_tenant row = t \<and> (rn_phase row \<noteq> p \<or> rn_attempt row \<noteq> n)
    \<and> rn_phase row \<notin> set terminalPhases"
  let ?f = "\<lambda>row. if ?hit row then row\<lparr>rn_phase := p, rn_attempt := n, rn_updated_at := now\<rparr> else row"
  from row have mem: "row \<in> set (lg_runs l)" "rn_id row = i" "rn_tenant row = t"
    by (auto simp: run_by_id_def dest: find_SomeD)
  with live new have hit: "?hit row" by simp
  have "find ?hit (lg_runs l) = Some row"
    using wf mem hit by (intro find_unique [where f = rn_id]) (auto simp: ledger_wf_def runs_wf_def)
  with n have sql: "updateRunPhaseSQL i t p n now l = (Inr (Some row), l\<lparr>lg_runs := map ?f (lg_runs l)\<rparr>)"
    unfolding updateRunPhaseSQL_def Let_def by simp
  define l1 where "l1 = l\<lparr>lg_runs := map ?f (lg_runs l)\<rparr>"
  have "t \<in> set (lg_tenants l1)" using t by (simp add: l1_def)
  then obtain a where "insertControlPlaneAudit t (rn_actor row) auditEventRunStatusChanged auditResourceRun (itoa i)
      [(''from_phase'', JStr (phase_string (rn_phase row))), (''to_phase'', JStr (phase_string p)),
       (''from_attempt'', JInt (rn_attempt row)), (''to_attempt'', JInt n)] l1
      = (Inr (), l1\<lparr>lg_audit := lg_audit l1 @ [a]\<rparr>)"
    by (rule audit_apply)
  then have "UpdateRunPhase now t i p n l = (Inr (rn_phase row \<noteq> p), l1\<lparr>lg_audit := lg_audit l1 @ [a]\<rparr>)"
    unfolding UpdateRunPhase_def transaction_eval [OF t(1)] io_bind_apply sql l1_def [symmetric]
    by (simp add: io_simps)
  moreover have "run_by_id t i l1 = Some (row\<lparr>rn_phase := p, rn_attempt := n, rn_updated_at := now\<rparr>)"
  proof -
    have "run_by_id t i l1 = map_option ?f (run_by_id t i l)"
      unfolding run_by_id_def l1_def by (simp del: in_terminalPhases) (rule find_map_other, simp)
    also have "\<dots> = Some (?f row)" unfolding row by simp
    finally show ?thesis using hit by presburger
  qed
  moreover have "filter (\<lambda>r. rn_id r \<noteq> i) (map ?f (lg_runs l)) = filter (\<lambda>r. rn_id r \<noteq> i) (lg_runs l)"
    by (rule filter_map_other) auto
  ultimately show thesis
    by (intro that [of "l1\<lparr>lg_audit := lg_audit l1 @ [a]\<rparr>"]) (simp_all add: run_by_id_def l1_def)
qed

subsection \<open>Attempts\<close>

lemma CreateAttempt_ok:
  assumes wf: "ledger_wf l" and ok: "CreateAttemptForTenant now t i a p l = (Inr (), l')"
  obtains row b where "run_by_id t i l = Some row" and "\<not> Terminal (rn_phase row)"
    and "run_by_id t i l' = Some (row\<lparr>rn_phase := p, rn_attempt := at_Number a, rn_updated_at := now\<rparr>)"
    and "b \<in> set (lg_attempts l')" and "ta_run b = i" and "ta_number b = at_Number a" and "ta_tenant b = t"
    and "ta_job_name b = at_KubernetesJobName a" and "ta_job_uid b = at_KubernetesJobUID a"
    and "length (lg_audit l') = length (lg_audit l) + 1"
proof -
  let ?hit = "\<lambda>row. rn_id row = i \<and> rn_tenant row = t \<and> rn_phase row \<notin> set terminalPhases"
  let ?f = "\<lambda>row. if ?hit row then row\<lparr>rn_phase := p, rn_attempt := at_Number a, rn_updated_at := now\<rparr> else row"
  from ok have "\<not> (at_Number a < 1 \<or> at_KubernetesJobName a = [] \<or> at_KubernetesJobUID a = [])"
    by (auto simp: CreateAttemptForTenant_def io_fail_apply split: if_splits)
  with ok obtain aid l1 row where t: "t \<noteq> []" and ins: "insertAttemptSQL t i a l = (Inr (Some aid), l1)"
    and found: "find ?hit (lg_runs l1) = Some row"
    and audit: "insertControlPlaneAudit t (rn_actor row) auditEventAttemptCreated auditResourceAttempt (itoa aid)
        [(''run_id'', JInt i), (''attempt_number'', JInt (at_Number a)),
         (''kubernetes_job_name'', JStr (at_KubernetesJobName a)), (''phase'', JStr (phase_string (at_Phase a)))]
        (l1\<lparr>lg_runs := map ?f (lg_runs l1)\<rparr>) = (Inr (), l')"
    by (auto simp: CreateAttemptForTenant_def advanceRunForAttemptSQL_def Let_def io_fail_apply
        simp del: in_terminalPhases
        dest!: transaction_InrD io_bind_InrD split: option.splits)
  have runs: "lg_runs l1 = lg_runs l" "lg_audit l1 = lg_audit l"
    using ins by (auto simp: insertAttemptSQL_def split: option.splits if_splits)
  from found runs have row: "row \<in> set (lg_runs l)" "?hit row" by (auto dest!: find_SomeD)
  then have before: "run_by_id t i l = Some row" using run_by_id_row [OF wf row(1)] by simp
  have "run_by_id t i (l1\<lparr>lg_runs := map ?f (lg_runs l1)\<rparr>) = map_option ?f (run_by_id t i l)"
    unfolding run_by_id_def runs by (simp del: in_terminalPhases) (rule find_map_other, simp)
  also have "\<dots> = Some (?f row)" unfolding before by simp
  finally have after: "run_by_id t i l' = Some (row\<lparr>rn_phase := p, rn_attempt := at_Number a, rn_updated_at := now\<rparr>)"
    using audit row(2) by (auto simp: insertControlPlaneAudit_def run_by_id_def split: if_splits)
  have "\<exists>b \<in> set (lg_attempts l1). ta_run b = i \<and> ta_number b = at_Number a \<and> ta_tenant b = t
      \<and> ta_job_name b = at_KubernetesJobName a \<and> ta_job_uid b = at_KubernetesJobUID a"
  proof (cases "find (\<lambda>b. ta_run b = i \<and> ta_number b = at_Number a) (lg_attempts l)")
    case None
    with ins show ?thesis by (auto simp: insertAttemptSQL_def split: if_splits)
  next
    case (Some b)
    from find_SomeD [OF this] have b: "b \<in> set (lg_attempts l)" "ta_run b = i" "ta_number b = at_Number a" by auto
    from Some ins have own: "ta_tenant b = t" "ta_job_name b = at_KubernetesJobName a"
        "ta_job_uid b = at_KubernetesJobUID a"
      and l1: "lg_attempts l1 = map (\<lambda>c. if ta_id c = ta_id b \<and> ta_tenant c = t
        then c\<lparr>ta_resource_version := (if at_ObservedResourceVersion a = [] then ta_resource_version c
                 else at_ObservedResourceVersion a)\<rparr> else c) (lg_attempts l)"
      by (auto simp: insertAttemptSQL_def split: if_splits)
    show ?thesis unfolding l1 set_map using b own by (intro bexI [OF _ imageI [OF b(1)]]) simp
  qed
  then obtain b where "b \<in> set (lg_attempts l1)" "ta_run b = i" "ta_number b = at_Number a" "ta_tenant b = t"
      "ta_job_name b = at_KubernetesJobName a" "ta_job_uid b = at_KubernetesJobUID a"
    by blast
  moreover have "lg_attempts l' = lg_attempts l1" "length (lg_audit l') = length (lg_audit l) + 1"
    using audit runs by (auto simp: insertControlPlaneAudit_def split: if_splits)
  ultimately show thesis using before after row(2) by (intro that [of row b]) auto
qed

subsection \<open>Revisions\<close>

definition stored_revision :: "string \<Rightarrow> Revision \<Rightarrow> int \<Rightarrow> RevisionRow \<Rightarrow> bool" where
  "stored_revision t rv i row \<longleftrightarrow> vr_tenant row = t \<and> rev_ID (vr_rev row) = i \<and>
     same_identity (id_SourceMode (rev_Identity rv)) (id_SourceUID (rev_Identity rv)) row \<and>
     rev_Generation (vr_rev row) = rev_Generation rv \<and> rev_SpecHash (vr_rev row) = rev_SpecHash rv"

lemma stored_revision_flag [simp]: "stored_revision t rv i (row\<lparr>vr_active := b\<rparr>) = stored_revision t rv i row"
  by (simp add: stored_revision_def same_identity_def)

lemma deactivate_revisions:
  "deactivateRevisionsSQL mode uid t i l = (r, l1) \<Longrightarrow>
   (\<exists>row \<in> set (lg_revisions l). stored_revision t rv i row) \<Longrightarrow>
   \<exists>row \<in> set (lg_revisions l1). stored_revision t rv i row"
proof -
  let ?f = "\<lambda>row. if same_identity mode uid row \<and> vr_tenant row = t \<and> vr_active row \<and> rev_ID (vr_rev row) \<noteq> i
    then row\<lparr>vr_active := False\<rparr> else row"
  assume sql: "deactivateRevisionsSQL mode uid t i l = (r, l1)"
    and "\<exists>row \<in> set (lg_revisions l). stored_revision t rv i row"
  then obtain row where row: "row \<in> set (lg_revisions l)" "stored_revision t rv i row" by blast
  have "lg_revisions l1 = map ?f (lg_revisions l)" using sql by (auto simp: deactivateRevisionsSQL_def Let_def)
  moreover have "stored_revision t rv i (?f row)" using row(2) by simp
  ultimately show ?thesis using row(1) by (metis (no_types, lifting) image_eqI set_map)
qed

lemma activate_revisions:
  assumes "activateRevisionSQL i t l = (Inr n, l1)" and "\<exists>row \<in> set (lg_revisions l). stored_revision t rv i row"
  shows "\<exists>row \<in> set (lg_revisions l1). stored_revision t rv i row \<and> vr_active row"
proof -
  let ?f = "\<lambda>row. if rev_ID (vr_rev row) = i \<and> vr_tenant row = t \<and> \<not> vr_active row
    then row\<lparr>vr_active := True\<rparr> else row"
  from assms(1) have l1: "lg_revisions l1 = map ?f (lg_revisions l)"
    by (auto simp: activateRevisionSQL_def Let_def split: if_splits)
  from assms(2) obtain row where row: "row \<in> set (lg_revisions l)" "stored_revision t rv i row" by blast
  then have "stored_revision t rv i (?f row) \<and> vr_active (?f row)" by (auto simp: stored_revision_def same_identity_def)
  with row(1) l1 show ?thesis by (metis (no_types, lifting) image_eqI set_map)
qed

lemma project_generation_ok:
  assumes "project_generation j t rv l = (Inr (i, created), l1)"
  shows "\<exists>row \<in> set (lg_revisions l1). stored_revision t rv i row"
proof -
  from assms obtain ins l0 where ins: "applyRevisionSQL j t rv l = (Inr ins, l0)"
    and rest: "(case ins of Some k \<Rightarrow> k = i \<and> l1 = l0
      | None \<Rightarrow> l1 = l0 \<and> selectRevisionIdentitySQL (id_SourceMode (rev_Identity rv))
          (id_SourceUID (rev_Identity rv)) (rev_Generation rv) t l0 = Some (i, rev_SpecHash rv))"
    unfolding project_generation_def
    by (auto simp: io_get_def io_return_apply io_fail_apply dest!: io_bind_InrD split: option.splits if_splits)
  show ?thesis
  proof (cases ins)
    case (Some k)
    with ins rest show ?thesis
      by (auto simp: applyRevisionSQL_def stored_revision_def same_identity_def split: option.splits if_splits)
  next
    case None
    with rest show ?thesis
      by (auto simp: selectRevisionIdentitySQL_def stored_revision_def dest!: find_SomeD)
  qed
qed

lemma ApplyRevision_steps:
  assumes "ApplyRevisionForTenant j t rv l = (Inr i, l')"
  obtains created l1 n l2 m l3 where "project_generation j t rv l = (Inr (i, created), l1)"
    and "deactivateRevisionsSQL (id_SourceMode (rev_Identity rv)) (id_SourceUID (rev_Identity rv)) t i l1 = (Inr n, l2)"
    and "activateRevisionSQL i t l2 = (Inr m, l3)" and "lg_revisions l' = lg_revisions l3"
    and "id_SourceMode (rev_Identity rv) \<noteq> []" and "id_SourceUID (rev_Identity rv) \<noteq> []"
    and "validateActor (rev_Actor rv) = Inr ()" and "t \<noteq> []"
proof -
  let ?mode = "id_SourceMode (rev_Identity rv)" and ?uid = "id_SourceUID (rev_Identity rv)"
  from assms have ids: "?mode \<noteq> []" "?uid \<noteq> []"
    by (auto simp: ApplyRevisionForTenant_def Let_def io_fail_apply split: if_splits)
  with assms have actor: "validateActor (rev_Actor rv) = Inr ()"
    by (cases "validateActor (rev_Actor rv)") (auto simp: ApplyRevisionForTenant_def Let_def io_fail_apply)
  let ?tail = "\<lambda>k created prev cur. if \<not> created \<and> prev = (0 :: nat) \<and> cur = (0 :: nat) then io_return k
        else io_bind (insertControlPlaneAudit t (rev_Actor rv) auditEventRevisionProjected
             auditResourceRevision (itoa k)
             [(''source_uid'', JStr ?uid), (''generation'', JInt (rev_Generation rv)),
              (''spec_hash'', JStr (rev_SpecHash rv)), (''revision_created'', JBool created)])
           (\<lambda>_. io_return k)"
  let ?switch = "\<lambda>(k, created). io_bind (deactivateRevisionsSQL ?mode ?uid t k) (\<lambda>prev.
      io_bind (activateRevisionSQL k t) (?tail k created prev))"
  have "ApplyRevisionForTenant j t rv = WithTenantTransaction t (io_bind (project_generation j t rv) ?switch)"
    using ids actor by (simp add: ApplyRevisionForTenant_def Let_def)
  with assms have "WithTenantTransaction t (io_bind (project_generation j t rv) ?switch) l = (Inr i, l')" by simp
  from transaction_InrD [OF this] have t: "t \<noteq> []"
    and body: "io_bind (project_generation j t rv) ?switch l = (Inr i, l')" by blast+
  from io_bind_InrD [OF body] obtain k created l1 where proj: "project_generation j t rv l = (Inr (k, created), l1)"
    and body1: "?switch (k, created) l1 = (Inr i, l')" by auto
  from io_bind_InrD [OF body1 [simplified]] obtain prev l2
    where deact: "deactivateRevisionsSQL ?mode ?uid t k l1 = (Inr prev, l2)"
      and body2: "io_bind (activateRevisionSQL k t) (?tail k created prev) l2 = (Inr i, l')" by blast
  from io_bind_InrD [OF body2] obtain cur l3 where act: "activateRevisionSQL k t l2 = (Inr cur, l3)"
    and last: "?tail k created prev cur l3 = (Inr i, l')" by blast
  from last have fin: "k = i" "lg_revisions l' = lg_revisions l3"
    by (auto simp: io_simps insertControlPlaneAudit_def split: if_splits)
  show thesis using proj deact act fin ids actor t by (intro that) auto
qed

lemma ApplyRevision_ok:
  assumes ok: "ApplyRevisionForTenant j t rv l = (Inr i, l')"
  shows "\<exists>row \<in> set (lg_revisions l'). stored_revision t rv i row \<and> vr_active row"
proof -
  from ok obtain created l1 n l2 m l3 where steps: "project_generation j t rv l = (Inr (i, created), l1)"
      "deactivateRevisionsSQL (id_SourceMode (rev_Identity rv)) (id_SourceUID (rev_Identity rv)) t i l1 = (Inr n, l2)"
      "activateRevisionSQL i t l2 = (Inr m, l3)" and l': "lg_revisions l' = lg_revisions l3"
    by (rule ApplyRevision_steps)
  from activate_revisions [OF steps(3) deactivate_revisions [OF steps(2) project_generation_ok [OF steps(1)]]]
  show ?thesis by (simp add: l')
qed

text \<open>Projecting the same revision again finds it active and records nothing.\<close>

lemma ApplyRevision_replay:
  assumes wf: "ledger_wf l" and ok: "ApplyRevisionForTenant j t rv l = (Inr i, l')"
  shows "ApplyRevisionForTenant j t rv l' = (Inr i, l')"
proof -
  let ?mode = "id_SourceMode (rev_Identity rv)" and ?uid = "id_SourceUID (rev_Identity rv)"
  from wf ok have wf': "ledger_wf l'" using io_keepsD' [OF wf_ApplyRevision ok] by simp
  then have act: "one_active (lg_revisions l')" and ids: "distinct (map (\<lambda>r. rev_ID (vr_rev r)) (lg_revisions l'))"
    and gens: "distinct (map (\<lambda>r. (rev_key r, rev_Generation (vr_rev r))) (lg_revisions l'))"
    by (auto simp: ledger_wf_def revisions_wf_def)
  from ApplyRevision_ok [OF ok] obtain row where row: "row \<in> set (lg_revisions l')"
      "stored_revision t rv i row" "vr_active row" by blast
  have other: "r = row" if "r \<in> set (lg_revisions l')" "same_identity ?mode ?uid r" "vr_active r" for r
  proof -
    have "rev_key r = rev_key row" using that row by (auto simp: stored_revision_def same_identity_def rev_key_def)
    with one_activeD [OF act that(1) row(1) that(3) row(3)] have "rev_ID (vr_rev r) = rev_ID (vr_rev row)" by simp
    from distinct_map_eq [OF ids that(1) row(1) this] show ?thesis .
  qed
  have same: "r = row" if "r \<in> set (lg_revisions l')" "rev_ID (vr_rev r) = i" for r
    using distinct_map_eq [OF ids that(1) row(1)] that row by (simp add: stored_revision_def)
  from ok obtain doc where doc: "j (rev_NormalizedSpec rv) = Some doc" "0 < rev_Generation rv"
    by (elim ApplyRevision_steps) (auto simp: project_generation_def applyRevisionSQL_def
        dest!: io_bind_InrD split: option.splits if_splits)
  have sel: "find (\<lambda>r. same_identity ?mode ?uid r \<and> rev_Generation (vr_rev r) = rev_Generation rv \<and> vr_tenant r = t)
      (lg_revisions l') = Some row"
    using row by (intro find_unique [OF gens]) (auto simp: stored_revision_def same_identity_def rev_key_def)
  have "applyRevisionSQL j t rv l' = (Inr None, l')"
    using doc row by (auto simp: applyRevisionSQL_def stored_revision_def)
  then have proj: "project_generation j t rv l' = (Inr (i, False), l')"
    using sel row(2) by (simp add: project_generation_def io_simps io_get_def selectRevisionIdentitySQL_def
        stored_revision_def)
  have no: "\<not> (same_identity ?mode ?uid r \<and> vr_tenant r = t \<and> vr_active r \<and> rev_ID (vr_rev r) \<noteq> i)"
    if "r \<in> set (lg_revisions l')" for r
    using other [OF that] row(2) by (auto simp: stored_revision_def)
  have deact: "deactivateRevisionsSQL ?mode ?uid t i l' = (Inr 0, l')"
    unfolding deactivateRevisionsSQL_def Let_def using no
    by (simp add: filter_empty_conv if_not_P map_idI)
  have no': "\<not> (rev_ID (vr_rev r) = i \<and> vr_tenant r = t \<and> \<not> vr_active r)" if "r \<in> set (lg_revisions l')" for r
    using same [OF that] row(3) by auto
  have act: "activateRevisionSQL i t l' = (Inr 0, l')"
    unfolding activateRevisionSQL_def Let_def using no'
    by (auto simp: filter_empty_conv if_not_P map_idI)
  show ?thesis using ok
    by (elim ApplyRevision_steps)
       (simp add: ApplyRevisionForTenant_def transaction_eval io_simps proj deact act Let_def)
qed

lemma ApplyRevision_guards:
  assumes "ApplyRevisionForTenant j t rv l = (Inr i, l')"
  shows "t \<noteq> []" "id_SourceMode (rev_Identity rv) \<noteq> []" "id_SourceUID (rev_Identity rv) \<noteq> []"
  using assms
  by (auto simp: ApplyRevisionForTenant_def WithTenantTransaction_eq WithTenant_def io_simps Let_def split: if_splits prod.splits sum.splits)

lemma ApplyRevision_conflict:
  assumes wf: "ledger_wf l" and t: "t \<noteq> []" and row: "row \<in> set (lg_revisions l)" "vr_tenant row = t"
      "same_identity (id_SourceMode (rev_Identity rv)) (id_SourceUID (rev_Identity rv)) row"
      "rev_Generation (vr_rev row) = rev_Generation rv" "rev_SpecHash (vr_rev row) \<noteq> rev_SpecHash rv"
    and ok: "id_SourceMode (rev_Identity rv) \<noteq> []" "id_SourceUID (rev_Identity rv) \<noteq> []"
      "validateActor (rev_Actor rv) = Inr ()" "j (rev_NormalizedSpec rv) \<noteq> None"
  shows "ApplyRevisionForTenant j t rv l = (Inl ErrRevisionConflict, l)"
proof -
  let ?mode = "id_SourceMode (rev_Identity rv)" and ?uid = "id_SourceUID (rev_Identity rv)"
  from wf have gens: "distinct (map (\<lambda>r. (rev_key r, rev_Generation (vr_rev r))) (lg_revisions l))"
    and pos: "0 < rev_Generation rv" using row by (auto simp: ledger_wf_def revisions_wf_def)
  have sel: "find (\<lambda>r. same_identity ?mode ?uid r \<and> rev_Generation (vr_rev r) = rev_Generation rv \<and> vr_tenant r = t)
      (lg_revisions l) = Some row"
    using row by (intro find_unique [OF gens]) (auto simp: same_identity_def rev_key_def)
  have "applyRevisionSQL j t rv l = (Inr None, l)"
    using ok(4) pos row by (auto simp: applyRevisionSQL_def)
  then have "project_generation j t rv l = (Inl ErrRevisionConflict, l)"
    using sel row(5) by (simp add: project_generation_def io_simps io_get_def selectRevisionIdentitySQL_def)
  with ok t show ?thesis by (simp add: ApplyRevisionForTenant_def transaction_eval io_simps Let_def)
qed

text \<open>A revision reads back the same in every later ledger.\<close>

lemma RevisionByID_stable:
  assumes "ledger_wf m" and "ledger_evolves l m" and "RevisionByID t i l = (Inr rv, l)"
  shows "RevisionByID t i m = (Inr rv, m)"
proof -
  from assms(3) obtain row where t: "t \<noteq> []"
    and found: "find (\<lambda>row. rev_ID (vr_rev row) = i \<and> vr_tenant row = t) (lg_revisions l) = Some row"
    and rv: "rv = scanRevision row"
    unfolding RevisionByID_def
    by (auto simp: io_get_def io_return_apply io_fail_apply dest!: transaction_InrD io_bind_InrD split: option.splits)
  from find_SomeD [OF found] have "(vr_tenant row, vr_rev row) \<in> set (map (\<lambda>r. (vr_tenant r, vr_rev r)) (lg_revisions l))"
    by auto
  with assms(2) have "(vr_tenant row, vr_rev row) \<in> set (map (\<lambda>r. (vr_tenant r, vr_rev r)) (lg_revisions m))"
    using set_mono_prefix unfolding ledger_evolves_def revisions_kept_def by blast
  then obtain row' where row': "row' \<in> set (lg_revisions m)" "vr_tenant row' = vr_tenant row" "vr_rev row' = vr_rev row"
    by auto
  have "find (\<lambda>row. rev_ID (vr_rev row) = i \<and> vr_tenant row = t) (lg_revisions m) = Some row'"
    using assms(1) row' find_SomeD [OF found]
    by (intro find_unique [where f = "\<lambda>r. rev_ID (vr_rev r)"]) (auto simp: ledger_wf_def revisions_wf_def)
  with t rv row' show ?thesis
    by (simp add: RevisionByID_def transaction_eval io_simps io_get_def scanRevision_def)
qed

end
