(* ===== verification/Ledger_History.thy ===== *)
theory Ledger_History
  imports Ledger_Behaviour "HOL-Library.Product_Lexorder"
begin

section \<open>Histories of the ledger\<close>

text \<open>
  Writers interleave freely: schedulers, reconcilers, observers, walkers and retainers of
  different replicas all call the operations in some order, each call one committed or
  rolled-back transaction. \<open>ledger_step\<close> is one such call, by anyone and with any arguments,
  or the passing of database time; a history is its reflexive transitive closure.
\<close>

inductive ledger_step :: "ledger \<Rightarrow> ledger \<Rightarrow> bool" where
  step_ApplyRevision: "ApplyRevisionForTenant j t rv l = (x, m) \<Longrightarrow> ledger_step l m"
| step_CreateOccurrence: "CreateOccurrenceForTenant t run n a l = (x, m) \<Longrightarrow> ledger_step l m"
| step_UpdateRunPhase: "UpdateRunPhase now t i p n l = (x, m) \<Longrightarrow> ledger_step l m"
| step_DeleteRun: "DeleteRun t i l = (x, m) \<Longrightarrow> ledger_step l m"
| step_CreateAttempt: "CreateAttemptForTenant now t i att p l = (x, m) \<Longrightarrow> ledger_step l m"
| step_UpdateAttemptPhase: "UpdateAttemptPhase now t job ph u v l = (x, m) \<Longrightarrow> ledger_step l m"
| step_CreateRun: "CreateRunForTenant t wrun l = (x, m) \<Longrightarrow> ledger_step l m"
| step_CreateStep: "CreateStepForTenant t i st n a l = (x, m) \<Longrightarrow> ledger_step l m"
| step_UpdatePhase: "UpdatePhase now t i wp d l = (x, m) \<Longrightarrow> ledger_step l m"
| step_PruneRun: "PruneRun t i l = (x, m) \<Longrightarrow> ledger_step l m"
| step_clock: "lg_clock l \<le> c \<Longrightarrow> ledger_step l (l\<lparr>lg_clock := c\<rparr>)"

inductive_cases ledger_stepE: "ledger_step l m"

definition empty_ledger :: "string list \<Rightarrow> ledger" where
  "empty_ledger tenants = \<lparr>lg_tenants = tenants, lg_revisions = [], lg_runs = [], lg_attempts = [],
     lg_wruns = [], lg_audit = [], lg_rev_seq = 1, lg_run_seq = 1, lg_att_seq = 1, lg_wrun_seq = 1,
     lg_clock = 0\<rparr>"

lemma empty_ledger_wf: "ledger_wf (empty_ledger ts)"
  by (simp add: empty_ledger_def ledger_wf_def revisions_wf_def runs_wf_def attempts_wf_def wruns_wf_def
      one_active_def)

lemma step_evolves: "ledger_step l m \<Longrightarrow> ledger_evolves l m"
  by (induction rule: ledger_step.induct)
     (auto intro: io_keepsD' [OF evolves_ApplyRevision] io_keepsD' [OF evolves_CreateOccurrence]
        io_keepsD' [OF evolves_UpdateRunPhase] io_keepsD' [OF evolves_DeleteRun]
        io_keepsD' [OF evolves_CreateAttempt] io_keepsD' [OF evolves_UpdateAttemptPhase]
        io_keepsD' [OF evolves_CreateRun] io_keepsD' [OF evolves_CreateStep]
        io_keepsD' [OF evolves_UpdatePhase] io_keepsD' [OF evolves_PruneRun],
      simp add: evolves_simps run_table.table_refl attempt_table.table_refl wrun_table.table_refl)

lemma step_wf: "ledger_step l m \<Longrightarrow> ledger_wf l \<Longrightarrow> ledger_wf m"
  by (induction rule: ledger_step.induct)
     (auto dest: io_keepsD' [OF wf_ApplyRevision] io_keepsD' [OF wf_CreateOccurrence]
        io_keepsD' [OF wf_UpdateRunPhase] io_keepsD' [OF wf_DeleteRun]
        io_keepsD' [OF wf_CreateAttempt] io_keepsD' [OF wf_UpdateAttemptPhase]
        io_keepsD' [OF wf_CreateRun] io_keepsD' [OF wf_CreateStep]
        io_keepsD' [OF wf_UpdatePhase] io_keepsD' [OF wf_PruneRun],
      simp add: ledger_wf_def)

abbreviation history :: "ledger \<Rightarrow> ledger \<Rightarrow> bool" where
  "history \<equiv> ledger_step\<^sup>*\<^sup>*"

lemma history_evolves: "history l m \<Longrightarrow> ledger_evolves l m"
proof (induction rule: rtranclp_induct)
  case base
  show ?case using ledger_evolves_refl by (simp add: reflp_def)
next
  case (step m n)
  with step_evolves ledger_evolves_trans show ?case by (blast dest: transpD)
qed

lemma history_wf: "history l m \<Longrightarrow> ledger_wf l \<Longrightarrow> ledger_wf m"
  by (induction rule: rtranclp_induct) (auto intro: step_wf)

lemma evolves_run:
  assumes "ledger_evolves l m" and "ledger_wf l" and "r \<in> set (lg_runs l)" and "s \<in> set (lg_runs m)"
    and "rn_id s = rn_id r"
  shows "run_evolves r s"
  using assms run_table.table_row [of "lg_run_seq l" "lg_runs l" "lg_runs m" r s]
  by (auto simp: ledger_evolves_def ledger_wf_def runs_wf_def)

lemma evolves_attempt:
  assumes "ledger_evolves l m" and "ledger_wf l" and "a \<in> set (lg_attempts l)" and "b \<in> set (lg_attempts m)"
    and "ta_id b = ta_id a"
  shows "attempt_evolves a b"
  using assms attempt_table.table_row [of "lg_att_seq l" "lg_attempts l" "lg_attempts m" a b]
  by (auto simp: ledger_evolves_def ledger_wf_def attempts_wf_def)

lemma evolves_wrun:
  assumes "ledger_evolves l m" and "ledger_wf l" and "w \<in> set (lg_wruns l)" and "v \<in> set (lg_wruns m)"
    and "wf_ID v = wf_ID w"
  shows "wrun_evolves w v"
  using assms wrun_table.table_row [of "lg_wrun_seq l" "lg_wruns l" "lg_wruns m" w v]
  by (auto simp: ledger_evolves_def ledger_wf_def wruns_wf_def)

subsection \<open>What retention keeps\<close>

text \<open>In a finite set ordered by an injective key, the ranks from the top are \<open>0, 1, 2, \<dots>\<close>.\<close>

lemma rank_from_top:
  fixes key :: "'a \<Rightarrow> 'k::linorder"
  assumes fin: "finite S" and inj: "inj_on key S"
  shows "card {x \<in> S. card {y \<in> S. key x < key y} < k} = min k (card S)"
proof -
  let ?f = "\<lambda>x. card {y \<in> S. key x < key y}"
  have less: "?f x < ?f y" if "x \<in> S" "y \<in> S" "key y < key x" for x y
  proof (rule psubset_card_mono)
    show "{z \<in> S. key x < key z} \<subset> {z \<in> S. key y < key z}" using that by force
  qed (use fin in simp)
  have inj_f: "inj_on ?f S"
  proof (rule inj_onI)
    fix x y
    assume xy: "x \<in> S" "y \<in> S" "?f x = ?f y"
    then have "key x = key y" using less [of x y] less [of y x] by (metis linorder_less_linear nat_neq_iff)
    with inj xy show "x = y" by (simp add: inj_onD)
  qed
  have bound: "?f x < card S" if "x \<in> S" for x
    using that fin by (intro psubset_card_mono) auto
  have "?f ` S = {..<card S}"
    using bound inj_f by (intro card_subset_eq) (auto simp: card_image)
  then have "?f ` {x \<in> S. ?f x < k} = {..<card S} \<inter> {..<k}" by auto
  moreover have "card (?f ` {x \<in> S. ?f x < k}) = card {x \<in> S. ?f x < k}"
    using inj_f by (intro card_image) (auto intro: inj_on_subset)
  moreover have "{..<card S} \<inter> {..<k} = {..<min k (card S)}" by auto
  ultimately show ?thesis by simp
qed

definition retained_rows :: "string \<Rightarrow> string \<Rightarrow> phase \<Rightarrow> ledger \<Rightarrow> RunRow set" where
  "retained_rows t uid p l = {row \<in> set (lg_runs l). rn_tenant row = t \<and> rn_source_uid row = uid
     \<and> rn_phase row = p \<and> rn_workflow row = None}"

lemma prunable_rows_iff:
  "row \<in> set (prunable_rows t uid ks kf l) \<longleftrightarrow>
     row \<in> retained_rows t uid (rn_phase row) l \<and> (Terminal (rn_phase row) \<or> rn_phase row = CancelUnknown) \<and>
     (if rn_phase row = Succeeded then ks else kf) \<le> int (length (filter (\<lambda>other. rn_phase other = rn_phase row
        \<and> (rn_created_at row, rn_id row) < (rn_created_at other, rn_id other))
        (filter (\<lambda>r. rn_tenant r = t \<and> rn_source_uid r = uid \<and> (Terminal (rn_phase r) \<or> rn_phase r = CancelUnknown)
          \<and> rn_workflow r = None) (lg_runs l))))"
  by (auto simp: prunable_rows_def retained_rows_def retention_rank_def Let_def less_prod_def'
      conj_disj_distribL conj_disj_distribR)

text \<open>Of the runs that ended in one phase, a run is prunable when at least \<open>keep\<close> of them are newer.\<close>

lemma prunable_by_rank:
  assumes wf: "ledger_wf l" and p: "Terminal p \<or> p = CancelUnknown" and keep: "keep = (if p = Succeeded then ks else kf)"
    and r: "r \<in> retained_rows t uid p l"
  shows "r \<in> set (prunable_rows t uid ks kf l) \<longleftrightarrow>
    keep \<le> int (card {y \<in> retained_rows t uid p l. (rn_created_at r, rn_id r) < (rn_created_at y, rn_id y)})"
proof -
  let ?S = "retained_rows t uid p l" and ?key = "\<lambda>r. (rn_created_at r, rn_id r)"
  let ?rows = "filter (\<lambda>r. rn_tenant r = t \<and> rn_source_uid r = uid
      \<and> (Terminal (rn_phase r) \<or> rn_phase r = CancelUnknown) \<and> rn_workflow r = None) (lg_runs l)"
  from wf have "distinct (lg_runs l)" by (simp add: ledger_wf_def runs_wf_def distinct_map)
  then have "length (filter (\<lambda>o'. rn_phase o' = p \<and> ?key r < ?key o') ?rows)
      = card (set (filter (\<lambda>o'. rn_phase o' = p \<and> ?key r < ?key o') ?rows))"
    by (intro distinct_card [symmetric]) simp
  also have "set (filter (\<lambda>o'. rn_phase o' = p \<and> ?key r < ?key o') ?rows) = {y \<in> ?S. ?key r < ?key y}"
    using p by (auto simp: retained_rows_def)
  finally have ahead: "length (filter (\<lambda>o'. rn_phase o' = p \<and> ?key r < ?key o') ?rows) = card {y \<in> ?S. ?key r < ?key y}" .
  have "rn_phase r = p" using r by (simp add: retained_rows_def)
  then show ?thesis using r p keep ahead by (simp add: prunable_rows_iff)
qed

lemma prunable_keeps:
  assumes wf: "ledger_wf l" and p: "Terminal p \<or> p = CancelUnknown"
    and keep: "keep = (if p = Succeeded then ks else kf)" "0 \<le> keep"
  shows "card (retained_rows t uid p l - set (prunable_rows t uid ks kf l))
           = min (nat keep) (card (retained_rows t uid p l))"
proof -
  let ?S = "retained_rows t uid p l" and ?key = "\<lambda>r. (rn_created_at r, rn_id r)"
  from wf have ids: "distinct (map rn_id (lg_runs l))" by (simp add: ledger_wf_def runs_wf_def)
  have inj: "inj_on ?key ?S"
    using ids by (auto simp: inj_on_def retained_rows_def intro: distinct_map_eq)
  have fin: "finite ?S" by (simp add: retained_rows_def)
  have "?S - set (prunable_rows t uid ks kf l) = {x \<in> ?S. card {y \<in> ?S. ?key x < ?key y} < nat keep}"
    using prunable_by_rank [OF wf p keep(1)] keep(2) by (auto simp: not_le)
  with rank_from_top [OF fin inj, of "nat keep"] show ?thesis by simp
qed

lemma prunable_older:
  assumes "ledger_wf l" and "Terminal p \<or> p = CancelUnknown"
    and "q \<in> retained_rows t uid p l" and "q \<in> set (prunable_rows t uid ks kf l)"
    and "r \<in> retained_rows t uid p l" and "r \<notin> set (prunable_rows t uid ks kf l)"
  shows "rn_created_at q < rn_created_at r \<or> rn_created_at q = rn_created_at r \<and> rn_id q < rn_id r"
proof (rule ccontr)
  let ?S = "retained_rows t uid p l" and ?key = "\<lambda>r. (rn_created_at r, rn_id r)"
  assume "\<not> ?thesis"
  then have "\<not> ?key q < ?key r" by (simp add: less_prod_def')
  then have "?key r \<le> ?key q" by (simp only: not_less)
  then have "{y \<in> ?S. ?key q < ?key y} \<subseteq> {y \<in> ?S. ?key r < ?key y}" by force
  moreover have "finite ?S" by (simp add: retained_rows_def)
  ultimately have "card {y \<in> ?S. ?key q < ?key y} \<le> card {y \<in> ?S. ?key r < ?key y}" by (simp add: card_mono)
  with assms(4,6) show False
    using prunable_by_rank [OF assms(1,2) refl assms(3), of ks kf] prunable_by_rank [OF assms(1,2) refl assms(5), of ks kf] by linarith
qed

end
