(* ===== verification/Ledger_Audit.thy ===== *)
theory Ledger_Audit
  imports Ledger_History
begin

section \<open>No silent change\<close>

text \<open>
  What the audit trail answers for: the runs, the revisions with their activation, the phases of workflow runs, and the
  identities and phases of attempts. An operation that adds no audit row leaves all of it as it is, so a history that
  leaves the trail as it is changed nothing of it. (The resource version of an observed Job, and the decisions of a workflow
  run whose phase stays, are written without an audit row.)
\<close>

definition audited_state ::
    "ledger \<Rightarrow> RunRow list \<times> RevisionRow list \<times> (int \<times> string \<times> wphase) list \<times> (int \<times> int \<times> int \<times> string \<times> string \<times> string) list" where
  "audited_state l = (lg_runs l, lg_revisions l, map (\<lambda>w. (wf_ID w, wf_TenantID w, wf_Phase w)) (lg_wruns l),
     map (\<lambda>a. (ta_id a, ta_run a, ta_number a, ta_job_name a, ta_job_uid a, phase_string (ta_phase a))) (lg_attempts l))"

definition accounted :: "ledger \<Rightarrow> ledger \<Rightarrow> bool" where
  "accounted l m \<longleftrightarrow> length (lg_audit l) < length (lg_audit m) \<or> lg_audit m = lg_audit l \<and> audited_state m = audited_state l"

interpretation accounting: store_guarantee accounted
  by unfold_locales (auto simp: accounted_def reflp_def transp_def)

lemma accounted_refl [simp]: "accounted l l"
  by (simp add: accounted_def)

lemma audit_adds: "insertControlPlaneAudit t actor e rs i d m = (Inr u, m') \<Longrightarrow> length (lg_audit m') = Suc (length (lg_audit m))"
  by (auto simp: insertControlPlaneAudit_def split: if_splits)

lemma no_hit_no_change:
  "find P xs = None \<Longrightarrow> map (\<lambda>x. if P x then f x else x) xs = xs"
  "length (filter P xs) = 0 \<Longrightarrow> map (\<lambda>x. if P x then f x else x) xs = xs"
  by (auto simp: find_None_iff filter_empty_conv intro: map_idI)

subsection \<open>The statements\<close>

lemma insertOccurrence_audit:
  "insertOccurrenceSQL t u r k tr a p n s w l = (Inr x, m) \<Longrightarrow> lg_audit m = lg_audit l \<and> (x = None \<longrightarrow> m = l)"
  by (auto simp: insertOccurrenceSQL_def split: if_splits)

lemma updateRunPhase_audit:
  "updateRunPhaseSQL i t p n now l = (Inr x, m) \<Longrightarrow> lg_audit m = lg_audit l \<and> (x = None \<longrightarrow> m = l)"
  by (auto simp: updateRunPhaseSQL_def Let_def no_hit_no_change split: if_splits)

lemma delete_none: "find P (lg_runs l) = None \<Longrightarrow> delete_runs P l = l"
proof -
  assume "find P (lg_runs l) = None"
  then have "filter (\<lambda>row. \<not> P row) (lg_runs l) = lg_runs l" "filter P (lg_runs l) = []"
    by (auto simp: find_None_iff filter_empty_conv intro: filter_True)
  then show ?thesis by (simp add: delete_runs_def)
qed

lemma delete_audit: "lg_audit (delete_runs P l) = lg_audit l"
  by (simp add: delete_runs_def)

lemma deleteRun_audit: "deleteRunSQL i t l = (Inr x, m) \<Longrightarrow> lg_audit m = lg_audit l \<and> (x = None \<longrightarrow> m = l)"
  by (auto simp: deleteRunSQL_def Let_def delete_none delete_audit)

lemma attempt_statements_audit:
  "insertAttemptSQL t i att l = (Inr x, m) \<Longrightarrow> lg_audit m = lg_audit l"
  "advanceRunForAttemptSQL p n now i t l = (Inr y, m) \<Longrightarrow> lg_audit m = lg_audit l"
  "updateAttemptPhaseSQL j t ph u v b now l = (Inr z, m) \<Longrightarrow> lg_audit m = lg_audit l"
  by (auto simp: insertAttemptSQL_def advanceRunForAttemptSQL_def updateAttemptPhaseSQL_def Let_def split: option.splits if_splits)

lemma revision_statements_audit:
  "project_generation j t rv l = (Inr (i, created), m) \<Longrightarrow> lg_audit m = lg_audit l \<and> (\<not> created \<longrightarrow> m = l)"
  "deactivateRevisionsSQL mode uid t i l = (Inr n, m) \<Longrightarrow> lg_audit m = lg_audit l \<and> (n = 0 \<longrightarrow> m = l)"
  "activateRevisionSQL i t l = (Inr n, m) \<Longrightarrow> lg_audit m = lg_audit l \<and> (n = 0 \<longrightarrow> m = l)"
  by (auto simp: project_generation_def applyRevisionSQL_def io_simps io_get_def split: if_splits option.splits)
     (auto simp: deactivateRevisionsSQL_def activateRevisionSQL_def Let_def no_hit_no_change split: if_splits)

lemma workflow_statements_audit:
  "insertWorkflowRunSQL t u r k tr a p l = (Inr x, m) \<Longrightarrow> lg_audit m = lg_audit l \<and> (x = None \<longrightarrow> m = l)"
  "updateWorkflowPhaseSQL i t wp d now l = (Inr y, m) \<Longrightarrow> lg_audit m = lg_audit l \<and> (y = None \<longrightarrow> m = l)"
  "pruneWorkflowStepsSQL i t l = (Inr rows, m) \<Longrightarrow> lg_audit m = lg_audit l"
  "pruneWorkflowRowSQL i t l = (Inr y, m) \<Longrightarrow> lg_audit m = lg_audit l"
  by (auto simp: insertWorkflowRunSQL_def updateWorkflowPhaseSQL_def pruneWorkflowStepsSQL_def pruneWorkflowRowSQL_def
      delete_runs_def Let_def no_hit_no_change split: if_splits)

lemma get_unchanged: "io_get f l = (Inr x, m) \<Longrightarrow> m = l"
  by (simp add: io_get_def)

lemma lift_unchanged: "io_lift r l = (Inr x, m) \<Longrightarrow> m = l"
  by (simp add: io_lift_apply)

lemma audits_grow:
  "io_iter (\<lambda>x. insertControlPlaneAudit t (f x) e rs (g x) (h x)) xs l = (r, m) \<Longrightarrow> length (lg_audit l) \<le> length (lg_audit m)"
  by (rule io_keepsD' [OF io_keeps_iter [where R = "\<lambda>l m. length (lg_audit l) \<le> length (lg_audit m)"]])
     (auto simp: reflp_def transp_def io_keeps_def insertControlPlaneAudit_def)

lemmas statement_audit = insertOccurrence_audit updateRunPhase_audit deleteRun_audit attempt_statements_audit
  revision_statements_audit workflow_statements_audit

subsection \<open>The operations\<close>

lemma accounted_runs:
  "io_keeps accounted (CreateOccurrenceForTenant t run n a)" "io_keeps accounted (UpdateRunPhase now t i p k)"
  "io_keeps accounted (DeleteRun t i)" "io_keeps accounted (CreateAttemptForTenant now t i att p)"
proof -
  have "accounted l m" if "io_bind (insertOccurrenceSQL t u r k tr a p n s w) (\<lambda>x. io_bind (io_get (scanStoredRun t u k)) (\<lambda>found. case found of
      None \<Rightarrow> io_fail e | Some st \<Rightarrow> if x = None then io_return (st, False)
        else io_bind (insertControlPlaneAudit t a ev rs (itoa (sr_ID st)) d) (\<lambda>_. io_return (st, True)))) l = (Inr c, m)"
    for u r k tr a p n s w e ev rs d c l m
    using that by (auto simp: accounted_def io_return_apply io_fail_apply split: option.splits if_splits dest!: io_bind_InrD insertOccurrence_audit get_unchanged audit_adds)
  then show "io_keeps accounted (CreateOccurrenceForTenant t run n a)"
    unfolding CreateOccurrenceForTenant_def Let_def
    by (auto intro!: accounting.keeps_pure accounting.keeps_bind accounting.keeps_transaction_ok)
  show "io_keeps accounted (UpdateRunPhase now t i p k)" unfolding UpdateRunPhase_def
    by (rule accounting.keeps_transaction_ok)
       (auto simp: accounted_def io_return_apply io_fail_apply split: option.splits if_splits dest!: io_bind_InrD updateRunPhase_audit get_unchanged audit_adds)
  show "io_keeps accounted (DeleteRun t i)" unfolding DeleteRun_def
    by (rule accounting.keeps_transaction_ok)
       (auto simp: accounted_def io_return_apply split: option.splits dest!: io_bind_InrD deleteRun_audit audit_adds)
  show "io_keeps accounted (CreateAttemptForTenant now t i att p)" unfolding CreateAttemptForTenant_def
    by (auto intro!: accounting.keeps_pure accounting.keeps_transaction_ok)
       (auto simp: accounted_def io_fail_apply split: option.splits dest!: io_bind_InrD attempt_statements_audit audit_adds)
qed

lemma accounted_ApplyRevision: "io_keeps accounted (ApplyRevisionForTenant j t rv)"
  unfolding ApplyRevisionForTenant_def Let_def
  by (auto intro!: accounting.keeps_pure accounting.keeps_bind accounting.keeps_transaction_ok)
     (auto simp: accounted_def io_return_apply split: if_splits dest!: io_bind_InrD revision_statements_audit audit_adds)

lemma accounted_workflow_creation:
  "io_keeps accounted (CreateRunForTenant t wrun)" "io_keeps accounted (CreateStepForTenant t i st n a)"
  unfolding CreateRunForTenant_def CreateStepForTenant_def withTenantTx_eq Let_def
  by (auto intro!: accounting.keeps_pure accounting.keeps_bind accounting.keeps_transaction_ok)
     (auto simp: accounted_def io_return_apply io_fail_apply split: option.splits if_splits
       dest!: io_bind_InrD insertOccurrence_audit workflow_statements_audit get_unchanged lift_unchanged audit_adds)

lemma accounted_PruneRun: "io_keeps accounted (PruneRun t i)"
  unfolding PruneRun_def withTenantTx_eq
  by (rule accounting.keeps_transaction_ok)
     (auto simp: accounted_def io_return_apply io_fail_apply split: option.splits if_splits
       dest!: io_bind_InrD workflow_statements_audit get_unchanged audits_grow audit_adds)

text \<open>An observation that repeats the recorded phase, and decisions without a new phase, change nothing the trail answers for.\<close>

lemma map_same_row:
  assumes "distinct (map key xs)" and "x \<in> set xs" and "\<And>y. hit y \<Longrightarrow> key y = key x" and "g (f x) = g x"
  shows "map g (map (\<lambda>y. if hit y then f y else y) xs) = map g xs"
proof -
  have "g (if hit y then f y else y) = g y" if "y \<in> set xs" for y
    using distinct_map_eq [OF assms(1) that assms(2)] assms(3,4) by (cases "hit y") auto
  then show ?thesis by simp
qed

lemma updateAttemptPhase_same:
  assumes "ledger_wf l" and "updateAttemptPhaseSQL j t ph u v b now l = (Inr (Some (prior, True)), m)"
    and "phase_string (ta_phase prior) = ph"
  shows "audited_state m = audited_state l"
proof -
  let ?g = "\<lambda>a. (ta_id a, ta_run a, ta_number a, ta_job_name a, ta_job_uid a, phase_string (ta_phase a))"
  from assms(2) have prior: "find (\<lambda>a. ta_job_name a = j \<and> ta_tenant a = t) (lg_attempts l) = Some prior"
    and m: "\<exists>f. m = l\<lparr>lg_attempts := map (\<lambda>a. if ta_id a = ta_id prior \<and> ta_tenant a = t then f a else a) (lg_attempts l)\<rparr> \<and> ?g (f prior) = ?g prior"
    by (auto simp: updateAttemptPhaseSQL_def assms(3) split: option.splits if_splits)
  have "distinct (map ta_id (lg_attempts l))" using assms(1) by (simp add: ledger_wf_def attempts_wf_def)
  moreover have "prior \<in> set (lg_attempts l)" using prior by (auto simp: find_Some_iff)
  ultimately show ?thesis using m map_same_row [of ta_id "lg_attempts l" prior "\<lambda>a. ta_id a = ta_id prior \<and> ta_tenant a = t" ?g]
    by (auto simp: audited_state_def simp del: map_map)
qed

lemma updateWorkflowPhase_same:
  assumes "ledger_wf l" and "updateWorkflowPhaseSQL i t p d now l = (Inr (Some prior), m)" and "wf_Phase prior = p"
  shows "audited_state m = audited_state l"
proof -
  let ?g = "\<lambda>w. (wf_ID w, wf_TenantID w, wf_Phase w)"
  from assms(2) obtain hit f where prior: "find hit (lg_wruns l) = Some prior" and hit: "\<And>w. hit w \<Longrightarrow> wf_ID w = i"
    and m: "m = l\<lparr>lg_wruns := map (\<lambda>w. if hit w then f w else w) (lg_wruns l)\<rparr>" and f: "?g (f prior) = ?g prior"
    using assms(3) by (auto simp: updateWorkflowPhaseSQL_def Let_def)
  have "distinct (map wf_ID (lg_wruns l))" using assms(1) by (simp add: ledger_wf_def wruns_wf_def)
  moreover have "prior \<in> set (lg_wruns l)" "wf_ID prior = i" using prior hit by (auto simp: find_Some_iff)
  ultimately show ?thesis using m f hit map_same_row [of wf_ID "lg_wruns l" prior hit ?g f]
    by (auto simp: audited_state_def simp del: map_map)
qed

lemma accounted_phases:
  assumes "ledger_wf l"
  shows "UpdateAttemptPhase now t job ph u v l = (x, m) \<Longrightarrow> accounted l m"
    and "UpdatePhase now t i wp d l = (y, m) \<Longrightarrow> accounted l m"
proof -
  show "accounted l m" if run: "UpdateAttemptPhase now t job ph u v l = (x, m)"
  proof (cases x)
    case (Inl e) with run io_atomicD [OF atomic_operations(6)] show ?thesis by fastforce
  next
    case (Inr a)
    have same: "lg_audit m' = lg_audit l \<and> (\<forall>prior. z = Some (prior, True) \<and> phase_string (ta_phase prior) = ph \<longrightarrow> audited_state m' = audited_state l)"
      if "updateAttemptPhaseSQL job t ph u v (Terminal (phase_of ph)) now l = (Inr z, m')" for z m'
      using that updateAttemptPhase_same [OF assms] attempt_statements_audit(3) by blast
    from Inr run show ?thesis unfolding UpdateAttemptPhase_def
      by (auto simp: accounted_def io_return_apply io_fail_apply split: if_splits option.splits
          dest!: transaction_InrD io_bind_InrD get_unchanged audit_adds same)
  qed
  show "accounted l m" if run: "UpdatePhase now t i wp d l = (y, m)"
  proof (cases y)
    case (Inl e) with run io_atomicD [OF atomic_operations(9)] show ?thesis by fastforce
  next
    case (Inr a)
    have same: "lg_audit m' = lg_audit l \<and> (z = None \<longrightarrow> m' = l) \<and> (\<forall>prior. z = Some prior \<and> wf_Phase prior = wp \<longrightarrow> audited_state m' = audited_state l)"
      if "updateWorkflowPhaseSQL i t wp d now l = (Inr z, m')" for z m'
      using that updateWorkflowPhase_same [OF assms] workflow_statements_audit(2) by blast
    from Inr run show ?thesis unfolding UpdatePhase_def withTenantTx_eq
      by (auto simp: accounted_def io_return_apply io_fail_apply split: if_splits option.splits
          dest!: transaction_InrD io_bind_InrD get_unchanged audit_adds same)
  qed
qed

subsection \<open>Histories\<close>

lemma step_accounted: "ledger_step l m \<Longrightarrow> ledger_wf l \<Longrightarrow> accounted l m"
  by (erule ledger_step.cases)
     (auto intro: io_keepsD' [OF accounted_ApplyRevision] io_keepsD' [OF accounted_runs(1)] io_keepsD' [OF accounted_runs(2)]
       io_keepsD' [OF accounted_runs(3)] io_keepsD' [OF accounted_runs(4)] io_keepsD' [OF accounted_workflow_creation(1)]
       io_keepsD' [OF accounted_workflow_creation(2)] io_keepsD' [OF accounted_PruneRun] accounted_phases,
      simp add: accounted_def audited_state_def)

lemma history_accounted: "history l m \<Longrightarrow> ledger_wf l \<Longrightarrow> accounted l m"
proof (induction rule: rtranclp_induct)
  case (step m n)
  then have "accounted m n" using step_accounted history_wf by blast
  with step show ?case using accounting.R_trans by (blast dest: transpD)
qed simp

end
