(* ===== verification/Execution.thy ===== *)
theory Execution
  imports Workload_Types
begin

section \<open>Kubernetes Jobs\<close>

text \<open>
  \<open>internal/core/app/execution\<close>: the name and the body of the Job of one attempt (\<open>identity.go\<close>,
  \<open>job.go\<close>), the ownership check and the identity read back from labels (\<open>observer.go\<close>), and the
  adapter that drives the Job API (\<open>adapter.go\<close>, \<open>k8s_client.go\<close>). The Job API itself is a
  record of three calls on an abstract cluster state; SHA-256 in hexadecimal is \<open>sha\<close>.
\<close>

subsection \<open>Objects\<close>

record JobIdentity =
  ji_RunName :: string
  ji_RunUID :: string
  ji_RevisionID :: string
  ji_Attempt :: int

record Template =
  tp_Image :: string
  tp_Command :: "string list"
  tp_Args :: "string list"
  tp_BackoffLimit :: int
  tp_ActiveDeadlineSeconds :: int

record KubeJob =
  kj_Name :: string
  kj_Namespace :: string
  kj_UID :: string
  kj_ResourceVersion :: string
  kj_Labels :: "(string \<times> string) list"
  kj_DeletionTimestamp :: "time option"
  kj_BackoffLimit :: int
  kj_ActiveDeadlineSeconds :: "int option"
  kj_PodLabels :: "(string \<times> string) list"
  kj_AutomountServiceAccountToken :: bool
  kj_RestartPolicy :: string
  kj_ContainerName :: string
  kj_Image :: string
  kj_Command :: "string list"
  kj_Args :: "string list"
  kj_Conditions :: "(string \<times> string) list"
  kj_Active :: int

definition LabelRunName :: string where "LabelRunName = ''orbitjob.io/job-run''"
definition LabelRunUID :: string where "LabelRunUID = ''orbitjob.io/job-run-uid''"
definition LabelRevisionID :: string where "LabelRevisionID = ''orbitjob.io/revision-id''"
definition LabelAttempt :: string where "LabelAttempt = ''orbitjob.io/attempt''"

lemmas label_defs = LabelRunName_def LabelRunUID_def LabelRevisionID_def LabelAttempt_def

text \<open>A Go map read: the empty string for a key that is not there.\<close>

definition label :: "(string \<times> string) list \<Rightarrow> string \<Rightarrow> string" where
  "label m k = (case map_of m k of None \<Rightarrow> '''' | Some v \<Rightarrow> v)"

subsection \<open>Names\<close>

definition maxJobNameLength :: int where "maxJobNameLength = 63"

definition sanitize :: "string \<Rightarrow> int \<Rightarrow> string" where
  "sanitize name limit =
     (if limit \<le> 0 then ''''
      else if int (length name) \<le> limit then Trim name ''-''
      else Trim (take (nat limit) name) ''-'')"

definition JobName :: "(string \<Rightarrow> string) \<Rightarrow> JobIdentity \<Rightarrow> string" where
  "JobName sha identity =
     (let raw = ''oj-'' @ ji_RunName identity @ ''-'' @ itoa (ji_Attempt identity) in
      if int (length raw) \<le> maxJobNameLength then raw
      else let suffix = ''-'' @ itoa (ji_Attempt identity);
               keep = maxJobNameLength - 3 - 1 - 8 - int (length suffix)
           in ''oj-'' @ sanitize (ji_RunName identity) keep @ ''-'' @ take 8 (sha raw) @ suffix)"

definition atoi :: "string \<Rightarrow> int result" where
  "atoi s = rbind (parse_int64 s) (\<lambda>v.
     if v < 1 then Inl (Errorf ''attempt must be positive'') else Inr v)"

subsection \<open>The Job of an attempt\<close>

definition BuildJob :: "(string \<Rightarrow> string) \<Rightarrow> JobIdentity \<Rightarrow> string \<Rightarrow> Template \<Rightarrow> KubeJob" where
  "BuildJob sha identity namespace template =
     (let backoff = (if tp_BackoffLimit template < 0 then 0 else tp_BackoffLimit template);
          labels = [(LabelRunName, ji_RunName identity), (LabelRunUID, ji_RunUID identity),
                    (LabelRevisionID, ji_RevisionID identity), (LabelAttempt, itoa (ji_Attempt identity))]
      in \<lparr>kj_Name = JobName sha identity, kj_Namespace = namespace, kj_UID = '''',
          kj_ResourceVersion = '''', kj_Labels = labels, kj_DeletionTimestamp = None,
          kj_BackoffLimit = backoff,
          kj_ActiveDeadlineSeconds =
            (if tp_ActiveDeadlineSeconds template > 0 then Some (tp_ActiveDeadlineSeconds template) else None),
          kj_PodLabels = labels, kj_AutomountServiceAccountToken = False, kj_RestartPolicy = ''Never'',
          kj_ContainerName = ''task'', kj_Image = tp_Image template, kj_Command = tp_Command template,
          kj_Args = tp_Args template, kj_Conditions = [], kj_Active = 0\<rparr>)"

datatype JobPhase = JobPending | JobRunning | JobSucceeded | JobFailed

fun condition_phase :: "(string \<times> string) list \<Rightarrow> JobPhase option" where
  "condition_phase [] = None"
| "condition_phase ((ty, status) # cs) =
     (if status \<noteq> ''True'' then condition_phase cs
      else if ty = ''Complete'' then Some JobSucceeded
      else if ty = ''Failed'' then Some JobFailed
      else condition_phase cs)"

definition Phase :: "KubeJob \<Rightarrow> JobPhase" where
  "Phase job =
     (case condition_phase (kj_Conditions job) of
        Some p \<Rightarrow> p
      | None \<Rightarrow> if kj_Active job > 0 then JobRunning else JobPending)"

subsection \<open>Observation\<close>

definition ValidateOwnership :: "KubeJob \<Rightarrow> JobIdentity \<Rightarrow> unit result" where
  "ValidateOwnership job identity =
     (if label (kj_Labels job) LabelRunName \<noteq> ji_RunName identity then Inl (Wrapf ''run name'' ErrForeignJob)
      else if ji_RunUID identity \<noteq> '''' \<and> label (kj_Labels job) LabelRunUID \<noteq> ji_RunUID identity
        then Inl (Wrapf ''run uid'' ErrForeignJob)
      else if label (kj_Labels job) LabelAttempt \<noteq> itoa (ji_Attempt identity)
        then Inl (Wrapf ''attempt'' ErrForeignJob)
      else Inr ())"

definition IdentityFromJob :: "KubeJob \<Rightarrow> JobIdentity result" where
  "IdentityFromJob job =
     (if label (kj_Labels job) LabelRunName = '''' \<or> label (kj_Labels job) LabelAttempt = ''''
        then Inl (Errorf ''job is not managed by orbitjob'')
      else rbind (wrap_result ''job has invalid attempt label'' (atoi (label (kj_Labels job) LabelAttempt))) (\<lambda>attempt.
        Inr \<lparr>ji_RunName = label (kj_Labels job) LabelRunName, ji_RunUID = label (kj_Labels job) LabelRunUID,
             ji_RevisionID = label (kj_Labels job) LabelRevisionID, ji_Attempt = attempt\<rparr>))"

subsection \<open>The adapter\<close>

text \<open>\<open>Get\<close>, \<open>Create\<close> and \<open>Delete\<close> of the Job API, on the state of the cluster.\<close>

record 'k JobClient =
  jc_Get :: "string \<Rightarrow> string \<Rightarrow> ('k, KubeJob) io"
  jc_Create :: "KubeJob \<Rightarrow> ('k, KubeJob) io"
  jc_Delete :: "string \<Rightarrow> string \<Rightarrow> ('k, unit) io"

definition KubernetesJobClient_Create :: "'k JobClient \<Rightarrow> KubeJob \<Rightarrow> ('k, KubeJob) io" where
  "KubernetesJobClient_Create client job =
     (if kj_Namespace job = '''' then io_fail (Errorf ''kubernetes job namespace is required'')
      else jc_Create client job)"

definition Ensure :: "'k JobClient \<Rightarrow> KubeJob \<Rightarrow> ('k, KubeJob) io" where
  "Ensure client desired =
     (if kj_Name desired = '''' \<or> kj_Namespace desired = ''''
        then io_fail (Errorf ''desired job identity is required'')
      else io_bind (io_try (jc_Get client (kj_Namespace desired) (kj_Name desired))) (\<lambda>existing.
        case existing of
          Inr job \<Rightarrow> io_return job
        | Inl e \<Rightarrow>
            if e \<noteq> ApiNotFound then io_fail e
            else io_bind (io_try (KubernetesJobClient_Create client desired)) (\<lambda>created.
              case created of
                Inr job \<Rightarrow> io_return job
              | Inl e \<Rightarrow>
                  if e \<noteq> ApiAlreadyExists then io_fail e
                  else jc_Get client (kj_Namespace desired) (kj_Name desired))))"

definition Adapter_Get :: "'k JobClient \<Rightarrow> string \<Rightarrow> string \<Rightarrow> ('k, KubeJob option) io" where
  "Adapter_Get client namespace name =
     io_bind (io_try (jc_Get client namespace name)) (\<lambda>r.
       case r of
         Inl e \<Rightarrow> if e = ApiNotFound then io_return None else io_fail e
       | Inr job \<Rightarrow> io_return (Some job))"

definition Adapter_Delete :: "'k JobClient \<Rightarrow> string \<Rightarrow> string \<Rightarrow> ('k, unit) io" where
  "Adapter_Delete client namespace name =
     io_bind (io_try (jc_Delete client namespace name)) (\<lambda>r.
       case r of
         Inl e \<Rightarrow> if e \<noteq> ApiNotFound then io_fail e else io_return ()
       | Inr _ \<Rightarrow> io_return ())"

subsection \<open>A name identifies an attempt\<close>

lemma JobName_short:
  "int (length (ji_RunName i) + length (itoa (ji_Attempt i))) \<le> 59 \<Longrightarrow>
   JobName sha i = ''oj-'' @ ji_RunName i @ ''-'' @ itoa (ji_Attempt i)"
  by (simp add: JobName_def maxJobNameLength_def Let_def)

lemma JobName_short_inject:
  assumes short: "int (length (ji_RunName i) + length (itoa (ji_Attempt i))) \<le> 59"
      "int (length (ji_RunName j) + length (itoa (ji_Attempt j))) \<le> 59"
    and pos: "0 \<le> ji_Attempt i" "0 \<le> ji_Attempt j"
    and eq: "JobName sha i = JobName sha j"
  shows "ji_RunName i = ji_RunName j \<and> ji_Attempt i = ji_Attempt j"
proof -
  have "ji_RunName i @ CHR ''-'' # itoa (ji_Attempt i) = ji_RunName j @ CHR ''-'' # itoa (ji_Attempt j)"
    using eq unfolding JobName_short [OF short(1)] JobName_short [OF short(2)] by simp
  from sep_suffix_inject [OF this itoa_no_minus itoa_no_minus] pos show ?thesis by simp
qed

lemma length_Trim: "length (Trim s c) \<le> length s"
proof -
  have "length (dropWhile P xs) \<le> length xs" for P and xs :: string by (induction xs) auto
  then show ?thesis unfolding Trim_def by (metis (no_types, lifting) dual_order.trans length_rev)
qed

lemma length_JobName:
  assumes "length (itoa (ji_Attempt i)) \<le> 50"
  shows "int (length (JobName sha i)) \<le> maxJobNameLength"
proof -
  have "int (length (sanitize name limit)) \<le> max 0 limit" for name limit
    using length_Trim [of name "''-''"] length_Trim [of "take (nat limit) name" "''-''"]
    by (auto simp: sanitize_def)
  from this [of "ji_RunName i" "maxJobNameLength - 3 - 1 - 8 - int (length (''-'' @ itoa (ji_Attempt i)))"]
  show ?thesis using assms by (auto simp: JobName_def Let_def maxJobNameLength_def min_def)
qed

subsection \<open>Labels carry the identity\<close>

lemma IdentityFromJob_BuildJob:
  assumes "ji_RunName i \<noteq> []" and "1 \<le> ji_Attempt i" and "ji_Attempt i < 2 ^ 63"
  shows "IdentityFromJob (BuildJob sha i ns t) = Inr i"
proof -
  have "parse_int64 (itoa (ji_Attempt i)) = Inr (ji_Attempt i)"
    using assms by (intro parse_int64_itoa) auto
  then show ?thesis using assms
    by (cases i) (simp add: IdentityFromJob_def BuildJob_def label_def label_defs atoi_def Let_def)
qed

lemma ValidateOwnership_BuildJob: "ValidateOwnership (BuildJob sha i ns t) i = Inr ()"
  by (simp add: ValidateOwnership_def BuildJob_def label_def label_defs Let_def)

lemma ValidateOwnership_same:
  assumes "ji_RunName j = ji_RunName i" and "ji_Attempt j = ji_Attempt i" and "ji_RunUID j = [] \<or> ji_RunUID j = ji_RunUID i"
  shows "ValidateOwnership (BuildJob sha i ns t) j = Inr ()"
  using assms by (auto simp: ValidateOwnership_def BuildJob_def label_def label_defs Let_def)

lemma ValidateOwnership_other:
  assumes "ji_RunName i \<noteq> ji_RunName j \<or> ji_Attempt i \<noteq> ji_Attempt j
      \<or> (ji_RunUID j \<noteq> [] \<and> ji_RunUID i \<noteq> ji_RunUID j)"
  shows "\<exists>m. ValidateOwnership (BuildJob sha i ns t) j = Inl (Wrapf m ErrForeignJob)"
  using assms by (auto simp: ValidateOwnership_def BuildJob_def label_def label_defs Let_def)

lemma condition_phase_Some:
  "condition_phase cs = Some p \<Longrightarrow>
   p = JobSucceeded \<and> (''Complete'', ''True'') \<in> set cs \<or> p = JobFailed \<and> (''Failed'', ''True'') \<in> set cs"
  by (induction cs rule: condition_phase.induct) (auto split: if_splits)

lemma Phase_terminal:
  "Phase job = JobSucceeded \<Longrightarrow> (''Complete'', ''True'') \<in> set (kj_Conditions job)"
  "Phase job = JobFailed \<Longrightarrow> (''Failed'', ''True'') \<in> set (kj_Conditions job)"
  by (auto simp: Phase_def split: option.splits if_splits dest!: condition_phase_Some)

end
