(* ===== verification/World.thy ===== *)
theory World
  imports Ledger_Audit Execution
begin

section \<open>The world a control-plane process acts on\<close>

text \<open>
  A process of the control plane sees the database through a repository and the cluster
  through API calls. The world holds the ledger, an abstract cluster state (API server, read
  models, everything else) and the number of calls made so far.

  The environment says what happens around each call: what the process clock reads, what
  other writers committed to the ledger in between, and whether the call fails. A database
  call can fail before anything is written or after the commit, with the answer lost; in both
  cases the caller sees an error. Theorems quantify over the environment, with other writers
  restricted to histories of the ledger.
\<close>

record env =
  en_now :: "nat \<Rightarrow> time"
  en_fault :: "nat \<Rightarrow> fault"
  en_other :: "nat \<Rightarrow> ledger \<Rightarrow> ledger"

record 'k world =
  w_ledger :: ledger
  w_cluster :: 'k
  w_tick :: nat

definition store_call :: "env \<Rightarrow> (time \<Rightarrow> (ledger, 'a) io) \<Rightarrow> ('k world, 'a) io" where
  "store_call env op = (\<lambda>w.
     let n = w_tick w in
     case call_with (en_fault env n) (op (en_now env n)) (en_other env n (w_ledger w)) of
       (r, l') \<Rightarrow> (r, w\<lparr>w_ledger := l', w_tick := n + 1\<rparr>))"

lemma store_call_eq:
  "store_call env op = (\<lambda>w.
     let n = w_tick w; l = en_other env n (w_ledger w) in
     case en_fault env n of
       FailBefore \<Rightarrow> (Inl (DbError ''connection''), w\<lparr>w_ledger := l, w_tick := n + 1\<rparr>)
     | NoFault \<Rightarrow> (case op (en_now env n) l of (r, l') \<Rightarrow> (r, w\<lparr>w_ledger := l', w_tick := n + 1\<rparr>))
     | FailAfter \<Rightarrow> (case op (en_now env n) l of
          (r, l') \<Rightarrow> (case r of Inl e \<Rightarrow> Inl e | Inr a \<Rightarrow> Inl (DbError ''connection''), w\<lparr>w_ledger := l', w_tick := n + 1\<rparr>)))"
  by (rule ext) (simp add: store_call_def call_with_def Let_def split: fault.split prod.split sum.split)

definition kube_call :: "('k, 'a) io \<Rightarrow> ('k world, 'a) io" where
  "kube_call op = (\<lambda>w.
     case op (w_cluster w) of (r, k) \<Rightarrow> (r, w\<lparr>w_cluster := k, w_tick := w_tick w + 1\<rparr>))"

definition now_call :: "env \<Rightarrow> ('k world, time) io" where
  "now_call env = (\<lambda>w. (Inr (en_now env (w_tick w)), w\<lparr>w_tick := w_tick w + 1\<rparr>))"

text \<open>The quiet environment: no faults, no other writers, a fixed clock.\<close>

definition quiet :: "time \<Rightarrow> env" where
  "quiet now = \<lparr>en_now = (\<lambda>_. now), en_fault = (\<lambda>_. NoFault), en_other = (\<lambda>_ l. l)\<rparr>"

subsection \<open>Guarantees pass from the ledger to the process\<close>

definition on_ledger :: "(ledger \<Rightarrow> ledger \<Rightarrow> bool) \<Rightarrow> 'k world \<Rightarrow> 'k world \<Rightarrow> bool" where
  "on_ledger R w v \<longleftrightarrow> R (w_ledger w) (w_ledger v)"

lemma store_call_keeps:
  assumes "transp R" and "\<And>n l. R l (en_other env n l)" and "\<And>now. io_keeps R (op now)"
  shows "io_keeps (on_ledger R) (store_call env op)"
  unfolding io_keeps_def
proof
  fix w :: "'k world"
  let ?n = "w_tick w"
  let ?l = "en_other env ?n (w_ledger w)"
  have step: "R (w_ledger w) ?l" by (rule assms(2))
  then have "R (w_ledger w) (snd (op (en_now env ?n) ?l))"
    using assms(1) io_keepsD [OF assms(3), of ?l] by (blast dest: transpD)
  with step show "on_ledger R w (snd (store_call env op w))"
    by (auto simp: store_call_eq on_ledger_def Let_def split: fault.split prod.splits)
qed

lemma kube_call_keeps: "reflp R \<Longrightarrow> io_keeps (on_ledger R) (kube_call op)"
  by (auto simp: io_keeps_def on_ledger_def kube_call_def reflp_def split: prod.splits)

lemma now_call_keeps: "reflp R \<Longrightarrow> io_keeps (on_ledger R) (now_call env)"
  by (auto simp: io_keeps_def on_ledger_def now_call_def reflp_def)

lemma on_ledger_refl: "reflp R \<Longrightarrow> reflp (on_ledger R)"
  by (simp add: reflp_def on_ledger_def)

lemma on_ledger_trans: "transp R \<Longrightarrow> transp (on_ledger R)"
  by (auto simp: transp_def on_ledger_def)

text \<open>
  The interface between a process and the store: the process calls operations that keep the
  guarantee \<open>R\<close>, in an environment whose other writers keep it too. Then so does every
  program built from such calls.
\<close>

locale process =
  fixes R :: "ledger \<Rightarrow> ledger \<Rightarrow> bool" and env :: env
  assumes R_refl: "reflp R" and R_trans: "transp R" and others: "\<And>n l. R l (en_other env n l)"
begin

lemma store: "(\<And>now. io_keeps R (op now)) \<Longrightarrow> io_keeps (on_ledger R) (store_call env op)"
  using R_trans others by (rule store_call_keeps)

lemma kube: "io_keeps (on_ledger R) (kube_call op)"
  using R_refl by (rule kube_call_keeps)

lemma clock: "io_keeps (on_ledger R) (now_call env)"
  using R_refl by (rule now_call_keeps)

lemmas pure = io_keeps_pure [OF on_ledger_refl [OF R_refl]]
lemmas bind = io_keeps_bind [OF on_ledger_trans [OF R_trans]]
lemmas iter = io_keeps_iter [OF on_ledger_refl [OF R_refl] on_ledger_trans [OF R_trans]]
lemmas sum = io_keeps_sum [OF on_ledger_refl [OF R_refl] on_ledger_trans [OF R_trans]]
lemmas intros = pure bind kube clock io_keeps_try io_keeps_wrap

end

sublocale process \<subseteq> guarantee: store_guarantee R
  using R_refl R_trans by unfold_locales

end
