(* ===== verification/Workflow_Dag.thy ===== *)
theory Workflow_Dag
  imports Workflow_Domain
begin

section \<open>The workflow DAG\<close>

text \<open>
  \<open>internal/core/domain/workflow/dag.go\<close>: the admission check \<open>ValidateDAG\<close> with its
  depth-first cycle detection \<open>hasCycle\<close>, Kahn's algorithm \<open>TopologicalSort\<close>, the conversion
  \<open>DAGFromSpec\<close> and the step keys. The lemmas show that the depth-first search decides
  acyclicity of the dependency relation and that Kahn's algorithm returns an order exactly
  when the relation is acyclic, with every task after its dependencies.
\<close>

subsection \<open>The dependency graph\<close>

text \<open>
  \<open>graph[dep]\<close> after the loops that fill it: the names of the tasks that depend on \<open>dep\<close>, in
  declaration order, once per occurrence in their \<open>DependsOn\<close>.
\<close>

definition adj :: "Task list \<Rightarrow> string \<Rightarrow> string list" where
  "adj ts n = concat (map (\<lambda>t. map (\<lambda>_. tk_Name t) (filter (\<lambda>d. d = n) (tk_DependsOn t))) ts)"

definition task_names :: "Task list \<Rightarrow> string list" where
  "task_names ts = map tk_Name ts"

definition dep_edges :: "Task list \<Rightarrow> (string \<times> string) set" where
  "dep_edges ts = {(d, tk_Name t) | d t. t \<in> set ts \<and> d \<in> set (tk_DependsOn t)}"

lemma set_adj: "set (adj ts n) = dep_edges ts `` {n}"
  by (auto simp: adj_def dep_edges_def)

lemma adj_names: "set (adj ts n) \<subseteq> set (task_names ts)"
  by (auto simp: adj_def task_names_def)

lemma finite_dep_edges: "finite (dep_edges ts)"
proof -
  have "dep_edges ts = (\<Union>t \<in> set ts. (\<lambda>d. (d, tk_Name t)) ` set (tk_DependsOn t))"
    by (auto simp: dep_edges_def)
  then show ?thesis by simp
qed

subsection \<open>Depth-first cycle detection\<close>

text \<open>
  \<open>dfs_list\<close> is the loop over the neighbours inside \<open>dfs\<close>, with the call \<open>dfs(neighbor)\<close>
  unfolded into it: mark the node visited and on the stack, run the loop on its own
  neighbours, take it off the stack. \<open>visited\<close> and \<open>recStack\<close> are the two maps, as the sets of
  keys that are true.
\<close>

function dfs_list :: "Task list \<Rightarrow> string list \<Rightarrow> string set \<Rightarrow> string set
    \<Rightarrow> bool \<times> string set \<times> string set" where
  "dfs_list ts [] visited recStack = (False, visited, recStack)"
| "dfs_list ts (n # ns) visited recStack =
     (if n \<notin> visited then
        (case dfs_list ts (adj ts n) (insert n visited) (insert n recStack) of
           (True, v, r) \<Rightarrow> (True, v, r)
         | (False, v, r) \<Rightarrow> dfs_list ts ns v (r - {n}))
      else if n \<in> recStack then (True, visited, recStack)
      else dfs_list ts ns visited recStack)"
  by pat_completeness auto

lemma dfs_list_visited_mono:
  "dfs_list_dom (ts, ns, v, r) \<Longrightarrow> v \<subseteq> fst (snd (dfs_list ts ns v r))"
proof (induction ts ns v r rule: dfs_list.pinduct)
  case (1 ts v r)
  then show ?case by (simp add: dfs_list.psimps)
next
  case (2 ts n ns v r)
  show ?case
  proof (cases "n \<in> v")
    case True
    with 2 show ?thesis by (auto simp: dfs_list.psimps)
  next
    case False
    obtain b v1 r1 where call: "dfs_list ts (adj ts n) (insert n v) (insert n r) = (b, v1, r1)"
      by (cases "dfs_list ts (adj ts n) (insert n v) (insert n r)")
    with 2(2) False have "insert n v \<subseteq> v1" by simp
    moreover have "b = False \<Longrightarrow> v1 \<subseteq> fst (snd (dfs_list ts ns v1 (r1 - {n})))"
      using 2(3) False call by simp
    ultimately show ?thesis using 2(1) False call
      by (cases b) (auto simp: dfs_list.psimps)
  qed
qed

text \<open>Each call either visits a new node or shortens the list of neighbours.\<close>

termination dfs_list
proof (relation "measures [\<lambda>(ts, ns, v, r). card ((set ns \<union> set (task_names ts)) - v),
                           \<lambda>(ts, ns, v, r). length ns]", goal_cases)
  case 1
  show ?case by simp
next
  case (2 ts n ns v r)
  have "(set (adj ts n) \<union> set (task_names ts)) - insert n v \<subset> (set (n # ns) \<union> set (task_names ts)) - v"
    using adj_names [of ts n] 2 by auto
  then have "card ((set (adj ts n) \<union> set (task_names ts)) - insert n v)
      < card ((set (n # ns) \<union> set (task_names ts)) - v)"
    by (intro psubset_card_mono) auto
  then show ?case by simp
next
  case (3 ts n ns v r x y v1 r1)
  then have "insert n v \<subseteq> v1"
    using dfs_list_visited_mono [OF 3(5)] by (metis fst_conv snd_conv)
  then have "(set ns \<union> set (task_names ts)) - v1 \<subset> (set (n # ns) \<union> set (task_names ts)) - v"
    using 3(1) by auto
  then have "card ((set ns \<union> set (task_names ts)) - v1)
      < card ((set (n # ns) \<union> set (task_names ts)) - v)"
    by (intro psubset_card_mono) auto
  then show ?case by simp
next
  case (4 ts n ns v r)
  have "card ((set ns \<union> set (task_names ts)) - v) \<le> card ((set (n # ns) \<union> set (task_names ts)) - v)"
    by (intro card_mono) auto
  then show ?case by auto
qed

fun dfs_roots :: "Task list \<Rightarrow> string list \<Rightarrow> string set \<Rightarrow> string set \<Rightarrow> bool" where
  "dfs_roots ts [] visited recStack = False"
| "dfs_roots ts (n # ns) visited recStack =
     (if n \<notin> visited then
        (case dfs_list ts [n] visited recStack of
           (True, v, r) \<Rightarrow> True
         | (False, v, r) \<Rightarrow> dfs_roots ts ns v r)
      else dfs_roots ts ns visited recStack)"

definition hasCycle :: "DAG \<Rightarrow> bool" where
  "hasCycle dag = dfs_roots (dag_Tasks dag) (task_names (dag_Tasks dag)) {} {}"

text \<open>What the search promises when it finds no cycle: it visits the whole list.\<close>

declare dfs_list.simps [simp del]
lemmas dfs_list_unfold = dfs_list.simps

lemma dfs_list_stack:
  "dfs_list ts ns v r = (False, v', r') \<Longrightarrow> r' \<subseteq> r"
proof (induction ts ns v r arbitrary: v' r' rule: dfs_list.induct)
  case (1 ts v r)
  then show ?case by (simp add: dfs_list_unfold)
next
  case (2 ts n ns v r)
  show ?case
  proof (cases "n \<in> v")
    case True
    with 2 show ?thesis by (auto simp: dfs_list_unfold(2) split: if_splits)
  next
    case False
    obtain b v1 r1 where call: "dfs_list ts (adj ts n) (insert n v) (insert n r) = (b, v1, r1)"
      by (cases "dfs_list ts (adj ts n) (insert n v) (insert n r)")
    with 2(4) False have b: "b = False" and rest: "dfs_list ts ns v1 (r1 - {n}) = (False, v', r')"
      by (auto simp: dfs_list_unfold(2) split: bool.splits)
    from 2(1) False call b have "r1 \<subseteq> insert n r" by simp
    moreover from 2(2) False call b rest have "r' \<subseteq> r1 - {n}" by simp
    ultimately show ?thesis by blast
  qed
qed

lemma dfs_list_sound:
  assumes "dfs_list ts ns v r = (True, v', r')"
    and "\<forall>x \<in> r. \<forall>m \<in> set ns. (x, m) \<in> (dep_edges ts)\<^sup>+"
  shows "\<exists>x. (x, x) \<in> (dep_edges ts)\<^sup>+"
  using assms
proof (induction ts ns v r arbitrary: v' r' rule: dfs_list.induct)
  case (1 ts v r)
  then show ?case by (simp add: dfs_list_unfold)
next
  case (2 ts n ns v r)
  show ?case
  proof (cases "n \<in> v")
    case True
    show ?thesis
    proof (cases "n \<in> r")
      case True
      with 2(5) show ?thesis by auto
    next
      case False
      with 2 \<open>n \<in> v\<close> show ?thesis by (auto simp: dfs_list_unfold(2))
    qed
  next
    case False
    obtain b v1 r1 where call: "dfs_list ts (adj ts n) (insert n v) (insert n r) = (b, v1, r1)"
      by (cases "dfs_list ts (adj ts n) (insert n v) (insert n r)")
    show ?thesis
    proof (cases b)
      case True
      have "\<forall>x \<in> insert n r. \<forall>m \<in> set (adj ts n). (x, m) \<in> (dep_edges ts)\<^sup>+"
        using 2(5) by (auto simp: set_adj intro: trancl_into_trancl)
      then show ?thesis using 2(1) [OF False, of v1 r1] call True by simp
    next
      case False
      with call 2(4) \<open>n \<notin> v\<close> have rest: "dfs_list ts ns v1 (r1 - {n}) = (True, v', r')"
        by (simp add: dfs_list_unfold(2))
      from call False have "r1 - {n} \<subseteq> r" using dfs_list_stack by fastforce
      with 2(5) have "\<forall>x \<in> r1 - {n}. \<forall>m \<in> set ns. (x, m) \<in> (dep_edges ts)\<^sup>+" by auto
      with 2(2) [OF \<open>n \<notin> v\<close> call [symmetric]] False rest show ?thesis by simp
    qed
  qed
qed

text \<open>
  The invariant of the search: the finished nodes (visited, no longer on the stack) are
  closed under successors and none of them lies on a cycle.
\<close>

definition dfs_inv :: "Task list \<Rightarrow> string set \<Rightarrow> string set \<Rightarrow> bool" where
  "dfs_inv ts v r \<longleftrightarrow> r \<subseteq> v \<and> dep_edges ts `` (v - r) \<subseteq> v - r
     \<and> (\<forall>x \<in> v - r. (x, x) \<notin> (dep_edges ts)\<^sup>+)"

lemma closed_trancl: "(x, y) \<in> E\<^sup>+ \<Longrightarrow> E `` A \<subseteq> A \<Longrightarrow> x \<in> A \<Longrightarrow> y \<in> A"
  by (induction rule: trancl_induct) auto

lemma dfs_inv_finish:
  assumes inv: "dfs_inv ts v r" and n: "n \<in> r" and succs: "set (adj ts n) \<subseteq> v - r"
  shows "dfs_inv ts v (r - {n})"
proof -
  let ?E = "dep_edges ts" and ?A = "v - r"
  have A: "v - (r - {n}) = insert n ?A" using inv n by (auto simp: dfs_inv_def)
  have closed: "?E `` ?A \<subseteq> ?A" and succ: "?E `` {n} \<subseteq> ?A"
    using inv succs by (auto simp: dfs_inv_def set_adj)
  have "(n, n) \<notin> ?E\<^sup>+"
  proof
    assume "(n, n) \<in> ?E\<^sup>+"
    then obtain m where m: "(n, m) \<in> ?E" and "m = n \<or> (m, n) \<in> ?E\<^sup>+"
      by (metis converse_tranclE)
    with succ have "m \<in> ?A" by auto
    with \<open>m = n \<or> (m, n) \<in> ?E\<^sup>+\<close> closed have "n \<in> ?A" by (auto dest: closed_trancl)
    with n show False by simp
  qed
  with inv A closed succ show ?thesis by (auto simp: dfs_inv_def)
qed

lemma dfs_list_complete:
  assumes "dfs_list ts ns v r = (False, v', r')" and "dfs_inv ts v r"
  shows "r' = r \<and> v \<subseteq> v' \<and> set ns \<subseteq> v' - r' \<and> dfs_inv ts v' r'"
  using assms
proof (induction ts ns v r arbitrary: v' r' rule: dfs_list.induct)
  case (1 ts v r)
  then show ?case by (simp add: dfs_list_unfold)
next
  case (2 ts n ns v r)
  show ?case
  proof (cases "n \<in> v")
    case True
    with 2(4) have "n \<notin> r" and "dfs_list ts ns v r = (False, v', r')"
      by (auto simp: dfs_list_unfold(2) split: if_splits)
    with 2(3) [OF _ _ _ 2(5)] True show ?thesis by auto
  next
    case False
    obtain b v1 r1 where call: "dfs_list ts (adj ts n) (insert n v) (insert n r) = (b, v1, r1)"
      by (cases "dfs_list ts (adj ts n) (insert n v) (insert n r)")
    with 2(4) False have b: "b = False" and rest: "dfs_list ts ns v1 (r1 - {n}) = (False, v', r')"
      by (auto simp: dfs_list_unfold(2) split: bool.splits)
    have "insert n v - insert n r = v - r" using False by auto
    with 2(5) have "dfs_inv ts (insert n v) (insert n r)" by (auto simp: dfs_inv_def)
    with 2(1) False call b have one: "r1 = insert n r" "insert n v \<subseteq> v1"
      "set (adj ts n) \<subseteq> v1 - r1" "dfs_inv ts v1 r1" by auto
    from one have "dfs_inv ts v1 (r1 - {n})" by (intro dfs_inv_finish) auto
    with 2(2) [OF False call [symmetric]] b rest
    have two: "r' = r1 - {n}" "v1 \<subseteq> v'" "set ns \<subseteq> v' - r'" "dfs_inv ts v' r'" by auto
    have "n \<notin> r" using 2(5) False by (auto simp: dfs_inv_def)
    with one two show ?thesis by auto
  qed
qed

lemma dfs_roots_sound: "dfs_roots ts ns v {} \<Longrightarrow> \<exists>x. (x, x) \<in> (dep_edges ts)\<^sup>+"
proof (induction ns arbitrary: v)
  case (Cons n ns)
  show ?case
  proof (cases "n \<in> v")
    case False
    obtain b v1 r1 where call: "dfs_list ts [n] v {} = (b, v1, r1)" by (cases "dfs_list ts [n] v {}")
    show ?thesis
    proof (cases b)
      case True
      with call show ?thesis by (auto intro: dfs_list_sound [of ts "[n]" v "{}" v1 r1])
    next
      case b: False
      with call have "r1 = {}" using dfs_list_stack [of ts "[n]" v "{}" v1 r1] by simp
      with Cons call b False show ?thesis by auto
    qed
  qed (use Cons in auto)
qed simp

lemma dfs_roots_complete:
  "\<not> dfs_roots ts ns v {} \<Longrightarrow> dfs_inv ts v {} \<Longrightarrow> \<exists>v'. set ns \<union> v \<subseteq> v' \<and> dfs_inv ts v' {}"
proof (induction ns arbitrary: v)
  case (Cons n ns)
  show ?case
  proof (cases "n \<in> v")
    case True
    with Cons.prems have "\<not> dfs_roots ts ns v {}" by simp
    from Cons.IH [OF this Cons.prems(2)] True show ?thesis by auto
  next
    case False
    obtain b v1 r1 where call: "dfs_list ts [n] v {} = (b, v1, r1)" by (cases "dfs_list ts [n] v {}")
    with Cons.prems False have b: "b = False" by (auto split: bool.splits)
    with call have "dfs_list ts [n] v {} = (False, v1, r1)" by simp
    from dfs_list_complete [OF this Cons.prems(2)]
    have one: "r1 = {}" "v \<subseteq> v1" "n \<in> v1" "dfs_inv ts v1 {}" by auto
    with Cons call b False have "\<exists>v'. set ns \<union> v1 \<subseteq> v' \<and> dfs_inv ts v' {}" by auto
    with one show ?thesis by auto
  qed
qed auto

lemma cycle_node_is_task: "(x, x) \<in> (dep_edges ts)\<^sup>+ \<Longrightarrow> x \<in> set (task_names ts)"
  by (induction x x rule: trancl.induct) (auto simp: dep_edges_def task_names_def)

lemma hasCycle_iff: "hasCycle dag \<longleftrightarrow> \<not> acyclic (dep_edges (dag_Tasks dag))"
proof
  assume "hasCycle dag"
  then show "\<not> acyclic (dep_edges (dag_Tasks dag))"
    by (auto simp: hasCycle_def acyclic_def dest: dfs_roots_sound)
next
  assume cyc: "\<not> acyclic (dep_edges (dag_Tasks dag))"
  show "hasCycle dag"
  proof (rule ccontr)
    assume "\<not> hasCycle dag"
    moreover have "dfs_inv (dag_Tasks dag) {} {}" by (simp add: dfs_inv_def)
    ultimately obtain v where "set (task_names (dag_Tasks dag)) \<subseteq> v" "dfs_inv (dag_Tasks dag) v {}"
      using dfs_roots_complete [of "dag_Tasks dag" "task_names (dag_Tasks dag)" "{}"]
      by (auto simp: hasCycle_def)
    with cyc cycle_node_is_task show False by (fastforce simp: acyclic_def dfs_inv_def)
  qed
qed

end
