(* ===== verification/Workflow_Order.thy ===== *)
theory Workflow_Order
  imports Workflow_Dag
begin

section \<open>Ordering, validating and converting a DAG\<close>

text \<open>
  The rest of \<open>internal/core/domain/workflow/dag.go\<close>: Kahn's algorithm, the admission check
  around the cycle search, the conversion from the custom resource and the step keys.
  SHA-256 rendered in hexadecimal is the parameter \<open>sha\<close>.
\<close>

subsection \<open>Kahn's algorithm\<close>

definition in_degree :: "Task list \<Rightarrow> string \<Rightarrow> int" where
  "in_degree ts n = int (length (concat (map tk_DependsOn (filter (\<lambda>t. tk_Name t = n) ts))))"

text \<open>The inner loop: decrement each neighbour, enqueue it when it reaches zero.\<close>

fun relax :: "string list \<Rightarrow> (string \<Rightarrow> int) \<Rightarrow> string list \<Rightarrow> (string \<Rightarrow> int) \<times> string list" where
  "relax [] deg q = (deg, q)"
| "relax (n # ns) deg q =
     (let deg' = deg(n := deg n - 1)
      in relax ns deg' (if deg' n = 0 then q @ [n] else q))"

lemma relax_measure:
  assumes "relax ns deg q = (deg', q')" and "set ns \<subseteq> A" and "finite A"
  shows "length q' + card {n \<in> A. 0 < deg' n} \<le> length q + card {n \<in> A. 0 < deg n}"
  using assms
proof (induction ns arbitrary: deg q)
  case (Cons n ns)
  let ?d = "deg(n := deg n - 1)" and ?P = "\<lambda>d :: string \<Rightarrow> int. {n \<in> A. 0 < d n}"
  let ?q = "if ?d n = 0 then q @ [n] else q"
  have run: "relax ns ?d ?q = (deg', q')" using Cons.prems by (simp add: Let_def)
  have "length q' + card (?P deg') \<le> length ?q + card (?P ?d)"
    using Cons.prems Cons.IH [OF run] by simp
  also have "\<dots> \<le> length q + card (?P deg)"
  proof (cases "?d n = 0")
    case True
    then have "?P ?d = ?P deg - {n}" and "n \<in> ?P deg" using Cons.prems(2) by auto
    then have "card (?P ?d) + 1 = card (?P deg)"
      using Cons.prems(3) card.remove [of "?P deg" n] by simp
    with True show ?thesis by simp
  next
    case False
    have "card (?P ?d) \<le> card (?P deg)" using Cons.prems(3) by (intro card_mono) (auto split: if_splits)
    with False show ?thesis by simp
  qed
  finally show ?case .
qed simp

function kahn :: "Task list \<Rightarrow> (string \<Rightarrow> int) \<Rightarrow> string list \<Rightarrow> string list \<Rightarrow> string list" where
  "kahn ts deg [] order = order"
| "kahn ts deg (current # queue) order =
     (case relax (adj ts current) deg queue of
        (deg', queue') \<Rightarrow> kahn ts deg' queue' (order @ [current]))"
  by pat_completeness auto

termination kahn
proof (relation "measure (\<lambda>(ts, deg, q, ord). length q + card {n \<in> set (task_names ts). 0 < deg n})",
    goal_cases)
  case 1
  show ?case by simp
next
  case (2 ts deg c q ord deg' q')
  then have "relax (adj ts c) deg q = (deg', q')" by simp
  from relax_measure [OF this adj_names] show ?case by simp
qed

definition TopologicalSort :: "DAG \<Rightarrow> string list result" where
  "TopologicalSort dag =
     (let ts = dag_Tasks dag;
          queue = filter (\<lambda>n. in_degree ts n = 0) (task_names ts);
          order = kahn ts (in_degree ts) queue []
      in if length order \<noteq> length ts then Inl (Errorf ''workflow contains a cycle'')
         else Inr order)"

subsection \<open>Admission\<close>

fun dag_names :: "Task list \<Rightarrow> string list \<Rightarrow> string list result" where
  "dag_names [] names = Inr names"
| "dag_names (t # ts) names =
     (if tk_Name t = '''' then Inl (Errorf ''task name cannot be empty'')
      else if tk_Name t \<in> set names then Inl (Errorf ''duplicate task name'')
      else dag_names ts (tk_Name t # names))"

fun dag_deps :: "string \<Rightarrow> string list \<Rightarrow> string list \<Rightarrow> string list \<Rightarrow> string list result" where
  "dag_deps self names [] dependencies = Inr dependencies"
| "dag_deps self names (dep # deps) dependencies =
     (if dep = self then Inl (Errorf ''task depends on itself'')
      else if dep \<notin> set names then Inl (Errorf ''task depends on unknown task'')
      else if dep \<in> set dependencies then Inl (Errorf ''task depends on a task twice'')
      else dag_deps self names deps (dep # dependencies))"

fun dag_rules :: "Rule list \<Rightarrow> string list \<Rightarrow> unit result" where
  "dag_rules [] dependencies = Inr ()"
| "dag_rules (r # rs) dependencies =
     (if ru_Task r = '''' then Inl (Errorf ''condition rule task cannot be empty'')
      else if ru_Task r \<notin> set dependencies
        then Inl (Errorf ''condition rule reads a task which is not in its dependsOn'')
      else dag_rules rs dependencies)"

fun dag_tasks :: "string list \<Rightarrow> Task list \<Rightarrow> unit result" where
  "dag_tasks names [] = Inr ()"
| "dag_tasks names (t # ts) =
     (if tk_JobRef t = '''' then Inl (Errorf ''jobRef must name a ScheduledJob definition'')
      else rbind (dag_deps (tk_Name t) names (tk_DependsOn t) []) (\<lambda>dependencies.
        case tk_Condition t of
          None \<Rightarrow> dag_tasks names ts
        | Some c \<Rightarrow>
            if co_Type c \<noteq> ConditionAll \<and> co_Type c \<noteq> ConditionAny
              then Inl (Errorf ''unknown condition type'')
            else if co_Rules c = [] then Inl (Errorf ''condition must have at least one rule'')
            else rbind (dag_rules (co_Rules c) dependencies) (\<lambda>_. dag_tasks names ts)))"

definition ValidateDAG :: "DAG \<Rightarrow> unit result" where
  "ValidateDAG dag =
     (if dag_Tasks dag = [] then Inl (Errorf ''workflow must have at least one task'')
      else rbind (dag_names (dag_Tasks dag) []) (\<lambda>names.
           rbind (dag_tasks names (dag_Tasks dag)) (\<lambda>_.
           if hasCycle dag then Inl (Errorf ''workflow contains a cycle'') else Inr ())))"

subsection \<open>Conversion and step keys\<close>

definition task_of_spec :: "WorkflowTaskSpec \<Rightarrow> Task" where
  "task_of_spec t = \<lparr>tk_Name = wt_Name t, tk_JobRef = wt_JobRef t, tk_DependsOn = wt_DependsOn t,
     tk_Condition = map_option cond_of_spec (wt_Condition t)\<rparr>"

definition DAGFromSpec :: "WorkflowJobSpec \<Rightarrow> DAG" where
  "DAGFromSpec spec =
     \<lparr>dag_FailPolicy = (if ws_FailPolicy spec = Continue then Continue else FailFast),
      dag_TimeoutSeconds = ws_TimeoutSeconds spec,
      dag_Tasks = map task_of_spec (ws_Tasks spec)\<rparr>"

definition StepOccurrenceKey :: "(string \<Rightarrow> string) \<Rightarrow> string \<Rightarrow> string \<Rightarrow> string \<Rightarrow> string" where
  "StepOccurrenceKey sha workflowSourceUID workflowOccurrenceKey taskName =
     sha (''wfstep|'' @ workflowSourceUID @ ''|'' @ workflowOccurrenceKey @ ''|'' @ taskName)"

subsection \<open>What Kahn's algorithm keeps\<close>

lemma relax_deg: "relax ns deg q = (deg', q') \<Longrightarrow> deg' n = deg n - int (count_list ns n)"
  by (induction ns deg q rule: relax.induct) (auto simp: Let_def split: if_splits)

lemma relax_queue:
  "relax ns deg q = (deg', q') \<Longrightarrow>
   \<exists>new. q' = q @ new \<and> distinct new \<and> (\<forall>n. n \<in> set new \<longleftrightarrow> 1 \<le> deg n \<and> deg n \<le> int (count_list ns n))"
proof (induction ns arbitrary: deg q)
  case (Cons m ns)
  let ?d = "deg(m := deg m - 1)" and ?q = "if (deg(m := deg m - 1)) m = 0 then q @ [m] else q"
  have "relax ns ?d ?q = (deg', q')" using Cons.prems by (simp add: Let_def)
  from Cons.IH [OF this] obtain new where new: "q' = ?q @ new" "distinct new"
      "\<And>n. n \<in> set new \<longleftrightarrow> 1 \<le> ?d n \<and> ?d n \<le> int (count_list ns n)"
    by blast
  show ?case
  proof (cases "?d m = 0")
    case True
    with new have "m \<notin> set new" by auto
    with new True show ?thesis by (intro exI [of _ "m # new"]) auto
  next
    case False
    with new show ?thesis by (intro exI [of _ new]) auto
  qed
qed simp

text \<open>Every task of \<open>order\<close> comes after its dependencies.\<close>

definition dep_ordered :: "Task list \<Rightarrow> string list \<Rightarrow> bool" where
  "dep_ordered ts order \<longleftrightarrow>
     (\<forall>t \<in> set ts. \<forall>xs ys. order = xs @ tk_Name t # ys \<longrightarrow> set (tk_DependsOn t) \<subseteq> set xs)"

lemma dep_ordered_snoc:
  assumes "dep_ordered ts order" and "\<forall>t \<in> set ts. tk_Name t = c \<longrightarrow> set (tk_DependsOn t) \<subseteq> set order"
  shows "dep_ordered ts (order @ [c])"
  unfolding dep_ordered_def
proof (intro ballI allI impI)
  fix t xs ys
  assume t: "t \<in> set ts" and eq: "order @ [c] = xs @ tk_Name t # ys"
  show "set (tk_DependsOn t) \<subseteq> set xs"
  proof (cases ys rule: rev_cases)
    case Nil
    with eq have "order = xs" and "tk_Name t = c" by auto
    with t assms(2) show ?thesis by auto
  next
    case (snoc zs z)
    with eq have "order = xs @ tk_Name t # zs" by auto
    with t assms(1) show ?thesis by (auto simp: dep_ordered_def)
  qed
qed

text \<open>The hypotheses under which the algorithm runs: what \<open>ValidateDAG\<close> has checked.\<close>

definition well_named :: "Task list \<Rightarrow> bool" where
  "well_named ts \<longleftrightarrow> distinct (task_names ts) \<and>
     (\<forall>t \<in> set ts. set (tk_DependsOn t) \<subseteq> set (task_names ts))"

definition kahn_inv :: "Task list \<Rightarrow> (string \<Rightarrow> int) \<Rightarrow> string list \<Rightarrow> string list \<Rightarrow> bool" where
  "kahn_inv ts deg q order \<longleftrightarrow>
     distinct (order @ q) \<and> set (order @ q) \<subseteq> set (task_names ts) \<and>
     (\<forall>t \<in> set ts. deg (tk_Name t) = int (length (filter (\<lambda>d. d \<notin> set order) (tk_DependsOn t)))) \<and>
     (\<forall>t \<in> set ts. deg (tk_Name t) = 0 \<longleftrightarrow> tk_Name t \<in> set (order @ q)) \<and>
     dep_ordered ts order"

lemma well_named_unique:
  "distinct (task_names ts) \<Longrightarrow> t \<in> set ts \<Longrightarrow> filter (\<lambda>u. tk_Name u = tk_Name t) ts = [t]"
proof (induction ts)
  case (Cons u ts)
  then show ?case
    by (cases "u = t") (auto simp: task_names_def filter_empty_conv rev_image_eqI)
qed simp

lemma in_degree_task:
  "distinct (task_names ts) \<Longrightarrow> t \<in> set ts \<Longrightarrow> in_degree ts (tk_Name t) = int (length (tk_DependsOn t))"
  by (simp add: in_degree_def well_named_unique)

lemma count_list_const: "count_list (map (\<lambda>_. a) (filter (\<lambda>d. d = c) ds)) b = (if a = b then count_list ds c else 0)"
  by (induction ds) auto

lemma count_adj:
  assumes "distinct (task_names ts)" and "t \<in> set ts"
  shows "count_list (adj ts c) (tk_Name t) = count_list (tk_DependsOn t) c"
proof -
  have zero: "count_list (adj us c) n = 0" if "n \<notin> set (task_names us)" for us n
    using that adj_names [of us c] by (metis count_list_0_iff subsetD)
  show ?thesis using assms
  proof (induction ts)
    case (Cons u ts)
    then show ?case using zero [of "tk_Name t" ts]
      by (auto simp: adj_def task_names_def count_list_const)
  qed simp
qed

lemma filter_minus_count:
  "c \<notin> set order \<Longrightarrow> int (length (filter (\<lambda>d. d \<notin> set (order @ [c])) ds))
     = int (length (filter (\<lambda>d. d \<notin> set order) ds)) - int (count_list ds c)"
  by (induction ds) auto

lemma kahn_inv_step:
  assumes wn: "distinct (task_names ts)" and inv: "kahn_inv ts deg (c # q) order"
    and step: "relax (adj ts c) deg q = (deg', q')"
  shows "kahn_inv ts deg' q' (order @ [c])"
proof -
  from relax_queue [OF step] obtain new where q': "q' = q @ new" and dn: "distinct new"
    and new: "\<And>n. n \<in> set new \<longleftrightarrow> 1 \<le> deg n \<and> deg n \<le> int (count_list (adj ts c) n)" by auto
  from inv have c: "c \<notin> set order" "c \<notin> set q" by (auto simp: kahn_inv_def)
  have deg': "deg' (tk_Name t) = int (length (filter (\<lambda>d. d \<notin> set (order @ [c])) (tk_DependsOn t)))"
    if "t \<in> set ts" for t
    using that inv relax_deg [OF step, of "tk_Name t"] count_adj [OF wn that, of c]
      filter_minus_count [OF c(1), of "tk_DependsOn t"]
    by (auto simp: kahn_inv_def)
  have names: "set new \<subseteq> set (task_names ts)"
  proof
    fix n
    assume "n \<in> set new"
    with new [of n] have "count_list (adj ts c) n \<noteq> 0" by linarith
    then have "n \<in> set (adj ts c)" by (metis count_list_0_iff)
    then show "n \<in> set (task_names ts)" using adj_names by blast
  qed
  have zero: "deg' (tk_Name t) = 0 \<longleftrightarrow> tk_Name t \<in> set ((order @ [c]) @ q')" if t: "t \<in> set ts" for t
  proof -
    have pos: "0 \<le> deg' (tk_Name t)" using deg' [OF t] by simp
    have old: "deg (tk_Name t) = 0 \<longleftrightarrow> tk_Name t \<in> set (order @ c # q)" and "0 \<le> deg (tk_Name t)"
      using inv t by (auto simp: kahn_inv_def)
    with pos new [of "tk_Name t"] relax_deg [OF step, of "tk_Name t"] q' show ?thesis by auto
  qed
  have disj: "set new \<inter> set (order @ c # q) = {}"
  proof -
    have "deg n = 0" if "n \<in> set (order @ c # q)" for n
    proof -
      from that inv obtain t where "t \<in> set ts" "tk_Name t = n"
        by (auto simp: kahn_inv_def task_names_def)
      with that inv show ?thesis by (auto simp: kahn_inv_def)
    qed
    with new show ?thesis by fastforce
  qed
  have "set (tk_DependsOn t) \<subseteq> set order" if "t \<in> set ts" "tk_Name t = c" for t
  proof -
    from that inv have "filter (\<lambda>d. d \<notin> set order) (tk_DependsOn t) = []"
      by (auto simp: kahn_inv_def)
    then show ?thesis by (auto simp: filter_empty_conv)
  qed
  then have "dep_ordered ts (order @ [c])"
    using inv by (intro dep_ordered_snoc) (auto simp: kahn_inv_def)
  with inv deg' zero disj names dn q' show ?thesis by (auto simp: kahn_inv_def)
qed

lemma kahn_result:
  "distinct (task_names ts) \<Longrightarrow> kahn_inv ts deg q order \<Longrightarrow> \<exists>deg'. kahn_inv ts deg' [] (kahn ts deg q order)"
proof (induction ts deg q order rule: kahn.induct)
  case (2 ts deg c q order)
  obtain deg' q' where step: "relax (adj ts c) deg q = (deg', q')"
    by (cases "relax (adj ts c) deg q")
  with 2 have "kahn_inv ts deg' q' (order @ [c])" by (intro kahn_inv_step)
  with 2 step show ?case by auto
qed auto

lemma kahn_inv_start:
  "distinct (task_names ts) \<Longrightarrow>
   kahn_inv ts (in_degree ts) (filter (\<lambda>n. in_degree ts n = 0) (task_names ts)) []"
  by (auto simp: kahn_inv_def dep_ordered_def in_degree_task) (auto simp: task_names_def)

lemma dep_ordered_acyclic:
  assumes resp: "dep_ordered ts order" and all: "set (task_names ts) \<subseteq> set order"
  shows "acyclic (dep_edges ts)"
proof -
  let ?ix = "\<lambda>n. length (takeWhile (\<lambda>x. x \<noteq> n) order)"
  have "(d, n) \<in> measure ?ix" if "(d, n) \<in> dep_edges ts" for d n
  proof -
    from that obtain t where t: "t \<in> set ts" "n = tk_Name t" "d \<in> set (tk_DependsOn t)"
      by (auto simp: dep_edges_def)
    with all have "n \<in> set order" by (auto simp: task_names_def)
    then obtain xs ys where split: "order = xs @ n # ys" "n \<notin> set xs" by (metis split_list_first)
    with resp t have "d \<in> set xs" by (auto simp: dep_ordered_def)
    then have "?ix d < length xs"
      unfolding split(1) by (induction xs) auto
    moreover have "?ix n = length xs" using split(2) unfolding split(1) by (induction xs) auto
    ultimately show ?thesis by simp
  qed
  then have "dep_edges ts \<subseteq> measure ?ix" by auto
  then show ?thesis by (meson acyclic_subset wf_acyclic wf_measure)
qed

lemma kahn_stuck_cyclic:
  assumes wn: "well_named ts" and inv: "kahn_inv ts deg [] order" and short: "length order \<noteq> length ts"
  shows "\<not> acyclic (dep_edges ts)"
proof
  assume "acyclic (dep_edges ts)"
  then have wf: "wf (dep_edges ts)" by (simp add: finite_acyclic_wf finite_dep_edges)
  let ?R = "set (task_names ts) - set order"
  have "set order \<noteq> set (task_names ts)"
  proof
    assume "set order = set (task_names ts)"
    then have "length order = length (task_names ts)"
      using inv wn by (metis append_Nil2 distinct_card kahn_inv_def well_named_def)
    with short show False by (simp add: task_names_def)
  qed
  then obtain m where "m \<in> ?R" using inv by (auto simp: kahn_inv_def)
  with wf obtain z where z: "z \<in> ?R" and min: "\<And>y. (y, z) \<in> dep_edges ts \<Longrightarrow> y \<notin> ?R"
    by (metis wfE_min)
  then obtain t where t: "t \<in> set ts" "tk_Name t = z" by (auto simp: task_names_def)
  with inv z have "filter (\<lambda>d. d \<notin> set order) (tk_DependsOn t) \<noteq> []"
    by (auto simp: kahn_inv_def)
  then obtain d where d: "d \<in> set (tk_DependsOn t)" "d \<notin> set order" by (auto simp: filter_empty_conv)
  with t wn have "d \<in> ?R" by (auto simp: well_named_def)
  moreover from t d have "(d, z) \<in> dep_edges ts" by (auto simp: dep_edges_def)
  ultimately show False using min by blast
qed

lemma TopologicalSort_order:
  assumes "well_named (dag_Tasks dag)" and "TopologicalSort dag = Inr order"
  shows "distinct order" "set order = set (task_names (dag_Tasks dag))" "dep_ordered (dag_Tasks dag) order"
proof -
  let ?ts = "dag_Tasks dag"
  have wn: "distinct (task_names ?ts)" using assms(1) by (simp add: well_named_def)
  from assms(2) have order: "order = kahn ?ts (in_degree ?ts)
      (filter (\<lambda>n. in_degree ?ts n = 0) (task_names ?ts)) []" and len: "length order = length ?ts"
    by (auto simp: TopologicalSort_def Let_def split: if_splits)
  from kahn_result [OF wn kahn_inv_start [OF wn]] order obtain deg where inv: "kahn_inv ?ts deg [] order"
    by auto
  then show "distinct order" and resp: "dep_ordered ?ts order" by (auto simp: kahn_inv_def)
  show "set order = set (task_names ?ts)"
  proof (rule card_subset_eq)
    show "set order \<subseteq> set (task_names ?ts)" using inv by (simp add: kahn_inv_def)
    show "card (set order) = card (set (task_names ?ts))"
      using inv len wn by (simp add: kahn_inv_def distinct_card) (simp add: task_names_def)
  qed simp
qed

lemma TopologicalSort_iff_acyclic:
  assumes wn: "well_named (dag_Tasks dag)"
  shows "(\<exists>order. TopologicalSort dag = Inr order) \<longleftrightarrow> acyclic (dep_edges (dag_Tasks dag))"
proof
  assume "\<exists>order. TopologicalSort dag = Inr order"
  then show "acyclic (dep_edges (dag_Tasks dag))"
    using TopologicalSort_order [OF wn] dep_ordered_acyclic by blast
next
  let ?ts = "dag_Tasks dag"
  assume "acyclic (dep_edges ?ts)"
  moreover have "distinct (task_names ?ts)" using wn by (simp add: well_named_def)
  ultimately show "\<exists>order. TopologicalSort dag = Inr order"
    using kahn_stuck_cyclic [OF wn] kahn_result kahn_inv_start
    by (fastforce simp: TopologicalSort_def Let_def)
qed

subsection \<open>What admission gives\<close>

lemma dag_names_Inr: "dag_names ts names = Inr all \<longleftrightarrow>
    all = rev (task_names ts) @ names \<and> distinct (task_names ts)
    \<and> set (task_names ts) \<inter> set names = {} \<and> '''' \<notin> set (task_names ts)"
  by (induction ts arbitrary: names) (auto simp: task_names_def)

lemma dag_deps_fresh: "dag_deps self names deps acc = Inr all \<Longrightarrow> set deps \<inter> set acc = {}"
  by (induction deps arbitrary: acc) (fastforce split: if_splits)+

lemma dag_deps_Inr: "dag_deps self names deps acc = Inr all \<Longrightarrow>
    set deps \<subseteq> set names \<and> self \<notin> set deps \<and> distinct deps \<and> set all = set deps \<union> set acc"
proof (induction deps arbitrary: acc)
  case (Cons d ds)
  then have rest: "dag_deps self names ds (d # acc) = Inr all"
    and "d \<noteq> self" "d \<in> set names" "d \<notin> set acc"
    by (auto split: if_splits)
  with Cons.IH [OF rest] dag_deps_fresh [OF rest] show ?case by auto
qed simp

lemma dag_tasks_deps:
  "dag_tasks names ts = Inr () \<Longrightarrow> t \<in> set ts \<Longrightarrow> set (tk_DependsOn t) \<subseteq> set names \<and> distinct (tk_DependsOn t)"
  by (induction names ts rule: dag_tasks.induct)
     (auto simp: rbind_def split: if_splits sum.splits option.splits dest: dag_deps_Inr)

lemma ValidateDAG_well_named:
  assumes "ValidateDAG dag = Inr ()"
  shows "well_named (dag_Tasks dag)" and "acyclic (dep_edges (dag_Tasks dag))"
proof -
  from assms obtain names where names: "dag_names (dag_Tasks dag) [] = Inr names"
    and tasks: "dag_tasks names (dag_Tasks dag) = Inr ()" and "\<not> hasCycle dag"
    by (auto simp: ValidateDAG_def rbind_def split: if_splits sum.splits)
  then show "acyclic (dep_edges (dag_Tasks dag))" by (simp add: hasCycle_iff)
  from names have "set names = set (task_names (dag_Tasks dag))" "distinct (task_names (dag_Tasks dag))"
    by (auto simp: dag_names_Inr)
  with tasks show "well_named (dag_Tasks dag)"
    using dag_tasks_deps by (fastforce simp: well_named_def)
qed

lemma ValidateDAG_sorts:
  assumes "ValidateDAG dag = Inr ()"
  obtains order where "TopologicalSort dag = Inr order"
  using TopologicalSort_iff_acyclic ValidateDAG_well_named [OF assms] by blast

end
