(* ===== verification/Go_Float.thy ===== *)
theory Go_Float
  imports Orbit_Prelude "HOL-Library.Log_Nat"
begin

section \<open>64-bit floating point\<close>

text \<open>
  Go's \<open>float64\<close> is binary64 with rounding to nearest, ties to even. A finite value is the rational it denotes; an operation
  computes exactly and rounds once, \<open>f64\<close>. Subnormal numbers are included. Values of \<open>2^1024\<close> and more, which Go turns into
  infinity, do not arise: the operands are counts of at most \<open>2^63\<close>, ratios of such counts, and durations.
\<close>

type_synonym float64 = rat

subsection \<open>Rounding\<close>

text \<open>The position of the leading binary digit of a positive number.\<close>

definition rat_log2 :: "rat \<Rightarrow> int" where
  "rat_log2 x = (case quotient_of x of (n, d) \<Rightarrow>
     let k = bitlen n - bitlen d in if 2 powi k \<le> x then k else k - 1)"

definition round_even :: "rat \<Rightarrow> int" where
  "round_even x = (let f = \<lfloor>x\<rfloor>; r = x - of_int f in
     if r < 1 / 2 \<or> r = 1 / 2 \<and> even f then f else f + 1)"

definition f64_exp :: "rat \<Rightarrow> int" where
  "f64_exp x = max (rat_log2 x - 52) (- 1074)"

definition f64_pos :: "rat \<Rightarrow> rat" where
  "f64_pos x = of_int (round_even (x / 2 powi f64_exp x)) * 2 powi f64_exp x"

definition f64 :: "rat \<Rightarrow> float64" where
  "f64 x = (if x = 0 then 0 else if 0 < x then f64_pos x else - f64_pos (- x))"

definition float64_of_int :: "int \<Rightarrow> float64" where
  "float64_of_int i = f64 (of_int i)"

definition fadd :: "float64 \<Rightarrow> float64 \<Rightarrow> float64" where "fadd x y = f64 (x + y)"
definition fsub :: "float64 \<Rightarrow> float64 \<Rightarrow> float64" where "fsub x y = f64 (x - y)"
definition fmul :: "float64 \<Rightarrow> float64 \<Rightarrow> float64" where "fmul x y = f64 (x * y)"
definition fdiv :: "float64 \<Rightarrow> float64 \<Rightarrow> float64" where "fdiv x y = f64 (x / y)"

subsection \<open>The leading digit\<close>

lemma two_powi_mono: "i \<le> j \<Longrightarrow> (2::rat) powi i \<le> 2 powi j"
  by (rule power_int_increasing) auto

lemma two_powi_less: "(2::rat) powi i < 2 powi j \<longleftrightarrow> i < j"
  by (meson linorder_not_less one_less_numeral_iff power_int_strict_increasing semiring_norm(76) two_powi_mono)

lemma two_powi_add: "(2::rat) powi (i + j) = 2 powi i * 2 powi j"
  by (simp add: power_int_add)

lemma bitlen_rat:
  assumes "0 < n"
  shows "(2::rat) powi (bitlen n - 1) \<le> of_int n" and "of_int n < (2::rat) powi bitlen n"
proof -
  have b: "0 < bitlen n" using assms bitlen_nonneg [of n] bitlen_eq_zero_iff [of n] by linarith
  have lo: "2 ^ nat (bitlen n - 1) \<le> n" and hi: "n < 2 ^ nat (bitlen n)"
    using bitlen_bounds [OF assms] by auto
  have "(2::rat) powi (bitlen n - 1) = of_int (2 ^ nat (bitlen n - 1))"
    using b by (simp add: power_int_def)
  also have "\<dots> \<le> of_int n" using lo by (simp only: of_int_le_iff)
  finally show "(2::rat) powi (bitlen n - 1) \<le> of_int n" .
  have "of_int n < (of_int (2 ^ nat (bitlen n)) :: rat)" using hi by (simp only: of_int_less_iff)
  also have "\<dots> = 2 powi bitlen n" using b by (simp add: power_int_def)
  finally show "of_int n < (2::rat) powi bitlen n" .
qed

lemma rat_log2_bounds:
  assumes "0 < x"
  shows "2 powi rat_log2 x \<le> x" and "x < 2 powi (rat_log2 x + 1)"
proof -
  obtain n d where q: "quotient_of x = (n, d)" by (cases "quotient_of x")
  have d: "0 < d" using quotient_of_denom_pos [OF q] .
  have x: "x = of_int n / of_int d" using quotient_of_div [OF q] .
  then have n: "0 < n" using assms d by (simp add: zero_less_divide_iff)
  let ?k = "bitlen n - bitlen d"
  have "2 powi (?k - 1) = (2::rat) powi (bitlen n - 1) / 2 powi bitlen d"
    by (simp flip: power_int_diff add: algebra_simps)
  also have "\<dots> \<le> of_int n / of_int d"
    using bitlen_rat [OF n] bitlen_rat [OF d] d n by (intro frac_le) auto
  finally have lo: "2 powi (?k - 1) \<le> x" using x by simp
  have "of_int n / of_int d < (2::rat) powi bitlen n / 2 powi (bitlen d - 1)"
    using bitlen_rat [OF n] bitlen_rat [OF d] n d by (intro frac_less) (auto simp: zero_less_power_int)
  also have "\<dots> = 2 powi (?k + 1)" by (simp add: power_int_diff power_int_add field_simps)
  finally have hi: "x < 2 powi (?k + 1)" using x by simp
  from lo hi show "2 powi rat_log2 x \<le> x" "x < 2 powi (rat_log2 x + 1)"
    by (auto simp: rat_log2_def q Let_def)
qed

lemma rat_log2_mono: "0 < x \<Longrightarrow> x \<le> y \<Longrightarrow> rat_log2 x \<le> rat_log2 y"
proof -
  assume "0 < x" "x \<le> y"
  then have "2 powi rat_log2 x < (2::rat) powi (rat_log2 y + 1)"
    using rat_log2_bounds [of x] rat_log2_bounds [of y] by linarith
  then show ?thesis by (simp add: two_powi_less)
qed

lemma rat_log2_eqI: "2 powi k \<le> x \<Longrightarrow> x < 2 powi (k + 1) \<Longrightarrow> rat_log2 x = k"
proof -
  assume lo: "2 powi k \<le> x" and hi: "x < 2 powi (k + 1)"
  have x: "0 < x" using lo zero_less_power_int [of "2::rat" k] by linarith
  have "(2::rat) powi k < 2 powi (rat_log2 x + 1)" "(2::rat) powi rat_log2 x < 2 powi (k + 1)"
    using rat_log2_bounds [OF x] lo hi by linarith+
  then show ?thesis by (simp add: two_powi_less)
qed

subsection \<open>Rounding to an integer\<close>

lemma round_even_of_int [simp]: "round_even (of_int n) = n"
  by (simp add: round_even_def)

lemma round_even_bounds: "\<bar>of_int (round_even x) - x\<bar> \<le> 1 / 2"
proof -
  have "of_int \<lfloor>x\<rfloor> \<le> x" "x < of_int \<lfloor>x\<rfloor> + 1" by linarith+
  then show ?thesis by (auto simp: round_even_def Let_def)
qed

lemma round_even_mono: "x \<le> y \<Longrightarrow> round_even x \<le> round_even y"
proof (cases "\<lfloor>x\<rfloor> = \<lfloor>y\<rfloor>")
  case True
  assume "x \<le> y"
  with True show ?thesis by (auto simp: round_even_def Let_def)
next
  case False
  assume "x \<le> y"
  with False have "\<lfloor>x\<rfloor> + 1 \<le> \<lfloor>y\<rfloor>" using floor_mono [of x y] by linarith
  then show ?thesis by (simp add: round_even_def Let_def)
qed

lemma round_even_nonneg: "0 \<le> x \<Longrightarrow> 0 \<le> round_even x"
  using round_even_mono [of 0 x] round_even_of_int [of 0] by simp

subsection \<open>Rounding to binary64\<close>

lemma f64_exp_mono: "0 < x \<Longrightarrow> x \<le> y \<Longrightarrow> f64_exp x \<le> f64_exp y"
  using rat_log2_mono [of x y] by (simp add: f64_exp_def)

lemma f64_pos_nonneg: "0 \<le> x \<Longrightarrow> 0 \<le> f64_pos x"
  by (simp add: f64_pos_def round_even_nonneg)

lemma f64_pos_mono:
  assumes "0 < x" and "x \<le> y"
  shows "f64_pos x \<le> f64_pos y"
proof (cases "f64_exp x = f64_exp y")
  case True
  have "x / 2 powi f64_exp y \<le> y / 2 powi f64_exp y" using assms by (simp add: divide_right_mono)
  from round_even_mono [OF this] True show ?thesis by (simp add: f64_pos_def mult_right_mono)
next
  case False
  let ?i = "f64_exp x" and ?j = "f64_exp y"
  have lt: "?i < ?j" using False f64_exp_mono [OF assms] by simp
  then have ej: "?j = rat_log2 y - 52" and li: "rat_log2 x - 52 \<le> ?i" by (auto simp: f64_exp_def max_def split: if_splits)
  have y: "0 < y" using assms by simp
  have "x < 2 powi (?i + 53)"
    using rat_log2_bounds(2) [OF assms(1)] two_powi_mono [of "rat_log2 x + 1" "?i + 53"] li by linarith
  then have "x / 2 powi ?i \<le> of_int (2 ^ 53)" by (simp add: two_powi_add power_int_numeral divide_le_eq mult.commute)
  from round_even_mono [OF this] have "round_even (x / 2 powi ?i) \<le> 2 ^ 53" by (metis round_even_of_int)
  then have "f64_pos x \<le> of_int (2 ^ 53) * 2 powi ?i"
    unfolding f64_pos_def by (intro mult_right_mono) (simp_all only: of_int_le_iff, simp)
  also have "\<dots> = 2 powi (?i + 53)" by (simp add: two_powi_add power_int_numeral)
  also have "\<dots> \<le> 2 powi (?j + 52)" using lt by (intro two_powi_mono) simp
  also have "\<dots> = of_int (2 ^ 52) * 2 powi ?j" by (simp add: two_powi_add power_int_numeral)
  also have "\<dots> \<le> f64_pos y"
  proof -
    have "2 powi (?j + 52) \<le> y" using rat_log2_bounds(1) [OF y] ej by simp
    then have "of_int (2 ^ 52) \<le> y / 2 powi ?j" by (simp add: two_powi_add power_int_numeral le_divide_eq mult.commute)
    from round_even_mono [OF this] have "2 ^ 52 \<le> round_even (y / 2 powi ?j)" by (metis round_even_of_int)
    then show ?thesis unfolding f64_pos_def by (intro mult_right_mono) (simp_all only: of_int_le_iff, simp)
  qed
  finally show ?thesis .
qed

lemma f64_0 [simp]: "f64 0 = 0" by (simp add: f64_def)

lemma f64_nonneg: "0 \<le> x \<Longrightarrow> 0 \<le> f64 x"
  by (simp add: f64_def f64_pos_nonneg)

lemma f64_uminus: "f64 (- x) = - f64 x"
  by (simp add: f64_def)

lemma f64_mono: "x \<le> y \<Longrightarrow> f64 x \<le> f64 y"
  using f64_pos_mono [of x y] f64_pos_mono [of "- y" "- x"] f64_pos_nonneg [of y] f64_pos_nonneg [of "- x"]
  by (auto simp: f64_def)

text \<open>A number with at most 53 significant binary digits is a value of the type.\<close>

lemma f64_exact:
  assumes "\<bar>m\<bar> \<le> 2 ^ 53" and "- 1074 \<le> e"
  shows "f64 (of_int m * 2 powi e) = of_int m * 2 powi e"
proof -
  have pos: "f64_pos (of_int m * 2 powi e) = of_int m * 2 powi e" if m: "0 < m" "m \<le> 2 ^ 53" for m
  proof -
    let ?x = "of_int m * 2 powi e :: rat"
    have x: "0 < ?x" using m by simp
    have "?x \<le> of_int (2 ^ 53) * 2 powi e" using m(2) by (intro mult_right_mono) (simp_all only: of_int_le_iff, simp)
    then have le: "?x \<le> 2 powi (e + 53)" by (simp add: two_powi_add power_int_numeral)
    show ?thesis
    proof (cases "f64_exp ?x \<le> e")
      case True
      have "2 powi e / 2 powi f64_exp ?x = (2::rat) powi (e - f64_exp ?x)" by (simp add: power_int_diff)
      also have "\<dots> = of_int (2 ^ nat (e - f64_exp ?x))" using True by (simp add: power_int_def)
      finally have "?x / 2 powi f64_exp ?x = of_int m * of_int (2 ^ nat (e - f64_exp ?x))" by (simp only: times_divide_eq_right [symmetric])
      then have "?x / 2 powi f64_exp ?x = of_int (m * 2 ^ nat (e - f64_exp ?x))" by (simp only: of_int_mult)
      then have "of_int (round_even (?x / 2 powi f64_exp ?x)) = ?x / 2 powi f64_exp ?x" by (metis round_even_of_int)
      then show ?thesis by (simp add: f64_pos_def)
    next
      case False
      then have "e < rat_log2 ?x - 52" using assms(2) by (auto simp: f64_exp_def max_def split: if_splits)
      then have "2 powi (e + 53) \<le> (2::rat) powi rat_log2 ?x" by (intro two_powi_mono) simp
      with le rat_log2_bounds(1) [OF x] have eq: "?x = 2 powi (e + 53)" by linarith
      have "rat_log2 ?x = e + 53" unfolding eq by (rule rat_log2_eqI) (simp_all add: two_powi_less)
      then have "f64_exp ?x = e + 1" using assms(2) by (simp add: f64_exp_def)
      moreover have "?x / 2 powi (e + 1) = of_int (2 ^ 52)"
        unfolding eq by (simp add: two_powi_add power_int_numeral)
      ultimately have "of_int (round_even (?x / 2 powi f64_exp ?x)) = ?x / 2 powi f64_exp ?x" by (metis round_even_of_int)
      then show ?thesis by (simp add: f64_pos_def)
    qed
  qed
  consider "m = 0" | "0 < m" | "m < 0" by linarith
  then show ?thesis
  proof cases
    case 2
    then have "0 < (of_int m * 2 powi e :: rat)" by simp
    with pos [OF 2] assms(1) 2 show ?thesis by (auto simp: f64_def)
  next
    case 3
    then have "(of_int m * 2 powi e :: rat) < 0" by (simp add: mult_less_0_iff)
    with pos [of "- m"] assms(1) 3 show ?thesis by (auto simp: f64_def)
  qed simp
qed

lemma f64_of_int: "\<bar>i\<bar> \<le> 2 ^ 53 \<Longrightarrow> f64 (of_int i) = of_int i"
  using f64_exact [of i 0] by simp

lemma f64_1 [simp]: "f64 1 = 1"
  using f64_of_int [of 1] by simp

lemma f64_le_1: "x \<le> 1 \<Longrightarrow> f64 x \<le> 1"
  using f64_mono [of x 1] by simp

text \<open>A positive number that is not below the smallest positive value does not round to zero.\<close>

lemma f64_positive:
  assumes "2 powi - 1074 \<le> x"
  shows "0 < f64 x"
proof -
  have "f64 (2 powi - 1074) = 2 powi - 1074" using f64_exact [of 1 "- 1074"] by simp
  with f64_mono [OF assms] have "2 powi - 1074 \<le> f64 x" by simp
  moreover have "(0::rat) < 2 powi - 1074" by (rule zero_less_power_int) simp
  ultimately show ?thesis by linarith
qed

text \<open>The error of one rounding, relative to the result's magnitude, is half a unit in the last place.\<close>

lemma f64_pos_error:
  assumes "2 powi - 1022 \<le> x"
  shows "\<bar>f64_pos x - x\<bar> \<le> x / 2 ^ 53"
proof -
  have x: "0 < x" using assms zero_less_power_int [of "2::rat" "- 1022"] by linarith
  have "(2::rat) powi - 1022 < 2 powi (rat_log2 x + 1)" using rat_log2_bounds(2) [OF x] assms by linarith
  then have "- 1022 < rat_log2 x + 1" by (simp only: two_powi_less)
  then have e: "f64_exp x = rat_log2 x - 52" by (simp add: f64_exp_def)
  let ?u = "2 powi f64_exp x :: rat"
  have "f64_pos x - x = (of_int (round_even (x / ?u)) - x / ?u) * ?u" by (simp add: f64_pos_def left_diff_distrib)
  then have "\<bar>f64_pos x - x\<bar> = \<bar>of_int (round_even (x / ?u)) - x / ?u\<bar> * ?u" by (simp add: abs_mult)
  also have "\<dots> \<le> 1 / 2 * ?u" using round_even_bounds by (intro mult_right_mono) auto
  also have "\<dots> = 2 powi rat_log2 x / 2 ^ 53" using e by (simp add: power_int_diff power_int_numeral)
  also have "\<dots> \<le> x / 2 ^ 53" using rat_log2_bounds(1) [OF x] by (simp add: divide_right_mono)
  finally show ?thesis .
qed

lemma f64_error: "2 powi - 1022 \<le> x \<Longrightarrow> \<bar>f64 x - x\<bar> \<le> x / 2 ^ 53"
  using f64_pos_error [of x] zero_less_power_int [of "2::rat" "- 1022"] by (auto simp: f64_def)

end
