(* ===== verification/Go_Split.thy ===== *)
theory Go_Split
  imports Go_Strings
begin

section \<open>Splitting and joining strings\<close>

text \<open>
  \<open>strings.Split\<close>, \<open>strings.Cut\<close> and \<open>strings.Join\<close> for separators of one byte, the only kind the
  program uses.
\<close>

fun Split :: "char \<Rightarrow> string \<Rightarrow> string list" where
  "Split c [] = [[]]"
| "Split c (x # xs) =
     (if x = c then [] # Split c xs
      else case Split c xs of [] \<Rightarrow> [[x]] | y # ys \<Rightarrow> (x # y) # ys)"

fun Join :: "char \<Rightarrow> string list \<Rightarrow> string" where
  "Join c [] = []"
| "Join c [x] = x"
| "Join c (x # y # zs) = x @ c # Join c (y # zs)"

text \<open>The part before the first separator, the part after it, and whether there is one.\<close>

definition Cut :: "char \<Rightarrow> string \<Rightarrow> string \<times> string \<times> bool" where
  "Cut c s = (takeWhile (\<lambda>x. x \<noteq> c) s, drop 1 (dropWhile (\<lambda>x. x \<noteq> c) s), c \<in> set s)"

lemma Split_not_Nil [simp]: "Split c s \<noteq> []"
  by (cases s) (auto split: list.split)

lemma Join_Split [simp]: "Join c (Split c s) = s"
proof (induction s)
  case (Cons x xs)
  then show ?case
    by (cases "Split c xs"; cases "tl (Split c xs)") auto
qed simp

lemma Split_parts: "p \<in> set (Split c s) \<Longrightarrow> c \<notin> set p"
  by (induction s arbitrary: p) (auto split: if_splits list.splits)

lemma Split_append: "c \<notin> set x \<Longrightarrow> Split c (x @ c # s) = x # Split c s"
  by (induction x) auto

lemma Split_single: "c \<notin> set x \<Longrightarrow> Split c x = [x]"
  by (induction x) auto

lemma Split_Join: "xs \<noteq> [] \<Longrightarrow> \<forall>x \<in> set xs. c \<notin> set x \<Longrightarrow> Split c (Join c xs) = xs"
  by (induction c xs rule: Join.induct) (simp_all add: Split_append Split_single)

lemma length_Split: "length (Split c s) = length (filter (\<lambda>x. x = c) s) + 1"
  by (induction s) (auto split: list.split)

lemma Cut_found: "c \<notin> set x \<Longrightarrow> Cut c (x @ c # s) = (x, s, True)"
  by (simp add: Cut_def takeWhile_append dropWhile_append)

lemma Cut_foundD: "Cut c s = (x, y, True) \<Longrightarrow> s = x @ c # y \<and> c \<notin> set x"
proof -
  assume *: "Cut c s = (x, y, True)"
  then have "c \<in> set s" by (simp add: Cut_def)
  then obtain u v where "s = u @ c # v" "c \<notin> set u" by (auto dest: split_list_first)
  with * show ?thesis by (simp add: Cut_found)
qed

end
