(* ===== verification/Go_Json.thy ===== *)
theory Go_Json
  imports Go_Float Go_Split
begin

section \<open>Values of decoded JSON\<close>

text \<open>
  A Go value of type \<open>any\<close> as \<open>encoding/json\<close> decodes it, and the exact integers Go callers may pass instead. A
  \<open>map[string]any\<close> is an association list with distinct keys; the order in which \<open>range\<close> visits it is the list's order, which
  Go leaves open, so a statement about such a loop holds for every permutation or names the order it depends on. A JSON document that is stored
  in a \<open>jsonb\<close> column and read back is the same value.
\<close>

datatype any =
    ANil
  | ABool bool
  | AFloat float64
  | AInt int
  | AStr string
  | AArr "any list"
  | AObj "(string \<times> any) list"

type_synonym object = "(string \<times> any) list"

text \<open>
  What a \<open>jsonb\<close> column stores of a marshalled value: no string and no key with U+0000. (\<open>json.Marshal\<close> writes well-formed UTF-8 whatever the bytes.)
\<close>

function json_storable :: "any \<Rightarrow> bool" where
  "json_storable ANil = True"
| "json_storable (ABool _) = True"
| "json_storable (AFloat _) = True"
| "json_storable (AInt _) = True"
| "json_storable (AStr s) = (CHR 0x00 \<notin> set s)"
| "json_storable (AArr vs) = list_all json_storable vs"
| "json_storable (AObj ms) = (list_all (\<lambda>k. CHR 0x00 \<notin> set k) (map fst ms) \<and> list_all json_storable (map snd ms))"
  by pat_completeness auto

lemma size_member: "v \<in> snd ` set ms \<Longrightarrow> size v < Suc (size_list (size_prod (\<lambda>_. 0) size) (ms :: (string \<times> any) list))"
  by (induction ms) (force intro: less_trans)+

termination json_storable
  by (relation "measure size") (auto simp: less_Suc_eq_le size_list_estimation' intro: size_member [simplified less_Suc_eq_le])

text \<open>\<open>strings.ToUpper\<close> on ASCII letters.\<close>

definition upper_char :: "char \<Rightarrow> char" where
  "upper_char c = (if 97 \<le> (of_char c :: nat) \<and> (of_char c :: nat) \<le> 122 then char_of ((of_char c :: nat) - 32) else c)"

definition ToUpper :: "string \<Rightarrow> string" where
  "ToUpper s = map upper_char s"

text \<open>Conversions of the sized integer types wrap.\<close>

definition int64 :: "int \<Rightarrow> int" where
  "int64 v = (v + 2 ^ 63) mod 2 ^ 64 - 2 ^ 63"

lemma int64_id: "- (2 ^ 63) \<le> v \<Longrightarrow> v < 2 ^ 63 \<Longrightarrow> int64 v = v"
  by (simp add: int64_def)

text \<open>The range of a PostgreSQL \<open>INT\<close> column.\<close>

definition int4 :: "int \<Rightarrow> bool" where
  "int4 v \<longleftrightarrow> - (2 ^ 31) \<le> v \<and> v < 2 ^ 31"

text \<open>A value of \<open>NUMERIC(p, s)\<close> with \<open>s\<close> decimals: rounded half away from zero, refused when it has more than \<open>p - s\<close> integral digits.\<close>

definition round_half_up :: "rat \<Rightarrow> int" where
  "round_half_up x = (if 0 \<le> x then \<lfloor>x + 1 / 2\<rfloor> else - \<lfloor>- x + 1 / 2\<rfloor>)"

definition numeric :: "nat \<Rightarrow> nat \<Rightarrow> rat \<Rightarrow> rat option" where
  "numeric p s x = (let v = of_int (round_half_up (x * 10 ^ s)) / 10 ^ s in
     if \<bar>v\<bar> < 10 ^ (p - s) then Some v else None)"

lemma TrimSpace_idem [simp]: "TrimSpace (TrimSpace s) = TrimSpace s"
proof -
  have drop: "dropWhile P (dropWhile P xs) = dropWhile P xs" for P and xs :: string
    by (induction xs) auto
  have keep: "dropWhile is_space (rev (dropWhile is_space (rev xs))) = rev (dropWhile is_space (rev xs))"
    if "xs = dropWhile is_space xs" for xs
  proof (cases xs)
    case (Cons c cs)
    then have c: "\<not> is_space c" using that by (auto split: if_splits) (metis dropWhile_eq_Cons_conv)
    have "dropWhile is_space (rev xs) = dropWhile is_space (rev cs) @ [c] \<or> dropWhile is_space (rev xs) = [c]"
      using c Cons by (simp add: dropWhile_append)
    then show ?thesis using c by auto
  qed simp
  show ?thesis
    unfolding TrimSpace_def using keep [of "dropWhile is_space s"] drop by simp
qed

end
