(* ===== verification/Check_Domain.thy ===== *)
theory Check_Domain
  imports Go_Json
begin

section \<open>Checks: input validation, probes, identity, lifecycle\<close>

text \<open>
  \<open>internal/core/domain/check\<close> and \<open>internal/core/domain/checkrun\<close>. The parameters, collected in \<open>Libs\<close>, are \<open>net/url.Parse\<close>
  (scheme and host of an accepted URL), \<open>time.LoadLocation\<close> (the known zone names) and the cron parser of \<open>robfig/cron\<close>: an accepted
  expression gives, per zone, the next activation after an instant. A \<open>nil\<close> map is \<open>None\<close>. A value of type \<open>any\<close> is always serializable, so the
  marshalling error of \<open>normalizeJSONB\<close> does not arise.
\<close>

record Libs =
  lb_url :: "string \<Rightarrow> (string \<times> string) result"
  lb_zone :: "string \<Rightarrow> bool"
  lb_cron :: "string \<Rightarrow> (string \<Rightarrow> time \<Rightarrow> time) result"

definition TenantIDLength :: nat where "TenantIDLength = 26"
definition DefaultTimezone :: string where "DefaultTimezone = ''UTC''"
definition DefaultTimeoutSec :: int where "DefaultTimeoutSec = 30"
definition DefaultRetryLimit :: int where "DefaultRetryLimit = 2"
definition DefaultPriority :: int where "DefaultPriority = 5"
definition ScheduleTypeCron :: string where "ScheduleTypeCron = ''cron''"
definition ScheduleTypeInterval :: string where "ScheduleTypeInterval = ''interval''"
definition CheckTypeHTTPHealth :: string where "CheckTypeHTTPHealth = ''http_health''"
definition StatusActive :: string where "StatusActive = ''active''"
definition StatusPaused :: string where "StatusPaused = ''paused''"
definition ActionPause :: string where "ActionPause = ''pause''"
definition ActionResume :: string where "ActionResume = ''resume''"
definition MinimumIntervalSec :: int where "MinimumIntervalSec = 30"
definition DefaultProbeMethod :: string where "DefaultProbeMethod = ''GET''"
definition DefaultExpectedStatus :: int where "DefaultExpectedStatus = 200"
definition MinExpectedStatus :: int where "MinExpectedStatus = 100"
definition MaxExpectedStatus :: int where "MaxExpectedStatus = 599"
definition MaxProbeURLLength :: nat where "MaxProbeURLLength = 2048"
definition ProbeMethods :: "string list" where "ProbeMethods = [''GET'', ''HEAD'', ''OPTIONS'']"

lemmas check_constants = TenantIDLength_def DefaultTimezone_def DefaultTimeoutSec_def DefaultRetryLimit_def
  DefaultPriority_def ScheduleTypeCron_def ScheduleTypeInterval_def CheckTypeHTTPHealth_def StatusActive_def
  StatusPaused_def ActionPause_def ActionResume_def MinimumIntervalSec_def DefaultProbeMethod_def
  DefaultExpectedStatus_def MinExpectedStatus_def MaxExpectedStatus_def MaxProbeURLLength_def ProbeMethods_def

record AssertionRule =
  ar_Metric :: string
  ar_Operator :: string
  ar_Threshold :: float64
  ar_Severity :: string

record CheckCreateInput =
  cki_Name :: string
  cki_Description :: "string option"
  cki_TenantID :: string
  cki_ResourceGroupID :: string
  cki_CheckType :: string
  cki_CheckConfig :: "object option"
  cki_AssertionRules :: "AssertionRule list"
  cki_ScheduleType :: string
  cki_CronExpr :: "string option"
  cki_IntervalSec :: "int option"
  cki_Timezone :: string
  cki_TimeoutSec :: int
  cki_RetryLimit :: int
  cki_Priority :: int
  cki_Labels :: "object option"

record CheckCreateSpec =
  cks_Name :: string
  cks_Description :: "string option"
  cks_TenantID :: string
  cks_ResourceGroupID :: string
  cks_CheckType :: string
  cks_CheckConfig :: object
  cks_AssertionRules :: "AssertionRule list"
  cks_ScheduleType :: string
  cks_CronExpr :: "string option"
  cks_IntervalSec :: "int option"
  cks_Timezone :: string
  cks_TimeoutSec :: int
  cks_RetryLimit :: int
  cks_Priority :: int
  cks_Labels :: object
  cks_NextRunAt :: "time option"

record CheckSnapshot =
  ck_ID :: int
  ck_Name :: string
  ck_Description :: "string option"
  ck_TenantID :: string
  ck_ResourceGroupID :: string
  ck_Status :: string
  ck_CheckType :: string
  ck_CheckConfig :: object
  ck_AssertionRules :: "AssertionRule list"
  ck_ScheduleType :: string
  ck_CronExpr :: "string option"
  ck_IntervalSec :: "int option"
  ck_Timezone :: string
  ck_TimeoutSec :: int
  ck_RetryLimit :: int
  ck_Priority :: int
  ck_Labels :: object
  ck_NextRunAt :: "time option"
  ck_Version :: int
  ck_CreatedAt :: time
  ck_UpdatedAt :: time

subsection \<open>The probe configuration\<close>

record ProbeConfig =
  pc_URL :: string
  pc_Method :: string
  pc_ExpectedStatus :: int

definition isOneOf :: "string \<Rightarrow> string list \<Rightarrow> bool" where
  "isOneOf value allowed \<longleftrightarrow> value \<in> set allowed"

text \<open>\<open>int64(v)\<close> of a float out of range differs from it, so only integral values in range pass.\<close>

definition jsonInt :: "any \<Rightarrow> int result" where
  "jsonInt raw = (case raw of
     AFloat v \<Rightarrow> if v = of_int \<lfloor>v\<rfloor> \<and> - (2 ^ 63) \<le> \<lfloor>v\<rfloor> \<and> \<lfloor>v\<rfloor> < 2 ^ 63 then Inr \<lfloor>v\<rfloor>
                 else Inl (ValidationError ''check_config.expected_status'')
   | AInt v \<Rightarrow> Inr v
   | _ \<Rightarrow> Inl (ValidationError ''check_config.expected_status''))"

definition probe_method :: "object \<Rightarrow> string result" where
  "probe_method cfg =
     (case map_of cfg ''method'' of
        None \<Rightarrow> Inr DefaultProbeMethod
      | Some ANil \<Rightarrow> Inr DefaultProbeMethod
      | Some (AStr requested) \<Rightarrow>
          (let trimmed = ToUpper (TrimSpace requested)
           in Inr (if trimmed \<noteq> [] then trimmed else DefaultProbeMethod))
      | Some _ \<Rightarrow> Inl (ValidationError ''check_config.method''))"

definition probe_status :: "object \<Rightarrow> int result" where
  "probe_status cfg =
     (case map_of cfg ''expected_status'' of
        None \<Rightarrow> Inr DefaultExpectedStatus
      | Some ANil \<Rightarrow> Inr DefaultExpectedStatus
      | Some raw \<Rightarrow>
          (case jsonInt raw of
             Inl _ \<Rightarrow> Inl (ValidationError ''check_config.expected_status'')
           | Inr status \<Rightarrow>
               if status < MinExpectedStatus \<or> MaxExpectedStatus < status
               then Inl (ValidationError ''check_config.expected_status'') else Inr status))"

definition NormalizeProbeConfig :: "Libs \<Rightarrow> object \<Rightarrow> ProbeConfig result" where
  "NormalizeProbeConfig lb cfg =
     (case map_of cfg ''url'' of
        Some (AStr urlValue) \<Rightarrow>
          if TrimSpace urlValue = [] then Inl (ValidationError ''check_config.url'')
          else (case lb_url lb (TrimSpace urlValue) of
             Inl _ \<Rightarrow> Inl (ValidationError ''check_config.url'')
           | Inr (scheme, host) \<Rightarrow>
               if host = [] then Inl (ValidationError ''check_config.url'')
               else if length urlValue > MaxProbeURLLength then Inl (ValidationError ''check_config.url'')
               else if scheme \<noteq> ''http'' \<and> scheme \<noteq> ''https'' then Inl (ValidationError ''check_config.url'')
               else rbind (probe_method cfg) (\<lambda>method.
                 if \<not> isOneOf method ProbeMethods then Inl (ValidationError ''check_config.method'')
                 else rbind (probe_status cfg) (\<lambda>expected.
                   Inr \<lparr>pc_URL = TrimSpace urlValue, pc_Method = method, pc_ExpectedStatus = expected\<rparr>)))
      | _ \<Rightarrow> Inl (ValidationError ''check_config.url''))"

subsection \<open>Creating a check\<close>

definition normalizeRequiredString :: "string \<Rightarrow> string \<Rightarrow> nat \<Rightarrow> string result" where
  "normalizeRequiredString s field maxLen =
     (let value = TrimSpace s in
      if value = [] then Inl (ValidationError field)
      else if length value > maxLen then Inl (ValidationError field)
      else Inr value)"

definition normalizeOptionalString :: "string option \<Rightarrow> string \<Rightarrow> nat \<Rightarrow> string option result" where
  "normalizeOptionalString s field maxLen =
     (case s of
        None \<Rightarrow> Inr None
      | Some s \<Rightarrow>
          (let value = TrimSpace s in
           if value = [] then Inr None
           else if length value > maxLen then Inl (ValidationError field)
           else Inr (Some value)))"

definition normalizeTenantID :: "string \<Rightarrow> string result" where
  "normalizeTenantID s =
     (let value = TrimSpace s in
      if value = [] then Inl (ValidationError ''tenant_id'')
      else if length value \<noteq> TenantIDLength then Inl (ValidationError ''tenant_id'')
      else Inr value)"

definition normalizeCheckType :: "string \<Rightarrow> string result" where
  "normalizeCheckType s =
     (let value = TrimSpace s in
      if value = [] then Inl (ValidationError ''check_type'')
      else if \<not> isOneOf value [CheckTypeHTTPHealth] then Inl (ValidationError ''check_type'')
      else Inr value)"

definition normalizeJSONB :: "object option \<Rightarrow> object" where
  "normalizeJSONB m = (case m of None \<Rightarrow> [] | Some m \<Rightarrow> m)"

definition assertionRuleField :: "nat \<Rightarrow> string \<Rightarrow> string" where
  "assertionRuleField rule name = ''assertion_rules['' @ itoa (int rule) @ ''].'' @ name"

definition normalize_rule :: "nat \<Rightarrow> AssertionRule \<Rightarrow> AssertionRule result" where
  "normalize_rule i rule =
     (let metric = TrimSpace (ar_Metric rule); operator = TrimSpace (ar_Operator rule); severity = TrimSpace (ar_Severity rule) in
      if metric = [] then Inl (ValidationError (assertionRuleField i ''metric''))
      else if length metric > 64 then Inl (ValidationError (assertionRuleField i ''metric''))
      else if \<not> isOneOf operator [''>'', ''<'', ''=='', ''!='', ''>='', ''<='']
        then Inl (ValidationError (assertionRuleField i ''operator''))
      else if \<not> isOneOf severity [''warning'', ''critical''] then Inl (ValidationError (assertionRuleField i ''severity''))
      else Inr \<lparr>ar_Metric = metric, ar_Operator = operator, ar_Threshold = ar_Threshold rule, ar_Severity = severity\<rparr>)"

fun normalize_rules_from :: "nat \<Rightarrow> AssertionRule list \<Rightarrow> AssertionRule list result" where
  "normalize_rules_from i [] = Inr []"
| "normalize_rules_from i (rule # rules) =
     rbind (normalize_rule i rule) (\<lambda>r. rbind (normalize_rules_from (i + 1) rules) (\<lambda>rs. Inr (r # rs)))"

definition normalizeAssertionRules :: "AssertionRule list \<Rightarrow> AssertionRule list result" where
  "normalizeAssertionRules rules = normalize_rules_from 0 rules"

definition normalizeScheduleType :: "string \<Rightarrow> string result" where
  "normalizeScheduleType s =
     (let value = TrimSpace s; value = (if value = [] then ScheduleTypeCron else value) in
      if \<not> isOneOf value [ScheduleTypeCron, ScheduleTypeInterval] then Inl (ValidationError ''schedule_type'')
      else Inr value)"

definition normalizeTimezone :: "Libs \<Rightarrow> string \<Rightarrow> string result" where
  "normalizeTimezone lb s =
     (let value = TrimSpace s; value = (if value = [] then DefaultTimezone else value) in
      if length value > 64 then Inl (ValidationError ''timezone'')
      else if \<not> lb_zone lb value then Inl (ValidationError ''timezone'')
      else Inr value)"

definition normalizeTimeoutSec :: "int \<Rightarrow> int result" where
  "normalizeTimeoutSec n =
     (let n = (if n = 0 then DefaultTimeoutSec else n) in
      if n < 1 then Inl (ValidationError ''timeout_sec'') else Inr n)"

definition normalizeRetryLimit :: "int \<Rightarrow> int result" where
  "normalizeRetryLimit n =
     (if n < 0 then Inl (ValidationError ''retry_limit'') else Inr (if n = 0 then DefaultRetryLimit else n))"

definition normalizePriority :: "int \<Rightarrow> int result" where
  "normalizePriority n =
     (if n < 0 then Inl (ValidationError ''priority'') else Inr (if n = 0 then DefaultPriority else n))"

definition normalizeSchedule ::
    "Libs \<Rightarrow> time \<Rightarrow> string \<Rightarrow> string \<Rightarrow> string option \<Rightarrow> int option \<Rightarrow> (string option \<times> int option \<times> time) result" where
  "normalizeSchedule lb now loc scheduleType cronExpr intervalSec =
     (if scheduleType = ScheduleTypeCron then
        (case cronExpr of
           None \<Rightarrow> Inl (ValidationError ''cron_expr'')
         | Some c \<Rightarrow>
             (let expr = TrimSpace c in
              if expr = [] then Inl (ValidationError ''cron_expr'')
              else if length expr > 128 then Inl (ValidationError ''cron_expr'')
              else (case lb_cron lb expr of
                      Inl _ \<Rightarrow> Inl (ValidationError ''cron_expr'')
                    | Inr schedule \<Rightarrow> Inr (Some expr, None, schedule loc now))))
      else if scheduleType = ScheduleTypeInterval then
        (case intervalSec of
           None \<Rightarrow> Inl (ValidationError ''interval_sec'')
         | Some n \<Rightarrow>
             if n < MinimumIntervalSec then Inl (ValidationError ''interval_sec'')
             else Inr (None, Some n, now + int64 (n * second_ns)))
      else Inl (ValidationError ''schedule_type''))"

definition Check_NormalizeCreate :: "Libs \<Rightarrow> time \<Rightarrow> CheckCreateInput \<Rightarrow> CheckCreateSpec result" where
  "Check_NormalizeCreate lb now inp =
     rbind (normalizeRequiredString (cki_Name inp) ''name'' 128) (\<lambda>name.
     rbind (normalizeOptionalString (cki_Description inp) ''description'' 512) (\<lambda>description.
     rbind (normalizeTenantID (cki_TenantID inp)) (\<lambda>tenantID.
     rbind (normalizeCheckType (cki_CheckType inp)) (\<lambda>checkType.
     let checkConfig = normalizeJSONB (cki_CheckConfig inp) in
     rbind (if checkType = CheckTypeHTTPHealth then rbind (NormalizeProbeConfig lb checkConfig) (\<lambda>_. Inr ()) else Inr ()) (\<lambda>_.
     rbind (normalizeAssertionRules (cki_AssertionRules inp)) (\<lambda>rules.
     rbind (normalizeScheduleType (cki_ScheduleType inp)) (\<lambda>scheduleType.
     rbind (normalizeTimezone lb (cki_Timezone inp)) (\<lambda>timezone.
     rbind (normalizeTimeoutSec (cki_TimeoutSec inp)) (\<lambda>timeoutSec.
     rbind (normalizeRetryLimit (cki_RetryLimit inp)) (\<lambda>retryLimit.
     rbind (normalizePriority (cki_Priority inp)) (\<lambda>priority.
     rbind (normalizeSchedule lb now timezone scheduleType (cki_CronExpr inp) (cki_IntervalSec inp)) (\<lambda>(cronExpr, intervalSec, nextRunAt).
     Inr \<lparr>cks_Name = name, cks_Description = description, cks_TenantID = tenantID,
          cks_ResourceGroupID = TrimSpace (cki_ResourceGroupID inp), cks_CheckType = checkType,
          cks_CheckConfig = checkConfig, cks_AssertionRules = rules, cks_ScheduleType = scheduleType,
          cks_CronExpr = cronExpr, cks_IntervalSec = intervalSec, cks_Timezone = timezone,
          cks_TimeoutSec = timeoutSec, cks_RetryLimit = retryLimit, cks_Priority = priority,
          cks_Labels = normalizeJSONB (cki_Labels inp), cks_NextRunAt = Some nextRunAt\<rparr>))))))))))))"

subsection \<open>Identity and lifecycle\<close>

definition CheckSourceUID :: "int \<Rightarrow> string" where
  "CheckSourceUID i = ''check-'' @ itoa i"

definition CheckIDFromSourceUID :: "string \<Rightarrow> int option" where
  "CheckIDFromSourceUID sourceUID =
     (if \<not> prefix ''check-'' sourceUID then None
      else case parse_int64 (drop (length ''check-'') sourceUID) of
             Inl _ \<Rightarrow> None
           | Inr i \<Rightarrow> if i < 1 then None else Some i)"

definition Check_Pause :: "string \<Rightarrow> int \<Rightarrow> string result" where
  "Check_Pause status version =
     (if version < 1 then Inl (ValidationError ''version'')
      else if status \<noteq> StatusActive then Inl (ValidationError ''status'')
      else Inr StatusPaused)"

definition Check_Resume :: "string \<Rightarrow> int \<Rightarrow> string result" where
  "Check_Resume status version =
     (if version < 1 then Inl (ValidationError ''version'')
      else if status \<noteq> StatusPaused then Inl (ValidationError ''status'')
      else Inr StatusActive)"

subsection \<open>What validation guarantees\<close>

lemma CheckIDFromSourceUID_SourceUID:
  assumes "1 \<le> i" and "i < 2 ^ 63"
  shows "CheckIDFromSourceUID (CheckSourceUID i) = Some i"
proof -
  have "parse_int64 (itoa i) = Inr i" using assms by (intro parse_int64_itoa) auto
  then show ?thesis using assms by (simp add: CheckIDFromSourceUID_def CheckSourceUID_def)
qed

lemma CheckSourceUID_inject [simp]: "CheckSourceUID i = CheckSourceUID j \<longleftrightarrow> i = j"
  by (simp add: CheckSourceUID_def)

lemma Pause_Resume_inverse:
  "Check_Pause s v = Inr s' \<Longrightarrow> s = StatusActive \<and> s' = StatusPaused \<and> Check_Resume s' v = Inr s"
  "Check_Resume s v = Inr s' \<Longrightarrow> s = StatusPaused \<and> s' = StatusActive \<and> Check_Pause s' v = Inr s"
  by (auto simp: Check_Pause_def Check_Resume_def split: if_splits)

text \<open>An accepted probe is one of three methods against an absolute HTTP URL, and what it normalizes to is accepted again.\<close>

lemma NormalizeProbeConfig_ok:
  assumes "NormalizeProbeConfig lb cfg = Inr p"
  shows "pc_Method p \<in> set ProbeMethods" "100 \<le> pc_ExpectedStatus p" "pc_ExpectedStatus p \<le> 599"
    "pc_URL p \<noteq> []" "length (pc_URL p) \<le> MaxProbeURLLength"
    "\<exists>scheme host. lb_url lb (pc_URL p) = Inr (scheme, host) \<and> scheme \<in> {''http'', ''https''} \<and> host \<noteq> []"
proof -
  obtain u scheme host m s where u: "map_of cfg ''url'' = Some (AStr u)" "TrimSpace u \<noteq> []"
    "lb_url lb (TrimSpace u) = Inr (scheme, host)" "host \<noteq> []" "length u \<le> MaxProbeURLLength" "scheme \<in> {''http'', ''https''}"
    and m: "probe_method cfg = Inr m" "isOneOf m ProbeMethods" and s: "probe_status cfg = Inr s"
    and p: "p = \<lparr>pc_URL = TrimSpace u, pc_Method = m, pc_ExpectedStatus = s\<rparr>"
    using assms unfolding NormalizeProbeConfig_def
    by (auto simp: rbind_def split: option.splits any.splits if_splits sum.splits prod.splits)
  show "pc_Method p \<in> set ProbeMethods" using m p by (simp add: isOneOf_def)
  show "100 \<le> pc_ExpectedStatus p" "pc_ExpectedStatus p \<le> 599"
    using s p by (auto simp: probe_status_def check_constants split: option.splits any.splits sum.splits if_splits)
  show "pc_URL p \<noteq> []" using u p by simp
  have "length (TrimSpace u) \<le> length u"
    unfolding TrimSpace_def by (metis (no_types) le_trans length_dropWhile_le length_rev)
  then show "length (pc_URL p) \<le> MaxProbeURLLength" using u p by simp
  show "\<exists>scheme host. lb_url lb (pc_URL p) = Inr (scheme, host) \<and> scheme \<in> {''http'', ''https''} \<and> host \<noteq> []"
    using u p by simp
qed

end
