(* ===== verification/Projection.thy ===== *)
theory Projection
  imports World Workflow_Order Check_Domain
begin

section \<open>Projecting definitions into revisions\<close>

text \<open>
  \<open>internal/core/app/projection\<close> and the two projecting handlers of
  \<open>internal/operator/runtime.go\<close>. JSON, SHA-256 and the jsonb rendering of PostgreSQL are the
  fields of the parameter record \<open>Ext\<close>: encoding and decoding of the two spec types, the
  digest, and the text a stored document is read back as.
\<close>

record Ext =
  ex_sha :: "string \<Rightarrow> string"
  ex_rfc :: "time \<Rightarrow> string"
  ex_jsonb :: "string \<Rightarrow> string option"
  ex_encode :: "ScheduledJobSpec \<Rightarrow> string"
  ex_decode :: "string \<Rightarrow> ScheduledJobSpec result"
  ex_encode_workflow :: "WorkflowJobSpec \<Rightarrow> string"
  ex_decode_workflow :: "string \<Rightarrow> WorkflowJobSpec result"

record ScheduledJobObject =
  sj_Meta :: ObjectMeta
  sj_Generation :: int
  sj_Spec :: ScheduledJobSpec

record WorkflowJobObject =
  wj_Meta :: ObjectMeta
  wj_Generation :: int
  wj_Spec :: WorkflowJobSpec

definition normalizeSpec :: "Ext \<Rightarrow> ScheduledJobSpec \<Rightarrow> string" where
  "normalizeSpec x spec = ex_encode x spec"

definition normalizeWorkflowSpec :: "Ext \<Rightarrow> WorkflowJobSpec \<Rightarrow> string" where
  "normalizeWorkflowSpec x spec = ex_encode_workflow x spec"

definition ApplyScheduledJob ::
    "Ext \<Rightarrow> env \<Rightarrow> ScheduledJobObject \<Rightarrow> string \<Rightarrow> string \<Rightarrow> ('k world, int) io" where
  "ApplyScheduledJob x env obj tenantID actor =
     (if tenantID = '''' then io_fail (Errorf ''tenant is required'')
      else if ss_Schedule (sj_Spec obj) = '''' \<or> jt_Image (ss_JobTemplate (sj_Spec obj)) = ''''
        then io_fail (Errorf ''schedule and job template image are required'')
      else io_bind (now_call env) (\<lambda>now.
        io_bind (io_lift (Revision_New (ex_sha x)
            \<lparr>id_SourceMode = ''kubernetes'', id_SourceUID = om_UID (sj_Meta obj),
             id_Namespace = om_Namespace (sj_Meta obj), id_Name = om_Name (sj_Meta obj)\<rparr>
            (sj_Generation obj) (normalizeSpec x (sj_Spec obj)) actor '''' now)) (\<lambda>rv.
        store_call env (\<lambda>_. ApplyRevisionForTenant (ex_jsonb x) tenantID rv))))"

definition ApplyWorkflowJob ::
    "Ext \<Rightarrow> env \<Rightarrow> WorkflowJobObject \<Rightarrow> string \<Rightarrow> string \<Rightarrow> ('k world, int) io" where
  "ApplyWorkflowJob x env obj tenantID actor =
     (if tenantID = '''' then io_fail (Errorf ''tenant is required'')
      else if ws_Schedule (wj_Spec obj) = '''' \<or> ws_Tasks (wj_Spec obj) = []
        then io_fail (Errorf ''schedule and tasks are required'')
      else io_bind (now_call env) (\<lambda>now.
        io_bind (io_lift (Revision_New (ex_sha x)
            \<lparr>id_SourceMode = SourceModeWorkflow, id_SourceUID = om_UID (wj_Meta obj),
             id_Namespace = om_Namespace (wj_Meta obj), id_Name = om_Name (wj_Meta obj)\<rparr>
            (wj_Generation obj) (normalizeWorkflowSpec x (wj_Spec obj)) actor '''' now)) (\<lambda>rv.
        store_call env (\<lambda>_. ApplyRevisionForTenant (ex_jsonb x) tenantID rv))))"

subsection \<open>Functions\<close>

definition DefaultTimeoutSeconds :: int where "DefaultTimeoutSeconds = 60"

record FunctionDefinition =
  fd_ID :: int
  fd_TenantID :: string
  fd_ResourceGroupID :: string
  fd_Name :: string
  fd_Description :: string
  fd_Status :: string
  fd_Image :: string
  fd_Command :: "string list"
  fd_Args :: "string list"
  fd_TimeoutSeconds :: int
  fd_RetryLimit :: int
  fd_HistorySuccess :: int
  fd_HistoryFailed :: int
  fd_Labels :: object
  fd_Version :: int
  fd_CreatedAt :: time
  fd_UpdatedAt :: time

text \<open>The conversion \<open>int32(v)\<close> wraps.\<close>

definition int32 :: "int \<Rightarrow> int" where
  "int32 v = (v + 2 ^ 31) mod 2 ^ 32 - 2 ^ 31"

definition Function_SourceUID :: "int \<Rightarrow> string" where
  "Function_SourceUID i = ''function-'' @ itoa i"

definition IDFromSourceUID :: "string \<Rightarrow> int option" where
  "IDFromSourceUID sourceUID =
     (if \<not> prefix ''function-'' sourceUID then None
      else case parse_int64 (drop (length ''function-'') sourceUID) of
             Inl _ \<Rightarrow> None
           | Inr i \<Rightarrow> if i < 1 then None else Some i)"

definition empty_spec :: ScheduledJobSpec where
  "empty_spec = \<lparr>ss_Schedule = '''', ss_History = \<lparr>SuccessfulRuns = 0, FailedRuns = 0\<rparr>,
     ss_Suspend = False, ss_ConcurrencyPolicy = OtherConcurrency '''',
     ss_MisfirePolicy = OtherMisfire '''', ss_TimeoutSeconds = 0,
     ss_JobTemplate = \<lparr>jt_Image = '''', jt_Command = [], jt_Args = [], jt_BackoffLimit = 0\<rparr>,
     ss_RetryPolicy = \<lparr>rp_MaxAttempts = 0\<rparr>\<rparr>"

definition FunctionJobSpec :: "FunctionDefinition \<Rightarrow> ScheduledJobSpec" where
  "FunctionJobSpec def =
     (let timeout = (if fd_TimeoutSeconds def < 1 then DefaultTimeoutSeconds else fd_TimeoutSeconds def)
      in empty_spec\<lparr>ss_TimeoutSeconds := int32 timeout,
           ss_RetryPolicy := \<lparr>rp_MaxAttempts = int32 (fd_RetryLimit def + 1)\<rparr>,
           ss_JobTemplate := \<lparr>jt_Image = fd_Image def, jt_Command = fd_Command def,
                              jt_Args = fd_Args def, jt_BackoffLimit = 0\<rparr>\<rparr>)"

definition ApplyFunction ::
    "Ext \<Rightarrow> env \<Rightarrow> FunctionDefinition \<Rightarrow> string \<Rightarrow> string \<Rightarrow> string \<Rightarrow> ('k world, int) io" where
  "ApplyFunction x env def namespace tenantID actor =
     (if tenantID = '''' then io_fail (Errorf ''tenant is required'')
      else if namespace = '''' then io_fail (Errorf ''namespace is required'')
      else if fd_ID def < 1 then io_fail (Errorf ''function id is required'')
      else io_bind (now_call env) (\<lambda>now.
        io_bind (io_lift (Revision_New (ex_sha x)
            \<lparr>id_SourceMode = SourceModeFunction, id_SourceUID = Function_SourceUID (fd_ID def),
             id_Namespace = namespace, id_Name = Function_SourceUID (fd_ID def)\<rparr>
            (fd_Version def) (normalizeSpec x (FunctionJobSpec def)) actor (fd_ResourceGroupID def) now)) (\<lambda>rv.
        store_call env (\<lambda>_. ApplyRevisionForTenant (ex_jsonb x) tenantID rv))))"

lemma IDFromSourceUID_SourceUID:
  assumes "1 \<le> i" and "i < 2 ^ 63"
  shows "IDFromSourceUID (Function_SourceUID i) = Some i"
proof -
  have "parse_int64 (itoa i) = Inr i" using assms by (intro parse_int64_itoa) auto
  then show ?thesis using assms by (simp add: IDFromSourceUID_def Function_SourceUID_def)
qed

lemma int32_id: "- (2 ^ 31) \<le> v \<Longrightarrow> v < 2 ^ 31 \<Longrightarrow> int32 v = v"
  by (simp add: int32_def)

lemma int32_range: "- (2 ^ 31) \<le> int32 v \<and> int32 v < 2 ^ 31"
  by (simp add: int32_def)

subsection \<open>Checks\<close>

fun sh_escape :: "string \<Rightarrow> string" where
  "sh_escape [] = []"
| "sh_escape (c # cs) = (if c = CHR 0x27 then [CHR 0x27, CHR 0x5C, CHR 0x27, CHR 0x27] else [c]) @ sh_escape cs"

definition shSingleQuote :: "string \<Rightarrow> string" where
  "shSingleQuote s = [CHR 0x27] @ sh_escape s @ [CHR 0x27]"

definition probeScript :: "ProbeConfig \<Rightarrow> int \<Rightarrow> string" where
  "probeScript probe timeoutSec =
     ''code=$(curl -sS -o /dev/null -w '' @ [CHR 0x27] @ ''%{http_code}'' @ [CHR 0x27] @
     '' --max-time '' @ itoa timeoutSec @ '' -X '' @ pc_Method probe @ '' '' @ shSingleQuote (pc_URL probe) @
     ''); [ '' @ [CHR 0x22] @ ''$code'' @ [CHR 0x22] @ '' = '' @ itoa (pc_ExpectedStatus probe) @ '' ]''"

definition ProbeImage :: string where
  "ProbeImage = ''curlimages/curl@sha256:58adaa4e8dca9c988bae2aba4ab3434a0bb2da16bbe3f92dec39ec7785166777''"

definition probeContainerCommand :: "string list" where
  "probeContainerCommand = [''/bin/sh'', ''-c'']"

definition CheckJobSpec :: "Libs \<Rightarrow> CheckSnapshot \<Rightarrow> ScheduledJobSpec result" where
  "CheckJobSpec lb c =
     rbind (wrap_result ''check'' (NormalizeProbeConfig lb (ck_CheckConfig c))) (\<lambda>probe.
     let timeout = (if ck_TimeoutSec c < 1 then DefaultTimeoutSec else ck_TimeoutSec c) in
     Inr (empty_spec\<lparr>ss_TimeoutSeconds := int32 timeout,
       ss_RetryPolicy := \<lparr>rp_MaxAttempts = int32 (ck_RetryLimit c + 1)\<rparr>,
       ss_JobTemplate := \<lparr>jt_Image = ProbeImage, jt_Command = probeContainerCommand,
                          jt_Args = [probeScript probe timeout], jt_BackoffLimit = 0\<rparr>\<rparr>))"

definition ApplyCheck ::
    "Libs \<Rightarrow> Ext \<Rightarrow> env \<Rightarrow> CheckSnapshot \<Rightarrow> string \<Rightarrow> string \<Rightarrow> string \<Rightarrow> ('k world, int) io" where
  "ApplyCheck lb x env c namespace tenantID actor =
     (if tenantID = [] then io_fail (Errorf ''tenant is required'')
      else if namespace = [] then io_fail (Errorf ''namespace is required'')
      else io_bind (io_lift (CheckJobSpec lb c)) (\<lambda>spec.
        io_bind (now_call env) (\<lambda>now.
        io_bind (io_lift (Revision_New (ex_sha x)
            \<lparr>id_SourceMode = SourceModeCheck, id_SourceUID = CheckSourceUID (ck_ID c),
             id_Namespace = namespace, id_Name = CheckSourceUID (ck_ID c)\<rparr>
            (ck_Version c) (normalizeSpec x spec) actor (ck_ResourceGroupID c) now)) (\<lambda>rv.
        store_call env (\<lambda>_. ApplyRevisionForTenant (ex_jsonb x) tenantID rv)))))"

definition CheckSpecJSON :: "Libs \<Rightarrow> Ext \<Rightarrow> CheckSnapshot \<Rightarrow> string result" where
  "CheckSpecJSON lb x c = rbind (CheckJobSpec lb c) (\<lambda>spec. Inr (ex_encode x spec))"

text \<open>
  How a POSIX shell reads one word made of single-quoted parts and backslash escapes, from
  the start of the word: the literal it denotes and the rest of the line, \<open>None\<close> when a quote
  is left open or another construct begins. The flag says whether a quote is open.
\<close>

fun sh_word :: "bool \<Rightarrow> string \<Rightarrow> (string \<times> string) option" where
  "sh_word True [] = None"
| "sh_word True (c # cs) =
     (if c = CHR 0x27 then sh_word False cs
      else map_option (\<lambda>(lit, rest). (c # lit, rest)) (sh_word True cs))"
| "sh_word False [] = Some ([], [])"
| "sh_word False (c # cs) =
     (if c = CHR 0x27 then sh_word True cs
      else if c = CHR 0x5C then
        (case cs of [] \<Rightarrow> None
         | d # ds \<Rightarrow> map_option (\<lambda>(lit, rest). (d # lit, rest)) (sh_word False ds))
      else Some ([], c # cs))"

lemma sh_word_escape:
  "sh_word True (sh_escape s @ CHR 0x27 # rest) = map_option (\<lambda>(lit, r). (s @ lit, r)) (sh_word False rest)"
  by (induction s) (auto simp: option.map_comp comp_def split_def option.map_ident)

lemma sh_word_shSingleQuote:
  assumes "rest = [] \<or> hd rest \<notin> {CHR 0x27, CHR 0x5C}"
  shows "sh_word False (shSingleQuote s @ rest) = Some (s, rest)"
proof -
  have "sh_word False rest = Some ([], rest)" using assms by (cases rest) auto
  then show ?thesis by (simp add: shSingleQuote_def sh_word_escape)
qed

end
