(* ===== verification/Reconcile.thy ===== *)
theory Reconcile
  imports Projection
begin

section \<open>The operator's run reconciliation\<close>

text \<open>
  The handlers of \<open>internal/operator\<close> that turn watched objects into ledger state:
  \<open>runtime.go\<close> (\<open>ReconcileScheduledJob\<close>, \<open>ReconcileWorkflowJob\<close>, \<open>ReconcileJobRun\<close>,
  \<open>materializeManualRun\<close>), \<open>cancel.go\<close>, \<open>job_handler.go\<close>, the tenant resolvers of \<open>tenant.go\<close>,
  the read-model hook of \<open>workflow.go\<close> (\<open>recordFunctionOutcome\<close>) and the publisher of \<open>publisher.go\<close>.

  A watched object carries its metadata and what its spec decodes to. The status patch, the
  outcome recorder and the function recorder are calls on the abstract cluster state; the two
  recorders are optional, as in the source. Metrics and log lines have no model.
\<close>

subsection \<open>The runtime\<close>

record 'a CRObject =
  cr_Meta :: ObjectMeta
  cr_Spec :: "'a result"

datatype TenantResolver = NamespaceTenantResolver "(string \<times> string) list" | DefaultTenantResolver string

fun Resolve :: "TenantResolver \<Rightarrow> ObjectMeta \<Rightarrow> string result" where
  "Resolve (NamespaceTenantResolver tenants) obj =
     (let tenant = (case map_of tenants (om_Namespace obj) of None \<Rightarrow> '''' | Some t \<Rightarrow> t)
      in if tenant = '''' then Inl (Errorf ''tenant not configured for namespace'') else Inr tenant)"
| "Resolve (DefaultTenantResolver tenant) obj =
     (if tenant = '''' then Inl (Errorf ''default tenant is not configured'')
      else if om_Namespace obj = '''' then Inl (Errorf ''object has no namespace'')
      else Inr tenant)"

fun TenantIDs :: "TenantResolver \<Rightarrow> string list" where
  "TenantIDs (NamespaceTenantResolver tenants) = sort (remdups (map snd tenants))"
| "TenantIDs (DefaultTenantResolver tenant) = (if tenant = '''' then [] else [tenant])"

fun Namespaces :: "TenantResolver \<Rightarrow> string list" where
  "Namespaces (NamespaceTenantResolver tenants) = sort (map fst tenants)"
| "Namespaces (DefaultTenantResolver tenant) = []"

datatype gvr = ScheduledJobGVR | WorkflowJobGVR | JobRunGVR | WorkflowRunGVR

datatype status_patch =
    RevisionStatus int int
  | RunStatus string int
  | WorkflowStatus WorkflowRunStatus

record CompletedRecord =
  cp_RunID :: string
  cp_FunctionID :: int
  cp_Status :: string
  cp_TriggeredAt :: time
  cp_StartedAt :: time
  cp_FinishedAt :: time
  cp_DurationMs :: int

record 'k Runtime =
  rt_Client :: "'k JobClient"
  rt_Patch :: "gvr \<Rightarrow> string \<Rightarrow> string \<Rightarrow> status_patch \<Rightarrow> ('k, unit) io"
  rt_Tenants :: TenantResolver
  rt_Outcomes :: "(string \<Rightarrow> int \<Rightarrow> phase \<Rightarrow> 'k \<Rightarrow> 'k) option"
  rt_Functions :: "(string \<Rightarrow> CompletedRecord \<Rightarrow> ('k, unit) io) option"

definition patchStatus :: "'k Runtime \<Rightarrow> gvr \<Rightarrow> ObjectMeta \<Rightarrow> status_patch \<Rightarrow> ('k world, unit) io" where
  "patchStatus rt g obj status =
     io_wrap ''patch status'' (kube_call (rt_Patch rt g (om_Namespace obj) (om_Name obj) status))"

definition patchRunStatus :: "'k Runtime \<Rightarrow> ObjectMeta \<Rightarrow> StoredRun \<Rightarrow> ('k world, unit) io" where
  "patchRunStatus rt obj stored =
     patchStatus rt JobRunGVR obj (RunStatus (phase_string (sr_Phase stored)) (int32 (sr_Attempt stored)))"

subsection \<open>Outcome hooks\<close>

definition recordOutcome :: "'k Runtime \<Rightarrow> string \<Rightarrow> int \<Rightarrow> phase \<Rightarrow> bool \<Rightarrow> ('k world, unit) io" where
  "recordOutcome rt tenant runID ph phaseChanged =
     (case rt_Outcomes rt of
        None \<Rightarrow> io_return ()
      | Some record_phase \<Rightarrow>
          if \<not> phaseChanged then io_return ()
          else if ph \<noteq> Succeeded \<and> ph \<noteq> Failed then io_return ()
          else kube_call (\<lambda>k. (Inr (), record_phase tenant runID ph k)))"

definition ReadModelStatus :: "phase \<Rightarrow> string option" where
  "ReadModelStatus ph =
     (case ph of Succeeded \<Rightarrow> Some ''success'' | Failed \<Rightarrow> Some ''failed'' | Canceled \<Rightarrow> Some ''canceled''
      | _ \<Rightarrow> None)"

definition functionRunID :: "(string \<Rightarrow> string) \<Rightarrow> string \<Rightarrow> string" where
  "functionRunID sha occurrenceKey =
     (let digest = (if length occurrenceKey \<noteq> 64 then sha occurrenceKey else occurrenceKey)
      in take 8 digest @ ''-'' @ take 4 (drop 8 digest) @ ''-'' @ take 4 (drop 12 digest) @ ''-'' @
         take 4 (drop 16 digest) @ ''-'' @ take 12 (drop 20 digest))"

definition functionTriggeredAt :: "TerminalOutcome \<Rightarrow> time \<Rightarrow> time" where
  "functionTriggeredAt outcome now =
     (if \<not> time_IsZero (to_StartedAt outcome) then to_StartedAt outcome else now)"

text \<open>\<open>Duration.Milliseconds\<close> truncates toward zero.\<close>

definition milliseconds :: "duration \<Rightarrow> int" where
  "milliseconds d = (if d < 0 then - ((- d) div 1000000) else d div 1000000)"

definition recordFunctionOutcome ::
    "Ext \<Rightarrow> env \<Rightarrow> 'k Runtime \<Rightarrow> string \<Rightarrow> int \<Rightarrow> phase \<Rightarrow> bool \<Rightarrow> ('k world, unit) io" where
  "recordFunctionOutcome x env rt tenant runID ph phaseChanged =
     (case rt_Functions rt of
        None \<Rightarrow> io_return ()
      | Some recordCompleted \<Rightarrow>
      if \<not> phaseChanged then io_return ()
      else case ReadModelStatus ph of
        None \<Rightarrow> io_return ()
      | Some status \<Rightarrow>
      io_bind (io_try (store_call env (\<lambda>_. TerminalOutcome_read tenant runID))) (\<lambda>read.
      case read of
        Inl _ \<Rightarrow> io_return ()
      | Inr outcome \<Rightarrow>
      case IDFromSourceUID (to_SourceUID outcome) of
        None \<Rightarrow> io_return ()
      | Some functionID \<Rightarrow>
      io_bind (now_call env) (\<lambda>now.
      io_bind (io_try (kube_call (recordCompleted tenant
          \<lparr>cp_RunID = functionRunID (ex_sha x) (to_OccurrenceKey outcome), cp_FunctionID = functionID,
           cp_Status = status, cp_TriggeredAt = functionTriggeredAt outcome now,
           cp_StartedAt = to_StartedAt outcome, cp_FinishedAt = to_CompletedAt outcome,
           cp_DurationMs =
             (if \<not> time_IsZero (to_StartedAt outcome) \<and> \<not> time_IsZero (to_CompletedAt outcome)
              then milliseconds (time_Sub (to_CompletedAt outcome) (to_StartedAt outcome)) else 0)\<rparr>)))
        (\<lambda>_. io_return ()))))"

subsection \<open>Definitions\<close>

definition ReconcileScheduledJob ::
    "Ext \<Rightarrow> env \<Rightarrow> 'k Runtime \<Rightarrow> ScheduledJobObject \<Rightarrow> ('k world, unit) io" where
  "ReconcileScheduledJob x env rt obj =
     io_bind (io_lift (Resolve (rt_Tenants rt) (sj_Meta obj))) (\<lambda>tenant.
     io_bind (io_wrap ''project scheduled job'' (ApplyScheduledJob x env obj tenant ''orbitjob-operator'')) (\<lambda>revisionID.
     patchStatus rt ScheduledJobGVR (sj_Meta obj) (RevisionStatus (sj_Generation obj) revisionID)))"

definition ReconcileWorkflowJob ::
    "Ext \<Rightarrow> env \<Rightarrow> 'k Runtime \<Rightarrow> WorkflowJobObject \<Rightarrow> ('k world, unit) io" where
  "ReconcileWorkflowJob x env rt obj =
     io_bind (io_lift (Resolve (rt_Tenants rt) (wj_Meta obj))) (\<lambda>tenant.
     io_bind (io_wrap ''project workflow job'' (ApplyWorkflowJob x env obj tenant ''orbitjob-operator'')) (\<lambda>revisionID.
     patchStatus rt WorkflowJobGVR (wj_Meta obj) (RevisionStatus (wj_Generation obj) revisionID)))"

subsection \<open>Cancellation\<close>

definition cancelConfirmTimeout :: duration where "cancelConfirmTimeout = 5 * minute_ns"

definition name_identity :: "string \<Rightarrow> int \<Rightarrow> JobIdentity" where
  "name_identity name attempt = \<lparr>ji_RunName = name, ji_RunUID = '''', ji_RevisionID = '''', ji_Attempt = attempt\<rparr>"

definition reconcileCancellation ::
    "Ext \<Rightarrow> env \<Rightarrow> 'k Runtime \<Rightarrow> string \<Rightarrow> ObjectMeta \<Rightarrow> StoredRun \<Rightarrow> ('k world, unit) io" where
  "reconcileCancellation x env rt tenant obj stored =
     (if sr_Attempt stored = 0 then
        io_bind (store_call env (\<lambda>now. UpdateRunPhase now tenant (sr_ID stored) Canceled 0)) (\<lambda>changed.
        io_bind (recordFunctionOutcome x env rt tenant (sr_ID stored) Canceled changed) (\<lambda>_.
        patchRunStatus rt obj (stored\<lparr>sr_Phase := Canceled\<rparr>)))
      else
        io_bind
          (if sr_Phase stored \<noteq> CancelRequested then
             io_bind (now_call env) (\<lambda>now.
             io_bind (io_lift (wrap_result ''request cancel''
               (RequestCancel (JobRun_zero\<lparr>jr_Phase := sr_Phase stored\<rparr>) now))) (\<lambda>requested.
             io_bind (store_call env (\<lambda>now. UpdateRunPhase now tenant (sr_ID stored) (jr_Phase requested) (sr_Attempt stored)))
               (\<lambda>_. io_return (stored\<lparr>sr_Phase := jr_Phase requested\<rparr>))))
           else io_return stored)
          (\<lambda>stored.
        let jobName = JobName (ex_sha x) (name_identity (om_Name obj) (sr_Attempt stored)) in
        io_bind (io_wrap ''delete kubernetes job'' (kube_call (Adapter_Delete (rt_Client rt) (om_Namespace obj) jobName))) (\<lambda>_.
        io_bind (io_wrap ''observe kubernetes job'' (kube_call (Adapter_Get (rt_Client rt) (om_Namespace obj) jobName))) (\<lambda>job.
        case job of
          Some job \<Rightarrow>
            (case kj_DeletionTimestamp job of
               None \<Rightarrow> patchRunStatus rt obj stored
             | Some deleted \<Rightarrow>
                 io_bind (now_call env) (\<lambda>now.
                 if time_Sub now deleted > cancelConfirmTimeout then
                   io_bind (store_call env (\<lambda>now. UpdateRunPhase now tenant (sr_ID stored) CancelUnknown (sr_Attempt stored)))
                     (\<lambda>_. patchRunStatus rt obj (stored\<lparr>sr_Phase := CancelUnknown\<rparr>))
                 else patchRunStatus rt obj stored))
        | None \<Rightarrow>
            io_bind (io_wrap ''record canceled attempt''
               (store_call env (\<lambda>now. UpdateAttemptPhase now tenant jobName (phase_string Canceled) '''' ''''))) (\<lambda>_.
            io_bind (store_call env (\<lambda>now. UpdateRunPhase now tenant (sr_ID stored) Canceled (sr_Attempt stored))) (\<lambda>changed.
            io_bind (recordFunctionOutcome x env rt tenant (sr_ID stored) Canceled changed) (\<lambda>_.
            patchRunStatus rt obj (stored\<lparr>sr_Phase := Canceled\<rparr>))))))))"

subsection \<open>Runs\<close>

definition jobRunSpecFromUnstructured :: "JobRunSpec CRObject \<Rightarrow> JobRunSpec result" where
  "jobRunSpecFromUnstructured obj = rbind (cr_Spec obj) (\<lambda>spec.
     if ref_UID (js_ScheduledJobRef spec) = '''' \<or> js_OccurrenceKey spec = ''''
       then Inl (Errorf ''job run is missing scheduledJobRef.uid or occurrenceKey'')
     else if TrimSpace (js_Actor spec) = '''' then Inl (Errorf ''job run has no actor'')
     else Inr spec)"

definition materializeManualRun ::
    "Ext \<Rightarrow> env \<Rightarrow> string \<Rightarrow> JobRunSpec \<Rightarrow> ('k world, StoredRun option) io" where
  "materializeManualRun x env tenant spec =
     (if js_Trigger spec \<noteq> Manual \<and> js_Trigger spec \<noteq> Function then io_return None
      else
        io_bind (io_wrap ''load pinned revision for manual run''
          (store_call env (\<lambda>_. RevisionByID tenant (js_DefinitionRevision spec)))) (\<lambda>rv.
        if id_SourceUID (rev_Identity rv) \<noteq> ref_UID (js_ScheduledJobRef spec)
          then io_fail (Errorf ''manual run pins a revision of another definition'')
        else
          io_bind (io_lift (wrap_result ''decode pinned revision'' (ex_decode x (rev_NormalizedSpec rv)))) (\<lambda>declared.
          io_bind (io_wrap ''create manual run'' (store_call env (\<lambda>_. CreateOccurrenceForTenant tenant
              (JobRun_zero\<lparr>jr_SourceUID := ref_UID (js_ScheduledJobRef spec),
                 jr_RevisionID := itoa (js_DefinitionRevision spec),
                 jr_OccurrenceKey := js_OccurrenceKey spec, jr_Trigger := js_Trigger spec\<rparr>)
              (EffectiveMaxAttempts (ss_RetryPolicy declared)) (js_Actor spec)))) (\<lambda>(stored, _).
          io_return (Some stored)))))"

text \<open>The last part of \<open>ReconcileJobRun\<close>: start the next attempt.\<close>

definition start_attempt ::
    "Ext \<Rightarrow> env \<Rightarrow> 'k Runtime \<Rightarrow> string \<Rightarrow> ObjectMeta \<Rightarrow> JobRunSpec \<Rightarrow> StoredRun \<Rightarrow> ('k world, unit) io" where
  "start_attempt x env rt tenant obj spec stored =
     (let attemptNumber = NextAttempt stored in
      io_bind (store_call env (\<lambda>_. RevisionByID tenant (sr_RevisionID stored))) (\<lambda>rv.
      io_bind (io_lift (wrap_result ''decode pinned revision'' (ex_decode x (rev_NormalizedSpec rv)))) (\<lambda>declared.
      let identity = \<lparr>ji_RunName = om_Name obj, ji_RunUID = om_UID obj,
                      ji_RevisionID = itoa (rev_ID rv), ji_Attempt = attemptNumber\<rparr>;
          desired = BuildJob (ex_sha x) identity (om_Namespace obj)
            \<lparr>tp_Image = jt_Image (ss_JobTemplate declared), tp_Command = jt_Command (ss_JobTemplate declared),
             tp_Args = jt_Args (ss_JobTemplate declared),
             tp_BackoffLimit = jt_BackoffLimit (ss_JobTemplate declared),
             tp_ActiveDeadlineSeconds = js_TimeoutSeconds spec\<rparr>
      in io_bind (io_wrap ''ensure kubernetes job'' (kube_call (Ensure (rt_Client rt) desired))) (\<lambda>job.
         io_bind (io_lift (wrap_result ''kubernetes job'' (ValidateOwnership job identity))) (\<lambda>_.
         if kj_UID job = '''' then io_fail (Errorf ''kubernetes job has no uid'')
         else io_bind (now_call env) (\<lambda>started.
         let attempt = Attempt_zero\<lparr>at_Number := attemptNumber, at_KubernetesJobName := kj_Name job,
               at_KubernetesJobUID := kj_UID job, at_ObservedResourceVersion := kj_ResourceVersion job,
               at_Phase := CreatingAttempt, at_StartedAt := started\<rparr>
         in io_bind (io_try (store_call env (\<lambda>now. CreateAttemptForTenant now tenant (sr_ID stored) attempt Running))) (\<lambda>r.
         case r of
           Inl e \<Rightarrow> if err_is e ErrRunTerminal then io_return () else io_fail e
         | Inr _ \<Rightarrow> patchRunStatus rt obj (stored\<lparr>sr_Phase := Running, sr_Attempt := attemptNumber\<rparr>))))))))"

definition exhaust_budget ::
    "Ext \<Rightarrow> env \<Rightarrow> 'k Runtime \<Rightarrow> string \<Rightarrow> ObjectMeta \<Rightarrow> StoredRun \<Rightarrow> ('k world, unit) io" where
  "exhaust_budget x env rt tenant obj stored =
     (case Transition (JobRun_zero\<lparr>jr_Phase := sr_Phase stored\<rparr>) Failed of
        Inl _ \<Rightarrow> io_return ()
      | Inr failed \<Rightarrow>
          io_bind (store_call env (\<lambda>now. UpdateRunPhase now tenant (sr_ID stored) (jr_Phase failed) (sr_Attempt stored))) (\<lambda>phaseChanged.
          io_bind (recordOutcome rt tenant (sr_ID stored) (jr_Phase failed) phaseChanged) (\<lambda>_.
          io_bind (recordFunctionOutcome x env rt tenant (sr_ID stored) (jr_Phase failed) phaseChanged) (\<lambda>_.
          patchRunStatus rt obj (stored\<lparr>sr_Phase := jr_Phase failed\<rparr>)))))"

definition drive_run ::
    "Ext \<Rightarrow> env \<Rightarrow> 'k Runtime \<Rightarrow> string \<Rightarrow> ObjectMeta \<Rightarrow> JobRunSpec \<Rightarrow> StoredRun \<Rightarrow> ('k world, unit) io" where
  "drive_run x env rt tenant obj spec stored =
     (if Terminal (sr_Phase stored) then patchRunStatus rt obj stored
      else if sr_Phase stored = CancelRequested \<or> js_CancelRequested spec
        then reconcileCancellation x env rt tenant obj stored
      else if AttemptInFlight stored then patchRunStatus rt obj stored
      else if \<not> CanStartAttempt stored then exhaust_budget x env rt tenant obj stored
      else start_attempt x env rt tenant obj spec stored)"

definition ReconcileJobRun ::
    "Ext \<Rightarrow> env \<Rightarrow> 'k Runtime \<Rightarrow> JobRunSpec CRObject \<Rightarrow> ('k world, unit) io" where
  "ReconcileJobRun x env rt obj =
     io_bind (io_lift (jobRunSpecFromUnstructured obj)) (\<lambda>spec.
     io_bind (io_lift (Resolve (rt_Tenants rt) (cr_Meta obj))) (\<lambda>tenant.
     io_bind (store_call env (\<lambda>_. RunByOccurrence tenant (ref_UID (js_ScheduledJobRef spec)) (js_OccurrenceKey spec))) (\<lambda>found.
     io_bind (case found of Some stored \<Rightarrow> io_return (Some stored)
              | None \<Rightarrow> materializeManualRun x env tenant spec) (\<lambda>found.
     case found of
       None \<Rightarrow> io_return ()
     | Some stored \<Rightarrow> drive_run x env rt tenant (cr_Meta obj) spec stored))))"

subsection \<open>Observed Jobs\<close>

fun executionMapToRunPhase :: "JobPhase \<Rightarrow> phase" where
  "executionMapToRunPhase JobSucceeded = Succeeded"
| "executionMapToRunPhase JobFailed = RetryWaiting"
| "executionMapToRunPhase JobRunning = Running"
| "executionMapToRunPhase JobPending = CreatingAttempt"

definition job_meta :: "KubeJob \<Rightarrow> ObjectMeta" where
  "job_meta job = \<lparr>om_Name = kj_Name job, om_Namespace = kj_Namespace job, om_UID = kj_UID job,
     om_Labels = kj_Labels job, om_Annotations = [], om_OwnerReferences = []\<rparr>"

definition ReconcileJob :: "Ext \<Rightarrow> env \<Rightarrow> 'k Runtime \<Rightarrow> KubeJob \<Rightarrow> ('k world, unit) io" where
  "ReconcileJob x env rt job =
     (case IdentityFromJob job of
        Inl _ \<Rightarrow> io_return ()
      | Inr _ \<Rightarrow>
          io_bind (io_lift (Resolve (rt_Tenants rt) (job_meta job))) (\<lambda>tenant.
          let ph = executionMapToRunPhase (Phase job) in
          io_bind (io_try (store_call env (\<lambda>now. UpdateAttemptPhase now tenant (kj_Name job) (phase_string ph)
              (kj_UID job) (kj_ResourceVersion job)))) (\<lambda>r.
          case r of
            Inl e \<Rightarrow> if err_is e ErrNoAttempt then io_return () else io_fail (Wrapf ''record job phase'' e)
          | Inr (runID, attemptNumber) \<Rightarrow>
              io_bind (io_try (store_call env (\<lambda>now. UpdateRunPhase now tenant runID ph attemptNumber))) (\<lambda>r.
              case r of
                Inl e \<Rightarrow> if err_is e ErrRunTerminal then io_return () else io_fail e
              | Inr phaseChanged \<Rightarrow>
                  io_bind (recordOutcome rt tenant runID ph phaseChanged) (\<lambda>_.
                  recordFunctionOutcome x env rt tenant runID ph phaseChanged)))))"

subsection \<open>Publishing and removing runs\<close>

text \<open>The custom-resource API: create, merge-patch the cancel flag, delete.\<close>

record 'k CRClient =
  cc_CreateRun :: "JobRunObject \<Rightarrow> ('k, unit) io"
  cc_CancelRun :: "string \<Rightarrow> string \<Rightarrow> ('k, unit) io"
  cc_DeleteRun :: "string \<Rightarrow> string \<Rightarrow> ('k, unit) io"

definition Publish :: "'k CRClient \<Rightarrow> JobRunObject \<Rightarrow> ('k world, unit) io" where
  "Publish client run =
     (if om_Namespace (jo_Meta run) = '''' \<or> om_Name (jo_Meta run) = ''''
        then io_fail (Errorf ''job run namespace and name are required'')
      else io_bind (io_try (kube_call (cc_CreateRun client run))) (\<lambda>r.
        case r of
          Inl e \<Rightarrow> if e = ApiAlreadyExists then io_return () else io_fail (Wrapf ''create job run'' e)
        | Inr _ \<Rightarrow> io_return ()))"

definition RunPublisher_RequestCancel :: "'k CRClient \<Rightarrow> string \<Rightarrow> string \<Rightarrow> ('k world, unit) io" where
  "RunPublisher_RequestCancel client namespace name =
     (if namespace = '''' \<or> name = '''' then io_fail (Errorf ''job run namespace and name are required'')
      else io_bind (io_try (kube_call (cc_CancelRun client namespace name))) (\<lambda>r.
        case r of
          Inl e \<Rightarrow> if e = ApiNotFound then io_return () else io_fail (Wrapf ''patch cancel request'' e)
        | Inr _ \<Rightarrow> io_return ()))"

definition RunRemover_Remove :: "'k CRClient \<Rightarrow> string \<Rightarrow> string \<Rightarrow> string \<Rightarrow> ('k world, unit) io" where
  "RunRemover_Remove client namespace scheduledJobName occurrenceKey =
     (if length occurrenceKey < 8 then io_fail (Errorf ''occurrence key is too short to derive a run name'')
      else io_bind (io_try (kube_call (cc_DeleteRun client namespace (scheduledJobName @ ''-'' @ take 8 occurrenceKey)))) (\<lambda>r.
        case r of
          Inl e \<Rightarrow> if e = ApiNotFound then io_return () else io_fail (Wrapf ''delete job run'' e)
        | Inr _ \<Rightarrow> io_return ()))"

end
