(* ===== verification/Reconcile_Budget.thy ===== *)
theory Reconcile_Budget
  imports Reconcile_Laws
begin

section \<open>The attempt budget\<close>

text \<open>
  \<open>budget_ok\<close>: no run's counter and no recorded attempt exceeds the run's maximum. The store
  does not check it; it holds because every handler derives the number it writes from a row
  it read and from that row's immutable maximum. The triple \<open>htr\<close> carries such knowledge
  across calls between which other writers act.
\<close>

definition budget_ok :: "ledger \<Rightarrow> bool" where
  "budget_ok l \<longleftrightarrow>
     (\<forall>r \<in> set (lg_runs l). rn_attempt r \<le> rn_max_attempts r) \<and>
     (\<forall>a \<in> set (lg_attempts l). \<forall>r \<in> set (lg_runs l). rn_id r = ta_run a \<longrightarrow> ta_number a \<le> rn_max_attempts r)"

definition good :: "ledger \<Rightarrow> bool" where
  "good l \<longleftrightarrow> ledger_wf l \<and> budget_ok l"

text \<open>The number \<open>n\<close> is within the maximum of the run \<open>i\<close>, as long as that run exists.\<close>

definition in_budget :: "int \<Rightarrow> int \<Rightarrow> ledger \<Rightarrow> bool" where
  "in_budget i n l \<longleftrightarrow> good l \<and> i < lg_run_seq l \<and> (\<forall>r \<in> set (lg_runs l). rn_id r = i \<longrightarrow> n \<le> rn_max_attempts r)"

definition bounded_others :: "env \<Rightarrow> bool" where
  "bounded_others env \<longleftrightarrow>
     (\<forall>n l. history l (en_other env n l) \<and> (good l \<longrightarrow> good (en_other env n l)))"

lemma bounded_quiet: "bounded_others (quiet now)"
  by (simp add: bounded_others_def quiet_def)

lemma run_evolves_max: "run_evolves r s \<Longrightarrow> rn_max_attempts s = rn_max_attempts r"
  by (cases r, cases s) (auto simp: run_evolves_def)

lemma in_budget_evolves:
  assumes "in_budget i n l" and "ledger_evolves l m" and "good m"
  shows "in_budget i n m"
proof -
  have "n \<le> rn_max_attempts s" if s: "s \<in> set (lg_runs m)" "rn_id s = i" for s
  proof -
    have "rn_id s < lg_run_seq l" using assms(1) s by (simp add: in_budget_def)
    moreover from s(1) assms(2) have "lg_run_seq l \<le> rn_id s \<or> (\<exists>r \<in> set (lg_runs l). run_evolves r s)"
      by (auto simp: ledger_evolves_def descends_def)
    ultimately obtain r where r: "r \<in> set (lg_runs l)" "run_evolves r s" by auto
    with s(2) have "rn_id r = i" using run_table.ev_id by simp
    with r assms(1) run_evolves_max [OF r(2)] show ?thesis by (auto simp: in_budget_def)
  qed
  with assms show ?thesis by (auto simp: in_budget_def ledger_evolves_def)
qed

lemma others_in_budget: "bounded_others env \<Longrightarrow> in_budget i n l \<Longrightarrow> in_budget i n (en_other env k l)"
  using history_evolves in_budget_evolves unfolding bounded_others_def in_budget_def by blast

subsection \<open>Triples\<close>

definition htr :: "(ledger \<Rightarrow> bool) \<Rightarrow> ('k world, 'a) io \<Rightarrow> ('a \<Rightarrow> ledger \<Rightarrow> bool) \<Rightarrow> bool" where
  "htr P m Q \<longleftrightarrow> (\<forall>w. P (w_ledger w) \<longrightarrow>
     (case m w of (Inr a, w') \<Rightarrow> Q a (w_ledger w') | (Inl e, w') \<Rightarrow> good (w_ledger w')))"

lemma htr_bind: "htr P m Q \<Longrightarrow> (\<And>a. htr (Q a) (f a) S) \<Longrightarrow> htr P (io_bind m f) S"
  unfolding htr_def io_bind_apply by (auto split: prod.splits sum.splits) (metis (mono_tags, lifting) case_prodD sum.simps(5) sum.simps(6))+

lemma htr_return: "(\<And>l. P l \<Longrightarrow> Q a l) \<Longrightarrow> htr P (io_return a) Q"
  by (simp add: htr_def io_return_apply)

lemma htr_fail: "(\<And>l. P l \<Longrightarrow> good l) \<Longrightarrow> htr P (io_fail e) Q"
  by (simp add: htr_def io_fail_apply)

lemma htr_lift: "(\<And>l. P l \<Longrightarrow> good l) \<Longrightarrow> (\<And>a l. r = Inr a \<Longrightarrow> P l \<Longrightarrow> Q a l) \<Longrightarrow> htr P (io_lift r) Q"
  by (auto simp: htr_def io_lift_apply split: sum.splits)

lemma htr_wrap: "htr P m Q \<Longrightarrow> htr P (io_wrap msg m) Q"
  by (fastforce simp: htr_def io_wrap_apply wrap_result_def split: prod.splits sum.splits)

lemma htr_try: "htr P m Q \<Longrightarrow> htr P (io_try m) (\<lambda>r l. case r of Inl _ \<Rightarrow> good l | Inr a \<Rightarrow> Q a l)"
  by (auto simp: htr_def io_try_apply split: prod.splits sum.splits)

lemma htr_weaken: "htr P m Q \<Longrightarrow> (\<And>l. P' l \<Longrightarrow> P l) \<Longrightarrow> (\<And>a l. Q a l \<Longrightarrow> Q' a l) \<Longrightarrow> htr P' m Q'"
  by (fastforce simp: htr_def split: prod.splits sum.splits)

lemma htr_kube: "(\<And>l. P l \<Longrightarrow> good l) \<Longrightarrow> htr P (kube_call op) (\<lambda>_. P)"
  by (auto simp: htr_def kube_call_def split: prod.splits sum.splits)

lemma htr_clock: "htr P (now_call env) (\<lambda>_. P)"
  by (auto simp: htr_def now_call_def)

lemma htr_store:
  assumes stable: "\<And>k l. P l \<Longrightarrow> P (en_other env k l)" and good: "\<And>l. P l \<Longrightarrow> good l"
    and op: "\<And>now l r m. P l \<Longrightarrow> op now l = (r, m) \<Longrightarrow> good m \<and> (\<forall>a. r = Inr a \<longrightarrow> Q a m)"
  shows "htr P (store_call env op) Q"
  unfolding htr_def
proof (intro allI impI)
  fix w :: "'k world"
  assume "P (w_ledger w)"
  then have P: "P (en_other env (w_tick w) (w_ledger w))" by (rule stable)
  obtain r m where run: "op (en_now env (w_tick w)) (en_other env (w_tick w) (w_ledger w)) = (r, m)"
    by (cases "op (en_now env (w_tick w)) (en_other env (w_tick w) (w_ledger w))")
  from op [OF P run] good [OF P] run
  show "case store_call env op w of (Inl e, w') \<Rightarrow> good (w_ledger w') | (Inr a, w') \<Rightarrow> Q a (w_ledger w')"
    by (auto simp: store_call_eq Let_def split: fault.split sum.split)
qed

lemmas htr_intros = htr_return htr_fail htr_wrap htr_kube htr_clock

subsection \<open>How far one operation moves the counters\<close>

text \<open>Counters and attempt numbers stay, or become \<open>n\<close> for the run \<open>i\<close>; new runs start at zero.\<close>

definition progress :: "int \<Rightarrow> int \<Rightarrow> ledger \<Rightarrow> ledger \<Rightarrow> bool" where
  "progress i n l m \<longleftrightarrow> lg_run_seq l \<le> lg_run_seq m \<and>
     (\<forall>s \<in> set (lg_runs m).
        (\<exists>r \<in> set (lg_runs l). rn_id s = rn_id r \<and> rn_max_attempts s = rn_max_attempts r
            \<and> (rn_attempt s = rn_attempt r \<or> rn_id s = i \<and> rn_attempt s = n))
        \<or> lg_run_seq l \<le> rn_id s \<and> (rn_attempt s = 0 \<or> rn_id s = i \<and> rn_attempt s = n)) \<and>
     (\<forall>a \<in> set (lg_attempts m).
        (\<exists>b \<in> set (lg_attempts l). ta_run a = ta_run b \<and> ta_number a = ta_number b)
        \<or> ta_run a = i \<and> ta_number a = n)"

lemma progress_refl: "progress i n l l"
  by (auto simp: progress_def)

lemma progress_trans: "progress i n l m \<Longrightarrow> progress i n m k \<Longrightarrow> progress i n l k"
  unfolding progress_def by (intro conjI ballI) (force | meson order.trans)+

interpretation progress: store_guarantee "progress i n" for i n
  using progress_refl progress_trans by unfold_locales (auto simp: reflp_def intro: transpI)

lemma in_budget_progress:
  assumes w: "in_budget i n l" and p: "progress i n l m" and wf: "ledger_wf m" and ev: "ledger_evolves l m"
  shows "in_budget i n m"
proof -
  have good: "ledger_wf l" "budget_ok l" using w by (auto simp: in_budget_def good_def)
  have max: "n \<le> rn_max_attempts s" if "s \<in> set (lg_runs m)" "rn_id s = i" for s
  proof -
    from that w ev obtain r where "r \<in> set (lg_runs l)" "run_evolves r s"
      by (force simp: in_budget_def ledger_evolves_def descends_def)
    with that w run_table.ev_id run_evolves_max show ?thesis by (auto simp: in_budget_def)
  qed
  have runs: "rn_attempt s \<le> rn_max_attempts s" if s: "s \<in> set (lg_runs m)" for s
  proof -
    have "1 \<le> rn_max_attempts s" using wf s by (auto simp: ledger_wf_def runs_wf_def)
    moreover from p s have "(\<exists>r \<in> set (lg_runs l). rn_max_attempts s = rn_max_attempts r \<and> rn_attempt s = rn_attempt r)
        \<or> rn_attempt s = 0 \<or> rn_id s = i \<and> rn_attempt s = n"
      unfolding progress_def by blast
    ultimately show ?thesis using max [OF s] good(2) by (auto simp: budget_ok_def)
  qed
  have atts: "ta_number a \<le> rn_max_attempts s"
    if a: "a \<in> set (lg_attempts m)" and s: "s \<in> set (lg_runs m)" "rn_id s = ta_run a" for a s
  proof (cases "ta_run a = i \<and> ta_number a = n")
    case True
    with s max [OF s(1)] show ?thesis by simp
  next
    case False
    with p a obtain b where b: "b \<in> set (lg_attempts l)" "ta_run a = ta_run b" "ta_number a = ta_number b"
      unfolding progress_def by blast
    with good(1) have "ta_run b \<in> rn_id ` set (lg_runs l)"
      by (auto simp: ledger_wf_def attempts_wf_def run_ids_def)
    with good(1) have "ta_run b < lg_run_seq l" by (auto simp: ledger_wf_def runs_wf_def)
    with s b p obtain r where "r \<in> set (lg_runs l)" "rn_id s = rn_id r" "rn_max_attempts s = rn_max_attempts r"
      unfolding progress_def by force
    with b s good(2) show ?thesis by (auto simp: budget_ok_def)
  qed
  have "i < lg_run_seq m" using w p by (auto simp: in_budget_def progress_def)
  with runs atts max wf show ?thesis by (auto simp: in_budget_def good_def budget_ok_def)
qed

lemma progress_attempts_map:
  "(\<And>b. ta_run (f b) = ta_run b) \<Longrightarrow> (\<And>b. ta_number (f b) = ta_number b)
    \<Longrightarrow> progress i n l (l\<lparr>lg_attempts := map f (lg_attempts l)\<rparr>)"
  by (auto simp: progress_def)

lemma progress_attempts_add:
  "ta_run b = i \<Longrightarrow> ta_number b = n \<Longrightarrow> progress i n l (l\<lparr>lg_attempts := lg_attempts l @ [b], lg_att_seq := s\<rparr>)"
  by (auto simp: progress_def)

lemma progress_statements:
  "io_keeps (progress i n) (insertControlPlaneAudit t a e r k d)"
  "io_keeps (progress i n) (insertOccurrenceSQL t s rv k tr a p mx sc w)"
  "io_keeps (progress i n) (updateAttemptPhaseSQL job t ph u v b now)"
  "io_keeps (progress i n) (updateRunPhaseSQL i t p n now)"
  "io_keeps (progress i n) (advanceRunForAttemptSQL p n now i t)"
proof -
  show "io_keeps (progress i n) (insertControlPlaneAudit t a e r k d)"
    by (auto simp: io_keeps_def progress_def insertControlPlaneAudit_def)
  show "io_keeps (progress i n) (insertOccurrenceSQL t s rv k tr a p mx sc w)"
    by (auto simp: io_keeps_def progress_def insertOccurrenceSQL_def)
  show "io_keeps (progress i n) (updateAttemptPhaseSQL job t ph u v b now)"
    unfolding io_keeps_def updateAttemptPhaseSQL_def
    by (auto intro!: progress_attempts_map progress_refl split: option.split)
  show "io_keeps (progress i n) (updateRunPhaseSQL i t p n now)"
    by (fastforce simp: io_keeps_def progress_def updateRunPhaseSQL_def Let_def)
  show "io_keeps (progress i n) (advanceRunForAttemptSQL p n now i t)"
    by (fastforce simp: io_keeps_def progress_def advanceRunForAttemptSQL_def Let_def)
qed

lemma progress_insertAttempt: "io_keeps (progress i (at_Number a)) (insertAttemptSQL t i a)"
  unfolding io_keeps_def insertAttemptSQL_def
  by (auto intro!: progress_attempts_map progress_attempts_add progress_refl split: option.split)

lemmas progress_intros = progress.keeps_transaction progress.keeps_bind progress.keeps_pure
  progress.keeps_get progress_statements progress_insertAttempt

lemma progress_UpdateRunPhase: "io_keeps (progress i n) (UpdateRunPhase now t i p n)"
  unfolding UpdateRunPhase_def by (auto intro!: progress_intros split: option.splits)

lemma progress_CreateAttempt: "io_keeps (progress i (at_Number a)) (CreateAttemptForTenant now t i a p)"
  unfolding CreateAttemptForTenant_def by (auto intro!: progress_intros split: option.splits)

lemma progress_UpdateAttemptPhase: "io_keeps (progress i n) (UpdateAttemptPhase now t j p u v)"
  unfolding UpdateAttemptPhase_def by (auto intro!: progress_intros split: option.splits)

lemma progress_CreateOccurrence: "io_keeps (progress i n) (CreateOccurrenceForTenant t r m a)"
  unfolding CreateOccurrenceForTenant_def Let_def by (auto intro!: progress_intros split: option.splits)

lemma in_budget_op:
  assumes "io_keeps (progress i n) op" and "io_keeps wf_kept op" and "io_keeps ledger_evolves op"
    and "in_budget i n l" and "op l = (r, m)"
  shows "in_budget i n m"
proof (rule in_budget_progress [OF assms(4)])
  show "progress i n l m" "ledger_evolves l m" using assms by (auto dest: io_keepsD')
  have "wf_kept l m" using assms(2,5) by (rule io_keepsD')
  then show "ledger_wf m" using assms(4) by (simp add: in_budget_def good_def)
qed

subsection \<open>The store calls of the handlers\<close>

text \<open>What a read run tells: its counter is within its maximum, which is the row's for good.\<close>

definition knows :: "StoredRun \<Rightarrow> ledger \<Rightarrow> bool" where
  "knows s l \<longleftrightarrow> in_budget (sr_ID s) (sr_MaxAttempts s) l \<and> sr_Attempt s \<le> sr_MaxAttempts s
     \<and> 0 \<le> sr_MaxAttempts s"

lemma knows_good: "knows s l \<Longrightarrow> good l"
  by (simp add: knows_def in_budget_def)

lemma in_budget_good: "in_budget i n l \<Longrightarrow> good l"
  by (simp add: in_budget_def)

lemma in_budget_mono: "in_budget i n l \<Longrightarrow> k \<le> n \<Longrightarrow> in_budget i k l"
  by (fastforce simp: in_budget_def)

lemma knows_row:
  assumes "good l" and "row \<in> set (lg_runs l)"
  shows "knows (stored_of row) l"
proof -
  have "r = row" if "r \<in> set (lg_runs l)" "rn_id r = rn_id row" for r
    using assms that by (auto simp: good_def ledger_wf_def runs_wf_def intro: distinct_map_eq)
  moreover have "1 \<le> rn_max_attempts row"
    using assms by (auto simp: good_def ledger_wf_def runs_wf_def)
  ultimately show ?thesis using assms
    by (auto simp: knows_def in_budget_def stored_of_def StoredRun_zero_def good_def budget_ok_def ledger_wf_def runs_wf_def)
qed

lemma scanStoredRun_SomeD: "scanStoredRun t uid k l = Some s \<Longrightarrow>
    \<exists>row \<in> set (lg_runs l). s = stored_of row \<and> rn_source_uid row = uid \<and> rn_occurrence_key row = k \<and> rn_tenant row = t"
  by (auto simp: scanStoredRun_def stored_of_def dest!: find_SomeD)

lemma CreateOccurrence_row:
  assumes "CreateOccurrenceForTenant t run n a l = (Inr (s, c), m)"
  shows "\<exists>row \<in> set (lg_runs m). s = stored_of row \<and> rn_source_uid row = jr_SourceUID run
    \<and> rn_occurrence_key row = jr_OccurrenceKey run \<and> rn_tenant row = t"
proof -
  from assms obtain l1 where "scanStoredRun t (jr_SourceUID run) (jr_OccurrenceKey run) l1 = Some s"
      and "lg_runs m = lg_runs l1"
    unfolding CreateOccurrenceForTenant_def Let_def
    by (auto simp: io_return_apply io_fail_apply io_lift_apply io_get_def insertControlPlaneAudit_def
        dest!: io_bind_InrD transaction_InrD split: if_splits option.splits)
  with scanStoredRun_SomeD show ?thesis by metis
qed

lemma UpdateAttemptPhase_row:
  assumes "UpdateAttemptPhase now t j p u v l = (Inr (i, n), m)"
  shows "\<exists>a \<in> set (lg_attempts l). ta_run a = i \<and> ta_number a = n"
proof -
  from assms have "\<not> (j = [] \<or> p = [])" by (auto simp: UpdateAttemptPhase_def io_fail_apply split: if_splits)
  with assms have "WithTenantTransaction t (io_bind (updateAttemptPhaseSQL j t p u v (Terminal (phase_of p)) now)
      (\<lambda>found. case found of None \<Rightarrow> io_fail ErrNoAttempt
         | Some (prior, owns) \<Rightarrow> io_bind (io_get (run_by_id t (ta_run prior))) (\<lambda>run.
             case run of None \<Rightarrow> io_fail (DbError ''converting NULL to string'')
             | Some row \<Rightarrow>
                 if \<not> owns then io_fail ErrAttemptOwnership
                 else if phase_string (ta_phase prior) = p then io_return (ta_run prior, ta_number prior)
                 else io_bind (insertControlPlaneAudit t (rn_actor row)
                      auditEventAttemptStatusChanged auditResourceAttempt (itoa (ta_id prior))
                      [(''run_id'', JInt (ta_run prior)), (''attempt_number'', JInt (ta_number prior)),
                       (''from_phase'', JStr (phase_string (ta_phase prior))), (''to_phase'', JStr p)])
                     (\<lambda>_. io_return (ta_run prior, ta_number prior))))) l = (Inr (i, n), m)"
    by (simp add: UpdateAttemptPhase_def)
  from transaction_InrD [OF this] obtain found l1 where
      sql: "updateAttemptPhaseSQL j t p u v (Terminal (phase_of p)) now l = (Inr found, l1)"
      and "\<exists>prior own. found = Some (prior, own) \<and> i = ta_run prior \<and> n = ta_number prior"
    by (elim conjE, drule_tac io_bind_InrD)
       (auto simp: io_simps io_get_def split: option.splits if_splits sum.splits prod.splits)
  then show ?thesis
    by (auto simp: updateAttemptPhaseSQL_def dest!: find_SomeD split: option.splits if_splits)
qed

lemma knows_phase [simp]: "knows (s\<lparr>sr_Phase := p\<rparr>) = knows s"
  by (simp add: knows_def fun_eq_iff)

lemma knows_evolves: "knows s l \<Longrightarrow> ledger_evolves l m \<Longrightarrow> good m \<Longrightarrow> knows s m"
  by (auto simp: knows_def intro: in_budget_evolves)

lemma knows_op:
  assumes "io_keeps (progress (sr_ID s) n) op" and "io_keeps wf_kept op" and "io_keeps ledger_evolves op"
    and "n \<le> sr_MaxAttempts s" and "knows s l" and "op l = (r, m)"
  shows "knows s m"
proof -
  have "in_budget (sr_ID s) n l" using assms(4,5) by (auto simp: knows_def intro: in_budget_mono)
  from in_budget_op [OF assms(1-3) this assms(6)] have "good m" by (simp add: in_budget_def)
  moreover have "ledger_evolves l m" using assms(3,6) by (rule io_keepsD')
  ultimately show ?thesis using knows_evolves [OF assms(5)] by simp
qed

text \<open>The environments the argument covers: other writers respect the budget too.\<close>

locale bounded_environment =
  fixes env :: env
  assumes others: "bounded_others env"
begin

lemma others_good: "good l \<Longrightarrow> good (en_other env k l)"
  using others by (simp add: bounded_others_def)

lemma others_knows: "knows s l \<Longrightarrow> knows s (en_other env k l)"
  using others_in_budget [OF others] by (auto simp: knows_def)

lemma call_UpdateRunPhase:
  assumes n: "n \<le> sr_MaxAttempts s"
  shows "htr (knows s) (store_call env (\<lambda>now. UpdateRunPhase now t (sr_ID s) p n)) (\<lambda>_. knows s)"
proof (rule htr_store)
  fix now l r m
  assume k: "knows s l" and run: "UpdateRunPhase now t (sr_ID s) p n l = (r, m)"
  from knows_op [OF progress_UpdateRunPhase wf_UpdateRunPhase evolves_UpdateRunPhase n k run]
  show "good m \<and> (\<forall>a. r = Inr a \<longrightarrow> knows s m)" by (simp add: knows_good)
qed (auto intro: others_knows knows_good)

lemma call_CreateAttempt:
  assumes n: "at_Number a \<le> sr_MaxAttempts s"
  shows "htr (knows s) (store_call env (\<lambda>now. CreateAttemptForTenant now t (sr_ID s) a p)) (\<lambda>_. knows s)"
proof (rule htr_store)
  fix now l r m
  assume k: "knows s l" and run: "CreateAttemptForTenant now t (sr_ID s) a p l = (r, m)"
  from knows_op [OF progress_CreateAttempt wf_CreateAttempt evolves_CreateAttempt n k run]
  show "good m \<and> (\<forall>a. r = Inr a \<longrightarrow> knows s m)" by (simp add: knows_good)
qed (auto intro: others_knows knows_good)

lemma call_UpdateAttemptPhase:
  "htr (knows s) (store_call env (\<lambda>now. UpdateAttemptPhase now t j p u v)) (\<lambda>_. knows s)"
proof (rule htr_store)
  fix now l r m
  assume k: "knows s l" and run: "UpdateAttemptPhase now t j p u v l = (r, m)"
  from knows_op [OF progress_UpdateAttemptPhase wf_UpdateAttemptPhase evolves_UpdateAttemptPhase order_refl k run]
  show "good m \<and> (\<forall>a. r = Inr a \<longrightarrow> knows s m)" by (simp add: knows_good)
qed (auto intro: others_knows knows_good)

text \<open>Reads, and the operations that start from no knowledge about a run.\<close>

lemma read_unchanged:
  "RevisionByID t i l = (r, m) \<Longrightarrow> m = l" "RunByOccurrence t u k l = (r', m) \<Longrightarrow> m = l"
  "TerminalOutcome_read t i l = (r'', m) \<Longrightarrow> m = l"
  unfolding RevisionByID_def RunByOccurrence_def TerminalOutcome_read_def WithTenantTransaction_eq WithTenant_def
  by (auto simp: io_simps io_get_def split: prod.splits sum.splits option.splits if_splits)

lemma call_RevisionByID: "(\<And>l. P l \<Longrightarrow> good l) \<Longrightarrow> (\<And>k l. P l \<Longrightarrow> P (en_other env k l))
    \<Longrightarrow> htr P (store_call env (\<lambda>_. RevisionByID t i)) (\<lambda>_. P)"
  by (rule htr_store) (auto dest: read_unchanged)

lemma call_TerminalOutcome: "(\<And>l. P l \<Longrightarrow> good l) \<Longrightarrow> (\<And>k l. P l \<Longrightarrow> P (en_other env k l))
    \<Longrightarrow> htr P (store_call env (\<lambda>_. TerminalOutcome_read t i)) (\<lambda>_. P)"
  by (rule htr_store) (auto dest: read_unchanged)

lemma call_RunByOccurrence:
  "htr good (store_call env (\<lambda>_. RunByOccurrence t u k))
     (\<lambda>r l. case r of None \<Rightarrow> good l | Some s \<Rightarrow> knows s l)"
proof (rule htr_store)
  fix now l r m
  assume good: "good l" and run: "RunByOccurrence t u k l = (r, m)"
  then have "m = l" by (auto dest: read_unchanged)
  moreover have "knows s l" if "r = Inr (Some s)" for s
  proof -
    from run that have "scanStoredRun t u k l = Some s"
      unfolding RunByOccurrence_def by (auto simp: io_get_def dest!: transaction_InrD)
    with scanStoredRun_SomeD knows_row good show ?thesis by metis
  qed
  ultimately show "good m \<and> (\<forall>a. r = Inr a \<longrightarrow> (case a of None \<Rightarrow> good m | Some s \<Rightarrow> knows s m))"
    using good by (auto split: option.splits)
qed (auto intro: others_good)

lemma good_op:
  assumes "\<And>i n. io_keeps (progress i n) op" and "io_keeps wf_kept op" and "io_keeps ledger_evolves op"
    and "good l" and "op l = (r, m)"
  shows "good m"
proof -
  have "in_budget (lg_run_seq l - 1) 0 l"
    using assms(4) by (auto simp: in_budget_def good_def ledger_wf_def runs_wf_def)
  from in_budget_op [OF assms(1-3) this assms(5)] show ?thesis by (simp add: in_budget_def)
qed

lemma call_CreateOccurrence:
  "htr good (store_call env (\<lambda>_. CreateOccurrenceForTenant t run n a)) (\<lambda>(s, _). knows s)"
proof (rule htr_store)
  fix now l r m
  assume good: "good l" and run: "CreateOccurrenceForTenant t run n a l = (r, m)"
  have "good m"
    using good_op [OF progress_CreateOccurrence wf_CreateOccurrence evolves_CreateOccurrence good run] .
  moreover have "knows s m" if "r = Inr (s, c)" for s c
    using CreateOccurrence_row [OF run [unfolded that]] knows_row [OF \<open>good m\<close>] by blast
  ultimately show "good m \<and> (\<forall>a. r = Inr a \<longrightarrow> (case a of (s, _) \<Rightarrow> knows s) m)" by (auto split: prod.splits)
qed (auto intro: others_good)

lemma call_UpdateAttemptPhase_observed:
  "htr good (store_call env (\<lambda>now. UpdateAttemptPhase now t j p u v)) (\<lambda>(i, n). in_budget i n)"
proof (rule htr_store)
  fix now l r m
  assume good: "good l" and run: "UpdateAttemptPhase now t j p u v l = (r, m)"
  have "good m"
    using good_op [OF progress_UpdateAttemptPhase wf_UpdateAttemptPhase evolves_UpdateAttemptPhase good run] .
  moreover have "in_budget i n m" if ok: "r = Inr (i, n)" for i n
  proof -
    from UpdateAttemptPhase_row [OF run [unfolded ok]] obtain a where
      a: "a \<in> set (lg_attempts l)" "ta_run a = i" "ta_number a = n" by blast
    with good have "i \<in> rn_id ` set (lg_runs l)"
      by (auto simp: good_def ledger_wf_def attempts_wf_def run_ids_def)
    with good a have "in_budget i n l" by (auto simp: in_budget_def good_def budget_ok_def ledger_wf_def runs_wf_def)
    moreover have "ledger_evolves l m" using io_keepsD' [OF evolves_UpdateAttemptPhase run] .
    ultimately show ?thesis using \<open>good m\<close> by (rule in_budget_evolves)
  qed
  ultimately show "good m \<and> (\<forall>a. r = Inr a \<longrightarrow> (case a of (i, n) \<Rightarrow> in_budget i n) m)" by (auto split: prod.splits)
qed (auto intro: others_good)

lemma call_UpdateRunPhase_observed:
  "htr (in_budget i n) (store_call env (\<lambda>now. UpdateRunPhase now t i p n)) (\<lambda>_. good)"
proof (rule htr_store)
  fix now l r m
  assume k: "in_budget i n l" and run: "UpdateRunPhase now t i p n l = (r, m)"
  from in_budget_op [OF progress_UpdateRunPhase wf_UpdateRunPhase evolves_UpdateRunPhase k run]
  show "good m \<and> (\<forall>a. r = Inr a \<longrightarrow> good m)" by (simp add: in_budget_def)
qed (auto intro: others_in_budget [OF others] in_budget_good)

end

interpretation quiet_environment: bounded_environment "quiet now" for now
  by unfold_locales (rule bounded_quiet)

end
