(* ===== verification/Reconcile_Safety.thy ===== *)
theory Reconcile_Safety
  imports Reconcile_Budget
begin

section \<open>Safety of the run reconciliation\<close>

text \<open>
  The triples of the handlers, and what a reconcile does in the cases that matter: a
  finished run, a live attempt, a forged object, a cancellation.
\<close>

context bounded_environment
begin

lemma patch_htr: "(\<And>l. P l \<Longrightarrow> good l) \<Longrightarrow> htr P (patchRunStatus rt obj s) (\<lambda>_. good)"
  unfolding patchRunStatus_def patchStatus_def
  by (rule htr_wrap, rule htr_weaken, rule htr_kube) auto

lemma outcome_htr: "(\<And>l. P l \<Longrightarrow> good l) \<Longrightarrow> htr P (recordOutcome rt t i p c) (\<lambda>_. P)"
  unfolding recordOutcome_def by (auto intro!: htr_return htr_kube split: option.split)

lemma function_outcome_htr: "htr good (recordFunctionOutcome x env rt t i p c) (\<lambda>_. good)"
  unfolding recordFunctionOutcome_def
proof (split option.split, intro conjI impI allI)
  show "htr good (io_return ()) (\<lambda>_. good)" by (auto intro: htr_return)
next
  fix rec
  show "htr good (if \<not> c then io_return () else case ReadModelStatus p of None \<Rightarrow> io_return ()
      | Some status \<Rightarrow> io_bind (io_try (store_call env (\<lambda>_. TerminalOutcome_read t i))) (\<lambda>read.
          case read of Inl _ \<Rightarrow> io_return () | Inr outcome \<Rightarrow>
            case IDFromSourceUID (to_SourceUID outcome) of None \<Rightarrow> io_return ()
            | Some functionID \<Rightarrow> io_bind (now_call env) (\<lambda>now. io_bind (io_try (kube_call (rec t
          \<lparr>cp_RunID = functionRunID (ex_sha x) (to_OccurrenceKey outcome), cp_FunctionID = functionID,
           cp_Status = status, cp_TriggeredAt = functionTriggeredAt outcome now,
           cp_StartedAt = to_StartedAt outcome, cp_FinishedAt = to_CompletedAt outcome,
           cp_DurationMs =
             (if \<not> time_IsZero (to_StartedAt outcome) \<and> \<not> time_IsZero (to_CompletedAt outcome)
              then milliseconds (time_Sub (to_CompletedAt outcome) (to_StartedAt outcome)) else 0)\<rparr>)))
        (\<lambda>_. io_return ())))) (\<lambda>_. good)"
    by (auto intro!: htr_return htr_bind [OF htr_try [OF call_TerminalOutcome]] htr_bind [OF htr_clock]
        htr_bind [OF htr_try [OF htr_kube]] others_good split: option.split sum.splits)
qed

lemma knows_to_good: "htr good m Q \<Longrightarrow> htr (knows s) m Q"
  by (rule htr_weaken [where P = good and Q = Q]) (auto intro: knows_good)

lemma knows_RevisionByID: "htr (knows s) (store_call env (\<lambda>_. RevisionByID t i)) (\<lambda>_. knows s)"
  by (rule call_RevisionByID) (auto intro: knows_good others_knows)

lemmas handler_htr = htr_return htr_fail patch_htr function_outcome_htr outcome_htr knows_good

lemma exhaust_htr: "htr (knows s) (exhaust_budget x env rt t obj s) (\<lambda>_. good)"
proof -
  have "htr (knows s) (io_bind (store_call env (\<lambda>now. UpdateRunPhase now t (sr_ID s) p (sr_Attempt s))) (\<lambda>c.
      io_bind (recordOutcome rt t (sr_ID s) p c) (\<lambda>_.
      io_bind (recordFunctionOutcome x env rt t (sr_ID s) p c) (\<lambda>_. patchRunStatus rt obj (s\<lparr>sr_Phase := p\<rparr>))))) (\<lambda>_. good)"
    if "sr_Attempt s \<le> sr_MaxAttempts s" for p
    by (rule htr_bind [OF call_UpdateRunPhase [OF that]], rule htr_bind [OF outcome_htr], rule knows_good,
        assumption, rule htr_bind [OF knows_to_good [OF function_outcome_htr]], rule patch_htr)
  then have "sr_Attempt s \<le> sr_MaxAttempts s \<Longrightarrow> htr (knows s) (exhaust_budget x env rt t obj s) (\<lambda>_. good)"
    unfolding exhaust_budget_def by (auto intro!: htr_return intro: knows_good split: sum.split)
  then show ?thesis by (cases "sr_Attempt s \<le> sr_MaxAttempts s") (auto simp: knows_def htr_def)
qed

lemma start_htr:
  assumes "NextAttempt s \<le> sr_MaxAttempts s"
  shows "htr (knows s) (start_attempt x env rt t obj spec s) (\<lambda>_. good)"
  unfolding start_attempt_def Let_def
  apply (rule htr_bind [OF knows_RevisionByID])
  apply (rule htr_bind [where Q = "\<lambda>_. knows s"])
   apply (rule htr_lift; simp add: knows_good)
  apply (rule htr_bind [where Q = "\<lambda>_. knows s"])
   apply (rule htr_wrap, rule htr_kube, rule knows_good, assumption)
  apply (rule htr_bind [where Q = "\<lambda>_. knows s"])
   apply (rule htr_lift; simp add: knows_good)
  apply (auto intro!: htr_fail knows_good)
  apply (rule htr_bind [OF htr_clock])
  apply (rule htr_bind [OF htr_try [OF call_CreateAttempt]])
   apply (use assms in simp)
  apply (auto intro!: htr_return htr_fail patch_htr intro: knows_good split: sum.split)
  done

lemma cancellation_htr: "htr (knows s) (reconcileCancellation x env rt t obj s) (\<lambda>_. good)"
proof (cases "sr_Attempt s \<le> sr_MaxAttempts s \<and> 0 \<le> sr_MaxAttempts s")
  case True
  have finish: "htr (knows s') (io_bind (store_call env (\<lambda>now. UpdateRunPhase now t (sr_ID s') p n)) (\<lambda>c.
      io_bind (recordFunctionOutcome x env rt t (sr_ID s') p c) (\<lambda>_. patchRunStatus rt obj (s'\<lparr>sr_Phase := q\<rparr>))))
      (\<lambda>_. good)" if "n \<le> sr_MaxAttempts s'" for s' p q n
    by (rule htr_bind [OF call_UpdateRunPhase [OF that]],
        rule htr_bind [OF knows_to_good [OF function_outcome_htr]], rule patch_htr)
  have tail: "htr (knows s') (let jobName = JobName (ex_sha x) (name_identity (om_Name obj) (sr_Attempt s')) in
        io_bind (io_wrap ''delete kubernetes job'' (kube_call (Adapter_Delete (rt_Client rt) (om_Namespace obj) jobName))) (\<lambda>_.
        io_bind (io_wrap ''observe kubernetes job'' (kube_call (Adapter_Get (rt_Client rt) (om_Namespace obj) jobName))) (\<lambda>job.
        case job of
          Some job \<Rightarrow>
            (case kj_DeletionTimestamp job of
               None \<Rightarrow> patchRunStatus rt obj s'
             | Some deleted \<Rightarrow>
                 io_bind (now_call env) (\<lambda>now.
                 if time_Sub now deleted > cancelConfirmTimeout then
                   io_bind (store_call env (\<lambda>now. UpdateRunPhase now t (sr_ID s') CancelUnknown (sr_Attempt s')))
                     (\<lambda>_. patchRunStatus rt obj (s'\<lparr>sr_Phase := CancelUnknown\<rparr>))
                 else patchRunStatus rt obj s'))
        | None \<Rightarrow>
            io_bind (io_wrap ''record canceled attempt''
               (store_call env (\<lambda>now. UpdateAttemptPhase now t jobName (phase_string Canceled) [] []))) (\<lambda>_.
            io_bind (store_call env (\<lambda>now. UpdateRunPhase now t (sr_ID s') Canceled (sr_Attempt s'))) (\<lambda>changed.
            io_bind (recordFunctionOutcome x env rt t (sr_ID s') Canceled changed) (\<lambda>_.
            patchRunStatus rt obj (s'\<lparr>sr_Phase := Canceled\<rparr>))))))) (\<lambda>_. good)"
    if n: "sr_Attempt s' \<le> sr_MaxAttempts s'" for s'
    unfolding Let_def
    apply (rule htr_bind [where Q = "\<lambda>_. knows s'"])
     apply (rule htr_wrap, rule htr_kube, rule knows_good, assumption)
    apply (rule htr_bind [where Q = "\<lambda>_. knows s'"])
     apply (rule htr_wrap, rule htr_kube, rule knows_good, assumption)
    apply (auto intro!: htr_bind [OF htr_clock] htr_bind [OF call_UpdateRunPhase [OF n]] patch_htr
        htr_bind [OF htr_wrap [OF call_UpdateAttemptPhase]] finish n
        intro: knows_good split: option.split)
    done
  have request: "htr (knows s) (if sr_Phase s \<noteq> CancelRequested then
       io_bind (now_call env) (\<lambda>now.
       io_bind (io_lift (wrap_result ''request cancel''
         (RequestCancel (JobRun_zero\<lparr>jr_Phase := sr_Phase s\<rparr>) now))) (\<lambda>requested.
       io_bind (store_call env (\<lambda>now. UpdateRunPhase now t (sr_ID s) (jr_Phase requested) (sr_Attempt s)))
         (\<lambda>_. io_return (s\<lparr>sr_Phase := jr_Phase requested\<rparr>))))
     else io_return s) (\<lambda>s' l. knows s l \<and> (\<exists>p. s' = s\<lparr>sr_Phase := p\<rparr>))"
  proof -
    have same: "\<exists>p. s = s\<lparr>sr_Phase := p\<rparr>" by (rule exI [of _ "sr_Phase s"]) simp
    show ?thesis using True same
      apply (auto intro!: htr_return htr_bind [OF htr_clock])
      apply (rule htr_bind [where Q = "\<lambda>_. knows s"])
       apply (rule htr_lift; simp add: knows_good)
      apply (rule htr_bind [OF call_UpdateRunPhase])
       apply (auto intro!: htr_return)
      done
  qed
  have rest: "htr (\<lambda>l. knows s l \<and> (\<exists>p. s' = s\<lparr>sr_Phase := p\<rparr>)) m Q" if "\<And>p. s' = s\<lparr>sr_Phase := p\<rparr> \<Longrightarrow> htr (knows s') m Q"
    for s' and m :: "('x world, unit) io" and Q
    using that by (fastforce simp: htr_def)
  show ?thesis
  proof (cases "sr_Attempt s = 0")
    case True': True
    show ?thesis unfolding reconcileCancellation_def using True True' by (simp add: finish)
  next
    case False
    show ?thesis unfolding reconcileCancellation_def if_not_P [OF False]
      by (rule htr_bind [OF request], rule rest, rule tail) (use True in auto)
  qed
next
  case False
  then show ?thesis by (auto simp: htr_def knows_def)
qed

lemma materialize_htr:
  "htr good (materializeManualRun x env t spec) (\<lambda>r l. case r of None \<Rightarrow> good l | Some s \<Rightarrow> knows s l)"
proof (cases "js_Trigger spec \<noteq> Manual \<and> js_Trigger spec \<noteq> Function")
  case True
  then show ?thesis by (simp add: materializeManualRun_def htr_return)
next
  case False
  show ?thesis unfolding materializeManualRun_def if_not_P [OF False]
    apply (rule htr_bind [OF htr_wrap [OF call_RevisionByID]])
      apply assumption
     apply (rule others_good, assumption)
    apply (auto intro!: htr_fail)
    apply (rule htr_bind [where Q = "\<lambda>_. good"])
     apply (rule htr_lift; simp)
    apply (rule htr_bind [OF htr_wrap [OF call_CreateOccurrence]])
    apply (auto intro!: htr_return)
    done
qed

lemma drive_htr: "htr (knows s) (drive_run x env rt t obj spec s) (\<lambda>_. good)"
  unfolding drive_run_def
  by (auto intro!: patch_htr cancellation_htr exhaust_htr start_htr intro: knows_good
      simp: CanStartAttempt_def)

lemma ReconcileJobRun_htr: "htr good (ReconcileJobRun x env rt obj) (\<lambda>_. good)"
proof -
  have found: "htr (\<lambda>l. case r of None \<Rightarrow> good l | Some s \<Rightarrow> knows s l)
      (case r of Some s \<Rightarrow> io_return (Some s) | None \<Rightarrow> materializeManualRun x env t spec)
      (\<lambda>r l. case r of None \<Rightarrow> good l | Some s \<Rightarrow> knows s l)" for r t spec
    by (cases r) (auto intro!: htr_return materialize_htr)
  have driven: "htr (\<lambda>l. case r of None \<Rightarrow> good l | Some s \<Rightarrow> knows s l)
      (case r of None \<Rightarrow> io_return () | Some s \<Rightarrow> drive_run x env rt t m spec s) (\<lambda>_. good)" for r t m spec
    by (cases r) (auto intro!: htr_return drive_htr)
  have "htr good (io_lift r) (\<lambda>_. good)" for r :: "'b result"
    by (rule htr_lift)
  note lift = htr_bind [OF this]
  have lift': "htr good (io_lift (Resolve (rt_Tenants rt) (cr_Meta obj))) (\<lambda>_. good)"
    by (rule htr_lift)
  show ?thesis unfolding ReconcileJobRun_def
    by (rule lift, rule htr_bind [OF lift'], rule htr_bind [OF call_RunByOccurrence],
        rule htr_bind [OF found], rule driven)
qed

lemma ReconcileJob_htr: "htr good (ReconcileJob x env rt job) (\<lambda>_. good)"
proof -
  have hooks: "htr good (io_bind (recordOutcome rt t i p c) (\<lambda>_. recordFunctionOutcome x env rt t i p c)) (\<lambda>_. good)"
    for t i p c
    by (rule htr_bind [OF outcome_htr]) (auto intro: function_outcome_htr)
  have updated: "htr (in_budget i n) (io_bind (io_try (store_call env (\<lambda>now. UpdateRunPhase now t i p n))) (\<lambda>r.
      case r of Inl e \<Rightarrow> if err_is e ErrRunTerminal then io_return () else io_fail e
      | Inr c \<Rightarrow> io_bind (recordOutcome rt t i p c) (\<lambda>_. recordFunctionOutcome x env rt t i p c))) (\<lambda>_. good)"
    for t i p n
    by (rule htr_bind [OF htr_try [OF call_UpdateRunPhase_observed]])
       (auto intro!: htr_return htr_fail hooks split: sum.split)
  have resolved: "htr good (io_lift (Resolve (rt_Tenants rt) (job_meta job))) (\<lambda>_. good)"
    by (rule htr_lift)
  show ?thesis unfolding ReconcileJob_def Let_def
    by (auto intro!: htr_return htr_fail updated htr_bind [OF resolved]
        htr_bind [OF htr_try [OF call_UpdateAttemptPhase_observed]] split: sum.split)
qed

end

lemma htr_run:
  assumes "htr good m (\<lambda>_. good)" and "good (w_ledger w)"
  shows "good (w_ledger (snd (m w)))"
  using assms unfolding htr_def by (cases "m w") (auto split: sum.splits dest!: spec [of _ w])

subsection \<open>Runs with nothing to start\<close>

lemma ReconcileJobRun_found:
  assumes "jobRunSpecFromUnstructured obj = Inr spec" and "Resolve (rt_Tenants rt) (cr_Meta obj) = Inr t"
    and "store_call env (\<lambda>_. RunByOccurrence t (ref_UID (js_ScheduledJobRef spec)) (js_OccurrenceKey spec)) w = (Inr (Some s), v)"
  shows "ReconcileJobRun x env rt obj w = drive_run x env rt t (cr_Meta obj) spec s v"
  using assms by (simp add: ReconcileJobRun_def io_bind_apply [of "store_call env op" for op])

lemma ReconcileJobRun_unknown:
  assumes "jobRunSpecFromUnstructured obj = Inr spec" and "Resolve (rt_Tenants rt) (cr_Meta obj) = Inr t"
    and "store_call env (\<lambda>_. RunByOccurrence t (ref_UID (js_ScheduledJobRef spec)) (js_OccurrenceKey spec)) w = (Inr None, v)"
    and "js_Trigger spec \<notin> {Manual, Function}"
  shows "ReconcileJobRun x env rt obj w = (Inr (), v)"
  using assms
  by (simp add: ReconcileJobRun_def io_bind_apply [of "store_call env op" for op] materializeManualRun_def io_return_apply)

lemma RunByOccurrence_call_frame:
  assumes "store_call env (\<lambda>_. RunByOccurrence t u k) w = (r, v)"
  shows "w_ledger v = en_other env (w_tick w) (w_ledger w)" and "w_cluster v = w_cluster w"
proof -
  have read: "snd (RunByOccurrence t u k l) = l" for l
    unfolding RunByOccurrence_def WithTenantTransaction_eq WithTenant_def
    by (auto simp: io_simps io_get_def split: prod.splits sum.splits option.splits if_splits)
  have "v = snd (store_call env (\<lambda>_. RunByOccurrence t u k) w)" using assms by simp
  with read show "w_ledger v = en_other env (w_tick w) (w_ledger w)" "w_cluster v = w_cluster w"
    by (auto simp: store_call_eq Let_def split: fault.split prod.split) (metis snd_conv)+
qed

subsection \<open>A cancellation waits for the Job to be gone\<close>

definition uncanceled :: "ledger \<Rightarrow> ledger \<Rightarrow> bool" where
  "uncanceled l m \<longleftrightarrow> (\<forall>s \<in> set (lg_runs m). rn_phase s = Canceled \<longrightarrow>
     (\<exists>r \<in> set (lg_runs l). rn_id r = rn_id s \<and> rn_phase r = Canceled))"

interpretation uncanceled: store_guarantee uncanceled
  by unfold_locales (auto simp: reflp_def uncanceled_def intro!: transpI, metis)

lemma uncanceled_runs: "lg_runs m = lg_runs l \<Longrightarrow> uncanceled l m"
  by (auto simp: uncanceled_def)

lemma uncanceled_statements:
  "p \<noteq> Canceled \<Longrightarrow> io_keeps uncanceled (updateRunPhaseSQL i t p n now)"
  "io_keeps uncanceled (insertControlPlaneAudit t a e rs k d)"
  by (auto simp: io_keeps_def uncanceled_def updateRunPhaseSQL_def insertControlPlaneAudit_def Let_def)

lemma uncanceled_UpdateRunPhase: "p \<noteq> Canceled \<Longrightarrow> io_keeps uncanceled (UpdateRunPhase now t i p n)"
  unfolding UpdateRunPhase_def
  by (auto intro!: uncanceled.keeps_transaction uncanceled.keeps_bind uncanceled.keeps_pure
      uncanceled.keeps_get uncanceled_statements split: option.splits)

lemma io_keeps_bind_on:
  assumes R: "transp R" "io_keeps R m" and f: "\<And>a w w'. m w = (Inr a, w') \<Longrightarrow> io_keeps R (f a)"
  shows "io_keeps R (io_bind m f)"
  unfolding io_keeps_def
proof
  fix w
  obtain r w' where m: "m w = (r, w')" by (cases "m w")
  with R(2) have step: "R w w'" by (rule io_keepsD')
  show "R w (snd (io_bind m f w))"
  proof (cases r)
    case (Inr a)
    with m f have "R w' (snd (f a w'))" by (blast intro: io_keepsD)
    with step R(1) have "R w (snd (f a w'))" by (blast dest: transpD)
    with m Inr show ?thesis by (simp add: io_bind_apply)
  qed (use m step in \<open>simp add: io_bind_apply\<close>)
qed

text \<open>The environments of a cancellation: no other writer cancels a run meanwhile.\<close>

locale cancel_environment =
  fixes env :: env
  assumes others_uncanceled: "uncanceled l (en_other env n l)"

sublocale cancel_environment \<subseteq> canceling: process uncanceled env
  using uncanceled.R_refl uncanceled.R_trans others_uncanceled by unfold_locales

context cancel_environment
begin

lemma patch_uncanceled: "io_keeps (on_ledger uncanceled) (patchRunStatus rt obj s)"
  unfolding patchRunStatus_def patchStatus_def by (intro canceling.intros)

lemma write_uncanceled:
  "p \<noteq> Canceled \<Longrightarrow> io_keeps (on_ledger uncanceled) (store_call env (\<lambda>now. UpdateRunPhase now t i p n))"
  by (intro canceling.store uncanceled_UpdateRunPhase)

lemma request_uncanceled:
  "io_keeps (on_ledger uncanceled)
     (io_bind (io_lift (wrap_result msg (RequestCancel run now))) (\<lambda>requested.
      io_bind (store_call env (\<lambda>now. UpdateRunPhase now t i (jr_Phase requested) n))
         (\<lambda>_. io_return (s\<lparr>sr_Phase := jr_Phase requested\<rparr>))))"
  by (auto simp: RequestCancel_def intro!: canceling.bind canceling.pure write_uncanceled)

lemma cancellation_uncanceled:
  assumes attempt: "sr_Attempt s \<noteq> 0"
    and present: "\<And>k k'. Adapter_Get (rt_Client rt) (om_Namespace obj)
      (JobName (ex_sha x) (name_identity (om_Name obj) (sr_Attempt s))) k \<noteq> (Inr None, k')"
  shows "io_keeps (on_ledger uncanceled) (reconcileCancellation x env rt t obj s)"
proof -
  have seen: "\<exists>job. a = Some job"
    if "io_wrap msg (kube_call (Adapter_Get (rt_Client rt) (om_Namespace obj)
      (JobName (ex_sha x) (name_identity (om_Name obj) (sr_Attempt s))))) w = (Inr a, w')" for msg w a w'
    using io_wrap_InrD [OF that] present by (cases a) (auto simp: kube_call_def split: prod.splits)
  have same: "sr_Attempt s' = sr_Attempt s"
    if "(if sr_Phase s \<noteq> CancelRequested then
       io_bind (now_call env) (\<lambda>now.
       io_bind (io_lift (wrap_result ''request cancel''
         (RequestCancel (JobRun_zero\<lparr>jr_Phase := sr_Phase s\<rparr>) now))) (\<lambda>requested.
       io_bind (store_call env (\<lambda>now. UpdateRunPhase now t (sr_ID s) (jr_Phase requested) (sr_Attempt s)))
         (\<lambda>_. io_return (s\<lparr>sr_Phase := jr_Phase requested\<rparr>))))
     else io_return s) w = (Inr s', w')" for w w' s'
    using that by (auto simp: io_return_apply dest!: io_bind_InrD split: if_splits)
  note R = on_ledger_trans [OF canceling.R_trans]
  show ?thesis unfolding reconcileCancellation_def if_not_P [OF attempt] Let_def
    apply (rule io_keeps_bind_on [OF R])
     apply (auto intro!: canceling.bind [OF canceling.clock] request_uncanceled canceling.pure) []
    apply (drule same)
    apply (rule canceling.bind)
     apply (intro canceling.intros)
    apply (rule io_keeps_bind_on [OF R])
     apply (intro canceling.intros)
    apply (auto dest!: seen intro!: patch_uncanceled write_uncanceled canceling.bind canceling.clock split: option.split)
    done
qed

end

interpretation quiet_cancel: cancel_environment "quiet now" for now
  by unfold_locales (simp add: quiet_def uncanceled_def, blast)

end
