(* ===== verification/Workflow_Walker.thy ===== *)
theory Workflow_Walker
  imports Reconcile_Laws
begin

section \<open>Workflow runs in the operator\<close>

text \<open>
  \<open>internal/operator/workflow.go\<close> (materialising a workflow run from its custom resource and
  projecting the ledger back onto it), \<open>workflow_walker.go\<close> (one advance of an open run: which
  tasks start, which are skipped and why, what the run's phase becomes) and
  \<open>workflow_retention.go\<close> with the pruner adapter of \<open>cmd/operator/main.go\<close>.

  Go maps that live within one pass are partial functions, except the decisions of a pass, which
  are written to the store and are an association list like the stored trail.
\<close>

subsection \<open>Reconciling a workflow run\<close>

definition workflowRunSpecFromUnstructured :: "WorkflowRunSpec CRObject \<Rightarrow> WorkflowRunSpec result" where
  "workflowRunSpecFromUnstructured obj = rbind (cr_Spec obj) (\<lambda>spec.
     rbind (wrap_result ''workflow run'' (WorkflowRunSpec_Validate spec)) (\<lambda>_.
     if TrimSpace (wrs_Actor spec) = '''' then Inl (Errorf ''workflow run has no actor'')
     else Inr spec))"

definition Run_zero :: Run where
  "Run_zero = \<lparr>wf_ID = 0, wf_TenantID = '''', wf_SourceUID = '''', wf_RevisionID = 0, wf_OccurrenceKey = '''',
     wf_Trigger = OtherTrigger '''', wf_Actor = '''', wf_Phase = OtherWPhase '''', wf_TaskDecisions = [],
     wf_CreatedAt = 0, wf_UpdatedAt = 0\<rparr>"

definition materializeWorkflowRun :: "Ext \<Rightarrow> env \<Rightarrow> string \<Rightarrow> WorkflowRunSpec \<Rightarrow> ('k world, Run option) io" where
  "materializeWorkflowRun x env tenant spec =
     (if wrs_Trigger spec \<noteq> Manual then io_return None
      else
        io_bind (io_wrap ''load pinned revision for workflow run''
          (store_call env (\<lambda>_. RevisionByID tenant (wrs_DefinitionRevision spec)))) (\<lambda>rv.
        if id_SourceUID (rev_Identity rv) \<noteq> ref_UID (wrs_WorkflowRef spec)
          then io_fail (Errorf ''workflow run pins a revision of another workflow'')
        else
          io_bind (io_lift (wrap_result ''decode pinned revision'' (ex_decode_workflow x (rev_NormalizedSpec rv)))) (\<lambda>declared.
          io_bind (io_lift (wrap_result ''not a valid DAG'' (ValidateDAG (DAGFromSpec declared)))) (\<lambda>_.
          io_bind (io_wrap ''create workflow run'' (store_call env (\<lambda>_. CreateRunForTenant tenant
              (Run_zero\<lparr>wf_SourceUID := ref_UID (wrs_WorkflowRef spec), wf_RevisionID := wrs_DefinitionRevision spec,
                 wf_OccurrenceKey := wrs_OccurrenceKey spec, wf_Trigger := Manual, wf_Actor := wrs_Actor spec,
                 wf_Phase := PhasePending\<rparr>)))) (\<lambda>(stored, _).
          io_return (Some stored))))))"

text \<open>The steps of a run by occurrence key; a later step wins.\<close>

definition steps_by_key :: "StepRun list \<Rightarrow> (string \<rightharpoonup> StepRun)" where
  "steps_by_key steps = foldl (\<lambda>acc st. acc(st_OccurrenceKey st \<mapsto> st)) Map.empty steps"

definition status_step ::
    "(string \<Rightarrow> string) \<Rightarrow> Run \<Rightarrow> (string \<rightharpoonup> StepRun) \<Rightarrow> WorkflowTaskSpec \<Rightarrow> WorkflowRunStatusStep" where
  "status_step sha row byKey task =
     (let key = StepOccurrenceKey sha (wf_SourceUID row) (wf_OccurrenceKey row) (wt_Name task) in
      case byKey key of
        Some st \<Rightarrow> \<lparr>wss_Task = wt_Name task, wss_Phase = phase_string (st_Phase st),
            wss_Attempt = int32 (st_Attempt st), wss_OccurrenceKey = key, wss_Skipped = False, wss_SkipReason = ''''\<rparr>
      | None \<Rightarrow>
          (let entry = \<lparr>wss_Task = wt_Name task, wss_Phase = '''', wss_Attempt = 0, wss_OccurrenceKey = key,
                        wss_Skipped = False, wss_SkipReason = ''''\<rparr> in
           case map_of (wf_TaskDecisions row) (wt_Name task) of
             Some d \<Rightarrow> if td_Skipped d then entry\<lparr>wss_Skipped := True, wss_SkipReason := td_Reason d\<rparr> else entry
           | None \<Rightarrow> entry))"

definition workflowStatus :: "Ext \<Rightarrow> env \<Rightarrow> string \<Rightarrow> Run \<Rightarrow> ('k world, WorkflowRunStatus) io" where
  "workflowStatus x env tenant row =
     io_bind (io_wrap ''load pinned revision for status'' (store_call env (\<lambda>_. RevisionByID tenant (wf_RevisionID row)))) (\<lambda>rv.
     io_bind (io_lift (wrap_result ''decode pinned revision'' (ex_decode_workflow x (rev_NormalizedSpec rv)))) (\<lambda>declared.
     io_bind (store_call env (\<lambda>_. Steps tenant (wf_ID row))) (\<lambda>steps.
     io_return \<lparr>wst_Phase = wphase_string (wf_Phase row),
        wst_Steps = map (status_step (ex_sha x) row (steps_by_key steps)) (ws_Tasks declared),
        wst_StartedAt = Some (wf_CreatedAt row),
        wst_CompletedAt = (if WTerminal (wf_Phase row) then Some (wf_UpdatedAt row) else None)\<rparr>)))"

definition patchWorkflowStatus :: "Ext \<Rightarrow> env \<Rightarrow> 'k Runtime \<Rightarrow> ObjectMeta \<Rightarrow> string \<Rightarrow> Run \<Rightarrow> ('k world, unit) io" where
  "patchWorkflowStatus x env rt obj tenant row =
     io_bind (workflowStatus x env tenant row) (\<lambda>fragment.
     patchStatus rt WorkflowRunGVR obj (WorkflowStatus fragment))"

definition PatchWorkflowStatusByName :: "Ext \<Rightarrow> env \<Rightarrow> 'k Runtime \<Rightarrow> string \<Rightarrow> Run \<Rightarrow> ('k world, unit) io" where
  "PatchWorkflowStatusByName x env rt tenant row =
     io_bind (io_wrap ''load pinned revision for status'' (store_call env (\<lambda>_. RevisionByID tenant (wf_RevisionID row)))) (\<lambda>rv.
     io_bind (workflowStatus x env tenant row) (\<lambda>fragment.
     io_bind (io_try (kube_call (rt_Patch rt WorkflowRunGVR (id_Namespace (rev_Identity rv))
        (WorkflowRunObjectName (id_Name (rev_Identity rv)) (wf_OccurrenceKey row)) (WorkflowStatus fragment)))) (\<lambda>r.
     case r of
       Inr _ \<Rightarrow> io_return ()
     | Inl e \<Rightarrow> if e = ApiNotFound then io_return () else io_fail (Wrapf ''patch workflow run status'' e))))"

definition ReconcileWorkflowRun :: "Ext \<Rightarrow> env \<Rightarrow> 'k Runtime \<Rightarrow> WorkflowRunSpec CRObject \<Rightarrow> ('k world, unit) io" where
  "ReconcileWorkflowRun x env rt obj =
     io_bind (io_lift (workflowRunSpecFromUnstructured obj)) (\<lambda>spec.
     io_bind (io_lift (Resolve (rt_Tenants rt) (cr_Meta obj))) (\<lambda>tenant.
     io_bind (store_call env (\<lambda>_. WorkflowRunByOccurrence tenant (ref_UID (wrs_WorkflowRef spec)) (wrs_OccurrenceKey spec))) (\<lambda>found.
     io_bind (case found of Some stored \<Rightarrow> io_return (Some stored)
              | None \<Rightarrow> materializeWorkflowRun x env tenant spec) (\<lambda>found.
     case found of
       None \<Rightarrow> io_fail (Errorf ''no stored workflow run'')
     | Some stored \<Rightarrow>
         io_bind
           (if wrs_CancelRequested spec \<and> wf_Phase stored \<noteq> PhaseCancelRequested
               \<and> wf_Phase stored \<noteq> PhaseCancelUnknown \<and> \<not> WTerminal (wf_Phase stored) then
              io_bind (store_call env (\<lambda>now. UpdatePhase now tenant (wf_ID stored) PhaseCancelRequested []))
                (\<lambda>_. io_return (stored\<lparr>wf_Phase := PhaseCancelRequested\<rparr>))
            else io_return stored)
           (\<lambda>stored. patchWorkflowStatus x env rt (cr_Meta obj) tenant stored)))))"

subsection \<open>The walker's pure parts\<close>

definition ActorWorkflowWalker :: string where "ActorWorkflowWalker = ''orbitjob-workflow-walker''"

record 'k WorkflowWalker =
  wk_Publisher :: "'k CRClient"
  wk_Outcomes :: bool
  wk_Tenants :: "string list"
  wk_Actor :: string
  wk_ProjectStatus :: "'k Runtime option"

definition Walker_actor :: "'k WorkflowWalker \<Rightarrow> string" where
  "Walker_actor w = (if wk_Actor w \<noteq> '''' then wk_Actor w else ActorWorkflowWalker)"

definition definitionIndex :: "Revision list \<Rightarrow> (string \<rightharpoonup> Revision)" where
  "definitionIndex defs = foldl (\<lambda>index rv.
     index(''name:'' @ id_Name (rev_Identity rv) \<mapsto> rv, ''uid:'' @ id_SourceUID (rev_Identity rv) \<mapsto> rv)) Map.empty defs"

definition sweepStopReason :: "bool \<Rightarrow> bool \<Rightarrow> bool \<Rightarrow> string" where
  "sweepStopReason canceling failFastTripped deadlinePassed =
     (if canceling then ReasonCanceled
      else if failFastTripped then ReasonFailFast
      else if deadlinePassed then ReasonDeadline
      else '''')"

text \<open>A dependency is settled by a resolved step, a stored skip decision, or a decision of this pass.\<close>

fun dependenciesResolved_loop ::
    "string list \<Rightarrow> (string \<rightharpoonup> StepState) \<Rightarrow> decisions \<Rightarrow> decisions \<Rightarrow> bool" where
  "dependenciesResolved_loop [] states storedDecisions passDecisions = True"
| "dependenciesResolved_loop (dep # deps) states storedDecisions passDecisions =
     (if states dep \<noteq> None then dependenciesResolved_loop deps states storedDecisions passDecisions
      else if (case map_of storedDecisions dep of Some d \<Rightarrow> td_Skipped d | None \<Rightarrow> False)
        then dependenciesResolved_loop deps states storedDecisions passDecisions
      else if map_of passDecisions dep \<noteq> None
        then dependenciesResolved_loop deps states storedDecisions passDecisions
      else False)"

definition dependenciesResolved :: "Task \<Rightarrow> (string \<rightharpoonup> StepState) \<Rightarrow> decisions \<Rightarrow> decisions \<Rightarrow> bool" where
  "dependenciesResolved task states storedDecisions passDecisions =
     dependenciesResolved_loop (tk_DependsOn task) states storedDecisions passDecisions"

fun skip_cascade :: "string list \<Rightarrow> (string \<rightharpoonup> StepState) \<Rightarrow> decisions \<Rightarrow> decisions \<Rightarrow> bool" where
  "skip_cascade [] states storedDecisions passDecisions = False"
| "skip_cascade (dep # deps) states storedDecisions passDecisions =
     (if states dep \<noteq> None then skip_cascade deps states storedDecisions passDecisions
      else if (case map_of storedDecisions dep of Some d \<Rightarrow> td_Skipped d | None \<Rightarrow> False) then True
      else if map_of passDecisions dep \<noteq> None then True
      else skip_cascade deps states storedDecisions passDecisions)"

definition taskSkipReason ::
    "Task \<Rightarrow> (string \<rightharpoonup> StepState) \<Rightarrow> decisions \<Rightarrow> decisions \<Rightarrow> string result" where
  "taskSkipReason task states storedDecisions passDecisions =
     (if skip_cascade (tk_DependsOn task) states storedDecisions passDecisions then Inr ReasonCondition
      else if tk_Condition task = None then Inr ''''
      else rbind (wrap_result ''evaluate condition'' (EvaluateCondition (tk_Condition task) states)) (\<lambda>pass.
        if \<not> pass then Inr ReasonCondition else Inr ''''))"

definition dagHasDurationRules :: "DAG \<Rightarrow> bool" where
  "dagHasDurationRules dag = list_ex (\<lambda>task. case tk_Condition task of None \<Rightarrow> False
     | Some c \<Rightarrow> list_ex (\<lambda>rule. ru_Field rule = FieldDurationMs) (co_Rules c)) (dag_Tasks dag)"

definition anyStepFailed :: "StepRun list \<Rightarrow> bool" where
  "anyStepFailed steps = list_ex (\<lambda>st. st_Phase st = Failed) steps"

definition taskNames :: "DAG \<Rightarrow> string list" where
  "taskNames dag = map tk_Name (dag_Tasks dag)"

definition dagTask :: "DAG \<Rightarrow> string \<Rightarrow> Task result" where
  "dagTask dag name = (case find (\<lambda>task. tk_Name task = name) (dag_Tasks dag) of
     Some task \<Rightarrow> Inr task | None \<Rightarrow> Inl (Errorf ''task not found in workflow DAG''))"

definition mergeDecisions :: "Run \<Rightarrow> decisions \<Rightarrow> decisions" where
  "mergeDecisions run decisions =
     (if decisions = [] then wf_TaskDecisions run else AList.merge (wf_TaskDecisions run) decisions)"

subsection \<open>One advance\<close>

definition pinnedDAG :: "Ext \<Rightarrow> env \<Rightarrow> string \<Rightarrow> Run \<Rightarrow> ('k world, DAG) io" where
  "pinnedDAG x env tenant run =
     io_bind (io_wrap ''load pinned revision'' (store_call env (\<lambda>_. RevisionByID tenant (wf_RevisionID run)))) (\<lambda>rv.
     io_bind (io_lift (wrap_result ''decode pinned revision'' (ex_decode_workflow x (rev_NormalizedSpec rv)))) (\<lambda>declared.
     let dag = DAGFromSpec declared in
     io_bind (io_lift (wrap_result ''not a valid DAG'' (ValidateDAG dag))) (\<lambda>_. io_return dag)))"

definition step_resolved :: "StepRun \<Rightarrow> bool" where
  "step_resolved st \<longleftrightarrow> Terminal (st_Phase st) \<or> st_Phase st = CancelUnknown"

text \<open>The operand set of one resolved step; a failed timing read leaves the duration at zero.\<close>

definition step_state :: "env \<Rightarrow> string \<Rightarrow> bool \<Rightarrow> StepRun \<Rightarrow> ('k world, StepState) io" where
  "step_state env tenant needDurations st =
     (let state = \<lparr>ss_Phase = st_Phase st, ss_Attempt = st_Attempt st, ss_DurationMs = 0\<rparr> in
      if needDurations \<and> Terminal (st_Phase st) then
        io_bind (io_try (store_call env (\<lambda>_. TerminalOutcome_read tenant (st_ID st)))) (\<lambda>r.
        io_return (case r of
            Inl _ \<Rightarrow> state
          | Inr outcome \<Rightarrow>
              if \<not> time_IsZero (to_StartedAt outcome) \<and> \<not> time_IsZero (to_CompletedAt outcome)
              then state\<lparr>ss_DurationMs := milliseconds (time_Sub (to_CompletedAt outcome) (to_StartedAt outcome))\<rparr>
              else state))
      else io_return state)"

fun step_facts_loop ::
    "Ext \<Rightarrow> env \<Rightarrow> string \<Rightarrow> Run \<Rightarrow> bool \<Rightarrow> (string \<rightharpoonup> StepRun) \<Rightarrow> Task list
     \<Rightarrow> (string \<rightharpoonup> StepRun) \<Rightarrow> (string \<rightharpoonup> StepState)
     \<Rightarrow> ('k world, (string \<rightharpoonup> StepRun) \<times> (string \<rightharpoonup> StepState)) io" where
  "step_facts_loop x env tenant run needDurations byKey [] stepByTask states = io_return (stepByTask, states)"
| "step_facts_loop x env tenant run needDurations byKey (task # tasks) stepByTask states =
     (case byKey (StepOccurrenceKey (ex_sha x) (wf_SourceUID run) (wf_OccurrenceKey run) (tk_Name task)) of
        None \<Rightarrow> step_facts_loop x env tenant run needDurations byKey tasks stepByTask states
      | Some st \<Rightarrow>
          if \<not> step_resolved st
            then step_facts_loop x env tenant run needDurations byKey tasks (stepByTask(tk_Name task \<mapsto> st)) states
          else io_bind (step_state env tenant needDurations st) (\<lambda>state.
            step_facts_loop x env tenant run needDurations byKey tasks
              (stepByTask(tk_Name task \<mapsto> st)) (states(tk_Name task \<mapsto> state))))"

definition stepFacts ::
    "Ext \<Rightarrow> env \<Rightarrow> 'k WorkflowWalker \<Rightarrow> string \<Rightarrow> Run \<Rightarrow> DAG \<Rightarrow> StepRun list
     \<Rightarrow> ('k world, (string \<rightharpoonup> StepRun) \<times> (string \<rightharpoonup> StepState)) io" where
  "stepFacts x env w tenant run dag steps =
     step_facts_loop x env tenant run (dagHasDurationRules dag \<and> wk_Outcomes w) (steps_by_key steps)
       (dag_Tasks dag) Map.empty Map.empty"

definition stepObject ::
    "'k WorkflowWalker \<Rightarrow> Revision \<Rightarrow> ScheduledJobSpec \<Rightarrow> string \<Rightarrow> JobRunObject" where
  "stepObject w def declared key =
     \<lparr>jo_Meta = \<lparr>om_Name = RunObjectName (id_Name (rev_Identity def)) key,
        om_Namespace = id_Namespace (rev_Identity def), om_UID = '''',
        om_Labels = [(''orbitjob.io/tenant'', id_Namespace (rev_Identity def)),
                     (''orbitjob.io/scheduled-job-uid'', id_SourceUID (rev_Identity def))],
        om_Annotations = [],
        om_OwnerReferences = [\<lparr>own_Kind = ''ScheduledJob'', own_Name = id_Name (rev_Identity def),
          own_UID = id_SourceUID (rev_Identity def), own_Controller = True, own_BlockOwnerDeletion = False\<rparr>]\<rparr>,
      jo_Spec = \<lparr>js_ScheduledJobRef = \<lparr>ref_Name = id_Name (rev_Identity def), ref_UID = id_SourceUID (rev_Identity def)\<rparr>,
        js_DefinitionRevision = rev_ID def, js_Trigger = Workflow, js_Actor = Walker_actor w,
        js_OccurrenceKey = key, js_TimeoutSeconds = ss_TimeoutSeconds declared, js_CancelRequested = False\<rparr>\<rparr>"

definition StepRun_zero :: StepRun where
  "StepRun_zero = \<lparr>st_ID = 0, st_WorkflowRunID = 0, st_SourceUID = '''', st_RevisionID = 0, st_OccurrenceKey = '''',
     st_Trigger = OtherTrigger '''', st_Phase = OtherPhase '''', st_Attempt = 0, st_CreatedAt = 0, st_UpdatedAt = 0\<rparr>"

definition createStep ::
    "Ext \<Rightarrow> env \<Rightarrow> 'k WorkflowWalker \<Rightarrow> string \<Rightarrow> Run \<Rightarrow> Task \<Rightarrow> (string \<rightharpoonup> Revision) \<Rightarrow> ('k world, unit) io" where
  "createStep x env w tenant run task index =
     (case index (''name:'' @ tk_JobRef task) of
        None \<Rightarrow> io_fail (Errorf ''task references unknown definition'')
      | Some def \<Rightarrow>
          io_bind (io_lift (wrap_result ''decode definition'' (ex_decode x (rev_NormalizedSpec def)))) (\<lambda>declared.
          let key = StepOccurrenceKey (ex_sha x) (wf_SourceUID run) (wf_OccurrenceKey run) (tk_Name task) in
          io_bind (io_wrap ''create step'' (store_call env (\<lambda>_. CreateStepForTenant tenant (wf_ID run)
              (StepRun_zero\<lparr>st_SourceUID := id_SourceUID (rev_Identity def), st_RevisionID := rev_ID def,
                 st_OccurrenceKey := key, st_Trigger := Workflow, st_Phase := Pending\<rparr>)
              (EffectiveMaxAttempts (ss_RetryPolicy declared)) (Walker_actor w)))) (\<lambda>_.
          io_wrap ''publish step'' (Publish (wk_Publisher w) (stepObject w def declared key)))))"

text \<open>The sweep over the tasks in topological order, carrying the decisions and the count of the pass.\<close>

fun advance_loop ::
    "Ext \<Rightarrow> env \<Rightarrow> 'k WorkflowWalker \<Rightarrow> string \<Rightarrow> Run \<Rightarrow> (string \<rightharpoonup> Revision) \<Rightarrow> DAG
     \<Rightarrow> (string \<rightharpoonup> StepRun) \<Rightarrow> (string \<rightharpoonup> StepState) \<Rightarrow> string \<Rightarrow> string list \<Rightarrow> decisions \<Rightarrow> int
     \<Rightarrow> ('k world, decisions \<times> int) io" where
  "advance_loop x env w tenant run index dag stepByTask states stop [] decisions created =
     io_return (decisions, created)"
| "advance_loop x env w tenant run index dag stepByTask states stop (taskName # order) decisions created =
     (if stepByTask taskName \<noteq> None \<or> map_of (wf_TaskDecisions run) taskName \<noteq> None
        then advance_loop x env w tenant run index dag stepByTask states stop order decisions created
      else io_bind (io_lift (dagTask dag taskName)) (\<lambda>task.
        if \<not> dependenciesResolved task states (wf_TaskDecisions run) decisions
          then advance_loop x env w tenant run index dag stepByTask states stop order decisions created
        else io_bind
          (if stop = '''' then io_lift (taskSkipReason task states (wf_TaskDecisions run) decisions)
           else io_return stop) (\<lambda>reason.
        if reason \<noteq> '''' then
          advance_loop x env w tenant run index dag stepByTask states stop order
            (AList.update taskName \<lparr>td_Skipped = True, td_Reason = reason\<rparr> decisions) created
        else io_bind (createStep x env w tenant run task index) (\<lambda>_.
          advance_loop x env w tenant run index dag stepByTask states stop order decisions (created + 1)))))"

definition fanCancel ::
    "Ext \<Rightarrow> 'k WorkflowWalker \<Rightarrow> Run \<Rightarrow> DAG \<Rightarrow> StepRun list \<Rightarrow> (string \<rightharpoonup> Revision) \<Rightarrow> ('k world, unit) io" where
  "fanCancel x w run dag steps index =
     io_iter (\<lambda>task.
       let key = StepOccurrenceKey (ex_sha x) (wf_SourceUID run) (wf_OccurrenceKey run) (tk_Name task) in
       case steps_by_key steps key of
         None \<Rightarrow> io_return ()
       | Some st \<Rightarrow>
           if Terminal (st_Phase st) \<or> st_Phase st = CancelUnknown then io_return ()
           else case index (''name:'' @ tk_JobRef task) of
             None \<Rightarrow> io_return ()
           | Some def \<Rightarrow> io_wrap ''request cancel for step'' (RunPublisher_RequestCancel (wk_Publisher w)
               (id_Namespace (rev_Identity def)) (RunObjectName (id_Name (rev_Identity def)) key))) (dag_Tasks dag)"

definition next_workflow_phase ::
    "Run \<Rightarrow> DAG \<Rightarrow> StepRun list \<Rightarrow> (string \<rightharpoonup> StepState) \<Rightarrow> decisions \<Rightarrow> int \<Rightarrow> wphase" where
  "next_workflow_phase run dag steps states decisions created =
     (case DerivePhase (taskNames dag) states (map_of (mergeDecisions run decisions)) of (ph, terminal) \<Rightarrow>
        if terminal then ph
        else if ph = PhaseCancelUnknown then ph
        else if wf_Phase run = PhasePending \<and> (steps \<noteq> [] \<or> decisions \<noteq> [] \<or> created > 0) then PhaseRunning
        else wf_Phase run)"

definition Walker_recordOutcome ::
    "Ext \<Rightarrow> env \<Rightarrow> 'k WorkflowWalker \<Rightarrow> string \<Rightarrow> Run \<Rightarrow> DAG \<Rightarrow> StepRun list \<Rightarrow> (string \<rightharpoonup> StepState) \<Rightarrow> decisions
     \<Rightarrow> int \<Rightarrow> bool \<Rightarrow> (string \<rightharpoonup> Revision) \<Rightarrow> ('k world, unit) io" where
  "Walker_recordOutcome x env w tenant run dag steps states decisions created fan index =
     io_bind (if fan then fanCancel x w run dag steps index else io_return ()) (\<lambda>_.
     let merged = mergeDecisions run decisions;
         next_ph = next_workflow_phase run dag steps states decisions created
     in if next_ph = wf_Phase run \<and> decisions = [] then io_return ()
        else io_bind (io_wrap ''record workflow run phase''
            (store_call env (\<lambda>now. UpdatePhase now tenant (wf_ID run) next_ph decisions))) (\<lambda>changed.
          if \<not> changed \<and> decisions = [] then io_return ()
          else case wk_ProjectStatus w of
            None \<Rightarrow> io_return ()
          | Some rt \<Rightarrow> PatchWorkflowStatusByName x env rt tenant
              (run\<lparr>wf_Phase := next_ph, wf_TaskDecisions := merged\<rparr>)))"

definition deadline_passed :: "env \<Rightarrow> Run \<Rightarrow> DAG \<Rightarrow> ('k world, bool) io" where
  "deadline_passed env run dag =
     (if 0 < dag_TimeoutSeconds dag then
        io_bind (now_call env) (\<lambda>now. io_return (time_Sub now (wf_CreatedAt run) > dag_TimeoutSeconds dag * second_ns))
      else io_return False)"

definition advanceRun ::
    "Ext \<Rightarrow> env \<Rightarrow> 'k WorkflowWalker \<Rightarrow> string \<Rightarrow> Run \<Rightarrow> (string \<rightharpoonup> Revision) \<Rightarrow> ('k world, int) io" where
  "advanceRun x env w tenant run index =
     io_bind (pinnedDAG x env tenant run) (\<lambda>dag.
     io_bind (io_wrap ''list steps'' (store_call env (\<lambda>_. Steps tenant (wf_ID run)))) (\<lambda>steps.
     io_bind (stepFacts x env w tenant run dag steps) (\<lambda>(stepByTask, states).
     let canceling = (wf_Phase run = PhaseCancelRequested \<or> wf_Phase run = PhaseCancelUnknown);
         failFastTripped = (dag_FailPolicy dag = FailFast \<and> anyStepFailed steps)
     in io_bind (deadline_passed env run dag) (\<lambda>deadlinePassed.
     io_bind (io_lift (wrap_result ''order workflow run'' (TopologicalSort dag))) (\<lambda>order.
     io_bind (advance_loop x env w tenant run index dag stepByTask states
        (sweepStopReason canceling failFastTripped deadlinePassed) order [] 0) (\<lambda>(decisions, created).
     io_bind (Walker_recordOutcome x env w tenant run dag steps states decisions created
        (canceling \<or> deadlinePassed) index) (\<lambda>_. io_return created)))))))"

definition Walker_Tick :: "Ext \<Rightarrow> env \<Rightarrow> 'k WorkflowWalker \<Rightarrow> ('k world, int) io" where
  "Walker_Tick x env w =
     io_sum (\<lambda>tenant.
       io_bind (io_wrap ''list open workflow runs'' (store_call env (\<lambda>_. WorkflowOpenRuns tenant))) (\<lambda>runs.
       if runs = [] then io_return 0
       else io_bind (io_wrap ''list active revisions'' (store_call env (\<lambda>_. ActiveRevisions tenant))) (\<lambda>defs.
         io_sum (\<lambda>run. io_bind (io_try (advanceRun x env w tenant run (definitionIndex defs))) (\<lambda>r.
           io_return (case r of Inl _ \<Rightarrow> 0 | Inr n \<Rightarrow> n))) runs))) (wk_Tenants w)"

subsection \<open>Workflow retention\<close>

definition DefaultWorkflowSuccessfulHistory :: int where "DefaultWorkflowSuccessfulHistory = 3"
definition DefaultWorkflowFailedHistory :: int where "DefaultWorkflowFailedHistory = 3"

definition workflowHistoryLimits :: "HistoryPolicy \<Rightarrow> int \<times> int" where
  "workflowHistoryLimits policy =
     ((if SuccessfulRuns policy \<le> 0 then DefaultWorkflowSuccessfulHistory else SuccessfulRuns policy),
      (if FailedRuns policy \<le> 0 then DefaultWorkflowFailedHistory else FailedRuns policy))"

definition PrunerStore_PrunableRuns :: "string \<Rightarrow> string \<Rightarrow> int \<Rightarrow> int \<Rightarrow> (ledger, Run list) io" where
  "PrunerStore_PrunableRuns tenantID sourceUID keepSuccessful keepFailed =
     io_bind (PrunableWorkflowRuns tenantID sourceUID keepSuccessful keepFailed) (\<lambda>rows.
     io_return (map (\<lambda>row. Run_zero\<lparr>wf_ID := pw_ID row, wf_SourceUID := sourceUID,
        wf_OccurrenceKey := pw_OccurrenceKey row, wf_Phase := pw_Phase row\<rparr>) rows))"

definition PrunerStore_DeleteRun :: "string \<Rightarrow> int \<Rightarrow> (ledger, bool) io" where
  "PrunerStore_DeleteRun tenantID runID = io_bind (PruneRun tenantID runID) (\<lambda>(deleted, _). io_return deleted)"

record 'k WorkflowRetainer =
  wr_Remover :: "'k CRClient"
  wr_Tenants :: "string list"

definition removeStepObjects :: "env \<Rightarrow> 'k WorkflowRetainer \<Rightarrow> string \<Rightarrow> Run \<Rightarrow> ('k world, unit) io" where
  "removeStepObjects env r tenant run =
     io_bind (io_wrap ''list steps'' (store_call env (\<lambda>_. Steps tenant (wf_ID run)))) (\<lambda>steps.
     if steps = [] then io_return ()
     else io_bind (io_wrap ''list active revisions'' (store_call env (\<lambda>_. ActiveRevisions tenant))) (\<lambda>defs.
       io_iter (\<lambda>st.
         case definitionIndex defs (''uid:'' @ st_SourceUID st) of
           None \<Rightarrow> io_return ()
         | Some def \<Rightarrow> io_wrap ''remove step run'' (RunRemover_Remove (wr_Remover r) (id_Namespace (rev_Identity def))
             (id_Name (rev_Identity def)) (st_OccurrenceKey st))) steps))"

definition prune_workflow_run :: "env \<Rightarrow> 'k WorkflowRetainer \<Rightarrow> string \<Rightarrow> Run \<Rightarrow> ('k world, int) io" where
  "prune_workflow_run env r tenant run =
     io_bind (removeStepObjects env r tenant run) (\<lambda>_.
     io_bind (io_wrap ''delete workflow run'' (store_call env (\<lambda>_. PrunerStore_DeleteRun tenant (wf_ID run)))) (\<lambda>deleted.
     io_return (if deleted then 1 else 0)))"

definition WorkflowRetainer_pruneDefinition :: "Ext \<Rightarrow> env \<Rightarrow> 'k WorkflowRetainer \<Rightarrow> string \<Rightarrow> Revision \<Rightarrow> ('k world, int) io" where
  "WorkflowRetainer_pruneDefinition x env r tenant rv =
     io_bind (io_lift (wrap_result ''decode revision'' (ex_decode_workflow x (rev_NormalizedSpec rv)))) (\<lambda>spec.
     case workflowHistoryLimits (ws_History spec) of (keepSuccessful, keepFailed) \<Rightarrow>
     io_bind (io_wrap ''scan prunable workflow runs'' (store_call env (\<lambda>_.
        PrunerStore_PrunableRuns tenant (id_SourceUID (rev_Identity rv)) keepSuccessful keepFailed))) (\<lambda>prunable.
     io_sum (prune_workflow_run env r tenant) prunable))"

definition WorkflowRetainer_Sweep :: "Ext \<Rightarrow> env \<Rightarrow> 'k WorkflowRetainer \<Rightarrow> ('k world, int) io" where
  "WorkflowRetainer_Sweep x env r =
     io_sum (\<lambda>tenant.
       io_bind (io_wrap ''list active workflow revisions'' (store_call env (\<lambda>_. ActiveWorkflowRevisions tenant))) (\<lambda>defs.
       io_sum (WorkflowRetainer_pruneDefinition x env r tenant) defs)) (wr_Tenants r)"

end
