(* ===== verification/Walker_Plan.thy ===== *)
theory Walker_Plan
  imports Workflow_Walker
begin

section \<open>What one advance decides\<close>

text \<open>
  The plan of a pass: a pure function of the pinned DAG, the stored steps and the decisions,
  giving the decisions to write and the tasks to start. \<open>advance_loop\<close> refines it: a pass that succeeds
  returned the plan's decisions and created exactly the plan's steps, in order. What the
  walker guarantees is then proved of the plan: a task starts only when all its dependencies
  produced a state and its condition holds, nothing starts under a stop, and a pass that finds no step
  in flight either starts something or accounts for every task.
\<close>

subsection \<open>The plan\<close>

fun plan :: "Run \<Rightarrow> DAG \<Rightarrow> (string \<rightharpoonup> StepRun) \<Rightarrow> (string \<rightharpoonup> StepState) \<Rightarrow> string \<Rightarrow> string list \<Rightarrow> decisions
    \<Rightarrow> (decisions \<times> Task list) result" where
  "plan run dag stepByTask states stop [] decisions = Inr (decisions, [])"
| "plan run dag stepByTask states stop (taskName # order) decisions =
     (if stepByTask taskName \<noteq> None \<or> map_of (wf_TaskDecisions run) taskName \<noteq> None
        then plan run dag stepByTask states stop order decisions
      else rbind (dagTask dag taskName) (\<lambda>task.
        if \<not> dependenciesResolved task states (wf_TaskDecisions run) decisions
          then plan run dag stepByTask states stop order decisions
        else rbind (if stop = '''' then taskSkipReason task states (wf_TaskDecisions run) decisions else Inr stop) (\<lambda>reason.
          if reason \<noteq> ''''
            then plan run dag stepByTask states stop order
                   (AList.update taskName \<lparr>td_Skipped = True, td_Reason = reason\<rparr> decisions)
          else rbind (plan run dag stepByTask states stop order decisions) (\<lambda>(ds, starts). Inr (ds, task # starts)))))"

lemma rbind_Inr_eq: "rbind r f = Inr b \<longleftrightarrow> (\<exists>a. r = Inr a \<and> f a = Inr b)"
  by (cases r) auto

text \<open>The pass refines the plan.\<close>

lemma advance_loop_refines:
  assumes "advance_loop x env w t run index dag stepByTask states stop order ds n v = (Inr (ds', n'), v')"
  shows "\<exists>starts. plan run dag stepByTask states stop order ds = Inr (ds', starts) \<and>
    n' = n + int (length starts) \<and>
    io_iter (\<lambda>task. createStep x env w t run task index) starts v = (Inr (), v')"
  using assms
proof (induction order arbitrary: ds n v)
  case Nil
  then show ?case by (auto simp: io_return_apply)
next
  case (Cons name order)
  show ?case
  proof (cases "stepByTask name \<noteq> None \<or> map_of (wf_TaskDecisions run) name \<noteq> None")
    case True
    with Cons.prems have "advance_loop x env w t run index dag stepByTask states stop order ds n v = (Inr (ds', n'), v')"
      by simp
    from Cons.IH [OF this] True show ?thesis by simp
  next
    case False
    with Cons.prems obtain task where task: "dagTask dag name = Inr task"
      by (cases "dagTask dag name") (auto simp: io_fail_apply)
    show ?thesis
    proof (cases "dependenciesResolved task states (wf_TaskDecisions run) ds")
      case dep: False
      with False task Cons.prems have "advance_loop x env w t run index dag stepByTask states stop order ds n v = (Inr (ds', n'), v')"
        by simp
      from Cons.IH [OF this] False task dep show ?thesis by simp
    next
      case dep: True
      let ?r = "if stop = [] then taskSkipReason task states (wf_TaskDecisions run) ds else Inr stop"
      have "(if stop = [] then io_lift (taskSkipReason task states (wf_TaskDecisions run) ds) else io_return stop) = io_lift ?r"
        by (auto simp: fun_eq_iff io_lift_apply io_return_apply)
      with False task dep Cons.prems obtain reason where reason: "?r = Inr reason"
        and rest: "(if reason \<noteq> [] then advance_loop x env w t run index dag stepByTask states stop order
              (AList.update name \<lparr>td_Skipped = True, td_Reason = reason\<rparr> ds) n
            else io_bind (createStep x env w t run task index) (\<lambda>_.
              advance_loop x env w t run index dag stepByTask states stop order ds (n + 1))) v = (Inr (ds', n'), v')"
        by (auto simp: io_lift_apply dest!: io_bind_InrD split: if_splits)
      show ?thesis
      proof (cases "reason = []")
        case skip: False
        with rest have "advance_loop x env w t run index dag stepByTask states stop order
              (AList.update name \<lparr>td_Skipped = True, td_Reason = reason\<rparr> ds) n v = (Inr (ds', n'), v')" by simp
        from Cons.IH [OF this] False task dep reason skip show ?thesis by (auto split: if_splits)
      next
        case start: True
        with rest obtain u where cs: "createStep x env w t run task index v = (Inr (), u)"
          and "advance_loop x env w t run index dag stepByTask states stop order ds (n + 1) u = (Inr (ds', n'), v')"
          by (auto dest!: io_bind_InrD)
        from Cons.IH [OF this(2)] obtain starts where
          "plan run dag stepByTask states stop order ds = Inr (ds', starts)" "n' = n + 1 + int (length starts)"
          "io_iter (\<lambda>task. createStep x env w t run task index) starts u = (Inr (), v')" by blast
        with cs False task dep reason start show ?thesis
          by (intro exI [of _ "task # starts"]) (auto simp: io_bind_apply split: if_splits)
      qed
    qed
  qed
qed

subsection \<open>Dependencies\<close>

definition stored_skip :: "decisions \<Rightarrow> string \<Rightarrow> bool" where
  "stored_skip ds n \<longleftrightarrow> (\<exists>d. map_of ds n = Some d \<and> td_Skipped d)"

lemma dependenciesResolved_iff:
  "dependenciesResolved task states stored pass \<longleftrightarrow>
     (\<forall>d \<in> set (tk_DependsOn task). d \<in> dom states \<or> stored_skip stored d \<or> d \<in> dom (map_of pass))"
proof -
  have "dependenciesResolved_loop deps states stored pass \<longleftrightarrow>
     (\<forall>d \<in> set deps. d \<in> dom states \<or> stored_skip stored d \<or> d \<in> dom (map_of pass))" for deps
    by (induction deps) (auto simp: stored_skip_def split: option.splits)
  then show ?thesis by (simp add: dependenciesResolved_def)
qed

lemma skip_cascade_iff:
  "skip_cascade deps states stored pass \<longleftrightarrow>
     (\<exists>d \<in> set deps. d \<notin> dom states \<and> (stored_skip stored d \<or> d \<in> dom (map_of pass)))"
  by (induction deps) (auto simp: stored_skip_def split: option.splits)

lemma no_cascade_states:
  assumes "dependenciesResolved task states stored pass" and "\<not> skip_cascade (tk_DependsOn task) states stored pass"
  shows "set (tk_DependsOn task) \<subseteq> dom states"
  using assms by (auto simp: dependenciesResolved_iff skip_cascade_iff)

lemma ReasonCondition_nonempty [simp]: "ReasonCondition \<noteq> []"
  by (simp add: ReasonCondition_def)

lemma taskSkipReason_start:
  assumes "taskSkipReason task states stored pass = Inr []" and "dependenciesResolved task states stored pass"
  shows "set (tk_DependsOn task) \<subseteq> dom states" and "EvaluateCondition (tk_Condition task) states = Inr True"
proof -
  have no: "\<not> skip_cascade (tk_DependsOn task) states stored pass"
    using assms(1) by (auto simp: taskSkipReason_def)
  then show "set (tk_DependsOn task) \<subseteq> dom states" using no_cascade_states assms(2) by blast
  show "EvaluateCondition (tk_Condition task) states = Inr True"
    using assms(1) no
    by (cases "EvaluateCondition (tk_Condition task) states")
       (auto simp: taskSkipReason_def EvaluateCondition_def split: if_splits option.splits)
qed

subsection \<open>What the plan starts\<close>

lemma dagTask_Inr: "dagTask dag n = Inr task \<Longrightarrow> task \<in> set (dag_Tasks dag) \<and> tk_Name task = n"
  by (auto simp: dagTask_def find_Some_iff split: option.splits)

definition startable :: "Run \<Rightarrow> DAG \<Rightarrow> (string \<rightharpoonup> StepRun) \<Rightarrow> (string \<rightharpoonup> StepState) \<Rightarrow> Task \<Rightarrow> bool" where
  "startable run dag stepByTask states task \<longleftrightarrow> task \<in> set (dag_Tasks dag) \<and>
     stepByTask (tk_Name task) = None \<and> map_of (wf_TaskDecisions run) (tk_Name task) = None \<and>
     set (tk_DependsOn task) \<subseteq> dom states \<and> EvaluateCondition (tk_Condition task) states = Inr True"

lemma subseq_distinct_set: "subseq xs ys \<Longrightarrow> (distinct ys \<longrightarrow> distinct xs) \<and> set xs \<subseteq> set ys"
  by (induction rule: list_emb.induct) auto

lemma plan_starts:
  assumes "plan run dag stepByTask states stop order ds = Inr (ds', starts)"
  shows "(\<forall>task \<in> set starts. startable run dag stepByTask states task) \<and>
    (stop \<noteq> [] \<longrightarrow> starts = []) \<and> subseq (map tk_Name starts) order"
  using assms
proof (induction order arbitrary: ds starts)
  case (Cons name order)
  note step = Cons.prems [simplified plan.simps]
  show ?case
  proof (cases "stepByTask name \<noteq> None \<or> map_of (wf_TaskDecisions run) name \<noteq> None")
    case True
    with step Cons.IH show ?thesis by (auto intro: list_emb_Cons)
  next
    case False
    with step obtain task where task: "dagTask dag name = Inr task" by (auto simp: rbind_Inr_eq)
    show ?thesis
    proof (cases "dependenciesResolved task states (wf_TaskDecisions run) ds")
      case dep: False
      with step False task Cons.IH show ?thesis by (auto intro: list_emb_Cons)
    next
      case dep: True
      let ?r = "if stop = [] then taskSkipReason task states (wf_TaskDecisions run) ds else Inr stop"
      from step False task dep obtain reason where reason: "?r = Inr reason"
        and rest: "(if reason \<noteq> [] then plan run dag stepByTask states stop order
              (AList.update name \<lparr>td_Skipped = True, td_Reason = reason\<rparr> ds)
            else rbind (plan run dag stepByTask states stop order ds) (\<lambda>(ds, starts). Inr (ds, task # starts))) = Inr (ds', starts)"
        by (auto simp: rbind_Inr_eq)
      show ?thesis
      proof (cases "reason = []")
        case skip: False
        with rest Cons.IH show ?thesis by (auto intro: list_emb_Cons)
      next
        case start: True
        with rest obtain more where more: "plan run dag stepByTask states stop order ds = Inr (ds', more)" "starts = task # more"
          by (auto simp: rbind_Inr_eq)
        from start reason have "stop = []" "taskSkipReason task states (wf_TaskDecisions run) ds = Inr []"
          by (auto split: if_splits)
        with taskSkipReason_start [OF this(2) dep] False dagTask_Inr [OF task] Cons.IH [OF more(1)] more(2)
        show ?thesis by (auto simp: startable_def)
      qed
    qed
  qed
qed simp

subsection \<open>A pass never gets stuck\<close>

definition skips_only :: "decisions \<Rightarrow> bool" where
  "skips_only ds \<longleftrightarrow> (\<forall>n d. map_of ds n = Some d \<longrightarrow> td_Skipped d)"

lemma skips_only_update: "skips_only ds \<Longrightarrow> skips_only (AList.update n \<lparr>td_Skipped = True, td_Reason = r\<rparr> ds)"
  by (auto simp: skips_only_def update_conv')

lemma plan_decisions:
  assumes "plan run dag stepByTask states stop order ds = Inr (ds', starts)"
  shows "dom (map_of ds) \<subseteq> dom (map_of ds')" and "skips_only ds \<Longrightarrow> skips_only ds'"
  using assms
proof (induction order arbitrary: ds starts)
  case (Cons name order)
  {
    case 1
    then show ?case using Cons.IH(1)
      by (fastforce simp: rbind_Inr_eq update_conv' split: if_splits)
  next
    case 2
    then show ?case using Cons.IH(2) skips_only_update
      by (fastforce simp: rbind_Inr_eq split: if_splits)
  }
qed auto

definition settled :: "Run \<Rightarrow> (string \<rightharpoonup> StepState) \<Rightarrow> decisions \<Rightarrow> string \<Rightarrow> bool" where
  "settled run states ds n \<longleftrightarrow> n \<in> dom states \<or> stored_skip (wf_TaskDecisions run) n \<or> n \<in> dom (map_of ds)"

lemma settled_mono: "settled run states ds n \<Longrightarrow> dom (map_of ds) \<subseteq> dom (map_of ds') \<Longrightarrow> settled run states ds' n"
  by (auto simp: settled_def)

lemma plan_settles:
  assumes resolved: "\<And>n st. stepByTask n = Some st \<Longrightarrow> n \<in> dom states"
    and trail: "skips_only (wf_TaskDecisions run)"
    and plan: "plan run dag stepByTask states stop order ds = Inr (ds', [])"
    and ordered: "\<And>xs n ys task. order = xs @ n # ys \<Longrightarrow> task \<in> set (dag_Tasks dag) \<Longrightarrow> tk_Name task = n
        \<Longrightarrow> set (tk_DependsOn task) \<subseteq> set xs \<union> S"
    and S: "\<And>n. n \<in> S \<Longrightarrow> settled run states ds n"
  shows "\<forall>n \<in> set order. settled run states ds' n"
  using plan ordered S
proof (induction order arbitrary: ds S)
  case (Cons name order)
  have later: "set (tk_DependsOn task) \<subseteq> set xs \<union> insert name S"
    if "order = xs @ n # ys" "task \<in> set (dag_Tasks dag)" "tk_Name task = n" for xs n ys task
    using Cons.prems(2) [of "name # xs" n ys task] that by auto
  have done_here: "\<forall>n \<in> set (name # order). settled run states ds' n"
    if e: "plan run dag stepByTask states stop order e = Inr (ds', [])" and here: "settled run states e name"
      and mono: "dom (map_of ds) \<subseteq> dom (map_of e)" for e
  proof -
    have S': "n \<in> insert name S \<Longrightarrow> settled run states e n" for n
      using here Cons.prems(3) settled_mono mono by blast
    from Cons.IH [OF e later S'] settled_mono [OF here plan_decisions(1) [OF e]] show ?thesis by auto
  qed
  show ?case
  proof (cases "stepByTask name \<noteq> None \<or> map_of (wf_TaskDecisions run) name \<noteq> None")
    case True
    then have "settled run states ds name"
      using resolved trail by (auto simp: settled_def stored_skip_def skips_only_def)
    with True Cons.prems(1) show ?thesis by (intro done_here [of ds]) auto
  next
    case False
    with Cons.prems(1) obtain task where task: "dagTask dag name = Inr task" by (auto simp: rbind_Inr_eq)
    then have "set (tk_DependsOn task) \<subseteq> S" using Cons.prems(2) [of "[]" name order task] dagTask_Inr by auto
    then have "dependenciesResolved task states (wf_TaskDecisions run) ds"
      using Cons.prems(3) by (force simp: dependenciesResolved_iff settled_def)
    with False task Cons.prems(1) obtain reason where
      "plan run dag stepByTask states stop order (AList.update name \<lparr>td_Skipped = True, td_Reason = reason\<rparr> ds) = Inr (ds', [])"
      by (auto simp: rbind_Inr_eq split: if_splits)
    then show ?thesis by (rule done_here) (auto simp: settled_def update_conv')
  qed
qed simp

lemma map_of_mergeDecisions: "map_of (mergeDecisions run ds) = map_of (wf_TaskDecisions run) ++ map_of ds"
  by (simp add: mergeDecisions_def merge_conv')

lemma settled_accounted:
  assumes "settled run states ds n" and "skips_only (wf_TaskDecisions run)" and "skips_only ds"
  shows "task_accounted states (map_of (mergeDecisions run ds)) n"
  using assms
  by (auto simp: settled_def task_accounted_def map_of_mergeDecisions stored_skip_def skips_only_def map_add_def
      split: option.splits)

lemma walker_progress_phase:
  assumes dag: "ValidateDAG dag = Inr ()" "TopologicalSort dag = Inr order"
    and resolved: "\<And>n st. stepByTask n = Some st \<Longrightarrow> n \<in> dom states"
    and trail: "skips_only (wf_TaskDecisions run)"
    and plan: "plan run dag stepByTask states stop order [] = Inr (ds, [])"
  shows "WTerminal (next_workflow_phase run dag steps states ds n)
    \<or> next_workflow_phase run dag steps states ds n = PhaseCancelUnknown"
proof -
  note wn = ValidateDAG_well_named [OF dag(1)]
  note topo = TopologicalSort_order [OF wn(1) dag(2)]
  have ordered: "set (tk_DependsOn task) \<subseteq> set xs \<union> {}"
    if "order = xs @ m # ys" "task \<in> set (dag_Tasks dag)" "tk_Name task = m" for xs m ys task
    using topo(3) that unfolding dep_ordered_def by blast
  have "\<forall>m \<in> set order. settled run states ds m"
    by (rule plan_settles [where S = "{}", OF _ trail plan]) (use resolved ordered in blast)+
  then have "\<forall>m \<in> set (taskNames dag). settled run states ds m"
    using topo(2) by (simp add: taskNames_def task_names_def)
  moreover have "skips_only ds" using plan_decisions(2) [OF plan] by (simp add: skips_only_def)
  ultimately have "\<forall>m \<in> set (taskNames dag). task_accounted states (map_of (mergeDecisions run ds)) m"
    using settled_accounted trail by blast
  then have "WTerminal (fst (DerivePhase (taskNames dag) states (map_of (mergeDecisions run ds))))
      \<and> snd (DerivePhase (taskNames dag) states (map_of (mergeDecisions run ds)))
      \<or> fst (DerivePhase (taskNames dag) states (map_of (mergeDecisions run ds))) = PhaseCancelUnknown"
    by (auto simp: DerivePhase_eq WTerminal_def)
  then show ?thesis by (auto simp: next_workflow_phase_def split: prod.splits)
qed

subsection \<open>A pass over a validated workflow never fails on a condition\<close>

definition conditions_valid :: "DAG \<Rightarrow> bool" where
  "conditions_valid dag \<longleftrightarrow> (\<forall>task \<in> set (dag_Tasks dag). case tk_Condition task of None \<Rightarrow> True
     | Some c \<Rightarrow> \<exists>spec. c = cond_of_spec spec \<and> validateCondition spec (tk_DependsOn task) = Inr ())"

lemma EvaluateCondition_decides:
  assumes "validateCondition spec deps = Inr ()" and "set deps \<subseteq> dom states"
  shows "\<exists>b. EvaluateCondition (Some (cond_of_spec spec)) states = Inr b"
proof -
  have rules: "\<forall>r \<in> set (wc_Rules spec). validate_rule r deps = Inr ()"
    and type: "wc_Type spec = ConditionAll \<or> wc_Type spec = ConditionAny"
    using assms(1) by (auto simp: validateCondition_def validate_rules_all split: if_splits)
  from evaluate_valid [OF rules assms(2)] type show ?thesis
    by (auto simp: EvaluateCondition_def cond_of_spec_def)
qed

lemma taskSkipReason_decides:
  assumes "conditions_valid dag" and "task \<in> set (dag_Tasks dag)"
    and "dependenciesResolved task states stored pass"
  shows "\<exists>r. taskSkipReason task states stored pass = Inr r"
proof (cases "skip_cascade (tk_DependsOn task) states stored pass \<or> tk_Condition task = None")
  case True
  then show ?thesis by (auto simp: taskSkipReason_def)
next
  case False
  then obtain spec where c: "tk_Condition task = Some (cond_of_spec spec)"
      and "validateCondition spec (tk_DependsOn task) = Inr ()"
    using assms(1,2) by (force simp: conditions_valid_def split: option.splits)
  with EvaluateCondition_decides no_cascade_states [OF assms(3)] False
  obtain b where "EvaluateCondition (Some (cond_of_spec spec)) states = Inr b" by blast
  with False c show ?thesis by (auto simp: taskSkipReason_def)
qed

lemma plan_decides:
  assumes "conditions_valid dag" and "set order \<subseteq> set (taskNames dag)"
  shows "\<exists>ds' starts. plan run dag stepByTask states stop order ds = Inr (ds', starts)"
  using assms(2)
proof (induction order arbitrary: ds)
  case (Cons name order)
  then have IH: "\<exists>ds' starts. plan run dag stepByTask states stop order e = Inr (ds', starts)" for e by simp
  have "find (\<lambda>task. tk_Name task = name) (dag_Tasks dag) \<noteq> None"
    using Cons.prems by (auto simp: find_None_iff taskNames_def)
  then obtain task where task: "dagTask dag name = Inr task" by (auto simp: dagTask_def)
  have "\<exists>r. taskSkipReason task states (wf_TaskDecisions run) ds = Inr r"
    if "dependenciesResolved task states (wf_TaskDecisions run) ds"
    using taskSkipReason_decides assms(1) dagTask_Inr [OF task] that by blast
  with IH [of ds] IH [of "AList.update name d ds" for d] task show ?case
    by (auto simp: rbind_Inr_eq) (metis prod.exhaust)+
qed simp

text \<open>The specs the API server admits give such DAGs.\<close>

lemma validate_tasks_condition:
  "validate_tasks names ts = Inr () \<Longrightarrow> t \<in> set ts \<Longrightarrow> wt_Condition t = Some c
   \<Longrightarrow> validateCondition c (wt_DependsOn t) = Inr ()"
  by (induction ts) (auto simp: rbind_Inr_eq wrap_result_def split: option.splits sum.splits)

lemma Validate_conditions_valid:
  assumes "WorkflowJobSpec_Validate spec = Inr ()"
  shows "conditions_valid (DAGFromSpec spec)"
proof -
  obtain names where "validate_tasks names (ws_Tasks spec) = Inr ()"
    using assms by (auto simp: WorkflowJobSpec_Validate_def rbind_Inr_eq split: if_splits)
  then show ?thesis
    by (auto simp: conditions_valid_def DAGFromSpec_def task_of_spec_def dest: validate_tasks_condition split: option.splits)
qed

end
