(* ===== verification/Scheduling.thy ===== *)
theory Scheduling
  imports Reconcile_Laws
begin

section \<open>The scheduler and the run retainer\<close>

text \<open>
  \<open>internal/core/app/controlplane\<close>: \<open>schedule.go\<close> (the occurrences a tick fires, the repair of
  open runs, the concurrency policy, the creation and publication of runs) and
  \<open>retention.go\<close> (the sweep over finished runs). The cron parser is a parameter: what
  \<open>cron.ParseStandard\<close> gives is the next activation strictly after an instant. The RFC 3339
  rendering of the occurrence annotation is a parameter too.

  A tick returns a count and an error; the count that comes with an error is dropped by every
  caller, so a failing computation carries the error alone.
\<close>

definition LabelTenant :: string where "LabelTenant = ''orbitjob.io/tenant''"
definition LabelScheduledJob :: string where "LabelScheduledJob = ''orbitjob.io/scheduled-job-uid''"
definition AnnotationScheduledAt :: string where "AnnotationScheduledAt = ''orbitjob.io/scheduled-at''"
definition ActorScheduler :: string where "ActorScheduler = ''orbitjob-scheduler''"

record 'k Scheduler =
  sc_Publisher :: "'k CRClient"
  sc_Tenants :: "string list"
  sc_Actor :: string
  sc_MisfireGrace :: duration
  sc_ParseSchedule :: "(string \<Rightarrow> (time \<Rightarrow> bool) result) option"
  sc_MaxCatchUp :: int
  sc_cron :: "string \<Rightarrow> (time \<Rightarrow> time) result"
  sc_rfc3339 :: "time \<Rightarrow> string"

subsection \<open>Which activations fire\<close>

definition cronSchedule_Matches :: "(time \<Rightarrow> time) \<Rightarrow> time \<Rightarrow> bool" where
  "cronSchedule_Matches cron_next t \<longleftrightarrow> cron_next (t - second_ns) = t"

function matches_from :: "(time \<Rightarrow> bool) \<Rightarrow> time \<Rightarrow> time \<Rightarrow> time list" where
  "matches_from schedule t stop =
     (if stop < t then []
      else if schedule t then t # matches_from schedule (t + minute_ns) stop
      else matches_from schedule (t + minute_ns) stop)"
  by pat_completeness auto
termination by (relation "measure (\<lambda>(_, t, stop). nat (stop + 1 - t))") auto

declare matches_from.simps [simp del]

definition matchesInWindow :: "(time \<Rightarrow> bool) \<Rightarrow> time \<Rightarrow> duration \<Rightarrow> time list" where
  "matchesInWindow schedule now grace =
     (let start = time_Truncate (now - grace) minute_ns; stop = time_Truncate now minute_ns
      in matches_from schedule start stop)"

definition selectOccurrences ::
    "(time \<Rightarrow> bool) \<Rightarrow> MisfirePolicy \<Rightarrow> time \<Rightarrow> duration \<Rightarrow> int \<Rightarrow> time list" where
  "selectOccurrences schedule policy now grace maxCatchUp =
     (let matches = matchesInWindow schedule now grace in
      if matches = [] then []
      else let newest = [last matches] in
        if time_Sub now (last matches) < minute_ns then newest
        else (case policy of
                Skip \<Rightarrow> []
              | CatchUpBounded \<Rightarrow>
                  (let maxCatchUp = (if maxCatchUp < 1 then 1 else maxCatchUp) in
                   if int (length matches) > maxCatchUp
                     then drop (length matches - nat maxCatchUp) matches
                   else matches)
              | _ \<Rightarrow> newest))"

definition Scheduler_parse :: "'k Scheduler \<Rightarrow> string \<Rightarrow> (time \<Rightarrow> bool) result" where
  "Scheduler_parse s expression =
     (case sc_ParseSchedule s of
        Some parse \<Rightarrow> parse expression
      | None \<Rightarrow> rbind (sc_cron s expression) (\<lambda>parsed. Inr (cronSchedule_Matches parsed)))"

subsection \<open>The published object\<close>

definition Scheduler_actor :: "'k Scheduler \<Rightarrow> string" where
  "Scheduler_actor s = (let v = TrimSpace (sc_Actor s) in if v \<noteq> '''' then v else ActorScheduler)"

definition scheduleAnnotation :: "(time \<Rightarrow> string) \<Rightarrow> time \<Rightarrow> (string \<times> string) list" where
  "scheduleAnnotation rfc3339 t = (if time_IsZero t then [] else [(AnnotationScheduledAt, rfc3339 t)])"

definition jobRunObject ::
    "'k Scheduler \<Rightarrow> Revision \<Rightarrow> ScheduledJobSpec \<Rightarrow> StoredRun \<Rightarrow> string \<Rightarrow> time \<Rightarrow> JobRunObject" where
  "jobRunObject s rv spec state occurrenceKey scheduledAt =
     \<lparr>jo_Meta = \<lparr>om_Name = RunObjectName (id_Name (rev_Identity rv)) occurrenceKey,
        om_Namespace = id_Namespace (rev_Identity rv), om_UID = '''',
        om_Labels = [(LabelTenant, id_Namespace (rev_Identity rv)),
                     (LabelScheduledJob, id_SourceUID (rev_Identity rv))],
        om_Annotations = scheduleAnnotation (sc_rfc3339 s) scheduledAt,
        om_OwnerReferences = [\<lparr>own_Kind = ''ScheduledJob'', own_Name = id_Name (rev_Identity rv),
          own_UID = id_SourceUID (rev_Identity rv), own_Controller = True, own_BlockOwnerDeletion = False\<rparr>]\<rparr>,
      jo_Spec = \<lparr>js_ScheduledJobRef = \<lparr>ref_Name = id_Name (rev_Identity rv),
                                        ref_UID = id_SourceUID (rev_Identity rv)\<rparr>,
        js_DefinitionRevision = sr_RevisionID state, js_Trigger = Schedule,
        js_Actor = Scheduler_actor s, js_OccurrenceKey = occurrenceKey,
        js_TimeoutSeconds = ss_TimeoutSeconds spec, js_CancelRequested = False\<rparr>\<rparr>"

definition Scheduler_Publish :: "'k Scheduler \<Rightarrow> JobRunObject \<Rightarrow> ('k world, unit) io" where
  "Scheduler_Publish s run = Publish (sc_Publisher s) run"

subsection \<open>Firing\<close>

definition repairOpenRuns :: "Ext \<Rightarrow> env \<Rightarrow> 'k Scheduler \<Rightarrow> string \<Rightarrow> Revision \<Rightarrow> ('k world, unit) io" where
  "repairOpenRuns x env s tenant rv =
     io_bind (io_wrap ''list open runs'' (store_call env (\<lambda>_. OpenRuns tenant (id_SourceUID (rev_Identity rv))))) (\<lambda>open.
     io_bind (io_lift (wrap_result ''decode revision'' (ex_decode x (rev_NormalizedSpec rv)))) (\<lambda>spec.
     io_iter (\<lambda>run. io_wrap ''repair run'' (Scheduler_Publish s
        (jobRunObject s rv spec (StoredRun_zero\<lparr>sr_ID := or_ID run, sr_RevisionID := or_RevisionID run,
             sr_Phase := or_Phase run\<rparr>) (or_OccurrenceKey run) 0))) open))"

definition concurrencyAllows ::
    "env \<Rightarrow> string \<Rightarrow> string \<Rightarrow> ConcurrencyPolicy \<Rightarrow> ('k world, bool) io" where
  "concurrencyAllows env tenant sourceUID policy =
     (if policy = OtherConcurrency '''' \<or> policy = Allow then io_return True
      else io_bind (io_wrap ''count open runs'' (store_call env (\<lambda>_. CountOpenRuns tenant sourceUID)))
        (\<lambda>open. io_return (open = 0)))"

text \<open>One pass of the loop over the occurrences to fire, with its contribution to the count.\<close>

definition fire_occurrence ::
    "Ext \<Rightarrow> env \<Rightarrow> 'k Scheduler \<Rightarrow> string \<Rightarrow> Revision \<Rightarrow> ScheduledJobSpec \<Rightarrow> time \<Rightarrow> ('k world, int) io" where
  "fire_occurrence x env s tenant rv spec scheduledAt =
     (let occurrenceKey = OccurrenceKey (ex_sha x) (ex_rfc x) (id_SourceUID (rev_Identity rv)) (rev_ID rv) scheduledAt in
      io_bind (io_wrap ''create run'' (store_call env (\<lambda>_. CreateOccurrenceForTenant tenant
          (JobRun_zero\<lparr>jr_SourceUID := id_SourceUID (rev_Identity rv), jr_RevisionID := itoa (rev_ID rv),
             jr_OccurrenceKey := occurrenceKey, jr_Trigger := Schedule, jr_Phase := Pending\<rparr>)
          (EffectiveMaxAttempts (ss_RetryPolicy spec)) (Scheduler_actor s)))) (\<lambda>(state, isNew).
      if \<not> isNew \<and> Terminal (sr_Phase state) then io_return 0
      else io_bind (io_wrap ''publish run'' (Scheduler_Publish s (jobRunObject s rv spec state occurrenceKey scheduledAt)))
        (\<lambda>_. io_return (if isNew then 1 else 0))))"

definition fireDefinition ::
    "Ext \<Rightarrow> env \<Rightarrow> 'k Scheduler \<Rightarrow> string \<Rightarrow> Revision \<Rightarrow> time \<Rightarrow> duration \<Rightarrow> ('k world, int) io" where
  "fireDefinition x env s tenant rv now grace =
     io_bind (io_lift (wrap_result ''decode revision'' (ex_decode x (rev_NormalizedSpec rv)))) (\<lambda>spec.
     if ss_Suspend spec \<or> ss_Schedule spec = '''' then io_return 0
     else io_bind (io_lift (wrap_result ''invalid schedule'' (Scheduler_parse s (ss_Schedule spec)))) (\<lambda>schedule.
       io_bind (repairOpenRuns x env s tenant rv) (\<lambda>_.
       let occurrences = selectOccurrences schedule (ss_MisfirePolicy spec) now grace (sc_MaxCatchUp s) in
       if occurrences = [] then io_return 0
       else io_bind (concurrencyAllows env tenant (id_SourceUID (rev_Identity rv)) (ss_ConcurrencyPolicy spec)) (\<lambda>allowed.
         if \<not> allowed then io_return 0
         else io_sum (fire_occurrence x env s tenant rv spec) occurrences))))"

definition effective_grace :: "'k Scheduler \<Rightarrow> duration" where
  "effective_grace s = (if sc_MisfireGrace s \<le> 0 then hour_ns else sc_MisfireGrace s)"

definition Scheduler_Tick :: "Ext \<Rightarrow> env \<Rightarrow> 'k Scheduler \<Rightarrow> ('k world, int) io" where
  "Scheduler_Tick x env s =
     io_bind (now_call env) (\<lambda>now.
     io_sum (\<lambda>tenant.
       io_bind (io_wrap ''list active revisions'' (store_call env (\<lambda>_. ActiveRevisions tenant))) (\<lambda>revisions.
       io_sum (\<lambda>rv. io_bind (io_try (fireDefinition x env s tenant rv now (effective_grace s))) (\<lambda>r.
          io_return (case r of Inl _ \<Rightarrow> 0 | Inr count \<Rightarrow> count))) revisions)) (sc_Tenants s))"

subsection \<open>Retention\<close>

definition DefaultSuccessfulHistory :: int where "DefaultSuccessfulHistory = 3"
definition DefaultFailedHistory :: int where "DefaultFailedHistory = 3"

definition historyLimits :: "HistoryPolicy \<Rightarrow> int \<times> int" where
  "historyLimits policy =
     ((if SuccessfulRuns policy \<le> 0 then DefaultSuccessfulHistory else SuccessfulRuns policy),
      (if FailedRuns policy \<le> 0 then DefaultFailedHistory else FailedRuns policy))"

record 'k Retainer =
  re_Remover :: "'k CRClient"
  re_Tenants :: "string list"

definition prune_run :: "env \<Rightarrow> 'k Retainer \<Rightarrow> string \<Rightarrow> Revision \<Rightarrow> PrunableRun \<Rightarrow> ('k world, int) io" where
  "prune_run env r tenant rv run =
     io_bind (io_wrap ''remove job run'' (RunRemover_Remove (re_Remover r) (id_Namespace (rev_Identity rv))
        (id_Name (rev_Identity rv)) (pr_OccurrenceKey run))) (\<lambda>_.
     io_bind (io_wrap ''delete run'' (store_call env (\<lambda>_. DeleteRun tenant (pr_ID run)))) (\<lambda>deleted.
     io_return (if deleted then 1 else 0)))"

definition pruneDefinition :: "Ext \<Rightarrow> env \<Rightarrow> 'k Retainer \<Rightarrow> string \<Rightarrow> Revision \<Rightarrow> ('k world, int) io" where
  "pruneDefinition x env r tenant rv =
     io_bind (io_lift (wrap_result ''decode revision'' (ex_decode x (rev_NormalizedSpec rv)))) (\<lambda>spec.
     case historyLimits (ss_History spec) of (keepSuccessful, keepFailed) \<Rightarrow>
     io_bind (io_wrap ''scan prunable runs'' (store_call env (\<lambda>_.
        PrunableRuns tenant (id_SourceUID (rev_Identity rv)) keepSuccessful keepFailed))) (\<lambda>prunable.
     io_sum (prune_run env r tenant rv) prunable))"

definition Retainer_Sweep :: "Ext \<Rightarrow> env \<Rightarrow> 'k Retainer \<Rightarrow> ('k world, int) io" where
  "Retainer_Sweep x env r =
     io_sum (\<lambda>tenant.
       io_bind (io_wrap ''list active revisions'' (store_call env (\<lambda>_. ActiveRevisions tenant))) (\<lambda>revisions.
       io_sum (pruneDefinition x env r tenant) revisions)) (re_Tenants r)"

end
