(* ===== verification/Scheduling_Laws.thy ===== *)
theory Scheduling_Laws
  imports Scheduling Reconcile_Budget
begin

section \<open>What the scheduler fires\<close>

text \<open>
  The window of activations as a set, what each misfire policy selects from it, and what a
  firing does to the ledger: every selected occurrence ends with exactly one run, a repeated
  firing creates nothing, a definition with open runs is held back by its policy. The locales at the end
  carry the store's guarantees to a whole tick and to a whole retention sweep.
\<close>

subsection \<open>The window\<close>

lemma grid_step:
  fixes m t u :: int
  assumes "0 < m"
  shows "t \<le> u \<and> m dvd (u - t) \<longleftrightarrow> u = t \<or> t + m \<le> u \<and> m dvd (u - (t + m))"
proof -
  have "m dvd (u - (t + m)) \<longleftrightarrow> m dvd (u - t)"
    using dvd_add_triv_right_iff [of m "u - (t + m)"] by simp
  moreover have "u = t \<or> t + m \<le> u" if "t \<le> u" "m dvd (u - t)"
    using that zdvd_imp_le [of m "u - t"] by fastforce
  ultimately show ?thesis using assms by auto
qed

lemma matches_from_set:
  "u \<in> set (matches_from sched t stop) \<longleftrightarrow> (t \<le> u \<and> minute_ns dvd (u - t)) \<and> u \<le> stop \<and> sched u"
proof (induction sched t stop rule: matches_from.induct)
  case (1 sched t stop)
  show ?case
  proof (cases "stop < t")
    case True
    then show ?thesis by (auto simp: matches_from.simps)
  next
    case False
    have "u \<in> set (matches_from sched t stop) \<longleftrightarrow>
        (u = t \<and> sched t) \<or> u \<in> set (matches_from sched (t + minute_ns) stop)"
      using False by (subst matches_from.simps) simp
    also have "\<dots> \<longleftrightarrow> (u = t \<or> t + minute_ns \<le> u \<and> minute_ns dvd (u - (t + minute_ns))) \<and> u \<le> stop \<and> sched u"
      using 1 False by (cases "sched t") auto
    finally show ?thesis by (simp only: grid_step [of minute_ns t u])
  qed
qed

lemma matches_from_sorted: "sorted_wrt (<) (matches_from sched t stop)"
proof (induction sched t stop rule: matches_from.induct)
  case (1 sched t stop)
  then show ?case by (subst matches_from.simps) (auto simp: matches_from_set)
qed

lemma time_Truncate_dvd: "0 < d \<Longrightarrow> d dvd time_Truncate t d"
  by (simp add: time_Truncate_mod dvd_eq_mod_eq_0)

lemma le_time_Truncate: "0 < d \<Longrightarrow> d dvd u \<Longrightarrow> u \<le> time_Truncate t d \<longleftrightarrow> u \<le> t"
proof
  assume d: "0 < d" "d dvd u" and "u \<le> t"
  then have "time_Truncate u d \<le> time_Truncate t d" by (simp add: time_Truncate_mono)
  with d show "u \<le> time_Truncate t d" by (simp add: time_Truncate_def dvd_eq_mod_eq_0)
qed (use time_Truncate_le order_trans in blast)

lemma dvd_diff_grid: "m dvd b \<Longrightarrow> m dvd (u - b) \<longleftrightarrow> m dvd (u::int)"
  by (meson dvd_diff_right_iff dvd_minus_iff dvd_diff_left_iff)

lemma in_matchesInWindow:
  "u \<in> set (matchesInWindow sched now grace) \<longleftrightarrow>
     time_Truncate (now - grace) minute_ns \<le> u \<and> minute_ns dvd u \<and> u \<le> now \<and> sched u"
  unfolding matchesInWindow_def Let_def matches_from_set
    dvd_diff_grid [OF time_Truncate_dvd [of minute_ns "now - grace", OF zero_less_numeral]]
  using le_time_Truncate [of minute_ns u now] by (metis zero_less_numeral)

lemma matchesInWindow_sorted: "sorted_wrt (<) (matchesInWindow sched now grace)"
  by (simp add: matchesInWindow_def Let_def matches_from_sorted)

lemma sorted_last_max: "sorted_wrt (<) xs \<Longrightarrow> x \<in> set xs \<Longrightarrow> x \<le> (last xs :: 'a::linorder)"
  by (induction xs) (auto split: if_splits intro: less_imp_le)

subsection \<open>The selection\<close>

lemma selectOccurrences_suffix: "suffix (selectOccurrences sched policy now grace k) (matchesInWindow sched now grace)"
proof -
  have "suffix [last xs] xs" if "xs \<noteq> []" for xs :: "time list"
    using that by (metis append_butlast_last_id suffix_def)
  then show ?thesis
    by (auto simp: selectOccurrences_def Let_def suffix_drop split: MisfirePolicy.split)
qed

lemma selectOccurrences_length: "int (length (selectOccurrences sched policy now grace k)) \<le> max 1 k"
  by (auto simp: selectOccurrences_def Let_def split: MisfirePolicy.split)

lemma suffix_sorted: "suffix ys xs \<Longrightarrow> sorted_wrt (<) xs \<Longrightarrow> sorted_wrt (<) ys"
  by (auto simp: suffix_def sorted_wrt_append)

lemma selectOccurrences_sound:
  assumes "t \<in> set (selectOccurrences sched policy now grace k)"
  shows "sched t" and "minute_ns dvd t" and "t \<le> now" and "now - grace - minute_ns < t"
proof -
  have "t \<in> set (matchesInWindow sched now grace)"
    using assms selectOccurrences_suffix set_mono_suffix by blast
  then show "sched t" "minute_ns dvd t" "t \<le> now" "now - grace - minute_ns < t"
    using time_Truncate_gt [of minute_ns "now - grace"] unfolding in_matchesInWindow by fastforce+
qed

lemma selectOccurrences_on_time:
  assumes "0 \<le> grace" and "sched (time_Truncate now minute_ns)"
  shows "selectOccurrences sched policy now grace k = [time_Truncate now minute_ns]"
proof -
  let ?m = "matchesInWindow sched now grace" and ?t = "time_Truncate now minute_ns"
  have t: "?t \<in> set ?m" unfolding in_matchesInWindow using assms
    by (intro conjI time_Truncate_dvd time_Truncate_le time_Truncate_mono) simp_all
  have "u \<le> ?t" if "u \<in> set ?m" for u using that le_time_Truncate [of minute_ns u now] unfolding in_matchesInWindow by (metis zero_less_numeral)
  with t have last: "last ?m = ?t"
    using sorted_last_max [OF matchesInWindow_sorted t] by (metis empty_iff last_in_set list.set(1) order_antisym)
  moreover have "time_Sub now ?t < minute_ns"
    using time_Truncate_gt [of minute_ns now] by (simp add: time_Sub_less_iff)
  ultimately show ?thesis using t by (auto simp: selectOccurrences_def Let_def)
qed

text \<open>A late activation: the newest match is at least a minute old.\<close>

lemma selectOccurrences_misfire:
  assumes "matchesInWindow sched now grace \<noteq> []" and "minute_ns \<le> now - last (matchesInWindow sched now grace)"
  shows "selectOccurrences sched Skip now grace k = []"
    and "selectOccurrences sched FireOnce now grace k = [last (matchesInWindow sched now grace)]"
    and "length (selectOccurrences sched CatchUpBounded now grace k)
           = min (nat (max 1 k)) (length (matchesInWindow sched now grace))"
proof -
  have "\<not> time_Sub now (last (matchesInWindow sched now grace)) < minute_ns"
    using assms(2) by (simp add: time_Sub_less_iff)
  with assms(1) show "selectOccurrences sched Skip now grace k = []"
      "selectOccurrences sched FireOnce now grace k = [last (matchesInWindow sched now grace)]"
      "length (selectOccurrences sched CatchUpBounded now grace k)
           = min (nat (max 1 k)) (length (matchesInWindow sched now grace))"
    by (auto simp: selectOccurrences_def Let_def nat_le_iff nat_less_iff)
qed

subsection \<open>Firing\<close>

definition undisturbed :: "env \<Rightarrow> bool" where
  "undisturbed env \<longleftrightarrow> (\<forall>n l. en_other env n l = l)"

lemma undisturbed_quiet [simp]: "undisturbed (quiet now)"
  by (simp add: undisturbed_def quiet_def)

lemma store_call_result:
  assumes "undisturbed env" and "store_call env op w = (r, v)"
  shows "w_cluster v = w_cluster w \<and>
    ((\<exists>now r'. op now (w_ledger w) = (r', w_ledger v) \<and> (\<forall>a. r = Inr a \<longrightarrow> r' = Inr a))
     \<or> w_ledger v = w_ledger w \<and> (\<exists>e. r = Inl e))"
  using assms by (auto simp: store_call_eq undisturbed_def Let_def split: fault.splits prod.splits sum.splits) blast+

lemma kube_call_ledger: "kube_call op w = (r, v) \<Longrightarrow> w_ledger v = w_ledger w"
  by (auto simp: kube_call_def split: prod.splits)

lemma Publish_ledger: "Publish c run w = (r, v) \<Longrightarrow> w_ledger v = w_ledger w"
  by (auto simp: Publish_def io_simps dest!: kube_call_ledger split: if_splits prod.splits sum.splits)

definition recorded :: "string \<Rightarrow> string \<Rightarrow> string \<Rightarrow> ledger \<Rightarrow> bool" where
  "recorded t uid key l \<longleftrightarrow> (\<exists>row \<in> set (lg_runs l). rn_tenant row = t \<and> rn_source_uid row = uid \<and> rn_occurrence_key row = key)"

lemma scanStoredRun_recorded: "scanStoredRun t uid key l = Some s \<Longrightarrow> recorded t uid key l"
  by (auto simp: scanStoredRun_def recorded_def dest!: find_SomeD)

lemma CreateOccurrence_recorded:
  assumes "CreateOccurrenceForTenant t run n a l = (Inr (s, c), m)"
  shows "recorded t (jr_SourceUID run) (jr_OccurrenceKey run) m"
proof -
  from assms obtain l1 where "scanStoredRun t (jr_SourceUID run) (jr_OccurrenceKey run) l1 = Some s"
      and "lg_runs m = lg_runs l1"
    unfolding CreateOccurrenceForTenant_def Let_def
    by (auto simp: io_return_apply io_fail_apply io_lift_apply io_get_def insertControlPlaneAudit_def
        dest!: io_bind_InrD transaction_InrD split: if_splits option.splits)
  with scanStoredRun_recorded show ?thesis by (metis recorded_def)
qed

lemma CreateOccurrence_again:
  assumes "recorded t (jr_SourceUID run) (jr_OccurrenceKey run) l"
    and "CreateOccurrenceForTenant t run n a l = (r, m)"
  shows "m = l \<and> (\<forall>s. r \<noteq> Inr (s, True))"
proof -
  have "insertOccurrenceSQL t (jr_SourceUID run) rid (jr_OccurrenceKey run) tr a p k sc w l = (Inr None, l)"
    for rid tr p k sc w using assms(1) by (auto simp: insertOccurrenceSQL_def recorded_def)
  with assms(2) show ?thesis
    unfolding CreateOccurrenceForTenant_def Let_def WithTenantTransaction_eq WithTenant_def
    by (auto simp: io_simps io_get_def split: if_splits option.splits sum.splits prod.splits)
qed

text \<open>Creating occurrences adds rows and touches none.\<close>

interpretation rows_grow: store_guarantee "\<lambda>l m. set (lg_runs l) \<subseteq> set (lg_runs m)"
  by unfold_locales (auto simp: reflp_def intro: transpI)

lemma CreateOccurrence_grows:
  "io_keeps (\<lambda>l m. set (lg_runs l) \<subseteq> set (lg_runs m)) (CreateOccurrenceForTenant t run n a)"
proof -
  have "io_keeps (\<lambda>l m. set (lg_runs l) \<subseteq> set (lg_runs m)) (insertOccurrenceSQL t s r k tr a p mx sc w)" for s r k tr p mx sc w
    by (auto simp: io_keeps_def insertOccurrenceSQL_def)
  moreover have "io_keeps (\<lambda>l m. set (lg_runs l) \<subseteq> set (lg_runs m)) (insertControlPlaneAudit t a e rs k d)" for e rs k d
    by (auto simp: io_keeps_def insertControlPlaneAudit_def)
  ultimately show ?thesis unfolding CreateOccurrenceForTenant_def Let_def
    by (auto intro!: rows_grow.keeps_transaction rows_grow.keeps_bind rows_grow.keeps_pure rows_grow.keeps_get
        split: option.splits)
qed

lemma recorded_grows: "recorded t uid key l \<Longrightarrow> set (lg_runs l) \<subseteq> set (lg_runs m) \<Longrightarrow> recorded t uid key m"
  by (auto simp: recorded_def)

abbreviation fire_key :: "Ext \<Rightarrow> Revision \<Rightarrow> time \<Rightarrow> string" where
  "fire_key x rv due \<equiv> OccurrenceKey (ex_sha x) (ex_rfc x) (id_SourceUID (rev_Identity rv)) (rev_ID rv) due"

abbreviation fire_run :: "Ext \<Rightarrow> Revision \<Rightarrow> time \<Rightarrow> JobRun" where
  "fire_run x rv due \<equiv> JobRun_zero\<lparr>jr_SourceUID := id_SourceUID (rev_Identity rv), jr_RevisionID := itoa (rev_ID rv),
     jr_OccurrenceKey := fire_key x rv due, jr_Trigger := Schedule, jr_Phase := Pending\<rparr>"

text \<open>One occurrence: what the store call did, and that nothing else touched the ledger.\<close>

lemma fire_occurrence_store:
  assumes quiet: "undisturbed env" and fire: "fire_occurrence x env s t rv spec due w = (r, v)"
  shows "(\<exists>r' n. CreateOccurrenceForTenant t (fire_run x rv due) n (Scheduler_actor s) (w_ledger w) = (r', w_ledger v)
            \<and> (\<forall>k. r = Inr k \<longrightarrow> (\<exists>st c. r' = Inr (st, c) \<and> k = (if c then 1 else 0))))
         \<or> w_ledger v = w_ledger w \<and> (\<exists>e. r = Inl e)"
proof -
  let ?op = "\<lambda>_. CreateOccurrenceForTenant t (fire_run x rv due) (EffectiveMaxAttempts (ss_RetryPolicy spec)) (Scheduler_actor s)"
  obtain r1 w1 where call: "store_call env ?op w = (r1, w1)" by (cases "store_call env ?op w")
  note res = store_call_result [OF quiet call]
  show ?thesis
  proof (cases r1)
    case (Inl e)
    with call fire have "v = w1" "\<exists>e. r = Inl e"
      by (auto simp: fire_occurrence_def Let_def io_bind_apply io_wrap_apply)
    with res Inl show ?thesis by auto
  next
    case (Inr sc)
    obtain st c where sc: "sc = (st, c)" by (cases sc)
    with call fire Inr have "w_ledger v = w_ledger w1" "\<forall>k. r = Inr k \<longrightarrow> k = (if c then 1 else 0)"
      by (auto simp: fire_occurrence_def Let_def io_simps Scheduler_Publish_def wrap_result_def dest!: Publish_ledger
          split: if_splits prod.splits sum.splits)
    moreover have "CreateOccurrenceForTenant t (fire_run x rv due) (EffectiveMaxAttempts (ss_RetryPolicy spec))
        (Scheduler_actor s) (w_ledger w) = (Inr (st, c), w_ledger w1)"
      using res Inr sc by auto
    ultimately show ?thesis
      by (intro disjI1 exI [of _ "Inr (st, c)"] exI [of _ "EffectiveMaxAttempts (ss_RetryPolicy spec)"]) auto
  qed
qed

lemma fire_occurrence_recorded:
  assumes "undisturbed env" and "fire_occurrence x env s t rv spec due w = (r, v)"
  shows "set (lg_runs (w_ledger w)) \<subseteq> set (lg_runs (w_ledger v))"
    and "r = Inr k \<Longrightarrow> recorded t (id_SourceUID (rev_Identity rv)) (fire_key x rv due) (w_ledger v)"
  using fire_occurrence_store [OF assms] io_keepsD' [OF CreateOccurrence_grows]
  by (auto dest!: CreateOccurrence_recorded) fastforce+

lemma fire_sum_recorded:
  assumes "undisturbed env"
  shows "io_sum (fire_occurrence x env s t rv spec) ts w = (r, v) \<Longrightarrow>
    set (lg_runs (w_ledger w)) \<subseteq> set (lg_runs (w_ledger v)) \<and>
    (\<forall>k. r = Inr k \<longrightarrow> (\<forall>due \<in> set ts. recorded t (id_SourceUID (rev_Identity rv)) (fire_key x rv due) (w_ledger v)))"
proof (induction ts arbitrary: w r v)
  case (Cons due ts)
  obtain r1 w1 where first: "fire_occurrence x env s t rv spec due w = (r1, w1)"
    by (cases "fire_occurrence x env s t rv spec due w")
  note step = fire_occurrence_recorded [OF assms first]
  show ?case
  proof (cases r1)
    case (Inl e)
    with Cons.prems first step show ?thesis by (auto simp: io_bind_apply)
  next
    case (Inr n)
    obtain r2 w2 where rest: "io_sum (fire_occurrence x env s t rv spec) ts w1 = (r2, w2)"
      by (cases "io_sum (fire_occurrence x env s t rv spec) ts w1")
    with Cons.prems first Inr have "v = w2" "\<forall>k. r = Inr k \<longrightarrow> (\<exists>n. r2 = Inr n)"
      by (auto simp: io_simps split: sum.splits)
    with Cons.IH [OF rest] step(1) step(2) [OF Inr] show ?thesis
      by (auto intro: recorded_grows)
  qed
qed (auto simp: io_return_apply)

lemma fire_sum_again:
  assumes "undisturbed env"
    and "\<forall>due \<in> set ts. recorded t (id_SourceUID (rev_Identity rv)) (fire_key x rv due) (w_ledger w)"
    and "io_sum (fire_occurrence x env s t rv spec) ts w = (r, v)"
  shows "w_ledger v = w_ledger w \<and> (\<forall>k. r = Inr k \<longrightarrow> k = 0)"
  using assms(2,3)
proof (induction ts arbitrary: w r v)
  case (Cons due ts)
  obtain r1 w1 where first: "fire_occurrence x env s t rv spec due w = (r1, w1)"
    by (cases "fire_occurrence x env s t rv spec due w")
  have "recorded t (jr_SourceUID (fire_run x rv due)) (jr_OccurrenceKey (fire_run x rv due)) (w_ledger w)"
    using Cons.prems(1) by simp
  from fire_occurrence_store [OF assms(1) first] CreateOccurrence_again [OF this]
  have same: "w_ledger w1 = w_ledger w \<and> (\<forall>k. r1 = Inr k \<longrightarrow> k = 0)" by fastforce
  show ?case
  proof (cases r1)
    case (Inl e)
    with Cons.prems first same show ?thesis by (auto simp: io_bind_apply)
  next
    case (Inr n)
    obtain r2 w2 where rest: "io_sum (fire_occurrence x env s t rv spec) ts w1 = (r2, w2)"
      by (cases "io_sum (fire_occurrence x env s t rv spec) ts w1")
    with Cons.prems first Inr have "v = w2" "\<forall>k. r = Inr k \<longrightarrow> (\<exists>m. r2 = Inr m \<and> k = n + m)"
      by (auto simp: io_simps split: sum.splits)
    with Cons.IH [OF _ rest] same Inr Cons.prems(1) show ?thesis by auto
  qed
qed (auto simp: io_return_apply)

subsection \<open>A definition\<close>

lemma OpenRuns_unchanged: "OpenRuns t u l = (r, m) \<Longrightarrow> m = l"
  unfolding OpenRuns_def WithTenantTransaction_eq WithTenant_def
  by (auto simp: io_simps io_get_def split: if_splits)

lemma CountOpenRuns_result: "CountOpenRuns t u l = (r, m) \<Longrightarrow> m = l \<and> (\<forall>k. r = Inr k \<longrightarrow> k = length (open_rows t u l))"
  unfolding CountOpenRuns_def WithTenantTransaction_eq WithTenant_def
  by (auto simp: io_simps io_get_def split: if_splits)

lemma iter_ledger:
  assumes "\<And>x w r v. f x w = (r, v) \<Longrightarrow> w_ledger v = w_ledger w"
  shows "io_iter f xs w = (r, v) \<Longrightarrow> w_ledger v = w_ledger w"
  using assms by (induction xs arbitrary: w) (fastforce simp: io_simps split: prod.splits sum.splits)+

lemma repairOpenRuns_ledger:
  assumes "undisturbed env" and "repairOpenRuns x env s t rv w = (r, v)"
  shows "w_ledger v = w_ledger w"
proof -
  have pub: "io_wrap msg (Scheduler_Publish s run) w1 = (r1, w2) \<Longrightarrow> w_ledger w2 = w_ledger w1" for msg run w1 w2 r1
    by (auto simp: Scheduler_Publish_def io_wrap_apply dest!: Publish_ledger split: prod.splits)
  have loop: "io_iter (\<lambda>run. io_wrap msg (Scheduler_Publish s (g run))) xs w1 = (r1, w2) \<Longrightarrow> w_ledger w2 = w_ledger w1"
    for msg g and xs :: "OpenRun list" and w1 w2 r1 by (rule iter_ledger) (rule pub)
  obtain r0 w0 where call: "store_call env (\<lambda>_. OpenRuns t (id_SourceUID (rev_Identity rv))) w = (r0, w0)"
    by (cases "store_call env (\<lambda>_. OpenRuns t (id_SourceUID (rev_Identity rv))) w")
  have "w_ledger w0 = w_ledger w"
    using store_call_result [OF assms(1) call] OpenRuns_unchanged by (auto 0 3)
  with assms(2) call show ?thesis
    by (cases r0; cases "ex_decode x (rev_NormalizedSpec rv)")
       (auto simp: repairOpenRuns_def io_bind_apply io_wrap_apply io_lift_apply io_fail_apply dest!: loop)
qed

text \<open>What a firing that returns a count did: nothing, or the loop over its occurrences.\<close>

lemma fireDefinition_cases:
  assumes "undisturbed env" and "fireDefinition x env s t rv now grace w = (Inr k, v)"
    and "ex_decode x (rev_NormalizedSpec rv) = Inr spec" and "Scheduler_parse s (ss_Schedule spec) = Inr sched"
  obtains (idle) "k = 0" and "w_ledger v = w_ledger w"
      and "ss_Suspend spec \<or> ss_Schedule spec = [] \<or> selectOccurrences sched (ss_MisfirePolicy spec) now grace (sc_MaxCatchUp s) = []
        \<or> ss_ConcurrencyPolicy spec \<notin> {Allow, OtherConcurrency []} \<and> open_rows t (id_SourceUID (rev_Identity rv)) (w_ledger w) \<noteq> []"
  | (fired) w1 where "w_ledger w1 = w_ledger w"
      and "io_sum (fire_occurrence x env s t rv spec)
             (selectOccurrences sched (ss_MisfirePolicy spec) now grace (sc_MaxCatchUp s)) w1 = (Inr k, v)"
      and "ss_ConcurrencyPolicy spec \<in> {Allow, OtherConcurrency []} \<or> open_rows t (id_SourceUID (rev_Identity rv)) (w_ledger w) = []"
proof (cases "ss_Suspend spec \<or> ss_Schedule spec = []")
  case True
  with assms show thesis by (intro idle) (auto simp: fireDefinition_def io_return_apply)
next
  case False
  let ?occ = "selectOccurrences sched (ss_MisfirePolicy spec) now grace (sc_MaxCatchUp s)"
  let ?uid = "id_SourceUID (rev_Identity rv)"
  from False assms obtain u w1 where rep: "repairOpenRuns x env s t rv w = (Inr u, w1)"
    and rest: "(if ?occ = [] then io_return 0
       else io_bind (concurrencyAllows env t ?uid (ss_ConcurrencyPolicy spec)) (\<lambda>allowed.
         if \<not> allowed then io_return 0 else io_sum (fire_occurrence x env s t rv spec) ?occ)) w1 = (Inr k, v)"
    unfolding fireDefinition_def Let_def by (auto dest!: io_bind_InrD)
  have l1: "w_ledger w1 = w_ledger w" using repairOpenRuns_ledger [OF assms(1) rep] .
  show thesis
  proof (cases "?occ = []")
    case True
    with rest l1 show thesis by (intro idle) (auto simp: io_return_apply)
  next
    case occ: False
    with rest obtain al w2 where conc: "concurrencyAllows env t ?uid (ss_ConcurrencyPolicy spec) w1 = (Inr al, w2)"
      and last: "(if \<not> al then io_return 0 else io_sum (fire_occurrence x env s t rv spec) ?occ) w2 = (Inr k, v)"
      by (auto dest!: io_bind_InrD)
    have l2: "w_ledger w2 = w_ledger w" and al: "al \<longleftrightarrow> ss_ConcurrencyPolicy spec \<in> {Allow, OtherConcurrency []}
        \<or> open_rows t ?uid (w_ledger w) = []"
      using conc l1 by (auto simp: concurrencyAllows_def io_return_apply split: if_splits
          dest!: io_bind_InrD io_wrap_InrD store_call_result [OF assms(1)] CountOpenRuns_result)
    show thesis
    proof (cases al)
      case True
      with last have "io_sum (fire_occurrence x env s t rv spec) ?occ w2 = (Inr k, v)" by simp
      with l2 True al show thesis by (intro fired [of w2]) auto
    next
      case no: False
      with last have "k = 0" "v = w2" by (auto simp: io_return_apply)
      with l2 no al show thesis by (intro idle) auto
    qed
  qed
qed

subsection \<open>What a tick and a sweep keep\<close>

text \<open>The scheduler's interface to the store: reads, and the creation of occurrences.\<close>

locale scheduling_store = process +
  assumes schedule_occurrence: "io_keeps R (CreateOccurrenceForTenant t run m a)"
begin

lemma schedule_reads:
  "io_keeps R (ActiveRevisions t)" "io_keeps R (OpenRuns t u)" "io_keeps R (CountOpenRuns t u)"
  unfolding ActiveRevisions_def OpenRuns_def CountOpenRuns_def
  by (auto intro!: guarantee.keeps_transaction guarantee.keeps_get)

lemmas schedule_calls = store intros iter sum schedule_reads schedule_occurrence

lemma publish_keeps: "io_keeps (on_ledger R) (Scheduler_Publish s run)"
  unfolding Scheduler_Publish_def Publish_def by (auto intro!: schedule_calls split: sum.splits)

lemma fire_keeps: "io_keeps (on_ledger R) (fire_occurrence x env s t rv spec due)"
  unfolding fire_occurrence_def Let_def by (auto intro!: schedule_calls publish_keeps)

lemma fireDefinition_keeps: "io_keeps (on_ledger R) (fireDefinition x env s t rv now grace)"
  unfolding fireDefinition_def repairOpenRuns_def concurrencyAllows_def Let_def
  by (auto intro!: schedule_calls publish_keeps fire_keeps)

lemma Tick_keeps: "io_keeps (on_ledger R) (Scheduler_Tick x env s)"
  unfolding Scheduler_Tick_def by (intro schedule_calls fireDefinition_keeps)

end

text \<open>The retainer's: reads, and the deletion of finished runs.\<close>

locale retention_store = process +
  assumes delete_run: "io_keeps R (DeleteRun t i)"
begin

lemma retention_reads: "io_keeps R (ActiveRevisions t)" "io_keeps R (PrunableRuns t u ks kf)"
  unfolding ActiveRevisions_def PrunableRuns_def
  by (auto intro!: guarantee.keeps_transaction guarantee.keeps_get)

lemmas retention_calls = store intros iter sum retention_reads delete_run

lemma prune_keeps: "io_keeps (on_ledger R) (prune_run env r t rv run)"
  unfolding prune_run_def RunRemover_Remove_def by (auto intro!: retention_calls split: sum.splits)

lemma pruneDefinition_keeps: "io_keeps (on_ledger R) (pruneDefinition x env r t rv)"
  unfolding pruneDefinition_def by (auto intro!: retention_calls prune_keeps split: prod.splits)

lemma Sweep_keeps: "io_keeps (on_ledger R) (Retainer_Sweep x env r)"
  unfolding Retainer_Sweep_def by (intro retention_calls pruneDefinition_keeps)

end

sublocale operator_store \<subseteq> scheduling: scheduling_store R env
  using create_occurrence by unfold_locales

lemma retention_store_evolves:
  assumes "\<And>n l. ledger_evolves l (en_other env n l)"
  shows "retention_store ledger_evolves env"
  using assms ledger_evolves_refl ledger_evolves_trans
  by unfold_locales (auto intro: evolves_DeleteRun)

interpretation quiet_retention: retention_store ledger_evolves "quiet now" for now
  using ledger_evolves_refl by (intro retention_store_evolves) (simp add: quiet_def reflp_def)

subsection \<open>The attempt budget across a tick and a sweep\<close>

abbreviation good_kept :: "ledger \<Rightarrow> ledger \<Rightarrow> bool" where
  "good_kept \<equiv> \<lambda>l m. good l \<longrightarrow> good m"

lemma good_CreateOccurrence: "io_keeps good_kept (CreateOccurrenceForTenant t run n a)"
  unfolding io_keeps_def
proof (intro allI impI)
  fix l
  assume "good l"
  then have "in_budget (lg_run_seq l - 1) 0 l" by (auto simp: in_budget_def good_def ledger_wf_def runs_wf_def)
  from in_budget_op [OF progress_CreateOccurrence wf_CreateOccurrence evolves_CreateOccurrence this prod.collapse [symmetric]]
  show "good (snd (CreateOccurrenceForTenant t run n a l))" by (rule in_budget_good)
qed

lemma good_subset:
  assumes "good l" and "ledger_wf m" and "set (lg_runs m) \<subseteq> set (lg_runs l)" and "set (lg_attempts m) \<subseteq> set (lg_attempts l)"
  shows "good m"
  using assms unfolding good_def budget_ok_def by blast

abbreviation rows_shrunk :: "ledger \<Rightarrow> ledger \<Rightarrow> bool" where
  "rows_shrunk \<equiv> \<lambda>l m. set (lg_runs m) \<subseteq> set (lg_runs l) \<and> set (lg_attempts m) \<subseteq> set (lg_attempts l)"

interpretation rows_shrink: store_guarantee rows_shrunk
  by unfold_locales (auto simp: reflp_def intro!: transpI)

lemma DeleteRun_shrinks:
  "io_keeps rows_shrunk (DeleteRun t i)"
proof -
  have "io_keeps rows_shrunk (deleteRunSQL i t)"
    by (auto simp: io_keeps_def deleteRunSQL_def delete_runs_def Let_def)
  moreover have "io_keeps rows_shrunk
      (insertControlPlaneAudit t a e rs k d)" for a e rs k d
    by (auto simp: io_keeps_def insertControlPlaneAudit_def)
  ultimately show ?thesis unfolding DeleteRun_def
    by (auto intro!: rows_shrink.keeps_transaction rows_shrink.keeps_bind rows_shrink.keeps_pure split: option.splits)
qed

lemma good_DeleteRun: "io_keeps good_kept (DeleteRun t i)"
  unfolding io_keeps_def
proof (intro allI impI)
  fix l
  assume "good l"
  moreover have "ledger_wf (snd (DeleteRun t i l))"
    using \<open>good l\<close> io_keepsD [OF wf_DeleteRun [of t i], of l] by (simp add: good_def)
  ultimately show "good (snd (DeleteRun t i l))"
    using io_keepsD [OF DeleteRun_shrinks [of t i], of l] good_subset [of l] by blast
qed

sublocale bounded_environment \<subseteq> budgeted_scheduling: scheduling_store good_kept env
  using others_good good_CreateOccurrence by unfold_locales (auto simp: reflp_def intro: transpI)

sublocale bounded_environment \<subseteq> budgeted_retention: retention_store good_kept env
  using good_DeleteRun by unfold_locales

end
