(* ===== verification/Walker_Laws.thy ===== *)
theory Walker_Laws
  imports Walker_Plan Scheduling_Laws
begin

section \<open>What the workflow processes keep\<close>

text \<open>
  The interfaces between the workflow code and the workflow ledger, by what the code needs of it: reads only, the recording of a
  phase, and everything. With them the guarantee of every handler, of a whole walker tick and of a whole retention sweep, on
  every path and under every fault.
\<close>

locale walker_reading = process
begin

lemma walker_reads:
  "io_keeps R (RevisionByID t i)" "io_keeps R (WorkflowRunByOccurrence t u k)" "io_keeps R (WorkflowOpenRuns t)"
  "io_keeps R (Steps t i)" "io_keeps R (ActiveRevisions t)" "io_keeps R (ActiveWorkflowRevisions t)"
  "io_keeps R (TerminalOutcome_read t i)" "io_keeps R (PrunableWorkflowRuns t u ks kf)"
  unfolding RevisionByID_def WorkflowRunByOccurrence_def WorkflowOpenRuns_def Steps_def ActiveRevisions_def
    ActiveWorkflowRevisions_def TerminalOutcome_read_def PrunableWorkflowRuns_def withTenantTx_eq
  by (auto intro!: guarantee.keeps_transaction guarantee.keeps_bind guarantee.keeps_get guarantee.keeps_pure
      split: option.splits prod.splits)

lemmas reading_calls = store intros iter sum walker_reads

lemma status_keeps: "io_keeps (on_ledger R) (workflowStatus x env t row)"
  unfolding workflowStatus_def by (intro reading_calls)

lemma patch_workflow_keeps: "io_keeps (on_ledger R) (patchWorkflowStatus x env rt obj t row)"
  unfolding patchWorkflowStatus_def patchStatus_def by (intro reading_calls status_keeps)

lemma patch_by_name_keeps: "io_keeps (on_ledger R) (PatchWorkflowStatusByName x env rt t row)"
  unfolding PatchWorkflowStatusByName_def by (auto intro!: reading_calls status_keeps split: sum.splits)

lemma publisher_keeps:
  "io_keeps (on_ledger R) (Publish c run)" "io_keeps (on_ledger R) (RunPublisher_RequestCancel c ns n)"
  "io_keeps (on_ledger R) (RunRemover_Remove c ns n k)"
  unfolding Publish_def RunPublisher_RequestCancel_def RunRemover_Remove_def
  by (auto intro!: reading_calls split: sum.splits)

lemma pinned_keeps: "io_keeps (on_ledger R) (pinnedDAG x env t run)"
  unfolding pinnedDAG_def Let_def by (auto intro!: reading_calls)

lemma deadline_keeps: "io_keeps (on_ledger R) (deadline_passed env run dag)"
  unfolding deadline_passed_def by (auto intro!: reading_calls)

lemma state_keeps: "io_keeps (on_ledger R) (step_state env t need st)"
  unfolding step_state_def Let_def by (auto intro!: reading_calls)

lemma facts_loop_keeps: "io_keeps (on_ledger R) (step_facts_loop x env t run need byKey ts sb sts)"
  by (induction ts arbitrary: sb sts) (auto intro!: reading_calls state_keeps split: option.splits)

lemma facts_keeps: "io_keeps (on_ledger R) (stepFacts x env w t run dag steps)"
  unfolding stepFacts_def by (rule facts_loop_keeps)

end

locale walker_recording = walker_reading +
  assumes update_phase: "io_keeps R (UpdatePhase now t i p d)"
begin

lemma recordOutcome_keeps: "io_keeps (on_ledger R) (Walker_recordOutcome x env w t run dag steps sts ds n fan index)"
  unfolding Walker_recordOutcome_def fanCancel_def Let_def
  by (auto intro!: reading_calls update_phase publisher_keeps patch_by_name_keeps split: option.splits)

end

locale walker_store = walker_recording +
  assumes create_workflow_run: "io_keeps R (CreateRunForTenant t run)"
    and create_step: "io_keeps R (CreateStepForTenant t i st m a)"
    and prune_workflow: "io_keeps R (PruneRun t i)"
begin

lemma pruner_store:
  "io_keeps R (PrunerStore_PrunableRuns t u ks kf)" "io_keeps R (PrunerStore_DeleteRun t i)"
  unfolding PrunerStore_PrunableRuns_def PrunerStore_DeleteRun_def
  by (auto intro!: guarantee.keeps_bind guarantee.keeps_pure walker_reads prune_workflow split: prod.splits)

lemmas walker_calls = reading_calls pruner_store create_workflow_run create_step update_phase

lemma ReconcileWorkflowRun_keeps: "io_keeps (on_ledger R) (ReconcileWorkflowRun x env rt obj)"
  unfolding ReconcileWorkflowRun_def materializeWorkflowRun_def
  by (auto intro!: walker_calls patch_workflow_keeps split: option.splits prod.splits)

lemma createStep_keeps: "io_keeps (on_ledger R) (createStep x env w t run task index)"
  unfolding createStep_def Let_def by (auto intro!: walker_calls publisher_keeps split: option.splits)

lemma advance_loop_keeps:
  "io_keeps (on_ledger R) (advance_loop x env w t run index dag sb sts stop order ds n)"
proof (induction order arbitrary: ds n)
  case (Cons name order)
  then show ?case by (auto intro!: walker_calls createStep_keeps)
qed (auto intro: walker_calls)

lemma advanceRun_keeps: "io_keeps (on_ledger R) (advanceRun x env w t run index)"
  unfolding advanceRun_def Let_def
  by (auto intro!: walker_calls pinned_keeps facts_keeps deadline_keeps advance_loop_keeps recordOutcome_keeps split: prod.splits)

lemma Walker_Tick_keeps: "io_keeps (on_ledger R) (Walker_Tick x env w)"
  unfolding Walker_Tick_def by (auto intro!: walker_calls advanceRun_keeps)

lemma Workflow_Sweep_keeps: "io_keeps (on_ledger R) (WorkflowRetainer_Sweep x env r)"
  unfolding WorkflowRetainer_Sweep_def WorkflowRetainer_pruneDefinition_def prune_workflow_run_def removeStepObjects_def
  by (auto intro!: walker_calls publisher_keeps split: prod.splits option.splits)

end

lemma walker_store_evolves:
  assumes "\<And>n l. ledger_evolves l (en_other env n l)"
  shows "walker_store ledger_evolves env"
  using assms ledger_evolves_refl ledger_evolves_trans
  by unfold_locales (auto intro: evolves_CreateRun evolves_CreateStep evolves_UpdatePhase evolves_PruneRun)

lemma walker_store_wf:
  assumes "\<And>n l. ledger_wf l \<longrightarrow> ledger_wf (en_other env n l)"
  shows "walker_store (\<lambda>l m. ledger_wf l \<longrightarrow> ledger_wf m) env"
  using assms wf_store.R_refl wf_store.R_trans
  by unfold_locales (auto intro: wf_CreateRun wf_CreateStep wf_UpdatePhase wf_PruneRun)

interpretation quiet_walker: walker_store ledger_evolves "quiet now" for now
  using ledger_evolves_refl by (intro walker_store_evolves) (simp add: quiet_def reflp_def)

subsection \<open>The attempt budget\<close>

text \<open>Steps start at zero attempts, phases leave the run table alone, pruning removes rows.\<close>

lemma progress_CreateStep: "io_keeps (progress i n) (CreateStepForTenant t w st m a)"
  unfolding CreateStepForTenant_def withTenantTx_eq Let_def
  by (auto intro!: progress_intros split: option.splits)

lemma good_CreateStep: "io_keeps good_kept (CreateStepForTenant t w st m a)"
  unfolding io_keeps_def
proof (intro allI impI)
  fix l
  assume "good l"
  then have "in_budget (lg_run_seq l - 1) 0 l" by (auto simp: in_budget_def good_def ledger_wf_def runs_wf_def)
  from in_budget_op [OF progress_CreateStep wf_CreateStep evolves_CreateStep this prod.collapse [symmetric]]
  show "good (snd (CreateStepForTenant t w st m a l))" by (rule in_budget_good)
qed

lemma workflow_ops_shrink:
  "io_keeps rows_shrunk (CreateRunForTenant t run)" "io_keeps rows_shrunk (UpdatePhase now t i p d)"
  "io_keeps rows_shrunk (PruneRun t i)"
proof -
  have statements: "io_keeps rows_shrunk (insertControlPlaneAudit t a e rs k dd)"
    "io_keeps rows_shrunk (insertWorkflowRunSQL t s rid k tr a wp)"
    "io_keeps rows_shrunk (updateWorkflowPhaseSQL i t p d now)"
    "io_keeps rows_shrunk (pruneWorkflowStepsSQL i t)" "io_keeps rows_shrunk (pruneWorkflowRowSQL i t)"
    for a e rs k dd s rid tr wp
    by (auto simp: io_keeps_def insertControlPlaneAudit_def insertWorkflowRunSQL_def updateWorkflowPhaseSQL_def
        pruneWorkflowStepsSQL_def pruneWorkflowRowSQL_def delete_runs_def Let_def)
  note rules = rows_shrink.keeps_transaction rows_shrink.keeps_bind rows_shrink.keeps_pure rows_shrink.keeps_get
    io_keeps_iter [OF rows_shrink.R_refl rows_shrink.R_trans] statements
  show "io_keeps rows_shrunk (CreateRunForTenant t run)" "io_keeps rows_shrunk (UpdatePhase now t i p d)"
      "io_keeps rows_shrunk (PruneRun t i)"
    unfolding CreateRunForTenant_def UpdatePhase_def PruneRun_def withTenantTx_eq
    by (auto intro!: rules split: option.splits)
qed

lemma good_shrinks:
  assumes "io_keeps rows_shrunk op" and "io_keeps wf_kept op"
  shows "io_keeps good_kept op"
  unfolding io_keeps_def
proof (intro allI impI)
  fix l
  assume "good l"
  moreover have "ledger_wf (snd (op l))" using \<open>good l\<close> io_keepsD [OF assms(2), of l] by (simp add: good_def)
  ultimately show "good (snd (op l))" using io_keepsD [OF assms(1), of l] good_subset [of l] by blast
qed

sublocale bounded_environment \<subseteq> budgeted_walker: walker_store good_kept env
  using good_CreateStep good_shrinks [OF workflow_ops_shrink(1) wf_CreateRun]
    good_shrinks [OF workflow_ops_shrink(2) wf_UpdatePhase] good_shrinks [OF workflow_ops_shrink(3) wf_PruneRun]
  by unfold_locales

context operator_store
begin

lemmas schedule_Tick_keeps = scheduling.Tick_keeps

end

context bounded_environment
begin

lemmas budget_Tick = budgeted_scheduling.Tick_keeps
lemmas budget_Sweep = budgeted_retention.Sweep_keeps
lemmas budget_ReconcileWorkflowRun = budgeted_walker.ReconcileWorkflowRun_keeps
lemmas budget_Walker = budgeted_walker.Walker_Tick_keeps
lemmas budget_Workflow_Sweep = budgeted_walker.Workflow_Sweep_keeps

end

lemma good_run:
  assumes "io_keeps (on_ledger good_kept) m" and "good (w_ledger w)"
  shows "good (w_ledger (snd (m w)))"
  using io_keepsD [OF assms(1), of w] assms(2) by (simp add: on_ledger_def)

end
