(* ===== verification/Walker_Starts.thy ===== *)
theory Walker_Starts
  imports Walker_Laws
begin

section \<open>Which steps a pass creates\<close>

text \<open>
  A whole pass of the walker over one workflow run, \<open>advanceRun\<close>, read off the run table: every run it adds, whether it
  succeeds or fails on the way, is a step of a task that was ready, by the rows the table held before.
\<close>

subsection \<open>The rows one step adds\<close>

definition step_key :: "Ext \<Rightarrow> Run \<Rightarrow> string \<Rightarrow> string" where
  "step_key x run name = StepOccurrenceKey (ex_sha x) (wf_SourceUID run) (wf_OccurrenceKey run) name"

definition only_new :: "(RunRow \<Rightarrow> bool) \<Rightarrow> ledger \<Rightarrow> ledger \<Rightarrow> bool" where
  "only_new P l m \<longleftrightarrow> (\<forall>row \<in> set (lg_runs m). row \<in> set (lg_runs l) \<or> P row)"

lemma only_new_refl: "lg_runs m = lg_runs l \<Longrightarrow> only_new P l m"
  by (simp add: only_new_def)

lemma only_new_trans: "only_new P l m \<Longrightarrow> only_new P m n \<Longrightarrow> only_new P l n"
  unfolding only_new_def by blast

interpretation new_rows: store_guarantee "only_new P" for P
  by unfold_locales (auto simp: reflp_def only_new_refl intro!: transpI intro: only_new_trans)

lemma CreateStep_new:
  "io_keeps (only_new (\<lambda>row. rn_tenant row = t \<and> rn_workflow row = Some i \<and> rn_occurrence_key row = st_OccurrenceKey st))
     (CreateStepForTenant t i st n a)"
proof -
  have insert: "io_keeps (only_new (\<lambda>row. rn_tenant row = t \<and> rn_workflow row = Some i \<and> rn_occurrence_key row = k))
      (insertOccurrenceSQL t u r k tr a p n s (Some i))" for u r k tr a p n s
    by (auto simp: io_keeps_def insertOccurrenceSQL_def only_new_def)
  have audit: "io_keeps (only_new P) (insertControlPlaneAudit t a e rs k d)" for P a e rs k d
    by (auto simp: io_keeps_def insertControlPlaneAudit_def only_new_def)
  show ?thesis unfolding CreateStepForTenant_def withTenantTx_eq Let_def
    by (auto intro!: new_rows.keeps_transaction new_rows.keeps_bind new_rows.keeps_get new_rows.keeps_pure insert audit
        split: option.splits)
qed

lemma process_undisturbed: "undisturbed env \<Longrightarrow> reflp R \<Longrightarrow> transp R \<Longrightarrow> process R env"
  by unfold_locales (auto simp: undisturbed_def reflp_def)

lemma createStep_new:
  assumes "undisturbed env"
  shows "io_keeps (on_ledger (only_new (\<lambda>row. rn_tenant row = t \<and> rn_workflow row = Some (wf_ID run)
     \<and> rn_occurrence_key row = step_key x run (tk_Name task)))) (createStep x env w t run task index)"
proof -
  let ?R = "only_new (\<lambda>row. rn_tenant row = t \<and> rn_workflow row = Some (wf_ID run) \<and> rn_occurrence_key row = step_key x run (tk_Name task))"
  have p: "walker_reading ?R env"
    using process_undisturbed [OF assms new_rows.R_refl new_rows.R_trans] by (simp add: walker_reading_def)
  have "io_keeps ?R (CreateStepForTenant t (wf_ID run) (StepRun_zero\<lparr>st_SourceUID := u, st_RevisionID := r, st_OccurrenceKey := step_key x run (tk_Name task),
      st_Trigger := tr, st_Phase := ph\<rparr>) n a)" for u r tr ph n a
    using CreateStep_new [of t "wf_ID run" "StepRun_zero\<lparr>st_SourceUID := u, st_RevisionID := r, st_OccurrenceKey := step_key x run (tk_Name task),
      st_Trigger := tr, st_Phase := ph\<rparr>"] by simp
  then show ?thesis unfolding createStep_def Let_def step_key_def
    by (auto intro!: walker_reading.reading_calls [OF p, unfolded step_key_def] walker_reading.publisher_keeps [OF p, unfolded step_key_def]
        split: option.splits)
qed

subsection \<open>The rows a sweep adds\<close>

lemma advance_loop_new:
  assumes "undisturbed env"
  shows "io_keeps (on_ledger (only_new (\<lambda>row. stop = [] \<and> (\<exists>task. startable run dag stepByTask states task \<and> rn_tenant row = t
     \<and> rn_workflow row = Some (wf_ID run) \<and> rn_occurrence_key row = step_key x run (tk_Name task)))))
     (advance_loop x env w t run index dag stepByTask states stop order ds n)"
proof (induction order arbitrary: ds n)
  let ?P = "\<lambda>row. stop = [] \<and> (\<exists>task. startable run dag stepByTask states task \<and> rn_tenant row = t
     \<and> rn_workflow row = Some (wf_ID run) \<and> rn_occurrence_key row = step_key x run (tk_Name task))"
  have p: "process (only_new Q) env" for Q using process_undisturbed [OF assms new_rows.R_refl new_rows.R_trans] .
  note calls = process.pure [OF p] process.bind [OF p]
  {
    case Nil
    show ?case by (simp add: calls)
  next
    case (Cons name order)
    have "io_keeps (on_ledger (only_new ?P)) (createStep x env w t run task index)"
      if "dagTask dag name = Inr task" "stepByTask name = None" "map_of (wf_TaskDecisions run) name = None"
        "dependenciesResolved task states (wf_TaskDecisions run) ds" "stop = []"
        "taskSkipReason task states (wf_TaskDecisions run) ds = Inr []" for task
    proof -
      have "startable run dag stepByTask states task"
        using taskSkipReason_start [OF that(6,4)] dagTask_Inr [OF that(1)] that(2,3) by (auto simp: startable_def)
      then show ?thesis using createStep_new [OF assms, of t run x task w index] that(5)
        by (auto simp: io_keeps_def on_ledger_def only_new_def)
    qed
    note start = this
    show ?case
    proof (cases "stepByTask name \<noteq> None \<or> map_of (wf_TaskDecisions run) name \<noteq> None")
      case True then show ?thesis using Cons.IH by simp
    next
      case new: False
      show ?thesis
      proof (cases "dagTask dag name")
        case (Inl e) with new show ?thesis by (simp add: calls)
      next
        case (Inr task)
        show ?thesis
        proof (cases "dependenciesResolved task states (wf_TaskDecisions run) ds \<and> stop = []")
          case True
          with new Inr Cons.IH start [OF Inr] show ?thesis
            by (cases "taskSkipReason task states (wf_TaskDecisions run) ds") (auto intro!: calls)
        next
          case False with new Inr Cons.IH show ?thesis by (auto intro!: calls)
        qed
      qed
    qed
  }
qed

subsection \<open>What the facts of the steps are read from\<close>

lemma scan_steps_rows:
  "scan_steps rows = Inr sts \<Longrightarrow> st \<in> set sts \<Longrightarrow> \<exists>row \<in> set rows. rn_workflow row = Some (st_WorkflowRunID st)
     \<and> rn_occurrence_key row = st_OccurrenceKey st \<and> rn_phase row = st_Phase st \<and> rn_attempt row = st_Attempt st"
  by (induction rows arbitrary: sts) (auto simp: rbind_Inr_eq scan_step_def split: option.splits)

lemma scan_steps_all: "scan_steps rows = Inr sts \<Longrightarrow> row \<in> set rows \<Longrightarrow> \<exists>st \<in> set sts. st_Phase st = rn_phase row"
  by (induction rows arbitrary: sts) (auto simp: rbind_Inr_eq scan_step_def split: option.splits)

lemma Steps_scan: "Steps t i l = (Inr sts, m) \<Longrightarrow> scan_steps (step_rows t i l) = Inr sts"
  unfolding Steps_def withTenantTx_eq by (auto simp: io_get_def io_lift_apply dest!: transaction_InrD io_bind_InrD)

lemma Steps_rows:
  assumes "Steps t i l = (Inr sts, m)" and "st \<in> set sts"
  shows "\<exists>row \<in> set (lg_runs l). rn_tenant row = t \<and> rn_workflow row = Some i \<and> rn_occurrence_key row = st_OccurrenceKey st
    \<and> rn_phase row = st_Phase st \<and> rn_attempt row = st_Attempt st"
  using scan_steps_rows [OF Steps_scan [OF assms(1)] assms(2)] by (auto simp: step_rows_def)

lemma Steps_all:
  assumes "Steps t i l = (Inr sts, m)" and "row \<in> set (lg_runs l)" "rn_tenant row = t" "rn_workflow row = Some i"
  shows "\<exists>st \<in> set sts. st_Phase st = rn_phase row"
  using scan_steps_all [OF Steps_scan [OF assms(1)]] assms(2-4) by (auto simp: step_rows_def)

lemma steps_by_key_member: "steps_by_key sts k = Some st \<Longrightarrow> st \<in> set sts \<and> st_OccurrenceKey st = k"
proof -
  have "foldl (\<lambda>acc st. acc(st_OccurrenceKey st \<mapsto> st)) f sts k = Some st
      \<Longrightarrow> (st \<in> set sts \<and> st_OccurrenceKey st = k) \<or> f k = Some st" for f
  proof (induction sts arbitrary: f)
    case (Cons a sts) from Cons.IH [of "f(st_OccurrenceKey a \<mapsto> a)"] Cons.prems show ?case by (auto split: if_splits)
  qed simp
  then show "steps_by_key sts k = Some st \<Longrightarrow> st \<in> set sts \<and> st_OccurrenceKey st = k" by (fastforce simp: steps_by_key_def)
qed

definition facts_from :: "Ext \<Rightarrow> Run \<Rightarrow> StepRun list \<Rightarrow> (string \<rightharpoonup> StepState) \<Rightarrow> bool" where
  "facts_from x run sts states \<longleftrightarrow> (\<forall>n s. states n = Some s \<longrightarrow> (\<exists>st \<in> set sts. st_OccurrenceKey st = step_key x run n
     \<and> step_resolved st \<and> ss_Phase s = st_Phase st \<and> ss_Attempt s = st_Attempt st))"

lemma step_state_fields: "step_state env t need st w = (Inr s, v) \<Longrightarrow> ss_Phase s = st_Phase st \<and> ss_Attempt s = st_Attempt st"
  by (auto simp: step_state_def Let_def io_return_apply split: if_splits sum.splits dest!: io_bind_InrD)

lemma facts_loop_from:
  assumes "step_facts_loop x env t run need (steps_by_key sts) tasks sb states w = (Inr (sb', states'), v)" and "facts_from x run sts states"
  shows "facts_from x run sts states'"
  using assms
proof (induction tasks arbitrary: sb states w)
  case Nil then show ?case by (simp add: io_return_apply)
next
  case (Cons task tasks)
  show ?case
  proof (cases "steps_by_key sts (step_key x run (tk_Name task))")
    case None with Cons show ?thesis by (simp add: step_key_def)
  next
    case (Some st)
    note st = steps_by_key_member [OF Some]
    show ?thesis
    proof (cases "step_resolved st")
      case False with Cons Some show ?thesis by (simp add: step_key_def)
    next
      case True
      with Cons.prems(1) Some obtain s u where s: "step_state env t need st w = (Inr s, u)"
        and rest: "step_facts_loop x env t run need (steps_by_key sts) tasks (sb(tk_Name task \<mapsto> st)) (states(tk_Name task \<mapsto> s)) u
          = (Inr (sb', states'), v)" by (auto simp: step_key_def dest!: io_bind_InrD)
      have "facts_from x run sts (states(tk_Name task \<mapsto> s))"
        using Cons.prems(2) step_state_fields [OF s] st True by (auto simp: facts_from_def)
      with rest show ?thesis by (rule Cons.IH)
    qed
  qed
qed

subsection \<open>A whole pass\<close>

text \<open>
  A task is ready by the rows of a ledger: it is undecided, its condition holds in a state read from resolved steps of
  the run, and every dependency has such a step; and the run is not being canceled.
\<close>

definition step_ready :: "Ext \<Rightarrow> string \<Rightarrow> Run \<Rightarrow> DAG \<Rightarrow> ledger \<Rightarrow> Task \<Rightarrow> bool" where
  "step_ready x t run dag l task \<longleftrightarrow> task \<in> set (dag_Tasks dag) \<and> map_of (wf_TaskDecisions run) (tk_Name task) = None
     \<and> wf_Phase run \<noteq> PhaseCancelRequested \<and> wf_Phase run \<noteq> PhaseCancelUnknown
     \<and> (dag_FailPolicy dag = FailFast \<longrightarrow> (\<forall>row \<in> set (lg_runs l). rn_tenant row = t \<longrightarrow> rn_workflow row = Some (wf_ID run) \<longrightarrow> rn_phase row \<noteq> Failed))
     \<and> (\<exists>states. set (tk_DependsOn task) \<subseteq> dom states \<and> EvaluateCondition (tk_Condition task) states = Inr True
       \<and> (\<forall>d s. states d = Some s \<longrightarrow> (\<exists>row \<in> set (lg_runs l). rn_tenant row = t \<and> rn_workflow row = Some (wf_ID run)
            \<and> rn_occurrence_key row = step_key x run d \<and> (Terminal (rn_phase row) \<or> rn_phase row = CancelUnknown)
            \<and> ss_Phase s = rn_phase row \<and> ss_Attempt s = rn_attempt row)))"

lemma eq_on_ledger: "io_keeps (on_ledger (=)) m \<Longrightarrow> m w = (r, v) \<Longrightarrow> w_ledger v = w_ledger w"
  by (auto simp: on_ledger_def dest!: io_keepsD')

lemma bind_reads:
  assumes "io_keeps (on_ledger (=)) m" and "io_bind m f w = (r, v)" and "w_ledger v \<noteq> w_ledger w"
  obtains a u where "m w = (Inr a, u)" "w_ledger u = w_ledger w" "f a u = (r, v)"
proof -
  obtain ra u where m: "m w = (ra, u)" by (cases "m w")
  with assms eq_on_ledger [OF assms(1) m] that show thesis by (cases ra) (auto simp: io_bind_apply)
qed

lemma Steps_call:
  assumes "undisturbed env" and "io_wrap msg (store_call env (\<lambda>_. Steps t i)) w = (Inr sts, v)"
  shows "\<exists>m. Steps t i (w_ledger w) = (Inr sts, m)"
  using store_call_result [OF assms(1) io_wrap_InrD [OF assms(2)]] by auto

lemma facts_ready:
  assumes facts: "facts_from x run sts states" and steps: "Steps t (wf_ID run) l = (Inr sts, m)"
    and start: "startable run dag sb states task"
    and stop: "sweepStopReason (wf_Phase run = PhaseCancelRequested \<or> wf_Phase run = PhaseCancelUnknown)
      (dag_FailPolicy dag = FailFast \<and> anyStepFailed sts) late = []"
  shows "step_ready x t run dag l task"
proof -
  have "\<exists>row \<in> set (lg_runs l). rn_tenant row = t \<and> rn_workflow row = Some (wf_ID run)
      \<and> rn_occurrence_key row = step_key x run d \<and> (Terminal (rn_phase row) \<or> rn_phase row = CancelUnknown)
      \<and> ss_Phase s = rn_phase row \<and> ss_Attempt s = rn_attempt row" if s: "states d = Some s" for d s
  proof -
    from facts s obtain st where "st \<in> set sts" "st_OccurrenceKey st = step_key x run d" "step_resolved st"
      "ss_Phase s = st_Phase st" "ss_Attempt s = st_Attempt st" by (auto simp: facts_from_def)
    with Steps_rows [OF steps] show ?thesis by (fastforce simp: step_resolved_def)
  qed
  moreover have "rn_phase row \<noteq> Failed" if "dag_FailPolicy dag = FailFast" "row \<in> set (lg_runs l)" "rn_tenant row = t"
      "rn_workflow row = Some (wf_ID run)" for row
    using Steps_all [OF steps that(2-4)] that(1) stop
    by (auto simp: sweepStopReason_def anyStepFailed_def list_ex_iff ReasonFailFast_def ReasonCanceled_def split: if_splits)
  ultimately show ?thesis using start stop
    unfolding step_ready_def startable_def sweepStopReason_def ReasonCanceled_def by (auto split: if_splits)
qed

definition started :: "Ext \<Rightarrow> string \<Rightarrow> Run \<Rightarrow> DAG \<Rightarrow> ledger \<Rightarrow> RunRow \<Rightarrow> bool" where
  "started x t run dag l row \<longleftrightarrow> (\<exists>task. step_ready x t run dag l task \<and> rn_tenant row = t
     \<and> rn_workflow row = Some (wf_ID run) \<and> rn_occurrence_key row = step_key x run (tk_Name task))"

lemma sweep_new:
  assumes env: "undisturbed env" and facts: "facts_from x run sts states" "Steps t (wf_ID run) l = (Inr sts, m)"
  shows "io_keeps (on_ledger (only_new (started x t run dag l)))
    (let canceling = (wf_Phase run = PhaseCancelRequested \<or> wf_Phase run = PhaseCancelUnknown);
         failFastTripped = (dag_FailPolicy dag = FailFast \<and> anyStepFailed sts)
     in io_bind (deadline_passed env run dag) (\<lambda>deadlinePassed.
     io_bind (io_lift (wrap_result ''order workflow run'' (TopologicalSort dag))) (\<lambda>order.
     io_bind (advance_loop x env w t run index dag stepByTask states
        (sweepStopReason canceling failFastTripped deadlinePassed) order [] 0) (\<lambda>(decisions, created).
     io_bind (Walker_recordOutcome x env w t run dag sts states decisions created
        (canceling \<or> deadlinePassed) index) (\<lambda>_. io_return created)))))"
proof -
  let ?R = "only_new (started x t run dag l)"
  have "io_keeps ?R (UpdatePhase now t i p d)" for now t i p d
    using workflow_ops_shrink(2) [of now t i p d] unfolding io_keeps_def only_new_def by blast
  then have rec: "walker_recording ?R env"
    using process_undisturbed [OF env new_rows.R_refl new_rows.R_trans]
    by (simp add: walker_recording_def walker_recording_axioms_def walker_reading_def)
  then have read: "walker_reading ?R env" by (simp add: walker_recording_def)
  let ?stop = "\<lambda>late. sweepStopReason (wf_Phase run = PhaseCancelRequested \<or> wf_Phase run = PhaseCancelUnknown)
      (dag_FailPolicy dag = FailFast \<and> anyStepFailed sts) late"
  have "io_keeps (on_ledger ?R) (advance_loop x env w t run index dag stepByTask states (?stop late) order [] 0)" for late order
    using advance_loop_new [OF env, of "?stop late" run dag stepByTask states t x w index order "[]" 0] facts_ready [OF facts]
    by (fastforce simp: io_keeps_def on_ledger_def only_new_def started_def)
  then show ?thesis unfolding Let_def
    by (auto intro!: walker_reading.reading_calls [OF read] walker_reading.deadline_keeps [OF read]
        walker_recording.recordOutcome_keeps [OF rec] split: prod.splits)
qed

lemma advanceRun_new:
  assumes env: "undisturbed env" and run: "advanceRun x env w t run index v = (r, v')"
    and row: "row \<in> set (lg_runs (w_ledger v'))" "row \<notin> set (lg_runs (w_ledger v))"
  shows "\<exists>dag u. pinnedDAG x env t run v = (Inr dag, u) \<and> started x t run dag (w_ledger v) row"
proof -
  have eq: "walker_reading (=) env" using process_undisturbed [OF env] by (simp add: walker_reading_def reflp_def transp_def)
  note reads = walker_reading.reading_calls [OF eq]
  have changed: "w_ledger v' \<noteq> w_ledger v" using row by auto
  show ?thesis
  proof (rule bind_reads [OF walker_reading.pinned_keeps [OF eq] run [unfolded advanceRun_def] changed], goal_cases)
    case (1 dag u1)
    note dag = this
    show ?case
    proof (rule bind_reads [OF _ dag(3)], goal_cases)
      case (3 sts u2)
      note sts = this
      show ?case
      proof (rule bind_reads [OF walker_reading.facts_keeps [OF eq] sts(3)], goal_cases)
        case (2 facts u3)
        obtain sb states where facts: "facts = (sb, states)" by (cases facts)
        from Steps_call [OF env sts(1)] dag(2) obtain m where steps: "Steps t (wf_ID run) (w_ledger v) = (Inr sts, m)" by auto
        have "facts_from x run sts states"
          using facts_loop_from [OF 2(1) [unfolded facts stepFacts_def]] by (simp add: facts_from_def)
        from io_keepsD' [OF sweep_new [OF env this steps] 2(3) [unfolded facts prod.case]]
        show ?case using row 2(2) sts(2) dag(1,2) by (auto simp: on_ledger_def only_new_def)
      qed (use changed dag sts in auto)
    qed (use changed dag in \<open>auto intro!: reads\<close>)
  qed
qed

end
