(* ===== verification/Policy.thy ===== *)
theory Policy
  imports Go_Split
begin

section \<open>The policy engine\<close>

text \<open>
  \<open>internal/core/domain/policy\<close>: resource names (\<open>arn.go\<close>), policy documents (\<open>document.go\<close>), the decision
  (\<open>evaluate.go\<close>), what may be delegated (\<open>subset.go\<close>, \<open>guard.go\<close>), permission boundaries (\<open>intersect.go\<close>),
  presets (\<open>self.go\<close>, \<open>record.go\<close>) and what a tenant may write (\<open>actions.go\<close>). Decoding a document from JSON
  is the parameter of \<open>ParseDocument\<close>.
\<close>

subsection \<open>Resource names\<close>

record ARN =
  arn_Tenant :: string
  arn_Group :: string
  arn_Type :: string
  arn_ID :: string

definition ParseARN :: "string \<Rightarrow> ARN result" where
  "ParseARN s =
     (case Split CHR '':'' s of
        [p0, p1, p2, p3] \<Rightarrow>
          if p0 \<noteq> ''orbitjob'' then Inl (Errorf ''malformed arn'')
          else (case Cut CHR ''/'' p3 of (ty, i, found) \<Rightarrow>
            if \<not> found \<or> ty = '''' \<or> i = '''' then Inl (Errorf ''malformed arn'')
            else Inr \<lparr>arn_Tenant = p1, arn_Group = p2, arn_Type = ty, arn_ID = i\<rparr>)
      | _ \<Rightarrow> Inl (Errorf ''malformed arn''))"

definition ARN_String :: "ARN \<Rightarrow> string" where
  "ARN_String a = ''orbitjob:'' @ arn_Tenant a @ '':'' @ arn_Group a @ '':'' @ arn_Type a @ ''/'' @ arn_ID a"

definition segmentMatches :: "string \<Rightarrow> string \<Rightarrow> bool" where
  "segmentMatches pat val \<longleftrightarrow> pat = ''*'' \<or> pat = val"

definition groupMatches :: "string \<Rightarrow> string \<Rightarrow> bool" where
  "groupMatches pat val \<longleftrightarrow> pat = '''' \<or> pat = ''*'' \<or> pat = val"

definition ARN_Matches :: "ARN \<Rightarrow> ARN \<Rightarrow> bool" where
  "ARN_Matches pat target \<longleftrightarrow>
     segmentMatches (arn_Tenant pat) (arn_Tenant target) \<and> groupMatches (arn_Group pat) (arn_Group target)
     \<and> segmentMatches (arn_Type pat) (arn_Type target) \<and> segmentMatches (arn_ID pat) (arn_ID target)"

subsection \<open>Documents\<close>

datatype Effect = EffectAllow | EffectDeny | OtherEffect string

record Statement =
  stmt_Effect :: Effect
  stmt_Action :: "string list"
  stmt_Resource :: "string list"

record Document =
  doc_Version :: string
  doc_Statement :: "Statement list"

fun parse_patterns :: "string list \<Rightarrow> unit result" where
  "parse_patterns [] = Inr ()"
| "parse_patterns (pat # pats) = rbind (wrap_result ''statement'' (ParseARN pat)) (\<lambda>_. parse_patterns pats)"

fun parse_statements :: "Statement list \<Rightarrow> unit result" where
  "parse_statements [] = Inr ()"
| "parse_statements (s # ss) =
     (if stmt_Effect s \<noteq> EffectAllow \<and> stmt_Effect s \<noteq> EffectDeny
        then Inl (Errorf ''statement has unknown effect'')
      else if stmt_Action s = [] then Inl (Errorf ''statement has no actions'')
      else if stmt_Resource s = [] then Inl (Errorf ''statement has no resources'')
      else rbind (parse_patterns (stmt_Resource s)) (\<lambda>_. parse_statements ss))"

definition ParseDocument :: "(string \<Rightarrow> Document result) \<Rightarrow> string \<Rightarrow> Document result" where
  "ParseDocument decode raw =
     rbind (wrap_result ''decode policy document'' (decode raw)) (\<lambda>doc.
     if doc_Statement doc = [] then Inl (Errorf ''policy document has no statements'')
     else rbind (parse_statements (doc_Statement doc)) (\<lambda>_. Inr doc))"

subsection \<open>The decision\<close>

record Request =
  req_Action :: string
  req_Resource :: ARN

datatype Decision = DecisionAllow | DecisionDeny

definition WildcardAction :: string where "WildcardAction = ''*''"

fun patterns_match :: "string list \<Rightarrow> ARN \<Rightarrow> bool" where
  "patterns_match [] target = False"
| "patterns_match (pat # pats) target =
     (case ParseARN pat of
        Inl _ \<Rightarrow> patterns_match pats target
      | Inr arn \<Rightarrow> if ARN_Matches arn target then True else patterns_match pats target)"

definition Statement_matches :: "Statement \<Rightarrow> Request \<Rightarrow> bool" where
  "Statement_matches s req =
     (if req_Action req \<notin> set (stmt_Action s) \<and> WildcardAction \<notin> set (stmt_Action s) then False
      else patterns_match (stmt_Resource s) (req_Resource req))"

text \<open>The two loops carry whether an allow was seen; \<open>None\<close> is the early return on a deny.\<close>

fun evaluate_statements :: "Request \<Rightarrow> Statement list \<Rightarrow> bool \<Rightarrow> bool option" where
  "evaluate_statements req [] allowed = Some allowed"
| "evaluate_statements req (s # ss) allowed =
     (if \<not> Statement_matches s req then evaluate_statements req ss allowed
      else if stmt_Effect s = EffectDeny then None
      else evaluate_statements req ss True)"

fun evaluate_docs :: "Request \<Rightarrow> Document list \<Rightarrow> bool \<Rightarrow> bool option" where
  "evaluate_docs req [] allowed = Some allowed"
| "evaluate_docs req (d # ds) allowed =
     (case evaluate_statements req (doc_Statement d) allowed of
        None \<Rightarrow> None
      | Some allowed \<Rightarrow> evaluate_docs req ds allowed)"

definition Evaluate :: "Document list \<Rightarrow> Request \<Rightarrow> Decision" where
  "Evaluate docs req = (if evaluate_docs req docs False = Some True then DecisionAllow else DecisionDeny)"

subsection \<open>Delegation and boundaries\<close>

definition probeSegment :: string where "probeSegment = ''probe00000000000000000000''"

definition concreteTarget :: "string \<Rightarrow> ARN result" where
  "concreteTarget pat = rbind (ParseARN pat) (\<lambda>arn. Inr
     \<lparr>arn_Tenant = (if arn_Tenant arn = ''*'' then probeSegment else arn_Tenant arn),
      arn_Group = (if arn_Group arn = '''' \<or> arn_Group arn = ''*'' then probeSegment else arn_Group arn),
      arn_Type = (if arn_Type arn = ''*'' then probeSegment else arn_Type arn),
      arn_ID = (if arn_ID arn = ''*'' then probeSegment else arn_ID arn)\<rparr>)"

fun actionEffective :: "string \<Rightarrow> string list \<Rightarrow> Document list \<Rightarrow> bool" where
  "actionEffective action [] superset = True"
| "actionEffective action (pat # pats) superset =
     (case concreteTarget pat of
        Inl _ \<Rightarrow> False
      | Inr target \<Rightarrow>
          if Evaluate superset \<lparr>req_Action = action, req_Resource = target\<rparr> \<noteq> DecisionAllow then False
          else actionEffective action pats superset)"

definition everyAtomEffective :: "Statement \<Rightarrow> Document list \<Rightarrow> bool" where
  "everyAtomEffective s superset = list_all (\<lambda>action. actionEffective action (stmt_Resource s) superset) (stmt_Action s)"

definition Permits :: "Document list \<Rightarrow> Document list \<Rightarrow> bool" where
  "Permits sub superset =
     list_all (\<lambda>doc. list_all (\<lambda>s. stmt_Effect s \<noteq> EffectAllow \<or> everyAtomEffective s superset)
       (doc_Statement doc)) sub"

definition CheckGrantable :: "Document list \<Rightarrow> Document list \<Rightarrow> unit result" where
  "CheckGrantable caller granted = (if Permits granted caller then Inr () else Inl ErrPrivilegeEscalation)"

definition PropagateBoundary :: "Document option \<Rightarrow> Document option \<Rightarrow> Document option result" where
  "PropagateBoundary callerBoundary requested =
     (case callerBoundary of
        None \<Rightarrow> Inr requested
      | Some cb \<Rightarrow>
          (case requested of
             None \<Rightarrow> Inr (Some cb)
           | Some rq \<Rightarrow> if \<not> Permits [rq] [cb] then Inl ErrPrivilegeEscalation else Inr (Some rq)))"

definition kept_atom :: "Document \<Rightarrow> string \<Rightarrow> string \<Rightarrow> Statement list" where
  "kept_atom boundary action res =
     (case concreteTarget res of
        Inl _ \<Rightarrow> []
      | Inr target \<Rightarrow>
          if Evaluate [boundary] \<lparr>req_Action = action, req_Resource = target\<rparr> \<noteq> DecisionAllow then []
          else [\<lparr>stmt_Effect = EffectAllow, stmt_Action = [action], stmt_Resource = [res]\<rparr>])"

definition kept_statements :: "Document \<Rightarrow> Statement \<Rightarrow> Statement list" where
  "kept_statements boundary s =
     (if stmt_Effect s = EffectDeny then [s]
      else concat (map (\<lambda>action. concat (map (kept_atom boundary action) (stmt_Resource s))) (stmt_Action s)))"

definition Intersect :: "Document list \<Rightarrow> Document \<Rightarrow> Document list" where
  "Intersect docs boundary =
     (let out = concat (map (\<lambda>doc.
            let kept = concat (map (kept_statements boundary) (doc_Statement doc))
            in if kept = [] then [] else [\<lparr>doc_Version = doc_Version doc, doc_Statement = kept\<rparr>]) docs);
          denies = filter (\<lambda>s. stmt_Effect s = EffectDeny) (doc_Statement boundary)
      in if denies = [] then out
         else out @ [\<lparr>doc_Version = doc_Version boundary, doc_Statement = denies\<rparr>])"

subsection \<open>Presets and tenant documents\<close>

definition SelfToken :: string where "SelfToken = ''self''"

definition resolve_pattern :: "string \<Rightarrow> string \<Rightarrow> string" where
  "resolve_pattern tenantID pat =
     (let segments = Split CHR '':'' pat in
      Join CHR '':'' (if length segments = 4 \<and> segments ! 1 = SelfToken then segments[1 := tenantID] else segments))"

definition ResolveSelf :: "Document \<Rightarrow> string \<Rightarrow> Document" where
  "ResolveSelf doc tenantID = \<lparr>doc_Version = doc_Version doc,
     doc_Statement = map (\<lambda>s. s\<lparr>stmt_Resource := map (resolve_pattern tenantID) (stmt_Resource s)\<rparr>) (doc_Statement doc)\<rparr>"

definition KnownActions :: "string list" where
  "KnownActions =
     [''tenant:Create'', ''tenant:Get'', ''tenant:List'',
      ''apikey:Create'', ''apikey:List'', ''apikey:Revoke'',
      ''policy:Create'', ''policy:Delete'', ''policy:Get'', ''policy:List'', ''group:Create'', ''group:List'',
      ''job:Get'', ''job:List'', ''job:Trigger'',
      ''instance:Cancel'', ''instance:Get'', ''instance:List'',
      ''check:Create'', ''check:Delete'', ''check:Get'', ''check:List'', ''check:Pause'', ''check:Resume'',
      ''checkrun:Get'', ''checkrun:List'',
      ''sli:Create'', ''sli:Delete'', ''sli:Get'', ''sli:List'',
      ''slo:Create'', ''slo:Delete'', ''slo:Get'', ''slo:List'', ''slo:Pause'', ''slo:Resume'',
      ''slo:GetBudget'', ''slo:ListBudgets'', ''sloalert:Get'', ''sloalert:List'',
      ''function:Get'', ''function:Invoke'', ''function:List'',
      ''workflow:Get'', ''workflow:List'', ''workflow:Trigger'']"

definition IsKnownAction :: "string \<Rightarrow> bool" where
  "IsKnownAction action \<longleftrightarrow> action \<in> set KnownActions"

fun validate_actions :: "string list \<Rightarrow> unit result" where
  "validate_actions [] = Inr ()"
| "validate_actions (action # actions) =
     (if action = WildcardAction then Inl (Errorf ''action is reserved for platform policies'')
      else if \<not> IsKnownAction action then Inl (Errorf ''unknown action'')
      else validate_actions actions)"

fun validate_patterns :: "string list \<Rightarrow> unit result" where
  "validate_patterns [] = Inr ()"
| "validate_patterns (pat # pats) =
     rbind (wrap_result ''statement'' (ParseARN pat)) (\<lambda>arn.
     if arn_Tenant arn \<noteq> SelfToken then Inl (Errorf ''resource must name the self tenant'')
     else validate_patterns pats)"

fun validate_statements :: "Statement list \<Rightarrow> unit result" where
  "validate_statements [] = Inr ()"
| "validate_statements (s # ss) =
     rbind (validate_actions (stmt_Action s)) (\<lambda>_.
     rbind (validate_patterns (stmt_Resource s)) (\<lambda>_. validate_statements ss))"

definition ValidateTenantDocument :: "Document \<Rightarrow> unit result" where
  "ValidateTenantDocument doc = validate_statements (doc_Statement doc)"

end
