(* ===== verification/Policy_Laws.thy ===== *)
theory Policy_Laws
  imports Policy
begin

section \<open>What the policy engine decides\<close>

text \<open>
  The loops of the engine read as predicates over the statements of the documents, from which the
  results on delegation, boundaries and tenant documents follow.
\<close>

definition statements :: "Document list \<Rightarrow> Statement list" where
  "statements docs = concat (map doc_Statement docs)"

definition granted :: "Document list \<Rightarrow> Request \<Rightarrow> bool" where
  "granted docs req \<longleftrightarrow> (\<exists>s \<in> set (statements docs). stmt_Effect s \<noteq> EffectDeny \<and> Statement_matches s req)"

definition denied :: "Document list \<Rightarrow> Request \<Rightarrow> bool" where
  "denied docs req \<longleftrightarrow> (\<exists>s \<in> set (statements docs). stmt_Effect s = EffectDeny \<and> Statement_matches s req)"

lemma patterns_match_iff:
  "patterns_match pats target \<longleftrightarrow> (\<exists>pat \<in> set pats. \<exists>arn. ParseARN pat = Inr arn \<and> ARN_Matches arn target)"
  by (induction pats) (auto split: sum.split)

lemma Statement_matches_iff:
  "Statement_matches s req \<longleftrightarrow>
     (\<exists>a \<in> set (stmt_Action s). a = req_Action req \<or> a = WildcardAction) \<and>
     (\<exists>pat \<in> set (stmt_Resource s). \<exists>arn. ParseARN pat = Inr arn \<and> ARN_Matches arn (req_Resource req))"
  by (auto simp: Statement_matches_def patterns_match_iff)

lemma evaluate_statements_eq:
  "evaluate_statements req ss allowed =
     (if \<exists>s \<in> set ss. stmt_Effect s = EffectDeny \<and> Statement_matches s req then None
      else Some (allowed \<or> (\<exists>s \<in> set ss. stmt_Effect s \<noteq> EffectDeny \<and> Statement_matches s req)))"
  by (induction ss arbitrary: allowed) (simp_all, blast?)

lemma evaluate_docs_eq:
  "evaluate_docs req docs allowed = (if denied docs req then None else Some (allowed \<or> granted docs req))"
proof (induction docs arbitrary: allowed)
  case (Cons d ds)
  have "denied (d # ds) req \<longleftrightarrow> denied [d] req \<or> denied ds req" "granted (d # ds) req \<longleftrightarrow> granted [d] req \<or> granted ds req"
    by (auto simp: denied_def granted_def statements_def)
  then show ?case
    by (simp add: Cons.IH evaluate_statements_eq) (auto simp: denied_def granted_def statements_def)
qed (simp add: denied_def granted_def statements_def)

lemma Evaluate_allow: "Evaluate docs req = DecisionAllow \<longleftrightarrow> granted docs req \<and> \<not> denied docs req"
  by (simp add: Evaluate_def evaluate_docs_eq)

lemma Evaluate_not_allow: "Evaluate docs req \<noteq> DecisionAllow \<longleftrightarrow> denied docs req \<or> \<not> granted docs req"
  by (auto simp: Evaluate_allow)

subsection \<open>Resource names\<close>

lemma ParseARN_iff:
  "ParseARN s = Inr a \<longleftrightarrow> (\<exists>rest. Split CHR '':'' s = [''orbitjob'', arn_Tenant a, arn_Group a, rest] \<and>
     Cut CHR ''/'' rest = (arn_Type a, arn_ID a, True) \<and> arn_Type a \<noteq> [] \<and> arn_ID a \<noteq> [])"
  by (auto simp: ParseARN_def split: list.splits prod.splits if_splits)

lemma ParseARN_String:
  assumes "CHR '':'' \<notin> set (arn_Tenant a @ arn_Group a @ arn_Type a @ arn_ID a)" and "CHR ''/'' \<notin> set (arn_Type a)"
    and "arn_Type a \<noteq> []" and "arn_ID a \<noteq> []"
  shows "ParseARN (ARN_String a) = Inr a"
proof -
  let ?segments = "[''orbitjob'', arn_Tenant a, arn_Group a, arn_Type a @ CHR ''/'' # arn_ID a]"
  have "ARN_String a = Join CHR '':'' ?segments" by (simp add: ARN_String_def)
  moreover have "Split CHR '':'' (Join CHR '':'' ?segments) = ?segments"
    by (rule Split_Join) (use assms(1) in auto)
  ultimately have "Split CHR '':'' (ARN_String a) = ?segments" by (simp only:)
  then show ?thesis using assms(2-4) by (simp add: ParseARN_iff Cut_found)
qed

lemma ARN_String_parse: "ParseARN s = Inr a \<Longrightarrow> ARN_String a = s"
proof -
  assume "ParseARN s = Inr a"
  then obtain rest where split: "Split CHR '':'' s = [''orbitjob'', arn_Tenant a, arn_Group a, rest]"
    and "Cut CHR ''/'' rest = (arn_Type a, arn_ID a, True)" by (auto simp: ParseARN_iff)
  from Cut_foundD [OF this(2)] have "rest = arn_Type a @ CHR ''/'' # arn_ID a" by simp
  with arg_cong [OF split, of "Join CHR '':''"] show ?thesis by (simp add: ARN_String_def)
qed

subsection \<open>Coverage by probing\<close>

text \<open>
  A document set is \<^emph>\<open>probe free\<close> if none of its patterns names the probe literally. The probe then stands for a
  wildcard: a pattern that covers the probed target of another pattern covers everything the latter covers.
\<close>

definition probe_free :: "Document list \<Rightarrow> bool" where
  "probe_free docs \<longleftrightarrow> (\<forall>s \<in> set (statements docs). \<forall>pat \<in> set (stmt_Resource s).
     case ParseARN pat of Inl _ \<Rightarrow> True
     | Inr arn \<Rightarrow> probeSegment \<notin> {arn_Tenant arn, arn_Group arn, arn_Type arn, arn_ID arn})"

lemma probe_not_wildcard [simp]: "probeSegment \<noteq> ''*''" "probeSegment \<noteq> []" "''*'' \<noteq> probeSegment" "[] \<noteq> probeSegment"
  by (simp_all add: probeSegment_def)

lemma segment_covers:
  assumes "segmentMatches q (if p = ''*'' then probeSegment else p)" and "q \<noteq> probeSegment" and "segmentMatches p r"
  shows "segmentMatches q r"
  using assms by (auto simp: segmentMatches_def split: if_splits)

lemma group_covers:
  assumes "groupMatches q (if p = [] \<or> p = ''*'' then probeSegment else p)" and "q \<noteq> probeSegment" and "groupMatches p r"
  shows "groupMatches q r"
  using assms by (auto simp: groupMatches_def split: if_splits)

lemma probed_pattern_covers:
  assumes "ParseARN pat = Inr p" and "concreteTarget pat = Inr target" and "ARN_Matches q target"
    and "probeSegment \<notin> {arn_Tenant q, arn_Group q, arn_Type q, arn_ID q}" and "ARN_Matches p r"
  shows "ARN_Matches q r"
proof -
  from assms(1,2) have target: "target =
     \<lparr>arn_Tenant = (if arn_Tenant p = ''*'' then probeSegment else arn_Tenant p),
      arn_Group = (if arn_Group p = [] \<or> arn_Group p = ''*'' then probeSegment else arn_Group p),
      arn_Type = (if arn_Type p = ''*'' then probeSegment else arn_Type p),
      arn_ID = (if arn_ID p = ''*'' then probeSegment else arn_ID p)\<rparr>"
    by (simp add: concreteTarget_def)
  have "q_seg \<noteq> probeSegment" if "q_seg \<in> {arn_Tenant q, arn_Group q, arn_Type q, arn_ID q}" for q_seg
    using assms(4) that by metis
  then show ?thesis
    using assms(3,5) unfolding ARN_Matches_def target ARN.select_convs
    by (blast intro: segment_covers group_covers)
qed

lemma probed_grant:
  assumes "granted caller \<lparr>req_Action = a, req_Resource = target\<rparr>" and "concreteTarget pat = Inr target"
    and "probe_free caller" and "ParseARN pat = Inr p" and "ARN_Matches p (req_Resource req)"
    and "a = req_Action req \<or> a = WildcardAction"
  shows "granted caller req"
proof -
  from assms(1) obtain s q pat' where s: "s \<in> set (statements caller)" "stmt_Effect s \<noteq> EffectDeny"
    "\<exists>b \<in> set (stmt_Action s). b = a \<or> b = WildcardAction" "pat' \<in> set (stmt_Resource s)"
    "ParseARN pat' = Inr q" "ARN_Matches q target"
    by (auto simp: granted_def Statement_matches_iff)
  from assms(3) s have "probeSegment \<notin> {arn_Tenant q, arn_Group q, arn_Type q, arn_ID q}"
    by (fastforce simp: probe_free_def)
  from probed_pattern_covers [OF assms(4,2) s(6) this assms(5)] s assms(6) show ?thesis
    by (auto simp: granted_def Statement_matches_iff)
qed

subsection \<open>Delegation\<close>

definition effects_known :: "Document list \<Rightarrow> bool" where
  "effects_known docs \<longleftrightarrow> (\<forall>s \<in> set (statements docs). stmt_Effect s = EffectAllow \<or> stmt_Effect s = EffectDeny)"

lemma parse_statements_effects:
  "parse_statements ss = Inr () \<Longrightarrow> s \<in> set ss \<Longrightarrow> stmt_Effect s = EffectAllow \<or> stmt_Effect s = EffectDeny"
  by (induction ss) (auto split: if_splits simp: rbind_def split: sum.splits)

lemma ParseDocument_effects: "ParseDocument decode raw = Inr doc \<Longrightarrow> effects_known [doc]"
  by (auto simp: ParseDocument_def effects_known_def statements_def rbind_def
      split: if_splits sum.splits dest: parse_statements_effects)

lemma actionEffectiveD:
  "actionEffective a pats caller \<Longrightarrow> pat \<in> set pats \<Longrightarrow>
     \<exists>target. concreteTarget pat = Inr target \<and> Evaluate caller \<lparr>req_Action = a, req_Resource = target\<rparr> = DecisionAllow"
  by (induction pats) (auto split: sum.splits if_splits)

theorem Permits_covers:
  assumes "Permits sub caller" and "effects_known sub" and "probe_free caller" and "granted sub req"
  shows "granted caller req"
proof -
  from assms(4) obtain s a pat p where s: "s \<in> set (statements sub)" "stmt_Effect s \<noteq> EffectDeny"
    "a \<in> set (stmt_Action s)" "a = req_Action req \<or> a = WildcardAction"
    "pat \<in> set (stmt_Resource s)" "ParseARN pat = Inr p" "ARN_Matches p (req_Resource req)"
    by (auto simp: granted_def Statement_matches_iff)
  with assms(2) have "stmt_Effect s = EffectAllow" by (auto simp: effects_known_def)
  with s(1) assms(1) have "everyAtomEffective s caller"
    by (fastforce simp: Permits_def statements_def list_all_iff)
  with s(3) have "actionEffective a (stmt_Resource s) caller" by (auto simp: everyAtomEffective_def list_all_iff)
  from actionEffectiveD [OF this s(5)] obtain target where "concreteTarget pat = Inr target"
    "granted caller \<lparr>req_Action = a, req_Resource = target\<rparr>" by (auto simp: Evaluate_allow)
  with s(4,6,7) assms(3) show ?thesis by (auto intro: probed_grant)
qed

subsection \<open>Boundaries\<close>

lemma statements_Intersect:
  "set (statements (Intersect docs b)) =
     (\<Union>s \<in> set (statements docs). set (kept_statements b s)) \<union>
     {s \<in> set (doc_Statement b). stmt_Effect s = EffectDeny}"
proof -
  have "set (statements (concat (map (\<lambda>doc.
      let kept = concat (map (kept_statements b) (doc_Statement doc))
      in if kept = [] then [] else [\<lparr>doc_Version = doc_Version doc, doc_Statement = kept\<rparr>]) docs)))
    = (\<Union>s \<in> set (statements docs). set (kept_statements b s))"
    by (induction docs) (auto simp: statements_def Let_def)
  then show ?thesis by (auto simp: Intersect_def Let_def statements_def filter_empty_conv)
qed

lemma kept_statementsE:
  assumes "k \<in> set (kept_statements b s)"
  obtains "stmt_Effect s = EffectDeny" "k = s"
  | a res target where "stmt_Effect s \<noteq> EffectDeny" "a \<in> set (stmt_Action s)" "res \<in> set (stmt_Resource s)"
      "concreteTarget res = Inr target" "Evaluate [b] \<lparr>req_Action = a, req_Resource = target\<rparr> = DecisionAllow"
      "k = \<lparr>stmt_Effect = EffectAllow, stmt_Action = [a], stmt_Resource = [res]\<rparr>"
  using assms by (auto simp: kept_statements_def kept_atom_def eq_commute split: if_splits sum.splits)

lemma kept_denies:
  "k \<in> set (kept_statements b s) \<and> stmt_Effect k = EffectDeny \<longleftrightarrow> k = s \<and> stmt_Effect s = EffectDeny"
  by (auto elim!: kept_statementsE) (auto simp: kept_statements_def)

lemma denied_Intersect: "denied (Intersect docs b) req \<longleftrightarrow> denied docs req \<or> denied [b] req"
proof -
  have "{k \<in> set (statements (Intersect docs b)). stmt_Effect k = EffectDeny}
      = {k \<in> set (statements docs). stmt_Effect k = EffectDeny} \<union> {k \<in> set (statements [b]). stmt_Effect k = EffectDeny}"
    (is "?L = ?R")
  proof (rule set_eqI)
    fix k
    show "k \<in> ?L \<longleftrightarrow> k \<in> ?R"
      unfolding statements_Intersect using kept_denies [of k b] by (auto simp: statements_def)
  qed
  then show ?thesis unfolding denied_def by blast
qed

lemma granted_Intersect:
  assumes "granted (Intersect docs b) req"
  shows "granted docs req \<and> (probe_free [b] \<longrightarrow> granted [b] req)"
proof -
  from assms obtain k s where k: "s \<in> set (statements docs)" "k \<in> set (kept_statements b s)"
    "stmt_Effect k \<noteq> EffectDeny" "Statement_matches k req"
    by (auto simp: granted_def statements_Intersect)
  from k(2) show ?thesis
  proof (cases rule: kept_statementsE)
    case (2 a res target)
    with k(4) obtain p where "a = req_Action req \<or> a = WildcardAction" "ParseARN res = Inr p" "ARN_Matches p (req_Resource req)"
      by (auto simp: Statement_matches_iff)
    note m = this
    have "granted docs req" using 2 k(1) m by (auto simp: granted_def Statement_matches_iff)
    moreover have "granted [b] \<lparr>req_Action = a, req_Resource = target\<rparr>" using 2(5) by (simp add: Evaluate_allow)
    ultimately show ?thesis using probed_grant [OF _ 2(4) _ m(2,3,1)] by blast
  qed (use k in simp)
qed

theorem Intersect_narrows:
  assumes "probe_free [b]" and "Evaluate (Intersect docs b) req = DecisionAllow"
  shows "Evaluate docs req = DecisionAllow \<and> Evaluate [b] req = DecisionAllow"
  using assms granted_Intersect [of docs b req] by (simp add: Evaluate_allow denied_Intersect)

end
