(* ===== verification/Api_Keys.thy ===== *)
theory Api_Keys
  imports Policy_Laws "HOL-Library.Char_ord" "HOL-Library.List_Lexorder"
begin

section \<open>Policies, API keys and authorization\<close>

text \<open>
  The admin API's access control: the policy and key stores
  (\<open>internal/admin/store/postgres/policy_repository.go\<close>, \<open>apikey_repository.go\<close>, \<open>audit_event.go\<close>,
  \<open>resource_group_repository.go\<close>), the commands that create policies and keys and revoke keys
  (\<open>internal/admin/app/policy/command\<close>, \<open>internal/admin/app/apikey/command\<close>), and the middleware that
  authenticates a request and asks the policy engine (\<open>internal/admin/http/middleware\<close>).

  The tables are lists of rows in the record \<open>auth_store\<close>, with the key, reference and check constraints of
  \<open>db/migrations/0001_baseline.up.sql\<close>; column lengths and row level security, the second line of defence, are
  left out. The JSON codec, the text PostgreSQL stores for a document, bcrypt and the generator of identifiers
  and keys are parameters.
\<close>

subsection \<open>The store\<close>

record PolicyRow =
  pol_id :: string
  pol_tenant :: "string option"
  pol_name :: string
  pol_description :: string
  pol_document :: string

record KeyRow =
  ak_id :: string
  ak_tenant :: "string option"
  ak_kind :: string
  ak_group :: "string option"
  ak_boundary :: "string option"
  ak_hash :: string
  ak_prefix :: string
  ak_expires :: "time option"
  ak_revoked :: "time option"
  ak_created_at :: time
  ak_created_by :: "string option"

record BindingRow =
  kp_key :: string
  kp_policy :: string
  kp_bound_by :: "string option"

datatype diff =
    NoDiff
  | KeyDiff "string list" string string string
  | PolicyDiff string Document
  | GroupDiff string string

record AuditEvent =
  ev_TenantID :: string
  ev_ActorID :: string
  ev_EventType :: string
  ev_ResourceType :: string
  ev_ResourceID :: string
  ev_Diff :: diff

record auth_store =
  as_tenants :: "(string \<times> string) list"
  as_groups :: "(string \<times> string) list"
  as_policies :: "PolicyRow list"
  as_keys :: "KeyRow list"
  as_bindings :: "BindingRow list"
  as_events :: "AuditEvent list"
  as_clock :: time

text \<open>
  \<open>WithTenant\<close> begins, the statements follow, and the commit; an error leaves through the deferred rollback. \<open>admin_transaction\<close> is the
  transaction on every connection, \<open>admin_tx\<close> the one on a connection that neither refuses it nor loses the answer to its commit. The
  operations are written with the second; on another connection such an operation leaves the tables as they were or does
  what it does here, and reports an error (\<open>admin_transaction_outcome\<close>), so a history of the tables covers it.
\<close>

definition admin_transaction :: "fault \<Rightarrow> (auth_store, 'a) io \<Rightarrow> (auth_store, 'a) io" where
  "admin_transaction f body = (\<lambda>s.
     if f = FailBefore then (Inl (DbError ''connection''), s)
     else case body s of
         (Inl e, _) \<Rightarrow> (Inl e, s)
       | (Inr a, s') \<Rightarrow> if f = FailAfter then (Inl (DbError ''connection''), s') else (Inr a, s'))"

definition admin_tx :: "(auth_store, 'a) io \<Rightarrow> (auth_store, 'a) io" where
  "admin_tx = admin_transaction NoFault"

lemma admin_tx_eq: "admin_tx body = (\<lambda>s. case body s of (Inl e, _) \<Rightarrow> (Inl e, s) | (Inr a, s') \<Rightarrow> (Inr a, s'))"
  by (rule ext) (simp add: admin_tx_def admin_transaction_def split: prod.split sum.split)

lemma admin_transaction_outcome:
  "snd (admin_transaction f body s) \<in> {s, snd (admin_tx body s)} \<and>
   (f \<noteq> NoFault \<longrightarrow> (\<exists>e. fst (admin_transaction f body s) = Inl e))"
  by (cases f) (auto simp: admin_transaction_def admin_tx_eq split: prod.splits sum.splits)

definition auth_get :: "(auth_store \<Rightarrow> 'a) \<Rightarrow> (auth_store, 'a) io" where
  "auth_get f = (\<lambda>s. (Inr (f s), s))"

definition nullIfEmpty :: "string \<Rightarrow> string option" where
  "nullIfEmpty v = (if v = '''' then None else Some v)"

definition insertAuditEvent :: "AuditEvent \<Rightarrow> (auth_store, unit) io" where
  "insertAuditEvent e = (\<lambda>s.
     if ev_TenantID e = '''' then (Inl (Errorf ''audit event requires a tenant''), s)
     else if ev_TenantID e \<notin> fst ` set (as_tenants s)
       then (Inl (Wrapf ''insert audit event'' (DbError ''foreign key'')), s)
     else (Inr (), s\<lparr>as_events := as_events s @ [e]\<rparr>))"

definition newGrantEvent :: "string \<Rightarrow> string \<Rightarrow> string \<Rightarrow> string \<Rightarrow> string \<Rightarrow> diff \<Rightarrow> AuditEvent" where
  "newGrantEvent tenantID actorID eventType resourceType resourceID d =
     \<lparr>ev_TenantID = tenantID, ev_ActorID = actorID, ev_EventType = eventType,
      ev_ResourceType = resourceType, ev_ResourceID = resourceID, ev_Diff = d\<rparr>"

definition ResourceGroup_Exists :: "string \<Rightarrow> string \<Rightarrow> (auth_store, bool) io" where
  "ResourceGroup_Exists tenantID groupID = admin_tx (auth_get (\<lambda>s. (groupID, tenantID) \<in> set (as_groups s)))"

subsection \<open>The policy repository\<close>

record PolicyRecord =
  rec_ID :: string
  rec_TenantID :: string
  rec_Name :: string
  rec_Description :: string
  rec_Document :: Document

definition IsPlatformPreset :: "PolicyRecord \<Rightarrow> bool" where
  "IsPlatformPreset r \<longleftrightarrow> rec_TenantID r = ''''"

definition visible :: "string \<Rightarrow> PolicyRow \<Rightarrow> bool" where
  "visible tenantID p \<longleftrightarrow> pol_tenant p = Some tenantID \<or> pol_tenant p = None"

definition policy_record :: "(string \<Rightarrow> Document result) \<Rightarrow> string \<Rightarrow> PolicyRow \<Rightarrow> PolicyRecord result" where
  "policy_record decode tenantID p =
     rbind (wrap_result ''parse policy'' (ParseDocument decode (pol_document p))) (\<lambda>doc.
     Inr \<lparr>rec_ID = pol_id p, rec_TenantID = (case pol_tenant p of None \<Rightarrow> '''' | Some t \<Rightarrow> t), rec_Name = pol_name p,
          rec_Description = pol_description p, rec_Document = ResolveSelf doc tenantID\<rparr>)"

definition Policy_Get :: "(string \<Rightarrow> Document result) \<Rightarrow> string \<Rightarrow> string \<Rightarrow> (auth_store, PolicyRecord) io" where
  "Policy_Get decode tenantID i = admin_tx
     (io_bind (auth_get (\<lambda>s. find (\<lambda>p. pol_id p = i \<and> visible tenantID p) (as_policies s))) (\<lambda>found.
      case found of
        None \<Rightarrow> io_fail (NotFoundError ''policy'')
      | Some p \<Rightarrow> io_lift (policy_record decode tenantID p)))"

definition Policy_Create ::
    "(string \<Rightarrow> string option) \<Rightarrow> PolicyRecord \<Rightarrow> string \<Rightarrow> AuditEvent \<Rightarrow> (auth_store, unit) io" where
  "Policy_Create jsonb rec rawDocument ev = admin_tx
     (io_bind (\<lambda>s.
        case jsonb rawDocument of
          None \<Rightarrow> (Inl (Wrapf ''insert policy'' (DbError ''invalid document'')), s)
        | Some text \<Rightarrow>
            if rec_Name rec = '''' then (Inl (Wrapf ''insert policy'' (DbError ''check constraint'')), s)
            else if \<exists>p \<in> set (as_policies s). pol_id p = rec_ID rec
                \<or> (pol_tenant p = Some (rec_TenantID rec) \<and> pol_name p = rec_Name rec)
              then (Inl (ConflictError ''policy''), s)
            else if rec_TenantID rec \<notin> fst ` set (as_tenants s)
              then (Inl (Wrapf ''insert policy'' (DbError ''foreign key'')), s)
            else (Inr (), s\<lparr>as_policies := as_policies s @
                   [\<lparr>pol_id = rec_ID rec, pol_tenant = Some (rec_TenantID rec), pol_name = rec_Name rec,
                     pol_description = rec_Description rec, pol_document = text\<rparr>]\<rparr>)) (\<lambda>_.
      insertAuditEvent ev))"

text \<open>Deleting a policy row takes its bindings with it (\<open>ON DELETE CASCADE\<close>); a boundary reference refuses it.\<close>

definition deletePolicySQL :: "string \<Rightarrow> string \<Rightarrow> (auth_store, unit) io" where
  "deletePolicySQL tenantID i = (\<lambda>s.
     let hit = (\<lambda>p. pol_id p = i \<and> pol_tenant p = Some tenantID) in
     if (\<exists>p \<in> set (as_policies s). hit p) \<and> (\<exists>k \<in> set (as_keys s). ak_boundary k = Some i)
       then (Inl (ConflictError ''policy''), s)
     else (Inr (), s\<lparr>as_policies := filter (\<lambda>p. \<not> hit p) (as_policies s),
       as_bindings := filter (\<lambda>b. \<not> (\<exists>p \<in> set (as_policies s). hit p \<and> kp_policy b = pol_id p)) (as_bindings s)\<rparr>))"

definition Policy_Delete :: "string \<Rightarrow> string \<Rightarrow> AuditEvent \<Rightarrow> (auth_store, unit) io" where
  "Policy_Delete tenantID i ev = admin_tx
     (io_bind (auth_get (\<lambda>s. find (\<lambda>p. pol_id p = i \<and> visible tenantID p) (as_policies s))) (\<lambda>found.
      case found of
        None \<Rightarrow> io_fail (NotFoundError ''policy'')
      | Some p \<Rightarrow>
          if pol_tenant p = None then io_fail ErrPlatformPolicyImmutable
          else io_bind (deletePolicySQL tenantID i) (\<lambda>_. insertAuditEvent ev)))"

fun parse_bound :: "(string \<Rightarrow> Document result) \<Rightarrow> string \<Rightarrow> PolicyRow list \<Rightarrow> Document list result" where
  "parse_bound decode tenantID [] = Inr []"
| "parse_bound decode tenantID (p # ps) =
     rbind (wrap_result ''parse policy'' (ParseDocument decode (pol_document p))) (\<lambda>doc.
     rbind (parse_bound decode tenantID ps) (\<lambda>docs. Inr (ResolveSelf doc tenantID # docs)))"

definition bound_policies :: "string \<Rightarrow> string \<Rightarrow> auth_store \<Rightarrow> PolicyRow list" where
  "bound_policies tenantID keyID s = sort_key pol_id (filter (\<lambda>p.
     (\<exists>b \<in> set (as_bindings s). kp_key b = keyID \<and> kp_policy b = pol_id p)
     \<and> (\<exists>k \<in> set (as_keys s). ak_id k = keyID \<and> ak_tenant k = Some tenantID) \<and> visible tenantID p) (as_policies s))"

definition boundary_policy :: "string \<Rightarrow> string \<Rightarrow> auth_store \<Rightarrow> PolicyRow option" where
  "boundary_policy tenantID keyID s =
     (case find (\<lambda>k. ak_id k = keyID \<and> ak_tenant k = Some tenantID) (as_keys s) of
        None \<Rightarrow> None
      | Some k \<Rightarrow> find (\<lambda>p. ak_boundary k = Some (pol_id p) \<and> visible tenantID p) (as_policies s))"

definition boundaryDocument ::
    "(string \<Rightarrow> Document result) \<Rightarrow> string \<Rightarrow> string \<Rightarrow> (auth_store, Document option) io" where
  "boundaryDocument decode tenantID keyID =
     io_bind (auth_get (boundary_policy tenantID keyID)) (\<lambda>found.
     case found of
       None \<Rightarrow> io_return None
     | Some p \<Rightarrow> io_lift (rbind (wrap_result ''parse boundary'' (ParseDocument decode (pol_document p))) (\<lambda>doc.
         Inr (Some (ResolveSelf doc tenantID)))))"

definition EffectiveDocuments ::
    "(string \<Rightarrow> Document result) \<Rightarrow> string \<Rightarrow> string \<Rightarrow> (auth_store, Document list) io" where
  "EffectiveDocuments decode tenantID keyID = admin_tx
     (io_bind (auth_get (bound_policies tenantID keyID)) (\<lambda>rows.
      io_bind (io_lift (parse_bound decode tenantID rows)) (\<lambda>documents.
      io_bind (boundaryDocument decode tenantID keyID) (\<lambda>boundary.
      io_return (case boundary of None \<Rightarrow> documents | Some b \<Rightarrow> Intersect documents b)))))"

subsection \<open>The key repository\<close>

record PersistInput =
  pi_ID :: string
  pi_TenantID :: string
  pi_ResourceGroupID :: string
  pi_KeyHash :: string
  pi_KeyPrefix :: string
  pi_PolicyIDs :: "string list"
  pi_BoundaryPolicyID :: string
  pi_BoundBy :: string

definition insertKeySQL :: "PersistInput \<Rightarrow> (auth_store, unit) io" where
  "insertKeySQL inp = (\<lambda>s.
     if pi_KeyHash inp = '''' \<or> pi_KeyPrefix inp = '''' then (Inl (DbError ''check constraint''), s)
     else if pi_ID inp \<in> ak_id ` set (as_keys s) then (Inl (DbError ''unique constraint''), s)
     else if pi_TenantID inp \<notin> fst ` set (as_tenants s)
         \<or> (pi_ResourceGroupID inp \<noteq> '''' \<and> pi_ResourceGroupID inp \<notin> fst ` set (as_groups s))
         \<or> (pi_BoundaryPolicyID inp \<noteq> '''' \<and> pi_BoundaryPolicyID inp \<notin> pol_id ` set (as_policies s))
       then (Inl (DbError ''foreign key''), s)
     else (Inr (), s\<lparr>as_keys := as_keys s @
        [\<lparr>ak_id = pi_ID inp, ak_tenant = Some (pi_TenantID inp), ak_kind = ''tenant'',
          ak_group = nullIfEmpty (pi_ResourceGroupID inp), ak_boundary = nullIfEmpty (pi_BoundaryPolicyID inp),
          ak_hash = pi_KeyHash inp, ak_prefix = pi_KeyPrefix inp, ak_expires = None, ak_revoked = None,
          ak_created_at = as_clock s, ak_created_by = nullIfEmpty (pi_BoundBy inp)\<rparr>]\<rparr>))"

definition bindPolicySQL :: "string \<Rightarrow> string \<Rightarrow> string \<Rightarrow> (auth_store, unit) io" where
  "bindPolicySQL keyID boundBy policyID = (\<lambda>s.
     if \<exists>b \<in> set (as_bindings s). kp_key b = keyID \<and> kp_policy b = policyID
       then (Inl (DbError ''unique constraint''), s)
     else if keyID \<notin> ak_id ` set (as_keys s) \<or> policyID \<notin> pol_id ` set (as_policies s)
       then (Inl (DbError ''foreign key''), s)
     else (Inr (), s\<lparr>as_bindings := as_bindings s @
        [\<lparr>kp_key = keyID, kp_policy = policyID, kp_bound_by = nullIfEmpty boundBy\<rparr>]\<rparr>))"

definition APIKey_Create :: "PersistInput \<Rightarrow> AuditEvent \<Rightarrow> (auth_store, unit) io" where
  "APIKey_Create inp ev = admin_tx
     (io_bind (io_wrap ''insert api key'' (insertKeySQL inp)) (\<lambda>_.
      io_bind (io_iter (\<lambda>policyID. io_wrap ''bind policy'' (bindPolicySQL (pi_ID inp) (pi_BoundBy inp) policyID))
        (pi_PolicyIDs inp)) (\<lambda>_.
      insertAuditEvent ev)))"

definition APIKey_ListByTenant :: "string \<Rightarrow> (auth_store, KeyRow list) io" where
  "APIKey_ListByTenant tenantID = admin_tx (auth_get (\<lambda>s.
     rev (sort_key ak_created_at (filter (\<lambda>k. ak_tenant k = Some tenantID) (as_keys s)))))"

definition FindKeyTenant :: "string \<Rightarrow> (auth_store, string) io" where
  "FindKeyTenant i =
     io_bind (auth_get (\<lambda>s. find (\<lambda>k. ak_id k = i \<and> ak_revoked k = None) (as_keys s))) (\<lambda>found.
     case found of
       None \<Rightarrow> io_fail (NotFoundError ''api_key'')
     | Some k \<Rightarrow> (case ak_tenant k of
         None \<Rightarrow> io_fail (Wrapf ''find key tenant'' (DbError ''converting NULL to string''))
       | Some t \<Rightarrow> io_return t))"

definition APIKey_Revoke :: "time \<Rightarrow> string \<Rightarrow> string \<Rightarrow> AuditEvent \<Rightarrow> (auth_store, unit) io" where
  "APIKey_Revoke now tenantID i ev = admin_tx
     (io_bind (\<lambda>s.
        let hit = (\<lambda>k. ak_id k = i \<and> ak_tenant k = Some tenantID \<and> ak_revoked k = None)
        in (Inr (length (filter hit (as_keys s))),
            s\<lparr>as_keys := map (\<lambda>k. if hit k then k\<lparr>ak_revoked := Some now\<rparr> else k) (as_keys s)\<rparr>)) (\<lambda>affected.
      if affected = 0 then io_fail (NotFoundError ''api_key'')
      else insertAuditEvent ev))"

definition RevokeCrossTenant :: "time \<Rightarrow> string \<Rightarrow> (auth_store, unit) io" where
  "RevokeCrossTenant now i =
     io_bind (FindKeyTenant i) (\<lambda>tenantID.
     APIKey_Revoke now tenantID i (newGrantEvent tenantID '''' ''revoke'' ''apikey'' i NoDiff))"

subsection \<open>Commands\<close>

record PolicyCreateInput =
  pci_TenantID :: string
  pci_Name :: string
  pci_Description :: string
  pci_Document :: string
  pci_ActorID :: string

text \<open>A validation error keeps the field and replaces the cause by its text.\<close>

definition invalid :: "string \<Rightarrow> 'a result \<Rightarrow> 'a result" where
  "invalid field r = (case r of Inl _ \<Rightarrow> Inl (ValidationError field) | Inr a \<Rightarrow> Inr a)"

definition PolicyCreator_Create ::
    "(string \<Rightarrow> Document result) \<Rightarrow> (string \<Rightarrow> string option) \<Rightarrow> string \<Rightarrow> PolicyCreateInput \<Rightarrow> (auth_store, string) io" where
  "PolicyCreator_Create decode jsonb newID inp =
     io_bind (io_lift (invalid ''document'' (ParseDocument decode (pci_Document inp)))) (\<lambda>doc.
     io_bind (io_lift (invalid ''document'' (ValidateTenantDocument doc))) (\<lambda>_.
     io_bind (Policy_Create jsonb
       \<lparr>rec_ID = newID, rec_TenantID = pci_TenantID inp, rec_Name = pci_Name inp,
        rec_Description = pci_Description inp, rec_Document = doc\<rparr> (pci_Document inp)
       \<lparr>ev_TenantID = pci_TenantID inp, ev_ActorID = pci_ActorID inp, ev_EventType = ''create'',
        ev_ResourceType = ''policy'', ev_ResourceID = newID, ev_Diff = PolicyDiff (pci_Name inp) doc\<rparr>) (\<lambda>_.
     io_return newID)))"

record Caller =
  ca_TenantID :: string
  ca_KeyID :: string
  ca_ResourceGroupID :: string
  ca_Documents :: "Document list"
  ca_IsPlatform :: bool
  ca_BoundaryPolicyID :: string

record CreateInput =
  ci_TenantID :: string
  ci_ResourceGroupID :: string
  ci_PolicyIDs :: "string list"
  ci_BoundaryPolicyID :: string
  ci_Caller :: Caller

definition checkGroup :: "CreateInput \<Rightarrow> (auth_store, unit) io" where
  "checkGroup inp =
     (let callerGroup = TrimSpace (ca_ResourceGroupID (ci_Caller inp));
          requested = TrimSpace (ci_ResourceGroupID inp)
      in if callerGroup \<noteq> '''' \<and> requested \<noteq> callerGroup
           then io_fail (Wrapf ''caller is scoped to a resource group'' ErrPrivilegeEscalation)
         else if requested = '''' then io_return ()
         else io_bind (io_wrap ''check resource group'' (ResourceGroup_Exists (ci_TenantID inp) requested)) (\<lambda>ok.
           if \<not> ok then io_fail (ValidationError ''resource_group_id'') else io_return ()))"

fun load_policies :: "(string \<Rightarrow> Document result) \<Rightarrow> string \<Rightarrow> string list \<Rightarrow> (auth_store, Document list) io" where
  "load_policies decode tenantID [] = io_return []"
| "load_policies decode tenantID (i # ids) =
     io_bind (io_wrap ''load policy'' (Policy_Get decode tenantID i)) (\<lambda>rec.
     io_bind (load_policies decode tenantID ids) (\<lambda>docs. io_return (rec_Document rec # docs)))"

definition resolvePolicies :: "(string \<Rightarrow> Document result) \<Rightarrow> CreateInput \<Rightarrow> (auth_store, Document list) io" where
  "resolvePolicies decode inp = load_policies decode (ci_TenantID inp) (ci_PolicyIDs inp)"

definition callerBoundary :: "(string \<Rightarrow> Document result) \<Rightarrow> Caller \<Rightarrow> (auth_store, Document option) io" where
  "callerBoundary decode caller =
     (if ca_BoundaryPolicyID caller = '''' then io_return None
      else io_bind (io_wrap ''load caller boundary'' (Policy_Get decode (ca_TenantID caller) (ca_BoundaryPolicyID caller)))
        (\<lambda>rec. io_return (Some (rec_Document rec))))"

definition resolveBoundary :: "(string \<Rightarrow> Document result) \<Rightarrow> CreateInput \<Rightarrow> (auth_store, Document option) io" where
  "resolveBoundary decode inp =
     (if ci_BoundaryPolicyID inp = '''' then io_return None
      else io_bind (io_wrap ''load boundary policy'' (Policy_Get decode (ci_TenantID inp) (ci_BoundaryPolicyID inp)))
        (\<lambda>rec. io_return (Some (rec_Document rec))))"

definition apiKeyPrefix :: string where "apiKeyPrefix = ''otj_''"
definition apiKeyMinLen :: nat where "apiKeyMinLen = 12"

definition keyPrefix :: "string \<Rightarrow> string" where
  "keyPrefix key = (if length key < apiKeyMinLen then key else take apiKeyMinLen key)"

definition Creator_Create ::
    "(string \<Rightarrow> Document result) \<Rightarrow> string result \<Rightarrow> (string \<Rightarrow> string result) \<Rightarrow> string \<Rightarrow> CreateInput
     \<Rightarrow> (auth_store, string \<times> string \<times> string) io" where
  "Creator_Create decode generateKey hashKey newID inp =
     io_bind (checkGroup inp) (\<lambda>_.
     io_bind (resolvePolicies decode inp) (\<lambda>granted.
     io_bind (io_lift (CheckGrantable (ca_Documents (ci_Caller inp)) granted)) (\<lambda>_.
     io_bind (callerBoundary decode (ci_Caller inp)) (\<lambda>callerBoundary.
     io_bind (resolveBoundary decode inp) (\<lambda>requestedBoundary.
     io_bind (io_lift (PropagateBoundary callerBoundary requestedBoundary)) (\<lambda>boundary.
     let boundaryID = (if requestedBoundary = None \<and> boundary \<noteq> None then ca_BoundaryPolicyID (ci_Caller inp)
                       else ci_BoundaryPolicyID inp) in
     io_bind (io_lift (wrap_result ''generate api key'' generateKey)) (\<lambda>key.
     io_bind (io_lift (wrap_result ''hash api key'' (hashKey key))) (\<lambda>hash.
     io_bind (io_wrap ''create api key'' (APIKey_Create
       \<lparr>pi_ID = newID, pi_TenantID = ci_TenantID inp, pi_ResourceGroupID = ci_ResourceGroupID inp, pi_KeyHash = hash,
        pi_KeyPrefix = keyPrefix key, pi_PolicyIDs = ci_PolicyIDs inp, pi_BoundaryPolicyID = boundaryID,
        pi_BoundBy = ca_TenantID (ci_Caller inp)\<rparr>
       \<lparr>ev_TenantID = ci_TenantID inp, ev_ActorID = ca_KeyID (ci_Caller inp), ev_EventType = ''create'',
        ev_ResourceType = ''apikey'', ev_ResourceID = newID,
        ev_Diff = KeyDiff (ci_PolicyIDs inp) boundaryID (ci_ResourceGroupID inp) (ca_TenantID (ci_Caller inp))\<rparr>)) (\<lambda>_.
     io_return (newID, key, keyPrefix key))))))))))"

subsection \<open>Authentication and the authorization guard\<close>

record Principal =
  prn_KeyID :: string
  prn_TenantID :: string
  prn_Kind :: string
  prn_ResourceGroupID :: string
  prn_BoundaryPolicyID :: string

definition principalFromRow :: "KeyRow \<Rightarrow> Principal" where
  "principalFromRow r = \<lparr>prn_KeyID = ak_id r, prn_TenantID = (case ak_tenant r of None \<Rightarrow> '''' | Some t \<Rightarrow> t),
     prn_Kind = ak_kind r, prn_ResourceGroupID = (case ak_group r of None \<Rightarrow> '''' | Some g \<Rightarrow> g),
     prn_BoundaryPolicyID = (case ak_boundary r of None \<Rightarrow> '''' | Some b \<Rightarrow> b)\<rparr>"

text \<open>The rows of the function \<open>orbitjob_auth_api_key\<close>, newest first.\<close>

definition auth_api_key :: "string \<Rightarrow> auth_store \<Rightarrow> KeyRow list" where
  "auth_api_key pfx s = rev (sort_key ak_created_at (filter (\<lambda>k.
     ak_prefix k = pfx \<and> ak_revoked k = None
     \<and> (case ak_tenant k of None \<Rightarrow> True | Some t \<Rightarrow> (t, ''active'') \<in> set (as_tenants s))) (as_keys s)))"

definition expired :: "time \<Rightarrow> KeyRow \<Rightarrow> bool" where
  "expired now k = (case ak_expires k of None \<Rightarrow> False | Some t \<Rightarrow> t < now)"

definition validateAPIKey ::
    "(string \<Rightarrow> string \<Rightarrow> bool) \<Rightarrow> time \<Rightarrow> string \<Rightarrow> auth_store \<Rightarrow> KeyRow option" where
  "validateAPIKey compare now key s =
     (if take 4 key \<noteq> apiKeyPrefix \<or> length key < apiKeyMinLen then None
      else find (\<lambda>r. ak_revoked r = None \<and> \<not> expired now r \<and> compare (ak_hash r) key)
        (auth_api_key (take apiKeyMinLen key) s))"

definition resolveTenant ::
    "(string \<Rightarrow> string \<Rightarrow> bool) \<Rightarrow> time \<Rightarrow> string \<Rightarrow> auth_store \<Rightarrow> Principal option" where
  "resolveTenant compare now header s =
     (if take 7 header = ''Bearer '' then map_option principalFromRow (validateAPIKey compare now (drop 7 header) s)
      else None)"

definition isPublicPath :: "string \<Rightarrow> bool" where
  "isPublicPath path \<longleftrightarrow> path = ''/healthz'' \<or> path = ''/openapi.json'' \<or> path = ''/metrics''"

text \<open>What the chain of middleware answers before a handler runs.\<close>

datatype answer = Unauthorized | InternalError | BadRequest | Forbidden | Proceed "Principal option"

definition tenantScoped :: "string \<Rightarrow> string \<Rightarrow> string \<Rightarrow> Principal \<Rightarrow> ARN" where
  "tenantScoped resourceType i runID p =
     (let group = (if prn_ResourceGroupID p = '''' then ''*'' else prn_ResourceGroupID p);
          target = (if i \<noteq> '''' then i else if runID \<noteq> '''' then runID else ''*'')
      in \<lparr>arn_Tenant = prn_TenantID p, arn_Group = group, arn_Type = resourceType, arn_ID = target\<rparr>)"

definition tenantResource :: "string \<Rightarrow> ARN" where
  "tenantResource i = (let i = (if i = '''' then ''*'' else i)
     in \<lparr>arn_Tenant = i, arn_Group = ''*'', arn_Type = ''tenant'', arn_ID = i\<rparr>)"

definition apiKeyResource :: "string \<Rightarrow> string \<Rightarrow> ARN" where
  "apiKeyResource tenantID keyID =
     (if tenantID = '''' then \<lparr>arn_Tenant = ''*'', arn_Group = ''*'', arn_Type = ''apikey'', arn_ID = ''*''\<rparr>
      else \<lparr>arn_Tenant = tenantID, arn_Group = ''*'', arn_Type = ''apikey'',
            arn_ID = (if keyID = '''' then ''*'' else keyID)\<rparr>)"

definition Require :: "string \<Rightarrow> (Principal \<Rightarrow> ARN result) \<Rightarrow> Document list \<Rightarrow> Principal \<Rightarrow> answer" where
  "Require action resolve docs p =
     (case resolve p of
        Inl _ \<Rightarrow> BadRequest
      | Inr arn \<Rightarrow>
          if Evaluate docs \<lparr>req_Action = action, req_Resource = arn\<rparr> \<noteq> DecisionAllow then Forbidden
          else Proceed (Some p))"

definition Auth_Middleware ::
    "(string \<Rightarrow> Document result) \<Rightarrow> (string \<Rightarrow> string \<Rightarrow> bool) \<Rightarrow> time \<Rightarrow> string \<Rightarrow> string
     \<Rightarrow> (Document list \<Rightarrow> Principal \<Rightarrow> answer) \<Rightarrow> auth_store \<Rightarrow> answer" where
  "Auth_Middleware decode compare now path header rest s =
     (if isPublicPath path then Proceed None
      else case resolveTenant compare now header s of
        None \<Rightarrow> Unauthorized
      | Some p \<Rightarrow>
          (case fst (EffectiveDocuments decode (prn_TenantID p) (prn_KeyID p) s) of
             Inl _ \<Rightarrow> InternalError
           | Inr docs \<Rightarrow> rest docs p))"

end
