(* ===== verification/Api_Keys_Laws.thy ===== *)
theory Api_Keys_Laws
  imports Api_Keys
begin

section \<open>What keys and policies can do\<close>

text \<open>
  The invariant of the access-control tables, the behaviour of the operations on them, and the two guarantees built on
  the policy engine: a new key is covered by its creator, and a revoked key never authenticates again.
\<close>

subsection \<open>Documents in a tenant\<close>

lemma Split_resolved:
  assumes "Split CHR '':'' pat = [a, SelfToken, g, rest]"
  shows "resolve_pattern t pat = a @ CHR '':'' # t @ CHR '':'' # g @ CHR '':'' # rest"
  using assms by (simp add: resolve_pattern_def)

lemma resolved_tenant:
  assumes "ParseARN pat = Inr a" and "arn_Tenant a = SelfToken" and "ParseARN (resolve_pattern t pat) = Inr b"
  shows "arn_Tenant b = t"
proof -
  from assms(1,2) obtain rest where split: "Split CHR '':'' pat = [''orbitjob'', SelfToken, arn_Group a, rest]"
    by (auto simp: ParseARN_iff)
  note resolved = Split_resolved [OF split, of t]
  from split have parts: "CHR '':'' \<notin> set p" if "p \<in> {''orbitjob'', SelfToken, arn_Group a, rest}" for p
    using Split_parts [of p "CHR '':''" pat] that by auto
  from assms(3) obtain us where "Split CHR '':'' (resolve_pattern t pat) = us" "length us = 4" "us ! 1 = arn_Tenant b"
    by (auto simp: ParseARN_iff)
  note us = this
  then have "length (filter (\<lambda>x. x = CHR '':'') (resolve_pattern t pat)) = 3"
    using length_Split [of "CHR '':''" "resolve_pattern t pat"] by simp
  then have "filter (\<lambda>x. x = CHR '':'') t = []" unfolding resolved by simp
  then have "CHR '':'' \<notin> set t" by (auto simp: filter_empty_conv)
  with parts resolved have "Split CHR '':'' (resolve_pattern t pat) = [''orbitjob'', t, arn_Group a, rest]"
    by (simp add: Split_append Split_single)
  with us(1) have "us = [''orbitjob'', t, arn_Group a, rest]" by (rule trans [OF sym])
  with us(3) show ?thesis by simp
qed

lemma validate_actionsD: "validate_actions as = Inr () \<Longrightarrow> a \<in> set as \<Longrightarrow> a \<noteq> WildcardAction \<and> IsKnownAction a"
  by (induction as) (auto split: if_splits)

lemma validate_patternsD:
  "validate_patterns ps = Inr () \<Longrightarrow> p \<in> set ps \<Longrightarrow> \<exists>a. ParseARN p = Inr a \<and> arn_Tenant a = SelfToken"
  by (induction ps) (auto simp: rbind_def wrap_result_def split: if_splits sum.splits)

lemma validate_statementsD:
  "validate_statements ss = Inr () \<Longrightarrow> s \<in> set ss \<Longrightarrow>
     validate_actions (stmt_Action s) = Inr () \<and> validate_patterns (stmt_Resource s) = Inr ()"
  by (induction ss) (auto simp: rbind_def split: sum.splits)

lemma tenant_document_confined:
  assumes "ValidateTenantDocument doc = Inr ()" and "granted [ResolveSelf doc t] req" and "t \<noteq> ''*''"
  shows "arn_Tenant (req_Resource req) = t \<and> IsKnownAction (req_Action req)"
proof -
  from assms(2) obtain s pat arn where s: "s \<in> set (doc_Statement doc)" "pat \<in> set (stmt_Resource s)"
    "ParseARN (resolve_pattern t pat) = Inr arn" "ARN_Matches arn (req_Resource req)"
    and act: "\<exists>a \<in> set (stmt_Action s). a = req_Action req \<or> a = WildcardAction"
    by (auto simp: granted_def statements_def ResolveSelf_def Statement_matches_iff)
  from assms(1) s(1) have valid: "validate_actions (stmt_Action s) = Inr ()" "validate_patterns (stmt_Resource s) = Inr ()"
    unfolding ValidateTenantDocument_def by (auto dest: validate_statementsD)
  from validate_patternsD [OF valid(2) s(2)] s(3) have "arn_Tenant arn = t" by (auto intro: resolved_tenant)
  moreover have "IsKnownAction (req_Action req)" using act validate_actionsD [OF valid(1)] by auto
  ultimately show ?thesis using s(4) assms(3) by (auto simp: ARN_Matches_def segmentMatches_def)
qed

lemma effects_known_ResolveSelf: "effects_known [ResolveSelf doc t] \<longleftrightarrow> effects_known [doc]"
  by (auto simp: effects_known_def statements_def ResolveSelf_def)

lemma effects_known_all: "effects_known docs \<longleftrightarrow> (\<forall>d \<in> set docs. effects_known [d])"
  by (auto simp: effects_known_def statements_def)

lemma granted_mono: "granted docs req \<Longrightarrow> set docs \<subseteq> set docs' \<Longrightarrow> granted docs' req"
  by (auto simp: granted_def statements_def)

subsection \<open>Transactions and reads\<close>

lemma admin_tx_ok [simp]: "admin_tx body s = (Inr a, s') \<longleftrightarrow> body s = (Inr a, s')"
  by (auto simp: admin_tx_eq split: prod.splits sum.splits)

lemma admin_tx_error: "admin_tx body s = (Inl e, s') \<Longrightarrow> s' = s"
  by (auto simp: admin_tx_eq split: prod.splits sum.splits)

lemma auth_get_apply [io_simps]: "auth_get f s = (Inr (f s), s)"
  by (simp add: auth_get_def)

lemma io_wrap_ok [simp]: "io_wrap m f w = (Inr a, w') \<longleftrightarrow> f w = (Inr a, w')"
  by (auto simp: io_wrap_apply wrap_result_def split: prod.splits sum.splits)

lemma io_bind_ok: "io_bind m f w = (Inr b, w') \<longleftrightarrow> (\<exists>a v. m w = (Inr a, v) \<and> f a v = (Inr b, w'))"
  by (auto simp: io_bind_apply split: prod.splits sum.splits)

lemmas ok_simps = io_bind_ok io_wrap_ok admin_tx_ok io_return_apply io_fail_apply io_lift_apply auth_get_apply

text \<open>The document a tenant reads for a policy id.\<close>

definition policy_document :: "(string \<Rightarrow> Document result) \<Rightarrow> string \<Rightarrow> auth_store \<Rightarrow> string \<Rightarrow> Document \<Rightarrow> bool" where
  "policy_document decode t s i d \<longleftrightarrow> (\<exists>p doc. p \<in> set (as_policies s) \<and> pol_id p = i \<and> visible t p
     \<and> ParseDocument decode (pol_document p) = Inr doc \<and> d = ResolveSelf doc t)"

lemma policy_document_effects: "policy_document decode t s i d \<Longrightarrow> effects_known [d]"
  by (auto simp: policy_document_def effects_known_ResolveSelf dest: ParseDocument_effects)

lemma policy_document_unique:
  assumes "distinct (map pol_id (as_policies s))" and "policy_document decode t s i d" and "policy_document decode t s i e"
  shows "d = e"
  using assms by (auto simp: policy_document_def distinct_map dest!: inj_onD)

lemma find_row: "find P xs = Some x \<Longrightarrow> x \<in> set xs \<and> P x"
  by (auto simp: find_Some_iff)

lemma policy_record_ok:
  "policy_record decode t p = Inr r \<Longrightarrow> \<exists>doc. ParseDocument decode (pol_document p) = Inr doc \<and> rec_Document r = ResolveSelf doc t"
  by (auto simp: policy_record_def rbind_def wrap_result_def split: sum.splits)

lemma Policy_Get_ok:
  assumes "Policy_Get decode t i s = (Inr r, s')"
  shows "s' = s \<and> policy_document decode t s i (rec_Document r)"
proof -
  from assms obtain p where "find (\<lambda>p. pol_id p = i \<and> visible t p) (as_policies s) = Some p"
    "policy_record decode t p = Inr r" "s' = s"
    by (auto simp: Policy_Get_def ok_simps split: option.splits)
  with find_row [OF this(1)] policy_record_ok [OF this(2)] show ?thesis by (auto simp: policy_document_def)
qed

lemma load_policies_ok:
  "load_policies decode t ids s = (Inr docs, s') \<Longrightarrow>
     s' = s \<and> (\<forall>i \<in> set ids. \<exists>d \<in> set docs. policy_document decode t s i d)
     \<and> (\<forall>d \<in> set docs. \<exists>i \<in> set ids. policy_document decode t s i d)"
proof (induction ids arbitrary: docs s')
  case (Cons i ids)
  then obtain r ds where "Policy_Get decode t i s = (Inr r, s)" "load_policies decode t ids s = (Inr ds, s')"
    "docs = rec_Document r # ds"
    by (auto simp: ok_simps) (metis Policy_Get_ok)
  with Cons.IH [of ds s'] Policy_Get_ok [of decode t i s r s] show ?case by auto
qed (simp add: io_simps)

lemma boundary_reads_ok:
  "callerBoundary decode c s = (Inr cb, s') \<Longrightarrow> s' = s \<and>
     (case cb of None \<Rightarrow> ca_BoundaryPolicyID c = ''''
      | Some d \<Rightarrow> ca_BoundaryPolicyID c \<noteq> '''' \<and> policy_document decode (ca_TenantID c) s (ca_BoundaryPolicyID c) d)"
  "resolveBoundary decode inp s = (Inr rb, s') \<Longrightarrow> s' = s \<and>
     (case rb of None \<Rightarrow> ci_BoundaryPolicyID inp = ''''
      | Some d \<Rightarrow> ci_BoundaryPolicyID inp \<noteq> '''' \<and> policy_document decode (ci_TenantID inp) s (ci_BoundaryPolicyID inp) d)"
  by (auto simp: callerBoundary_def resolveBoundary_def ok_simps dest: Policy_Get_ok split: if_splits)

lemma checkGroup_frame: "checkGroup inp s = (Inr (), s') \<Longrightarrow> s' = s"
  by (auto simp: checkGroup_def Let_def ok_simps ResourceGroup_Exists_def split: if_splits)

subsection \<open>Writes\<close>

lemma bind_all_ok:
  "io_iter (\<lambda>i. io_wrap m (bindPolicySQL key by_id i)) ids s = (Inr (), s') \<Longrightarrow>
     s' = s\<lparr>as_bindings := as_bindings s @ map (\<lambda>i. \<lparr>kp_key = key, kp_policy = i, kp_bound_by = nullIfEmpty by_id\<rparr>) ids\<rparr>"
proof (induction ids arbitrary: s)
  case (Cons i ids)
  then obtain v where "bindPolicySQL key by_id i s = (Inr (), v)"
    "io_iter (\<lambda>i. io_wrap m (bindPolicySQL key by_id i)) ids v = (Inr (), s')"
    by (auto simp: io_bind_ok)
  with Cons.IH [of v] show ?case by (auto simp: bindPolicySQL_def split: if_splits)
qed (simp add: io_simps)

lemma APIKey_Create_ok:
  assumes "APIKey_Create inp ev s = (Inr (), s')"
  shows "pi_ID inp \<notin> ak_id ` set (as_keys s) \<and> (\<exists>row. as_keys s' = as_keys s @ [row] \<and> ak_id row = pi_ID inp
      \<and> ak_tenant row = Some (pi_TenantID inp) \<and> ak_boundary row = nullIfEmpty (pi_BoundaryPolicyID inp)
      \<and> ak_revoked row = None)
    \<and> as_policies s' = as_policies s \<and> as_tenants s' = as_tenants s
    \<and> as_bindings s' = as_bindings s @
        map (\<lambda>i. \<lparr>kp_key = pi_ID inp, kp_policy = i, kp_bound_by = nullIfEmpty (pi_BoundBy inp)\<rparr>) (pi_PolicyIDs inp)
    \<and> as_events s' = as_events s @ [ev]"
  using assms
  by (auto simp: APIKey_Create_def ok_simps insertKeySQL_def insertAuditEvent_def dest!: bind_all_ok split: if_splits)

lemma bind_all_refs:
  "io_iter (\<lambda>i. io_wrap m (bindPolicySQL key by_id i)) ids s = (Inr (), s') \<Longrightarrow> set ids \<subseteq> pol_id ` set (as_policies s)"
proof (induction ids arbitrary: s)
  case (Cons i ids)
  then obtain v where "bindPolicySQL key by_id i s = (Inr (), v)"
    "io_iter (\<lambda>i. io_wrap m (bindPolicySQL key by_id i)) ids v = (Inr (), s')"
    by (auto simp: io_bind_ok)
  with Cons.IH [of v] show ?case by (auto simp: bindPolicySQL_def split: if_splits)
qed simp

lemma APIKey_Create_refs:
  assumes "APIKey_Create inp ev s = (Inr (), s')"
  shows "set (pi_PolicyIDs inp) \<subseteq> pol_id ` set (as_policies s) \<and>
    (pi_BoundaryPolicyID inp \<noteq> [] \<longrightarrow> pi_BoundaryPolicyID inp \<in> pol_id ` set (as_policies s))"
  using assms
  by (auto simp: APIKey_Create_def ok_simps insertKeySQL_def dest!: bind_all_refs split: if_splits)

text \<open>Every step of a successful creation.\<close>

lemma Creator_Create_ok:
  assumes "Creator_Create decode gen hash newID inp s = (Inr r, s')"
  obtains docs cb rb b boundaryID pin ev where
    "load_policies decode (ci_TenantID inp) (ci_PolicyIDs inp) s = (Inr docs, s)"
    "Permits docs (ca_Documents (ci_Caller inp))"
    "callerBoundary decode (ci_Caller inp) s = (Inr cb, s)" "resolveBoundary decode inp s = (Inr rb, s)"
    "PropagateBoundary cb rb = Inr b"
    "boundaryID = (if rb = None \<and> b \<noteq> None then ca_BoundaryPolicyID (ci_Caller inp) else ci_BoundaryPolicyID inp)"
    "APIKey_Create pin ev s = (Inr (), s')" "pi_ID pin = newID" "pi_TenantID pin = ci_TenantID inp"
    "pi_PolicyIDs pin = ci_PolicyIDs inp" "pi_BoundaryPolicyID pin = boundaryID" "fst r = newID"
proof -
  from assms obtain s1 s2 s3 s4 docs cb rb b key h where
    steps: "checkGroup inp s = (Inr (), s1)" "load_policies decode (ci_TenantID inp) (ci_PolicyIDs inp) s1 = (Inr docs, s2)"
    "CheckGrantable (ca_Documents (ci_Caller inp)) docs = Inr ()" "callerBoundary decode (ci_Caller inp) s2 = (Inr cb, s3)"
    "resolveBoundary decode inp s3 = (Inr rb, s4)" "PropagateBoundary cb rb = Inr b"
    and last: "APIKey_Create
       \<lparr>pi_ID = newID, pi_TenantID = ci_TenantID inp, pi_ResourceGroupID = ci_ResourceGroupID inp, pi_KeyHash = h,
        pi_KeyPrefix = keyPrefix key, pi_PolicyIDs = ci_PolicyIDs inp,
        pi_BoundaryPolicyID = (if rb = None \<and> b \<noteq> None then ca_BoundaryPolicyID (ci_Caller inp) else ci_BoundaryPolicyID inp),
        pi_BoundBy = ca_TenantID (ci_Caller inp)\<rparr>
       \<lparr>ev_TenantID = ci_TenantID inp, ev_ActorID = ca_KeyID (ci_Caller inp), ev_EventType = ''create'',
        ev_ResourceType = ''apikey'', ev_ResourceID = newID,
        ev_Diff = KeyDiff (ci_PolicyIDs inp)
          (if rb = None \<and> b \<noteq> None then ca_BoundaryPolicyID (ci_Caller inp) else ci_BoundaryPolicyID inp)
          (ci_ResourceGroupID inp) (ca_TenantID (ci_Caller inp))\<rparr> s4 = (Inr (), s')" and r: "fst r = newID"
    unfolding Creator_Create_def Let_def resolvePolicies_def ok_simps by auto
  have "s1 = s" "s2 = s1" "s3 = s2" "s4 = s3"
    using checkGroup_frame [OF steps(1)] load_policies_ok [OF steps(2)] boundary_reads_ok(1) [OF steps(4)]
      boundary_reads_ok(2) [OF steps(5)] by simp_all
  with steps last r show thesis
    by (intro that) (auto simp: CheckGrantable_def split: if_splits)
qed

subsection \<open>The effective documents of a key\<close>

lemma parse_bound_ok:
  "parse_bound decode t ps = Inr docs \<Longrightarrow> d \<in> set docs \<Longrightarrow>
     \<exists>p \<in> set ps. \<exists>doc. ParseDocument decode (pol_document p) = Inr doc \<and> d = ResolveSelf doc t"
  by (induction ps arbitrary: docs) (auto simp: rbind_def wrap_result_def split: sum.splits)

lemma boundaryDocument_ok:
  assumes "boundaryDocument decode t key s = (Inr b, s')"
  shows "s' = s \<and> (case boundary_policy t key s of None \<Rightarrow> b = None
    | Some p \<Rightarrow> \<exists>doc. ParseDocument decode (pol_document p) = Inr doc \<and> b = Some (ResolveSelf doc t))"
proof (cases "boundary_policy t key s")
  case None
  with assms show ?thesis by (simp add: boundaryDocument_def ok_simps)
next
  case (Some p)
  with assms show ?thesis
    by (cases "ParseDocument decode (pol_document p)") (simp_all add: boundaryDocument_def ok_simps)
qed

lemma EffectiveDocuments_ok:
  assumes "EffectiveDocuments decode t key s = (Inr docs, s')"
  obtains own where "\<And>d. d \<in> set own \<Longrightarrow> \<exists>i. (\<exists>b \<in> set (as_bindings s). kp_key b = key \<and> kp_policy b = i) \<and> policy_document decode t s i d"
    and "case boundary_policy t key s of None \<Rightarrow> docs = own
      | Some p \<Rightarrow> \<exists>doc. ParseDocument decode (pol_document p) = Inr doc \<and> docs = Intersect own (ResolveSelf doc t)"
proof -
  from assms obtain own b where own: "parse_bound decode t (bound_policies t key s) = Inr own"
    and b: "boundaryDocument decode t key s = (Inr b, s')"
    and docs: "docs = (case b of None \<Rightarrow> own | Some b \<Rightarrow> Intersect own b)"
    unfolding EffectiveDocuments_def ok_simps by blast
  have rest: "case boundary_policy t key s of None \<Rightarrow> docs = own
      | Some p \<Rightarrow> \<exists>doc. ParseDocument decode (pol_document p) = Inr doc \<and> docs = Intersect own (ResolveSelf doc t)"
    using boundaryDocument_ok [OF b] docs by (auto split: option.splits)
  have "\<exists>i. (\<exists>b \<in> set (as_bindings s). kp_key b = key \<and> kp_policy b = i) \<and> policy_document decode t s i d" if "d \<in> set own" for d
    using parse_bound_ok [OF own that] by (auto simp: bound_policies_def policy_document_def)
  from this rest show thesis by (rule that)
qed

subsection \<open>The invariant\<close>

definition auth_wf :: "auth_store \<Rightarrow> bool" where
  "auth_wf s \<longleftrightarrow> distinct (map pol_id (as_policies s)) \<and> distinct (map ak_id (as_keys s)) \<and>
     (\<forall>b \<in> set (as_bindings s). kp_key b \<in> ak_id ` set (as_keys s) \<and> kp_policy b \<in> pol_id ` set (as_policies s)) \<and>
     (\<forall>k \<in> set (as_keys s). \<forall>i. ak_boundary k = Some i \<longrightarrow> i \<in> pol_id ` set (as_policies s))"

subsection \<open>A new key\<close>

lemma policy_document_cong: "as_policies s' = as_policies s \<Longrightarrow> policy_document decode t s' = policy_document decode t s"
  by (intro ext) (simp add: policy_document_def)

lemma new_key_bindings:
  assumes "auth_wf s" and "APIKey_Create inp ev s = (Inr (), s')" and "b \<in> set (as_bindings s')" and "kp_key b = pi_ID inp"
  shows "kp_policy b \<in> set (pi_PolicyIDs inp)"
proof -
  note ok = APIKey_Create_ok [OF assms(2)]
  with assms(1,4) have "b \<notin> set (as_bindings s)" unfolding auth_wf_def by metis
  with assms(3) ok show ?thesis by auto
qed

lemma find_unique_row:
  assumes "x \<in> set xs" and "P x" and "\<And>y. y \<in> set xs \<Longrightarrow> P y \<Longrightarrow> y = x"
  shows "find P xs = Some x"
proof (cases "find P xs")
  case None
  with assms(1,2) show ?thesis by (auto simp: find_None_iff)
next
  case (Some y)
  with find_row [OF this] assms(3) show ?thesis by simp
qed

lemma new_key_boundary:
  assumes "auth_wf s" and "APIKey_Create inp ev s = (Inr (), s')" and "pi_BoundaryPolicyID inp \<noteq> ''''"
    and "policy_document decode (pi_TenantID inp) s (pi_BoundaryPolicyID inp) d"
  shows "\<exists>p doc. boundary_policy (pi_TenantID inp) (pi_ID inp) s' = Some p \<and>
    ParseDocument decode (pol_document p) = Inr doc \<and> ResolveSelf doc (pi_TenantID inp) = d"
proof -
  let ?t = "pi_TenantID inp" and ?i = "pi_BoundaryPolicyID inp"
  note ok = APIKey_Create_ok [OF assms(2)]
  then obtain row where row: "as_keys s' = as_keys s @ [row]" "ak_id row = pi_ID inp" "ak_tenant row = Some ?t"
    "ak_boundary row = Some ?i" using assms(3) by (auto simp: nullIfEmpty_def)
  have "find (\<lambda>k. ak_id k = pi_ID inp \<and> ak_tenant k = Some ?t) (as_keys s') = Some row"
    unfolding row(1) using conjunct1 [OF ok] row(2,3) by (intro find_unique_row) (auto simp: image_iff)
  from assms(4) obtain p doc where p: "p \<in> set (as_policies s)" "pol_id p = ?i" "visible ?t p"
    "ParseDocument decode (pol_document p) = Inr doc" "d = ResolveSelf doc ?t"
    by (auto simp: policy_document_def)
  have "find (\<lambda>p. ak_boundary row = Some (pol_id p) \<and> visible ?t p) (as_policies s') = Some p"
  proof (rule find_unique_row)
    from assms(1) have inj: "inj_on pol_id (set (as_policies s))" by (simp add: auth_wf_def distinct_map)
    fix q assume "q \<in> set (as_policies s')" "ak_boundary row = Some (pol_id q) \<and> visible ?t q"
    with p ok row(4) show "q = p" by (intro inj_onD [OF inj]) simp_all
  qed (use p ok row(4) in simp_all)
  with p show ?thesis using \<open>find _ (as_keys s') = Some row\<close> by (auto simp: boundary_policy_def)
qed

theorem created_key_covered:
  assumes "auth_wf s" and "Creator_Create decode gen hash newID inp s = (Inr r, s')"
    and "EffectiveDocuments decode (ci_TenantID inp) newID s' = (Inr docs, v)" and "granted docs req"
    and "probe_free (ca_Documents (ci_Caller inp))"
  shows "granted (ca_Documents (ci_Caller inp)) req"
proof -
  from assms(2) obtain held pin ev where held: "load_policies decode (ci_TenantID inp) (ci_PolicyIDs inp) s = (Inr held, s)"
    and permits: "Permits held (ca_Documents (ci_Caller inp))" and create: "APIKey_Create pin ev s = (Inr (), s')"
    and pin: "pi_ID pin = newID" "pi_PolicyIDs pin = ci_PolicyIDs inp"
    by (rule Creator_Create_ok) blast
  note loaded = load_policies_ok [OF held]
  from assms(3) obtain own where own: "\<And>d. d \<in> set own \<Longrightarrow> \<exists>i. (\<exists>b \<in> set (as_bindings s'). kp_key b = newID \<and> kp_policy b = i)
      \<and> policy_document decode (ci_TenantID inp) s' i d"
    and docs: "case boundary_policy (ci_TenantID inp) newID s' of None \<Rightarrow> docs = own
      | Some p \<Rightarrow> \<exists>doc. ParseDocument decode (pol_document p) = Inr doc \<and> docs = Intersect own (ResolveSelf doc (ci_TenantID inp))"
    by (rule EffectiveDocuments_ok) blast
  have "granted own req" using docs assms(4) granted_Intersect by (auto split: option.splits)
  moreover have "set own \<subseteq> set held"
  proof
    fix d assume "d \<in> set own"
    from own [OF this] obtain b where "b \<in> set (as_bindings s')" "kp_key b = newID"
      "policy_document decode (ci_TenantID inp) s (kp_policy b) d"
      using APIKey_Create_ok [OF create] policy_document_cong by metis
    moreover from new_key_bindings [OF assms(1) create this(1)] this(2) pin have "kp_policy b \<in> set (ci_PolicyIDs inp)" by simp
    ultimately show "d \<in> set held"
      using loaded policy_document_unique [of s decode "ci_TenantID inp" "kp_policy b"] assms(1)
      unfolding auth_wf_def by metis
  qed
  ultimately have "granted held req" by (rule granted_mono)
  moreover have "effects_known held"
    using loaded by (auto simp: effects_known_all [of held] dest: policy_document_effects)
  ultimately show ?thesis using Permits_covers [OF permits _ assms(5)] by blast
qed

theorem created_key_bounded:
  assumes "auth_wf s" and "Creator_Create decode gen hash newID inp s = (Inr r, s')"
    and "EffectiveDocuments decode (ci_TenantID inp) newID s' = (Inr docs, v)" and "granted docs req"
    and "ca_TenantID (ci_Caller inp) = ci_TenantID inp" and "ca_BoundaryPolicyID (ci_Caller inp) \<noteq> ''''"
    and "policy_document decode (ci_TenantID inp) s (ca_BoundaryPolicyID (ci_Caller inp)) cb"
    and "\<And>i d. policy_document decode (ci_TenantID inp) s i d \<Longrightarrow> probe_free [d]"
  shows "granted [cb] req"
proof -
  from assms(2) obtain c rb b pin ev where reads: "callerBoundary decode (ci_Caller inp) s = (Inr c, s)"
    "resolveBoundary decode inp s = (Inr rb, s)" "PropagateBoundary c rb = Inr b"
    and create: "APIKey_Create pin ev s = (Inr (), s')" and pin: "pi_ID pin = newID" "pi_TenantID pin = ci_TenantID inp"
    "pi_BoundaryPolicyID pin = (if rb = None \<and> b \<noteq> None then ca_BoundaryPolicyID (ci_Caller inp) else ci_BoundaryPolicyID inp)"
    by (rule Creator_Create_ok) blast
  from boundary_reads_ok(1) [OF reads(1)] assms(1,5,6,7) have c: "c = Some cb"
    by (auto simp: auth_wf_def split: option.splits dest: policy_document_unique)
  obtain bd where bd: "policy_document decode (ci_TenantID inp) s (pi_BoundaryPolicyID pin) bd"
    "pi_BoundaryPolicyID pin \<noteq> ''''" "bd = cb \<or> Permits [bd] [cb]"
    using boundary_reads_ok(2) [OF reads(2)] reads(3) c pin(3) assms(6,7)
    by (cases rb) (auto simp: PropagateBoundary_def split: if_splits)
  from new_key_boundary [OF assms(1) create bd(2)] bd(1) pin obtain p doc where
    "boundary_policy (ci_TenantID inp) newID s' = Some p" "ParseDocument decode (pol_document p) = Inr doc"
    "ResolveSelf doc (ci_TenantID inp) = bd" by metis
  with assms(3) obtain own where "docs = Intersect own bd" by (auto elim!: EffectiveDocuments_ok)
  with granted_Intersect [of own bd req] assms(4,8) bd(1) have "granted [bd] req" by auto
  with bd(3) Permits_covers [of "[bd]" "[cb]" req] assms(7,8) policy_document_effects [OF bd(1)] show ?thesis by auto
qed

text \<open>All documents a tenant can read.\<close>

definition stored_documents :: "(string \<Rightarrow> Document result) \<Rightarrow> string \<Rightarrow> auth_store \<Rightarrow> Document list" where
  "stored_documents decode t s = concat (map (\<lambda>p. if visible t p then
     (case ParseDocument decode (pol_document p) of Inl _ \<Rightarrow> [] | Inr doc \<Rightarrow> [ResolveSelf doc t]) else []) (as_policies s))"

lemma policy_document_stored: "policy_document decode t s i d \<Longrightarrow> d \<in> set (stored_documents decode t s)"
  unfolding policy_document_def stored_documents_def by (auto intro!: bexI)

lemma probe_free_member: "probe_free docs \<Longrightarrow> d \<in> set docs \<Longrightarrow> probe_free [d]"
  by (auto simp: probe_free_def statements_def)

subsection \<open>Histories of the access-control tables\<close>

inductive auth_step :: "auth_store \<Rightarrow> auth_store \<Rightarrow> bool" where
  step_Policy_Create: "Policy_Create jsonb rec raw ev s = (r, s') \<Longrightarrow> auth_step s s'"
| step_Policy_Delete: "Policy_Delete t i ev s = (r, s') \<Longrightarrow> auth_step s s'"
| step_APIKey_Create: "APIKey_Create inp ev s = (r, s') \<Longrightarrow> auth_step s s'"
| step_APIKey_Revoke: "APIKey_Revoke now t i ev s = (r, s') \<Longrightarrow> auth_step s s'"

abbreviation auth_history :: "auth_store \<Rightarrow> auth_store \<Rightarrow> bool" where
  "auth_history \<equiv> auth_step\<^sup>*\<^sup>*"

text \<open>A failed operation is a transaction rolled back, so only the successful ones move the store.\<close>

lemma tx_cases:
  assumes "admin_tx body s = (r, s')"
  obtains "s' = s" | a where "body s = (Inr a, s')"
  using assms by (auto simp: admin_tx_eq split: prod.splits sum.splits)

lemma Policy_Create_ok:
  assumes "Policy_Create jsonb rec raw ev s = (Inr (), s')"
  shows "\<exists>row. as_policies s' = as_policies s @ [row] \<and> pol_id row \<notin> pol_id ` set (as_policies s) \<and>
    as_keys s' = as_keys s \<and> as_bindings s' = as_bindings s"
  using assms
  by (auto simp: Policy_Create_def ok_simps insertAuditEvent_def split: option.splits if_splits) blast

lemma Policy_Delete_ok:
  assumes "Policy_Delete t i ev s = (Inr (), s')"
  shows "as_keys s' = as_keys s \<and>
    as_policies s' = filter (\<lambda>p. \<not> (pol_id p = i \<and> pol_tenant p = Some t)) (as_policies s) \<and>
    as_bindings s' = filter (\<lambda>b. \<not> (\<exists>p \<in> set (as_policies s). (pol_id p = i \<and> pol_tenant p = Some t) \<and> kp_policy b = pol_id p))
      (as_bindings s) \<and>
    ((\<exists>p \<in> set (as_policies s). pol_id p = i \<and> pol_tenant p = Some t) \<longrightarrow> (\<forall>k \<in> set (as_keys s). ak_boundary k \<noteq> Some i))"
proof -
  from assms obtain u v where "deletePolicySQL t i s = (Inr u, v)" "insertAuditEvent ev v = (Inr (), s')"
    by (auto simp: Policy_Delete_def ok_simps split: option.splits if_splits)
  then show ?thesis
    unfolding deletePolicySQL_def insertAuditEvent_def Let_def by (auto split: if_splits)
qed

definition revoke_row :: "time \<Rightarrow> string \<Rightarrow> string \<Rightarrow> KeyRow \<Rightarrow> KeyRow" where
  "revoke_row now t i k = (if ak_id k = i \<and> ak_tenant k = Some t \<and> ak_revoked k = None then k\<lparr>ak_revoked := Some now\<rparr> else k)"

lemma revoke_row_simps [simp]: "ak_id (revoke_row now t i k) = ak_id k" "ak_boundary (revoke_row now t i k) = ak_boundary k"
  by (simp_all add: revoke_row_def)

lemma revoke_row_revoked:
  "ak_revoked (revoke_row now t i k) \<noteq> None \<longleftrightarrow> ak_revoked k \<noteq> None \<or> ak_id k = i \<and> ak_tenant k = Some t"
  by (auto simp: revoke_row_def)

lemma APIKey_Revoke_ok:
  assumes "APIKey_Revoke now t i ev s = (Inr (), s')"
  shows "as_keys s' = map (revoke_row now t i) (as_keys s) \<and> as_policies s' = as_policies s \<and> as_bindings s' = as_bindings s \<and>
    (\<exists>k \<in> set (as_keys s). ak_id k = i \<and> ak_tenant k = Some t \<and> ak_revoked k = None)"
  using assms
  unfolding APIKey_Revoke_def ok_simps insertAuditEvent_def Let_def revoke_row_def [abs_def]
  by (auto simp: filter_empty_conv split: if_splits)

lemma auth_stepE:
  assumes "auth_step s s'"
  obtains "s' = s"
  | jsonb rec raw ev where "Policy_Create jsonb rec raw ev s = (Inr (), s')"
  | t i ev where "Policy_Delete t i ev s = (Inr (), s')"
  | inp ev where "APIKey_Create inp ev s = (Inr (), s')"
  | now t i ev where "APIKey_Revoke now t i ev s = (Inr (), s')"
  using assms
  by (cases rule: auth_step.cases)
     (auto simp: Policy_Create_def Policy_Delete_def APIKey_Create_def APIKey_Revoke_def elim!: tx_cases)

lemma auth_wf_Delete:
  assumes wf: "auth_wf s" and "Policy_Delete t i ev s = (Inr (), s')"
  shows "auth_wf s'"
proof -
  note ok = Policy_Delete_ok [OF assms(2)]
  have inj: "inj_on pol_id (set (as_policies s))" using wf by (simp add: auth_wf_def distinct_map)
  have gone: "j \<in> pol_id ` set (as_policies s')"
    if "j \<in> pol_id ` set (as_policies s)" "\<not> (\<exists>p \<in> set (as_policies s). (pol_id p = i \<and> pol_tenant p = Some t) \<and> j = pol_id p)" for j
    using that ok by auto
  have "\<forall>b \<in> set (as_bindings s'). kp_key b \<in> ak_id ` set (as_keys s') \<and> kp_policy b \<in> pol_id ` set (as_policies s')"
    using wf ok gone unfolding auth_wf_def by simp
  moreover have "j \<in> pol_id ` set (as_policies s')" if k: "k \<in> set (as_keys s)" "ak_boundary k = Some j" for k j
  proof (rule gone)
    show "j \<in> pol_id ` set (as_policies s)" using wf k unfolding auth_wf_def by blast
    show "\<not> (\<exists>p \<in> set (as_policies s). (pol_id p = i \<and> pol_tenant p = Some t) \<and> j = pol_id p)" using ok k by auto
  qed
  moreover have "distinct (map pol_id (as_policies s'))" using wf ok by (simp add: auth_wf_def distinct_map_filter)
  ultimately show ?thesis using wf ok unfolding auth_wf_def by simp
qed

lemma auth_wf_Create:
  assumes "auth_wf s" and "APIKey_Create inp ev s = (Inr (), s')"
  shows "auth_wf s'"
  using assms(1) APIKey_Create_ok [OF assms(2)] APIKey_Create_refs [OF assms(2)]
  unfolding auth_wf_def by (auto simp: nullIfEmpty_def split: if_splits)

lemma Creator_Create_wf: "Creator_Create decode gen hash newID inp s = (Inr r, s') \<Longrightarrow> auth_wf s \<Longrightarrow> auth_wf s'"
  by (erule Creator_Create_ok) (rule auth_wf_Create)

lemma auth_wf_Revoke:
  assumes "auth_wf s" and "APIKey_Revoke now t i ev s = (Inr (), s')"
  shows "auth_wf s'"
  using assms(1) APIKey_Revoke_ok [OF assms(2)] unfolding auth_wf_def by (simp add: comp_def image_image)

lemma auth_step_wf: "auth_step s s' \<Longrightarrow> auth_wf s \<Longrightarrow> auth_wf s'"
proof (erule auth_stepE)
  fix jsonb rec raw ev assume "auth_wf s" "Policy_Create jsonb rec raw ev s = (Inr (), s')"
  with Policy_Create_ok [OF this(2)] show "auth_wf s'" by (auto simp: auth_wf_def)
qed (auto intro: auth_wf_Delete auth_wf_Create auth_wf_Revoke)

text \<open>An id whose every row is revoked.\<close>

definition revoked_id :: "string \<Rightarrow> auth_store \<Rightarrow> bool" where
  "revoked_id i s \<longleftrightarrow> i \<in> ak_id ` set (as_keys s) \<and> (\<forall>k \<in> set (as_keys s). ak_id k = i \<longrightarrow> ak_revoked k \<noteq> None)"

lemma auth_step_revoked: "auth_step s s' \<Longrightarrow> revoked_id i s \<Longrightarrow> revoked_id i s'"
proof (erule auth_stepE)
  fix inp ev assume "revoked_id i s" "APIKey_Create inp ev s = (Inr (), s')"
  with APIKey_Create_ok [OF this(2)] show "revoked_id i s'" by (auto simp: revoked_id_def)
next
  fix now t j ev assume "revoked_id i s" "APIKey_Revoke now t j ev s = (Inr (), s')"
  with APIKey_Revoke_ok [OF this(2)] show "revoked_id i s'"
    unfolding revoked_id_def by (simp add: image_image revoke_row_revoked del: not_None_eq)
next
  fix jsonb rec raw ev assume "revoked_id i s" "Policy_Create jsonb rec raw ev s = (Inr (), s')"
  with Policy_Create_ok [OF this(2)] show "revoked_id i s'" by (auto simp: revoked_id_def)
next
  fix t j ev assume "revoked_id i s" "Policy_Delete t j ev s = (Inr (), s')"
  with Policy_Delete_ok [OF this(2)] show "revoked_id i s'" by (auto simp: revoked_id_def)
qed simp

lemma auth_history_revoked: "auth_history s s' \<Longrightarrow> revoked_id i s \<Longrightarrow> revoked_id i s'"
  by (induction rule: rtranclp_induct) (auto intro: auth_step_revoked)

lemma auth_history_wf: "auth_history s s' \<Longrightarrow> auth_wf s \<Longrightarrow> auth_wf s'"
  by (induction rule: rtranclp_induct) (auto intro: auth_step_wf)

lemma Revoke_revokes:
  assumes "auth_wf s" and "APIKey_Revoke now t i ev s = (Inr (), s')"
  shows "revoked_id i s'"
proof -
  note ok = APIKey_Revoke_ok [OF assms(2)]
  then obtain k where k: "k \<in> set (as_keys s)" "ak_id k = i" "ak_tenant k = Some t" by auto
  have inj: "inj_on ak_id (set (as_keys s))" using assms(1) by (simp add: auth_wf_def distinct_map)
  have "j = k" if "j \<in> set (as_keys s)" "ak_id j = i" for j
    using inj_onD [OF inj, of j k] that k by simp
  with k have "\<forall>j \<in> set (as_keys s). ak_id j = i \<longrightarrow> ak_tenant j = Some t" by blast
  then show ?thesis
    unfolding revoked_id_def conjunct1 [OF ok] set_map using k
    by (simp add: image_image revoke_row_revoked image_iff bexI [of _ k] del: not_None_eq)
qed

lemma validateAPIKey_row:
  "validateAPIKey cmp now key s = Some r \<Longrightarrow> r \<in> set (as_keys s) \<and> ak_revoked r = None \<and> \<not> expired now r \<and>
     ak_prefix r = take 12 key \<and> cmp (ak_hash r) key \<and> (\<forall>t. ak_tenant r = Some t \<longrightarrow> (t, ''active'') \<in> set (as_tenants s))"
  by (auto simp: validateAPIKey_def auth_api_key_def apiKeyMinLen_def dest!: find_row split: if_splits option.splits)

lemma revoked_never_validates: "revoked_id i s \<Longrightarrow> validateAPIKey cmp now key s = Some r \<Longrightarrow> ak_id r \<noteq> i"
  using validateAPIKey_row by (fastforce simp: revoked_id_def)

end
