(* ===== verification/Samples.thy ===== *)
theory Samples
  imports Reconcile_Safety Walker_Starts Api_Keys_Laws
begin

section \<open>A concrete installation\<close>

text \<open>
  One tenant with one definition, one run whose first attempt is running, one finished run, and
  one workflow run: the state at which the properties' hypotheses are shown to hold together.
  The library parameters are instantiated by simple total functions.
\<close>

definition sample_identity :: Identity where
  "sample_identity = \<lparr>id_SourceMode = ''kubernetes'', id_SourceUID = ''u'', id_Namespace = ''n'', id_Name = ''j''\<rparr>"

definition sample_revision :: Revision where
  "sample_revision = \<lparr>rev_ID = 1, rev_Identity = sample_identity, rev_Generation = 1, rev_SpecHash = ''h'',
     rev_NormalizedSpec = ''s'', rev_CreatedAt = 1, rev_Actor = ''a'', rev_ResourceGroupID = ''''\<rparr>"

definition sample_run :: RunRow where
  "sample_run = \<lparr>rn_id = 1, rn_tenant = ''t'', rn_source_uid = ''u'', rn_revision_id = 1,
     rn_occurrence_key = ''k'', rn_trigger = Schedule, rn_actor = ''a'', rn_phase = Running, rn_attempt = 1,
     rn_max_attempts = 3, rn_scheduled_for = None, rn_group = None, rn_workflow = None,
     rn_created_at = 0, rn_updated_at = 0\<rparr>"

definition sample_finished :: RunRow where
  "sample_finished = sample_run\<lparr>rn_id := 2, rn_occurrence_key := ''f'', rn_phase := Succeeded\<rparr>"

definition sample_attempt :: AttemptRow where
  "sample_attempt = \<lparr>ta_id = 1, ta_tenant = ''t'', ta_run = 1, ta_number = 1, ta_phase = Running,
     ta_job_name = ''o'', ta_job_uid = ''i'', ta_resource_version = '''', ta_started_at = None,
     ta_completed_at = None\<rparr>"

definition sample_wrun :: Run where
  "sample_wrun = \<lparr>wf_ID = 1, wf_TenantID = ''t'', wf_SourceUID = ''w'', wf_RevisionID = 1,
     wf_OccurrenceKey = ''k'', wf_Trigger = Manual, wf_Actor = ''a'', wf_Phase = PhaseSucceeded,
     wf_TaskDecisions = [], wf_CreatedAt = 0, wf_UpdatedAt = 0\<rparr>"

definition sample_ledger :: ledger where
  "sample_ledger = \<lparr>lg_tenants = [''t''],
     lg_revisions = [\<lparr>vr_tenant = ''t'', vr_rev = sample_revision, vr_active = True\<rparr>],
     lg_runs = [sample_run, sample_finished], lg_attempts = [sample_attempt], lg_wruns = [sample_wrun],
     lg_audit = [], lg_rev_seq = 2, lg_run_seq = 3, lg_att_seq = 2, lg_wrun_seq = 2, lg_clock = 0\<rparr>"

lemmas sample_defs = sample_ledger_def sample_run_def sample_finished_def sample_attempt_def
  sample_wrun_def sample_revision_def sample_identity_def

lemma sample_wf: "ledger_wf sample_ledger"
  by (simp add: sample_defs ledger_wf_def revisions_wf_def runs_wf_def attempts_wf_def wruns_wf_def
      one_active_def rev_ids_def run_ids_def wrun_ids_def rev_key_def)

lemma sample_good: "good sample_ledger"
  using sample_wf by (simp add: good_def budget_ok_def sample_defs)

definition sample_job :: JobRun where
  "sample_job = JobRun_zero\<lparr>jr_SourceUID := ''u'', jr_RevisionID := ''1'', jr_OccurrenceKey := ''k2'',
     jr_Trigger := Schedule\<rparr>"

lemma sample_creatable: "creatable sample_job ''a'' 1"
  by (simp add: creatable_def sample_job_def JobRun_zero_def validateActor_def TrimSpace_def is_space_def
      rune_count_def maxActorLength_def parse_int64_def is_digit_def digits_value_def digit_value_def)

definition sample_next_attempt :: Attempt where
  "sample_next_attempt = Attempt_zero\<lparr>at_Number := 2, at_KubernetesJobName := ''p'', at_KubernetesJobUID := ''q'',
     at_Phase := CreatingAttempt\<rparr>"

text \<open>A definition that runs every minute, and its three-task workflow.\<close>

definition sample_spec :: ScheduledJobSpec where
  "sample_spec = \<lparr>ss_Schedule = ''c'', ss_History = \<lparr>SuccessfulRuns = 0, FailedRuns = 0\<rparr>, ss_Suspend = False,
     ss_ConcurrencyPolicy = Allow, ss_MisfirePolicy = FireOnce, ss_TimeoutSeconds = 0,
     ss_JobTemplate = \<lparr>jt_Image = ''m'', jt_Command = [], jt_Args = [], jt_BackoffLimit = 0\<rparr>,
     ss_RetryPolicy = \<lparr>rp_MaxAttempts = 3\<rparr>\<rparr>"

definition sample_tasks :: "Task list" where
  "sample_tasks =
     [\<lparr>tk_Name = ''a'', tk_JobRef = ''j'', tk_DependsOn = [], tk_Condition = None\<rparr>,
      \<lparr>tk_Name = ''b'', tk_JobRef = ''j'', tk_DependsOn = [''a''], tk_Condition = None\<rparr>,
      \<lparr>tk_Name = ''c'', tk_JobRef = ''j'', tk_DependsOn = [''a'', ''b''], tk_Condition = None\<rparr>]"

definition sample_dag :: DAG where
  "sample_dag = \<lparr>dag_FailPolicy = FailFast, dag_TimeoutSeconds = 0, dag_Tasks = sample_tasks\<rparr>"

definition sample_workflow :: WorkflowJobSpec where
  "sample_workflow = \<lparr>ws_Schedule = ''c'', ws_History = \<lparr>SuccessfulRuns = 0, FailedRuns = 0\<rparr>, ws_Suspend = False,
     ws_ConcurrencyPolicy = Allow, ws_TimeoutSeconds = 0, ws_FailPolicy = FailFast,
     ws_Tasks = [\<lparr>wt_Name = ''a'', wt_JobRef = ''j'', wt_DependsOn = [], wt_Condition = None\<rparr>,
       \<lparr>wt_Name = ''b'', wt_JobRef = ''j'', wt_DependsOn = [''a''],
        wt_Condition = Some \<lparr>wc_Type = ConditionAll, wc_Rules = [\<lparr>wr_Task = ''a'', wr_Field = FieldPhase,
          wr_Operator = OpEq, wr_Values = [''Succeeded''], wr_Number = None\<rparr>]\<rparr>\<rparr>]\<rparr>"

definition sample_ext :: Ext where
  "sample_ext = \<lparr>ex_sha = (\<lambda>s. s), ex_rfc = itoa, ex_jsonb = Some, ex_encode = (\<lambda>_. ''s''),
     ex_decode = (\<lambda>_. Inr sample_spec), ex_encode_workflow = (\<lambda>_. ''w''),
     ex_decode_workflow = (\<lambda>_. Inr sample_workflow)\<rparr>"

text \<open>A cluster that holds the Jobs created in it.\<close>

definition sample_client :: "(KubeJob list) JobClient" where
  "sample_client = \<lparr>jc_Get = (\<lambda>ns n k. (case find (\<lambda>j. kj_Name j = n \<and> kj_Namespace j = ns) k of
        Some j \<Rightarrow> (Inr j, k) | None \<Rightarrow> (Inl ApiNotFound, k))),
     jc_Create = (\<lambda>j k. (Inr (j\<lparr>kj_UID := ''i''\<rparr>), j\<lparr>kj_UID := ''i''\<rparr> # k)),
     jc_Delete = (\<lambda>ns n k. (Inr (), filter (\<lambda>j. \<not> (kj_Name j = n \<and> kj_Namespace j = ns)) k))\<rparr>"

text \<open>An API server that accepts a deletion but keeps answering with the Job.\<close>

definition stuck_job :: KubeJob where
  "stuck_job = BuildJob (\<lambda>s. s) (name_identity ''r'' 1) ''n''
     \<lparr>tp_Image = '''', tp_Command = [], tp_Args = [], tp_BackoffLimit = 0, tp_ActiveDeadlineSeconds = 0\<rparr>"

definition stuck_client :: "(KubeJob list) JobClient" where
  "stuck_client = \<lparr>jc_Get = (\<lambda>ns n k. (Inr stuck_job, k)), jc_Create = (\<lambda>j k. (Inr j, k)),
     jc_Delete = (\<lambda>ns n k. (Inr (), k))\<rparr>"

definition sample_runtime :: "(KubeJob list) JobClient \<Rightarrow> (KubeJob list) Runtime" where
  "sample_runtime client = \<lparr>rt_Client = client, rt_Patch = (\<lambda>_ _ _ _ k. (Inr (), k)),
     rt_Tenants = DefaultTenantResolver ''t'', rt_Outcomes = None, rt_Functions = None\<rparr>"

definition sample_world :: "(KubeJob list) world" where
  "sample_world = \<lparr>w_ledger = sample_ledger, w_cluster = [], w_tick = 0\<rparr>"

definition sample_meta :: ObjectMeta where
  "sample_meta = \<lparr>om_Name = ''r'', om_Namespace = ''n'', om_UID = ''z'', om_Labels = [], om_Annotations = [],
     om_OwnerReferences = []\<rparr>"

definition sample_object :: "trigger \<Rightarrow> string \<Rightarrow> JobRunSpec CRObject" where
  "sample_object tr key = \<lparr>cr_Meta = sample_meta, cr_Spec = Inr
     \<lparr>js_ScheduledJobRef = \<lparr>ref_Name = ''j'', ref_UID = ''u''\<rparr>, js_DefinitionRevision = 1, js_Trigger = tr,
      js_Actor = ''a'', js_OccurrenceKey = key, js_TimeoutSeconds = 0, js_CancelRequested = False\<rparr>\<rparr>"

definition sample_cr :: "(KubeJob list) CRClient" where
  "sample_cr = \<lparr>cc_CreateRun = (\<lambda>_ k. (Inr (), k)), cc_CancelRun = (\<lambda>_ _ k. (Inr (), k)),
     cc_DeleteRun = (\<lambda>_ _ k. (Inr (), k))\<rparr>"

definition sample_scheduler :: "(KubeJob list) Scheduler" where
  "sample_scheduler = \<lparr>sc_Publisher = sample_cr, sc_Tenants = [''t''], sc_Actor = '''', sc_MisfireGrace = 0,
     sc_ParseSchedule = Some (\<lambda>_. Inr (\<lambda>_. True)), sc_MaxCatchUp = 2, sc_cron = (\<lambda>_. Inr (\<lambda>t. t)), sc_rfc3339 = itoa\<rparr>"

definition sample_walker :: "(KubeJob list) WorkflowWalker" where
  "sample_walker = \<lparr>wk_Publisher = sample_cr, wk_Outcomes = True, wk_Tenants = [''t''], wk_Actor = [],
     wk_ProjectStatus = None\<rparr>"

text \<open>A workflow run whose first task has succeeded.\<close>

definition walker_run :: Run where
  "walker_run = sample_wrun\<lparr>wf_Phase := PhaseRunning\<rparr>"

definition walker_world :: "(KubeJob list) world" where
  "walker_world = sample_world\<lparr>w_ledger := sample_ledger\<lparr>lg_runs := [sample_run, sample_finished,
     sample_finished\<lparr>rn_id := 3, rn_occurrence_key := step_key sample_ext walker_run ''a'', rn_workflow := Some 1\<rparr>],
     lg_wruns := [walker_run], lg_run_seq := 4\<rparr>\<rparr>"

subsection \<open>Corner cases\<close>

text \<open>Attempt 2 is running while the failed Job of attempt 1 is still there.\<close>

definition stale_world :: "(KubeJob list) world" where
  "stale_world = sample_world\<lparr>w_ledger := sample_ledger\<lparr>lg_runs := [sample_run\<lparr>rn_attempt := 2\<rparr>],
     lg_attempts := [sample_attempt\<lparr>ta_job_name := kj_Name stuck_job, ta_phase := RetryWaiting\<rparr>,
       sample_attempt\<lparr>ta_id := 2, ta_number := 2, ta_job_name := ''oj-r-2'', ta_job_uid := ''i2''\<rparr>], lg_att_seq := 3\<rparr>\<rparr>"

definition stale_job :: KubeJob where
  "stale_job = stuck_job\<lparr>kj_UID := ''i'', kj_Conditions := [(''Failed'', ''True'')]\<rparr>"

definition unknown_ledger :: ledger where
  "unknown_ledger = sample_ledger\<lparr>lg_runs := [sample_run\<lparr>rn_phase := CancelUnknown\<rparr>]\<rparr>"

definition cyclic_workflow :: WorkflowJobSpec where
  "cyclic_workflow = sample_workflow\<lparr>ws_Tasks :=
     [\<lparr>wt_Name = ''a'', wt_JobRef = ''j'', wt_DependsOn = [''b''], wt_Condition = None\<rparr>,
      \<lparr>wt_Name = ''b'', wt_JobRef = ''j'', wt_DependsOn = [''a''], wt_Condition = None\<rparr>]\<rparr>"

definition cyclic_object :: WorkflowJobObject where
  "cyclic_object = \<lparr>wj_Meta = sample_meta, wj_Generation = 1, wj_Spec = cyclic_workflow\<rparr>"

subsection \<open>Keys and policies\<close>

text \<open>
  A policy that allows reading every job of the tenant, one that denies one of them, and a key bound to both.
\<close>

definition allow_jobs :: Document where
  "allow_jobs = \<lparr>doc_Version = ''1'', doc_Statement =
     [\<lparr>stmt_Effect = EffectAllow, stmt_Action = [''job:Get''], stmt_Resource = [''orbitjob:self::job/*'']\<rparr>]\<rparr>"

definition deny_secret :: Document where
  "deny_secret = \<lparr>doc_Version = ''1'', doc_Statement =
     [\<lparr>stmt_Effect = EffectDeny, stmt_Action = [''job:Get''], stmt_Resource = [''orbitjob:self::job/s'']\<rparr>]\<rparr>"

definition sample_decode :: "string \<Rightarrow> Document result" where
  "sample_decode raw = (if raw = ''A'' then Inr allow_jobs else if raw = ''D'' then Inr deny_secret
     else Inl (Errorf ''json''))"

definition sample_policy :: "string \<Rightarrow> string \<Rightarrow> PolicyRow" where
  "sample_policy i raw = \<lparr>pol_id = i, pol_tenant = Some ''t'', pol_name = i, pol_description = '''', pol_document = raw\<rparr>"

definition sample_key :: KeyRow where
  "sample_key = \<lparr>ak_id = ''k'', ak_tenant = Some ''t'', ak_kind = ''tenant'', ak_group = None, ak_boundary = Some ''A'',
     ak_hash = ''h'', ak_prefix = ''otj_12345678'', ak_expires = None, ak_revoked = None, ak_created_at = 1,
     ak_created_by = None\<rparr>"

definition sample_auth :: auth_store where
  "sample_auth = \<lparr>as_tenants = [(''t'', ''active'')], as_groups = [],
     as_policies = [sample_policy ''A'' ''A'', sample_policy ''D'' ''D''], as_keys = [sample_key],
     as_bindings = [\<lparr>kp_key = ''k'', kp_policy = ''A'', kp_bound_by = None\<rparr>,
       \<lparr>kp_key = ''k'', kp_policy = ''D'', kp_bound_by = None\<rparr>], as_events = [], as_clock = 2\<rparr>"

lemma sample_auth_wf: "auth_wf sample_auth"
  by (simp add: auth_wf_def sample_auth_def sample_policy_def sample_key_def)

definition sample_create :: CreateInput where
  "sample_create = \<lparr>ci_TenantID = ''t'', ci_ResourceGroupID = '''', ci_PolicyIDs = [''A''], ci_BoundaryPolicyID = '''',
     ci_Caller = \<lparr>ca_TenantID = ''t'', ca_KeyID = ''k'', ca_ResourceGroupID = '''',
       ca_Documents = [ResolveSelf allow_jobs ''t'', ResolveSelf deny_secret ''t''], ca_IsPlatform = False,
       ca_BoundaryPolicyID = ''A''\<rparr>\<rparr>"

definition sample_created :: auth_store where
  "sample_created = snd (Creator_Create sample_decode (Inr ''otj_abcdefgh'') Inr ''n'' sample_create sample_auth)"

definition job_request :: "string \<Rightarrow> Request" where
  "job_request i = \<lparr>req_Action = ''job:Get'', req_Resource = \<lparr>arn_Tenant = ''t'', arn_Group = '''', arn_Type = ''job'', arn_ID = i\<rparr>\<rparr>"

end
