(* ===== verification/Service_World.thy ===== *)
theory Service_World
  imports World
begin

section \<open>Services with tables of their own\<close>

text \<open>
  The checks, the service levels and the functions keep tables beside the run ledger. A service sees a world with the ledger,
  the cluster and its own store. A call to the own store has the same faults as a call to the ledger, and other writers may
  commit before it: \<open>other\<close> is what they did to the store.
\<close>

record ('k, 's) sworld =
  sw_world :: "'k world"
  sw_store :: 's

definition on_world :: "('k world, 'a) io \<Rightarrow> (('k, 's) sworld, 'a) io" where
  "on_world m = (\<lambda>v. case m (sw_world v) of (r, w) \<Rightarrow> (r, v\<lparr>sw_world := w\<rparr>))"

definition db_call :: "env \<Rightarrow> (nat \<Rightarrow> 's \<Rightarrow> 's) \<Rightarrow> (time \<Rightarrow> ('s, 'a) io) \<Rightarrow> (('k, 's) sworld, 'a) io" where
  "db_call env other op = (\<lambda>v.
     let w = sw_world v; n = w_tick w in
     case call_with (en_fault env n) (op (en_now env n)) (other n (sw_store v)) of
       (r, s') \<Rightarrow> (r, v\<lparr>sw_world := w\<lparr>w_tick := n + 1\<rparr>, sw_store := s'\<rparr>))"

lemma db_call_eq:
  "db_call env other op = (\<lambda>v.
     let w = sw_world v; n = w_tick w; s = other n (sw_store v); w' = w\<lparr>w_tick := n + 1\<rparr> in
     case en_fault env n of
       FailBefore \<Rightarrow> (Inl (DbError ''connection''), v\<lparr>sw_world := w', sw_store := s\<rparr>)
     | NoFault \<Rightarrow> (case op (en_now env n) s of (r, s') \<Rightarrow> (r, v\<lparr>sw_world := w', sw_store := s'\<rparr>))
     | FailAfter \<Rightarrow> (case op (en_now env n) s of
          (r, s') \<Rightarrow> (case r of Inl e \<Rightarrow> Inl e | Inr a \<Rightarrow> Inl (DbError ''connection''), v\<lparr>sw_world := w', sw_store := s'\<rparr>)))"
  by (rule ext) (simp add: db_call_def call_with_def Let_def split: fault.split prod.split sum.split)

text \<open>One transaction that the connection carries out: an error rolls back. The fault of the connection is put around the call.\<close>

definition transaction :: "('s, 'a) io \<Rightarrow> ('s, 'a) io" where
  "transaction = sql_tx NoFault"

definition io_read :: "('s \<Rightarrow> 'a) \<Rightarrow> ('s, 'a) io" where
  "io_read f = (\<lambda>s. (Inr (f s), s))"

lemma tx_apply [io_simps]:
  "transaction fn s = (case fn s of (Inl e, _) \<Rightarrow> (Inl e, s) | (Inr a, s') \<Rightarrow> (Inr a, s'))"
  by (simp add: transaction_def sql_tx_commits)

lemma io_read_apply [io_simps]: "io_read f s = (Inr (f s), s)"
  by (simp add: io_read_def)

lemma tx_atomic: "transaction fn s = (Inl e, s') \<Longrightarrow> s' = s"
  by (auto simp: tx_apply split: prod.splits sum.splits)

lemma tx_keeps: "reflp R \<Longrightarrow> io_keeps R fn \<Longrightarrow> io_keeps R (transaction fn)"
  unfolding io_keeps_def tx_apply reflp_def
  by (auto split: prod.splits sum.splits) (metis snd_conv)+

lemma io_read_keeps: "reflp R \<Longrightarrow> io_keeps R (io_read f)"
  by (simp add: io_keeps_def io_read_def reflp_def)

subsection \<open>Guarantees of a service\<close>

definition on_service :: "(ledger \<Rightarrow> ledger \<Rightarrow> bool) \<Rightarrow> ('s \<Rightarrow> 's \<Rightarrow> bool) \<Rightarrow> ('k, 's) sworld \<Rightarrow> ('k, 's) sworld \<Rightarrow> bool" where
  "on_service R S v u \<longleftrightarrow> R (w_ledger (sw_world v)) (w_ledger (sw_world u)) \<and> S (sw_store v) (sw_store u)"

lemma on_service_refl: "reflp R \<Longrightarrow> reflp S \<Longrightarrow> reflp (on_service R S)"
  by (simp add: reflp_def on_service_def)

lemma on_service_trans: "transp R \<Longrightarrow> transp S \<Longrightarrow> transp (on_service R S)"
  unfolding transp_def on_service_def by blast

text \<open>
  The interface between a service and its two stores. What the calls keep, on the ledger and on the service's tables,
  every program built from them keeps, whatever fails and whoever else writes.
\<close>

locale service = process R env for R :: "ledger \<Rightarrow> ledger \<Rightarrow> bool" and env :: env +
  fixes S :: "'s \<Rightarrow> 's \<Rightarrow> bool" and other :: "nat \<Rightarrow> 's \<Rightarrow> 's"
  assumes S_refl: "reflp S" and S_trans: "transp S" and other_writers: "\<And>n s. S s (other n s)"
begin

lemma world: "io_keeps (on_ledger R) m \<Longrightarrow> io_keeps (on_service R S) (on_world m)"
  using S_refl unfolding io_keeps_def on_world_def on_service_def on_ledger_def reflp_def
  by (auto split: prod.splits) (metis snd_conv)

lemma db: "(\<And>now. io_keeps S (op now)) \<Longrightarrow> io_keeps (on_service R S) (db_call env other op)"
proof -
  assume op: "\<And>now. io_keeps S (op now)"
  show ?thesis
    unfolding io_keeps_def
  proof
    fix v :: "('c, 's) sworld"
    let ?n = "w_tick (sw_world v)" and ?s = "other (w_tick (sw_world v)) (sw_store v)"
    have step: "S (sw_store v) ?s" by (rule other_writers)
    then have "S (sw_store v) (snd (op (en_now env ?n) ?s))"
      using S_trans io_keepsD [OF op, of ?s] by (blast dest: transpD)
    with step show "on_service R S v (snd (db_call env other op v))"
      using R_refl by (auto simp: db_call_eq on_service_def Let_def reflp_def split: fault.split prod.splits)
  qed
qed

lemmas spure = io_keeps_pure [OF on_service_refl [OF R_refl S_refl]]
lemmas sbind = io_keeps_bind [OF on_service_trans [OF R_trans S_trans]]
lemmas siter = io_keeps_iter [OF on_service_refl [OF R_refl S_refl] on_service_trans [OF R_trans S_trans]]
lemmas ssum = io_keeps_sum [OF on_service_refl [OF R_refl S_refl] on_service_trans [OF R_trans S_trans]]
lemmas sintros = spure sbind io_keeps_try io_keeps_wrap

end

end
