(* ===== verification/Service_Hoare.thy ===== *)
theory Service_Hoare
  imports Service_World Scheduling_Laws
begin

section \<open>Reasoning about a service, fault by fault\<close>

text \<open>
  A triple for programs that may fail: from \<open>P\<close>, a result satisfies \<open>Q\<close> and an error leaves \<open>E\<close>. With no other writers, a call to a store
  either ran its operation, and the caller got the answer or lost it, or did not run at all. On top of it, the argument that a source fired again
  and again under arbitrary faults gets at most one run per occurrence.
\<close>

definition hoare :: "('w \<Rightarrow> bool) \<Rightarrow> ('w, 'a) io \<Rightarrow> ('a \<Rightarrow> 'w \<Rightarrow> bool) \<Rightarrow> ('w \<Rightarrow> bool) \<Rightarrow> bool" where
  "hoare P m Q E \<longleftrightarrow> (\<forall>w r w'. P w \<longrightarrow> m w = (r, w') \<longrightarrow> (case r of Inl _ \<Rightarrow> E w' | Inr a \<Rightarrow> Q a w'))"

lemma hoareD: "hoare P m Q E \<Longrightarrow> P w \<Longrightarrow> m w = (r, w') \<Longrightarrow> (case r of Inl _ \<Rightarrow> E w' | Inr a \<Rightarrow> Q a w')"
  by (simp add: hoare_def)

lemma hoare_bind: "hoare P m Q E \<Longrightarrow> (\<And>a. hoare (Q a) (f a) S E) \<Longrightarrow> hoare P (io_bind m f) S E"
  unfolding hoare_def io_bind_apply by (fastforce split: prod.splits sum.splits)

lemma hoare_return: "(\<And>w. P w \<Longrightarrow> Q a w) \<Longrightarrow> hoare P (io_return a) Q E"
  by (simp add: hoare_def io_return_apply)

lemma hoare_fail: "(\<And>w. P w \<Longrightarrow> E w) \<Longrightarrow> hoare P (io_fail e) Q E"
  by (simp add: hoare_def io_fail_apply)

lemma hoare_lift: "(\<And>w. P w \<Longrightarrow> E w) \<Longrightarrow> (\<And>a w. r = Inr a \<Longrightarrow> P w \<Longrightarrow> Q a w) \<Longrightarrow> hoare P (io_lift r) Q E"
  by (cases r) (simp_all add: hoare_def io_lift_apply io_fail_apply io_return_apply)

lemma hoare_wrap: "hoare P m Q E \<Longrightarrow> hoare P (io_wrap msg m) Q E"
  unfolding hoare_def io_wrap_apply wrap_result_def by (fastforce split: prod.splits sum.splits)

lemma hoare_try: "hoare P m Q E \<Longrightarrow> hoare P (io_try m) (\<lambda>r w. case r of Inl _ \<Rightarrow> E w | Inr a \<Rightarrow> Q a w) S"
  unfolding hoare_def io_try_apply by (auto split: prod.splits)

lemma hoare_weaken:
  "hoare P m Q E \<Longrightarrow> (\<And>w. P' w \<Longrightarrow> P w) \<Longrightarrow> (\<And>a w. Q a w \<Longrightarrow> Q' a w) \<Longrightarrow> (\<And>w. E w \<Longrightarrow> E' w) \<Longrightarrow> hoare P' m Q' E'"
  unfolding hoare_def by (fastforce split: sum.splits)

lemma hoare_iter: "(\<And>x. x \<in> set xs \<Longrightarrow> hoare P (f x) (\<lambda>_. P) P) \<Longrightarrow> hoare P (io_iter f xs) (\<lambda>_. P) P"
  by (induction xs) (auto intro!: hoare_return hoare_bind)

text \<open>A part that leaves what the assertion speaks of alone.\<close>

lemma hoare_frame: "(\<And>w r w'. m w = (r, w') \<Longrightarrow> P w \<Longrightarrow> P w') \<Longrightarrow> hoare P m (\<lambda>_. P) P"
  unfolding hoare_def by (auto split: sum.splits)

lemma hoare_store:
  assumes "undisturbed env"
    and "\<And>now l r l'. P l \<Longrightarrow> op now l = (r, l') \<Longrightarrow> E l' \<and> (\<forall>a. r = Inr a \<longrightarrow> Q a l')" and "\<And>l. P l \<Longrightarrow> E l"
  shows "hoare (\<lambda>w. P (w_ledger w)) (store_call env op) (\<lambda>a w. Q a (w_ledger w)) (\<lambda>w. E (w_ledger w))"
  unfolding hoare_def
proof (intro allI impI)
  fix w r w' assume P: "P (w_ledger w)" and call: "store_call env op w = (r, w')"
  show "case r of Inl _ \<Rightarrow> E (w_ledger w') | Inr a \<Rightarrow> Q a (w_ledger w')"
    using store_call_result [OF assms(1) call] P assms(2) [OF P] assms(3) by (auto split: sum.split)
qed

lemma hoare_on_world:
  "hoare (\<lambda>w. P (w_ledger w)) m (\<lambda>a w. Q a (w_ledger w)) (\<lambda>w. E (w_ledger w)) \<Longrightarrow>
   hoare (\<lambda>v. P (w_ledger (sw_world v))) (on_world m) (\<lambda>a v. Q a (w_ledger (sw_world v))) (\<lambda>v. E (w_ledger (sw_world v)))"
  unfolding hoare_def on_world_def by (auto split: prod.splits)

lemma db_call_ledger: "db_call env other op v = (r, u) \<Longrightarrow> w_ledger (sw_world u) = w_ledger (sw_world v)"
  by (auto simp: db_call_eq Let_def split: fault.splits prod.splits)

text \<open>With no other writers of the service's tables.\<close>

lemma db_call_result:
  assumes "\<And>n s. other n s = s" and "db_call env other op v = (r, u)"
  shows "(\<exists>now r'. op now (sw_store v) = (r', sw_store u) \<and> (\<forall>a. r = Inr a \<longrightarrow> r' = Inr a))
     \<or> sw_store u = sw_store v \<and> (\<exists>e. r = Inl e)"
  using assms(2) by (auto simp: db_call_eq Let_def assms(1) split: fault.splits prod.splits sum.splits) blast+

lemma db_call_InrD:
  assumes "\<And>n s. other n s = s" and "db_call env other op v = (Inr a, u)"
  shows "\<exists>now. op now (sw_store v) = (Inr a, sw_store u)"
  using db_call_result [OF assms] by auto

lemma on_world_store: "on_world m v = (r, u) \<Longrightarrow> sw_store u = sw_store v"
  by (auto simp: on_world_def split: prod.splits)

subsection \<open>One run per occurrence\<close>

definition runs_of :: "string \<Rightarrow> ledger \<Rightarrow> RunRow list" where
  "runs_of uid l = filter (\<lambda>r. rn_source_uid r = uid) (lg_runs l)"

text \<open>The revision of generation \<open>gen\<close> of a source, by its id.\<close>

definition has_revision :: "string \<Rightarrow> string \<Rightarrow> string \<Rightarrow> int \<Rightarrow> int \<Rightarrow> ledger \<Rightarrow> bool" where
  "has_revision t mode uid gen i l \<longleftrightarrow> (\<exists>row \<in> set (lg_revisions l). vr_tenant row = t \<and> same_identity mode uid row
     \<and> rev_Generation (vr_rev row) = gen \<and> rev_ID (vr_rev row) = i)"

lemma has_revision_unique:
  assumes "ledger_wf l" and "has_revision t mode uid gen i l" and "has_revision t mode uid gen j l"
  shows "i = j"
proof -
  from assms(1) have d: "distinct (map (\<lambda>r. (rev_key r, rev_Generation (vr_rev r))) (lg_revisions l))"
    by (simp add: ledger_wf_def revisions_wf_def)
  from assms(2,3) obtain r s where rs: "r \<in> set (lg_revisions l)" "s \<in> set (lg_revisions l)" "rev_key r = rev_key s"
      "rev_Generation (vr_rev r) = rev_Generation (vr_rev s)" and ids: "rev_ID (vr_rev r) = i" "rev_ID (vr_rev s) = j"
    by (auto simp: has_revision_def same_identity_def rev_key_def)
  with distinct_map_eq [OF d rs(1,2)] show ?thesis by simp
qed

lemma has_revision_kept:
  assumes "revisions_kept (lg_revisions l) (lg_revisions m)" and "has_revision t mode uid gen i l"
  shows "has_revision t mode uid gen i m"
proof -
  from assms(2) obtain row where row: "row \<in> set (lg_revisions l)" "vr_tenant row = t" "same_identity mode uid row"
    "rev_Generation (vr_rev row) = gen" "rev_ID (vr_rev row) = i" by (auto simp: has_revision_def)
  have "(vr_tenant row, vr_rev row) \<in> set (map (\<lambda>r. (vr_tenant r, vr_rev r)) (lg_revisions m))"
    using assms(1) row(1) set_mono_prefix [of "map (\<lambda>r. (vr_tenant r, vr_rev r)) (lg_revisions l)"]
    unfolding revisions_kept_def by fastforce
  then obtain r where "r \<in> set (lg_revisions m)" "vr_tenant r = vr_tenant row" "vr_rev r = vr_rev row" by auto
  with row show ?thesis by (auto simp: has_revision_def same_identity_def)
qed

text \<open>At most one run more than \<open>n\<close>, and if there is one, it is the occurrence of the generation's revision.\<close>

definition one_more :: "string \<Rightarrow> string \<Rightarrow> string \<Rightarrow> int \<Rightarrow> (int \<Rightarrow> string) \<Rightarrow> nat \<Rightarrow> ledger \<Rightarrow> bool" where
  "one_more t mode uid gen key n l \<longleftrightarrow> ledger_wf l \<and> (length (runs_of uid l) = n
     \<or> length (runs_of uid l) = Suc n \<and> (\<exists>i. has_revision t mode uid gen i l \<and> recorded t uid (key i) l))"

lemma one_more_start: "ledger_wf l \<Longrightarrow> one_more t mode uid gen key (length (runs_of uid l)) l"
  by (simp add: one_more_def)

lemma one_more_bound: "one_more t mode uid gen key n l \<Longrightarrow> length (runs_of uid l) \<le> Suc n"
  by (auto simp: one_more_def)

interpretation runs_same: store_guarantee "\<lambda>l m. lg_runs m = lg_runs l"
  by unfold_locales (auto simp: reflp_def transp_def)

lemma ApplyRevision_runs: "io_keeps (\<lambda>l m. lg_runs m = lg_runs l) (ApplyRevisionForTenant j t rv)"
proof -
  have "io_keeps (\<lambda>l m. lg_runs m = lg_runs l) (applyRevisionSQL j t rv)"
       "io_keeps (\<lambda>l m. lg_runs m = lg_runs l) (deactivateRevisionsSQL a b t i)"
       "io_keeps (\<lambda>l m. lg_runs m = lg_runs l) (activateRevisionSQL i t)"
       "io_keeps (\<lambda>l m. lg_runs m = lg_runs l) (insertControlPlaneAudit t ac ev rs k d)" for a b i ac ev rs k d
    by (auto simp: io_keeps_def applyRevisionSQL_def deactivateRevisionsSQL_def activateRevisionSQL_def
        insertControlPlaneAudit_def Let_def split: option.splits)
  then show ?thesis unfolding ApplyRevisionForTenant_def project_generation_def Let_def
    by (auto intro!: runs_same.keeps_transaction runs_same.keeps_bind runs_same.keeps_pure runs_same.keeps_get
        split: option.splits prod.splits)
qed

lemma one_more_apply:
  assumes inv: "one_more t (id_SourceMode (rev_Identity rv)) (id_SourceUID (rev_Identity rv)) (rev_Generation rv) key n l"
    and run: "ApplyRevisionForTenant j t rv l = (r, m)"
  shows "one_more t (id_SourceMode (rev_Identity rv)) (id_SourceUID (rev_Identity rv)) (rev_Generation rv) key n m"
    and "r = Inr i \<Longrightarrow> has_revision t (id_SourceMode (rev_Identity rv)) (id_SourceUID (rev_Identity rv)) (rev_Generation rv) i m"
proof -
  have wf: "ledger_wf m" using io_keepsD' [OF wf_ApplyRevision run] inv by (simp add: one_more_def)
  have kept: "revisions_kept (lg_revisions l) (lg_revisions m)"
    using io_keepsD' [OF evolves_ApplyRevision run] by (simp add: ledger_evolves_def)
  have "lg_runs m = lg_runs l" using io_keepsD' [OF ApplyRevision_runs run] .
  then have "runs_of u m = runs_of u l" "recorded t u k m = recorded t u k l" for u k by (simp_all add: runs_of_def recorded_def)
  then show "one_more t (id_SourceMode (rev_Identity rv)) (id_SourceUID (rev_Identity rv)) (rev_Generation rv) key n m"
    using inv wf has_revision_kept [OF kept] unfolding one_more_def by metis
  show "r = Inr i \<Longrightarrow> has_revision t (id_SourceMode (rev_Identity rv)) (id_SourceUID (rev_Identity rv)) (rev_Generation rv) i m"
    using ApplyRevision_ok [of j t rv l i m] run by (auto simp: has_revision_def stored_revision_def)
qed

lemma CreateOccurrence_cases:
  assumes "CreateOccurrenceForTenant t run n a l = (r, m)"
  shows "m = l \<or> lg_revisions m = lg_revisions l \<and> (\<exists>row. lg_runs m = lg_runs l @ [row] \<and> rn_tenant row = t
      \<and> rn_source_uid row = jr_SourceUID run \<and> rn_occurrence_key row = jr_OccurrenceKey run \<and> rn_trigger row = jr_Trigger run
      \<and> rn_max_attempts row = max 1 n \<and> rn_actor row = a \<and> rn_phase row = Pending
      \<and> null_time (rn_scheduled_for row) = jr_ScheduledFor run)"
proof -
  have ins: "(r1 = Inl e \<longrightarrow> l1 = l) \<and> (r1 = Inr None \<longrightarrow> l1 = l) \<and> (r1 = Inr (Some i) \<longrightarrow> lg_revisions l1 = lg_revisions l
      \<and> (\<exists>row. lg_runs l1 = lg_runs l @ [row] \<and> rn_tenant row = t \<and> rn_source_uid row = u \<and> rn_occurrence_key row = k
         \<and> rn_trigger row = tr \<and> rn_max_attempts row = nn \<and> rn_actor row = a \<and> rn_phase row = p \<and> rn_scheduled_for row = sc))"
    if "insertOccurrenceSQL t u rid k tr a p nn sc w l = (r1, l1)" for u rid k tr p nn sc w r1 l1 e i
    using that by (auto simp: insertOccurrenceSQL_def split: if_splits)
  have null: "null_time (if time_IsZero s then None else Some s) = s" for s by (simp add: null_time_def time_IsZero_def)
  have max: "(if n < 1 then 1 else n) = max 1 n" by simp
  show ?thesis
  proof (cases r)
    case (Inl e)
    then show ?thesis using assms
      by (auto simp: CreateOccurrenceForTenant_def WithTenantTransaction_eq WithTenant_def io_bind_apply io_lift_apply io_fail_apply Let_def
          split: if_splits sum.splits prod.splits)
  next
    case (Inr b)
    with assms obtain rid x l1 where body: "insertOccurrenceSQL t (jr_SourceUID run) rid (jr_OccurrenceKey run) (jr_Trigger run) a Pending
        (max 1 n) (if time_IsZero (jr_ScheduledFor run) then None else Some (jr_ScheduledFor run)) None l = (Inr x, l1)"
      and rest: "lg_runs m = lg_runs l1" "lg_revisions m = lg_revisions l1" "x = None \<longrightarrow> m = l1"
      unfolding CreateOccurrenceForTenant_def Let_def max
      by (auto simp: io_return_apply io_fail_apply io_lift_apply io_get_def insertControlPlaneAudit_def
          dest!: io_bind_InrD transaction_InrD split: if_splits option.splits)
    show ?thesis
    proof (cases x)
      case None
      then show ?thesis using ins [OF body] rest by simp
    next
      case (Some i)
      with ins [OF body, where i = i] rest show ?thesis using null by auto
    qed
  qed
qed

lemma one_more_create:
  assumes inv: "one_more t mode uid gen key n l" and rv: "has_revision t mode uid gen i l"
    and job: "jr_SourceUID job = uid" "jr_OccurrenceKey job = key i"
    and run: "CreateOccurrenceForTenant t job k a l = (r, m)"
  shows "one_more t mode uid gen key n m"
proof (cases "recorded t uid (key i) l")
  case True
  then have "m = l" using CreateOccurrence_again [OF _ run] job by simp
  with inv show ?thesis by simp
next
  case False
  have wf: "ledger_wf l" "ledger_wf m" using io_keepsD' [OF wf_CreateOccurrence run] inv by (simp_all add: one_more_def)
  have "length (runs_of uid l) = n"
    using inv False has_revision_unique [OF wf(1) rv] unfolding one_more_def by metis
  note before = this
  from CreateOccurrence_cases [OF run] show ?thesis
  proof
    assume m: "lg_revisions m = lg_revisions l \<and> (\<exists>row. lg_runs m = lg_runs l @ [row] \<and> rn_tenant row = t
      \<and> rn_source_uid row = jr_SourceUID job \<and> rn_occurrence_key row = jr_OccurrenceKey job \<and> rn_trigger row = jr_Trigger job
      \<and> rn_max_attempts row = max 1 k \<and> rn_actor row = a \<and> rn_phase row = Pending
      \<and> null_time (rn_scheduled_for row) = jr_ScheduledFor job)"
    then have "length (runs_of uid m) = Suc n" "recorded t uid (key i) m" using before job by (auto simp: runs_of_def recorded_def)
    moreover have "has_revision t mode uid gen i m" using rv m by (simp add: has_revision_def)
    ultimately show ?thesis using wf(2) by (auto simp: one_more_def)
  qed (use inv in simp)
qed

end
