(* ===== verification/Go_Calendar.thy ===== *)
theory Go_Calendar
  imports Orbit_Prelude
begin

section \<open>Dates in UTC\<close>

text \<open>
  The parts of Go's \<open>time\<close> package that turn an instant into a date and back, in UTC: \<open>Time.Date\<close>, \<open>time.Date\<close> for the first day of a month,
  and \<open>Time.AddDate\<close> for whole months from such a day. The calendar is the proleptic Gregorian one; day 0 is 1 January of year 1, the date of
  the zero time.
\<close>

definition day_ns :: duration where "day_ns = 24 * hour_ns"

definition is_leap :: "int \<Rightarrow> bool" where
  "is_leap y \<longleftrightarrow> 4 dvd y \<and> (\<not> 100 dvd y \<or> 400 dvd y)"

definition days_before_year :: "int \<Rightarrow> int" where
  "days_before_year y = 365 * (y - 1) + (y - 1) div 4 - (y - 1) div 100 + (y - 1) div 400"

definition month_starts :: "bool \<Rightarrow> int list" where
  "month_starts leap = (let l = (if leap then 1 else 0) in
     [0, 31, 59 + l, 90 + l, 120 + l, 151 + l, 181 + l, 212 + l, 243 + l, 273 + l, 304 + l, 334 + l])"

definition year_of_day :: "int \<Rightarrow> int" where
  "year_of_day d = (let y = (d * 400) div 146097 + 1 in
     if days_before_year (y + 1) \<le> d then y + 1 else if d < days_before_year y then y - 1 else y)"

definition month_of_day :: "int \<Rightarrow> int" where
  "month_of_day d = (let y = year_of_day d in
     int (length (filter (\<lambda>s. s \<le> d - days_before_year y) (month_starts (is_leap y)))))"

text \<open>Midnight of the first day of a month; a month outside 1 to 12 carries into the year.\<close>

definition date_first :: "int \<Rightarrow> int \<Rightarrow> time" where
  "date_first y m = (let y' = y + (m - 1) div 12; i = nat ((m - 1) mod 12) in
     (days_before_year y' + month_starts (is_leap y') ! i) * day_ns)"

subsection \<open>The year and the month of a day\<close>

lemma div_bounds: "0 < n \<Longrightarrow> n * (z div n) \<le> (z::int)" "0 < n \<Longrightarrow> z < n * (z div n) + n"
  using mult_div_mod_eq [of n z] pos_mod_bound [of n z] pos_mod_sign [of n z] by linarith+

lemma days_before_year_bounds:
  "146097 * y - 146897 < 400 * days_before_year y" "400 * days_before_year y < 146097 * y - 145697"
proof -
  define a b c where "a = (y - 1) div 4" and "b = (y - 1) div 100" and "c = (y - 1) div 400"
  have "4 * a \<le> y - 1" "y - 1 < 4 * a + 4" unfolding a_def by (rule div_bounds, simp)+
  moreover have "100 * b \<le> y - 1" "y - 1 < 100 * b + 100" unfolding b_def by (rule div_bounds, simp)+
  moreover have "400 * c \<le> y - 1" "y - 1 < 400 * c + 400" unfolding c_def by (rule div_bounds, simp)+
  moreover have "days_before_year y = 365 * y - 365 + a - b + c" by (simp add: days_before_year_def a_def b_def c_def)
  ultimately show "146097 * y - 146897 < 400 * days_before_year y" "400 * days_before_year y < 146097 * y - 145697"
    by linarith+
qed

lemma year_of_day_bounds: "days_before_year (year_of_day d) \<le> d" "d < days_before_year (year_of_day d + 1)"
proof -
  define y where "y = (d * 400) div 146097 + 1"
  have "146097 * y - 146097 \<le> 400 * d" "400 * d < 146097 * y"
    unfolding y_def using div_bounds [of 146097 "d * 400"] by (simp_all add: algebra_simps)
  then have "days_before_year (y - 1) \<le> d" "d < days_before_year (y + 2)"
    using days_before_year_bounds(2) [of "y - 1"] days_before_year_bounds(1) [of "y + 2"] by (simp_all add: algebra_simps)
  then show "days_before_year (year_of_day d) \<le> d" "d < days_before_year (year_of_day d + 1)"
    unfolding year_of_day_def Let_def y_def [symmetric] by (auto simp: add.commute)
qed

lemma year_length: "days_before_year (y + 1) = days_before_year y + (if is_leap y then 366 else 365)"
proof -
  have step: "z div n = (z - 1) div n + (if n dvd z then 1 else 0)" if "0 < n" for z n :: int
  proof (cases "n dvd z")
    case True
    then obtain k where z: "z = n * k" by blast
    have "(z - 1) div n = k - 1" using that z by (intro int_div_pos_eq [of _ n _ "n - 1"]) (auto simp: algebra_simps)
    then show ?thesis using True that z by simp
  next
    case False
    then have "0 < z mod n" using that by (metis dvd_eq_mod_eq_0 order_le_less pos_mod_sign)
    moreover have "z = n * (z div n) + z mod n" by simp
    ultimately have "(z - 1) div n = z div n"
      using that pos_mod_bound [OF that, of z] by (intro int_div_pos_eq [of _ n _ "z mod n - 1"]) auto
    then show ?thesis using False by simp
  qed
  have sum: "p = q + 365 + i - j + k"
    if "p = 365 * y + a - b + c" "q = 365 * y - 365 + a' - b' + c'" "a = a' + i" "b = b' + j" "c = c' + k"
    for p q a b c a' b' c' i j k :: int
    using that by simp
  have "days_before_year (y + 1) = 365 * y + y div 4 - y div 100 + y div 400"
    "days_before_year y = 365 * y - 365 + (y - 1) div 4 - (y - 1) div 100 + (y - 1) div 400"
    by (simp_all add: days_before_year_def)
  from sum [OF this step step step]
  have eq: "days_before_year (y + 1) = days_before_year y + 365 + (if 4 dvd y then 1 else 0)
    - (if 100 dvd y then 1 else 0) + (if 400 dvd y then 1 else 0)" by simp
  have "400 dvd y \<Longrightarrow> 100 dvd y" by (rule dvd_trans [of 100 400]) simp_all
  moreover have "100 dvd y \<Longrightarrow> 4 dvd y" by (rule dvd_trans [of 4 100]) simp_all
  moreover have "n + 365 + (if A then 1 else 0) - (if B then 1 else 0) + (if C then 1 else 0) = n + (if A \<and> (\<not> B \<or> C) then 366 else 365)"
    if "C \<Longrightarrow> B" "B \<Longrightarrow> A" for n :: int and A B C
    using that by (cases A; cases B; cases C; simp)
  ultimately show ?thesis unfolding is_leap_def eq by blast
qed

lemma month_of_day_range: "1 \<le> month_of_day d" "month_of_day d \<le> 12"
proof -
  let ?y = "year_of_day d"
  have "0 \<le> d - days_before_year ?y" using year_of_day_bounds [of d] by simp
  then have "0 \<in> set (filter (\<lambda>s. s \<le> d - days_before_year ?y) (month_starts (is_leap ?y)))"
    by (simp add: month_starts_def Let_def)
  then have "filter (\<lambda>s. s \<le> d - days_before_year ?y) (month_starts (is_leap ?y)) \<noteq> []" by force
  then show "1 \<le> month_of_day d" unfolding month_of_day_def Let_def by (cases "filter (\<lambda>s. s \<le> d - days_before_year ?y) (month_starts (is_leap ?y))") auto
  have "length (filter P (month_starts l)) \<le> 12" for P l
    using length_filter_le [of P "month_starts l"] by (simp add: month_starts_def Let_def)
  then show "month_of_day d \<le> 12" by (simp add: month_of_day_def Let_def)
qed

lemma sorted_count:
  assumes "sorted xs"
  shows "(\<forall>i < length (filter (\<lambda>s. s \<le> x) xs). xs ! i \<le> (x::int)) \<and>
    (length (filter (\<lambda>s. s \<le> x) xs) < length xs \<longrightarrow> x < xs ! length (filter (\<lambda>s. s \<le> x) xs))"
  using assms
proof (induction xs)
  case (Cons a xs)
  have none: "filter (\<lambda>s. s \<le> x) xs = []" if "x < a" using that Cons.prems by (auto simp: filter_empty_conv)
  show ?case
  proof (cases "a \<le> x")
    case True
    with Cons show ?thesis by (auto simp: less_Suc_eq_0_disj)
  next
    case False
    with none show ?thesis by simp
  qed
qed simp

lemma month_starts_sorted: "sorted (month_starts b)"
  by (cases b) (simp_all add: month_starts_def)

lemma month_starts_length: "length (month_starts b) = 12"
  by (simp add: month_starts_def Let_def)

text \<open>A day lies in its month: the first of its month is not after it, the first of the next month is.\<close>

lemma month_of_day_bounds:
  fixes d
  defines "y \<equiv> year_of_day d" and "m \<equiv> month_of_day d"
  shows "date_first y m \<le> d * day_ns" "d * day_ns < date_first y (m + 1)"
proof -
  define o' where "o' = d - days_before_year y"
  have o: "0 \<le> o'" "o' < (if is_leap y then 366 else 365)"
    using year_of_day_bounds [of d] year_length [of y] unfolding o'_def y_def by auto
  have m: "m = int (length (filter (\<lambda>s. s \<le> o') (month_starts (is_leap y))))"
    unfolding m_def month_of_day_def o'_def y_def Let_def by simp
  have first: "date_first y k = (days_before_year y + month_starts (is_leap y) ! nat (k - 1)) * day_ns"
    if "1 \<le> k" "k \<le> 12" for k
    using that by (simp add: date_first_def Let_def div_pos_pos_trivial mod_pos_pos_trivial)
  have jan: "date_first y 13 = (days_before_year y + (if is_leap y then 366 else 365)) * day_ns"
    using year_length [of y] by (simp add: date_first_def Let_def month_starts_def)
  have range: "1 \<le> m" "m \<le> 12" using month_of_day_range [of d] by (auto simp: m_def)
  have low: "month_starts (is_leap y) ! nat (m - 1) \<le> o'"
    using sorted_count [OF month_starts_sorted, of o' "is_leap y"] m range by auto
  have high: "m < 12 \<Longrightarrow> o' < month_starts (is_leap y) ! nat m"
    using sorted_count [OF month_starts_sorted, of o' "is_leap y"] m by (simp add: month_starts_length)
  have d: "d = days_before_year y + o'" by (simp add: o'_def)
  show "date_first y m \<le> d * day_ns"
    using first [of m] range low d by (simp add: day_ns_def)
  show "d * day_ns < date_first y (m + 1)"
  proof (cases "m = 12")
    case True
    then have "date_first y (m + 1) = (days_before_year y + (if is_leap y then 366 else 365)) * day_ns" using jan by simp
    moreover have "d < days_before_year y + (if is_leap y then 366 else 365)" using o d by linarith
    ultimately show ?thesis by (simp add: day_ns_def)
  next
    case False
    then show ?thesis using first [of "m + 1"] range high d by (simp add: day_ns_def)
  qed
qed

lemma date_first_le:
  assumes "1 \<le> m" "m \<le> 12" "m \<le> k" "k \<le> 12"
  shows "date_first y m \<le> date_first y k"
proof -
  have "date_first y i = (days_before_year y + month_starts (is_leap y) ! nat (i - 1)) * day_ns" if "1 \<le> i" "i \<le> 12" for i
    using that by (simp add: date_first_def Let_def div_pos_pos_trivial mod_pos_pos_trivial)
  moreover have "month_starts b ! nat (m - 1) \<le> month_starts b ! nat (k - 1)" for b
    using assms by (intro sorted_nth_mono month_starts_sorted) (auto simp: month_starts_length)
  ultimately show ?thesis using assms by (simp add: day_ns_def)
qed

end
