(* ===== verification/Slo_Domain.thy ===== *)
theory Slo_Domain
  imports Go_Json Go_Calendar
begin

section \<open>Service level indicators and objectives\<close>

text \<open>
  \<open>internal/core/domain/sli\<close> and \<open>internal/core/domain/slo\<close>: input validation, evaluation windows, the burn rate and the budget status.
  Windows are computed in UTC, the location of the evaluator's clock.
\<close>

subsection \<open>Indicators\<close>

definition TypeAvailability :: string where "TypeAvailability = ''availability''"
definition TypeLatency :: string where "TypeLatency = ''latency''"
definition TypeQuality :: string where "TypeQuality = ''quality''"
definition TypeCustom :: string where "TypeCustom = ''custom''"
definition SourceTypeJobRun :: string where "SourceTypeJobRun = ''job_run''"
definition AggregationRatio :: string where "AggregationRatio = ''ratio''"
definition AggregationCount :: string where "AggregationCount = ''count''"

definition ValidSLITypes :: "string list" where
  "ValidSLITypes = [TypeAvailability, TypeLatency, TypeQuality, TypeCustom]"
definition ValidSourceTypes :: "string list" where "ValidSourceTypes = [SourceTypeJobRun]"
definition ValidAggregations :: "string list" where "ValidAggregations = [AggregationRatio, AggregationCount]"
definition SLI_MaxNameLength :: nat where "SLI_MaxNameLength = 128"

record SLICreateInput =
  sii_Name :: string
  sii_ResourceGroupID :: string
  sii_Description :: "string option"
  sii_SLIType :: string
  sii_SourceType :: string
  sii_SourceConfig :: "object option"
  sii_Aggregation :: string
  sii_GoodEventCriteria :: object

record SLICreateSpec =
  sis_Name :: string
  sis_Description :: "string option"
  sis_ResourceGroupID :: string
  sis_SLIType :: string
  sis_SourceType :: string
  sis_SourceConfig :: object
  sis_Aggregation :: string
  sis_GoodEventCriteria :: object

record SLISnapshot =
  si_ID :: int
  si_TenantID :: string
  si_Name :: string
  si_Description :: "string option"
  si_SLIType :: string
  si_SourceType :: string
  si_SourceConfig :: object
  si_Aggregation :: string
  si_GoodEventCriteria :: object
  si_Version :: int
  si_CreatedAt :: time
  si_UpdatedAt :: time

definition or_default :: "string \<Rightarrow> string \<Rightarrow> string" where
  "or_default s d = (if s = [] then d else s)"

definition SLI_NormalizeCreate :: "SLICreateInput \<Rightarrow> SLICreateSpec result" where
  "SLI_NormalizeCreate inp =
     (let name = TrimSpace (sii_Name inp);
          sliType = or_default (sii_SLIType inp) TypeAvailability;
          sourceType = or_default (sii_SourceType inp) SourceTypeJobRun;
          aggregation = or_default (sii_Aggregation inp) AggregationRatio in
      if name = [] then Inl (ValidationError ''name'')
      else if length name > SLI_MaxNameLength then Inl (ValidationError ''name'')
      else if sliType \<notin> set ValidSLITypes then Inl (ValidationError ''sli_type'')
      else if sourceType \<notin> set ValidSourceTypes then Inl (ValidationError ''source_type'')
      else if aggregation \<notin> set ValidAggregations then Inl (ValidationError ''aggregation'')
      else (case sii_SourceConfig inp of
        None \<Rightarrow> Inl (ValidationError ''source_config'')
      | Some cfg \<Rightarrow>
          (case map_of cfg ''source_uid'' of
             Some (AStr uid) \<Rightarrow>
               if TrimSpace uid = [] then Inl (ValidationError ''source_config.source_uid'')
               else if (sliType = TypeAvailability \<or> sliType = TypeQuality) \<and> sii_GoodEventCriteria inp = []
                 then Inl (ValidationError ''good_event_criteria'')
               else Inr \<lparr>sis_Name = name, sis_Description = sii_Description inp,
                        sis_ResourceGroupID = TrimSpace (sii_ResourceGroupID inp), sis_SLIType = sliType,
                        sis_SourceType = sourceType, sis_SourceConfig = cfg, sis_Aggregation = aggregation,
                        sis_GoodEventCriteria = sii_GoodEventCriteria inp\<rparr>
           | _ \<Rightarrow> Inl (ValidationError ''source_config.source_uid''))))"

subsection \<open>Objectives\<close>

definition WindowTypeRolling :: string where "WindowTypeRolling = ''rolling''"
definition WindowTypeCalendar :: string where "WindowTypeCalendar = ''calendar''"
definition WindowTypeQuarterly :: string where "WindowTypeQuarterly = ''quarterly''"
definition ValidWindowTypes :: "string list" where
  "ValidWindowTypes = [WindowTypeRolling, WindowTypeCalendar, WindowTypeQuarterly]"
definition SLO_StatusActive :: string where "SLO_StatusActive = ''active''"
definition SLO_StatusPaused :: string where "SLO_StatusPaused = ''paused''"
definition ValidStatuses :: "string list" where "ValidStatuses = [SLO_StatusActive, SLO_StatusPaused]"
definition SLO_MaxNameLength :: nat where "SLO_MaxNameLength = 128"
definition MinTarget :: float64 where "MinTarget = f64 (1 / 10000)"
definition MaxTarget :: float64 where "MaxTarget = 1"
definition DefaultFastBurnRate :: float64 where "DefaultFastBurnRate = f64 (144 / 10)"
definition DefaultSlowBurnRate :: float64 where "DefaultSlowBurnRate = 2"
definition BudgetHealthy :: string where "BudgetHealthy = ''healthy''"
definition BudgetAtRisk :: string where "BudgetAtRisk = ''at_risk''"
definition BudgetExhausted :: string where "BudgetExhausted = ''exhausted''"

lemmas slo_constants = TypeAvailability_def TypeLatency_def TypeQuality_def TypeCustom_def SourceTypeJobRun_def
  AggregationRatio_def AggregationCount_def WindowTypeRolling_def WindowTypeCalendar_def WindowTypeQuarterly_def
  SLO_StatusActive_def SLO_StatusPaused_def BudgetHealthy_def BudgetAtRisk_def BudgetExhausted_def

record SLOCreateInput =
  soi_Name :: string
  soi_ResourceGroupID :: string
  soi_Description :: "string option"
  soi_SLIID :: int
  soi_Target :: float64
  soi_WindowType :: string
  soi_WindowDuration :: duration
  soi_AlertFastBurnRate :: float64
  soi_AlertSlowBurnRate :: float64

record SLOCreateSpec =
  sos_Name :: string
  sos_Description :: "string option"
  sos_ResourceGroupID :: string
  sos_SLIID :: int
  sos_Target :: float64
  sos_WindowType :: string
  sos_WindowDuration :: duration
  sos_AlertFastBurnRate :: float64
  sos_AlertSlowBurnRate :: float64

record SLOSnapshot =
  so_ID :: int
  so_TenantID :: string
  so_Name :: string
  so_Description :: "string option"
  so_SLIID :: int
  so_Target :: float64
  so_WindowType :: string
  so_WindowDuration :: duration
  so_AlertFastBurnRate :: float64
  so_AlertSlowBurnRate :: float64
  so_Status :: string
  so_Version :: int
  so_CreatedAt :: time
  so_UpdatedAt :: time

definition maxWindowDuration :: duration where "maxWindowDuration = 8760 * hour_ns"

definition SLO_NormalizeCreate :: "SLOCreateInput \<Rightarrow> SLOCreateSpec result" where
  "SLO_NormalizeCreate inp =
     (let name = TrimSpace (soi_Name inp);
          windowType = or_default (soi_WindowType inp) WindowTypeRolling;
          fastBurn = (if soi_AlertFastBurnRate inp \<le> 0 then DefaultFastBurnRate else soi_AlertFastBurnRate inp);
          slowBurn = (if soi_AlertSlowBurnRate inp \<le> 0 then DefaultSlowBurnRate else soi_AlertSlowBurnRate inp) in
      if name = [] then Inl (ValidationError ''name'')
      else if length name > SLO_MaxNameLength then Inl (ValidationError ''name'')
      else if soi_SLIID inp \<le> 0 then Inl (ValidationError ''sli_id'')
      else if soi_Target inp < MinTarget \<or> MaxTarget < soi_Target inp then Inl (ValidationError ''target'')
      else if windowType \<notin> set ValidWindowTypes then Inl (ValidationError ''window_type'')
      else if soi_WindowDuration inp \<le> 0 then Inl (ValidationError ''window_duration'')
      else if soi_WindowDuration inp > maxWindowDuration then Inl (ValidationError ''window_duration'')
      else if slowBurn \<ge> fastBurn then Inl (ValidationError ''alert_slow_burn_rate'')
      else Inr \<lparr>sos_Name = name, sos_Description = soi_Description inp,
                sos_ResourceGroupID = TrimSpace (soi_ResourceGroupID inp), sos_SLIID = soi_SLIID inp,
                sos_Target = soi_Target inp, sos_WindowType = windowType,
                sos_WindowDuration = soi_WindowDuration inp, sos_AlertFastBurnRate = fastBurn,
                sos_AlertSlowBurnRate = slowBurn\<rparr>)"

subsection \<open>Windows\<close>

record Window =
  wn_Start :: time
  wn_End :: time

definition calculateRollingWindow :: "duration \<Rightarrow> time \<Rightarrow> Window" where
  "calculateRollingWindow duration now = \<lparr>wn_Start = now - duration, wn_End = now\<rparr>"

definition calculateCalendarWindow :: "time \<Rightarrow> Window" where
  "calculateCalendarWindow now =
     (let d = now div day_ns; year = year_of_day d; month = month_of_day d
      in \<lparr>wn_Start = date_first year month, wn_End = date_first year (month + 1)\<rparr>)"

definition calculateQuarterlyWindow :: "time \<Rightarrow> Window" where
  "calculateQuarterlyWindow now =
     (let d = now div day_ns; year = year_of_day d; month = month_of_day d;
          quarterStartMonth = (month - 1) div 3 * 3 + 1
      in \<lparr>wn_Start = date_first year quarterStartMonth, wn_End = date_first year (quarterStartMonth + 3)\<rparr>)"

definition CalculateWindow :: "string \<Rightarrow> duration \<Rightarrow> time \<Rightarrow> Window" where
  "CalculateWindow windowType duration now =
     (if windowType = WindowTypeCalendar then calculateCalendarWindow now
      else if windowType = WindowTypeQuarterly then calculateQuarterlyWindow now
      else calculateRollingWindow duration now)"

definition Window_Duration :: "Window \<Rightarrow> duration" where
  "Window_Duration w = time_Sub (wn_End w) (wn_Start w)"

definition Window_Elapsed :: "Window \<Rightarrow> time \<Rightarrow> duration" where
  "Window_Elapsed w now =
     (if now < wn_Start w then 0
      else if wn_End w < now then Window_Duration w
      else time_Sub now (wn_Start w))"

subsection \<open>Budgets\<close>

record Budget =
  bu_ID :: int
  bu_TenantID :: string
  bu_SLOID :: int
  bu_WindowStart :: time
  bu_WindowEnd :: time
  bu_BudgetTotal :: float64
  bu_BudgetConsumed :: float64
  bu_BudgetRemaining :: float64
  bu_BurnRate :: float64
  bu_Status :: string
  bu_Version :: int

definition CalculateBurnRate :: "float64 \<Rightarrow> float64 \<Rightarrow> duration \<Rightarrow> duration \<Rightarrow> float64" where
  "CalculateBurnRate budgetTotal budgetConsumed elapsed windowDuration =
     (if budgetTotal \<le> 0 \<or> elapsed \<le> 0 \<or> windowDuration \<le> 0 then 0
      else let budgetRatio = fdiv budgetConsumed budgetTotal;
               elapsedRatio = fdiv (float64_of_int elapsed) (float64_of_int windowDuration) in
        if elapsedRatio \<le> 0 then 0 else fdiv budgetRatio elapsedRatio)"

definition BudgetStatus :: "float64 \<Rightarrow> float64 \<Rightarrow> string" where
  "BudgetStatus budgetRemaining budgetTotal =
     (if budgetTotal \<le> 0 then BudgetHealthy
      else if budgetRemaining \<le> 0 then BudgetExhausted
      else if fdiv budgetRemaining budgetTotal < f64 (1 / 10) then BudgetAtRisk
      else BudgetHealthy)"

subsection \<open>A window holds the instant it was computed for\<close>

lemma day_of_instant: "(now div day_ns) * day_ns \<le> now" "now < (now div day_ns + 1) * day_ns"
  using div_bounds [of day_ns now] by (simp_all add: day_ns_def algebra_simps)

lemma date_first_days: "\<exists>k. date_first y m = k * day_ns"
  by (auto simp: date_first_def Let_def)

lemma before_date_first: "(now div day_ns) * day_ns < date_first y m \<Longrightarrow> now < date_first y m"
proof -
  assume less: "(now div day_ns) * day_ns < date_first y m"
  obtain k where k: "date_first y m = k * day_ns" using date_first_days by blast
  then have "now div day_ns < k" using less by (simp add: day_ns_def)
  then have "(now div day_ns + 1) * day_ns \<le> k * day_ns" by (intro mult_right_mono) (auto simp: day_ns_def)
  then show ?thesis using day_of_instant [of now] k by linarith
qed

lemma calendar_window_holds:
  "wn_Start (calculateCalendarWindow now) \<le> now" "now < wn_End (calculateCalendarWindow now)"
  using month_of_day_bounds [of "now div day_ns"] day_of_instant [of now] before_date_first
  unfolding calculateCalendarWindow_def Let_def by auto

lemma date_first_13: "date_first y 12 < date_first y 13"
  using year_length [of y] by (simp add: date_first_def Let_def month_starts_def day_ns_def)

lemma quarterly_window_holds:
  "wn_Start (calculateQuarterlyWindow now) \<le> now" "now < wn_End (calculateQuarterlyWindow now)"
proof -
  define d y m q where "d = now div day_ns" and "y = year_of_day d" and "m = month_of_day d" and "q = (m - 1) div 3 * 3 + 1"
  have m: "1 \<le> m" "m \<le> 12" using month_of_day_range [of d] by (auto simp: m_def)
  have div3: "3 * ((m - 1) div 3) \<le> m - 1" "m - 1 < 3 * ((m - 1) div 3) + 3" by (rule div_bounds, simp)+
  then have q: "1 \<le> q" "q \<le> m" "m + 1 \<le> q + 3" using m unfolding q_def by auto
  have w: "calculateQuarterlyWindow now = \<lparr>wn_Start = date_first y q, wn_End = date_first y (q + 3)\<rparr>"
    by (simp add: calculateQuarterlyWindow_def Let_def d_def y_def m_def q_def)
  have "date_first y q \<le> date_first y m" using q m by (intro date_first_le) auto
  moreover have bounds: "date_first y m \<le> d * day_ns" "d * day_ns < date_first y (m + 1)"
    using month_of_day_bounds [of d] by (simp_all add: y_def m_def)
  ultimately show "wn_Start (calculateQuarterlyWindow now) \<le> now" using day_of_instant [of now] w by (simp add: d_def)
  have "date_first y (m + 1) \<le> date_first y (q + 3)"
  proof (cases "q + 3 \<le> 12")
    case True
    then show ?thesis using q m by (intro date_first_le) auto
  next
    case False
    obtain k where "q = 3 * k + 1" unfolding q_def by (metis mult.commute)
    with False have "q + 3 = 13" using q(2) m(2) by presburger
    moreover have "date_first y (m + 1) \<le> date_first y 13" if "m < 12"
      using date_first_le [of "m + 1" 12 y] date_first_13 [of y] that m by simp
    ultimately show ?thesis using m by (cases "m = 12") auto
  qed
  then show "now < wn_End (calculateQuarterlyWindow now)" using bounds w before_date_first [of now y "q + 3"] by (simp add: d_def)
qed

lemma CalculateWindow_holds:
  assumes "0 < duration"
  shows "wn_Start (CalculateWindow t duration now) \<le> now" "now \<le> wn_End (CalculateWindow t duration now)"
    "wn_Start (CalculateWindow t duration now) < wn_End (CalculateWindow t duration now)"
  using assms calendar_window_holds [of now] quarterly_window_holds [of now]
  by (auto simp: CalculateWindow_def calculateRollingWindow_def)

lemma Window_Elapsed_range:
  assumes "wn_Start w \<le> wn_End w"
  shows "0 \<le> Window_Elapsed w now" "Window_Elapsed w now \<le> Window_Duration w"
  using assms by (auto simp: Window_Elapsed_def Window_Duration_def time_Sub_def)

text \<open>The whole objective: every accepted one has thresholds in order and a window of at most a year.\<close>

lemma SLO_NormalizeCreate_ok:
  assumes "SLO_NormalizeCreate inp = Inr s"
  shows "0 < sos_AlertSlowBurnRate s" "sos_AlertSlowBurnRate s < sos_AlertFastBurnRate s" "0 < sos_WindowDuration s"
    "sos_WindowDuration s \<le> maxWindowDuration" "MinTarget \<le> sos_Target s" "sos_Target s \<le> 1"
    "sos_WindowType s \<in> set ValidWindowTypes" "sos_Name s \<noteq> []" "length (sos_Name s) \<le> 128" "0 < sos_SLIID s"
proof -
  have "0 < DefaultSlowBurnRate" by (simp add: DefaultSlowBurnRate_def)
  then show "0 < sos_AlertSlowBurnRate s" "sos_AlertSlowBurnRate s < sos_AlertFastBurnRate s" "0 < sos_WindowDuration s"
    "sos_WindowDuration s \<le> maxWindowDuration" "MinTarget \<le> sos_Target s" "sos_Target s \<le> 1"
    "sos_WindowType s \<in> set ValidWindowTypes" "sos_Name s \<noteq> []" "length (sos_Name s) \<le> 128" "0 < sos_SLIID s"
    using assms by (auto simp: SLO_NormalizeCreate_def Let_def MaxTarget_def SLO_MaxNameLength_def split: if_splits)
qed

end
