(* ===== verification/Monitor_Store.thy ===== *)
theory Monitor_Store
  imports Service_World Check_Domain Slo_Domain "HOL-Library.Product_Lexorder"
begin

section \<open>The tables of checks and service levels\<close>

text \<open>
  The tables \<open>checks\<close>, \<open>check_runs\<close>, \<open>slis\<close>, \<open>slos\<close>, \<open>sli_snapshots\<close>, \<open>budgets\<close> and \<open>budget_alerts\<close> with the repositories that write them:
  \<open>internal/core/store/postgres/check_repository.go\<close>, \<open>checkrun_repository.go\<close>, \<open>sli_repository.go\<close>, \<open>slo_repository.go\<close>,
  \<open>sli_snapshot_repository.go\<close>, \<open>budget_repository.go\<close>, \<open>budget_alert_repository.go\<close>, and the reads of the admin API on checks
  (\<open>internal/admin/store/postgres/check_repository.go\<close>, \<open>checkrun_repository.go\<close>).

  From the schema the model takes the \<open>CHECK\<close>s, the unique keys, the foreign keys, the range of \<open>INT\<close> columns and the rounding and range of
  \<open>NUMERIC\<close> columns; of the table of checks also the widths of its columns and what text and \<open>jsonb\<close> refuse. A \<open>NULL\<close> resource group is the empty string, which is how it is read back. Rows equal under an \<open>ORDER BY\<close> come in table order.
  \<open>mo_clock\<close> is the database's \<open>now()\<close>. \<open>dec\<close> is the decimal the driver sends for a \<open>float64\<close>: the shortest one that reads back as that float.
\<close>

subsection \<open>Tables\<close>

record CheckRow =
  kr_snap :: CheckSnapshot
  kr_deleted :: "time option"

record CheckRunRow =
  cu_ID :: int
  cu_RunID :: string
  cu_TenantID :: string
  cu_CheckID :: int
  cu_Status :: string
  cu_ScheduledAt :: time
  cu_StartedAt :: time
  cu_FinishedAt :: time
  cu_DurationMs :: int
  cu_CreatedAt :: time

record SLIRow =
  lr_snap :: SLISnapshot
  lr_group :: string
  lr_deleted :: "time option"

record SLORow =
  lo_snap :: SLOSnapshot
  lo_group :: string
  lo_deleted :: "time option"

record SnapshotRow =
  ps_tenant :: string
  ps_sli :: int
  ps_start :: time
  ps_end :: time
  ps_good :: int
  ps_total :: int

record AlertRow =
  al_ID :: int
  al_TenantID :: string
  al_SLOID :: int
  al_BudgetID :: int
  al_Type :: string
  al_BurnRate :: rat
  al_Status :: string
  al_TriggeredAt :: time
  al_ResolvedAt :: "time option"

record monitor =
  mo_tenants :: "string list"
  mo_checks :: "CheckRow list"
  mo_check_runs :: "CheckRunRow list"
  mo_slis :: "SLIRow list"
  mo_slos :: "SLORow list"
  mo_snapshots :: "SnapshotRow list"
  mo_budgets :: "Budget list"
  mo_alerts :: "AlertRow list"
  mo_audit :: "AuditRow list"
  mo_check_seq :: int
  mo_check_run_seq :: int
  mo_sli_seq :: int
  mo_slo_seq :: int
  mo_budget_seq :: int
  mo_alert_seq :: int
  mo_clock :: time

definition empty_monitor :: "string list \<Rightarrow> monitor" where
  "empty_monitor tenants = \<lparr>mo_tenants = tenants, mo_checks = [], mo_check_runs = [], mo_slis = [], mo_slos = [],
     mo_snapshots = [], mo_budgets = [], mo_alerts = [], mo_audit = [], mo_check_seq = 1, mo_check_run_seq = 1,
     mo_sli_seq = 1, mo_slo_seq = 1, mo_budget_seq = 1, mo_alert_seq = 1, mo_clock = 0\<rparr>"

text \<open>The predicate \<open>($n::text IS NULL OR resource_group_id = $n)\<close> on the caller's scope.\<close>

definition in_group :: "string \<Rightarrow> string \<Rightarrow> bool" where
  "in_group scope grp \<longleftrightarrow> scope = [] \<or> grp = scope"

definition insert_audit :: "string \<Rightarrow> string \<Rightarrow> string \<Rightarrow> string \<Rightarrow> (string \<times> jval) list \<Rightarrow> (monitor, unit) io" where
  "insert_audit tenantID event resource rid diff = (\<lambda>s.
     if tenantID \<notin> set (mo_tenants s) then (Inl (Wrapf ''insert audit'' (DbError ''foreign key'')), s)
     else (Inr (), s\<lparr>mo_audit := mo_audit s @ [\<lparr>au_tenant = tenantID, au_actor = Some ''scheduler'', au_event = event,
            au_resource = resource, au_resource_id = rid, au_diff = diff\<rparr>]\<rparr>))"

subsection \<open>Checks\<close>

text \<open>The \<open>CHECK\<close> constraints of the table.\<close>

definition check_row_ok :: "CheckSnapshot \<Rightarrow> bool" where
  "check_row_ok c \<longleftrightarrow>
     ck_Status c \<in> {StatusActive, StatusPaused} \<and> ck_CheckType c = CheckTypeHTTPHealth
     \<and> (ck_ScheduleType c = ScheduleTypeCron \<and> ck_IntervalSec c = None
          \<and> (case ck_CronExpr c of None \<Rightarrow> False | Some e \<Rightarrow> TrimSpace e \<noteq> [])
        \<or> ck_ScheduleType c = ScheduleTypeInterval \<and> ck_CronExpr c = None
          \<and> (case ck_IntervalSec c of None \<Rightarrow> False | Some n \<Rightarrow> 1 \<le> n))
     \<and> 0 \<le> ck_Priority c \<and> 1 \<le> ck_TimeoutSec c \<and> 0 \<le> ck_RetryLimit c \<and> 1 \<le> ck_Version c \<and> ck_TenantID c \<noteq> []"

definition check_ints_fit :: "CheckCreateSpec \<Rightarrow> bool" where
  "check_ints_fit spec \<longleftrightarrow> int4 (cks_TimeoutSec spec) \<and> int4 (cks_RetryLimit spec) \<and> int4 (cks_Priority spec)
     \<and> (case cks_IntervalSec spec of None \<Rightarrow> True | Some n \<Rightarrow> int4 n)"

text \<open>
  What the types of the columns admit: numbers in range, text that is well-formed and free of U+0000, in the columns and in the JSON
  documents, and a resource group of at most 26 characters (a group is a ULID of exactly 26, so \<open>CHAR(26)\<close> pads nothing). The widths of
  the other columns are what validation admits.
\<close>

fun when_present :: "('a \<Rightarrow> bool) \<Rightarrow> 'a option \<Rightarrow> bool" where
  "when_present P None = True"
| "when_present P (Some v) = P v"

definition check_values_fit :: "CheckCreateSpec \<Rightarrow> bool" where
  "check_values_fit spec \<longleftrightarrow> check_ints_fit spec \<and> pg_text (cks_Name spec) \<and> when_present pg_text (cks_Description spec)
     \<and> pg_text (cks_Timezone spec) \<and> when_present pg_text (cks_CronExpr spec)
     \<and> pg_text (cks_ResourceGroupID spec) \<and> rune_count (cks_ResourceGroupID spec) \<le> 26
     \<and> json_storable (AObj (cks_CheckConfig spec)) \<and> json_storable (AObj (cks_Labels spec))
     \<and> list_all (\<lambda>r. CHR 0x00 \<notin> set (ar_Metric r)) (cks_AssertionRules spec)"

definition check_widths_fit :: "CheckCreateSpec \<Rightarrow> bool" where
  "check_widths_fit spec \<longleftrightarrow> rune_count (cks_Name spec) \<le> 128 \<and> rune_count (cks_Timezone spec) \<le> 64
     \<and> when_present (\<lambda>e. rune_count e \<le> 128) (cks_CronExpr spec)"

definition insertCheckSQL :: "CheckCreateSpec \<Rightarrow> (monitor, CheckSnapshot) io" where
  "insertCheckSQL spec = (\<lambda>s.
     let c = \<lparr>ck_ID = mo_check_seq s, ck_Name = cks_Name spec, ck_Description = cks_Description spec,
              ck_TenantID = cks_TenantID spec, ck_ResourceGroupID = cks_ResourceGroupID spec, ck_Status = StatusActive,
              ck_CheckType = cks_CheckType spec, ck_CheckConfig = cks_CheckConfig spec,
              ck_AssertionRules = cks_AssertionRules spec, ck_ScheduleType = cks_ScheduleType spec,
              ck_CronExpr = cks_CronExpr spec, ck_IntervalSec = cks_IntervalSec spec, ck_Timezone = cks_Timezone spec,
              ck_TimeoutSec = cks_TimeoutSec spec, ck_RetryLimit = cks_RetryLimit spec, ck_Priority = cks_Priority spec,
              ck_Labels = cks_Labels spec, ck_NextRunAt = cks_NextRunAt spec, ck_Version = 1,
              ck_CreatedAt = mo_clock s, ck_UpdatedAt = mo_clock s\<rparr> in
     if \<not> (check_values_fit spec \<and> check_widths_fit spec) then (Inl (Wrapf ''insert check'' (DbError ''value not of the column type'')), s)
     else if \<not> check_row_ok c then (Inl (Wrapf ''insert check'' (DbError ''check constraint'')), s)
     else if cks_TenantID spec \<notin> set (mo_tenants s) then (Inl (Wrapf ''insert check'' (DbError ''foreign key'')), s)
     else (Inr c, s\<lparr>mo_checks := mo_checks s @ [\<lparr>kr_snap = c, kr_deleted = None\<rparr>], mo_check_seq := mo_check_seq s + 1\<rparr>))"

definition CheckRepository_Create :: "CheckCreateSpec \<Rightarrow> (monitor, CheckSnapshot) io" where
  "CheckRepository_Create spec = transaction
     (io_bind (insertCheckSQL spec) (\<lambda>c.
      io_bind (insert_audit (cks_TenantID spec) ''check.created'' ''check'' (itoa (ck_ID c))
         [(''name'', JStr (cks_Name spec)), (''check_type'', JStr (cks_CheckType spec)),
          (''schedule_type'', JStr (cks_ScheduleType spec))]) (\<lambda>_.
      io_return c)))"

definition live_check :: "string \<Rightarrow> int \<Rightarrow> CheckRow \<Rightarrow> bool" where
  "live_check tenantID i row \<longleftrightarrow> ck_TenantID (kr_snap row) = tenantID \<and> ck_ID (kr_snap row) = i \<and> kr_deleted row = None"

definition find_check :: "string \<Rightarrow> string \<Rightarrow> int \<Rightarrow> monitor \<Rightarrow> CheckSnapshot option" where
  "find_check tenantID scope i s =
     map_option kr_snap (find (\<lambda>row. live_check tenantID i row \<and> in_group scope (ck_ResourceGroupID (kr_snap row))) (mo_checks s))"

text \<open>A guarded update of one live row: the row as written, \<open>None\<close> when no row matches.\<close>

definition updateCheckSQL :: "(CheckRow \<Rightarrow> bool) \<Rightarrow> (CheckRow \<Rightarrow> CheckRow) \<Rightarrow> (monitor, CheckSnapshot option) io" where
  "updateCheckSQL hit f = (\<lambda>s.
     (Inr (map_option (\<lambda>row. kr_snap (f row)) (find hit (mo_checks s))),
      s\<lparr>mo_checks := map (\<lambda>row. if hit row then f row else row) (mo_checks s)\<rparr>))"

definition write_miss :: "string \<Rightarrow> string \<Rightarrow> int \<Rightarrow> (monitor, 'a) io" where
  "write_miss tenantID scope i = io_bind (io_read (find_check tenantID scope i)) (\<lambda>found.
     case found of None \<Rightarrow> io_fail (NotFoundError ''check'') | Some _ \<Rightarrow> io_fail (ConflictError ''check''))"

definition next_status :: "string \<Rightarrow> string \<Rightarrow> int \<Rightarrow> string result" where
  "next_status action currentStatus version =
     (if action = ActionPause then Check_Pause currentStatus version
      else if action = ActionResume then Check_Resume currentStatus version
      else Inl (Errorf ''unknown action''))"

definition CheckRepository_ChangeStatus :: "string \<Rightarrow> string \<Rightarrow> int \<Rightarrow> int \<Rightarrow> string \<Rightarrow> (monitor, CheckSnapshot) io" where
  "CheckRepository_ChangeStatus tenantID scope i version action = transaction
     (io_bind (io_read (find_check tenantID scope i)) (\<lambda>found.
      case found of
        None \<Rightarrow> io_fail (NotFoundError ''check'')
      | Some current \<Rightarrow>
          io_bind (io_lift (next_status action (ck_Status current) version)) (\<lambda>nextStatus.
          io_bind (io_read mo_clock) (\<lambda>now.
          io_bind (updateCheckSQL (\<lambda>row. live_check tenantID i row \<and> ck_Version (kr_snap row) = version)
             (\<lambda>row. row\<lparr>kr_snap := (kr_snap row)\<lparr>ck_Status := nextStatus, ck_Version := ck_Version (kr_snap row) + 1,
                                               ck_UpdatedAt := now\<rparr>\<rparr>)) (\<lambda>updated.
          case updated of
            None \<Rightarrow> write_miss tenantID scope i
          | Some c \<Rightarrow>
              io_bind (insert_audit tenantID ''check.status_changed'' ''check'' (itoa i)
                 [(''from_status'', JStr (ck_Status current)), (''to_status'', JStr nextStatus),
                  (''from_version'', JInt version), (''to_version'', JInt (ck_Version c))]) (\<lambda>_.
              io_return c))))))"

definition CheckRepository_Delete :: "string \<Rightarrow> string \<Rightarrow> int \<Rightarrow> int \<Rightarrow> (monitor, unit) io" where
  "CheckRepository_Delete tenantID scope i version = transaction
     (io_bind (io_read mo_clock) (\<lambda>now.
      io_bind (updateCheckSQL (\<lambda>row. live_check tenantID i row \<and> ck_Version (kr_snap row) = version
                                \<and> in_group scope (ck_ResourceGroupID (kr_snap row)))
         (\<lambda>row. row\<lparr>kr_deleted := Some now,
                    kr_snap := (kr_snap row)\<lparr>ck_Version := ck_Version (kr_snap row) + 1, ck_UpdatedAt := now\<rparr>\<rparr>)) (\<lambda>updated.
      case updated of
        None \<Rightarrow> write_miss tenantID scope i
      | Some _ \<Rightarrow> insert_audit tenantID ''check.deleted'' ''check'' (itoa i)
                    [(''action'', JStr ''delete''), (''from_version'', JInt version)])))"

definition due_check :: "string \<Rightarrow> time \<Rightarrow> CheckRow \<Rightarrow> bool" where
  "due_check tenantID now row \<longleftrightarrow> ck_TenantID (kr_snap row) = tenantID \<and> ck_Status (kr_snap row) = StatusActive
     \<and> kr_deleted row = None \<and> (case ck_NextRunAt (kr_snap row) of None \<Rightarrow> False | Some t \<Rightarrow> t \<le> now)"

definition due_order :: "CheckSnapshot \<Rightarrow> time \<times> int" where
  "due_order c = (case ck_NextRunAt c of None \<Rightarrow> 0 | Some t \<Rightarrow> t, - ck_Priority c)"

definition CheckRepository_ListDue :: "string \<Rightarrow> time \<Rightarrow> int \<Rightarrow> (monitor, CheckSnapshot list) io" where
  "CheckRepository_ListDue tenantID now limit = transaction
     (io_read (\<lambda>s. take (nat limit) (sort_key due_order (map kr_snap (filter (due_check tenantID now) (mo_checks s))))))"

definition CheckRepository_UpdateNextRunAt :: "string \<Rightarrow> int \<Rightarrow> time \<Rightarrow> (monitor, unit) io" where
  "CheckRepository_UpdateNextRunAt tenantID i nextRunAt = transaction
     (io_bind (io_read mo_clock) (\<lambda>now.
      io_bind (updateCheckSQL (live_check tenantID i)
         (\<lambda>row. row\<lparr>kr_snap := (kr_snap row)\<lparr>ck_NextRunAt := Some nextRunAt, ck_UpdatedAt := now\<rparr>\<rparr>)) (\<lambda>updated.
      case updated of None \<Rightarrow> io_fail (NotFoundError ''check'') | Some _ \<Rightarrow> io_return ())))"

definition CheckRepository_GetByID :: "string \<Rightarrow> int \<Rightarrow> (monitor, CheckSnapshot) io" where
  "CheckRepository_GetByID tenantID i = transaction
     (io_bind (io_read (find_check tenantID [] i)) (\<lambda>found.
      case found of None \<Rightarrow> io_fail (NotFoundError ''check'') | Some c \<Rightarrow> io_return c))"

text \<open>The admin reads: the resource group column is not selected.\<close>

definition AdminCheck_Get :: "string \<Rightarrow> string \<Rightarrow> int \<Rightarrow> (monitor, CheckSnapshot) io" where
  "AdminCheck_Get tenantID scope i = transaction
     (io_bind (io_read (find_check tenantID scope i)) (\<lambda>found.
      case found of None \<Rightarrow> io_fail (NotFoundError ''check'') | Some c \<Rightarrow> io_return (c\<lparr>ck_ResourceGroupID := []\<rparr>)))"

definition page_limit :: "int \<Rightarrow> int" where
  "page_limit limit = (let l = (if limit \<le> 0 then 20 else limit) in if l > 100 then 100 else l)"

definition listed_checks :: "string \<Rightarrow> string option \<Rightarrow> string \<Rightarrow> monitor \<Rightarrow> CheckSnapshot list" where
  "listed_checks tenantID status scope s = map kr_snap (filter (\<lambda>row. ck_TenantID (kr_snap row) = tenantID \<and> kr_deleted row = None
     \<and> (case status of None \<Rightarrow> True | Some st \<Rightarrow> ck_Status (kr_snap row) = st)
     \<and> in_group scope (ck_ResourceGroupID (kr_snap row))) (mo_checks s))"

definition AdminCheck_List :: "string \<Rightarrow> string option \<Rightarrow> string \<Rightarrow> int \<Rightarrow> int \<Rightarrow> (monitor, CheckSnapshot list \<times> int) io" where
  "AdminCheck_List tenantID status scope limit offset = transaction (\<lambda>s.
     if offset < 0 then (Inl (Wrapf ''list checks'' (DbError ''OFFSET must not be negative'')), s)
     else let rows = listed_checks tenantID status scope s in
       (Inr (take (nat (page_limit limit)) (drop (nat offset) (sort_key (\<lambda>c. - ck_ID c) rows)), int (length rows)), s))"

subsection \<open>Check runs\<close>

record CheckCompletedRecord =
  cc_RunID :: string
  cc_CheckID :: int
  cc_Status :: string
  cc_ScheduledAt :: time
  cc_StartedAt :: time
  cc_FinishedAt :: time
  cc_DurationMs :: int

definition StatusSuccess :: string where "StatusSuccess = ''success''"
definition StatusFailed :: string where "StatusFailed = ''failed''"

definition is_hex :: "char \<Rightarrow> bool" where
  "is_hex c \<longleftrightarrow> c \<in> set ''0123456789abcdef''"

definition is_uuid :: "string \<Rightarrow> bool" where
  "is_uuid s \<longleftrightarrow> map length (Split (CHR ''-'') s) = [8, 4, 4, 4, 12] \<and> list_all (\<lambda>p. list_all is_hex p) (Split (CHR ''-'') s)"

text \<open>\<open>ON CONFLICT (run_id) DO NOTHING RETURNING id\<close>: no row comes back when the run is already recorded.\<close>

definition recordCompletedCheckRunSQL :: "string \<Rightarrow> CheckCompletedRecord \<Rightarrow> (monitor, int option) io" where
  "recordCompletedCheckRunSQL tenantID req = (\<lambda>s.
     if \<not> is_uuid (cc_RunID req) then (Inl (DbError ''invalid input syntax for type uuid''), s)
     else if \<not> int4 (cc_DurationMs req) then (Inl (DbError ''integer out of range''), s)
     else if cc_FinishedAt req < cc_StartedAt req \<or> cc_DurationMs req < 0 then (Inl (DbError ''check constraint''), s)
     else if cc_RunID req \<in> cu_RunID ` set (mo_check_runs s) then (Inr None, s)
     else if tenantID \<notin> set (mo_tenants s)
         \<or> \<not> (\<exists>row \<in> set (mo_checks s). ck_TenantID (kr_snap row) = tenantID \<and> ck_ID (kr_snap row) = cc_CheckID req)
       then (Inl (DbError ''foreign key''), s)
     else (Inr (Some (mo_check_run_seq s)),
           s\<lparr>mo_check_runs := mo_check_runs s @
               [\<lparr>cu_ID = mo_check_run_seq s, cu_RunID = cc_RunID req, cu_TenantID = tenantID, cu_CheckID = cc_CheckID req,
                 cu_Status = cc_Status req, cu_ScheduledAt = cc_ScheduledAt req, cu_StartedAt = cc_StartedAt req,
                 cu_FinishedAt = cc_FinishedAt req, cu_DurationMs = cc_DurationMs req, cu_CreatedAt = mo_clock s\<rparr>],
             mo_check_run_seq := mo_check_run_seq s + 1\<rparr>))"

definition complete_record :: "time \<Rightarrow> CheckCompletedRecord \<Rightarrow> CheckCompletedRecord" where
  "complete_record now req =
     (let req = (if \<not> time_IsZero (cc_ScheduledAt req) \<and> time_IsZero (cc_StartedAt req)
                 then req\<lparr>cc_StartedAt := cc_ScheduledAt req\<rparr> else req);
          req = (if time_IsZero (cc_FinishedAt req) then req\<lparr>cc_FinishedAt := now\<rparr> else req)
      in if cc_DurationMs req < 0 then req\<lparr>cc_DurationMs := 0\<rparr> else req)"

definition CheckRun_RecordCompleted :: "time \<Rightarrow> string \<Rightarrow> CheckCompletedRecord \<Rightarrow> (monitor, unit) io" where
  "CheckRun_RecordCompleted now tenantID req =
     (if cc_RunID req = [] then io_fail (Errorf ''run id is required'')
      else if cc_Status req \<noteq> StatusSuccess \<and> cc_Status req \<noteq> StatusFailed
        then io_fail (Errorf ''not a terminal check-run status'')
      else transaction
        (io_bind (io_wrap ''record completed check run'' (recordCompletedCheckRunSQL tenantID (complete_record now req))) (\<lambda>inserted.
         case inserted of
           None \<Rightarrow> io_fail (Wrapf ''record completed check run'' (DbError ''no rows''))
         | Some _ \<Rightarrow> io_return ())))"

definition AdminCheckRun_Get :: "string \<Rightarrow> int \<Rightarrow> (monitor, CheckRunRow) io" where
  "AdminCheckRun_Get tenantID i = transaction
     (io_bind (io_read (\<lambda>s. find (\<lambda>r. cu_TenantID r = tenantID \<and> cu_ID r = i) (mo_check_runs s))) (\<lambda>found.
      case found of None \<Rightarrow> io_fail (NotFoundError ''check_run'') | Some r \<Rightarrow> io_return r))"

definition AdminCheckRun_List ::
    "string \<Rightarrow> int option \<Rightarrow> string option \<Rightarrow> int \<Rightarrow> int \<Rightarrow> (monitor, CheckRunRow list \<times> int) io" where
  "AdminCheckRun_List tenantID checkID status limit offset = transaction (\<lambda>s.
     if offset < 0 then (Inl (Wrapf ''list check_runs'' (DbError ''OFFSET must not be negative'')), s)
     else let rows = filter (\<lambda>r. cu_TenantID r = tenantID \<and> (case checkID of None \<Rightarrow> True | Some i \<Rightarrow> cu_CheckID r = i)
              \<and> (case status of None \<Rightarrow> True | Some st \<Rightarrow> cu_Status r = st)) (mo_check_runs s) in
       (Inr (take (nat (page_limit limit)) (drop (nat offset) (sort_key (\<lambda>r. - cu_CreatedAt r) rows)), int (length rows)), s))"

subsection \<open>Indicators and their snapshots\<close>

definition SLIRepository_Create :: "string \<Rightarrow> SLICreateSpec \<Rightarrow> (monitor, SLISnapshot) io" where
  "SLIRepository_Create tenantID spec = transaction (\<lambda>s.
     if tenantID \<notin> set (mo_tenants s) then (Inl (Wrapf ''insert sli'' (DbError ''foreign key'')), s)
     else let snap = \<lparr>si_ID = mo_sli_seq s, si_TenantID = tenantID, si_Name = sis_Name spec,
              si_Description = sis_Description spec, si_SLIType = sis_SLIType spec, si_SourceType = sis_SourceType spec,
              si_SourceConfig = sis_SourceConfig spec, si_Aggregation = sis_Aggregation spec,
              si_GoodEventCriteria = sis_GoodEventCriteria spec, si_Version = 1, si_CreatedAt = mo_clock s,
              si_UpdatedAt = mo_clock s\<rparr> in
       (Inr snap, s\<lparr>mo_slis := mo_slis s @ [\<lparr>lr_snap = snap, lr_group = sis_ResourceGroupID spec, lr_deleted = None\<rparr>],
                   mo_sli_seq := mo_sli_seq s + 1\<rparr>))"

definition SLIRepository_Delete :: "string \<Rightarrow> string \<Rightarrow> int \<Rightarrow> int \<Rightarrow> (monitor, unit) io" where
  "SLIRepository_Delete tenantID scope i version = transaction (\<lambda>s.
     let hit = (\<lambda>row. si_TenantID (lr_snap row) = tenantID \<and> si_ID (lr_snap row) = i \<and> si_Version (lr_snap row) = version
                      \<and> lr_deleted row = None \<and> in_group scope (lr_group row)) in
     if filter hit (mo_slis s) = [] then (Inl (NotFoundError ''sli''), s)
     else (Inr (), s\<lparr>mo_slis := map (\<lambda>row. if hit row then row\<lparr>lr_deleted := Some (mo_clock s),
              lr_snap := (lr_snap row)\<lparr>si_Version := si_Version (lr_snap row) + 1\<rparr>\<rparr> else row) (mo_slis s)\<rparr>))"

definition sources_from :: "string \<Rightarrow> string \<Rightarrow> SLIRow \<Rightarrow> bool" where
  "sources_from tenantID sourceUID row \<longleftrightarrow> si_TenantID (lr_snap row) = tenantID \<and> lr_deleted row = None
     \<and> si_SourceType (lr_snap row) = SourceTypeJobRun
     \<and> map_of (si_SourceConfig (lr_snap row)) ''source_uid'' = Some (AStr sourceUID)"

definition SLIRepository_FindBySourceUID :: "string \<Rightarrow> string \<Rightarrow> (monitor, SLISnapshot list) io" where
  "SLIRepository_FindBySourceUID tenantID sourceUID = transaction
     (io_read (\<lambda>s. map lr_snap (filter (sources_from tenantID sourceUID) (mo_slis s))))"

definition defaultSnapshotWindow :: duration where "defaultSnapshotWindow = 5 * minute_ns"

definition IncrementSnapshot :: "string \<Rightarrow> int \<Rightarrow> time \<Rightarrow> bool \<Rightarrow> (monitor, unit) io" where
  "IncrementSnapshot tenantID sliID windowStart isGood = transaction (\<lambda>s.
     let goodDelta = (if isGood then 1 else 0);
         hit = (\<lambda>r. ps_tenant r = tenantID \<and> ps_sli r = sliID \<and> ps_start r = windowStart) in
     if tenantID \<notin> set (mo_tenants s) \<or> sliID \<notin> (\<lambda>row. si_ID (lr_snap row)) ` set (mo_slis s)
       then (Inl (Wrapf ''upsert sli snapshot'' (DbError ''foreign key'')), s)
     else if filter hit (mo_snapshots s) = []
       then (Inr (), s\<lparr>mo_snapshots := mo_snapshots s @
               [\<lparr>ps_tenant = tenantID, ps_sli = sliID, ps_start = windowStart, ps_end = windowStart + defaultSnapshotWindow,
                 ps_good = goodDelta, ps_total = 1\<rparr>]\<rparr>)
     else (Inr (), s\<lparr>mo_snapshots := map (\<lambda>r. if hit r then r\<lparr>ps_good := ps_good r + goodDelta, ps_total := ps_total r + 1\<rparr> else r)
                                       (mo_snapshots s)\<rparr>))"

record WindowAggregate =
  wa_GoodEventsCount :: int
  wa_TotalEventsCount :: int
  wa_SLIValue :: float64

definition window_rows :: "string \<Rightarrow> int \<Rightarrow> time \<Rightarrow> time \<Rightarrow> monitor \<Rightarrow> SnapshotRow list" where
  "window_rows tenantID sliID start stop s =
     filter (\<lambda>r. ps_tenant r = tenantID \<and> ps_sli r = sliID \<and> start \<le> ps_start r \<and> ps_start r < stop) (mo_snapshots s)"

definition AggregateWindow :: "string \<Rightarrow> int \<Rightarrow> time \<Rightarrow> time \<Rightarrow> (monitor, WindowAggregate) io" where
  "AggregateWindow tenantID sliID start stop = transaction (io_read (\<lambda>s.
     let rows = window_rows tenantID sliID start stop s; good = sum_list (map ps_good rows); total = sum_list (map ps_total rows) in
     \<lparr>wa_GoodEventsCount = good, wa_TotalEventsCount = total,
      wa_SLIValue = (if total > 0 then fdiv (float64_of_int good) (float64_of_int total) else 0)\<rparr>))"

subsection \<open>Objectives, budgets and alerts\<close>

definition SLORepository_Create :: "(float64 \<Rightarrow> rat) \<Rightarrow> string \<Rightarrow> SLOCreateSpec \<Rightarrow> (monitor, SLOSnapshot) io" where
  "SLORepository_Create dec tenantID spec = transaction (\<lambda>s.
     case (numeric 5 4 (dec (sos_Target spec)), numeric 6 2 (dec (sos_AlertFastBurnRate spec)),
           numeric 6 2 (dec (sos_AlertSlowBurnRate spec))) of
       (Some target, Some fast, Some slow) \<Rightarrow>
         if tenantID \<notin> set (mo_tenants s) \<or> sos_SLIID spec \<notin> (\<lambda>row. si_ID (lr_snap row)) ` set (mo_slis s)
           then (Inl (Wrapf ''insert slo'' (DbError ''foreign key'')), s)
         else let snap = \<lparr>so_ID = mo_slo_seq s, so_TenantID = tenantID, so_Name = sos_Name spec,
                  so_Description = sos_Description spec, so_SLIID = sos_SLIID spec, so_Target = f64 target,
                  so_WindowType = sos_WindowType spec, so_WindowDuration = sos_WindowDuration spec div second_ns * second_ns,
                  so_AlertFastBurnRate = f64 fast, so_AlertSlowBurnRate = f64 slow, so_Status = SLO_StatusActive,
                  so_Version = 1, so_CreatedAt = mo_clock s, so_UpdatedAt = mo_clock s\<rparr> in
           (Inr snap, s\<lparr>mo_slos := mo_slos s @ [\<lparr>lo_snap = snap, lo_group = sos_ResourceGroupID spec, lo_deleted = None\<rparr>],
                       mo_slo_seq := mo_slo_seq s + 1\<rparr>)
     | _ \<Rightarrow> (Inl (Wrapf ''insert slo'' (DbError ''numeric field overflow'')), s))"

definition live_slo :: "string \<Rightarrow> string \<Rightarrow> int \<Rightarrow> SLORow \<Rightarrow> bool" where
  "live_slo tenantID scope i row \<longleftrightarrow> so_TenantID (lo_snap row) = tenantID \<and> so_ID (lo_snap row) = i \<and> lo_deleted row = None
     \<and> in_group scope (lo_group row)"

definition classifyWriteMiss :: "string \<Rightarrow> string \<Rightarrow> int \<Rightarrow> monitor \<Rightarrow> err" where
  "classifyWriteMiss tenantID scope i s =
     (if filter (live_slo tenantID scope i) (mo_slos s) = [] then NotFoundError ''slo'' else ConflictError ''slo'')"

definition SLORepository_ChangeStatus :: "string \<Rightarrow> string \<Rightarrow> int \<Rightarrow> int \<Rightarrow> string \<Rightarrow> (monitor, SLOSnapshot) io" where
  "SLORepository_ChangeStatus tenantID scope i version status = transaction (\<lambda>s.
     let hit = (\<lambda>row. live_slo tenantID scope i row \<and> so_Version (lo_snap row) = version);
         f = (\<lambda>row. row\<lparr>lo_snap := (lo_snap row)\<lparr>so_Status := status, so_Version := so_Version (lo_snap row) + 1,
                                                so_UpdatedAt := mo_clock s\<rparr>\<rparr>) in
     case find hit (mo_slos s) of
       None \<Rightarrow> (Inl (classifyWriteMiss tenantID scope i s), s)
     | Some row \<Rightarrow> (Inr (lo_snap (f row)), s\<lparr>mo_slos := map (\<lambda>row. if hit row then f row else row) (mo_slos s)\<rparr>))"

definition SLORepository_Delete :: "string \<Rightarrow> string \<Rightarrow> int \<Rightarrow> int \<Rightarrow> (monitor, unit) io" where
  "SLORepository_Delete tenantID scope i version = transaction (\<lambda>s.
     let hit = (\<lambda>row. live_slo tenantID scope i row \<and> so_Version (lo_snap row) = version) in
     if filter hit (mo_slos s) = [] then (Inl (classifyWriteMiss tenantID scope i s), s)
     else (Inr (), s\<lparr>mo_slos := map (\<lambda>row. if hit row then row\<lparr>lo_deleted := Some (mo_clock s),
              lo_snap := (lo_snap row)\<lparr>so_Version := so_Version (lo_snap row) + 1\<rparr>\<rparr> else row) (mo_slos s)\<rparr>))"

definition SLORepository_ListActive :: "string \<Rightarrow> (monitor, SLOSnapshot list) io" where
  "SLORepository_ListActive tenantID = transaction (io_read (\<lambda>s. map lo_snap (filter (\<lambda>row.
     so_TenantID (lo_snap row) = tenantID \<and> so_Status (lo_snap row) = SLO_StatusActive \<and> lo_deleted row = None) (mo_slos s))))"

definition stored_budget :: "(float64 \<Rightarrow> rat) \<Rightarrow> Budget \<Rightarrow> Budget option" where
  "stored_budget dec b =
     (case (numeric 20 10 (dec (bu_BudgetTotal b)), numeric 20 10 (dec (bu_BudgetConsumed b)),
            numeric 20 10 (dec (bu_BudgetRemaining b)), numeric 10 4 (dec (bu_BurnRate b))) of
        (Some tot, Some consumed, Some remaining, Some burn) \<Rightarrow>
          Some (b\<lparr>bu_BudgetTotal := tot, bu_BudgetConsumed := consumed, bu_BudgetRemaining := remaining, bu_BurnRate := burn\<rparr>)
      | _ \<Rightarrow> None)"

text \<open>The returned budget carries the values it was called with and the stored row's id.\<close>

definition BudgetRepository_Upsert :: "(float64 \<Rightarrow> rat) \<Rightarrow> string \<Rightarrow> Budget \<Rightarrow> (monitor, Budget) io" where
  "BudgetRepository_Upsert dec tenantID budget = transaction (\<lambda>s.
     case stored_budget dec budget of
       None \<Rightarrow> (Inl (Wrapf ''upsert budget'' (DbError ''numeric field overflow'')), s)
     | Some row \<Rightarrow>
         let hit = (\<lambda>b. bu_TenantID b = tenantID \<and> bu_SLOID b = bu_SLOID budget \<and> bu_WindowStart b = bu_WindowStart budget) in
         if tenantID \<notin> set (mo_tenants s) \<or> bu_SLOID budget \<notin> (\<lambda>row. so_ID (lo_snap row)) ` set (mo_slos s)
           then (Inl (Wrapf ''upsert budget'' (DbError ''foreign key'')), s)
         else (case find hit (mo_budgets s) of
           None \<Rightarrow> (Inr (budget\<lparr>bu_ID := mo_budget_seq s\<rparr>),
             s\<lparr>mo_budgets := mo_budgets s @ [row\<lparr>bu_ID := mo_budget_seq s, bu_TenantID := tenantID, bu_Version := 1\<rparr>],
               mo_budget_seq := mo_budget_seq s + 1\<rparr>)
         | Some old \<Rightarrow> (Inr (budget\<lparr>bu_ID := bu_ID old\<rparr>),
             s\<lparr>mo_budgets := map (\<lambda>b. if hit b then b\<lparr>bu_BudgetTotal := bu_BudgetTotal row, bu_BudgetConsumed := bu_BudgetConsumed row,
                 bu_BudgetRemaining := bu_BudgetRemaining row, bu_BurnRate := bu_BurnRate row, bu_Status := bu_Status row,
                 bu_Version := bu_Version b + 1\<rparr> else b) (mo_budgets s)\<rparr>)))"

definition BudgetRepository_GetCurrent :: "string \<Rightarrow> int \<Rightarrow> (monitor, Budget) io" where
  "BudgetRepository_GetCurrent tenantID sloID = transaction
     (io_bind (io_read (\<lambda>s. sort_key (\<lambda>b. - bu_WindowStart b) (filter (\<lambda>b. bu_TenantID b = tenantID \<and> bu_SLOID b = sloID) (mo_budgets s)))) (\<lambda>rows.
      case rows of [] \<Rightarrow> io_fail (NotFoundError ''budget'') | b # _ \<Rightarrow> io_return b))"

definition BudgetAlert_Create :: "(float64 \<Rightarrow> rat) \<Rightarrow> string \<Rightarrow> int \<Rightarrow> int \<Rightarrow> string \<Rightarrow> float64 \<Rightarrow> (monitor, unit) io" where
  "BudgetAlert_Create dec tenantID sloID budgetID alertType burnRate = transaction (\<lambda>s.
     case numeric 10 4 (dec burnRate) of
       None \<Rightarrow> (Inl (Wrapf ''create budget alert'' (DbError ''numeric field overflow'')), s)
     | Some burn \<Rightarrow>
         if tenantID \<notin> set (mo_tenants s) \<or> sloID \<notin> (\<lambda>row. so_ID (lo_snap row)) ` set (mo_slos s)
             \<or> budgetID \<notin> bu_ID ` set (mo_budgets s)
           then (Inl (Wrapf ''create budget alert'' (DbError ''foreign key'')), s)
         else (Inr (), s\<lparr>mo_alerts := mo_alerts s @
             [\<lparr>al_ID = mo_alert_seq s, al_TenantID = tenantID, al_SLOID = sloID, al_BudgetID = budgetID, al_Type = alertType,
               al_BurnRate = burn, al_Status = ''active'', al_TriggeredAt = mo_clock s, al_ResolvedAt = None\<rparr>],
             mo_alert_seq := mo_alert_seq s + 1\<rparr>))"

definition active_alert :: "string \<Rightarrow> int \<Rightarrow> AlertRow \<Rightarrow> bool" where
  "active_alert tenantID sloID a \<longleftrightarrow> al_TenantID a = tenantID \<and> al_SLOID a = sloID \<and> al_Status a = ''active''"

definition ResolveBySLOAndType :: "string \<Rightarrow> int \<Rightarrow> string \<Rightarrow> (monitor, unit) io" where
  "ResolveBySLOAndType tenantID sloID alertType = transaction (\<lambda>s.
     (Inr (), s\<lparr>mo_alerts := map (\<lambda>a. if active_alert tenantID sloID a \<and> al_Type a = alertType
        then a\<lparr>al_Status := ''resolved'', al_ResolvedAt := Some (mo_clock s)\<rparr> else a) (mo_alerts s)\<rparr>))"

definition GetActiveBySLO :: "string \<Rightarrow> int \<Rightarrow> (monitor, AlertRow list) io" where
  "GetActiveBySLO tenantID sloID = transaction
     (io_read (\<lambda>s. sort_key (\<lambda>a. - al_TriggeredAt a) (filter (active_alert tenantID sloID) (mo_alerts s))))"

end
