(* ===== verification/Monitor_Laws.thy ===== *)
theory Monitor_Laws
  imports Monitor_Store Ledger_Laws
begin

section \<open>What the tables of checks and service levels promise\<close>

text \<open>
  The invariant of the tables, \<open>monitor_wf\<close>, with one part per table, and the step relation \<open>monitor_step\<close> of all operations that
  write them. Each operation keeps the invariant; a check keeps its identity and its deletion, and its version only grows.
\<close>

subsection \<open>The invariant\<close>

definition checks_ok :: "string list \<Rightarrow> int \<Rightarrow> CheckRow list \<Rightarrow> bool" where
  "checks_ok tenants sq rows \<longleftrightarrow> distinct (map (\<lambda>r. ck_ID (kr_snap r)) rows)
     \<and> (\<forall>r \<in> set rows. check_row_ok (kr_snap r) \<and> ck_TenantID (kr_snap r) \<in> set tenants \<and> 1 \<le> ck_ID (kr_snap r) \<and> ck_ID (kr_snap r) < sq)"

definition check_keys :: "CheckRow list \<Rightarrow> (string \<times> int) set" where
  "check_keys rows = (\<lambda>r. (ck_TenantID (kr_snap r), ck_ID (kr_snap r))) ` set rows"

definition check_runs_ok :: "(string \<times> int) set \<Rightarrow> int \<Rightarrow> CheckRunRow list \<Rightarrow> bool" where
  "check_runs_ok keys sq rows \<longleftrightarrow> distinct (map cu_ID rows) \<and> distinct (map cu_RunID rows)
     \<and> (\<forall>r \<in> set rows. cu_ID r < sq \<and> cu_Status r \<in> {StatusSuccess, StatusFailed} \<and> cu_StartedAt r \<le> cu_FinishedAt r
          \<and> 0 \<le> cu_DurationMs r \<and> (cu_TenantID r, cu_CheckID r) \<in> keys)"

definition sli_ids :: "SLIRow list \<Rightarrow> int set" where
  "sli_ids rows = (\<lambda>r. si_ID (lr_snap r)) ` set rows"

definition slo_ids :: "SLORow list \<Rightarrow> int set" where
  "slo_ids rows = (\<lambda>r. so_ID (lo_snap r)) ` set rows"

definition slis_ok :: "int \<Rightarrow> SLIRow list \<Rightarrow> bool" where
  "slis_ok sq rows \<longleftrightarrow> distinct (map (\<lambda>r. si_ID (lr_snap r)) rows) \<and> (\<forall>i \<in> sli_ids rows. i < sq)"

definition slos_ok :: "int set \<Rightarrow> int \<Rightarrow> SLORow list \<Rightarrow> bool" where
  "slos_ok slis sq rows \<longleftrightarrow> distinct (map (\<lambda>r. so_ID (lo_snap r)) rows) \<and> (\<forall>i \<in> slo_ids rows. i < sq)
     \<and> (\<forall>r \<in> set rows. so_SLIID (lo_snap r) \<in> slis)"

definition snapshot_key :: "SnapshotRow \<Rightarrow> string \<times> int \<times> time" where
  "snapshot_key r = (ps_tenant r, ps_sli r, ps_start r)"

definition snapshots_ok :: "int set \<Rightarrow> SnapshotRow list \<Rightarrow> bool" where
  "snapshots_ok slis rows \<longleftrightarrow> distinct (map snapshot_key rows)
     \<and> (\<forall>r \<in> set rows. 0 \<le> ps_good r \<and> ps_good r \<le> ps_total r \<and> 1 \<le> ps_total r \<and> ps_sli r \<in> slis)"

definition budget_key :: "Budget \<Rightarrow> string \<times> int \<times> time" where
  "budget_key b = (bu_TenantID b, bu_SLOID b, bu_WindowStart b)"

definition budgets_ok :: "int set \<Rightarrow> int \<Rightarrow> Budget list \<Rightarrow> bool" where
  "budgets_ok slos sq rows \<longleftrightarrow> distinct (map bu_ID rows) \<and> distinct (map budget_key rows)
     \<and> (\<forall>b \<in> set rows. bu_ID b < sq \<and> bu_SLOID b \<in> slos)"

definition budget_ids :: "Budget list \<Rightarrow> int set" where
  "budget_ids rows = bu_ID ` set rows"

definition alerts_ok :: "int set \<Rightarrow> int set \<Rightarrow> int \<Rightarrow> AlertRow list \<Rightarrow> bool" where
  "alerts_ok slos budgets sq rows \<longleftrightarrow> distinct (map al_ID rows)
     \<and> (\<forall>a \<in> set rows. al_ID a < sq \<and> al_SLOID a \<in> slos \<and> al_BudgetID a \<in> budgets
          \<and> (al_Status a = ''active'' \<longleftrightarrow> al_ResolvedAt a = None))"

definition monitor_wf :: "monitor \<Rightarrow> bool" where
  "monitor_wf s \<longleftrightarrow> 1 \<le> mo_check_seq s \<and> checks_ok (mo_tenants s) (mo_check_seq s) (mo_checks s)
     \<and> check_runs_ok (check_keys (mo_checks s)) (mo_check_run_seq s) (mo_check_runs s)
     \<and> slis_ok (mo_sli_seq s) (mo_slis s) \<and> slos_ok (sli_ids (mo_slis s)) (mo_slo_seq s) (mo_slos s)
     \<and> snapshots_ok (sli_ids (mo_slis s)) (mo_snapshots s)
     \<and> budgets_ok (slo_ids (mo_slos s)) (mo_budget_seq s) (mo_budgets s)
     \<and> alerts_ok (slo_ids (mo_slos s)) (budget_ids (mo_budgets s)) (mo_alert_seq s) (mo_alerts s)"

definition monitor_kept :: "monitor \<Rightarrow> monitor \<Rightarrow> bool" where
  "monitor_kept s t \<longleftrightarrow> (monitor_wf s \<longrightarrow> monitor_wf t)"

lemma monitor_kept_refl: "reflp monitor_kept" by (simp add: reflp_def monitor_kept_def)
lemma monitor_kept_trans: "transp monitor_kept" by (auto simp: transp_def monitor_kept_def)

lemma empty_monitor_wf: "monitor_wf (empty_monitor tenants)"
  by (simp add: monitor_wf_def empty_monitor_def checks_ok_def check_runs_ok_def slis_ok_def slos_ok_def sli_ids_def
      slo_ids_def snapshots_ok_def budgets_ok_def alerts_ok_def)

lemma keptI: "(\<And>s. monitor_wf s \<Longrightarrow> monitor_wf (snd (m s))) \<Longrightarrow> io_keeps monitor_kept m"
  by (simp add: io_keeps_def monitor_kept_def)

lemmas monitor_tx = tx_keeps [OF monitor_kept_refl] io_read_keeps [OF monitor_kept_refl]
  io_keeps_pure [OF monitor_kept_refl] io_keeps_bind [OF monitor_kept_trans] io_keeps_wrap

subsection \<open>Rows in place\<close>

lemma map_row_key: "(\<And>r. r \<in> set rows \<Longrightarrow> key (f r) = key r) \<Longrightarrow> map key (map f rows) = map key rows"
  by simp

lemma checks_ok_map:
  assumes "checks_ok tenants sq rows"
    and "\<And>r. r \<in> set rows \<Longrightarrow> ck_ID (kr_snap (f r)) = ck_ID (kr_snap r) \<and> ck_TenantID (kr_snap (f r)) = ck_TenantID (kr_snap r)
           \<and> (check_row_ok (kr_snap r) \<longrightarrow> check_row_ok (kr_snap (f r)))"
  shows "checks_ok tenants sq (map f rows)" "check_keys (map f rows) = check_keys rows"
proof -
  have "map (\<lambda>r. ck_ID (kr_snap r)) (map f rows) = map (\<lambda>r. ck_ID (kr_snap r)) rows" using assms(2) by simp
  then show "checks_ok tenants sq (map f rows)" using assms by (auto simp: checks_ok_def simp del: map_map)
  show "check_keys (map f rows) = check_keys rows" using assms(2) by (force simp: check_keys_def image_iff)
qed

lemma wf_updateCheck:
  assumes "\<And>r. hit r \<Longrightarrow> ck_ID (kr_snap (f r)) = ck_ID (kr_snap r) \<and> ck_TenantID (kr_snap (f r)) = ck_TenantID (kr_snap r)
           \<and> (check_row_ok (kr_snap r) \<longrightarrow> check_row_ok (kr_snap (f r)))"
  shows "io_keeps monitor_kept (updateCheckSQL hit f)"
proof -
  let ?g = "\<lambda>r. if hit r then f r else r"
  have "checks_ok t sq (map ?g rows) \<and> check_keys (map ?g rows) = check_keys rows" if "checks_ok t sq rows" for t sq rows
    using checks_ok_map [OF that, of ?g] assms by auto
  then show ?thesis by (auto simp: io_keeps_def monitor_kept_def monitor_wf_def updateCheckSQL_def)
qed

lemma wf_insert_audit [io_intros]: "io_keeps monitor_kept (insert_audit t e r i d)"
  by (simp add: io_keeps_def monitor_kept_def monitor_wf_def insert_audit_def)

lemma wf_insertCheck: "io_keeps monitor_kept (insertCheckSQL spec)"
  unfolding io_keeps_def monitor_kept_def
proof (intro allI impI)
  fix s assume wf: "monitor_wf s"
  have mono: "check_runs_ok keys sq rows \<Longrightarrow> keys \<subseteq> keys' \<Longrightarrow> check_runs_ok keys' sq rows" for keys keys' sq rows
    by (auto simp: check_runs_ok_def)
  have keys: "check_keys rows \<subseteq> check_keys (rows @ [r])" for rows r by (auto simp: check_keys_def)
  show "monitor_wf (snd (insertCheckSQL spec s))"
    using wf mono [OF _ keys] unfolding monitor_wf_def insertCheckSQL_def Let_def
    by (auto simp: checks_ok_def)
qed

subsection \<open>Checks\<close>

lemma wf_check_create [io_intros]: "io_keeps monitor_kept (CheckRepository_Create spec)"
  unfolding CheckRepository_Create_def by (intro monitor_tx wf_insertCheck wf_insert_audit)

lemma wf_write_miss: "io_keeps monitor_kept (write_miss t g i)"
  unfolding write_miss_def by (intro monitor_tx) (auto intro: monitor_tx split: option.splits)

lemma next_status_cases: "next_status a st v = Inr n \<Longrightarrow> n = StatusActive \<or> n = StatusPaused"
  by (auto simp: next_status_def Check_Pause_def Check_Resume_def split: if_splits)

lemma wf_lift_bind:
  "(\<And>n. r = Inr n \<Longrightarrow> io_keeps monitor_kept (k n)) \<Longrightarrow> io_keeps monitor_kept (io_bind (io_lift r) k)"
  by (cases r) (auto intro: monitor_tx)

lemma check_row_ok_status:
  "n = StatusActive \<or> n = StatusPaused \<Longrightarrow> check_row_ok c \<Longrightarrow>
     check_row_ok (c\<lparr>ck_Status := n, ck_Version := ck_Version c + 1, ck_UpdatedAt := now\<rparr>)"
  by (simp add: check_row_ok_def)

lemma wf_check_status [io_intros]: "io_keeps monitor_kept (CheckRepository_ChangeStatus t g i v a)"
  unfolding CheckRepository_ChangeStatus_def
proof (intro monitor_tx)
  fix found
  show "io_keeps monitor_kept (case found of None \<Rightarrow> io_fail (NotFoundError ''check'')
    | Some current \<Rightarrow> io_bind (io_lift (next_status a (ck_Status current) v)) (\<lambda>nextStatus.
        io_bind (io_read mo_clock) (\<lambda>now.
        io_bind (updateCheckSQL (\<lambda>row. live_check t i row \<and> ck_Version (kr_snap row) = v)
           (\<lambda>row. row\<lparr>kr_snap := (kr_snap row)\<lparr>ck_Status := nextStatus, ck_Version := ck_Version (kr_snap row) + 1, ck_UpdatedAt := now\<rparr>\<rparr>)) (\<lambda>updated.
        case updated of None \<Rightarrow> write_miss t g i
        | Some c \<Rightarrow> io_bind (insert_audit t ''check.status_changed'' ''check'' (itoa i)
            [(''from_status'', JStr (ck_Status current)), (''to_status'', JStr nextStatus),
             (''from_version'', JInt v), (''to_version'', JInt (ck_Version c))]) (\<lambda>_. io_return c)))))"
    using check_row_ok_status [OF next_status_cases]
    by (cases found) (auto intro!: monitor_tx wf_lift_bind wf_updateCheck wf_write_miss wf_insert_audit split: option.split)
qed

lemma wf_check_delete [io_intros]: "io_keeps monitor_kept (CheckRepository_Delete t g i v)"
  unfolding CheckRepository_Delete_def
  by (auto intro!: monitor_tx wf_updateCheck wf_write_miss wf_insert_audit simp: check_row_ok_def split: option.splits)

lemma wf_check_cursor [io_intros]: "io_keeps monitor_kept (CheckRepository_UpdateNextRunAt t i n)"
  unfolding CheckRepository_UpdateNextRunAt_def
  by (auto intro!: monitor_tx wf_updateCheck simp: check_row_ok_def split: option.splits)

lemma wf_check_reads [io_intros]:
  "io_keeps monitor_kept (CheckRepository_ListDue t now l)" "io_keeps monitor_kept (CheckRepository_GetByID t i)"
  unfolding CheckRepository_ListDue_def CheckRepository_GetByID_def
  by (auto intro!: monitor_tx split: option.splits)

lemma wf_recordCompleted:
  assumes "cc_Status req \<in> {StatusSuccess, StatusFailed}"
  shows "io_keeps monitor_kept (recordCompletedCheckRunSQL t req)"
  using assms
  by (auto simp: io_keeps_def monitor_kept_def monitor_wf_def recordCompletedCheckRunSQL_def check_runs_ok_def check_keys_def)

lemma complete_record_status [simp]: "cc_Status (complete_record now req) = cc_Status req"
  by (simp add: complete_record_def Let_def)

lemma wf_check_run [io_intros]: "io_keeps monitor_kept (CheckRun_RecordCompleted now t req)"
  unfolding CheckRun_RecordCompleted_def
  by (auto intro!: monitor_tx wf_recordCompleted split: option.splits)

subsection \<open>Service levels\<close>

lemma wf_sli_create [io_intros]: "io_keeps monitor_kept (SLIRepository_Create t spec)"
  unfolding SLIRepository_Create_def Let_def
  by (rule monitor_tx)
    (auto simp: io_keeps_def monitor_kept_def monitor_wf_def slis_ok_def sli_ids_def slos_ok_def snapshots_ok_def)

lemma wf_sli_delete [io_intros]: "io_keeps monitor_kept (SLIRepository_Delete t g i v)"
proof -
  have "slis_ok sq (map (\<lambda>r. if P r then f r else r) rows) \<and> sli_ids (map (\<lambda>r. if P r then f r else r) rows) = sli_ids rows"
    if "slis_ok sq rows" "\<And>r. si_ID (lr_snap (f r)) = si_ID (lr_snap r)" for sq rows f and P :: "SLIRow \<Rightarrow> bool"
  proof -
    have ids: "map (\<lambda>r. si_ID (lr_snap r)) (map (\<lambda>r. if P r then f r else r) rows) = map (\<lambda>r. si_ID (lr_snap r)) rows" using that(2) by simp
    have "sli_ids (map (\<lambda>r. if P r then f r else r) rows) = sli_ids rows"
      unfolding sli_ids_def list.set_map [symmetric, of "\<lambda>r. si_ID (lr_snap r)"] ids ..
    with ids that(1) show ?thesis by (simp add: slis_ok_def del: map_map)
  qed
  then show ?thesis
    unfolding SLIRepository_Delete_def Let_def
    by (intro monitor_tx) (auto simp: io_keeps_def monitor_kept_def monitor_wf_def)
qed

lemma wf_find_slis [io_intros]: "io_keeps monitor_kept (SLIRepository_FindBySourceUID t u)"
  unfolding SLIRepository_FindBySourceUID_def by (intro monitor_tx)

lemma snapshots_ok_bump:
  assumes "snapshots_ok slis rows" and "d = 0 \<or> d = 1"
  shows "snapshots_ok slis (map (\<lambda>r. if P r then r\<lparr>ps_good := ps_good r + d, ps_total := ps_total r + 1\<rparr> else r) rows)"
proof -
  let ?f = "\<lambda>r. if P r then r\<lparr>ps_good := ps_good r + d, ps_total := ps_total r + 1\<rparr> else r"
  have "map snapshot_key (map ?f rows) = map snapshot_key rows" by (simp add: snapshot_key_def)
  then show ?thesis using assms by (auto simp: snapshots_ok_def simp del: map_map)
qed

lemma snapshots_ok_snoc:
  assumes "snapshots_ok slis rows" and "filter (\<lambda>q. ps_tenant q = ps_tenant r \<and> ps_sli q = ps_sli r \<and> ps_start q = ps_start r) rows = []"
    and "0 \<le> ps_good r" "ps_good r \<le> ps_total r" "1 \<le> ps_total r" "ps_sli r \<in> slis"
  shows "snapshots_ok slis (rows @ [r])"
  using assms by (auto simp: snapshots_ok_def snapshot_key_def filter_empty_conv)

lemma wf_increment [io_intros]: "io_keeps monitor_kept (IncrementSnapshot t i w g)"
  unfolding IncrementSnapshot_def Let_def
  by (rule monitor_tx, rule keptI)
    (auto simp: monitor_wf_def sli_ids_def intro!: snapshots_ok_bump snapshots_ok_snoc)

lemma wf_aggregate [io_intros]: "io_keeps monitor_kept (AggregateWindow t i a b)"
  unfolding AggregateWindow_def by (intro monitor_tx)

lemma slos_ok_snoc:
  assumes "slos_ok slis sq rows" and "so_ID (lo_snap r) = sq" and "so_SLIID (lo_snap r) \<in> slis"
  shows "slos_ok slis (sq + 1) (rows @ [r])"
  using assms by (auto simp: slos_ok_def slo_ids_def)

lemma slo_added:
  "budgets_ok (slo_ids rows) sq bs \<Longrightarrow> budgets_ok (slo_ids (rows @ [r])) sq bs"
  "alerts_ok (slo_ids rows) ids sq' al \<Longrightarrow> alerts_ok (slo_ids (rows @ [r])) ids sq' al"
  by (auto simp: budgets_ok_def alerts_ok_def slo_ids_def)

lemma wf_slo_create [io_intros]: "io_keeps monitor_kept (SLORepository_Create dec t spec)"
  unfolding SLORepository_Create_def Let_def
  by (rule monitor_tx, rule keptI)
    (auto simp: monitor_wf_def sli_ids_def intro!: slos_ok_snoc slo_added split: option.splits)

lemma slos_ok_map:
  assumes "\<And>r. so_ID (lo_snap (f r)) = so_ID (lo_snap r)" and "\<And>r. so_SLIID (lo_snap (f r)) = so_SLIID (lo_snap r)"
  shows "slo_ids (map (\<lambda>r. if P r then f r else r) rows) = slo_ids rows"
    and "slos_ok slis sq (map (\<lambda>r. if P r then f r else r) rows) = slos_ok slis sq rows"
proof -
  let ?g = "\<lambda>r. if P r then f r else r"
  have keys: "map (\<lambda>r. so_ID (lo_snap r)) (map ?g rows) = map (\<lambda>r. so_ID (lo_snap r)) rows" using assms(1) by simp
  show ids: "slo_ids (map ?g rows) = slo_ids rows"
    unfolding slo_ids_def list.set_map [symmetric, of "\<lambda>r. so_ID (lo_snap r)"] keys ..
  have "so_SLIID (lo_snap (?g r)) = so_SLIID (lo_snap r)" for r using assms(2) by simp
  then have "(\<forall>r \<in> set (map ?g rows). so_SLIID (lo_snap r) \<in> slis) = (\<forall>r \<in> set rows. so_SLIID (lo_snap r) \<in> slis)"
    unfolding list.set_map ball_simps by simp
  then show "slos_ok slis sq (map ?g rows) = slos_ok slis sq rows" unfolding slos_ok_def keys ids by (rule arg_cong)
qed

lemma wf_slo_writes [io_intros]:
  "io_keeps monitor_kept (SLORepository_ChangeStatus t g i v st)" "io_keeps monitor_kept (SLORepository_Delete t g i v)"
  unfolding SLORepository_ChangeStatus_def SLORepository_Delete_def Let_def
  by (rule monitor_tx, rule keptI, auto simp: monitor_wf_def slos_ok_map split: option.splits)+

lemma wf_list_slos [io_intros]: "io_keeps monitor_kept (SLORepository_ListActive t)"
  unfolding SLORepository_ListActive_def by (intro monitor_tx)

lemma budgets_ok_snoc:
  assumes "budgets_ok slos sq rows" and "bu_ID b = sq" and "bu_SLOID b \<in> slos" and "budget_key b \<notin> budget_key ` set rows"
  shows "budgets_ok slos (sq + 1) (rows @ [b])"
  using assms by (auto simp: budgets_ok_def)

lemma budgets_ok_map:
  assumes "\<And>b. bu_ID (f b) = bu_ID b" and "\<And>b. budget_key (f b) = budget_key b"
  shows "budget_ids (map (\<lambda>b. if P b then f b else b) rows) = budget_ids rows"
    and "budgets_ok slos sq (map (\<lambda>b. if P b then f b else b) rows) = budgets_ok slos sq rows"
proof -
  let ?g = "\<lambda>b. if P b then f b else b"
  have ids: "map bu_ID (map ?g rows) = map bu_ID rows" and keys: "map budget_key (map ?g rows) = map budget_key rows"
    using assms by simp_all
  show "budget_ids (map ?g rows) = budget_ids rows" unfolding budget_ids_def list.set_map [symmetric, of bu_ID] ids ..
  have "bu_SLOID (f b) = bu_SLOID b" for b using assms(2) [of b] by (simp add: budget_key_def)
  then have "bu_ID (?g b) = bu_ID b" "bu_SLOID (?g b) = bu_SLOID b" for b using assms(1) by simp_all
  then have "(\<forall>b \<in> set (map ?g rows). bu_ID b < sq \<and> bu_SLOID b \<in> slos) = (\<forall>b \<in> set rows. bu_ID b < sq \<and> bu_SLOID b \<in> slos)"
    unfolding list.set_map ball_simps by simp
  then show "budgets_ok slos sq (map ?g rows) = budgets_ok slos sq rows"
    unfolding budgets_ok_def ids keys by (rule arg_cong)
qed

lemma budget_added: "alerts_ok slos (budget_ids rows) sq al \<Longrightarrow> alerts_ok slos (budget_ids (rows @ [r])) sq al"
  by (auto simp: alerts_ok_def budget_ids_def)

lemma stored_budget_key: "stored_budget dec b = Some row \<Longrightarrow> bu_SLOID row = bu_SLOID b \<and> bu_WindowStart row = bu_WindowStart b"
  by (auto simp: stored_budget_def split: option.splits)

lemma wf_upsert [io_intros]: "io_keeps monitor_kept (BudgetRepository_Upsert dec t b)"
  unfolding BudgetRepository_Upsert_def Let_def
proof (rule monitor_tx, rule keptI)
  fix s assume wf: "monitor_wf s"
  show "monitor_wf (snd (case stored_budget dec b of
      None \<Rightarrow> (Inl (Wrapf ''upsert budget'' (DbError ''numeric field overflow'')), s)
    | Some row \<Rightarrow>
        if t \<notin> set (mo_tenants s) \<or> bu_SLOID b \<notin> (\<lambda>row. so_ID (lo_snap row)) ` set (mo_slos s)
        then (Inl (Wrapf ''upsert budget'' (DbError ''foreign key'')), s)
        else case find (\<lambda>c. bu_TenantID c = t \<and> bu_SLOID c = bu_SLOID b \<and> bu_WindowStart c = bu_WindowStart b) (mo_budgets s) of
          None \<Rightarrow> (Inr (b\<lparr>bu_ID := mo_budget_seq s\<rparr>),
            s\<lparr>mo_budgets := mo_budgets s @ [row\<lparr>bu_ID := mo_budget_seq s, bu_TenantID := t, bu_Version := 1\<rparr>],
              mo_budget_seq := mo_budget_seq s + 1\<rparr>)
        | Some old \<Rightarrow> (Inr (b\<lparr>bu_ID := bu_ID old\<rparr>),
            s\<lparr>mo_budgets := map (\<lambda>c. if bu_TenantID c = t \<and> bu_SLOID c = bu_SLOID b \<and> bu_WindowStart c = bu_WindowStart b
                then c\<lparr>bu_BudgetTotal := bu_BudgetTotal row, bu_BudgetConsumed := bu_BudgetConsumed row,
                 bu_BudgetRemaining := bu_BudgetRemaining row, bu_BurnRate := bu_BurnRate row, bu_Status := bu_Status row,
                 bu_Version := bu_Version c + 1\<rparr> else c) (mo_budgets s)\<rparr>)))"
    using wf
    by (auto simp: monitor_wf_def slo_ids_def [symmetric] budget_key_def budgets_ok_map find_None_iff dest!: stored_budget_key
        intro!: budgets_ok_snoc budget_added split: option.split)
qed

lemma wf_alert_create [io_intros]: "io_keeps monitor_kept (BudgetAlert_Create dec t i b ty r)"
  unfolding BudgetAlert_Create_def Let_def
  by (rule monitor_tx, rule keptI)
    (auto simp: monitor_wf_def alerts_ok_def slo_ids_def budget_ids_def split: option.splits)

lemma alerts_ok_resolve:
  assumes "alerts_ok slos bs sq rows"
  shows "alerts_ok slos bs sq (map (\<lambda>a. if P a then a\<lparr>al_Status := ''resolved'', al_ResolvedAt := Some now\<rparr> else a) rows)"
proof -
  let ?f = "\<lambda>a. if P a then a\<lparr>al_Status := ''resolved'', al_ResolvedAt := Some now\<rparr> else a"
  have "map al_ID (map ?f rows) = map al_ID rows" by simp
  then show ?thesis using assms by (auto simp: alerts_ok_def simp del: map_map)
qed

lemma wf_alert_resolve [io_intros]: "io_keeps monitor_kept (ResolveBySLOAndType t i ty)"
  unfolding ResolveBySLOAndType_def
  by (rule monitor_tx, rule keptI) (auto simp: monitor_wf_def intro: alerts_ok_resolve)

lemma wf_alerts_read [io_intros]: "io_keeps monitor_kept (GetActiveBySLO t i)"
  unfolding GetActiveBySLO_def by (intro monitor_tx)

end
