(* ===== verification/Check_Scheduling.thy ===== *)
theory Check_Scheduling
  imports Scheduling_Laws Monitor_Laws
begin

section \<open>Firing due checks\<close>

text \<open>
  \<open>internal/core/app/checkschedule/scheduler.go\<close>: a tick lists the due checks of one tenant and takes each from its definition to a
  published run: revision, ledger row, custom resource, cursor. Runs and revisions live in the ledger, the cursor in the table of checks.
  The four collaborators of the use case are always set (\<open>cmd/operator/main.go\<close>).
\<close>

definition ActorCheckScheduler :: string where "ActorCheckScheduler = ''orbitjob-check-scheduler''"
definition CheckBatchSize :: int where "CheckBatchSize = 50"

record Scope =
  sp_TenantID :: string
  sp_Namespace :: string

record 'k CheckTick =
  tk_publisher :: "'k CRClient"
  tk_rfc3339 :: "time \<Rightarrow> string"

definition check_scheduleAnnotation :: "(time \<Rightarrow> string) \<Rightarrow> time \<Rightarrow> (string \<times> string) list" where
  "check_scheduleAnnotation rfc3339 t = (if time_IsZero t then [] else [(AnnotationScheduledAt, rfc3339 t)])"

definition check_jobRunObject :: "'k CheckTick \<Rightarrow> Scope \<Rightarrow> string \<Rightarrow> StoredRun \<Rightarrow> string \<Rightarrow> time \<Rightarrow> JobRunObject" where
  "check_jobRunObject uc scope sourceUID state occurrenceKey scheduledAt =
     \<lparr>jo_Meta = \<lparr>om_Name = RunObjectName sourceUID occurrenceKey, om_Namespace = sp_Namespace scope, om_UID = [],
        om_Labels = [(LabelTenant, sp_Namespace scope), (LabelScheduledJob, sourceUID)],
        om_Annotations = check_scheduleAnnotation (tk_rfc3339 uc) scheduledAt, om_OwnerReferences = []\<rparr>,
      jo_Spec = \<lparr>js_ScheduledJobRef = \<lparr>ref_Name = sourceUID, ref_UID = sourceUID\<rparr>,
        js_DefinitionRevision = sr_RevisionID state, js_Trigger = Check, js_Actor = ActorCheckScheduler,
        js_OccurrenceKey = occurrenceKey, js_TimeoutSeconds = 0, js_CancelRequested = False\<rparr>\<rparr>"

text \<open>The expression is evaluated at an instant in UTC, whatever the zone of the check.\<close>

definition nextRunAt :: "Libs \<Rightarrow> CheckSnapshot \<Rightarrow> time \<Rightarrow> time" where
  "nextRunAt lb c now =
     (case (ck_ScheduleType c = ScheduleTypeCron, ck_CronExpr c) of
        (True, Some expr) \<Rightarrow> (case lb_cron lb expr of
            Inr schedule \<Rightarrow> schedule DefaultTimezone now
          | Inl _ \<Rightarrow> now + minute_ns)
      | _ \<Rightarrow> (case (ck_ScheduleType c = ScheduleTypeInterval, ck_IntervalSec c) of
            (True, Some n) \<Rightarrow> now + int64 (n * second_ns)
          | _ \<Rightarrow> now + minute_ns))"

definition check_repairOpenRuns :: "env \<Rightarrow> 'k CheckTick \<Rightarrow> Scope \<Rightarrow> string \<Rightarrow> ('k world, unit) io" where
  "check_repairOpenRuns env uc scope sourceUID =
     io_bind (io_wrap ''list open runs'' (store_call env (\<lambda>_. OpenRuns (sp_TenantID scope) sourceUID))) (\<lambda>open.
     io_iter (\<lambda>run. io_wrap ''repair run'' (Publish (tk_publisher uc)
        (check_jobRunObject uc scope sourceUID (StoredRun_zero\<lparr>sr_ID := or_ID run, sr_RevisionID := or_RevisionID run,
             sr_Phase := or_Phase run\<rparr>) (or_OccurrenceKey run) (or_ScheduledFor run)))) open)"

definition check_run :: "string \<Rightarrow> int \<Rightarrow> string \<Rightarrow> time \<Rightarrow> JobRun" where
  "check_run sourceUID revisionID occurrenceKey scheduledAt =
     JobRun_zero\<lparr>jr_SourceUID := sourceUID, jr_RevisionID := itoa revisionID, jr_OccurrenceKey := occurrenceKey,
       jr_Trigger := Check, jr_Phase := Pending, jr_ScheduledFor := scheduledAt\<rparr>"

definition fireCheck ::
    "Libs \<Rightarrow> Ext \<Rightarrow> env \<Rightarrow> (nat \<Rightarrow> monitor \<Rightarrow> monitor) \<Rightarrow> 'k CheckTick \<Rightarrow> Scope \<Rightarrow> CheckSnapshot \<Rightarrow> time
     \<Rightarrow> (('k, monitor) sworld, int) io" where
  "fireCheck lb x env other uc scope c now =
     (let sourceUID = CheckSourceUID (ck_ID c); tenant = sp_TenantID scope in
      io_bind (on_world (check_repairOpenRuns env uc scope sourceUID)) (\<lambda>_.
      io_bind (io_wrap ''materialize revision''
         (on_world (ApplyCheck lb x env c (sp_Namespace scope) tenant ActorCheckScheduler))) (\<lambda>revisionID.
      case ck_NextRunAt c of
        None \<Rightarrow> io_fail (Errorf ''check is due but has no next_run_at'')
      | Some scheduledAt \<Rightarrow>
          let occurrenceKey = OccurrenceKey (ex_sha x) (ex_rfc x) sourceUID revisionID scheduledAt in
          io_bind (io_wrap ''create occurrence'' (on_world (store_call env (\<lambda>_.
             CreateOccurrenceForTenant tenant (check_run sourceUID revisionID occurrenceKey scheduledAt)
               (ck_RetryLimit c + 1) ActorCheckScheduler)))) (\<lambda>(state, isNew).
          if \<not> isNew \<and> Terminal (sr_Phase state) then io_return 0
          else
            io_bind (io_wrap ''publish run'' (on_world (Publish (tk_publisher uc)
               (check_jobRunObject uc scope sourceUID state occurrenceKey scheduledAt)))) (\<lambda>_.
            io_bind (io_wrap ''advance next_run_at'' (db_call env other (\<lambda>_.
               CheckRepository_UpdateNextRunAt tenant (ck_ID c) (nextRunAt lb c now)))) (\<lambda>_.
            io_return (if isNew then 1 else 0)))))))"

text \<open>A check that fails is skipped: the tick goes on with the next one.\<close>

definition fire_or_skip ::
    "Libs \<Rightarrow> Ext \<Rightarrow> env \<Rightarrow> (nat \<Rightarrow> monitor \<Rightarrow> monitor) \<Rightarrow> 'k CheckTick \<Rightarrow> Scope \<Rightarrow> time \<Rightarrow> CheckSnapshot
     \<Rightarrow> (('k, monitor) sworld, int) io" where
  "fire_or_skip lb x env other uc scope now c =
     io_bind (io_try (fireCheck lb x env other uc scope c now)) (\<lambda>r.
       io_return (case r of Inl _ \<Rightarrow> 0 | Inr fired \<Rightarrow> fired))"

definition Check_RunBatch ::
    "Libs \<Rightarrow> Ext \<Rightarrow> env \<Rightarrow> (nat \<Rightarrow> monitor \<Rightarrow> monitor) \<Rightarrow> 'k CheckTick \<Rightarrow> Scope \<Rightarrow> int \<Rightarrow> (('k, monitor) sworld, int) io" where
  "Check_RunBatch lb x env other uc scope limit =
     (let limit = (if limit < 1 then CheckBatchSize else limit) in
      io_bind (on_world (now_call env)) (\<lambda>now.
      io_bind (io_wrap ''list due checks'' (db_call env other (\<lambda>_.
         CheckRepository_ListDue (sp_TenantID scope) now limit))) (\<lambda>checks.
      io_sum (fire_or_skip lb x env other uc scope now) checks)))"

subsection \<open>What a tick keeps\<close>

text \<open>The interface of the check scheduler to its two stores.\<close>

locale check_scheduling_store = service R env S other + scheduling_store R env
  for R :: "ledger \<Rightarrow> ledger \<Rightarrow> bool" and env :: env and S :: "monitor \<Rightarrow> monitor \<Rightarrow> bool" and other :: "nat \<Rightarrow> monitor \<Rightarrow> monitor" +
  assumes check_revision: "io_keeps R (ApplyRevisionForTenant j t rv)"
    and check_cursor: "io_keeps S (CheckRepository_UpdateNextRunAt t i due)"
begin

lemma due_keeps: "io_keeps S (CheckRepository_ListDue t now n)"
  unfolding CheckRepository_ListDue_def by (intro tx_keeps io_read_keeps S_refl)

lemma check_publish_keeps: "io_keeps (on_ledger R) (Publish client run)"
  unfolding Publish_def by (auto intro!: intros split: sum.splits)

lemma check_repair_keeps: "io_keeps (on_ledger R) (check_repairOpenRuns env uc sc uid)"
  unfolding check_repairOpenRuns_def by (intro schedule_calls check_publish_keeps)

lemma ApplyCheck_keeps: "io_keeps (on_ledger R) (ApplyCheck lb x env c ns t a)"
  unfolding ApplyCheck_def by (auto intro!: store intros check_revision)

lemma fireCheck_keeps: "io_keeps (on_service R S) (fireCheck lb x env other uc sc c now)"
  unfolding fireCheck_def Let_def
  by (auto intro!: sintros world db store schedule_occurrence check_repair_keeps ApplyCheck_keeps check_publish_keeps check_cursor
      split: option.splits)

lemma RunBatch_keeps: "io_keeps (on_service R S) (Check_RunBatch lb x env other uc sc n)"
  unfolding Check_RunBatch_def fire_or_skip_def Let_def
  by (auto intro!: sintros ssum world db clock due_keeps fireCheck_keeps)

end

lemma check_scheduling_evolves:
  assumes "\<And>n l. ledger_evolves l (en_other env n l)" and "\<And>n s. monitor_kept s (other n s)"
  shows "check_scheduling_store ledger_evolves env monitor_kept other"
  using assms ledger_evolves_refl ledger_evolves_trans monitor_kept_refl monitor_kept_trans
  by unfold_locales (auto intro: evolves_ApplyRevision evolves_CreateOccurrence wf_check_cursor)

interpretation quiet_checks: check_scheduling_store ledger_evolves "quiet now" monitor_kept "\<lambda>_ s. s" for now
  using ledger_evolves_refl
  by (intro check_scheduling_evolves) (simp_all add: quiet_def reflp_def monitor_kept_def)

end
