(* ===== verification/Check_Observe.thy ===== *)
theory Check_Observe
  imports Check_Scheduling
begin

section \<open>Recording what a finished run means\<close>

text \<open>
  \<open>internal/core/app/checkobserve\<close>: the criteria that make one run outcome a good event (\<open>criteria.go\<close>) and the recorder the operator calls when a
  run finishes (\<open>recorder.go\<close>). It writes the read model of check runs and the snapshots of every indicator that names the run's source. Failures are logged and
  dropped, so each part returns nothing. The metrics are not modelled.
\<close>

subsection \<open>Criteria\<close>

record outcomeEvent =
  oe_Status :: string
  oe_Duration :: duration
  oe_hasTiming :: bool

definition durationMs :: "outcomeEvent \<Rightarrow> float64" where
  "durationMs e = float64_of_int (milliseconds (oe_Duration e))"

definition toFloat64 :: "any \<Rightarrow> float64 result" where
  "toFloat64 v = (case v of AFloat n \<Rightarrow> Inr n | AInt n \<Rightarrow> Inr (float64_of_int n) | _ \<Rightarrow> Inl (Errorf ''cannot convert to float64''))"

definition compare_op :: "string \<Rightarrow> float64 \<Rightarrow> float64 \<Rightarrow> bool option" where
  "compare_op op actual threshold =
     (if op = ''<'' then Some (actual < threshold)
      else if op = ''<='' then Some (actual \<le> threshold)
      else if op = ''>'' then Some (actual > threshold)
      else if op = ''>='' then Some (actual \<ge> threshold)
      else if op = ''=='' then Some (actual = threshold)
      else if op = ''!='' then Some (actual \<noteq> threshold)
      else None)"

definition evaluateNumericCondition :: "float64 \<Rightarrow> any \<Rightarrow> bool result" where
  "evaluateNumericCondition actual condition =
     (case condition of
        AObj cond \<Rightarrow>
          (case map_of cond ''op'' of
             Some (AStr op) \<Rightarrow>
               rbind (wrap_result ''numeric condition value''
                  (toFloat64 (case map_of cond ''value'' of None \<Rightarrow> ANil | Some v \<Rightarrow> v))) (\<lambda>threshold.
               case compare_op op actual threshold of
                 Some b \<Rightarrow> Inr b
               | None \<Rightarrow> Inl (Errorf ''unsupported numeric operator''))
           | _ \<Rightarrow> Inl (Errorf ''numeric condition missing op field''))
      | _ \<Rightarrow> rbind (wrap_result ''numeric condition'' (toFloat64 condition)) (\<lambda>threshold. Inr (actual = threshold)))"

text \<open>One turn of the loop over the criteria: whether the key holds, or an error.\<close>

definition criterion :: "outcomeEvent \<Rightarrow> string \<times> any \<Rightarrow> bool result" where
  "criterion event = (\<lambda>(key, expected).
     if key = ''status'' then
       (case expected of
          AStr expectedStatus \<Rightarrow> Inr (oe_Status event = expectedStatus)
        | _ \<Rightarrow> Inl (Errorf ''status criteria must be a string''))
     else if key = ''duration_ms'' then
       (if \<not> oe_hasTiming event then Inr False else evaluateNumericCondition (durationMs event) expected)
     else Inl (Errorf ''criteria key has no producer on run outcomes''))"

fun evaluateCriteria :: "outcomeEvent \<Rightarrow> object \<Rightarrow> bool result" where
  "evaluateCriteria event [] = Inr True"
| "evaluateCriteria event (c # criteria) =
     rbind (criterion event c) (\<lambda>good. if \<not> good then Inr False else evaluateCriteria event criteria)"

definition isGoodEvent :: "outcomeEvent \<Rightarrow> SLISnapshot \<Rightarrow> bool result" where
  "isGoodEvent event s =
     (if si_SLIType s = TypeAvailability then
        (if si_GoodEventCriteria s = [] then Inr (oe_Status event = StatusSuccess)
         else evaluateCriteria event (si_GoodEventCriteria s))
      else if si_SLIType s = TypeLatency then
        (if si_GoodEventCriteria s = [] then Inl (Errorf ''latency sli requires good_event_criteria'')
         else evaluateCriteria event (si_GoodEventCriteria s))
      else if si_SLIType s = TypeQuality then
        (if si_GoodEventCriteria s = [] then Inl (Errorf ''quality sli requires good_event_criteria'')
         else evaluateCriteria event (si_GoodEventCriteria s))
      else evaluateCriteria event (si_GoodEventCriteria s))"

definition occurrenceRunID :: "(string \<Rightarrow> string) \<Rightarrow> string \<Rightarrow> string" where
  "occurrenceRunID sha occurrenceKey =
     (let digest = (if length occurrenceKey \<noteq> 64 then sha occurrenceKey else occurrenceKey) in
      take 8 digest @ ''-'' @ take 4 (drop 8 digest) @ ''-'' @ take 4 (drop 12 digest) @ ''-'' @
      take 4 (drop 16 digest) @ ''-'' @ take 12 (drop 20 digest))"

subsection \<open>The recorder\<close>

definition snapshotWindow :: duration where "snapshotWindow = 5 * minute_ns"
definition unknownCheckType :: string where "unknownCheckType = ''unknown''"

definition statusForEvent :: "phase \<Rightarrow> string" where
  "statusForEvent ph = (if ph = Succeeded then StatusSuccess else StatusFailed)"

definition has_timing :: "TerminalOutcome \<Rightarrow> bool" where
  "has_timing outcome \<longleftrightarrow> \<not> time_IsZero (to_StartedAt outcome) \<and> \<not> time_IsZero (to_CompletedAt outcome)"

definition checkType ::
    "env \<Rightarrow> (nat \<Rightarrow> monitor \<Rightarrow> monitor) \<Rightarrow> string \<Rightarrow> int \<Rightarrow> (('k, monitor) sworld, string) io" where
  "checkType env other tenantID checkID =
     io_bind (io_try (db_call env other (\<lambda>_. CheckRepository_GetByID tenantID checkID))) (\<lambda>r.
     io_return (case r of Inl _ \<Rightarrow> unknownCheckType | Inr snap \<Rightarrow> ck_CheckType snap))"

definition completed_record :: "Ext \<Rightarrow> int \<Rightarrow> TerminalOutcome \<Rightarrow> CheckCompletedRecord" where
  "completed_record x checkID outcome =
     \<lparr>cc_RunID = occurrenceRunID (ex_sha x) (to_OccurrenceKey outcome), cc_CheckID = checkID,
      cc_Status = (if to_Phase outcome = Succeeded then StatusSuccess else StatusFailed),
      cc_ScheduledAt = to_ScheduledFor outcome, cc_StartedAt = to_StartedAt outcome, cc_FinishedAt = to_CompletedAt outcome,
      cc_DurationMs = (if has_timing outcome then milliseconds (time_Sub (to_CompletedAt outcome) (to_StartedAt outcome)) else 0)\<rparr>"

definition recordCheckRun ::
    "Ext \<Rightarrow> env \<Rightarrow> (nat \<Rightarrow> monitor \<Rightarrow> monitor) \<Rightarrow> string \<Rightarrow> int \<Rightarrow> TerminalOutcome \<Rightarrow> (('k, monitor) sworld, unit) io" where
  "recordCheckRun x env other tenantID checkID outcome =
     io_bind (io_try (db_call env other (\<lambda>now. CheckRun_RecordCompleted now tenantID (completed_record x checkID outcome)))) (\<lambda>r.
     case r of
       Inl _ \<Rightarrow> io_return ()
     | Inr _ \<Rightarrow> io_bind (checkType env other tenantID checkID) (\<lambda>_. io_return ()))"

definition outcome_event :: "TerminalOutcome \<Rightarrow> outcomeEvent" where
  "outcome_event outcome = \<lparr>oe_Status = statusForEvent (to_Phase outcome),
     oe_Duration = time_Sub (to_CompletedAt outcome) (to_StartedAt outcome), oe_hasTiming = has_timing outcome\<rparr>"

text \<open>One turn of the loop over the indicators: an indicator that cannot be evaluated is skipped.\<close>

definition record_sli_event ::
    "env \<Rightarrow> (nat \<Rightarrow> monitor \<Rightarrow> monitor) \<Rightarrow> string \<Rightarrow> outcomeEvent \<Rightarrow> time \<Rightarrow> SLISnapshot \<Rightarrow> (('k, monitor) sworld, unit) io" where
  "record_sli_event env other tenantID event windowStart s =
     (case isGoodEvent event s of
        Inl _ \<Rightarrow> io_return ()
      | Inr isGood \<Rightarrow>
          io_bind (io_try (db_call env other (\<lambda>_. IncrementSnapshot tenantID (si_ID s) windowStart isGood))) (\<lambda>_. io_return ()))"

definition recordSLIEvents ::
    "env \<Rightarrow> (nat \<Rightarrow> monitor \<Rightarrow> monitor) \<Rightarrow> string \<Rightarrow> TerminalOutcome \<Rightarrow> (('k, monitor) sworld, unit) io" where
  "recordSLIEvents env other tenantID outcome =
     io_bind (io_try (db_call env other (\<lambda>_. SLIRepository_FindBySourceUID tenantID (to_SourceUID outcome)))) (\<lambda>r.
     case r of
       Inl _ \<Rightarrow> io_return ()
     | Inr slis \<Rightarrow>
         if slis = [] then io_return ()
         else io_bind (on_world (now_call env)) (\<lambda>now.
           io_iter (record_sli_event env other tenantID (outcome_event outcome) (time_Truncate now snapshotWindow)) slis))"

definition RecordTerminalPhase ::
    "Ext \<Rightarrow> env \<Rightarrow> (nat \<Rightarrow> monitor \<Rightarrow> monitor) \<Rightarrow> string \<Rightarrow> int \<Rightarrow> phase \<Rightarrow> (('k, monitor) sworld, unit) io" where
  "RecordTerminalPhase x env other tenantID runID ph =
     (if ph \<noteq> Succeeded \<and> ph \<noteq> Failed then io_return ()
      else io_bind (io_try (on_world (store_call env (\<lambda>_. TerminalOutcome_read tenantID runID)))) (\<lambda>r.
        case r of
          Inl _ \<Rightarrow> io_return ()
        | Inr outcome \<Rightarrow>
            io_bind (case CheckIDFromSourceUID (to_SourceUID outcome) of
                 Some checkID \<Rightarrow> recordCheckRun x env other tenantID checkID outcome
               | None \<Rightarrow> io_return ()) (\<lambda>_.
            recordSLIEvents env other tenantID outcome)))"

subsection \<open>Criteria, whatever the order of the keys\<close>

lemma evaluateCriteria_True: "evaluateCriteria e cs = Inr True \<longleftrightarrow> (\<forall>c \<in> set cs. criterion e c = Inr True)"
  by (induction cs) (auto simp: rbind_def split: sum.splits)

lemma evaluateCriteria_False: "evaluateCriteria e cs = Inr False \<Longrightarrow> \<exists>c \<in> set cs. criterion e c = Inr False"
  by (induction cs) (auto simp: rbind_def split: sum.splits if_splits)

lemma evaluateCriteria_error: "evaluateCriteria e cs = Inl err \<Longrightarrow> \<exists>c \<in> set cs. criterion e c = Inl err"
  by (induction cs) (auto simp: rbind_def split: sum.splits if_splits)

lemma criteria_order:
  assumes same: "set cs = set ds" and "\<forall>c \<in> set cs. \<exists>b. criterion e c = Inr b"
  shows "evaluateCriteria e cs = evaluateCriteria e ds"
proof -
  have total: "\<exists>b. evaluateCriteria e xs = Inr b" if "set xs = set cs" for xs
    using that assms(2) evaluateCriteria_error [of e xs] by (cases "evaluateCriteria e xs") force+
  show ?thesis using total [of cs] total [of ds] same evaluateCriteria_True [of e cs] evaluateCriteria_True [of e ds] by auto
qed

subsection \<open>The row of a check occurrence\<close>

lemma Split_dash: "CHR ''-'' \<notin> set a \<Longrightarrow> Split (CHR ''-'') (a @ CHR ''-'' # b) = a # Split (CHR ''-'') b"
  by (induction a) (auto split: list.splits)

lemma Split_none: "CHR ''-'' \<notin> set a \<Longrightarrow> Split (CHR ''-'') a = [a]"
  by (induction a) auto

lemma is_hex_dash: "list_all is_hex s \<Longrightarrow> CHR ''-'' \<notin> set s"
proof -
  have "\<not> is_hex (CHR ''-'')" by (simp add: is_hex_def)
  then show "list_all is_hex s \<Longrightarrow> CHR ''-'' \<notin> set s" by (auto simp: list_all_iff)
qed

lemma hex_parts: "list_all is_hex s \<Longrightarrow> list_all is_hex (take n s)" "list_all is_hex s \<Longrightarrow> list_all is_hex (drop n s)"
  by (auto simp: list_all_iff dest: in_set_takeD in_set_dropD)

lemma occurrenceRunID_uuid:
  assumes "length (if length key \<noteq> 64 then sha key else key) = 64" and "list_all is_hex (if length key \<noteq> 64 then sha key else key)"
  shows "is_uuid (occurrenceRunID sha key)"
proof -
  define d where "d = (if length key \<noteq> 64 then sha key else key)"
  have d: "length d = 64" "list_all is_hex d" using assms by (simp_all add: d_def)
  have run: "occurrenceRunID sha key = take 8 d @ CHR ''-'' # take 4 (drop 8 d) @ CHR ''-'' # take 4 (drop 12 d) @ CHR ''-'' #
      take 4 (drop 16 d) @ CHR ''-'' # take 12 (drop 20 d)"
    by (simp add: occurrenceRunID_def d_def Let_def)
  have "Split (CHR ''-'') (occurrenceRunID sha key)
      = [take 8 d, take 4 (drop 8 d), take 4 (drop 12 d), take 4 (drop 16 d), take 12 (drop 20 d)]"
    unfolding run by (simp add: Split_dash Split_none is_hex_dash hex_parts d(2))
  then show ?thesis using d by (simp add: is_uuid_def hex_parts)
qed

text \<open>Digests that agree on their first half give the same row: 128 of the 256 bits identify an occurrence.\<close>

lemma occurrenceRunID_inject:
  assumes "length a = 64" "length b = 64" "list_all is_hex a" "list_all is_hex b" and "occurrenceRunID sha a = occurrenceRunID sha b"
  shows "take 32 a = take 32 b"
proof -
  have parts: "take 32 d = take 8 d @ take 4 (drop 8 d) @ take 4 (drop 12 d) @ take 4 (drop 16 d) @ take 12 (drop 20 d)" for d :: string
    by (simp add: take_add [symmetric] flip: drop_drop append_assoc)
  have "length (take 8 a) = length (take 8 b)" "length (take 4 (drop 8 a)) = length (take 4 (drop 8 b))"
    "length (take 4 (drop 12 a)) = length (take 4 (drop 12 b))" "length (take 4 (drop 16 a)) = length (take 4 (drop 16 b))"
    using assms by simp_all
  with assms(5) show ?thesis unfolding parts using assms(1,2) by (simp add: occurrenceRunID_def Let_def)
qed

subsection \<open>What recording keeps\<close>

text \<open>The interface of the recorder to the tables it writes.\<close>

locale observation_store = service R env S other
  for R :: "ledger \<Rightarrow> ledger \<Rightarrow> bool" and env :: env and S :: "monitor \<Rightarrow> monitor \<Rightarrow> bool" and other :: "nat \<Rightarrow> monitor \<Rightarrow> monitor" +
  assumes record_run: "io_keeps S (CheckRun_RecordCompleted now t req)"
    and increment: "io_keeps S (IncrementSnapshot t i start g)"
begin

lemma observe_reads:
  "io_keeps S (CheckRepository_GetByID t i)" "io_keeps S (SLIRepository_FindBySourceUID t u)" "io_keeps R (TerminalOutcome_read t run)"
  unfolding CheckRepository_GetByID_def SLIRepository_FindBySourceUID_def TerminalOutcome_read_def
  by (auto intro!: tx_keeps [OF S_refl] io_read_keeps [OF S_refl] io_keeps_bind [OF S_trans] io_keeps_pure [OF S_refl]
      guarantee.keeps_transaction guarantee.keeps_bind guarantee.keeps_get guarantee.keeps_pure split: option.splits prod.splits)

lemma RecordTerminalPhase_keeps: "io_keeps (on_service R S) (RecordTerminalPhase x env other t i p)"
  unfolding RecordTerminalPhase_def recordCheckRun_def checkType_def recordSLIEvents_def record_sli_event_def
  by (auto intro!: sintros siter world db store clock record_run increment observe_reads split: sum.splits option.splits)

end

lemma observation_evolves:
  assumes "\<And>n l. ledger_evolves l (en_other env n l)" and "\<And>n s. monitor_kept s (other n s)"
  shows "observation_store ledger_evolves env monitor_kept other"
  using assms ledger_evolves_refl ledger_evolves_trans monitor_kept_refl monitor_kept_trans
  by unfold_locales (auto intro: wf_check_run wf_increment)

interpretation quiet_observation: observation_store ledger_evolves "quiet now" monitor_kept "\<lambda>_ s. s" for now
  using ledger_evolves_refl
  by (intro observation_evolves) (simp_all add: quiet_def reflp_def monitor_kept_def)

end
