(* ===== verification/Slo_Evaluate.thy ===== *)
theory Slo_Evaluate
  imports Check_Observe
begin

section \<open>Evaluating objectives\<close>

text \<open>
  \<open>internal/core/app/sloevaluate/evaluator.go\<close>: from the counts of the current window to an error budget, a burn rate and the alerts on it.
  Metrics and logging are not modelled.
\<close>

definition has_alert :: "string \<Rightarrow> AlertRow list \<Rightarrow> bool" where
  "has_alert alertType alerts \<longleftrightarrow> (\<exists>a \<in> set alerts. al_Type a = alertType)"

text \<open>The step for one threshold, written out twice in the code.\<close>

definition manage_alert ::
    "(float64 \<Rightarrow> rat) \<Rightarrow> env \<Rightarrow> (nat \<Rightarrow> monitor \<Rightarrow> monitor) \<Rightarrow> string \<Rightarrow> int \<Rightarrow> Budget \<Rightarrow> string \<Rightarrow> float64 \<Rightarrow> bool
     \<Rightarrow> (('k, monitor) sworld, unit) io" where
  "manage_alert dec env other tenantID sloID budget alertType threshold active =
     (if threshold \<le> bu_BurnRate budget then
        (if \<not> active then io_wrap ''create burn alert'' (db_call env other (\<lambda>_.
             BudgetAlert_Create dec tenantID sloID (bu_ID budget) alertType (bu_BurnRate budget)))
         else io_return ())
      else if active then io_wrap ''resolve burn alert'' (db_call env other (\<lambda>_. ResolveBySLOAndType tenantID sloID alertType))
      else io_return ())"

definition manageAlerts ::
    "(float64 \<Rightarrow> rat) \<Rightarrow> env \<Rightarrow> (nat \<Rightarrow> monitor \<Rightarrow> monitor) \<Rightarrow> string \<Rightarrow> SLOSnapshot \<Rightarrow> Budget \<Rightarrow> (('k, monitor) sworld, unit) io" where
  "manageAlerts dec env other tenantID s budget =
     io_bind (io_wrap ''get active alerts'' (db_call env other (\<lambda>_. GetActiveBySLO tenantID (so_ID s)))) (\<lambda>existing.
     io_bind (manage_alert dec env other tenantID (so_ID s) budget ''fast_burn'' (so_AlertFastBurnRate s) (has_alert ''fast_burn'' existing)) (\<lambda>_.
     manage_alert dec env other tenantID (so_ID s) budget ''slow_burn'' (so_AlertSlowBurnRate s) (has_alert ''slow_burn'' existing)))"

definition empty_budget :: "string \<Rightarrow> SLOSnapshot \<Rightarrow> Window \<Rightarrow> Budget" where
  "empty_budget tenantID s window = \<lparr>bu_ID = 0, bu_TenantID = tenantID, bu_SLOID = so_ID s, bu_WindowStart = wn_Start window,
     bu_WindowEnd = wn_End window, bu_BudgetTotal = 0, bu_BudgetConsumed = 0, bu_BudgetRemaining = 0, bu_BurnRate = 0,
     bu_Status = BudgetHealthy, bu_Version = 0\<rparr>"

definition window_budget :: "string \<Rightarrow> SLOSnapshot \<Rightarrow> Window \<Rightarrow> WindowAggregate \<Rightarrow> time \<Rightarrow> Budget" where
  "window_budget tenantID s window aggregate now =
     (let events = float64_of_int (wa_TotalEventsCount aggregate);
          sliValue = fdiv (float64_of_int (wa_GoodEventsCount aggregate)) events;
          budgetTotal = fmul (fsub 1 (so_Target s)) events;
          budgetConsumed = fmul (fsub 1 sliValue) events;
          budgetRemaining = fsub budgetTotal budgetConsumed in
      (empty_budget tenantID s window)\<lparr>bu_BudgetTotal := budgetTotal, bu_BudgetConsumed := budgetConsumed,
         bu_BudgetRemaining := budgetRemaining,
         bu_BurnRate := CalculateBurnRate budgetTotal budgetConsumed (Window_Elapsed window now) (Window_Duration window),
         bu_Status := BudgetStatus budgetRemaining budgetTotal\<rparr>)"

definition evaluateSLO ::
    "(float64 \<Rightarrow> rat) \<Rightarrow> env \<Rightarrow> (nat \<Rightarrow> monitor \<Rightarrow> monitor) \<Rightarrow> string \<Rightarrow> SLOSnapshot \<Rightarrow> (('k, monitor) sworld, unit) io" where
  "evaluateSLO dec env other tenantID s =
     io_bind (on_world (now_call env)) (\<lambda>now.
     let window = CalculateWindow (so_WindowType s) (so_WindowDuration s) now in
     io_bind (io_wrap ''aggregate window'' (db_call env other (\<lambda>_.
        AggregateWindow tenantID (so_SLIID s) (wn_Start window) (wn_End window)))) (\<lambda>aggregate.
     if wa_TotalEventsCount aggregate = 0 then
       io_bind (io_wrap ''upsert budget'' (db_call env other (\<lambda>_.
          BudgetRepository_Upsert dec tenantID (empty_budget tenantID s window)))) (\<lambda>_. io_return ())
     else
       io_bind (io_wrap ''upsert budget'' (db_call env other (\<lambda>_.
          BudgetRepository_Upsert dec tenantID (window_budget tenantID s window aggregate now)))) (\<lambda>budget.
       io_wrap ''manage alerts'' (manageAlerts dec env other tenantID s budget))))"

definition EvaluateAll ::
    "(float64 \<Rightarrow> rat) \<Rightarrow> env \<Rightarrow> (nat \<Rightarrow> monitor \<Rightarrow> monitor) \<Rightarrow> string \<Rightarrow> (('k, monitor) sworld, unit) io" where
  "EvaluateAll dec env other tenantID =
     io_bind (io_wrap ''list active slos'' (db_call env other (\<lambda>_. SLORepository_ListActive tenantID))) (\<lambda>slos.
     io_iter (\<lambda>s. io_bind (io_try (evaluateSLO dec env other tenantID s)) (\<lambda>_. io_return ())) slos)"

definition EvaluateSLO ::
    "(float64 \<Rightarrow> rat) \<Rightarrow> env \<Rightarrow> (nat \<Rightarrow> monitor \<Rightarrow> monitor) \<Rightarrow> string \<Rightarrow> int \<Rightarrow> (('k, monitor) sworld, unit) io" where
  "EvaluateSLO dec env other tenantID sloID =
     io_bind (io_wrap ''list active slos'' (db_call env other (\<lambda>_. SLORepository_ListActive tenantID))) (\<lambda>slos.
     case find (\<lambda>s. so_ID s = sloID) slos of
       Some s \<Rightarrow> evaluateSLO dec env other tenantID s
     | None \<Rightarrow> io_fail (Errorf ''slo not found or not active''))"

text \<open>\<open>forEachActiveTenant\<close> of \<open>cmd/scheduler/main.go\<close>: one tenant's failure does not stop the others.\<close>

definition forEachActiveTenant :: "string list result \<Rightarrow> (string \<Rightarrow> ('w, unit) io) \<Rightarrow> ('w, unit) io" where
  "forEachActiveTenant tenants f =
     (case tenants of
        Inl _ \<Rightarrow> io_return ()
      | Inr ids \<Rightarrow> io_iter (\<lambda>i. io_bind (io_try (f i)) (\<lambda>_. io_return ())) ids)"

subsection \<open>The budget\<close>

lemma float64_of_int_nonneg: "0 \<le> n \<Longrightarrow> 0 \<le> float64_of_int n"
  by (simp add: float64_of_int_def f64_nonneg)

lemma float64_of_int_mono: "m \<le> n \<Longrightarrow> float64_of_int m \<le> float64_of_int n"
  by (simp add: float64_of_int_def f64_mono)

lemma float64_of_int_pos: "0 < n \<Longrightarrow> 1 \<le> float64_of_int n"
  using float64_of_int_mono [of 1 n] by (simp add: float64_of_int_def)

lemma sliValue_range:
  assumes "0 \<le> ok" "ok \<le> events" "0 < events"
  shows "0 \<le> fdiv (float64_of_int ok) (float64_of_int events)" "fdiv (float64_of_int ok) (float64_of_int events) \<le> 1"
proof -
  have pos: "0 < float64_of_int events" using float64_of_int_pos [OF assms(3)] by linarith
  show "0 \<le> fdiv (float64_of_int ok) (float64_of_int events)"
    using pos float64_of_int_nonneg [OF assms(1)] by (simp add: fdiv_def f64_nonneg)
  have "float64_of_int ok / float64_of_int events \<le> 1" using pos float64_of_int_mono [OF assms(2)] by simp
  then show "fdiv (float64_of_int ok) (float64_of_int events) \<le> 1" unfolding fdiv_def by (rule f64_le_1)
qed

lemma CalculateBurnRate_nonneg: "0 \<le> consumed \<Longrightarrow> 0 \<le> CalculateBurnRate allowed consumed elapsed duration"
  by (auto simp: CalculateBurnRate_def fdiv_def Let_def intro!: f64_nonneg divide_nonneg_nonneg float64_of_int_nonneg)

lemma f64_double_nonneg: "0 \<le> f64 x \<Longrightarrow> 0 \<le> y \<Longrightarrow> 0 \<le> fmul (f64 x) y"
  by (simp add: fmul_def f64_nonneg)

lemma window_budget_ranges:
  assumes "0 \<le> wa_GoodEventsCount agg" "wa_GoodEventsCount agg \<le> wa_TotalEventsCount agg" "0 < wa_TotalEventsCount agg"
    and "so_Target s \<le> 1"
  shows "0 \<le> bu_BudgetTotal (window_budget t s w agg now)" "0 \<le> bu_BudgetConsumed (window_budget t s w agg now)"
    "0 \<le> bu_BurnRate (window_budget t s w agg now)"
proof -
  let ?n = "float64_of_int (wa_TotalEventsCount agg)" and ?v = "fdiv (float64_of_int (wa_GoodEventsCount agg)) (float64_of_int (wa_TotalEventsCount agg))"
  have n: "0 \<le> ?n" using assms(3) by (simp add: float64_of_int_nonneg)
  have "0 \<le> fsub 1 (so_Target s)" "0 \<le> fsub 1 ?v"
    using assms(4) sliValue_range [OF assms(1-3)] by (simp_all add: fsub_def f64_nonneg)
  with n show allowed: "0 \<le> bu_BudgetTotal (window_budget t s w agg now)" and consumed: "0 \<le> bu_BudgetConsumed (window_budget t s w agg now)"
    by (simp_all add: window_budget_def Let_def fmul_def f64_nonneg)
  from consumed show "0 \<le> bu_BurnRate (window_budget t s w agg now)"
    by (simp add: window_budget_def Let_def CalculateBurnRate_nonneg)
qed

text \<open>A target of one leaves no budget: whatever the events, the rate is zero and the status healthy.\<close>

lemma full_target_budget:
  assumes "so_Target s = 1"
  shows "bu_BudgetTotal (window_budget t s w agg now) = 0" "bu_BurnRate (window_budget t s w agg now) = 0"
    "bu_Status (window_budget t s w agg now) = BudgetHealthy"
  using assms by (simp_all add: window_budget_def Let_def fsub_def fmul_def CalculateBurnRate_def BudgetStatus_def)

subsection \<open>What an evaluation keeps\<close>

text \<open>The interface of the evaluator to the tables it writes.\<close>

locale evaluation_store = service R env S other
  for R :: "ledger \<Rightarrow> ledger \<Rightarrow> bool" and env :: env and S :: "monitor \<Rightarrow> monitor \<Rightarrow> bool" and other :: "nat \<Rightarrow> monitor \<Rightarrow> monitor" +
  fixes dec :: "float64 \<Rightarrow> rat"
  assumes upsert: "io_keeps S (BudgetRepository_Upsert dec t b)"
    and alert: "io_keeps S (BudgetAlert_Create dec t i b' ty r)"
    and resolve: "io_keeps S (ResolveBySLOAndType t i ty)"
begin

lemma evaluation_reads:
  "io_keeps S (SLORepository_ListActive t)" "io_keeps S (AggregateWindow t i a b)" "io_keeps S (GetActiveBySLO t i)"
  unfolding SLORepository_ListActive_def AggregateWindow_def GetActiveBySLO_def
  by (auto intro!: tx_keeps [OF S_refl] io_read_keeps [OF S_refl])

lemma evaluateSLO_keeps: "io_keeps (on_service R S) (evaluateSLO dec env other t s)"
  unfolding evaluateSLO_def manageAlerts_def manage_alert_def Let_def
  by (auto intro!: sintros world db clock upsert alert resolve evaluation_reads)

lemma EvaluateAll_keeps: "io_keeps (on_service R S) (EvaluateAll dec env other t)"
  unfolding EvaluateAll_def by (intro sintros siter db evaluation_reads evaluateSLO_keeps)

lemma EvaluateSLO_keeps: "io_keeps (on_service R S) (EvaluateSLO dec env other t i)"
  unfolding EvaluateSLO_def by (auto intro!: sintros db evaluation_reads evaluateSLO_keeps split: option.splits)

lemma evaluation_round_keeps: "io_keeps (on_service R S) (forEachActiveTenant ids (EvaluateAll dec env other))"
  unfolding forEachActiveTenant_def by (cases ids) (auto intro!: sintros siter EvaluateAll_keeps)

end

lemma evaluation_evolves:
  assumes "\<And>n l. ledger_evolves l (en_other env n l)" and "\<And>n s. monitor_kept s (other n s)"
  shows "evaluation_store ledger_evolves env monitor_kept other dec"
  using assms ledger_evolves_refl ledger_evolves_trans monitor_kept_refl monitor_kept_trans
  by unfold_locales (auto intro: wf_upsert wf_alert_create wf_alert_resolve)

interpretation quiet_evaluation: evaluation_store ledger_evolves "quiet now" monitor_kept "\<lambda>_ s. s" dec for now dec
  using ledger_evolves_refl
  by (intro evaluation_evolves) (simp_all add: quiet_def reflp_def monitor_kept_def)

end
