(* ===== verification/Check_Firing.thy ===== *)
theory Check_Firing
  imports Service_Hoare Slo_Evaluate
begin

section \<open>What a firing does\<close>

text \<open>
  A due check, fired any number of times under any faults, gets at most one run: the revision of its version is unique and the occurrence key is derived from
  it and the due instant. A firing that succeeds moved the cursor past the instant it fired at, unless the occurrence was already finished: then nothing
  moves, and the check stays due.
\<close>

subsection \<open>At most one run\<close>

lemma Publish_frame: "hoare (\<lambda>w. P (w_ledger w)) (Publish client run) (\<lambda>_ w. P (w_ledger w)) (\<lambda>w. P (w_ledger w))"
  by (rule hoare_frame) (simp add: Publish_ledger)

lemma now_frame: "hoare (\<lambda>w. P (w_ledger w)) (now_call env) (\<lambda>_ w. P (w_ledger w)) (\<lambda>w. P (w_ledger w))"
  by (rule hoare_frame) (auto simp: now_call_def)

lemma check_repair_frame:
  assumes "undisturbed env"
  shows "hoare (\<lambda>w. P (w_ledger w)) (check_repairOpenRuns env uc sc uid) (\<lambda>_ w. P (w_ledger w)) (\<lambda>w. P (w_ledger w))"
  unfolding check_repairOpenRuns_def
proof (rule hoare_bind, rule hoare_wrap)
  show "hoare (\<lambda>w. P (w_ledger w)) (store_call env (\<lambda>_. OpenRuns (sp_TenantID sc) uid)) (\<lambda>_ w. P (w_ledger w)) (\<lambda>w. P (w_ledger w))"
    using assms by (intro hoare_store) (auto dest!: OpenRuns_unchanged)
qed (intro hoare_iter hoare_wrap Publish_frame)

lemma ApplyCheck_one_more:
  fixes c :: CheckSnapshot and t :: string and key :: "int \<Rightarrow> string" and n :: nat
  assumes "undisturbed env"
  defines "J \<equiv> one_more t SourceModeCheck (CheckSourceUID (ck_ID c)) (ck_Version c) key n"
  shows "hoare (\<lambda>w. J (w_ledger w)) (ApplyCheck lb x env c ns t actor)
    (\<lambda>i w. J (w_ledger w) \<and> has_revision t SourceModeCheck (CheckSourceUID (ck_ID c)) (ck_Version c) i (w_ledger w)) (\<lambda>w. J (w_ledger w))"
proof -
  have projected: "hoare (\<lambda>w. J (w_ledger w)) (store_call env (\<lambda>_. ApplyRevisionForTenant (ex_jsonb x) t rv))
      (\<lambda>i w. J (w_ledger w) \<and> has_revision t SourceModeCheck (CheckSourceUID (ck_ID c)) (ck_Version c) i (w_ledger w)) (\<lambda>w. J (w_ledger w))"
    if rv: "Revision_New (ex_sha x) \<lparr>id_SourceMode = SourceModeCheck, id_SourceUID = CheckSourceUID (ck_ID c), id_Namespace = ns,
        id_Name = CheckSourceUID (ck_ID c)\<rparr> (ck_Version c) spec actor grp now = Inr rv" for rv spec grp now
  proof -
    have "id_SourceMode (rev_Identity rv) = SourceModeCheck" "id_SourceUID (rev_Identity rv) = CheckSourceUID (ck_ID c)"
      "rev_Generation rv = ck_Version c" using rv by (auto simp: Revision_New_def split: if_splits)
    then show ?thesis using one_more_apply [where rv = rv and t = t and key = key and n = n] assms(1)
      by (intro hoare_store) (auto simp: J_def)
  qed
  have step: "hoare (\<lambda>w. J (w_ledger w)) (io_bind (io_lift (Revision_New (ex_sha x)
            \<lparr>id_SourceMode = SourceModeCheck, id_SourceUID = CheckSourceUID (ck_ID c),
             id_Namespace = ns, id_Name = CheckSourceUID (ck_ID c)\<rparr>
            (ck_Version c) spec actor grp now)) (\<lambda>rv.
        store_call env (\<lambda>_. ApplyRevisionForTenant (ex_jsonb x) t rv)))
      (\<lambda>i w. J (w_ledger w) \<and> has_revision t SourceModeCheck (CheckSourceUID (ck_ID c)) (ck_Version c) i (w_ledger w)) (\<lambda>w. J (w_ledger w))"
    for spec grp now
    by (cases "Revision_New (ex_sha x) \<lparr>id_SourceMode = SourceModeCheck, id_SourceUID = CheckSourceUID (ck_ID c), id_Namespace = ns,
        id_Name = CheckSourceUID (ck_ID c)\<rparr> (ck_Version c) spec actor grp now") (auto intro: hoare_fail dest!: projected)
  have "hoare (\<lambda>w. J (w_ledger w)) (io_lift r) (\<lambda>_ w. J (w_ledger w)) (\<lambda>w. J (w_ledger w))" for r :: "ScheduledJobSpec result"
    by (rule hoare_lift)
  from hoare_bind [OF this, OF hoare_bind [OF now_frame step]] show ?thesis
    unfolding ApplyCheck_def by (auto intro!: hoare_fail)
qed

lemma fireCheck_one_more:
  fixes c :: CheckSnapshot and sc :: Scope and x :: Ext and due :: time and n :: nat
  assumes "undisturbed env" and "ck_NextRunAt c = Some due"
  defines "J \<equiv> one_more (sp_TenantID sc) SourceModeCheck (CheckSourceUID (ck_ID c)) (ck_Version c)
      (\<lambda>i. OccurrenceKey (ex_sha x) (ex_rfc x) (CheckSourceUID (ck_ID c)) i due) n"
  shows "hoare (\<lambda>v. J (w_ledger (sw_world v))) (fireCheck lb x env other uc sc c now)
    (\<lambda>_ v. J (w_ledger (sw_world v))) (\<lambda>v. J (w_ledger (sw_world v)))"
proof -
  let ?I = "\<lambda>v. J (w_ledger (sw_world v))" and ?uid = "CheckSourceUID (ck_ID c)" and ?t = "sp_TenantID sc"
  let ?key = "\<lambda>i. OccurrenceKey (ex_sha x) (ex_rfc x) (CheckSourceUID (ck_ID c)) i due"
  have create: "hoare (\<lambda>v. J (w_ledger (sw_world v)) \<and> has_revision ?t SourceModeCheck ?uid (ck_Version c) i (w_ledger (sw_world v)))
     (on_world (store_call env (\<lambda>_. CreateOccurrenceForTenant ?t (check_run ?uid i (?key i) due) (ck_RetryLimit c + 1) ActorCheckScheduler)))
     (\<lambda>_. ?I) ?I" for i
  proof (intro hoare_on_world [where P = "\<lambda>l. J l \<and> has_revision ?t SourceModeCheck ?uid (ck_Version c) i l"] hoare_store [OF assms(1)])
    fix l r l' assume l: "J l \<and> has_revision ?t SourceModeCheck ?uid (ck_Version c) i l"
      and run: "CreateOccurrenceForTenant ?t (check_run ?uid i (?key i) due) (ck_RetryLimit c + 1) ActorCheckScheduler l = (r, l')"
    have "jr_SourceUID (check_run ?uid i (?key i) due) = ?uid" "jr_OccurrenceKey (check_run ?uid i (?key i) due) = ?key i"
      by (simp_all add: check_run_def)
    with l have "J l'" unfolding J_def by (blast intro: one_more_create [OF _ _ _ _ run])
    then show "J l' \<and> (\<forall>a. r = Inr a \<longrightarrow> J l')" by simp
  qed simp
  have tail: "hoare ?I (if \<not> isNew \<and> Terminal (sr_Phase state) then io_return 0
       else io_bind (io_wrap a (on_world (Publish (tk_publisher uc) obj))) (\<lambda>_.
            io_bind (io_wrap b (db_call env other (\<lambda>_. CheckRepository_UpdateNextRunAt ?t (ck_ID c) (nextRunAt lb c now)))) (\<lambda>_.
            io_return (if isNew then 1 else 0)))) (\<lambda>_. ?I) ?I" for isNew state obj a b
  proof -
    have db: "hoare ?I (db_call env other op) (\<lambda>_. ?I) ?I" for op :: "time \<Rightarrow> (monitor, unit) io"
      by (rule hoare_frame) (simp add: db_call_ledger)
    have "hoare ?I (on_world (Publish (tk_publisher uc) obj)) (\<lambda>_. ?I) ?I" by (rule hoare_on_world [OF Publish_frame])
    then show ?thesis by (auto intro!: hoare_return hoare_bind [OF hoare_wrap] db)
  qed
  have rest: "hoare (\<lambda>v. J (w_ledger (sw_world v)) \<and> has_revision ?t SourceModeCheck ?uid (ck_Version c) i (w_ledger (sw_world v)))
      (io_bind (io_wrap d (on_world (store_call env (\<lambda>_. CreateOccurrenceForTenant ?t (check_run ?uid i (?key i) due) (ck_RetryLimit c + 1)
          ActorCheckScheduler)))) (\<lambda>(state, isNew).
       if \<not> isNew \<and> Terminal (sr_Phase state) then io_return 0
       else io_bind (io_wrap a (on_world (Publish (tk_publisher uc) (check_jobRunObject uc sc ?uid state (?key i) due)))) (\<lambda>_.
            io_bind (io_wrap b (db_call env other (\<lambda>_. CheckRepository_UpdateNextRunAt ?t (ck_ID c) (nextRunAt lb c now)))) (\<lambda>_.
            io_return (if isNew then 1 else 0))))) (\<lambda>_. ?I) ?I" for i a b d
    using tail by (intro hoare_bind [OF hoare_wrap [OF create]]) (simp only: case_prod_beta)
  have repaired: "hoare ?I (on_world (check_repairOpenRuns env uc sc ?uid)) (\<lambda>_. ?I) ?I"
    by (rule hoare_on_world [OF check_repair_frame [OF assms(1)]])
  have projected: "hoare ?I (on_world (ApplyCheck lb x env c (sp_Namespace sc) ?t ActorCheckScheduler))
      (\<lambda>i v. J (w_ledger (sw_world v)) \<and> has_revision ?t SourceModeCheck ?uid (ck_Version c) i (w_ledger (sw_world v))) ?I"
    unfolding J_def by (rule hoare_on_world [OF ApplyCheck_one_more [OF assms(1)]])
  show ?thesis unfolding fireCheck_def Let_def assms(2) option.case
    by (rule hoare_bind [OF repaired hoare_bind [OF hoare_wrap [OF projected] rest]])
qed

text \<open>Fired again and again, whatever happened the times before.\<close>

lemma firings_one_more:
  assumes "undisturbed env" and "ck_NextRunAt c = Some due" and "ledger_wf (w_ledger (sw_world v))"
    and "io_iter (\<lambda>now. io_bind (io_try (fireCheck lb x env other uc sc c now)) (\<lambda>_. io_return ())) nows v = (r, u)"
  shows "length (runs_of (CheckSourceUID (ck_ID c)) (w_ledger (sw_world u)))
    \<le> Suc (length (runs_of (CheckSourceUID (ck_ID c)) (w_ledger (sw_world v))))"
proof -
  let ?n = "length (runs_of (CheckSourceUID (ck_ID c)) (w_ledger (sw_world v)))"
  let ?J = "\<lambda>v. one_more (sp_TenantID sc) SourceModeCheck (CheckSourceUID (ck_ID c)) (ck_Version c)
      (\<lambda>i. OccurrenceKey (ex_sha x) (ex_rfc x) (CheckSourceUID (ck_ID c)) i due) ?n (w_ledger (sw_world v))"
  have "hoare ?J (io_bind (io_try (fireCheck lb x env other uc sc c now)) (\<lambda>_. io_return ())) (\<lambda>_. ?J) ?J" for now
    by (rule hoare_bind [OF hoare_try [OF fireCheck_one_more [OF assms(1,2)]]]) (auto intro!: hoare_return split: sum.splits)
  then have "hoare ?J (io_iter (\<lambda>now. io_bind (io_try (fireCheck lb x env other uc sc c now)) (\<lambda>_. io_return ())) nows) (\<lambda>_. ?J) ?J"
    by (intro hoare_iter)
  from hoareD [OF this one_more_start [OF assms(3)] assms(4)] show ?thesis
    by (auto split: sum.splits dest: one_more_bound)
qed

subsection \<open>The cursor\<close>

text \<open>How the next activation follows the instant of the firing.\<close>

lemma nextRunAt_after:
  assumes "\<And>e sched. ck_CronExpr c = Some e \<Longrightarrow> lb_cron lb e = Inr sched \<Longrightarrow> now < sched DefaultTimezone now"
    and "\<And>n. ck_IntervalSec c = Some n \<Longrightarrow> 1 \<le> n \<and> int4 n"
  shows "now < nextRunAt lb c now"
proof -
  have "now < now + int64 (n * second_ns)" if "ck_IntervalSec c = Some n" for n
  proof -
    have n: "1 \<le> n" "n < 2 ^ 31" using assms(2) [OF that] by (auto simp: int4_def)
    then have "1 * second_ns \<le> n * second_ns" "n * second_ns < 2 ^ 31 * second_ns" by (auto intro: mult_right_mono mult_strict_right_mono)
    then have "int64 (n * second_ns) = n * second_ns" by (intro int64_id) auto
    then show ?thesis using n by simp
  qed
  then show ?thesis using assms(1)
    by (auto simp: nextRunAt_def split: option.splits sum.splits bool.splits)
qed

lemma UpdateNextRunAt_store:
  assumes "CheckRepository_UpdateNextRunAt t i due s = (Inr u, s')"
  shows "s' = s\<lparr>mo_checks := map (\<lambda>row. if live_check t i row
      then row\<lparr>kr_snap := (kr_snap row)\<lparr>ck_NextRunAt := Some due, ck_UpdatedAt := mo_clock s\<rparr>\<rparr> else row) (mo_checks s)\<rparr>"
  using assms unfolding CheckRepository_UpdateNextRunAt_def updateCheckSQL_def
  by (auto simp: io_simps split: option.splits prod.splits sum.splits)

text \<open>What a firing that returns did.\<close>

lemma fireCheck_InrD:
  assumes quiet: "undisturbed env" "\<And>n s. other n s = s" and due: "ck_NextRunAt c = Some due"
    and fire: "fireCheck lb x env other uc sc c now v = (Inr k, u)"
  obtains i st isNew l m where "CreateOccurrenceForTenant (sp_TenantID sc) (check_run (CheckSourceUID (ck_ID c)) i
        (OccurrenceKey (ex_sha x) (ex_rfc x) (CheckSourceUID (ck_ID c)) i due) due) (ck_RetryLimit c + 1) ActorCheckScheduler l
      = (Inr (st, isNew), m)" and "w_ledger (sw_world u) = m" and "k = (if isNew then 1 else 0)"
    and "if \<not> isNew \<and> Terminal (sr_Phase st) then sw_store u = sw_store v
         else CheckRepository_UpdateNextRunAt (sp_TenantID sc) (ck_ID c) (nextRunAt lb c now) (sw_store v) = (Inr (), sw_store u)"
proof -
  let ?uid = "CheckSourceUID (ck_ID c)" and ?t = "sp_TenantID sc"
  let ?key = "\<lambda>i. OccurrenceKey (ex_sha x) (ex_rfc x) ?uid i due"
  from fire obtain i v1 v2 st isNew v3 where v1: "on_world (check_repairOpenRuns env uc sc ?uid) v = (Inr (), v1)"
    and v2: "on_world (ApplyCheck lb x env c (sp_Namespace sc) ?t ActorCheckScheduler) v1 = (Inr i, v2)"
    and v3: "on_world (store_call env (\<lambda>_.
             CreateOccurrenceForTenant ?t (check_run ?uid i (?key i) due) (ck_RetryLimit c + 1) ActorCheckScheduler)) v2 = (Inr (st, isNew), v3)"
    and tail: "(if \<not> isNew \<and> Terminal (sr_Phase st) then io_return 0
          else
            io_bind (io_wrap ''publish run'' (on_world (Publish (tk_publisher uc)
               (check_jobRunObject uc sc ?uid st (?key i) due)))) (\<lambda>_.
            io_bind (io_wrap ''advance next_run_at'' (db_call env other (\<lambda>_.
               CheckRepository_UpdateNextRunAt ?t (ck_ID c) (nextRunAt lb c now)))) (\<lambda>_.
            io_return (if isNew then 1 else 0)))) v3 = (Inr k, u)"
    unfolding fireCheck_def Let_def due option.case by (auto dest!: io_bind_InrD io_wrap_InrD)
  obtain w3 where "store_call env (\<lambda>_. CreateOccurrenceForTenant ?t (check_run ?uid i (?key i) due) (ck_RetryLimit c + 1) ActorCheckScheduler)
      (sw_world v2) = (Inr (st, isNew), w3)" "v3 = v2\<lparr>sw_world := w3\<rparr>"
    using v3 by (auto simp: on_world_def split: prod.splits)
  then have create: "CreateOccurrenceForTenant ?t (check_run ?uid i (?key i) due) (ck_RetryLimit c + 1) ActorCheckScheduler
      (w_ledger (sw_world v2)) = (Inr (st, isNew), w_ledger (sw_world v3))"
    using store_call_result [OF quiet(1)] by fastforce
  have store: "sw_store v3 = sw_store v" using on_world_store [OF v1] on_world_store [OF v2] on_world_store [OF v3] by simp
  show thesis
  proof (cases "\<not> isNew \<and> Terminal (sr_Phase st)")
    case True
    then have "u = v3" "k = 0" using tail by (auto simp: io_return_apply)
    with True store create show thesis by (intro that [OF create]) auto
  next
    case False
    with tail obtain a v4 where pub: "on_world (Publish (tk_publisher uc) (check_jobRunObject uc sc ?uid st (?key i) due)) v3 = (Inr a, v4)"
      and cur: "db_call env other (\<lambda>_. CheckRepository_UpdateNextRunAt ?t (ck_ID c) (nextRunAt lb c now)) v4 = (Inr (), u)"
      and k: "k = (if isNew then 1 else 0)"
      by (auto simp: io_return_apply dest!: io_bind_InrD io_wrap_InrD split: if_splits)
    have "w_ledger (sw_world v4) = w_ledger (sw_world v3)"
      using pub by (auto simp: on_world_def dest!: Publish_ledger split: prod.splits)
    then have "w_ledger (sw_world u) = w_ledger (sw_world v3)" using db_call_ledger [OF cur] by simp
    moreover have "CheckRepository_UpdateNextRunAt ?t (ck_ID c) (nextRunAt lb c now) (sw_store v) = (Inr (), sw_store u)"
      using db_call_InrD [OF quiet(2) cur] on_world_store [OF pub] store by auto
    ultimately show thesis using False k by (intro that [OF create]) auto
  qed
qed

subsection \<open>Admission\<close>

text \<open>What validation accepts, the table stores and the projector renders, provided the numbers fit the columns.\<close>

lemma normalizeSchedule_ok:
  assumes "normalizeSchedule lb now loc ty cron iv = Inr (c, i, nxt)"
  shows "ty = ScheduleTypeCron \<and> i = None \<and> (\<exists>e. c = Some e \<and> TrimSpace e \<noteq> [])
       \<or> ty = ScheduleTypeInterval \<and> c = None \<and> (\<exists>n. i = Some n \<and> 1 \<le> n)"
  using assms
  by (auto simp: normalizeSchedule_def Let_def MinimumIntervalSec_def split: if_splits option.splits sum.splits)

lemma Check_NormalizeCreate_ok:
  assumes "Check_NormalizeCreate lb now inp = Inr spec"
  shows "cks_CheckType spec = CheckTypeHTTPHealth" "\<exists>p. NormalizeProbeConfig lb (cks_CheckConfig spec) = Inr p"
    "cks_ScheduleType spec = ScheduleTypeCron \<and> cks_IntervalSec spec = None \<and> (\<exists>e. cks_CronExpr spec = Some e \<and> TrimSpace e \<noteq> [])
     \<or> cks_ScheduleType spec = ScheduleTypeInterval \<and> cks_CronExpr spec = None \<and> (\<exists>n. cks_IntervalSec spec = Some n \<and> 1 \<le> n)"
    "1 \<le> cks_TimeoutSec spec" "0 \<le> cks_RetryLimit spec" "0 \<le> cks_Priority spec" "cks_TenantID spec \<noteq> []"
    "\<exists>t. cks_NextRunAt spec = Some t"
proof -
  from assms obtain name desc ten ty p rules sty tz tmo ret pri cron iv nxt where
      ten: "normalizeTenantID (cki_TenantID inp) = Inr ten" and ty: "normalizeCheckType (cki_CheckType inp) = Inr ty"
    and probe: "(if ty = CheckTypeHTTPHealth then rbind (NormalizeProbeConfig lb (normalizeJSONB (cki_CheckConfig inp))) (\<lambda>_. Inr ()) else Inr ()) = Inr p"
    and tmo: "normalizeTimeoutSec (cki_TimeoutSec inp) = Inr tmo" and ret: "normalizeRetryLimit (cki_RetryLimit inp) = Inr ret"
    and pri: "normalizePriority (cki_Priority inp) = Inr pri"
    and sched: "normalizeSchedule lb now tz sty (cki_CronExpr inp) (cki_IntervalSec inp) = Inr (cron, iv, nxt)"
    and spec: "spec = \<lparr>cks_Name = name, cks_Description = desc, cks_TenantID = ten,
          cks_ResourceGroupID = TrimSpace (cki_ResourceGroupID inp), cks_CheckType = ty,
          cks_CheckConfig = normalizeJSONB (cki_CheckConfig inp), cks_AssertionRules = rules, cks_ScheduleType = sty,
          cks_CronExpr = cron, cks_IntervalSec = iv, cks_Timezone = tz,
          cks_TimeoutSec = tmo, cks_RetryLimit = ret, cks_Priority = pri,
          cks_Labels = normalizeJSONB (cki_Labels inp), cks_NextRunAt = Some nxt\<rparr>"
    unfolding Check_NormalizeCreate_def Let_def by (auto dest!: rbind_InrD)
  have type: "ty = CheckTypeHTTPHealth" using ty by (auto simp: normalizeCheckType_def isOneOf_def Let_def split: if_splits)
  then show "cks_CheckType spec = CheckTypeHTTPHealth" by (simp add: spec)
  show "\<exists>p. NormalizeProbeConfig lb (cks_CheckConfig spec) = Inr p" using probe type by (auto simp: spec dest!: rbind_InrD)
  show "cks_ScheduleType spec = ScheduleTypeCron \<and> cks_IntervalSec spec = None \<and> (\<exists>e. cks_CronExpr spec = Some e \<and> TrimSpace e \<noteq> [])
     \<or> cks_ScheduleType spec = ScheduleTypeInterval \<and> cks_CronExpr spec = None \<and> (\<exists>n. cks_IntervalSec spec = Some n \<and> 1 \<le> n)"
    using normalizeSchedule_ok [OF sched] by (simp add: spec)
  show "1 \<le> cks_TimeoutSec spec" "0 \<le> cks_RetryLimit spec" "0 \<le> cks_Priority spec" "cks_TenantID spec \<noteq> []" "\<exists>t. cks_NextRunAt spec = Some t"
    using tmo ret pri ten
    by (auto simp: spec normalizeTimeoutSec_def normalizeRetryLimit_def normalizePriority_def normalizeTenantID_def Let_def
        DefaultTimeoutSec_def DefaultRetryLimit_def DefaultPriority_def split: if_splits)
qed

lemma Check_NormalizeCreate_widths:
  assumes "Check_NormalizeCreate lb now inp = Inr spec"
  shows "check_widths_fit spec"
proof -
  obtain name tz st ce iv nx where name: "normalizeRequiredString (cki_Name inp) ''name'' 128 = Inr name"
    and tz: "normalizeTimezone lb (cki_Timezone inp) = Inr tz"
    and sched: "normalizeSchedule lb now tz st (cki_CronExpr inp) (cki_IntervalSec inp) = Inr (ce, iv, nx)"
    and spec: "cks_Name spec = name" "cks_Timezone spec = tz" "cks_CronExpr spec = ce"
    using assms unfolding Check_NormalizeCreate_def Let_def by (auto dest!: rbind_InrD)
  have "length name \<le> 128" "length tz \<le> 64" "when_present (\<lambda>e. length e \<le> 128) ce"
    using name tz sched by (auto simp: normalizeRequiredString_def normalizeTimezone_def normalizeSchedule_def Let_def
        split: if_splits option.splits sum.splits)
  then show ?thesis unfolding check_widths_fit_def spec
    by (cases ce) (auto intro: le_trans [OF rune_count_le])
qed

lemma accepted_check_created:
  assumes ok: "Check_NormalizeCreate lb now inp = Inr spec" and tenant: "cks_TenantID spec \<in> set (mo_tenants s)"
  shows "if check_values_fit spec
    then \<exists>c s'. CheckRepository_Create spec s = (Inr c, s') \<and> mo_checks s' = mo_checks s @ [\<lparr>kr_snap = c, kr_deleted = None\<rparr>]
      \<and> check_row_ok c \<and> ck_ID c = mo_check_seq s \<and> ck_Status c = StatusActive \<and> ck_Version c = 1
      \<and> (\<exists>j. CheckJobSpec lb c = Inr j \<and> ss_TimeoutSeconds j = ck_TimeoutSec c \<and> jt_Image (ss_JobTemplate j) = ProbeImage)
    else CheckRepository_Create spec s = (Inl (Wrapf ''insert check'' (DbError ''value not of the column type'')), s)"
proof (cases "check_values_fit spec")
  case True
  obtain p where p: "NormalizeProbeConfig lb (cks_CheckConfig spec) = Inr p" using Check_NormalizeCreate_ok(2) [OF ok] by blast
  let ?c = "\<lparr>ck_ID = mo_check_seq s, ck_Name = cks_Name spec, ck_Description = cks_Description spec,
              ck_TenantID = cks_TenantID spec, ck_ResourceGroupID = cks_ResourceGroupID spec, ck_Status = StatusActive,
              ck_CheckType = cks_CheckType spec, ck_CheckConfig = cks_CheckConfig spec,
              ck_AssertionRules = cks_AssertionRules spec, ck_ScheduleType = cks_ScheduleType spec,
              ck_CronExpr = cks_CronExpr spec, ck_IntervalSec = cks_IntervalSec spec, ck_Timezone = cks_Timezone spec,
              ck_TimeoutSec = cks_TimeoutSec spec, ck_RetryLimit = cks_RetryLimit spec, ck_Priority = cks_Priority spec,
              ck_Labels = cks_Labels spec, ck_NextRunAt = cks_NextRunAt spec, ck_Version = 1,
              ck_CreatedAt = mo_clock s, ck_UpdatedAt = mo_clock s\<rparr>"
  have row: "check_row_ok ?c" using Check_NormalizeCreate_ok [OF ok] by (auto simp: check_row_ok_def)
  obtain s' where run: "CheckRepository_Create spec s = (Inr ?c, s')" and rows: "mo_checks s' = mo_checks s @ [\<lparr>kr_snap = ?c, kr_deleted = None\<rparr>]"
    using True Check_NormalizeCreate_widths [OF ok] row tenant
    by (auto simp: CheckRepository_Create_def insertCheckSQL_def insert_audit_def tx_apply io_bind_apply io_return_apply Let_def)
  have timeout: "1 \<le> ck_TimeoutSec ?c" "int32 (ck_TimeoutSec ?c) = ck_TimeoutSec ?c"
    using Check_NormalizeCreate_ok(4) [OF ok] True int32_id by (auto simp: check_values_fit_def check_ints_fit_def int4_def)
  have "CheckJobSpec lb ?c = Inr (empty_spec\<lparr>ss_TimeoutSeconds := ck_TimeoutSec ?c,
       ss_RetryPolicy := \<lparr>rp_MaxAttempts = int32 (ck_RetryLimit ?c + 1)\<rparr>,
       ss_JobTemplate := \<lparr>jt_Image = ProbeImage, jt_Command = probeContainerCommand,
                          jt_Args = [probeScript p (ck_TimeoutSec ?c)], jt_BackoffLimit = 0\<rparr>\<rparr>)"
    using p timeout by (simp add: CheckJobSpec_def Let_def)
  then have job: "\<exists>j. CheckJobSpec lb ?c = Inr j \<and> ss_TimeoutSeconds j = ck_TimeoutSec ?c \<and> jt_Image (ss_JobTemplate j) = ProbeImage" by simp
  show ?thesis unfolding if_P [OF True]
    by (intro exI [of _ ?c] exI [of _ s'] conjI run rows row job) simp_all
next
  case False
  then show ?thesis by (simp add: CheckRepository_Create_def insertCheckSQL_def tx_apply io_bind_apply Let_def)
qed

end
