(* ===== verification/Slo_Alerts.thy ===== *)
theory Slo_Alerts
  imports Check_Firing
begin

section \<open>Events counted, alerts raised and resolved\<close>

text \<open>
  The functional behaviour of the recorder and of the evaluator when nobody else writes their tables: every indicator that sources from a finished run counts it
  once, in the current window; after an evaluation an alert of a type is active exactly when the burn rate has reached its threshold.
\<close>

subsection \<open>Alerts\<close>

definition active_of :: "string \<Rightarrow> int \<Rightarrow> string \<Rightarrow> monitor \<Rightarrow> AlertRow list" where
  "active_of t i ty s = filter (\<lambda>a. active_alert t i a \<and> al_Type a = ty) (mo_alerts s)"

lemma active_of_Create:
  assumes "BudgetAlert_Create dec t i b ty r s = (Inr u, s')"
  shows "\<exists>a. active_of t i ty s' = active_of t i ty s @ [a]" "ty' \<noteq> ty \<Longrightarrow> active_of t i ty' s' = active_of t i ty' s"
  using assms by (auto simp: BudgetAlert_Create_def active_of_def active_alert_def tx_apply Let_def split: option.splits if_splits)

lemma active_of_Resolve:
  assumes "ResolveBySLOAndType t i ty s = (Inr u, s')"
  shows "active_of t i ty s' = []" "ty' \<noteq> ty \<Longrightarrow> active_of t i ty' s' = active_of t i ty' s"
proof -
  let ?f = "\<lambda>a. if active_alert t i a \<and> al_Type a = ty then a\<lparr>al_Status := ''resolved'', al_ResolvedAt := Some (mo_clock s)\<rparr> else a"
  have s': "mo_alerts s' = map ?f (mo_alerts s)" using assms by (auto simp: ResolveBySLOAndType_def tx_apply)
  have "\<not> (active_alert t i (?f a) \<and> al_Type (?f a) = ty)" for a by (simp add: active_alert_def)
  then show "active_of t i ty s' = []" unfolding active_of_def s' filter_map comp_def by simp
  have "filter (\<lambda>a. active_alert t i a \<and> al_Type a = ty') (map ?f rows) = filter (\<lambda>a. active_alert t i a \<and> al_Type a = ty') rows"
    if "ty' \<noteq> ty" for rows 
  proof (induction rows)
    case (Cons a rows)
    have "active_alert t i (?f a) \<and> al_Type (?f a) = ty' \<longleftrightarrow> active_alert t i a \<and> al_Type a = ty'" using that by (simp add: active_alert_def)
    moreover have "?f a = a" if "al_Type a = ty'" using that \<open>ty' \<noteq> ty\<close> by simp
    ultimately show ?case using Cons by (simp del: if_split) metis
  qed simp
  then show "ty' \<noteq> ty \<Longrightarrow> active_of t i ty' s' = active_of t i ty' s" by (simp add: active_of_def s')
qed

lemma manage_alert_ok:
  assumes "\<And>n s. other n s = s" and "active \<longleftrightarrow> active_of t i ty (sw_store v) \<noteq> []"
    and "manage_alert dec env other t i b ty thr active v = (Inr u, v')"
  shows "active_of t i ty (sw_store v') \<noteq> [] \<longleftrightarrow> thr \<le> bu_BurnRate b"
    and "length (active_of t i ty (sw_store v')) \<le> max 1 (length (active_of t i ty (sw_store v)))"
    and "ty' \<noteq> ty \<Longrightarrow> active_of t i ty' (sw_store v') = active_of t i ty' (sw_store v)"
proof -
  consider (keep) "v' = v" "thr \<le> bu_BurnRate b \<longleftrightarrow> active"
    | (raise) "BudgetAlert_Create dec t i (bu_ID b) ty (bu_BurnRate b) (sw_store v) = (Inr (), sw_store v')"
        "thr \<le> bu_BurnRate b" "\<not> active"
    | (resolve) "ResolveBySLOAndType t i ty (sw_store v) = (Inr (), sw_store v')" "\<not> thr \<le> bu_BurnRate b" "active"
    using assms(3) unfolding manage_alert_def
    by (auto simp: io_return_apply dest!: io_wrap_InrD db_call_InrD [OF assms(1)] split: if_splits)
  then have "(active_of t i ty (sw_store v') \<noteq> [] \<longleftrightarrow> thr \<le> bu_BurnRate b)
      \<and> length (active_of t i ty (sw_store v')) \<le> max 1 (length (active_of t i ty (sw_store v)))
      \<and> (ty' \<noteq> ty \<longrightarrow> active_of t i ty' (sw_store v') = active_of t i ty' (sw_store v))"
  proof cases
    case keep
    then show ?thesis using assms(2) by simp
  next
    case raise
    from active_of_Create(1) [OF raise(1)] active_of_Create(2) [OF raise(1), of ty'] raise(2,3) assms(2) show ?thesis by auto
  next
    case resolve
    from active_of_Resolve(1) [OF resolve(1)] active_of_Resolve(2) [OF resolve(1), of ty'] resolve(2,3) show ?thesis by simp
  qed
  then show "active_of t i ty (sw_store v') \<noteq> [] \<longleftrightarrow> thr \<le> bu_BurnRate b"
      "length (active_of t i ty (sw_store v')) \<le> max 1 (length (active_of t i ty (sw_store v)))"
      "ty' \<noteq> ty \<Longrightarrow> active_of t i ty' (sw_store v') = active_of t i ty' (sw_store v)" by blast+
qed

lemma GetActive_has:
  "GetActiveBySLO t i s = (Inr rows, s') \<Longrightarrow> s' = s \<and> (has_alert ty rows \<longleftrightarrow> active_of t i ty s \<noteq> [])"
  by (auto simp: GetActiveBySLO_def tx_apply io_read_apply has_alert_def active_of_def filter_empty_conv)

lemma manageAlerts_ok:
  assumes other: "\<And>n s. other n s = s" and run: "manageAlerts dec env other t s b v = (Inr u, v')"
  shows "active_of t (so_ID s) ''fast_burn'' (sw_store v') \<noteq> [] \<longleftrightarrow> so_AlertFastBurnRate s \<le> bu_BurnRate b"
    and "active_of t (so_ID s) ''slow_burn'' (sw_store v') \<noteq> [] \<longleftrightarrow> so_AlertSlowBurnRate s \<le> bu_BurnRate b"
    and "length (active_of t (so_ID s) ty (sw_store v')) \<le> max 1 (length (active_of t (so_ID s) ty (sw_store v)))"
proof -
  let ?act = "\<lambda>ty v. active_of t (so_ID s) ty (sw_store v)"
  from run obtain rows v1 w v2 where read: "db_call env other (\<lambda>_. GetActiveBySLO t (so_ID s)) v = (Inr rows, v1)"
    and fast: "manage_alert dec env other t (so_ID s) b ''fast_burn'' (so_AlertFastBurnRate s) (has_alert ''fast_burn'' rows) v1 = (Inr w, v2)"
    and slow: "manage_alert dec env other t (so_ID s) b ''slow_burn'' (so_AlertSlowBurnRate s) (has_alert ''slow_burn'' rows) v2 = (Inr u, v')"
    unfolding manageAlerts_def by (auto dest!: io_bind_InrD io_wrap_InrD)
  from db_call_InrD [OF other read] have read': "GetActiveBySLO t (so_ID s) (sw_store v) = (Inr rows, sw_store v1)" by blast
  have store: "sw_store v1 = sw_store v" using GetActive_has [OF read'] by blast
  have has: "has_alert ty rows \<longleftrightarrow> ?act ty v1 \<noteq> []" for ty using GetActive_has [OF read', of ty] by simp
  have ne: "''slow_burn'' \<noteq> ''fast_burn''" by simp
  note f = manage_alert_ok [OF other has fast]
  have "has_alert ''slow_burn'' rows \<longleftrightarrow> ?act ''slow_burn'' v2 \<noteq> []" using has f(3) [of "''slow_burn''"] by simp
  note s = manage_alert_ok [OF other this slow]
  show "?act ''fast_burn'' v' \<noteq> [] \<longleftrightarrow> so_AlertFastBurnRate s \<le> bu_BurnRate b" using f(1) s(3) [of "''fast_burn''"] by simp
  show "?act ''slow_burn'' v' \<noteq> [] \<longleftrightarrow> so_AlertSlowBurnRate s \<le> bu_BurnRate b" using s(1) .
  show "length (?act ty v') \<le> max 1 (length (?act ty v))"
  proof -
    consider "ty = ''fast_burn''" | "ty = ''slow_burn''" | "ty \<noteq> ''fast_burn''" "ty \<noteq> ''slow_burn''" by blast
    then show ?thesis using f(2) f(3) [of ty] s(2) s(3) [of ty] store by cases auto
  qed
qed

lemma Upsert_alerts:
  "BudgetRepository_Upsert dec t b s = (Inr b', s') \<Longrightarrow> mo_alerts s' = mo_alerts s \<and> bu_BurnRate b' = bu_BurnRate b"
  by (auto simp: BudgetRepository_Upsert_def tx_apply Let_def split: option.splits if_splits)

text \<open>The whole evaluation of one objective, when its window has events.\<close>

abbreviation slo_window :: "SLOSnapshot \<Rightarrow> time \<Rightarrow> Window" where
  "slo_window s now \<equiv> CalculateWindow (so_WindowType s) (so_WindowDuration s) now"

definition window_events :: "string \<Rightarrow> int \<Rightarrow> Window \<Rightarrow> monitor \<Rightarrow> WindowAggregate" where
  "window_events t i w m = (let rows = window_rows t i (wn_Start w) (wn_End w) m; good = sum_list (map ps_good rows);
     total = sum_list (map ps_total rows) in
     \<lparr>wa_GoodEventsCount = good, wa_TotalEventsCount = total,
      wa_SLIValue = (if total > 0 then fdiv (float64_of_int good) (float64_of_int total) else 0)\<rparr>)"

lemma AggregateWindow_events: "AggregateWindow t i (wn_Start w) (wn_End w) m = (Inr (window_events t i w m), m)"
  by (simp add: AggregateWindow_def tx_apply io_read_apply window_events_def)

lemma evaluateSLO_InrD:
  assumes other: "\<And>n s. other n s = s" and run: "evaluateSLO dec env other t s v = (Inr u, v')"
  defines "now \<equiv> en_now env (w_tick (sw_world v))"
  assumes events: "wa_TotalEventsCount (window_events t (so_SLIID s) (slo_window s now) (sw_store v)) \<noteq> 0"
  obtains b v1 where "manageAlerts dec env other t s b v1 = (Inr u, v')" and "mo_alerts (sw_store v1) = mo_alerts (sw_store v)"
    and "bu_BurnRate b = bu_BurnRate (window_budget t s (slo_window s now) (window_events t (so_SLIID s) (slo_window s now) (sw_store v)) now)"
proof -
  let ?w = "slo_window s now"
  obtain v0 where v0: "on_world (now_call env) v = (Inr now, v0)" "sw_store v0 = sw_store v"
    by (simp add: on_world_def now_call_def now_def)
  from run obtain agg v1 where agg: "db_call env other (\<lambda>_. AggregateWindow t (so_SLIID s) (wn_Start ?w) (wn_End ?w)) v0 = (Inr agg, v1)"
    and rest: "(if wa_TotalEventsCount agg = 0 then
       io_bind (io_wrap ''upsert budget'' (db_call env other (\<lambda>_. BudgetRepository_Upsert dec t (empty_budget t s ?w)))) (\<lambda>_. io_return ())
     else
       io_bind (io_wrap ''upsert budget'' (db_call env other (\<lambda>_. BudgetRepository_Upsert dec t (window_budget t s ?w agg now)))) (\<lambda>budget.
       io_wrap ''manage alerts'' (manageAlerts dec env other t s budget))) v1 = (Inr u, v')"
    unfolding evaluateSLO_def Let_def using v0(1) by (fastforce simp: io_bind_apply dest!: io_wrap_InrD split: prod.splits sum.splits)
  have agg_is: "agg = window_events t (so_SLIID s) (slo_window s now) (sw_store v)" "sw_store v1 = sw_store v"
    using db_call_InrD [OF other agg] v0(2) by (auto simp: AggregateWindow_events)
  with rest events obtain b v2 where up: "db_call env other (\<lambda>_. BudgetRepository_Upsert dec t (window_budget t s ?w agg now)) v1 = (Inr b, v2)"
    and man: "manageAlerts dec env other t s b v2 = (Inr u, v')"
    by (auto dest!: io_bind_InrD io_wrap_InrD)
  from db_call_InrD [OF other up] have "mo_alerts (sw_store v2) = mo_alerts (sw_store v)"
    "bu_BurnRate b = bu_BurnRate (window_budget t s ?w agg now)" using agg_is(2) by (auto dest!: Upsert_alerts)
  with man agg_is(1) show thesis by (intro that [OF man]) auto
qed

subsection \<open>Events\<close>

definition snapshot_rows :: "string \<Rightarrow> int \<Rightarrow> time \<Rightarrow> monitor \<Rightarrow> SnapshotRow list" where
  "snapshot_rows t i start s = filter (\<lambda>r. snapshot_key r = (t, i, start)) (mo_snapshots s)"

definition counted :: "string \<Rightarrow> int \<Rightarrow> time \<Rightarrow> monitor \<Rightarrow> int \<times> int" where
  "counted t i start s = (sum_list (map ps_good (snapshot_rows t i start s)), sum_list (map ps_total (snapshot_rows t i start s)))"

text \<open>What one event adds to the good and to all events of an indicator.\<close>

definition event_counts :: "outcomeEvent \<Rightarrow> SLISnapshot \<Rightarrow> int \<times> int" where
  "event_counts e s = (case isGoodEvent e s of Inl _ \<Rightarrow> (0, 0) | Inr b \<Rightarrow> (if b then 1 else 0, 1))"

lemma distinct_filter_key: "distinct (map f xs) \<Longrightarrow> filter (\<lambda>x. f x = k) xs = [] \<or> (\<exists>x. filter (\<lambda>x. f x = k) xs = [x])"
proof (induction xs)
  case (Cons a xs)
  have "filter (\<lambda>x. f x = k) xs = []" if "f a = k" using Cons.prems that by (auto simp: filter_empty_conv image_iff)
  with Cons show ?case by auto
qed simp

lemma filter_map_key:
  "(\<And>r. f (g r) = f r) \<Longrightarrow> filter (\<lambda>r. f r = k) (map g rows) = map g (filter (\<lambda>r. f r = k) rows)"
  by (induction rows) auto

lemma IncrementSnapshot_counted:
  assumes wf: "monitor_wf s" and ids: "t \<in> set (mo_tenants s)" "i \<in> sli_ids (mo_slis s)"
  obtains s' where "IncrementSnapshot t i start g s = (Inr (), s')" and "mo_slis s' = mo_slis s" and "mo_tenants s' = mo_tenants s"
    and "counted t i start s' = (fst (counted t i start s) + (if g then 1 else 0), snd (counted t i start s) + 1)"
    and "\<And>j w. (j, w) \<noteq> (i, start) \<Longrightarrow> counted t j w s' = counted t j w s"
proof -
  let ?hit = "\<lambda>r. ps_tenant r = t \<and> ps_sli r = i \<and> ps_start r = start"
  let ?d = "if g then 1 else 0 :: int"
  let ?f = "\<lambda>r. if ?hit r then r\<lparr>ps_good := ps_good r + ?d, ps_total := ps_total r + 1\<rparr> else r"
  let ?new = "\<lparr>ps_tenant = t, ps_sli = i, ps_start = start, ps_end = start + defaultSnapshotWindow, ps_good = ?d, ps_total = 1\<rparr>"
  have hit: "?hit r \<longleftrightarrow> snapshot_key r = (t, i, start)" for r by (auto simp: snapshot_key_def)
  have keys: "distinct (map snapshot_key (mo_snapshots s))" using wf by (simp add: monitor_wf_def snapshots_ok_def)
  have known: "i \<in> (\<lambda>row. si_ID (lr_snap row)) ` set (mo_slis s)" using ids(2) by (simp add: sli_ids_def)
  show thesis
  proof (cases "snapshot_rows t i start s = []")
    case True
    then have new: "IncrementSnapshot t i start g s = (Inr (), s\<lparr>mo_snapshots := mo_snapshots s @ [?new]\<rparr>)"
      using ids known by (simp add: IncrementSnapshot_def Let_def tx_apply snapshot_rows_def hit)
    show thesis using True by (intro that [OF new]) (auto simp: counted_def snapshot_rows_def snapshot_key_def)
  next
    case False
    then obtain r where r: "snapshot_rows t i start s = [r]"
      using distinct_filter_key [OF keys, of "(t, i, start)"] by (auto simp: snapshot_rows_def)
    then have run: "IncrementSnapshot t i start g s = (Inr (), s\<lparr>mo_snapshots := map ?f (mo_snapshots s)\<rparr>)"
      using ids known by (simp add: IncrementSnapshot_def Let_def tx_apply snapshot_rows_def hit cong: if_cong)
    have key: "snapshot_key (?f r) = snapshot_key r" for r by (simp add: snapshot_key_def)
    have rows: "snapshot_rows t j w (s\<lparr>mo_snapshots := map ?f (mo_snapshots s)\<rparr>) = map ?f (snapshot_rows t j w s)" for j w
      unfolding snapshot_rows_def using filter_map_key [of snapshot_key ?f, OF key] by simp
    have "?hit r" 
    proof -
      have "r \<in> set (snapshot_rows t i start s)" using r by simp
      then show ?thesis by (simp add: snapshot_rows_def hit)
    qed
    then have "map ?f [r] = [r\<lparr>ps_good := ps_good r + ?d, ps_total := ps_total r + 1\<rparr>]" by simp
    then have bumped: "counted t i start (s\<lparr>mo_snapshots := map ?f (mo_snapshots s)\<rparr>)
        = (fst (counted t i start s) + ?d, snd (counted t i start s) + 1)" unfolding counted_def rows r by simp
    have same: "map ?f (snapshot_rows t j w s) = snapshot_rows t j w s" if "(j, w) \<noteq> (i, start)" for j w
      using that by (intro map_idI) (auto simp: snapshot_rows_def snapshot_key_def)
    have "counted t j w (s\<lparr>mo_snapshots := map ?f (mo_snapshots s)\<rparr>) = counted t j w s" if "(j, w) \<noteq> (i, start)" for j w
      unfolding counted_def rows same [OF that] by (rule refl)
    then show thesis by (intro that [OF run _ _ bumped]) simp_all
  qed
qed

text \<open>No faults and no other writers: a call to the own store answers.\<close>

definition calm :: "env \<Rightarrow> (nat \<Rightarrow> 's \<Rightarrow> 's) \<Rightarrow> bool" where
  "calm env other \<longleftrightarrow> (\<forall>n. en_fault env n = NoFault) \<and> undisturbed env \<and> (\<forall>n s. other n s = s)"

lemma calm_quiet [simp]: "calm (quiet now) (\<lambda>_ s. s)"
  by (simp add: calm_def) (simp add: quiet_def)

lemma db_call_calm:
  "calm env other \<Longrightarrow> op (en_now env (w_tick (sw_world v))) (sw_store v) = (r, s') \<Longrightarrow>
   db_call env other op v = (r, v\<lparr>sw_world := (sw_world v)\<lparr>w_tick := w_tick (sw_world v) + 1\<rparr>, sw_store := s'\<rparr>)"
  by (simp add: calm_def db_call_eq Let_def)

lemma record_sli_event_counted:
  assumes calm: "calm env other" and wf: "monitor_wf (sw_store v)" and ids: "t \<in> set (mo_tenants (sw_store v))" "si_ID s \<in> sli_ids (mo_slis (sw_store v))"
  obtains u where "record_sli_event env other t e start s v = (Inr (), u)" and "monitor_wf (sw_store u)"
    and "mo_slis (sw_store u) = mo_slis (sw_store v)" and "mo_tenants (sw_store u) = mo_tenants (sw_store v)"
    and "counted t (si_ID s) start (sw_store u) = (fst (counted t (si_ID s) start (sw_store v)) + fst (event_counts e s),
           snd (counted t (si_ID s) start (sw_store v)) + snd (event_counts e s))"
    and "\<And>j w. (j, w) \<noteq> (si_ID s, start) \<Longrightarrow> counted t j w (sw_store u) = counted t j w (sw_store v)"
proof (cases "isGoodEvent e s")
  case (Inl err)
  then show thesis using wf by (intro that [of v]) (simp_all add: record_sli_event_def io_return_apply event_counts_def)
next
  case (Inr g)
  obtain s' where inc: "IncrementSnapshot t (si_ID s) start g (sw_store v) = (Inr (), s')" and same: "mo_slis s' = mo_slis (sw_store v)"
      "mo_tenants s' = mo_tenants (sw_store v)"
    and up: "counted t (si_ID s) start s' = (fst (counted t (si_ID s) start (sw_store v)) + (if g then 1 else 0), snd (counted t (si_ID s) start (sw_store v)) + 1)"
    and rest: "\<And>j w. (j, w) \<noteq> (si_ID s, start) \<Longrightarrow> counted t j w s' = counted t j w (sw_store v)"
    using IncrementSnapshot_counted [OF wf ids] by metis
  have wf': "monitor_wf s'" using io_keepsD' [OF wf_increment inc] wf by (simp add: monitor_kept_def)
  from db_call_calm [OF calm, of "\<lambda>_. IncrementSnapshot t (si_ID s) start g" v, OF inc]
  have run: "record_sli_event env other t e start s v = (Inr (), v\<lparr>sw_world := (sw_world v)\<lparr>w_tick := w_tick (sw_world v) + 1\<rparr>, sw_store := s'\<rparr>)"
    using Inr by (simp add: record_sli_event_def io_bind_apply io_try_apply io_return_apply)
  show thesis using wf' same up rest Inr by (intro that [OF run]) (auto simp: event_counts_def)
qed

lemma record_sli_events_counted:
  assumes calm: "calm env other"
  shows "monitor_wf (sw_store v) \<Longrightarrow> t \<in> set (mo_tenants (sw_store v)) \<Longrightarrow> set (map si_ID slis) \<subseteq> sli_ids (mo_slis (sw_store v)) \<Longrightarrow>
    \<exists>u. io_iter (record_sli_event env other t e start) slis v = (Inr (), u) \<and>
      (\<forall>i. counted t i start (sw_store u) =
        (fst (counted t i start (sw_store v)) + sum_list (map (\<lambda>s. fst (event_counts e s)) (filter (\<lambda>s. si_ID s = i) slis)),
         snd (counted t i start (sw_store v)) + sum_list (map (\<lambda>s. snd (event_counts e s)) (filter (\<lambda>s. si_ID s = i) slis)))) \<and>
      (\<forall>i w. w \<noteq> start \<longrightarrow> counted t i w (sw_store u) = counted t i w (sw_store v))"
proof (induction slis arbitrary: v)
  case (Cons s slis)
  obtain v1 where v1: "record_sli_event env other t e start s v = (Inr (), v1)" "monitor_wf (sw_store v1)"
      "mo_slis (sw_store v1) = mo_slis (sw_store v)" "mo_tenants (sw_store v1) = mo_tenants (sw_store v)"
    and up: "counted t (si_ID s) start (sw_store v1) = (fst (counted t (si_ID s) start (sw_store v)) + fst (event_counts e s),
           snd (counted t (si_ID s) start (sw_store v)) + snd (event_counts e s))"
    and rest: "\<And>j w. (j, w) \<noteq> (si_ID s, start) \<Longrightarrow> counted t j w (sw_store v1) = counted t j w (sw_store v)"
    using record_sli_event_counted [OF calm Cons.prems(1,2), of s e start] Cons.prems(3) by (metis (no_types, lifting) list.set_intros(1) image_eqI list.set_map subsetD)
  have "set (map si_ID slis) \<subseteq> sli_ids (mo_slis (sw_store v1))" using Cons.prems(3) v1(3) by simp
  from Cons.IH [OF v1(2) _ this] Cons.prems(2) v1(4) obtain u where
    u: "io_iter (record_sli_event env other t e start) slis v1 = (Inr (), u)"
    and now: "\<And>i. counted t i start (sw_store u) =
        (fst (counted t i start (sw_store v1)) + sum_list (map (\<lambda>s. fst (event_counts e s)) (filter (\<lambda>s. si_ID s = i) slis)),
         snd (counted t i start (sw_store v1)) + sum_list (map (\<lambda>s. snd (event_counts e s)) (filter (\<lambda>s. si_ID s = i) slis)))"
    and old: "\<And>i w. w \<noteq> start \<Longrightarrow> counted t i w (sw_store u) = counted t i w (sw_store v1)" by auto
  have "io_iter (record_sli_event env other t e start) (s # slis) v = (Inr (), u)" using v1(1) u by (simp add: io_bind_apply)
  moreover have "counted t i start (sw_store u) =
        (fst (counted t i start (sw_store v)) + sum_list (map (\<lambda>s. fst (event_counts e s)) (filter (\<lambda>s. si_ID s = i) (s # slis))),
         snd (counted t i start (sw_store v)) + sum_list (map (\<lambda>s. snd (event_counts e s)) (filter (\<lambda>s. si_ID s = i) (s # slis))))" for i
    using now [of i] up rest [of i start] by (cases "si_ID s = i") simp_all
  moreover have "counted t i w (sw_store u) = counted t i w (sw_store v)" if "w \<noteq> start" for i w
    using old [OF that] rest that by simp
  ultimately show ?case by blast
qed (simp add: io_return_apply)

text \<open>An indicator of the source counts the run once; other indicators and other windows stay as they are.\<close>

lemma recordSLIEvents_counted:
  assumes calm: "calm env other" and wf: "monitor_wf (sw_store v)" and t: "t \<in> set (mo_tenants (sw_store v))"
  defines "start \<equiv> time_Truncate (en_now env (w_tick (sw_world v) + 1)) snapshotWindow"
  obtains u where "recordSLIEvents env other t out v = (Inr (), u)"
    and "\<And>row. row \<in> set (mo_slis (sw_store v)) \<Longrightarrow> counted t (si_ID (lr_snap row)) start (sw_store u) =
      (if sources_from t (to_SourceUID out) row then
         (fst (counted t (si_ID (lr_snap row)) start (sw_store v)) + fst (event_counts (outcome_event out) (lr_snap row)),
          snd (counted t (si_ID (lr_snap row)) start (sw_store v)) + snd (event_counts (outcome_event out) (lr_snap row)))
       else counted t (si_ID (lr_snap row)) start (sw_store v))"
    and "\<And>i w. w \<noteq> start \<Longrightarrow> counted t i w (sw_store u) = counted t i w (sw_store v)"
proof -
  let ?rows = "filter (sources_from t (to_SourceUID out)) (mo_slis (sw_store v))" and ?e = "outcome_event out"
  let ?slis = "map lr_snap ?rows"
  define v1 where "v1 = v\<lparr>sw_world := (sw_world v)\<lparr>w_tick := w_tick (sw_world v) + 1\<rparr>, sw_store := sw_store v\<rparr>"
  have read: "db_call env other (\<lambda>_. SLIRepository_FindBySourceUID t (to_SourceUID out)) v = (Inr ?slis, v1)"
    unfolding v1_def by (rule db_call_calm [OF calm]) (simp add: SLIRepository_FindBySourceUID_def tx_apply io_read_apply)
  have clock: "on_world (now_call env) v1 = (Inr (en_now env (w_tick (sw_world v) + 1)),
      v1\<lparr>sw_world := (sw_world v1)\<lparr>w_tick := w_tick (sw_world v1) + 1\<rparr>\<rparr>)"
    by (simp add: on_world_def now_call_def v1_def)
  let ?v2 = "v1\<lparr>sw_world := (sw_world v1)\<lparr>w_tick := w_tick (sw_world v1) + 1\<rparr>\<rparr>"
  have store: "sw_store ?v2 = sw_store v" "sw_store v1 = sw_store v" by (simp_all add: v1_def)
  have ids: "set (map si_ID ?slis) \<subseteq> sli_ids (mo_slis (sw_store ?v2))" unfolding store by (auto simp: sli_ids_def)
  obtain u where u: "io_iter (record_sli_event env other t ?e start) ?slis ?v2 = (Inr (), u)"
    and now: "\<And>i. counted t i start (sw_store u) =
        (fst (counted t i start (sw_store v)) + sum_list (map (\<lambda>s. fst (event_counts ?e s)) (filter (\<lambda>s. si_ID s = i) ?slis)),
         snd (counted t i start (sw_store v)) + sum_list (map (\<lambda>s. snd (event_counts ?e s)) (filter (\<lambda>s. si_ID s = i) ?slis)))"
    and old: "\<And>i w. w \<noteq> start \<Longrightarrow> counted t i w (sw_store u) = counted t i w (sw_store v)"
    using record_sli_events_counted [OF calm, of ?v2 t ?slis ?e start] wf t ids unfolding store by auto
  have only: "filter (\<lambda>s. si_ID s = si_ID (lr_snap row)) ?slis = (if sources_from t (to_SourceUID out) row then [lr_snap row] else [])"
    if "row \<in> set (mo_slis (sw_store v))" for row
  proof -
    have "distinct (map (\<lambda>r. si_ID (lr_snap r)) (mo_slis (sw_store v)))" using wf by (simp add: monitor_wf_def slis_ok_def)
    note one = distinct_filter_key [OF this, of "si_ID (lr_snap row)"]
    have "row \<in> set (filter (\<lambda>r. si_ID (lr_snap r) = si_ID (lr_snap row)) (mo_slis (sw_store v)))" using that by simp
    with one have "filter (\<lambda>r. si_ID (lr_snap r) = si_ID (lr_snap row)) (mo_slis (sw_store v)) = [row]"
      by (metis empty_iff empty_set list.set(2) singletonD)
    then have "filter (sources_from t (to_SourceUID out)) (filter (\<lambda>r. si_ID (lr_snap r) = si_ID (lr_snap row)) (mo_slis (sw_store v)))
        = (if sources_from t (to_SourceUID out) row then [row] else [])" by simp
    then have "filter (\<lambda>r. si_ID (lr_snap r) = si_ID (lr_snap row)) ?rows = (if sources_from t (to_SourceUID out) row then [row] else [])"
      by (simp add: filter_filter conj_commute)
    then show ?thesis by (simp add: filter_map comp_def)
  qed
  show thesis
  proof (cases "?slis = []")
    case True
    then have run: "recordSLIEvents env other t out v = (Inr (), v1)"
      using read by (simp add: recordSLIEvents_def io_bind_apply io_try_apply io_return_apply)
    show thesis using True store by (intro that [OF run]) (auto simp: filter_empty_conv)
  next
    case False
    then have run: "recordSLIEvents env other t out v = (Inr (), u)"
      using read clock u by (simp add: recordSLIEvents_def io_bind_apply io_try_apply start_def)
    show thesis
    proof (rule that [OF run])
      fix row assume row: "row \<in> set (mo_slis (sw_store v))"
      show "counted t (si_ID (lr_snap row)) start (sw_store u) =
        (if sources_from t (to_SourceUID out) row then
           (fst (counted t (si_ID (lr_snap row)) start (sw_store v)) + fst (event_counts (outcome_event out) (lr_snap row)),
            snd (counted t (si_ID (lr_snap row)) start (sw_store v)) + snd (event_counts (outcome_event out) (lr_snap row)))
         else counted t (si_ID (lr_snap row)) start (sw_store v))"
        unfolding now only [OF row] by simp
    qed (rule old)
  qed
qed

end
