(* ===== verification/Monitor_History.thy ===== *)
theory Monitor_History
  imports Monitor_Laws
begin

section \<open>Histories of the monitor tables\<close>

text \<open>
  All writers of the tables as one step relation. Every state a history reaches is well formed, and along it a check keeps what it was created with: only
  its status, its cursor and its version change, a change of status always takes a new version, and a deleted check is frozen.
\<close>

inductive monitor_step :: "(float64 \<Rightarrow> rat) \<Rightarrow> monitor \<Rightarrow> monitor \<Rightarrow> bool" for dec where
  step_tenant: "monitor_step dec s (s\<lparr>mo_tenants := t # mo_tenants s\<rparr>)"
| step_clock: "mo_clock s \<le> c \<Longrightarrow> monitor_step dec s (s\<lparr>mo_clock := c\<rparr>)"
| step_check_create: "monitor_step dec s (snd (CheckRepository_Create spec s))"
| step_check_status: "monitor_step dec s (snd (CheckRepository_ChangeStatus t g i v a s))"
| step_check_delete: "monitor_step dec s (snd (CheckRepository_Delete t g i v s))"
| step_check_cursor: "monitor_step dec s (snd (CheckRepository_UpdateNextRunAt t i due s))"
| step_check_run: "monitor_step dec s (snd (CheckRun_RecordCompleted now t req s))"
| step_sli_create: "monitor_step dec s (snd (SLIRepository_Create t sli s))"
| step_sli_delete: "monitor_step dec s (snd (SLIRepository_Delete t g i v s))"
| step_increment: "monitor_step dec s (snd (IncrementSnapshot t i w b s))"
| step_slo_create: "monitor_step dec s (snd (SLORepository_Create dec t slo s))"
| step_slo_status: "monitor_step dec s (snd (SLORepository_ChangeStatus t g i v st s))"
| step_slo_delete: "monitor_step dec s (snd (SLORepository_Delete t g i v s))"
| step_upsert: "monitor_step dec s (snd (BudgetRepository_Upsert dec t budget s))"
| step_alert: "monitor_step dec s (snd (BudgetAlert_Create dec t i bid ty rate s))"
| step_resolve: "monitor_step dec s (snd (ResolveBySLOAndType t i ty s))"

definition monitor_history :: "(float64 \<Rightarrow> rat) \<Rightarrow> monitor \<Rightarrow> monitor \<Rightarrow> bool" where
  "monitor_history dec = (monitor_step dec)\<^sup>*\<^sup>*"

definition monitor_reachable :: "(float64 \<Rightarrow> rat) \<Rightarrow> monitor \<Rightarrow> bool" where
  "monitor_reachable dec s \<longleftrightarrow> monitor_history dec (empty_monitor []) s"

lemma step_keeps:
  assumes "monitor_step dec s t"
  shows "monitor_kept s t"
  using assms
proof cases
  case (step_tenant t)
  then show ?thesis by (auto simp: monitor_kept_def monitor_wf_def checks_ok_def)
next
  case (step_clock c)
  then show ?thesis by (simp add: monitor_kept_def monitor_wf_def)
qed (simp_all add: io_keepsD [OF wf_check_create] io_keepsD [OF wf_check_status] io_keepsD [OF wf_check_delete] io_keepsD [OF wf_check_cursor]
    io_keepsD [OF wf_check_run] io_keepsD [OF wf_sli_create] io_keepsD [OF wf_sli_delete] io_keepsD [OF wf_increment] io_keepsD [OF wf_slo_create]
    io_keepsD [OF wf_slo_writes(1)] io_keepsD [OF wf_slo_writes(2)] io_keepsD [OF wf_upsert] io_keepsD [OF wf_alert_create] io_keepsD [OF wf_alert_resolve])

lemma steps_keep:
  assumes "reflp R" and "transp R" and "\<And>s t. step s t \<Longrightarrow> R s t" and "step\<^sup>*\<^sup>* s t"
  shows "R s t"
  using assms(4)
proof (induction rule: rtranclp_induct)
  case base
  show ?case using assms(1) by (simp add: reflp_def)
next
  case (step t u)
  show ?case using assms(2) step.IH assms(3) [OF step.hyps(2)] by (rule transpD)
qed

lemma history_keeps: "monitor_history dec s t \<Longrightarrow> monitor_kept s t"
  unfolding monitor_history_def by (rule steps_keep [OF monitor_kept_refl monitor_kept_trans step_keeps])

lemma reachable_wf: "monitor_reachable dec s \<Longrightarrow> monitor_wf s"
  using history_keeps [of dec "empty_monitor []" s] empty_monitor_wf [of "[]"]
  by (simp add: monitor_reachable_def monitor_kept_def)

subsection \<open>Checks along a history\<close>

definition check_evolves :: "CheckRow \<Rightarrow> CheckRow \<Rightarrow> bool" where
  "check_evolves r s \<longleftrightarrow>
     kr_snap s = (kr_snap r)\<lparr>ck_Status := ck_Status (kr_snap s), ck_NextRunAt := ck_NextRunAt (kr_snap s),
       ck_Version := ck_Version (kr_snap s), ck_UpdatedAt := ck_UpdatedAt (kr_snap s)\<rparr>
     \<and> ck_Version (kr_snap r) \<le> ck_Version (kr_snap s)
     \<and> (ck_Status (kr_snap s) \<noteq> ck_Status (kr_snap r) \<or> kr_deleted s \<noteq> kr_deleted r \<longrightarrow> ck_Version (kr_snap r) < ck_Version (kr_snap s))
     \<and> (kr_deleted r \<noteq> None \<longrightarrow> s = r)"

lemma check_evolves_trans: "check_evolves r s \<Longrightarrow> check_evolves s t \<Longrightarrow> check_evolves r t"
proof -
  assume rs: "check_evolves r s" and st: "check_evolves s t"
  obtain a da where r: "r = \<lparr>kr_snap = a, kr_deleted = da\<rparr>" by (cases r) auto
  obtain b db where s: "s = \<lparr>kr_snap = b, kr_deleted = db\<rparr>" by (cases s) auto
  obtain c dc where t: "t = \<lparr>kr_snap = c, kr_deleted = dc\<rparr>" by (cases t) auto
  show ?thesis
  proof (cases "da = None")
    case True
    have snap: "c = a\<lparr>ck_Status := ck_Status c, ck_NextRunAt := ck_NextRunAt c, ck_Version := ck_Version c, ck_UpdatedAt := ck_UpdatedAt c\<rparr>"
      using rs st unfolding check_evolves_def r s t by (cases a; cases b; cases c) auto
    have "ck_Version a \<le> ck_Version c" using rs st by (auto simp: check_evolves_def r s t)
    moreover have "ck_Version a < ck_Version c" if "ck_Status c \<noteq> ck_Status a \<or> dc \<noteq> da"
      using rs st that by (cases "ck_Status b = ck_Status a \<and> db = da") (auto simp: check_evolves_def r s t)
    ultimately show ?thesis using snap True unfolding check_evolves_def r t by simp
  next
    case False
    then show ?thesis using rs st by (auto simp: check_evolves_def r s t)
  qed
qed

interpretation check_table: evolving_table "\<lambda>r. ck_ID (kr_snap r)" check_evolves
proof
  show "check_evolves r r" for r by (simp add: check_evolves_def)
  show "check_evolves r t" if "check_evolves r s" "check_evolves s t" for r s t using that by (rule check_evolves_trans)
  show "ck_ID (kr_snap s) = ck_ID (kr_snap r)" if "check_evolves r s" for r s
  proof -
    have "kr_snap s = (kr_snap r)\<lparr>ck_Status := ck_Status (kr_snap s), ck_NextRunAt := ck_NextRunAt (kr_snap s),
       ck_Version := ck_Version (kr_snap s), ck_UpdatedAt := ck_UpdatedAt (kr_snap s)\<rparr>" using that by (simp add: check_evolves_def)
    then show ?thesis by (metis (no_types, lifting) CheckSnapshot.ext_inject CheckSnapshot.surjective CheckSnapshot.update_convs)
  qed
qed

definition checks_evolve :: "monitor \<Rightarrow> monitor \<Rightarrow> bool" where
  "checks_evolve s t \<longleftrightarrow> mo_check_seq s \<le> mo_check_seq t
     \<and> descends (\<lambda>r. ck_ID (kr_snap r)) check_evolves (mo_check_seq s) (mo_checks s) (mo_checks t)"

lemma checks_evolve_refl: "reflp checks_evolve"
  by (simp add: reflp_def checks_evolve_def check_table.table_refl)

lemma checks_evolve_trans: "transp checks_evolve"
  by (auto simp: transp_def checks_evolve_def intro: check_table.table_trans)

lemmas checks_tx = tx_keeps [OF checks_evolve_refl] io_read_keeps [OF checks_evolve_refl]
  io_keeps_pure [OF checks_evolve_refl] io_keeps_bind [OF checks_evolve_trans] io_keeps_wrap

lemma untouched_evolve: "mo_checks t = mo_checks s \<Longrightarrow> mo_check_seq t = mo_check_seq s \<Longrightarrow> checks_evolve s t"
  by (simp add: checks_evolve_def check_table.table_refl)

lemma evolve_update:
  "(\<And>r. hit r \<Longrightarrow> check_evolves r (f r)) \<Longrightarrow> io_keeps checks_evolve (updateCheckSQL hit f)"
  unfolding io_keeps_def updateCheckSQL_def checks_evolve_def
  by (auto intro!: check_table.table_map simp: check_table.ev_refl)

lemma evolve_miss: "io_keeps checks_evolve (write_miss t g i)"
  unfolding write_miss_def by (auto intro!: checks_tx split: option.splits)

lemma evolve_audit: "io_keeps checks_evolve (insert_audit t e r i d)"
  by (auto simp: io_keeps_def insert_audit_def intro!: untouched_evolve)

lemma evolve_check_writes:
  "io_keeps checks_evolve (CheckRepository_Create spec)" "io_keeps checks_evolve (CheckRepository_ChangeStatus t g i v a)"
  "io_keeps checks_evolve (CheckRepository_Delete t g i v)" "io_keeps checks_evolve (CheckRepository_UpdateNextRunAt t i due)"
proof -
  have "io_keeps checks_evolve (insertCheckSQL spec)"
    by (auto simp: io_keeps_def insertCheckSQL_def Let_def checks_evolve_def check_table.table_refl intro!: check_table.table_append)
  then show "io_keeps checks_evolve (CheckRepository_Create spec)"
    unfolding CheckRepository_Create_def by (intro checks_tx evolve_audit)
  have lift: "io_keeps checks_evolve (io_bind (io_lift r) k)" if "\<And>n. io_keeps checks_evolve (k n)" for r :: "string result" and k :: "string \<Rightarrow> (monitor, 'b) io"
    using that by (cases r) (auto intro: checks_tx)
  show "io_keeps checks_evolve (CheckRepository_ChangeStatus t g i v a)"
    unfolding CheckRepository_ChangeStatus_def
    by (intro checks_tx) (auto intro!: checks_tx lift evolve_update evolve_miss evolve_audit simp: check_evolves_def live_check_def split: option.splits)
  show "io_keeps checks_evolve (CheckRepository_Delete t g i v)"
    unfolding CheckRepository_Delete_def
    by (auto intro!: checks_tx evolve_update evolve_miss evolve_audit simp: check_evolves_def live_check_def split: option.splits)
  show "io_keeps checks_evolve (CheckRepository_UpdateNextRunAt t i due)"
    unfolding CheckRepository_UpdateNextRunAt_def
    by (auto intro!: checks_tx evolve_update simp: check_evolves_def live_check_def split: option.splits)
qed

text \<open>The other writers leave the table of checks alone.\<close>

abbreviation checks_same :: "monitor \<Rightarrow> monitor \<Rightarrow> bool" where
  "checks_same s t \<equiv> mo_checks t = mo_checks s \<and> mo_check_seq t = mo_check_seq s"

lemma checks_same_props: "reflp checks_same" "transp checks_same"
  by (auto simp: reflp_def transp_def)

lemma tx_same: "(\<And>s. checks_same s (snd (m s))) \<Longrightarrow> checks_same s (snd (transaction m s))"
  using tx_keeps [OF checks_same_props(1), of m] by (simp add: io_keeps_def)

lemma same_check_run: "checks_same s (snd (CheckRun_RecordCompleted now t req s))"
  unfolding CheckRun_RecordCompleted_def
  by (auto simp: io_fail_apply io_bind_apply io_wrap_apply io_return_apply recordCompletedCheckRunSQL_def tx_apply
      split: prod.splits sum.splits option.splits if_splits)

lemma same_service_levels:
  "checks_same s (snd (SLIRepository_Create t sli s))" "checks_same s (snd (SLIRepository_Delete t g i v s))"
  "checks_same s (snd (IncrementSnapshot t i w b s))" "checks_same s (snd (SLORepository_Create dec t slo s))"
  "checks_same s (snd (SLORepository_ChangeStatus t g i v st s))" "checks_same s (snd (SLORepository_Delete t g i v s))"
  "checks_same s (snd (BudgetRepository_Upsert dec t budget s))" "checks_same s (snd (BudgetAlert_Create dec t i bid ty rate s))"
  "checks_same s (snd (ResolveBySLOAndType t i ty s))"
  unfolding SLIRepository_Create_def SLIRepository_Delete_def IncrementSnapshot_def SLORepository_Create_def SLORepository_ChangeStatus_def
    SLORepository_Delete_def BudgetRepository_Upsert_def BudgetAlert_Create_def ResolveBySLOAndType_def
  by (rule tx_same; simp add: Let_def split: option.split)+

lemma check_step_evolves: "monitor_step dec s t \<Longrightarrow> checks_evolve s t"
  by (cases rule: monitor_step.cases)
    (auto intro: untouched_evolve io_keepsD evolve_check_writes simp: same_check_run same_service_levels)

lemma history_evolves_checks: "monitor_history dec s t \<Longrightarrow> checks_evolve s t"
  unfolding monitor_history_def by (rule steps_keep [OF checks_evolve_refl checks_evolve_trans check_step_evolves])

lemma check_row_evolves:
  assumes "monitor_wf s" and "monitor_history dec s t" and "r \<in> set (mo_checks s)" and "r' \<in> set (mo_checks t)"
    and "ck_ID (kr_snap r') = ck_ID (kr_snap r)"
  shows "check_evolves r r'"
  using history_evolves_checks [OF assms(2)] assms
  by (intro check_table.table_row [of "mo_check_seq s" "mo_checks s" "mo_checks t"])
    (auto simp: checks_evolve_def monitor_wf_def checks_ok_def)

end
