(* ===== verification/Admin_Monitor.thy ===== *)
theory Admin_Monitor
  imports Monitor_Laws
begin

section \<open>Checks, indicators and objectives through the admin API\<close>

text \<open>
  The use cases of \<open>internal/admin/app\<close> on checks, check runs, indicators, objectives, budgets and alerts, with the read repositories of
  \<open>internal/admin/store/postgres\<close> (the write repositories are those of \<open>Monitor_Store\<close>). A result is the snapshot it is copied from; the rendering of
  instants and durations as text is left out.
\<close>

subsection \<open>Read repositories\<close>

text \<open>\<open>LIMIT\<close> and \<open>OFFSET\<close> with the total beside: a negative offset is an error of the statement.\<close>

definition counted_page :: "string \<Rightarrow> ('a \<Rightarrow> 'k::linorder) \<Rightarrow> int \<Rightarrow> int \<Rightarrow> (monitor \<Rightarrow> 'a list) \<Rightarrow> (monitor, 'a list \<times> int) io" where
  "counted_page what key limit offset rows = transaction (\<lambda>s.
     if offset < 0 then (Inl (Wrapf what (DbError ''OFFSET must not be negative'')), s)
     else (Inr (take (nat limit) (drop (nat offset) (sort_key key (rows s))), int (length (rows s))), s))"

definition live_sli :: "string \<Rightarrow> string \<Rightarrow> SLIRow \<Rightarrow> bool" where
  "live_sli tenantID scope row \<longleftrightarrow> si_TenantID (lr_snap row) = tenantID \<and> lr_deleted row = None \<and> in_group scope (lr_group row)"

definition SLIRead_Get :: "string \<Rightarrow> string \<Rightarrow> int \<Rightarrow> (monitor, SLISnapshot) io" where
  "SLIRead_Get tenantID scope i = transaction
     (io_bind (io_read (\<lambda>s. find (\<lambda>row. live_sli tenantID scope row \<and> si_ID (lr_snap row) = i) (mo_slis s))) (\<lambda>found.
      case found of None \<Rightarrow> io_fail (NotFoundError ''sli'') | Some row \<Rightarrow> io_return (lr_snap row)))"

definition SLIRead_List :: "string \<Rightarrow> string \<Rightarrow> int \<Rightarrow> int \<Rightarrow> (monitor, SLISnapshot list \<times> int) io" where
  "SLIRead_List tenantID scope limit offset = counted_page ''list slis'' (\<lambda>c. - si_ID c) limit offset
     (\<lambda>s. map lr_snap (filter (live_sli tenantID scope) (mo_slis s)))"

definition SLORead_Get :: "string \<Rightarrow> string \<Rightarrow> int \<Rightarrow> (monitor, SLOSnapshot) io" where
  "SLORead_Get tenantID scope i = transaction
     (io_bind (io_read (\<lambda>s. find (live_slo tenantID scope i) (mo_slos s))) (\<lambda>found.
      case found of None \<Rightarrow> io_fail (NotFoundError ''slo'') | Some row \<Rightarrow> io_return (lo_snap row)))"

definition SLORead_List :: "string \<Rightarrow> string \<Rightarrow> int \<Rightarrow> int \<Rightarrow> (monitor, SLOSnapshot list \<times> int) io" where
  "SLORead_List tenantID scope limit offset = counted_page ''list slos'' (\<lambda>c. - so_ID c) limit offset
     (\<lambda>s. map lo_snap (filter (\<lambda>row. so_TenantID (lo_snap row) = tenantID \<and> lo_deleted row = None \<and> in_group scope (lo_group row)) (mo_slos s)))"

definition budgets_of :: "string \<Rightarrow> int \<Rightarrow> monitor \<Rightarrow> Budget list" where
  "budgets_of tenantID sloID s = filter (\<lambda>b. bu_TenantID b = tenantID \<and> bu_SLOID b = sloID) (mo_budgets s)"

definition BudgetRead_GetCurrent :: "string \<Rightarrow> int \<Rightarrow> (monitor, Budget) io" where
  "BudgetRead_GetCurrent tenantID sloID = transaction
     (io_bind (io_read (\<lambda>s. sort_key (\<lambda>b. - bu_WindowStart b) (budgets_of tenantID sloID s))) (\<lambda>rows.
      case rows of [] \<Rightarrow> io_fail (NotFoundError ''budget'') | b # _ \<Rightarrow> io_return b))"

definition BudgetRead_ListHistory :: "string \<Rightarrow> int \<Rightarrow> int \<Rightarrow> int \<Rightarrow> (monitor, Budget list \<times> int) io" where
  "BudgetRead_ListHistory tenantID sloID limit offset =
     counted_page ''list budgets'' (\<lambda>b. - bu_WindowStart b) limit offset (budgets_of tenantID sloID)"

definition AlertRead_Get :: "string \<Rightarrow> int \<Rightarrow> (monitor, AlertRow) io" where
  "AlertRead_Get tenantID i = transaction
     (io_bind (io_read (\<lambda>s. find (\<lambda>a. al_TenantID a = tenantID \<and> al_ID a = i) (mo_alerts s))) (\<lambda>found.
      case found of None \<Rightarrow> io_fail (NotFoundError ''budget_alert'') | Some a \<Rightarrow> io_return a))"

definition AlertRead_List :: "string \<Rightarrow> int option \<Rightarrow> string option \<Rightarrow> int \<Rightarrow> int \<Rightarrow> (monitor, AlertRow list \<times> int) io" where
  "AlertRead_List tenantID sloID status limit offset = counted_page ''list budget alerts'' (\<lambda>a. - al_TriggeredAt a) limit offset
     (\<lambda>s. filter (\<lambda>a. al_TenantID a = tenantID \<and> (case sloID of None \<Rightarrow> True | Some i \<Rightarrow> al_SLOID a = i)
        \<and> (case status of None \<Rightarrow> True | Some st \<Rightarrow> al_Status a = st)) (mo_alerts s))"

subsection \<open>Use cases\<close>

type_synonym ('k, 'a) monitor_io = "(('k, monitor) sworld, 'a) io"

definition CreateCheck :: "Libs \<Rightarrow> env \<Rightarrow> (nat \<Rightarrow> monitor \<Rightarrow> monitor) \<Rightarrow> CheckCreateInput \<Rightarrow> ('k, CheckSnapshot) monitor_io" where
  "CreateCheck lb env other inp =
     io_bind (on_world (now_call env)) (\<lambda>now.
     io_bind (io_lift (Check_NormalizeCreate lb now inp)) (\<lambda>spec.
     db_call env other (\<lambda>_. CheckRepository_Create spec)))"

record ChangeStatusInput =
  cg_TenantID :: string
  cg_ResourceGroupID :: string
  cg_ID :: int
  cg_Version :: int

definition PauseCheck :: "env \<Rightarrow> (nat \<Rightarrow> monitor \<Rightarrow> monitor) \<Rightarrow> ChangeStatusInput \<Rightarrow> ('k, CheckSnapshot) monitor_io" where
  "PauseCheck env other inp =
     db_call env other (\<lambda>_. CheckRepository_ChangeStatus (cg_TenantID inp) (cg_ResourceGroupID inp) (cg_ID inp) (cg_Version inp) ActionPause)"

definition ResumeCheck :: "env \<Rightarrow> (nat \<Rightarrow> monitor \<Rightarrow> monitor) \<Rightarrow> ChangeStatusInput \<Rightarrow> ('k, CheckSnapshot) monitor_io" where
  "ResumeCheck env other inp =
     db_call env other (\<lambda>_. CheckRepository_ChangeStatus (cg_TenantID inp) (cg_ResourceGroupID inp) (cg_ID inp) (cg_Version inp) ActionResume)"

definition DeleteCheck :: "env \<Rightarrow> (nat \<Rightarrow> monitor \<Rightarrow> monitor) \<Rightarrow> ChangeStatusInput \<Rightarrow> ('k, unit) monitor_io" where
  "DeleteCheck env other inp =
     db_call env other (\<lambda>_. CheckRepository_Delete (cg_TenantID inp) (cg_ResourceGroupID inp) (cg_ID inp) (cg_Version inp))"

definition CreateSLI :: "env \<Rightarrow> (nat \<Rightarrow> monitor \<Rightarrow> monitor) \<Rightarrow> string \<Rightarrow> SLICreateInput \<Rightarrow> ('k, SLISnapshot) monitor_io" where
  "CreateSLI env other tenantID inp =
     io_bind (io_lift (SLI_NormalizeCreate inp)) (\<lambda>spec. db_call env other (\<lambda>_. SLIRepository_Create tenantID spec))"

definition DeleteSLI :: "env \<Rightarrow> (nat \<Rightarrow> monitor \<Rightarrow> monitor) \<Rightarrow> ChangeStatusInput \<Rightarrow> ('k, unit) monitor_io" where
  "DeleteSLI env other inp =
     (if cg_ID inp \<le> 0 then io_fail (ValidationError ''id'')
      else db_call env other (\<lambda>_. SLIRepository_Delete (cg_TenantID inp) (cg_ResourceGroupID inp) (cg_ID inp) (cg_Version inp)))"

definition CreateSLO :: "(float64 \<Rightarrow> rat) \<Rightarrow> env \<Rightarrow> (nat \<Rightarrow> monitor \<Rightarrow> monitor) \<Rightarrow> string \<Rightarrow> SLOCreateInput \<Rightarrow> ('k, SLOSnapshot) monitor_io" where
  "CreateSLO dec env other tenantID inp =
     io_bind (io_lift (SLO_NormalizeCreate inp)) (\<lambda>spec. db_call env other (\<lambda>_. SLORepository_Create dec tenantID spec))"

definition DeleteSLO :: "env \<Rightarrow> (nat \<Rightarrow> monitor \<Rightarrow> monitor) \<Rightarrow> ChangeStatusInput \<Rightarrow> ('k, unit) monitor_io" where
  "DeleteSLO env other inp =
     (if cg_ID inp \<le> 0 then io_fail (ValidationError ''id'')
      else db_call env other (\<lambda>_. SLORepository_Delete (cg_TenantID inp) (cg_ResourceGroupID inp) (cg_ID inp) (cg_Version inp)))"

definition ChangeSLOStatus :: "env \<Rightarrow> (nat \<Rightarrow> monitor \<Rightarrow> monitor) \<Rightarrow> ChangeStatusInput \<Rightarrow> string \<Rightarrow> ('k, SLOSnapshot) monitor_io" where
  "ChangeSLOStatus env other inp status =
     (if cg_ID inp \<le> 0 then io_fail (ValidationError ''id'')
      else if status \<notin> set ValidStatuses then io_fail (ValidationError ''status'')
      else db_call env other (\<lambda>_. SLORepository_ChangeStatus (cg_TenantID inp) (cg_ResourceGroupID inp) (cg_ID inp) (cg_Version inp) status))"

definition PauseSLO :: "env \<Rightarrow> (nat \<Rightarrow> monitor \<Rightarrow> monitor) \<Rightarrow> ChangeStatusInput \<Rightarrow> ('k, SLOSnapshot) monitor_io" where
  "PauseSLO env other inp = ChangeSLOStatus env other inp SLO_StatusPaused"

definition ResumeSLO :: "env \<Rightarrow> (nat \<Rightarrow> monitor \<Rightarrow> monitor) \<Rightarrow> ChangeStatusInput \<Rightarrow> ('k, SLOSnapshot) monitor_io" where
  "ResumeSLO env other inp = ChangeSLOStatus env other inp SLO_StatusActive"

definition query_limit :: "int \<Rightarrow> int" where
  "query_limit limit = (let l = (if limit \<le> 0 then 50 else limit) in if l > 100 then 100 else l)"

definition ListSLIs :: "env \<Rightarrow> (nat \<Rightarrow> monitor \<Rightarrow> monitor) \<Rightarrow> string \<Rightarrow> string \<Rightarrow> int \<Rightarrow> int \<Rightarrow> ('k, SLISnapshot list \<times> int) monitor_io" where
  "ListSLIs env other tenantID scope limit offset = db_call env other (\<lambda>_. SLIRead_List tenantID scope (query_limit limit) offset)"

definition ListSLOs :: "env \<Rightarrow> (nat \<Rightarrow> monitor \<Rightarrow> monitor) \<Rightarrow> string \<Rightarrow> string \<Rightarrow> int \<Rightarrow> int \<Rightarrow> ('k, SLOSnapshot list \<times> int) monitor_io" where
  "ListSLOs env other tenantID scope limit offset = db_call env other (\<lambda>_. SLORead_List tenantID scope (query_limit limit) offset)"

text \<open>A budget that cannot be read, for whatever reason, is left out of the objective.\<close>

definition GetSLO :: "env \<Rightarrow> (nat \<Rightarrow> monitor \<Rightarrow> monitor) \<Rightarrow> string \<Rightarrow> string \<Rightarrow> int \<Rightarrow> ('k, SLOSnapshot \<times> Budget option) monitor_io" where
  "GetSLO env other tenantID scope i =
     io_bind (db_call env other (\<lambda>_. SLORead_Get tenantID scope i)) (\<lambda>snap.
     io_bind (io_try (db_call env other (\<lambda>_. BudgetRead_GetCurrent tenantID (so_ID snap)))) (\<lambda>r.
     io_return (snap, case r of Inl _ \<Rightarrow> None | Inr b \<Rightarrow> Some b)))"

datatype budget_answer = NoData | CurrentBudget Budget

fun names_budget :: "err \<Rightarrow> bool" where
  "names_budget (NotFoundError r) = (r = ''budget'')"
| "names_budget (Wrapf _ e) = names_budget e"
| "names_budget _ = False"

definition GetBudget :: "env \<Rightarrow> (nat \<Rightarrow> monitor \<Rightarrow> monitor) \<Rightarrow> string \<Rightarrow> int \<Rightarrow> ('k, budget_answer) monitor_io" where
  "GetBudget env other tenantID sloID =
     (if sloID \<le> 0 then io_fail (ValidationError ''slo_id'')
      else io_bind (io_try (db_call env other (\<lambda>_. BudgetRead_GetCurrent tenantID sloID))) (\<lambda>r.
        case r of
          Inr b \<Rightarrow> io_return (CurrentBudget b)
        | Inl e \<Rightarrow> if names_budget e then io_return NoData else io_fail e))"

definition ListBudgetHistory :: "env \<Rightarrow> (nat \<Rightarrow> monitor \<Rightarrow> monitor) \<Rightarrow> string \<Rightarrow> int \<Rightarrow> int \<Rightarrow> int \<Rightarrow> ('k, Budget list \<times> int) monitor_io" where
  "ListBudgetHistory env other tenantID sloID limit offset =
     db_call env other (\<lambda>_. BudgetRead_ListHistory tenantID sloID (query_limit limit) offset)"

definition GetAlert :: "env \<Rightarrow> (nat \<Rightarrow> monitor \<Rightarrow> monitor) \<Rightarrow> string \<Rightarrow> int \<Rightarrow> ('k, AlertRow) monitor_io" where
  "GetAlert env other tenantID i =
     (if i \<le> 0 then io_fail (ValidationError ''id'') else db_call env other (\<lambda>_. AlertRead_Get tenantID i))"

definition ListAlerts ::
    "env \<Rightarrow> (nat \<Rightarrow> monitor \<Rightarrow> monitor) \<Rightarrow> string \<Rightarrow> int option \<Rightarrow> string option \<Rightarrow> int \<Rightarrow> int \<Rightarrow> ('k, AlertRow list \<times> int) monitor_io" where
  "ListAlerts env other tenantID sloID status limit offset =
     db_call env other (\<lambda>_. AlertRead_List tenantID sloID status (query_limit limit) offset)"

subsection \<open>What the commands keep\<close>

text \<open>The interface of the commands to the tables: whatever the repository keeps, every command keeps.\<close>

locale admin_monitor_store = service R env S other
  for R :: "ledger \<Rightarrow> ledger \<Rightarrow> bool" and env :: env and S :: "monitor \<Rightarrow> monitor \<Rightarrow> bool" and other :: "nat \<Rightarrow> monitor \<Rightarrow> monitor" +
  fixes dec :: "float64 \<Rightarrow> rat"
  assumes check_writes: "io_keeps S (CheckRepository_Create spec)" "io_keeps S (CheckRepository_ChangeStatus t g i v a)" "io_keeps S (CheckRepository_Delete t g i v)"
    and sli_writes: "io_keeps S (SLIRepository_Create t lspec)" "io_keeps S (SLIRepository_Delete t g i v)"
    and slo_writes: "io_keeps S (SLORepository_Create dec t ospec)" "io_keeps S (SLORepository_ChangeStatus t g i v st)" "io_keeps S (SLORepository_Delete t g i v)"
begin

lemma CreateCheck_keeps: "io_keeps (on_service R S) (CreateCheck lb env other inp)"
  unfolding CreateCheck_def by (intro sintros world clock db check_writes)

lemma check_commands_keep:
  "io_keeps (on_service R S) (PauseCheck env other inp)" "io_keeps (on_service R S) (ResumeCheck env other inp)"
  "io_keeps (on_service R S) (DeleteCheck env other inp)"
  unfolding PauseCheck_def ResumeCheck_def DeleteCheck_def by (intro db check_writes)+

lemma sli_commands_keep:
  "io_keeps (on_service R S) (CreateSLI env other t lin)" "io_keeps (on_service R S) (DeleteSLI env other inp)"
  unfolding CreateSLI_def DeleteSLI_def by (auto intro!: sintros db sli_writes)

lemma slo_commands_keep:
  "io_keeps (on_service R S) (CreateSLO dec env other t oin)" "io_keeps (on_service R S) (DeleteSLO env other inp)"
  "io_keeps (on_service R S) (PauseSLO env other inp)" "io_keeps (on_service R S) (ResumeSLO env other inp)"
  unfolding CreateSLO_def DeleteSLO_def PauseSLO_def ResumeSLO_def ChangeSLOStatus_def by (auto intro!: sintros db slo_writes)

lemmas commands_keep = CreateCheck_keeps check_commands_keep sli_commands_keep slo_commands_keep

end

lemma admin_monitor_evolves:
  assumes "\<And>n l. ledger_evolves l (en_other env n l)" and "\<And>n s. monitor_kept s (other n s)"
  shows "admin_monitor_store ledger_evolves env monitor_kept other dec"
  using assms ledger_evolves_refl ledger_evolves_trans monitor_kept_refl monitor_kept_trans
  by unfold_locales (auto intro: wf_check_create wf_check_status wf_check_delete wf_sli_create wf_sli_delete wf_slo_create wf_slo_writes)

interpretation quiet_admin: admin_monitor_store ledger_evolves "quiet now" monitor_kept "\<lambda>_ s. s" dec for now dec
  using ledger_evolves_refl
  by (intro admin_monitor_evolves) (simp_all add: quiet_def reflp_def monitor_kept_def)

end
