(* ===== verification/Function_Store.thy ===== *)
theory Function_Store
  imports Service_Hoare
begin

section \<open>The tables of functions\<close>

text \<open>
  \<open>internal/core/store/postgres/function_repository.go\<close>: the definitions (\<open>functions\<close>) and the read model of finished invocations (\<open>function_runs\<close>).
  From the schema the model takes the \<open>CHECK\<close>s, the keys, the foreign keys and the range of \<open>INT\<close> columns, not the widths of character columns.
  A command, an argument list and the labels are stored as JSON of the same value, with \<open>nil\<close> written as empty. A soft delete is the column
  \<open>deleted_at\<close>; no read selects it. \<open>uuid\<close> is what PostgreSQL makes of a \<open>uuid\<close> literal.
\<close>

record FunctionRow =
  fw_def :: FunctionDefinition
  fw_deleted :: "time option"

record FunctionRun =
  fu_ID :: int
  fu_RunID :: string
  fu_TenantID :: string
  fu_FunctionID :: int
  fu_Status :: string
  fu_TriggeredAt :: time
  fu_StartedAt :: "time option"
  fu_FinishedAt :: "time option"
  fu_DurationMs :: "int option"
  fu_Version :: int
  fu_CreatedAt :: time

record function_db =
  fn_tenants :: "string list"
  fn_defs :: "FunctionRow list"
  fn_runs :: "FunctionRun list"
  fn_def_seq :: int
  fn_run_seq :: int
  fn_clock :: time

definition empty_functions :: function_db where
  "empty_functions = \<lparr>fn_tenants = [], fn_defs = [], fn_runs = [], fn_def_seq = 1, fn_run_seq = 1, fn_clock = 0\<rparr>"

subsection \<open>Definitions\<close>

definition Function_StatusActive :: string where "Function_StatusActive = ''active''"
definition Function_StatusPaused :: string where "Function_StatusPaused = ''paused''"

definition blank :: "string \<Rightarrow> bool" where
  "blank s \<longleftrightarrow> list_all (\<lambda>c. c = CHR '' '') s"

definition function_row_ok :: "FunctionDefinition \<Rightarrow> bool" where
  "function_row_ok d \<longleftrightarrow> fd_Status d \<in> {Function_StatusActive, Function_StatusPaused} \<and> \<not> blank (fd_Image d)
     \<and> 1 \<le> fd_TimeoutSeconds d \<and> 0 \<le> fd_RetryLimit d \<and> 0 \<le> fd_HistorySuccess d \<and> 0 \<le> fd_HistoryFailed d
     \<and> 1 \<le> fd_Version d \<and> fd_TenantID d \<noteq> []"

definition function_ints_fit :: "FunctionDefinition \<Rightarrow> bool" where
  "function_ints_fit d \<longleftrightarrow> int4 (fd_TimeoutSeconds d) \<and> int4 (fd_RetryLimit d) \<and> int4 (fd_HistorySuccess d)
     \<and> int4 (fd_HistoryFailed d) \<and> int4 (fd_Version d)"

definition Function_CreateForTenant :: "string \<Rightarrow> FunctionDefinition \<Rightarrow> (function_db, FunctionDefinition) io" where
  "Function_CreateForTenant tenantID def = transaction (\<lambda>s.
     let status = (if fd_Status def = [] then Function_StatusActive else fd_Status def);
         version = (if fd_Version def < 1 then 1 else fd_Version def);
         snap = def\<lparr>fd_ID := fn_def_seq s, fd_TenantID := tenantID, fd_Status := status, fd_Version := version,
                    fd_CreatedAt := fn_clock s, fd_UpdatedAt := fn_clock s\<rparr> in
     if \<not> function_ints_fit snap then (Inl (Wrapf ''insert function'' (DbError ''integer out of range'')), s)
     else if \<not> function_row_ok snap then (Inl (Wrapf ''insert function'' (DbError ''check constraint'')), s)
     else if tenantID \<notin> set (fn_tenants s) then (Inl (Wrapf ''insert function'' (DbError ''foreign key'')), s)
     else (Inr snap, s\<lparr>fn_defs := fn_defs s @ [\<lparr>fw_def = snap, fw_deleted = None\<rparr>], fn_def_seq := fn_def_seq s + 1\<rparr>))"

definition live_function :: "string \<Rightarrow> int \<Rightarrow> FunctionRow \<Rightarrow> bool" where
  "live_function tenantID i row \<longleftrightarrow> fd_TenantID (fw_def row) = tenantID \<and> fd_ID (fw_def row) = i \<and> fw_deleted row = None"

text \<open>The resource group is not among the columns an update writes.\<close>

definition function_update :: "FunctionDefinition \<Rightarrow> time \<Rightarrow> FunctionDefinition \<Rightarrow> FunctionDefinition" where
  "function_update def now old = old\<lparr>fd_Name := fd_Name def, fd_Description := fd_Description def, fd_Status := fd_Status def,
     fd_Image := fd_Image def, fd_Command := fd_Command def, fd_Args := fd_Args def, fd_TimeoutSeconds := fd_TimeoutSeconds def,
     fd_RetryLimit := fd_RetryLimit def, fd_HistorySuccess := fd_HistorySuccess def, fd_HistoryFailed := fd_HistoryFailed def,
     fd_Labels := fd_Labels def, fd_Version := fd_Version old + 1, fd_UpdatedAt := now\<rparr>"

definition Function_UpdateForTenant :: "string \<Rightarrow> FunctionDefinition \<Rightarrow> (function_db, FunctionDefinition) io" where
  "Function_UpdateForTenant tenantID def = transaction (\<lambda>s.
     let hit = (\<lambda>row. live_function tenantID (fd_ID def) row \<and> fd_Version (fw_def row) = fd_Version def) in
     case find hit (fn_defs s) of
       None \<Rightarrow> (Inl (if filter (live_function tenantID (fd_ID def)) (fn_defs s) = [] then NotFoundError ''function''
                     else ConflictError ''function''), s)
     | Some row \<Rightarrow>
         let new = function_update def (fn_clock s) (fw_def row) in
         if \<not> function_ints_fit new then (Inl (Wrapf ''update function'' (DbError ''integer out of range'')), s)
         else if \<not> function_row_ok new then (Inl (Wrapf ''update function'' (DbError ''check constraint'')), s)
         else (Inr new, s\<lparr>fn_defs := map (\<lambda>row. if hit row
                 then row\<lparr>fw_def := function_update def (fn_clock s) (fw_def row)\<rparr> else row) (fn_defs s)\<rparr>))"

definition Function_GetForTenant :: "string \<Rightarrow> int \<Rightarrow> (function_db, FunctionDefinition option) io" where
  "Function_GetForTenant tenantID i = transaction (io_read (\<lambda>s. map_option fw_def (find (live_function tenantID i) (fn_defs s))))"

definition listScoped :: "string \<Rightarrow> bool \<Rightarrow> (function_db, FunctionDefinition list) io" where
  "listScoped tenantID activeOnly = transaction (io_read (\<lambda>s. sort_key fd_ID (map fw_def (filter (\<lambda>row.
     fd_TenantID (fw_def row) = tenantID \<and> fw_deleted row = None
     \<and> (activeOnly \<longrightarrow> fd_Status (fw_def row) = Function_StatusActive)) (fn_defs s)))))"

definition Function_ListForTenant :: "string \<Rightarrow> (function_db, FunctionDefinition list) io" where
  "Function_ListForTenant tenantID = listScoped tenantID False"

definition Function_ActiveForTenant :: "string \<Rightarrow> (function_db, FunctionDefinition list) io" where
  "Function_ActiveForTenant tenantID = listScoped tenantID True"

definition Function_DeleteForTenant :: "string \<Rightarrow> int \<Rightarrow> (function_db, unit) io" where
  "Function_DeleteForTenant tenantID i = transaction (\<lambda>s.
     if filter (live_function tenantID i) (fn_defs s) = [] then (Inl (NotFoundError ''function''), s)
     else (Inr (), s\<lparr>fn_defs := map (\<lambda>row. if live_function tenantID i row
              then row\<lparr>fw_deleted := Some (fn_clock s), fw_def := (fw_def row)\<lparr>fd_Version := fd_Version (fw_def row) + 1,
                       fd_UpdatedAt := fn_clock s\<rparr>\<rparr> else row) (fn_defs s)\<rparr>))"

subsection \<open>Finished invocations\<close>

definition function_run_statuses :: "string list" where
  "function_run_statuses = [''success'', ''failed'', ''canceled'']"

text \<open>The zero start of an invocation canceled before it began is written as an instant, not as \<open>NULL\<close>.\<close>

definition complete_function_record :: "time \<Rightarrow> CompletedRecord \<Rightarrow> CompletedRecord" where
  "complete_function_record now req =
     (let req = (if time_IsZero (cp_FinishedAt req) then req\<lparr>cp_FinishedAt := now\<rparr> else req);
          req = (if cp_Status req \<noteq> ''canceled'' \<and> time_IsZero (cp_StartedAt req)
                 then req\<lparr>cp_StartedAt := cp_TriggeredAt req\<rparr> else req)
      in if cp_DurationMs req < 0 then req\<lparr>cp_DurationMs := 0\<rparr> else req)"

definition recordCompletedFunctionRunSQL ::
    "(string \<Rightarrow> string option) \<Rightarrow> string \<Rightarrow> CompletedRecord \<Rightarrow> (function_db, int option) io" where
  "recordCompletedFunctionRunSQL uuid tenantID req = (\<lambda>s.
     case uuid (cp_RunID req) of
       None \<Rightarrow> (Inl (DbError ''invalid input syntax for type uuid''), s)
     | Some runID \<Rightarrow>
         if \<not> int4 (cp_DurationMs req) then (Inl (DbError ''integer out of range''), s)
         else if cp_FinishedAt req < cp_StartedAt req \<or> cp_DurationMs req < 0 then (Inl (DbError ''check constraint''), s)
         else if runID \<in> fu_RunID ` set (fn_runs s) then (Inr None, s)
         else if tenantID \<notin> set (fn_tenants s)
             \<or> \<not> (\<exists>row \<in> set (fn_defs s). fd_TenantID (fw_def row) = tenantID \<and> fd_ID (fw_def row) = cp_FunctionID req)
           then (Inl (DbError ''foreign key''), s)
         else (Inr (Some (fn_run_seq s)),
               s\<lparr>fn_runs := fn_runs s @
                   [\<lparr>fu_ID = fn_run_seq s, fu_RunID = runID, fu_TenantID = tenantID, fu_FunctionID = cp_FunctionID req,
                     fu_Status = cp_Status req, fu_TriggeredAt = cp_TriggeredAt req, fu_StartedAt = Some (cp_StartedAt req),
                     fu_FinishedAt = Some (cp_FinishedAt req), fu_DurationMs = Some (cp_DurationMs req), fu_Version = 1,
                     fu_CreatedAt = fn_clock s\<rparr>],
                 fn_run_seq := fn_run_seq s + 1\<rparr>))"

definition FunctionRun_RecordCompleted ::
    "(string \<Rightarrow> string option) \<Rightarrow> time \<Rightarrow> string \<Rightarrow> CompletedRecord \<Rightarrow> (function_db, unit) io" where
  "FunctionRun_RecordCompleted uuid now tenantID req =
     (if cp_RunID req = [] then io_fail (Errorf ''run id is required'')
      else if cp_FunctionID req < 1 then io_fail (Errorf ''function id is required'')
      else if cp_Status req \<notin> set function_run_statuses then io_fail (Errorf ''not a terminal function-run status'')
      else if time_IsZero (cp_TriggeredAt req) then io_fail (Errorf ''triggered_at is required'')
      else transaction
        (io_bind (io_wrap ''record completed function run''
           (recordCompletedFunctionRunSQL uuid tenantID (complete_function_record now req))) (\<lambda>inserted.
         case inserted of
           None \<Rightarrow> io_fail (Wrapf ''record completed function run'' (DbError ''no rows''))
         | Some _ \<Rightarrow> io_return ())))"

definition RunByRunID :: "(string \<Rightarrow> string option) \<Rightarrow> string \<Rightarrow> int \<Rightarrow> string \<Rightarrow> (function_db, FunctionRun option) io" where
  "RunByRunID uuid tenantID functionID runID = transaction (\<lambda>s.
     case uuid runID of
       None \<Rightarrow> (Inl (Wrapf ''get function run'' (DbError ''invalid input syntax for type uuid'')), s)
     | Some u \<Rightarrow> (Inr (find (\<lambda>r. fu_TenantID r = tenantID \<and> fu_FunctionID r = functionID \<and> fu_RunID r = u) (fn_runs s)), s))"

definition RunsByFunction :: "string \<Rightarrow> int \<Rightarrow> int \<Rightarrow> (function_db, FunctionRun list) io" where
  "RunsByFunction tenantID functionID limit = transaction (io_read (\<lambda>s.
     let limit = (if limit < 1 then defaultRunPage else limit) in
     take (nat limit) (sort_key (\<lambda>r. (- fu_CreatedAt r, - fu_ID r))
       (filter (\<lambda>r. fu_TenantID r = tenantID \<and> fu_FunctionID r = functionID) (fn_runs s)))))"

subsection \<open>The invariant\<close>

definition functions_wf :: "function_db \<Rightarrow> bool" where
  "functions_wf s \<longleftrightarrow> distinct (map (\<lambda>r. fd_ID (fw_def r)) (fn_defs s))
     \<and> (\<forall>r \<in> set (fn_defs s). fd_ID (fw_def r) < fn_def_seq s \<and> function_row_ok (fw_def r) \<and> fd_TenantID (fw_def r) \<in> set (fn_tenants s))
     \<and> distinct (map fu_ID (fn_runs s)) \<and> distinct (map fu_RunID (fn_runs s))
     \<and> (\<forall>r \<in> set (fn_runs s). fu_ID r < fn_run_seq s \<and> fu_Status r \<in> set function_run_statuses
          \<and> (fu_TenantID r, fu_FunctionID r) \<in> (\<lambda>r. (fd_TenantID (fw_def r), fd_ID (fw_def r))) ` set (fn_defs s))"

definition functions_kept :: "function_db \<Rightarrow> function_db \<Rightarrow> bool" where
  "functions_kept s t \<longleftrightarrow> (functions_wf s \<longrightarrow> functions_wf t)"

lemma functions_kept_refl: "reflp functions_kept" by (simp add: reflp_def functions_kept_def)
lemma functions_kept_trans: "transp functions_kept" by (auto simp: transp_def functions_kept_def)

lemma empty_functions_wf: "functions_wf empty_functions"
  by (simp add: functions_wf_def empty_functions_def)

lemmas functions_tx = tx_keeps [OF functions_kept_refl] io_read_keeps [OF functions_kept_refl]
  io_keeps_pure [OF functions_kept_refl] io_keeps_bind [OF functions_kept_trans] io_keeps_wrap

lemma wf_function_create: "io_keeps functions_kept (Function_CreateForTenant t def)"
  unfolding Function_CreateForTenant_def
  by (rule functions_tx) (auto simp: io_keeps_def functions_kept_def functions_wf_def Let_def function_row_ok_def)

text \<open>A change of rows that keeps identities and the row constraints.\<close>

lemma functions_wf_map:
  assumes "functions_wf s" and "\<And>r. r \<in> set (fn_defs s) \<Longrightarrow> fd_ID (fw_def (f r)) = fd_ID (fw_def r) \<and> fd_TenantID (fw_def (f r)) = fd_TenantID (fw_def r)
      \<and> function_row_ok (fw_def (f r))"
  shows "functions_wf (s\<lparr>fn_defs := map f (fn_defs s)\<rparr>)"
proof -
  have ids: "map (\<lambda>r. fd_ID (fw_def r)) (map f (fn_defs s)) = map (\<lambda>r. fd_ID (fw_def r)) (fn_defs s)" using assms(2) by simp
  have pairs: "map (\<lambda>r. (fd_TenantID (fw_def r), fd_ID (fw_def r))) (map f (fn_defs s)) = map (\<lambda>r. (fd_TenantID (fw_def r), fd_ID (fw_def r))) (fn_defs s)"
    using assms(2) by simp
  have keys: "(\<lambda>r. (fd_TenantID (fw_def r), fd_ID (fw_def r))) ` set (map f (fn_defs s)) = (\<lambda>r. (fd_TenantID (fw_def r), fd_ID (fw_def r))) ` set (fn_defs s)"
    unfolding list.set_map [symmetric, of "\<lambda>r. (fd_TenantID (fw_def r), fd_ID (fw_def r))"] pairs ..
  have rows: "\<forall>r \<in> set (map f (fn_defs s)). fd_ID (fw_def r) < fn_def_seq s \<and> function_row_ok (fw_def r) \<and> fd_TenantID (fw_def r) \<in> set (fn_tenants s)"
    using assms by (auto simp: functions_wf_def)
  have d: "distinct (map (\<lambda>r. fd_ID (fw_def r)) (map f (fn_defs s)))" unfolding ids using assms(1) by (simp add: functions_wf_def)
  have rest: "distinct (map fu_ID (fn_runs s))" "distinct (map fu_RunID (fn_runs s))"
    "\<forall>r \<in> set (fn_runs s). fu_ID r < fn_run_seq s \<and> fu_Status r \<in> set function_run_statuses
       \<and> (fu_TenantID r, fu_FunctionID r) \<in> (\<lambda>r. (fd_TenantID (fw_def r), fd_ID (fw_def r))) ` set (map f (fn_defs s))"
    unfolding keys using assms(1) by (simp_all add: functions_wf_def)
  have upd: "fn_defs (s\<lparr>fn_defs := map f (fn_defs s)\<rparr>) = map f (fn_defs s)" "fn_runs (s\<lparr>fn_defs := map f (fn_defs s)\<rparr>) = fn_runs s"
    "fn_def_seq (s\<lparr>fn_defs := map f (fn_defs s)\<rparr>) = fn_def_seq s" "fn_run_seq (s\<lparr>fn_defs := map f (fn_defs s)\<rparr>) = fn_run_seq s"
    "fn_tenants (s\<lparr>fn_defs := map f (fn_defs s)\<rparr>) = fn_tenants s" by simp_all
  show ?thesis unfolding functions_wf_def upd by (intro conjI d rows rest)
qed

lemma wf_function_update: "io_keeps functions_kept (Function_UpdateForTenant t def)"
  unfolding Function_UpdateForTenant_def
proof (rule functions_tx, unfold io_keeps_def functions_kept_def, intro allI impI)
  fix s assume wf: "functions_wf s"
  let ?hit = "\<lambda>row. live_function t (fd_ID def) row \<and> fd_Version (fw_def row) = fd_Version def"
  let ?f = "\<lambda>row. if ?hit row then row\<lparr>fw_def := function_update def (fn_clock s) (fw_def row)\<rparr> else row"
  have one: "r = row" if "find ?hit (fn_defs s) = Some row" "r \<in> set (fn_defs s)" "?hit r" for r row
  proof -
    have "row \<in> set (fn_defs s)" "?hit row" using that(1) by (auto dest: find_SomeD)
    then show ?thesis using that(2,3) wf by (auto simp: functions_wf_def live_function_def dest: distinct_map_eq)
  qed
  have "functions_wf (s\<lparr>fn_defs := map ?f (fn_defs s)\<rparr>)" if "find ?hit (fn_defs s) = Some row" "function_row_ok (function_update def (fn_clock s) (fw_def row))" for row
    using wf one [OF that(1)] that(2) by (intro functions_wf_map) (auto simp: functions_wf_def function_update_def)
  with wf show "functions_wf (snd (let hit = ?hit in
     case find hit (fn_defs s) of
       None \<Rightarrow> (Inl (if filter (live_function t (fd_ID def)) (fn_defs s) = [] then NotFoundError ''function''
                     else ConflictError ''function''), s)
     | Some row \<Rightarrow>
         let new = function_update def (fn_clock s) (fw_def row) in
         if \<not> function_ints_fit new then (Inl (Wrapf ''update function'' (DbError ''integer out of range'')), s)
         else if \<not> function_row_ok new then (Inl (Wrapf ''update function'' (DbError ''check constraint'')), s)
         else (Inr new, s\<lparr>fn_defs := map (\<lambda>row. if hit row
                 then row\<lparr>fw_def := function_update def (fn_clock s) (fw_def row)\<rparr> else row) (fn_defs s)\<rparr>)))"
    by (auto simp: Let_def split: option.splits)
qed

lemma wf_function_delete: "io_keeps functions_kept (Function_DeleteForTenant t i)"
  unfolding Function_DeleteForTenant_def
proof (rule functions_tx, unfold io_keeps_def functions_kept_def, intro allI impI)
  fix s assume wf: "functions_wf s"
  have "function_row_ok ((fw_def r)\<lparr>fd_Version := fd_Version (fw_def r) + 1, fd_UpdatedAt := n\<rparr>) \<and> function_row_ok (fw_def r)"
    if "r \<in> set (fn_defs s)" for r n using wf that by (auto simp: functions_wf_def function_row_ok_def)
  then have "functions_wf (s\<lparr>fn_defs := map (\<lambda>row. if live_function t i row
              then row\<lparr>fw_deleted := Some (fn_clock s), fw_def := (fw_def row)\<lparr>fd_Version := fd_Version (fw_def row) + 1,
                       fd_UpdatedAt := fn_clock s\<rparr>\<rparr> else row) (fn_defs s)\<rparr>)"
    by (intro functions_wf_map [OF wf]) auto
  with wf show "functions_wf (snd (if filter (live_function t i) (fn_defs s) = [] then (Inl (NotFoundError ''function''), s)
     else (Inr (), s\<lparr>fn_defs := map (\<lambda>row. if live_function t i row
              then row\<lparr>fw_deleted := Some (fn_clock s), fw_def := (fw_def row)\<lparr>fd_Version := fd_Version (fw_def row) + 1,
                       fd_UpdatedAt := fn_clock s\<rparr>\<rparr> else row) (fn_defs s)\<rparr>)))" by simp
qed

lemma wf_function_run: "io_keeps functions_kept (FunctionRun_RecordCompleted uuid now t req)"
proof -
  have status: "cp_Status (complete_function_record now req) = cp_Status req" by (simp add: complete_function_record_def Let_def)
  have "io_keeps functions_kept (recordCompletedFunctionRunSQL uuid t (complete_function_record now req))" if "cp_Status req \<in> set function_run_statuses"
    using that status
    by (auto simp: io_keeps_def functions_kept_def functions_wf_def recordCompletedFunctionRunSQL_def image_iff split: option.splits)
  then show ?thesis unfolding FunctionRun_RecordCompleted_def
    by (auto intro!: functions_tx split: option.splits)
qed

text \<open>Recording the same run again is an error, and changes nothing.\<close>

lemma function_run_recorded_once:
  assumes "FunctionRun_RecordCompleted uuid now t req s = (Inr (), s')"
  shows "\<exists>e. FunctionRun_RecordCompleted uuid now' t req s' = (Inl e, s')"
proof -
  have id: "cp_RunID (complete_function_record n req) = cp_RunID req" for n by (simp add: complete_function_record_def Let_def)
  from assms obtain u where "uuid (cp_RunID req) = Some u" "u \<in> fu_RunID ` set (fn_runs s')"
    by (auto simp: FunctionRun_RecordCompleted_def recordCompletedFunctionRunSQL_def tx_apply io_fail_apply io_bind_apply io_wrap_apply
        wrap_result_def io_return_apply id split: if_splits option.splits sum.splits prod.splits)
  then show ?thesis
    by (auto simp: FunctionRun_RecordCompleted_def recordCompletedFunctionRunSQL_def tx_apply io_fail_apply io_bind_apply io_wrap_apply
        wrap_result_def io_return_apply id split: option.splits)
qed

end
