(* ===== verification/Run_Commands.thy ===== *)
theory Run_Commands
  imports Service_Hoare
begin

section \<open>Jobs and runs through the admin API\<close>

text \<open>
  The commands and queries of the admin API on definitions and runs: \<open>internal/admin/app/job\<close>, \<open>internal/admin/app/run\<close>, their read-only repositories
  (\<open>internal/admin/store/postgres/job_get.go\<close>, \<open>job_list.go\<close>, \<open>run_repository.go\<close>, \<open>run_cancel.go\<close>), the guard on a caller's scope
  (\<open>internal/domain/resource\<close>) and the publisher of custom resources (\<open>internal/admin/kube/jobrun.go\<close>). The API server is a record of three calls on
  the cluster; an object it returns always decodes. Fresh entropy is an argument: what \<open>rand.Read\<close> gave, in hexadecimal. Metrics are not modelled.
\<close>

subsection \<open>Scope and paging\<close>

definition RequireUnscoped :: "string \<Rightarrow> string \<Rightarrow> unit result" where
  "RequireUnscoped scope res = (if scope = [] then Inr () else Inl (ScopeError res))"

record GetInput =
  gt_TenantID :: string
  gt_ID :: int
  gt_ResourceGroupID :: string

definition normalize_tenant :: "string \<Rightarrow> string result" where
  "normalize_tenant t = (let tenantID = TrimSpace t in if length tenantID \<noteq> 26 then Inl (ValidationError ''tenant_id'') else Inr tenantID)"

definition Run_NormalizeGetInput :: "GetInput \<Rightarrow> GetInput result" where
  "Run_NormalizeGetInput inp =
     (if gt_ID inp < 1 then Inl (ValidationError ''id'')
      else rbind (RequireUnscoped (gt_ResourceGroupID inp) ''run'') (\<lambda>_.
      rbind (normalize_tenant (gt_TenantID inp)) (\<lambda>tenantID. Inr (inp\<lparr>gt_TenantID := tenantID\<rparr>))))"

definition Job_NormalizeGetInput :: "GetInput \<Rightarrow> GetInput result" where
  "Job_NormalizeGetInput inp =
     (if gt_ID inp < 1 then Inl (ValidationError ''id'')
      else rbind (RequireUnscoped (gt_ResourceGroupID inp) ''job definition'') (\<lambda>_.
      rbind (normalize_tenant (gt_TenantID inp)) (\<lambda>tenantID. Inr (inp\<lparr>gt_TenantID := tenantID\<rparr>))))"

record ListInput =
  li_TenantID :: string
  li_Phase :: string
  li_ResourceGroupID :: string
  li_Limit :: int
  li_Offset :: int

definition DefaultListLimit :: int where "DefaultListLimit = 50"
definition MaxListLimit :: int where "MaxListLimit = 100"

definition listablePhases :: "string list" where
  "listablePhases = map phase_string [Pending, CreatingAttempt, Running, RetryWaiting, Succeeded, Failed, CancelRequested, Canceled, CancelUnknown]"

definition normalize_page :: "ListInput \<Rightarrow> ListInput result" where
  "normalize_page inp =
     (let limit = (if li_Limit inp = 0 then DefaultListLimit else li_Limit inp) in
      if limit < 1 \<or> limit > MaxListLimit then Inl (ValidationError ''limit'')
      else if li_Offset inp < 0 then Inl (ValidationError ''offset'')
      else Inr (inp\<lparr>li_Limit := limit\<rparr>))"

definition Run_NormalizeListInput :: "ListInput \<Rightarrow> ListInput result" where
  "Run_NormalizeListInput inp =
     rbind (RequireUnscoped (li_ResourceGroupID inp) ''run'') (\<lambda>_.
     rbind (normalize_tenant (li_TenantID inp)) (\<lambda>tenantID.
     let phase = TrimSpace (li_Phase inp) in
     if phase \<noteq> [] \<and> phase \<notin> set listablePhases then Inl (ValidationError ''phase'')
     else normalize_page (inp\<lparr>li_TenantID := tenantID, li_Phase := phase\<rparr>)))"

definition Job_NormalizeListInput :: "ListInput \<Rightarrow> ListInput result" where
  "Job_NormalizeListInput inp =
     rbind (RequireUnscoped (li_ResourceGroupID inp) ''job definition'') (\<lambda>_.
     rbind (normalize_tenant (li_TenantID inp)) (\<lambda>tenantID.
     normalize_page (inp\<lparr>li_TenantID := tenantID\<rparr>)))"

definition page :: "ListInput \<Rightarrow> 'a list \<Rightarrow> 'a list" where
  "page inp rows = take (nat (li_Limit inp)) (drop (nat (li_Offset inp)) rows)"

subsection \<open>Definitions\<close>

record JobItem =
  jd_ID :: int
  jd_TenantID :: string
  jd_SourceMode :: string
  jd_SourceUID :: string
  jd_Namespace :: string
  jd_Name :: string
  jd_Generation :: int
  jd_SpecHash :: string
  jd_Actor :: string
  jd_CreatedAt :: time
  jd_Spec :: ScheduledJobSpec
  jd_ScheduleSummary :: string

definition BuildScheduleSummary :: "string \<Rightarrow> bool \<Rightarrow> string" where
  "BuildScheduleSummary schedule suspend =
     (if suspend then ''suspended''
      else let expr = TrimSpace schedule in if expr = [] then ''unscheduled'' else ''cron: '' @ expr)"

definition scanDefinition :: "Ext \<Rightarrow> RevisionRow \<Rightarrow> JobItem result" where
  "scanDefinition x row =
     (let rv = vr_rev row in
      rbind (wrap_result ''decode normalized spec'' (ex_decode x (rev_NormalizedSpec rv))) (\<lambda>spec.
      Inr \<lparr>jd_ID = rev_ID rv, jd_TenantID = vr_tenant row, jd_SourceMode = id_SourceMode (rev_Identity rv),
           jd_SourceUID = id_SourceUID (rev_Identity rv), jd_Namespace = id_Namespace (rev_Identity rv),
           jd_Name = id_Name (rev_Identity rv), jd_Generation = rev_Generation rv, jd_SpecHash = rev_SpecHash rv,
           jd_Actor = rev_Actor rv, jd_CreatedAt = rev_CreatedAt rv, jd_Spec = spec,
           jd_ScheduleSummary = BuildScheduleSummary (ss_Schedule spec) (ss_Suspend spec)\<rparr>))"

text \<open>The source mode is not a condition of the query.\<close>

definition JobRepository_Get :: "Ext \<Rightarrow> string \<Rightarrow> int \<Rightarrow> (ledger, JobItem) io" where
  "JobRepository_Get x tenantID i = WithTenantTransaction tenantID
     (io_bind (io_get (\<lambda>l. find (\<lambda>row. vr_tenant row = tenantID \<and> rev_ID (vr_rev row) = i \<and> vr_active row) (lg_revisions l))) (\<lambda>found.
      case found of
        None \<Rightarrow> io_fail (NotFoundError ''job'')
      | Some row \<Rightarrow> io_lift (wrap_result ''query job definition'' (scanDefinition x row))))"

fun scan_rows :: "Ext \<Rightarrow> RevisionRow list \<Rightarrow> JobItem list result" where
  "scan_rows x [] = Inr []"
| "scan_rows x (row # rows) =
     rbind (scanDefinition x row) (\<lambda>item.
     rbind (scan_rows x rows) (\<lambda>items. Inr (item # items)))"

definition JobRepository_List :: "Ext \<Rightarrow> ListInput \<Rightarrow> (ledger, JobItem list) io" where
  "JobRepository_List x inp = WithTenantTransaction (li_TenantID inp)
     (io_bind (io_get (\<lambda>l. page inp (sort_key (\<lambda>row. (- rev_CreatedAt (vr_rev row), - rev_ID (vr_rev row)))
        (filter (\<lambda>row. vr_tenant row = li_TenantID inp \<and> vr_active row) (lg_revisions l))))) (\<lambda>rows.
      io_lift (scan_rows x rows)))"

subsection \<open>Runs\<close>

definition listed_runs :: "ListInput \<Rightarrow> ledger \<Rightarrow> RunRow list" where
  "listed_runs inp l = filter (\<lambda>r. rn_tenant r = li_TenantID inp \<and> (li_Phase inp = [] \<or> phase_string (rn_phase r) = li_Phase inp)) (lg_runs l)"

definition RunRepository_List :: "ListInput \<Rightarrow> (ledger, RunRow list) io" where
  "RunRepository_List inp = WithTenantTransaction (li_TenantID inp)
     (io_get (\<lambda>l. page inp (sort_key (\<lambda>r. (- rn_created_at r, - rn_id r)) (listed_runs inp l))))"

definition attempts_of :: "string \<Rightarrow> int \<Rightarrow> ledger \<Rightarrow> AttemptRow list" where
  "attempts_of tenantID i l = sort_key ta_number (filter (\<lambda>a. ta_tenant a = tenantID \<and> ta_run a = i) (lg_attempts l))"

definition RunRepository_Get :: "GetInput \<Rightarrow> (ledger, RunRow \<times> AttemptRow list) io" where
  "RunRepository_Get inp = WithTenantTransaction (gt_TenantID inp)
     (io_bind (io_get (\<lambda>l. (run_by_id (gt_TenantID inp) (gt_ID inp) l, attempts_of (gt_TenantID inp) (gt_ID inp) l))) (\<lambda>(run, attempts).
      case run of None \<Rightarrow> io_fail (NotFoundError ''run'') | Some row \<Rightarrow> io_return (row, attempts)))"

definition RunRepository_ListAttempts :: "GetInput \<Rightarrow> (ledger, AttemptRow list) io" where
  "RunRepository_ListAttempts inp = WithTenantTransaction (gt_TenantID inp)
     (io_get (\<lambda>l. if run_by_id (gt_TenantID inp) (gt_ID inp) l = None then [] else attempts_of (gt_TenantID inp) (gt_ID inp) l))"

record CancelTarget =
  ct_Phase :: phase
  ct_OccurrenceKey :: string
  ct_ScheduledJobName :: string
  ct_Namespace :: string

definition GetCancelTarget :: "GetInput \<Rightarrow> (ledger, CancelTarget) io" where
  "GetCancelTarget inp = WithTenantTransaction (gt_TenantID inp)
     (io_bind (io_get (\<lambda>l. case run_by_id (gt_TenantID inp) (gt_ID inp) l of
          None \<Rightarrow> None
        | Some row \<Rightarrow> (case find (\<lambda>rv. rev_ID (vr_rev rv) = rn_revision_id row) (lg_revisions l) of
              None \<Rightarrow> None
            | Some rv \<Rightarrow> Some \<lparr>ct_Phase = rn_phase row, ct_OccurrenceKey = rn_occurrence_key row,
                ct_ScheduledJobName = id_Name (rev_Identity (vr_rev rv)), ct_Namespace = id_Namespace (rev_Identity (vr_rev rv))\<rparr>))) (\<lambda>found.
      case found of None \<Rightarrow> io_fail (NotFoundError ''run'') | Some t \<Rightarrow> io_return t))"

subsection \<open>The publisher\<close>

text \<open>
  The two publishers of the API, for runs and for workflow runs, are the same three calls on two kinds of object: \<open>'o\<close> is what is created, \<open>'v\<close> what is
  read back, \<open>meta\<close> the metadata of an object to create.
\<close>

record ('k, 'o, 'v) CRApi =
  ra_Create :: "'o \<Rightarrow> ('k, 'v) io"
  ra_Get :: "string \<Rightarrow> string \<Rightarrow> ('k, 'v) io"
  ra_Cancel :: "string \<Rightarrow> string \<Rightarrow> ('k, unit) io"

definition create_or_adopt :: "string \<Rightarrow> ('o \<Rightarrow> ObjectMeta) \<Rightarrow> ('k, 'o, 'v) CRApi \<Rightarrow> 'o \<Rightarrow> ('k world, 'v \<times> bool) io" where
  "create_or_adopt kind meta api run =
     (let ns = om_Namespace (meta run); name = om_Name (meta run) in
      if ns = [] \<or> name = [] then io_fail (Errorf (kind @ '' namespace and name are required''))
      else io_bind (io_try (kube_call (ra_Create api run))) (\<lambda>r.
        case r of
          Inr created \<Rightarrow> io_return (created, True)
        | Inl e \<Rightarrow>
            if e \<noteq> ApiAlreadyExists then io_fail (Wrapf (''create '' @ kind) e)
            else io_bind (io_wrap (''read existing '' @ kind) (kube_call (ra_Get api ns name))) (\<lambda>existing.
              io_return (existing, False))))"

definition get_object :: "string \<Rightarrow> ('k, 'o, 'v) CRApi \<Rightarrow> string \<Rightarrow> string \<Rightarrow> ('k world, 'v) io" where
  "get_object kind api ns name =
     (if ns = [] \<or> name = [] then io_fail (Errorf (kind @ '' namespace and name are required''))
      else io_bind (io_try (kube_call (ra_Get api ns name))) (\<lambda>r.
        case r of
          Inr v \<Rightarrow> io_return v
        | Inl e \<Rightarrow> if e = ApiNotFound then io_fail (NotFoundError (kind @ '' resource'')) else io_fail (Wrapf (''get '' @ kind) e)))"

definition patch_cancel :: "string \<Rightarrow> ('k, 'o, 'v) CRApi \<Rightarrow> string \<Rightarrow> string \<Rightarrow> ('k world, unit) io" where
  "patch_cancel kind api ns name =
     (if ns = [] \<or> name = [] then io_fail (Errorf (kind @ '' namespace and name are required''))
      else io_bind (io_try (kube_call (ra_Cancel api ns name))) (\<lambda>r.
        case r of
          Inr _ \<Rightarrow> io_return ()
        | Inl e \<Rightarrow> if e = ApiNotFound then io_fail (ConflictError (kind @ '' resource'')) else io_fail (Wrapf (''patch '' @ kind) e)))"

record JobRunView =
  jv_Object :: JobRunObject
  jv_Phase :: string

type_synonym 'k RunAPI = "('k, JobRunObject, JobRunView) CRApi"

definition JobRunPublisher_Publish :: "'k RunAPI \<Rightarrow> JobRunObject \<Rightarrow> ('k world, JobRunView \<times> bool) io" where
  "JobRunPublisher_Publish = create_or_adopt ''job run'' jo_Meta"

definition JobRunPublisher_Get :: "'k RunAPI \<Rightarrow> string \<Rightarrow> string \<Rightarrow> ('k world, JobRunView) io" where
  "JobRunPublisher_Get = get_object ''job run''"

definition JobRunPublisher_RequestCancel :: "'k RunAPI \<Rightarrow> string \<Rightarrow> string \<Rightarrow> ('k world, unit) io" where
  "JobRunPublisher_RequestCancel = patch_cancel ''job run''"

subsection \<open>Triggering and canceling\<close>

record TriggerInput =
  tr_JobID :: int
  tr_TenantID :: string
  tr_ActorID :: string
  tr_IdempotencyKey :: string
  tr_ResourceGroupID :: string

record TriggerResult =
  tr_Namespace :: string
  tr_Name :: string
  tr_OccurrenceKey :: string
  tr_Trigger :: string
  tr_Phase :: string
  tr_Created :: bool

definition normalize_actor :: "string \<Rightarrow> string result" where
  "normalize_actor a = (let actorID = TrimSpace a in
     if actorID = [] then Inl (ValidationError ''actor_id'')
     else if length actorID > 255 then Inl (ValidationError ''actor_id'') else Inr actorID)"

definition normalizeTriggerInput :: "TriggerInput \<Rightarrow> TriggerInput result" where
  "normalizeTriggerInput inp =
     (if tr_JobID inp < 1 then Inl (ValidationError ''id'')
      else rbind (RequireUnscoped (tr_ResourceGroupID inp) ''job definition'') (\<lambda>_.
      rbind (normalize_tenant (tr_TenantID inp)) (\<lambda>tenantID.
      rbind (normalize_actor (tr_ActorID inp)) (\<lambda>actorID.
      Inr (inp\<lparr>tr_TenantID := tenantID, tr_ActorID := actorID, tr_IdempotencyKey := TrimSpace (tr_IdempotencyKey inp)\<rparr>)))))"

definition manualOccurrenceKey :: "(string \<Rightarrow> string) \<Rightarrow> string result \<Rightarrow> TriggerInput \<Rightarrow> string \<Rightarrow> string result" where
  "manualOccurrenceKey sha nonce inp sourceUID =
     (let base = ''manual|'' @ tr_TenantID inp @ ''|'' @ sourceUID @ ''|'' @ itoa (tr_JobID inp) in
      if tr_IdempotencyKey inp \<noteq> [] then Inr (sha (base @ ''|idem|'' @ tr_IdempotencyKey inp))
      else rbind (wrap_result ''generate trigger nonce'' nonce) (\<lambda>n. Inr (sha (base @ ''|nonce|'' @ n))))"

definition manualJobRun :: "JobItem \<Rightarrow> string \<Rightarrow> string \<Rightarrow> JobRunObject" where
  "manualJobRun def occurrenceKey actorID =
     \<lparr>jo_Meta = \<lparr>om_Name = RunObjectName (jd_Name def) occurrenceKey, om_Namespace = jd_Namespace def, om_UID = [],
        om_Labels = [], om_Annotations = [],
        om_OwnerReferences = [\<lparr>own_Kind = ''ScheduledJob'', own_Name = jd_Name def, own_UID = jd_SourceUID def,
          own_Controller = True, own_BlockOwnerDeletion = False\<rparr>]\<rparr>,
      jo_Spec = \<lparr>js_ScheduledJobRef = \<lparr>ref_Name = jd_Name def, ref_UID = jd_SourceUID def\<rparr>,
        js_DefinitionRevision = jd_ID def, js_Trigger = Manual, js_Actor = actorID, js_OccurrenceKey = occurrenceKey,
        js_TimeoutSeconds = ss_TimeoutSeconds (jd_Spec def), js_CancelRequested = False\<rparr>\<rparr>"

definition Trigger :: "Ext \<Rightarrow> env \<Rightarrow> string result \<Rightarrow> 'k RunAPI \<Rightarrow> TriggerInput \<Rightarrow> ('k world, TriggerResult) io" where
  "Trigger x env nonce api inp =
     io_bind (io_lift (normalizeTriggerInput inp)) (\<lambda>normalized.
     io_bind (io_wrap ''read definition for trigger'' (store_call env (\<lambda>_.
        JobRepository_Get x (tr_TenantID normalized) (tr_JobID normalized)))) (\<lambda>def.
     if ss_Suspend (jd_Spec def) then io_fail (ConflictError ''job'')
     else io_bind (io_lift (manualOccurrenceKey (ex_sha x) nonce normalized (jd_SourceUID def))) (\<lambda>occurrenceKey.
       io_bind (io_wrap ''publish job run'' (JobRunPublisher_Publish api (manualJobRun def occurrenceKey (tr_ActorID normalized)))) (\<lambda>(stored, created).
       io_return \<lparr>tr_Namespace = om_Namespace (jo_Meta (jv_Object stored)), tr_Name = om_Name (jo_Meta (jv_Object stored)),
         tr_OccurrenceKey = occurrenceKey, tr_Trigger = trigger_string Manual, tr_Phase = jv_Phase stored, tr_Created = created\<rparr>))))"

record CancelResult =
  cx_Namespace :: string
  cx_Name :: string
  cx_OccurrenceKey :: string
  cx_Phase :: string

definition Cancel :: "env \<Rightarrow> 'k RunAPI \<Rightarrow> GetInput \<Rightarrow> ('k world, CancelResult) io" where
  "Cancel env api inp =
     io_bind (io_lift (Run_NormalizeGetInput inp)) (\<lambda>normalized.
     io_bind (io_wrap ''read run for cancel'' (store_call env (\<lambda>_. GetCancelTarget normalized))) (\<lambda>target.
     if ct_ScheduledJobName target = [] \<or> ct_Namespace target = [] then io_fail (Errorf ''run does not name its definition'')
     else let name = RunObjectName (ct_ScheduledJobName target) (ct_OccurrenceKey target);
              result = \<lparr>cx_Namespace = ct_Namespace target, cx_Name = name, cx_OccurrenceKey = ct_OccurrenceKey target,
                        cx_Phase = phase_string (ct_Phase target)\<rparr> in
       if Terminal (ct_Phase target) then io_return result
       else io_bind (io_wrap ''request cancel'' (JobRunPublisher_RequestCancel api (ct_Namespace target) name)) (\<lambda>_. io_return result)))"

text \<open>The use cases that only read.\<close>

definition GetJob :: "Ext \<Rightarrow> env \<Rightarrow> GetInput \<Rightarrow> ('k world, JobItem) io" where
  "GetJob x env inp = io_bind (io_lift (Job_NormalizeGetInput inp)) (\<lambda>q. store_call env (\<lambda>_. JobRepository_Get x (gt_TenantID q) (gt_ID q)))"

definition ListJobs :: "Ext \<Rightarrow> env \<Rightarrow> ListInput \<Rightarrow> ('k world, JobItem list) io" where
  "ListJobs x env inp = io_bind (io_lift (Job_NormalizeListInput inp)) (\<lambda>q. store_call env (\<lambda>_. JobRepository_List x q))"

definition GetRun :: "env \<Rightarrow> GetInput \<Rightarrow> ('k world, RunRow \<times> AttemptRow list) io" where
  "GetRun env inp = io_bind (io_lift (Run_NormalizeGetInput inp)) (\<lambda>q. store_call env (\<lambda>_. RunRepository_Get q))"

definition ListRuns :: "env \<Rightarrow> ListInput \<Rightarrow> ('k world, RunRow list) io" where
  "ListRuns env inp = io_bind (io_lift (Run_NormalizeListInput inp)) (\<lambda>q. store_call env (\<lambda>_. RunRepository_List q))"

definition ListAttempts :: "env \<Rightarrow> GetInput \<Rightarrow> ('k world, AttemptRow list) io" where
  "ListAttempts env inp = io_bind (io_lift (Run_NormalizeGetInput inp)) (\<lambda>q. store_call env (\<lambda>_. RunRepository_ListAttempts q))"

end
