(* ===== verification/Run_Command_Laws.thy ===== *)
theory Run_Command_Laws
  imports Run_Commands
begin

section \<open>What the commands on runs promise\<close>

text \<open>
  A trigger or an invocation publishes one object, under a name its occurrence key gives. \<open>run_server\<close> states what the publisher relies on of the
  API server: a create never replaces an object, a read changes nothing, and what either returns is the object under the name it was called with.
\<close>

definition server_creates :: "('o \<Rightarrow> ObjectMeta) \<Rightarrow> ('k, 'o, 'v) CRApi \<Rightarrow> ('k \<Rightarrow> string \<Rightarrow> string \<Rightarrow> 'v option) \<Rightarrow> bool" where
  "server_creates meta api obj \<longleftrightarrow> (\<forall>run k r k' ns n. ra_Create api run k = (r, k') \<longrightarrow>
     (if ns = om_Namespace (meta run) \<and> n = om_Name (meta run) \<and> obj k ns n = None
      then (\<forall>v. r = Inr v \<longrightarrow> obj k' ns n = Some v)
      else obj k' ns n = obj k ns n \<and> (ns = om_Namespace (meta run) \<and> n = om_Name (meta run) \<longrightarrow> (\<forall>v. r \<noteq> Inr v))))"

definition server_reads :: "('k, 'o, 'v) CRApi \<Rightarrow> ('k \<Rightarrow> string \<Rightarrow> string \<Rightarrow> 'v option) \<Rightarrow> bool" where
  "server_reads api obj \<longleftrightarrow> (\<forall>ns n k r k'. ra_Get api ns n k = (r, k') \<longrightarrow>
     obj k' = obj k \<and> (\<forall>v. r = Inr v \<longrightarrow> obj k ns n = Some v))"

definition server_patches :: "('k, 'o, 'v) CRApi \<Rightarrow> ('k \<Rightarrow> string \<Rightarrow> string \<Rightarrow> 'v option) \<Rightarrow> bool" where
  "server_patches api obj \<longleftrightarrow> (\<forall>ns n k r k' a b. ra_Cancel api ns n k = (r, k') \<longrightarrow> (a, b) \<noteq> (ns, n) \<longrightarrow> obj k' a b = obj k a b)"

definition server_names :: "('v \<Rightarrow> ObjectMeta) \<Rightarrow> ('k \<Rightarrow> string \<Rightarrow> string \<Rightarrow> 'v option) \<Rightarrow> bool" where
  "server_names vmeta obj \<longleftrightarrow> (\<forall>k ns n v. obj k ns n = Some v \<longrightarrow>
     om_Namespace (vmeta v) = ns \<and> om_Name (vmeta v) = n)"

definition run_server :: "('o \<Rightarrow> ObjectMeta) \<Rightarrow> ('v \<Rightarrow> ObjectMeta) \<Rightarrow> ('k, 'o, 'v) CRApi \<Rightarrow> ('k \<Rightarrow> string \<Rightarrow> string \<Rightarrow> 'v option) \<Rightarrow> bool" where
  "run_server meta vmeta api obj \<longleftrightarrow> server_creates meta api obj \<and> server_reads api obj \<and> server_patches api obj \<and> server_names vmeta obj"

abbreviation jobrun_server :: "'k RunAPI \<Rightarrow> ('k \<Rightarrow> string \<Rightarrow> string \<Rightarrow> JobRunView option) \<Rightarrow> bool" where
  "jobrun_server \<equiv> run_server jo_Meta (\<lambda>v. jo_Meta (jv_Object v))"

text \<open>Nothing but the object at one address differs from \<open>k0\<close>.\<close>

definition only_at :: "('k \<Rightarrow> string \<Rightarrow> string \<Rightarrow> 'v option) \<Rightarrow> string \<Rightarrow> string \<Rightarrow> 'k \<Rightarrow> 'k \<Rightarrow> bool" where
  "only_at obj ns n k k' \<longleftrightarrow> (\<forall>a b. (a, b) \<noteq> (ns, n) \<longrightarrow> obj k' a b = obj k a b)"

lemma only_at_refl: "only_at obj ns n k k"
  by (simp add: only_at_def)

lemma only_at_trans: "only_at obj ns n k l \<Longrightarrow> only_at obj ns n l m \<Longrightarrow> only_at obj ns n k m"
  by (simp add: only_at_def)

lemma create_only_at:
  assumes "run_server meta vmeta api obj" and "ra_Create api run k = (r, k')"
  shows "only_at obj (om_Namespace (meta run)) (om_Name (meta run)) k k'"
  unfolding only_at_def
proof (intro allI impI)
  fix a b assume "(a, b) \<noteq> (om_Namespace (meta run), om_Name (meta run))"
  then show "obj k' a b = obj k a b"
    using assms(1) [unfolded run_server_def server_creates_def, THEN conjunct1, rule_format, OF assms(2), of a b]
    by (auto split: if_splits)
qed

lemma create_keeps:
  assumes "run_server meta vmeta api obj" and "ra_Create api run k = (r, k')" and "obj k ns n \<noteq> None"
  shows "obj k' ns n = obj k ns n"
  using assms(1) [unfolded run_server_def server_creates_def, THEN conjunct1, rule_format, OF assms(2), of ns n] assms(3)
  by (auto split: if_splits)

lemma create_answer:
  assumes "run_server meta vmeta api obj" and "ra_Create api run k = (Inr v, k')"
  shows "obj k (om_Namespace (meta run)) (om_Name (meta run)) = None
    \<and> obj k' (om_Namespace (meta run)) (om_Name (meta run)) = Some v"
  using assms(1) [unfolded run_server_def server_creates_def, THEN conjunct1, rule_format, OF assms(2),
      of "om_Namespace (meta run)" "om_Name (meta run)"]
  by (auto split: if_splits)

lemma get_answer:
  assumes "run_server meta vmeta api obj" and "ra_Get api ns n k = (r, k')"
  shows "obj k' = obj k" and "r = Inr v \<Longrightarrow> obj k ns n = Some v"
  using assms unfolding run_server_def server_reads_def by blast+

lemma object_address:
  "run_server meta vmeta api obj \<Longrightarrow> obj k ns n = Some v \<Longrightarrow> om_Namespace (vmeta v) = ns \<and> om_Name (vmeta v) = n"
  unfolding run_server_def server_names_def by blast

text \<open>One publication: the outcome of the whole call, on every branch.\<close>

lemma Publish_outcome:
  assumes srv: "run_server meta vmeta api obj" and run: "create_or_adopt kind meta api run w = (r, w')"
  shows "w_ledger w' = w_ledger w"
    and "only_at obj (om_Namespace (meta run)) (om_Name (meta run)) (w_cluster w) (w_cluster w')"
    and "obj (w_cluster w) ns n \<noteq> None \<Longrightarrow> obj (w_cluster w') ns n = obj (w_cluster w) ns n"
    and "r = Inr (v, created) \<Longrightarrow> obj (w_cluster w') (om_Namespace (meta run)) (om_Name (meta run)) = Some v
       \<and> (created \<longrightarrow> obj (w_cluster w) (om_Namespace (meta run)) (om_Name (meta run)) = None)"
proof -
  let ?ns = "om_Namespace (meta run)" and ?n = "om_Name (meta run)"
  obtain c k1 where create: "ra_Create api run (w_cluster w) = (c, k1)" by fastforce
  obtain g k2 where get: "ra_Get api ?ns ?n k1 = (g, k2)" by fastforce
  have k2: "obj k2 = obj k1" by (rule get_answer(1) [OF srv get])
  consider "w' = w" "\<exists>e. r = Inl e"
    | v where "c = Inr v" "r = Inr (v, True)" "w_cluster w' = k1" "w_ledger w' = w_ledger w"
    | e where "c = Inl e" "\<exists>e. r = Inl e" "w_cluster w' = k1" "w_ledger w' = w_ledger w"
    | v where "g = Inr v" "r = Inr (v, False)" "w_cluster w' = k2" "w_ledger w' = w_ledger w"
    | e where "g = Inl e" "\<exists>e. r = Inl e" "w_cluster w' = k2" "w_ledger w' = w_ledger w"
    using run create get
    by (cases c; cases g) (auto simp: create_or_adopt_def Let_def kube_call_def io_simps wrap_result_def split: if_splits)
  then have "w_ledger w' = w_ledger w \<and> only_at obj ?ns ?n (w_cluster w) (w_cluster w')
    \<and> (obj (w_cluster w) ns n \<noteq> None \<longrightarrow> obj (w_cluster w') ns n = obj (w_cluster w) ns n)
    \<and> (r = Inr (v, created) \<longrightarrow> obj (w_cluster w') ?ns ?n = Some v \<and> (created \<longrightarrow> obj (w_cluster w) ?ns ?n = None))"
  proof cases
    case 1 then show ?thesis by (auto simp: only_at_refl)
  next
    case (2 u) then show ?thesis
      using create_only_at [OF srv create] create_keeps [OF srv create] create_answer [OF srv, of run "w_cluster w" u k1] create by auto
  next
    case (3 e) then show ?thesis using create_only_at [OF srv create] create_keeps [OF srv create] by auto
  next
    case (4 u) then show ?thesis
      using create_only_at [OF srv create] create_keeps [OF srv create] get_answer(2) [OF srv get, of u] k2 by (auto simp: only_at_def)
  next
    case (5 e) then show ?thesis
      using create_only_at [OF srv create] create_keeps [OF srv create] k2 by (auto simp: only_at_def)
  qed
  then show "w_ledger w' = w_ledger w" and "only_at obj ?ns ?n (w_cluster w) (w_cluster w')"
    and "obj (w_cluster w) ns n \<noteq> None \<Longrightarrow> obj (w_cluster w') ns n = obj (w_cluster w) ns n"
    and "r = Inr (v, created) \<Longrightarrow> obj (w_cluster w') ?ns ?n = Some v \<and> (created \<longrightarrow> obj (w_cluster w) ?ns ?n = None)"
    by blast+
qed

subsection \<open>Requests that repeat one another\<close>

text \<open>A client that sends requests one after the other and keeps every answer.\<close>

fun all_calls :: "('w, 'a) io list \<Rightarrow> ('w, 'a result list) io" where
  "all_calls [] = io_return []"
| "all_calls (m # ms) = io_bind (io_try m) (\<lambda>r. io_bind (all_calls ms) (\<lambda>rs. io_return (r # rs)))"

definition answers :: "'a result list \<Rightarrow> 'a list" where
  "answers rs = concat (map (\<lambda>r. case r of Inl _ \<Rightarrow> [] | Inr a \<Rightarrow> [a]) rs)"

lemma answers_simps [simp]: "answers [] = []" "answers (Inl e # rs) = answers rs" "answers (Inr a # rs) = a # answers rs"
  by (simp_all add: answers_def)

text \<open>A request that publishes at one address only, and answers with what is there.\<close>

definition publishes :: "('k \<Rightarrow> string \<Rightarrow> string \<Rightarrow> 'v option) \<Rightarrow> ('w \<Rightarrow> 'k) \<Rightarrow> string \<Rightarrow> string \<Rightarrow> ('w \<Rightarrow> bool)
    \<Rightarrow> ('a \<Rightarrow> bool) \<Rightarrow> ('a \<Rightarrow> bool) \<Rightarrow> ('w, 'a) io \<Rightarrow> bool" where
  "publishes obj cl ns n P G created m \<longleftrightarrow> (\<forall>w r w'. P w \<longrightarrow> m w = (r, w') \<longrightarrow>
     P w' \<and> only_at obj ns n (cl w) (cl w') \<and> (obj (cl w) ns n \<noteq> None \<longrightarrow> obj (cl w') ns n = obj (cl w) ns n) \<and>
     (\<forall>a. r = Inr a \<longrightarrow> G a \<and> obj (cl w') ns n \<noteq> None \<and> (created a \<longrightarrow> obj (cl w) ns n = None)))"

lemma all_calls_InrD: "all_calls ms w = (r, w') \<Longrightarrow> \<exists>rs. r = Inr rs"
  by (induction ms arbitrary: w w' r) (fastforce simp: io_simps split: prod.splits sum.splits)+

lemma all_calls_publish:
  assumes "\<forall>m \<in> set ms. publishes obj cl ns n P G created m" and "P w" and "all_calls ms w = (Inr rs, w')"
  shows "P w' \<and> only_at obj ns n (cl w) (cl w') \<and> (obj (cl w) ns n \<noteq> None \<longrightarrow> obj (cl w') ns n = obj (cl w) ns n)
    \<and> list_all G (answers rs) \<and> length (filter created (answers rs)) \<le> (if obj (cl w) ns n = None then 1 else 0)"
  using assms
proof (induction ms arbitrary: w w' rs)
  case Nil then show ?case by (simp add: io_simps only_at_refl)
next
  case (Cons m ms)
  obtain r w1 where m: "m w = (r, w1)" by fastforce
  obtain rs' where rest: "all_calls ms w1 = (Inr rs', w')" and rs: "rs = r # rs'"
    using Cons.prems(3) m all_calls_InrD [of ms w1] by (auto simp: io_simps split: prod.splits sum.splits)
  have one: "P w1 \<and> only_at obj ns n (cl w) (cl w1) \<and> (obj (cl w) ns n \<noteq> None \<longrightarrow> obj (cl w1) ns n = obj (cl w) ns n) \<and>
     (\<forall>a. r = Inr a \<longrightarrow> G a \<and> obj (cl w1) ns n \<noteq> None \<and> (created a \<longrightarrow> obj (cl w) ns n = None))"
    using Cons.prems(1,2) m unfolding publishes_def by (metis list.set_intros(1))
  have more: "P w' \<and> only_at obj ns n (cl w1) (cl w') \<and> (obj (cl w1) ns n \<noteq> None \<longrightarrow> obj (cl w') ns n = obj (cl w1) ns n)
    \<and> list_all G (answers rs') \<and> length (filter created (answers rs')) \<le> (if obj (cl w1) ns n = None then 1 else 0)"
    using Cons.IH [OF _ _ rest] Cons.prems(1) one by simp
  show ?case
    using one more only_at_trans [of obj ns n "cl w" "cl w1" "cl w'"] unfolding rs
    by (cases r) (auto split: if_splits)
qed

subsection \<open>Triggers\<close>

lemma JobRepository_Get_outcome:
  assumes "JobRepository_Get x t i l = (r, l')"
  shows "l' = l" and "r = Inr d \<Longrightarrow> \<exists>row \<in> set (lg_revisions l). vr_tenant row = t \<and> rev_ID (vr_rev row) = i \<and> scanDefinition x row = Inr d"
  using assms unfolding JobRepository_Get_def WithTenantTransaction_eq WithTenant_def
  by (auto simp: io_simps io_get_def wrap_result_def find_Some_iff split: if_splits option.splits sum.splits prod.splits)

text \<open>The revision a trigger names is immutable, so what it reads does not change.\<close>

lemma revision_is:
  assumes "ledger_wf m" and "revisions_kept (lg_revisions l) (lg_revisions m)"
    and "row \<in> set (lg_revisions l)" and "row' \<in> set (lg_revisions m)" and "rev_ID (vr_rev row') = rev_ID (vr_rev row)"
  shows "vr_rev row' = vr_rev row" and "vr_tenant row' = vr_tenant row"
proof -
  have "(vr_tenant row, vr_rev row) \<in> set (map (\<lambda>r. (vr_tenant r, vr_rev r)) (lg_revisions m))"
    using assms(2,3) set_mono_prefix [of "map (\<lambda>r. (vr_tenant r, vr_rev r)) (lg_revisions l)"]
    unfolding revisions_kept_def by fastforce
  then obtain r where r: "r \<in> set (lg_revisions m)" "vr_tenant r = vr_tenant row" "vr_rev r = vr_rev row" by auto
  from assms(1) have "distinct (map (\<lambda>r. rev_ID (vr_rev r)) (lg_revisions m))" by (simp add: ledger_wf_def revisions_wf_def)
  from distinct_map_eq [OF this r(1) assms(4)] r assms(5) have "row' = r" by simp
  with r show "vr_rev row' = vr_rev row" and "vr_tenant row' = vr_tenant row" by simp_all
qed

definition trigger_key :: "Ext \<Rightarrow> TriggerInput \<Rightarrow> RevisionRow \<Rightarrow> string" where
  "trigger_key x inp row = ex_sha x (''manual|'' @ TrimSpace (tr_TenantID inp) @ ''|'' @ id_SourceUID (rev_Identity (vr_rev row)) @ ''|''
     @ itoa (tr_JobID inp) @ ''|idem|'' @ TrimSpace (tr_IdempotencyKey inp))"

abbreviation trigger_name :: "Ext \<Rightarrow> TriggerInput \<Rightarrow> RevisionRow \<Rightarrow> string" where
  "trigger_name x inp row \<equiv> RunObjectName (id_Name (rev_Identity (vr_rev row))) (trigger_key x inp row)"

abbreviation history_of :: "ledger \<Rightarrow> 'k world \<Rightarrow> bool" where
  "history_of l w \<equiv> ledger_wf (w_ledger w) \<and> revisions_kept (lg_revisions l) (lg_revisions (w_ledger w))"

definition history_kept :: "env \<Rightarrow> bool" where
  "history_kept env \<longleftrightarrow> (\<forall>n l. ledger_wf l \<longrightarrow> ledger_wf (en_other env n l) \<and> ledger_evolves l (en_other env n l))"

lemma store_call_read:
  assumes "store_call env op w = (r, w')" and "\<And>now l. snd (op now l) = l"
  shows "w_ledger w' = en_other env (w_tick w) (w_ledger w)" and "w_cluster w' = w_cluster w"
    and "r = Inr a \<Longrightarrow> op (en_now env (w_tick w)) (w_ledger w') = (Inr a, w_ledger w')"
  using assms(1) assms(2) [of "en_now env (w_tick w)" "en_other env (w_tick w) (w_ledger w)"]
  by (auto simp: store_call_eq Let_def split: fault.splits prod.splits sum.splits)

lemma history_step:
  assumes "history_kept env" and "history_of l w" and "w_ledger w' = en_other env k (w_ledger w)"
  shows "history_of l w'"
proof -
  have "ledger_wf (w_ledger w')" and "ledger_evolves (w_ledger w) (w_ledger w')"
    using assms by (simp_all add: history_kept_def)
  then show ?thesis using assms(2) by (auto simp: ledger_evolves_def revisions_kept_def dest: prefix_order.trans)
qed

lemma normalizeTriggerInput_Inr:
  "normalizeTriggerInput inp = Inr q \<Longrightarrow> q = inp\<lparr>tr_TenantID := TrimSpace (tr_TenantID inp), tr_ActorID := TrimSpace (tr_ActorID inp),
     tr_IdempotencyKey := TrimSpace (tr_IdempotencyKey inp)\<rparr>"
  by (auto simp: normalizeTriggerInput_def rbind_def RequireUnscoped_def normalize_tenant_def normalize_actor_def Let_def split: if_splits)

lemma scanDefinition_Inr:
  "scanDefinition x row = Inr d \<Longrightarrow> jd_Name d = id_Name (rev_Identity (vr_rev row)) \<and> jd_Namespace d = id_Namespace (rev_Identity (vr_rev row))
     \<and> jd_SourceUID d = id_SourceUID (rev_Identity (vr_rev row)) \<and> jd_ID d = rev_ID (vr_rev row)"
  by (auto simp: scanDefinition_def rbind_def wrap_result_def Let_def split: sum.splits)

lemma Trigger_publishes:
  fixes x :: Ext
  assumes srv: "jobrun_server api obj" and kept: "history_kept env" and row: "row \<in> set (lg_revisions l)" "rev_ID (vr_rev row) = tr_JobID inp"
    and idem: "TrimSpace (tr_IdempotencyKey inp) \<noteq> []"
  defines "ns \<equiv> id_Namespace (rev_Identity (vr_rev row))" and "n \<equiv> trigger_name x inp row"
  shows "publishes obj w_cluster ns n (history_of l)
    (\<lambda>a. tr_Namespace a = ns \<and> tr_Name a = n \<and> tr_OccurrenceKey a = trigger_key x inp row) tr_Created (Trigger x env nonce api inp)"
  unfolding publishes_def
proof (intro allI impI)
  fix w r w' assume hist: "history_of l w" and run: "Trigger x env nonce api inp w = (r, w')"
  let ?goal = "history_of l w' \<and> only_at obj ns n (w_cluster w) (w_cluster w') \<and>
    (obj (w_cluster w) ns n \<noteq> None \<longrightarrow> obj (w_cluster w') ns n = obj (w_cluster w) ns n) \<and>
    (\<forall>a. r = Inr a \<longrightarrow> (tr_Namespace a = ns \<and> tr_Name a = n \<and> tr_OccurrenceKey a = trigger_key x inp row)
       \<and> obj (w_cluster w') ns n \<noteq> None \<and> (tr_Created a \<longrightarrow> obj (w_cluster w) ns n = None))"
  show ?goal
  proof (cases "normalizeTriggerInput inp")
    case (Inl e) with run hist show ?thesis by (auto simp: Trigger_def io_simps only_at_refl)
  next
    case (Inr q)
    note q = normalizeTriggerInput_Inr [OF Inr]
    obtain g w1 where read: "store_call env (\<lambda>_. JobRepository_Get x (tr_TenantID q) (tr_JobID q)) w = (g, w1)" by fastforce
    note w1 = store_call_read [OF read, OF JobRepository_Get_outcome(1) [OF surjective_pairing]]
    have h1: "history_of l w1" by (rule history_step [OF kept hist w1(1)])
    show ?thesis
    proof (cases g)
      case (Inl e) with run \<open>normalizeTriggerInput inp = Inr q\<close> read h1 w1 show ?thesis
        by (auto simp: Trigger_def io_simps wrap_result_def only_at_refl)
    next
      case (Inr d)
      from JobRepository_Get_outcome(2) [OF w1(3) [OF Inr] refl] obtain row' where row': "row' \<in> set (lg_revisions (w_ledger w1))"
        "rev_ID (vr_rev row') = tr_JobID q" "scanDefinition x row' = Inr d" by blast
      have same: "vr_rev row' = vr_rev row" using h1 row row' q by (intro revision_is [of "w_ledger w1" l row row']) auto
      note d = scanDefinition_Inr [OF row'(3), unfolded same]
      have key: "manualOccurrenceKey (ex_sha x) nonce q (jd_SourceUID d) = Inr (trigger_key x inp row)"
        using idem d by (simp add: manualOccurrenceKey_def trigger_key_def q Let_def)
      let ?run = "manualJobRun d (trigger_key x inp row) (tr_ActorID q)"
      have at: "om_Namespace (jo_Meta ?run) = ns" "om_Name (jo_Meta ?run) = n"
        using d by (simp_all add: manualJobRun_def ns_def n_def)
      obtain p w2 where pub: "JobRunPublisher_Publish api ?run w1 = (p, w2)" by fastforce
      note out = Publish_outcome [OF srv pub [unfolded JobRunPublisher_Publish_def], unfolded at]
      have "ss_Suspend (jd_Spec d) \<and> w' = w1 \<and> (\<exists>e. r = Inl e) \<or> w' = w2 \<and>
        (r = (case p of Inl e \<Rightarrow> Inl (Wrapf ''publish job run'' e) | Inr (v, c) \<Rightarrow>
           Inr \<lparr>tr_Namespace = om_Namespace (jo_Meta (jv_Object v)), tr_Name = om_Name (jo_Meta (jv_Object v)),
             tr_OccurrenceKey = trigger_key x inp row, tr_Trigger = trigger_string Manual, tr_Phase = jv_Phase v, tr_Created = c\<rparr>))"
        using run \<open>normalizeTriggerInput inp = Inr q\<close> read Inr key pub
        by (auto simp: Trigger_def io_simps wrap_result_def split: if_splits sum.splits prod.splits)
      then show ?thesis
        using h1 w1(2) out object_address [OF srv] by (cases p) (auto simp: only_at_refl)
    qed
  qed
qed

subsection \<open>Canceling\<close>

lemma GetCancelTarget_outcome:
  assumes "GetCancelTarget inp l = (r, l')"
  shows "l' = l" and "r = Inr t \<Longrightarrow> \<exists>run rv. run_by_id (gt_TenantID inp) (gt_ID inp) l = Some run \<and> rv \<in> set (lg_revisions l)
    \<and> rev_ID (vr_rev rv) = rn_revision_id run \<and> t = \<lparr>ct_Phase = rn_phase run, ct_OccurrenceKey = rn_occurrence_key run,
        ct_ScheduledJobName = id_Name (rev_Identity (vr_rev rv)), ct_Namespace = id_Namespace (rev_Identity (vr_rev rv))\<rparr>"
proof -
  have "l' = l \<and> (\<forall>t. r = Inr t \<longrightarrow> (\<exists>run rv. run_by_id (gt_TenantID inp) (gt_ID inp) l = Some run \<and> rv \<in> set (lg_revisions l)
    \<and> rev_ID (vr_rev rv) = rn_revision_id run \<and> t = \<lparr>ct_Phase = rn_phase run, ct_OccurrenceKey = rn_occurrence_key run,
        ct_ScheduledJobName = id_Name (rev_Identity (vr_rev rv)), ct_Namespace = id_Namespace (rev_Identity (vr_rev rv))\<rparr>))"
  proof (cases "run_by_id (gt_TenantID inp) (gt_ID inp) l")
    case None with assms show ?thesis
      by (auto simp: GetCancelTarget_def WithTenantTransaction_eq WithTenant_def io_simps io_get_def split: if_splits)
  next
    case (Some run)
    show ?thesis
    proof (cases "find (\<lambda>rv. rev_ID (vr_rev rv) = rn_revision_id run) (lg_revisions l)")
      case None with assms Some show ?thesis
        by (auto simp: GetCancelTarget_def WithTenantTransaction_eq WithTenant_def io_simps io_get_def split: if_splits)
    next
      case (Some rv)
      then have "rv \<in> set (lg_revisions l)" "rev_ID (vr_rev rv) = rn_revision_id run" by (auto simp: find_Some_iff)
      with assms Some \<open>run_by_id (gt_TenantID inp) (gt_ID inp) l = Some run\<close> show ?thesis
        by (auto simp: GetCancelTarget_def WithTenantTransaction_eq WithTenant_def io_simps io_get_def split: if_splits)
    qed
  qed
  then show "l' = l" and "r = Inr t \<Longrightarrow> \<exists>run rv. run_by_id (gt_TenantID inp) (gt_ID inp) l = Some run \<and> rv \<in> set (lg_revisions l)
    \<and> rev_ID (vr_rev rv) = rn_revision_id run \<and> t = \<lparr>ct_Phase = rn_phase run, ct_OccurrenceKey = rn_occurrence_key run,
        ct_ScheduledJobName = id_Name (rev_Identity (vr_rev rv)), ct_Namespace = id_Namespace (rev_Identity (vr_rev rv))\<rparr>"
    by blast+
qed

lemma RequestCancel_cluster:
  assumes "JobRunPublisher_RequestCancel api ns n w = (r, w')"
  shows "w_ledger w' = w_ledger w" and "w_cluster w' = w_cluster w \<or> w_cluster w' = snd (ra_Cancel api ns n (w_cluster w))"
  using assms by (auto simp: JobRunPublisher_RequestCancel_def patch_cancel_def kube_call_def io_simps split: if_splits sum.splits prod.splits)

text \<open>A cancel request patches nothing, or the object of an open run the ledger has under that id and tenant.\<close>

lemma Cancel_outcome:
  assumes run: "Cancel env api inp w = (r, w')"
  defines "l \<equiv> en_other env (w_tick w) (w_ledger w)" and "t \<equiv> TrimSpace (gt_TenantID inp)"
  shows "w_ledger w' = w_ledger w \<or> w_ledger w' = l"
    and "w_cluster w' = w_cluster w \<or> (\<exists>row rv. run_by_id t (gt_ID inp) l = Some row \<and> rv \<in> set (lg_revisions l)
       \<and> rev_ID (vr_rev rv) = rn_revision_id row \<and> \<not> Terminal (rn_phase row) \<and> gt_ResourceGroupID inp = []
       \<and> w_cluster w' = snd (ra_Cancel api (id_Namespace (rev_Identity (vr_rev rv)))
            (RunObjectName (id_Name (rev_Identity (vr_rev rv))) (rn_occurrence_key row)) (w_cluster w)))" (is "_ \<or> ?patched")
proof -
  have "(w_ledger w' = w_ledger w \<or> w_ledger w' = l) \<and> (w_cluster w' = w_cluster w \<or> ?patched)"
  proof (cases "Run_NormalizeGetInput inp")
    case (Inl e) with run show ?thesis by (auto simp: Cancel_def io_simps)
  next
    case (Inr q)
    then have q: "q = inp\<lparr>gt_TenantID := t\<rparr>" and unscoped: "gt_ResourceGroupID inp = []"
      by (auto simp: Run_NormalizeGetInput_def rbind_def RequireUnscoped_def normalize_tenant_def t_def Let_def split: if_splits)
    obtain g w1 where read: "store_call env (\<lambda>_. GetCancelTarget q) w = (g, w1)" by fastforce
    note w1 = store_call_read [OF read, OF GetCancelTarget_outcome(1) [OF surjective_pairing]]
    show ?thesis
    proof (cases g)
      case (Inl e) with run Inr read w1 show ?thesis by (auto simp: Cancel_def io_simps wrap_result_def l_def)
    next
      case (Inr target)
      from GetCancelTarget_outcome(2) [OF w1(3) [OF Inr] refl, unfolded w1(1)] obtain row rv where
        row: "run_by_id t (gt_ID inp) l = Some row" and rv: "rv \<in> set (lg_revisions l)" "rev_ID (vr_rev rv) = rn_revision_id row"
        and target: "target = \<lparr>ct_Phase = rn_phase row, ct_OccurrenceKey = rn_occurrence_key row,
          ct_ScheduledJobName = id_Name (rev_Identity (vr_rev rv)), ct_Namespace = id_Namespace (rev_Identity (vr_rev rv))\<rparr>"
        by (auto simp: q l_def)
      obtain p w2 where patch: "JobRunPublisher_RequestCancel api (id_Namespace (rev_Identity (vr_rev rv)))
          (RunObjectName (id_Name (rev_Identity (vr_rev rv))) (rn_occurrence_key row)) w1 = (p, w2)" by fastforce
      have "w' = w1 \<or> w' = w2 \<and> \<not> Terminal (rn_phase row)"
        using run \<open>Run_NormalizeGetInput inp = Inr q\<close> read Inr patch
        by (auto simp: Cancel_def io_simps wrap_result_def target Let_def split: if_splits sum.splits)
      then show ?thesis
        using w1 RequestCancel_cluster [OF patch] row rv unscoped by (auto simp: l_def)
    qed
  qed
  then show "w_ledger w' = w_ledger w \<or> w_ledger w' = l" and "w_cluster w' = w_cluster w \<or> ?patched" by blast+
qed

end
