(* ===== verification/Function_Invoke.thy ===== *)
theory Function_Invoke
  imports Function_Store Run_Command_Laws Check_Scheduling
begin

section \<open>Invoking functions and keeping their revisions in step\<close>

text \<open>
  \<open>internal/core/app/functioninvoke/invoke.go\<close>, the adapter that resolves an active revision (\<open>cmd/admin-api/function_revisions.go\<close>) and the loop that
  projects one revision per active function (\<open>internal/core/app/functionsync/sync.go\<close>). The context of a request is the function \<open>done\<close>: whether it is canceled
  at a call count. The polling loop carries fuel; what is left of it is in the answer, so that running out is visible, and \<open>await_returns\<close> shows how much is enough.
\<close>

record InvokeInput =
  iv_TenantID :: string
  iv_FunctionID :: int
  iv_ActorID :: string
  iv_IdempotencyKey :: string
  iv_ResourceGroupID :: string
  iv_WaitSeconds :: int

record InvokeResult =
  ir_Namespace :: string
  ir_Name :: string
  ir_OccurrenceKey :: string
  ir_Trigger :: string
  ir_Phase :: string
  ir_Created :: bool
  ir_FunctionID :: int
  ir_RevisionID :: int

definition maxInvokeWaitSeconds :: int where "maxInvokeWaitSeconds = 60"
definition invokePollInterval :: duration where "invokePollInterval = second_ns"

definition visibleToGroup :: "string \<Rightarrow> string \<Rightarrow> bool" where
  "visibleToGroup rowGroup callerScope \<longleftrightarrow> callerScope = [] \<or> rowGroup = callerScope"

definition normalizeInput :: "InvokeInput \<Rightarrow> InvokeInput result" where
  "normalizeInput inp =
     (if iv_FunctionID inp < 1 then Inl (ValidationError ''id'')
      else rbind (normalize_tenant (iv_TenantID inp)) (\<lambda>tenantID.
      rbind (normalize_actor (iv_ActorID inp)) (\<lambda>actorID.
      if iv_WaitSeconds inp < 0 \<or> iv_WaitSeconds inp > maxInvokeWaitSeconds then Inl (ValidationError ''wait_seconds'')
      else Inr (inp\<lparr>iv_TenantID := tenantID, iv_ActorID := actorID, iv_IdempotencyKey := TrimSpace (iv_IdempotencyKey inp)\<rparr>))))"

definition deriveOccurrenceKey :: "(string \<Rightarrow> string) \<Rightarrow> string result \<Rightarrow> InvokeInput \<Rightarrow> string \<Rightarrow> string result" where
  "deriveOccurrenceKey sha nonce inp sourceUID =
     (let base = ''function|'' @ iv_TenantID inp @ ''|'' @ sourceUID @ ''|'' @ itoa (iv_FunctionID inp) in
      if iv_IdempotencyKey inp \<noteq> [] then Inr (sha (base @ ''|idem|'' @ iv_IdempotencyKey inp))
      else rbind (wrap_result ''generate invocation nonce'' nonce) (\<lambda>n. Inr (sha (base @ ''|nonce|'' @ n))))"

definition invoke_jobRun :: "FunctionDefinition \<Rightarrow> int \<times> string \<Rightarrow> string \<Rightarrow> string \<Rightarrow> JobRunObject" where
  "invoke_jobRun def rv occurrenceKey actorID =
     (let name = Function_SourceUID (fd_ID def) in
      \<lparr>jo_Meta = \<lparr>om_Name = RunObjectName name occurrenceKey, om_Namespace = snd rv, om_UID = [], om_Labels = [], om_Annotations = [],
         om_OwnerReferences = []\<rparr>,
       jo_Spec = \<lparr>js_ScheduledJobRef = \<lparr>ref_Name = name, ref_UID = name\<rparr>, js_DefinitionRevision = fst rv, js_Trigger = Function,
         js_Actor = actorID, js_OccurrenceKey = occurrenceKey, js_TimeoutSeconds = int32 (fd_TimeoutSeconds def),
         js_CancelRequested = False\<rparr>\<rparr>)"

text \<open>\<open>errors.As\<close> finds a not-found error below any wrapping.\<close>

fun is_not_found :: "err \<Rightarrow> bool" where
  "is_not_found (NotFoundError _) = True"
| "is_not_found (Wrapf _ e) = is_not_found e"
| "is_not_found _ = False"

definition controlPlaneRevisions_ActiveRevision :: "env \<Rightarrow> string \<Rightarrow> string \<Rightarrow> ('k world, (int \<times> string) option) io" where
  "controlPlaneRevisions_ActiveRevision env tenantID sourceUID =
     io_bind (io_try (store_call env (\<lambda>_. ActiveFunctionRevision tenantID sourceUID))) (\<lambda>r.
       case r of
         Inr rv \<Rightarrow> io_return (Some rv)
       | Inl e \<Rightarrow> if is_not_found e then io_return None else io_fail e)"

subsection \<open>The wait\<close>

definition ctx_done :: "(nat \<Rightarrow> bool) \<Rightarrow> ('k world, bool) io" where
  "ctx_done done = (\<lambda>w. (Inr (done (w_tick w)), w\<lparr>w_tick := w_tick w + 1\<rparr>))"

text \<open>
  The clock readings of \<open>env\<close> are those of a process that does not sleep. When \<open>time.After\<close> fires, the interval has passed: every later
  reading is at least the interval later. What a sleep takes beyond the interval is in the readings themselves.
\<close>

definition after_sleep :: "duration \<Rightarrow> env \<Rightarrow> env" where
  "after_sleep interval env = env\<lparr>en_now := (\<lambda>n. en_now env n + interval)\<rparr>"

fun awaitTerminalPhase :: "env \<Rightarrow> (nat \<Rightarrow> bool) \<Rightarrow> 'k RunAPI \<Rightarrow> duration \<Rightarrow> string \<Rightarrow> string \<Rightarrow> time \<Rightarrow> nat \<Rightarrow> string \<Rightarrow> ('k world, string option) io" where
  "awaitTerminalPhase env done api interval ns name deadline 0 phase = io_return None"
| "awaitTerminalPhase env done api interval ns name deadline (Suc fuel) phase =
     io_bind (ctx_done done) (\<lambda>canceled.
     if canceled then io_return (Some phase)
     else io_bind (io_try (JobRunPublisher_Get api ns name)) (\<lambda>r.
       let observed = (case r of Inr v \<Rightarrow> jv_Phase v | Inl _ \<Rightarrow> []);
           phase = (if observed \<noteq> [] then observed else phase) in
       if observed \<noteq> [] \<and> Terminal (phase_of phase) then io_return (Some phase)
       else io_bind (now_call env) (\<lambda>now.
         if \<not> now + interval < deadline then io_return (Some phase)
         else io_bind (ctx_done done) (\<lambda>canceled.
           if canceled then io_return (Some phase)
           else awaitTerminalPhase (after_sleep interval env) done api interval ns name deadline fuel phase))))"

definition poll_interval :: "duration \<Rightarrow> duration" where
  "poll_interval interval = (if interval \<le> 0 then invokePollInterval else interval)"

subsection \<open>Invocation\<close>

definition Invoke :: "Ext \<Rightarrow> env \<Rightarrow> (nat \<Rightarrow> function_db \<Rightarrow> function_db) \<Rightarrow> (nat \<Rightarrow> bool) \<Rightarrow> string result \<Rightarrow> 'k RunAPI \<Rightarrow> duration \<Rightarrow> nat \<Rightarrow> InvokeInput
    \<Rightarrow> (('k, function_db) sworld, InvokeResult option) io" where
  "Invoke x env other done nonce api interval fuel inp =
     io_bind (io_lift (normalizeInput inp)) (\<lambda>normalized.
     io_bind (io_wrap ''read function for invoke'' (db_call env other (\<lambda>_.
        Function_GetForTenant (iv_TenantID normalized) (iv_FunctionID normalized)))) (\<lambda>found.
     case found of
       None \<Rightarrow> io_fail (NotFoundError ''function'')
     | Some def \<Rightarrow>
         if \<not> visibleToGroup (fd_ResourceGroupID def) (iv_ResourceGroupID normalized) then io_fail (NotFoundError ''function'')
         else if fd_Status def = Function_StatusPaused then io_fail (ConflictError ''function'')
         else let sourceUID = Function_SourceUID (fd_ID def) in
           io_bind (io_wrap ''resolve active revision'' (on_world (controlPlaneRevisions_ActiveRevision env (iv_TenantID normalized) sourceUID))) (\<lambda>found.
           case found of
             None \<Rightarrow> io_fail (ConflictError ''function'')
           | Some rv \<Rightarrow>
               io_bind (io_lift (deriveOccurrenceKey (ex_sha x) nonce normalized sourceUID)) (\<lambda>occurrenceKey.
               io_bind (on_world (now_call env)) (\<lambda>start.
               io_bind (io_wrap ''publish function invocation'' (on_world (JobRunPublisher_Publish api
                  (invoke_jobRun def rv occurrenceKey (iv_ActorID normalized))))) (\<lambda>(stored, created).
               let result = \<lparr>ir_Namespace = om_Namespace (jo_Meta (jv_Object stored)), ir_Name = om_Name (jo_Meta (jv_Object stored)),
                     ir_OccurrenceKey = occurrenceKey, ir_Trigger = trigger_string Function, ir_Phase = jv_Phase stored,
                     ir_Created = created, ir_FunctionID = fd_ID def, ir_RevisionID = fst rv\<rparr> in
               if iv_WaitSeconds normalized > 0 then
                 io_bind (on_world (awaitTerminalPhase env done api (poll_interval interval) (ir_Namespace result) (ir_Name result)
                    (start + iv_WaitSeconds normalized * second_ns) fuel [])) (\<lambda>r.
                 io_return (map_option (\<lambda>phase. result\<lparr>ir_Phase := phase\<rparr>) r))
               else io_return (Some result)))))))"

subsection \<open>The synchronisation\<close>

definition ActorFunctionSync :: string where "ActorFunctionSync = ''orbitjob-operator''"

definition sync_or_skip :: "Ext \<Rightarrow> env \<Rightarrow> Scope \<Rightarrow> FunctionDefinition \<Rightarrow> (('k, function_db) sworld, int) io" where
  "sync_or_skip x env scope def =
     io_bind (io_try (on_world (ApplyFunction x env def (sp_Namespace scope) (sp_TenantID scope) ActorFunctionSync))) (\<lambda>r.
       io_return (case r of Inl _ \<Rightarrow> 0 | Inr _ \<Rightarrow> 1))"

definition RunTenant :: "Ext \<Rightarrow> env \<Rightarrow> (nat \<Rightarrow> function_db \<Rightarrow> function_db) \<Rightarrow> Scope \<Rightarrow> (('k, function_db) sworld, int) io" where
  "RunTenant x env other scope =
     io_bind (io_wrap ''list active functions'' (db_call env other (\<lambda>_. Function_ActiveForTenant (sp_TenantID scope)))) (\<lambda>defs.
     io_sum (sync_or_skip x env scope) defs)"

end
