(* ===== verification/Function_Invoke_Laws.thy ===== *)
theory Function_Invoke_Laws
  imports Function_Invoke
begin

section \<open>What invocation and synchronisation promise\<close>

subsection \<open>The wait ends\<close>

lemma Get_tick: "JobRunPublisher_Get api ns n w = (r, w') \<Longrightarrow> w_tick w \<le> w_tick w' \<and> w_ledger w' = w_ledger w"
  by (auto simp: JobRunPublisher_Get_def get_object_def kube_call_def io_simps split: if_splits sum.splits prod.splits)

lemma await_returns:
  assumes "\<And>m. w_tick w < m \<Longrightarrow> deadline < en_now env m + int (Suc fuel) * interval"
  shows "\<exists>p w'. awaitTerminalPhase env done api interval ns n deadline (Suc fuel) phase w = (Inr (Some p), w')"
  using assms
proof (induction fuel arbitrary: env phase w)
  case 0
  obtain r w1 where get: "JobRunPublisher_Get api ns n (w\<lparr>w_tick := w_tick w + 1\<rparr>) = (r, w1)" by fastforce
  have "\<not> en_now env (w_tick w1) + interval < deadline" using 0 [of "w_tick w1"] Get_tick [OF get] by simp
  with get show ?case by (auto simp: io_simps ctx_done_def now_call_def Let_def)
next
  case (Suc fuel)
  obtain r w1 where get: "JobRunPublisher_Get api ns n (w\<lparr>w_tick := w_tick w + 1\<rparr>) = (r, w1)" by fastforce
  define u where "u = w1\<lparr>w_tick := w_tick w1 + 2\<rparr>"
  have later: "deadline < en_now (after_sleep interval env) m + int (Suc fuel) * interval" if "w_tick u < m" for m
  proof -
    have "w_tick w < m" using that Get_tick [OF get] by (simp add: u_def)
    from Suc.prems [OF this] show ?thesis by (simp add: after_sleep_def algebra_simps)
  qed
  have "\<exists>p w'. awaitTerminalPhase (after_sleep interval env) done api interval ns n deadline (Suc fuel) q u = (Inr (Some p), w')" for q
    using Suc.IH [OF later] .
  with get show ?case
    unfolding awaitTerminalPhase.simps(2) [of _ _ _ _ _ _ _ "Suc fuel"]
    by (auto simp: io_simps ctx_done_def now_call_def Let_def u_def simp del: awaitTerminalPhase.simps)
qed

lemma await_frame:
  assumes srv: "jobrun_server api obj" and run: "awaitTerminalPhase env done api interval ns n deadline fuel phase w = (r, w')"
  shows "w_ledger w' = w_ledger w \<and> obj (w_cluster w') = obj (w_cluster w)"
  using run
proof (induction fuel arbitrary: env phase w)
  case 0 then show ?case by (simp add: io_simps)
next
  case (Suc fuel)
  obtain g w1 where get: "JobRunPublisher_Get api ns n (w\<lparr>w_tick := w_tick w + 1\<rparr>) = (g, w1)" by fastforce
  have one: "w_ledger w1 = w_ledger w \<and> obj (w_cluster w1) = obj (w_cluster w)"
    using get get_answer(1) [OF srv] by (auto simp: JobRunPublisher_Get_def get_object_def kube_call_def io_simps split: if_splits sum.splits prod.splits)
  from Suc.prems get consider "w_ledger w' = w_ledger w1 \<and> w_cluster w' = w_cluster w1" | "w_ledger w' = w_ledger w \<and> w_cluster w' = w_cluster w"
    | q where "awaitTerminalPhase (after_sleep interval env) done api interval ns n deadline fuel q (w1\<lparr>w_tick := w_tick w1 + 2\<rparr>) = (r, w')"
    by (auto simp: io_simps ctx_done_def now_call_def Let_def split: if_splits)
  then show ?case by cases (use one Suc.IH in fastforce)+
qed

subsection \<open>One object per idempotency key\<close>

lemma controlPlaneRevisions_ActiveRevision_outcome:
  assumes "controlPlaneRevisions_ActiveRevision env t uid w = (r, w')"
  shows "w_ledger w' = en_other env (w_tick w) (w_ledger w)" and "w_cluster w' = w_cluster w"
    and "r = Inr (Some rv) \<Longrightarrow> \<exists>row \<in> set (lg_revisions (w_ledger w')). same_identity SourceModeFunction uid row \<and> vr_tenant row = t
       \<and> vr_active row \<and> rv = (rev_ID (vr_rev row), id_Namespace (rev_Identity (vr_rev row)))"
proof -
  have read: "snd (ActiveFunctionRevision t uid l) = l" for l
    by (auto simp: ActiveFunctionRevision_def WithTenantTransaction_eq WithTenant_def io_simps io_get_def split: option.splits)
  obtain g w1 where call: "store_call env (\<lambda>_. ActiveFunctionRevision t uid) w = (g, w1)" by fastforce
  note w1 = store_call_read [OF call, OF read]
  have w': "w' = w1" using assms call by (auto simp: controlPlaneRevisions_ActiveRevision_def io_simps split: sum.splits if_splits)
  show "w_ledger w' = en_other env (w_tick w) (w_ledger w)" "w_cluster w' = w_cluster w" using w1 w' by simp_all
  assume "r = Inr (Some rv)"
  then have "g = Inr rv" using assms call by (auto simp: controlPlaneRevisions_ActiveRevision_def io_simps split: sum.splits if_splits)
  from w1(3) [OF this] show "\<exists>row \<in> set (lg_revisions (w_ledger w')). same_identity SourceModeFunction uid row \<and> vr_tenant row = t
       \<and> vr_active row \<and> rv = (rev_ID (vr_rev row), id_Namespace (rev_Identity (vr_rev row)))"
    unfolding w'
    by (auto simp: ActiveFunctionRevision_def WithTenantTransaction_eq WithTenant_def io_simps io_get_def
        split: if_splits option.splits dest!: find_SomeD)
qed

definition function_in :: "string \<Rightarrow> int \<Rightarrow> string \<Rightarrow> ledger \<Rightarrow> bool" where
  "function_in t i ns l \<longleftrightarrow> (\<forall>row \<in> set (lg_revisions l). same_identity SourceModeFunction (Function_SourceUID i) row \<and> vr_tenant row = t
     \<and> vr_active row \<longrightarrow> id_Namespace (rev_Identity (vr_rev row)) = ns)"

definition invoke_key :: "Ext \<Rightarrow> InvokeInput \<Rightarrow> string" where
  "invoke_key x inp = ex_sha x (''function|'' @ TrimSpace (iv_TenantID inp) @ ''|'' @ Function_SourceUID (iv_FunctionID inp) @ ''|''
     @ itoa (iv_FunctionID inp) @ ''|idem|'' @ TrimSpace (iv_IdempotencyKey inp))"

abbreviation invoke_name :: "Ext \<Rightarrow> InvokeInput \<Rightarrow> string" where
  "invoke_name x inp \<equiv> RunObjectName (Function_SourceUID (iv_FunctionID inp)) (invoke_key x inp)"

lemma normalizeInput_Inr:
  "normalizeInput inp = Inr q \<Longrightarrow> q = inp\<lparr>iv_TenantID := TrimSpace (iv_TenantID inp), iv_ActorID := TrimSpace (iv_ActorID inp),
     iv_IdempotencyKey := TrimSpace (iv_IdempotencyKey inp)\<rparr> \<and> 0 \<le> iv_WaitSeconds inp \<and> iv_WaitSeconds inp \<le> maxInvokeWaitSeconds"
  by (auto simp: normalizeInput_def rbind_def normalize_tenant_def normalize_actor_def Let_def split: if_splits)

lemma Function_GetForTenant_Inr:
  "Function_GetForTenant t i s = (Inr (Some d), s') \<Longrightarrow> fd_ID d = i"
  by (auto simp: Function_GetForTenant_def io_simps live_function_def dest!: find_SomeD)

lemma db_call_cluster:
  "db_call env other op v = (r, u) \<Longrightarrow> w_cluster (sw_world u) = w_cluster (sw_world v) \<and> w_ledger (sw_world u) = w_ledger (sw_world v)
     \<and> (\<forall>a. r = Inr a \<longrightarrow> (\<exists>now s. op now s = (Inr a, sw_store u)))"
  by (auto simp: db_call_eq Let_def split: fault.splits prod.splits sum.splits) blast

text \<open>What an invocation did: nothing to the cluster, or one publication, and perhaps a wait.\<close>

definition invoke_result :: "FunctionDefinition \<Rightarrow> int \<times> string \<Rightarrow> string \<Rightarrow> JobRunView \<Rightarrow> bool \<Rightarrow> InvokeResult" where
  "invoke_result d rv key stored created =
     \<lparr>ir_Namespace = om_Namespace (jo_Meta (jv_Object stored)), ir_Name = om_Name (jo_Meta (jv_Object stored)),
      ir_OccurrenceKey = key, ir_Trigger = trigger_string Function, ir_Phase = jv_Phase stored,
      ir_Created = created, ir_FunctionID = fd_ID d, ir_RevisionID = fst rv\<rparr>"

definition answered :: "env \<Rightarrow> (nat \<Rightarrow> bool) \<Rightarrow> 'k RunAPI \<Rightarrow> duration \<Rightarrow> nat \<Rightarrow> duration \<Rightarrow> time \<Rightarrow> InvokeResult \<Rightarrow> 'k world
    \<Rightarrow> InvokeResult option result \<Rightarrow> 'k world \<Rightarrow> bool" where
  "answered env done api interval fuel wait start res w2 r w' \<longleftrightarrow>
     (if wait > 0 then \<exists>q. awaitTerminalPhase env done api interval (ir_Namespace res) (ir_Name res) (start + wait * second_ns) fuel [] w2 = (q, w')
        \<and> r = (case q of Inl e \<Rightarrow> Inl e | Inr ph \<Rightarrow> Inr (map_option (\<lambda>phase. res\<lparr>ir_Phase := phase\<rparr>) ph))
      else w' = w2 \<and> r = Inr (Some res))"

lemma answered_frame:
  assumes srv: "jobrun_server api obj" and ans: "answered env done api interval fuel wait start res w2 r w'"
  shows "w_ledger w' = w_ledger w2 \<and> obj (w_cluster w') = obj (w_cluster w2)
    \<and> (\<forall>res'. r = Inr (Some res') \<longrightarrow> (\<exists>ph. res' = res\<lparr>ir_Phase := ph\<rparr>))"
proof (cases "wait > 0")
  case True
  with ans obtain q where q: "awaitTerminalPhase env done api interval (ir_Namespace res) (ir_Name res) (start + wait * second_ns) fuel [] w2 = (q, w')"
    and r: "r = (case q of Inl e \<Rightarrow> Inl e | Inr ph \<Rightarrow> Inr (map_option (\<lambda>phase. res\<lparr>ir_Phase := phase\<rparr>) ph))" by (auto simp: answered_def)
  from r have "\<exists>ph. res' = res\<lparr>ir_Phase := ph\<rparr>" if "r = Inr (Some res')" for res'
    using that by (auto simp: map_option_case split: sum.splits option.splits)
  with await_frame [OF srv q] show ?thesis by blast
next
  case False
  moreover have "res = res\<lparr>ir_Phase := ir_Phase res\<rparr>" by simp
  ultimately show ?thesis using ans unfolding answered_def by (metis Inr_inject option.inject)
qed

lemma Invoke_outcome:
  assumes run: "Invoke x env other done nonce api interval fuel inp v = (r, u)"
  obtains (refused) e where "r = Inl e" "w_cluster (sw_world u) = w_cluster (sw_world v)"
      "w_ledger (sw_world u) = w_ledger (sw_world v) \<or> (\<exists>k. w_ledger (sw_world u) = en_other env k (w_ledger (sw_world v)))"
  | (published) q d rv key k w0 w1 p w2 where "normalizeInput inp = Inr q" "fd_ID d = iv_FunctionID inp" "w_cluster w1 = w_cluster (sw_world v)"
      "w_ledger w1 = en_other env k (w_ledger (sw_world v))" "w1 = w0\<lparr>w_tick := w_tick w0 + 1\<rparr>"
      "\<exists>row \<in> set (lg_revisions (w_ledger w1)). same_identity SourceModeFunction (Function_SourceUID (iv_FunctionID inp)) row
         \<and> vr_tenant row = TrimSpace (iv_TenantID inp) \<and> vr_active row \<and> snd rv = id_Namespace (rev_Identity (vr_rev row))"
      "deriveOccurrenceKey (ex_sha x) nonce q (Function_SourceUID (iv_FunctionID inp)) = Inr key"
      "fd_Status d \<noteq> Function_StatusPaused" "visibleToGroup (fd_ResourceGroupID d) (iv_ResourceGroupID inp)"
      "JobRunPublisher_Publish api (invoke_jobRun d rv key (iv_ActorID q)) w1 = (p, w2)"
      "case p of Inl e \<Rightarrow> (\<exists>e. r = Inl e) \<and> sw_world u = w2 | Inr (stored, created) \<Rightarrow>
         answered env done api (poll_interval interval) fuel (iv_WaitSeconds inp) (en_now env (w_tick w0)) (invoke_result d rv key stored created) w2 r (sw_world u)"
proof (cases "normalizeInput inp")
  case (Inl e) with run show thesis by (intro refused) (auto simp: Invoke_def io_simps)
next
  case (Inr q)
  have q: "iv_FunctionID q = iv_FunctionID inp" "iv_TenantID q = TrimSpace (iv_TenantID inp)" "iv_WaitSeconds q = iv_WaitSeconds inp"
    "iv_ResourceGroupID q = iv_ResourceGroupID inp" using normalizeInput_Inr [OF Inr] by simp_all
  obtain g v1 where read: "db_call env other (\<lambda>_. Function_GetForTenant (iv_TenantID q) (iv_FunctionID q)) v = (g, v1)" by fastforce
  note v1 = db_call_cluster [OF read]
  show thesis
  proof (cases "\<exists>d. g = Inr (Some d) \<and> visibleToGroup (fd_ResourceGroupID d) (iv_ResourceGroupID q) \<and> fd_Status d \<noteq> Function_StatusPaused")
    case False
    with run Inr read have "\<exists>e. r = Inl e" "u = v1"
      by (auto simp: Invoke_def io_simps wrap_result_def split: sum.splits option.splits if_splits)
    with v1 show thesis by (elim exE) (rule refused; auto)
  next
    case True
    then obtain d where d: "g = Inr (Some d)" "visibleToGroup (fd_ResourceGroupID d) (iv_ResourceGroupID q)" "fd_Status d \<noteq> Function_StatusPaused" by blast
    have id: "fd_ID d = iv_FunctionID inp" using v1 d(1) Function_GetForTenant_Inr q by metis
    obtain a w0 where act: "controlPlaneRevisions_ActiveRevision env (iv_TenantID q) (Function_SourceUID (fd_ID d)) (sw_world v1) = (a, w0)" by fastforce
    note w0 = controlPlaneRevisions_ActiveRevision_outcome [OF act]
    show thesis
    proof (cases "\<exists>rv key. a = Inr (Some rv) \<and> deriveOccurrenceKey (ex_sha x) nonce q (Function_SourceUID (fd_ID d)) = Inr key")
      case False
      have "\<exists>e. r = Inl e" "sw_world u = w0" using run Inr read d act False
        by (auto simp: Invoke_def io_simps wrap_result_def on_world_def Let_def split: sum.splits option.splits if_splits)
      with w0 v1 show thesis by (elim exE) (rule refused; auto)
    next
      case True
      then obtain rv key where ok: "a = Inr (Some rv)" "deriveOccurrenceKey (ex_sha x) nonce q (Function_SourceUID (fd_ID d)) = Inr key" by blast
      define w1 where "w1 = w0\<lparr>w_tick := w_tick w0 + 1\<rparr>"
      obtain p w2 where pub: "JobRunPublisher_Publish api (invoke_jobRun d rv key (iv_ActorID q)) w1 = (p, w2)" by fastforce
      have rest: "case p of Inl e \<Rightarrow> (\<exists>e. r = Inl e) \<and> sw_world u = w2 | Inr (stored, created) \<Rightarrow>
         answered env done api (poll_interval interval) fuel (iv_WaitSeconds inp) (en_now env (w_tick w0)) (invoke_result d rv key stored created) w2 r (sw_world u)"
        using run Inr read d act ok pub q id
        by (auto simp: Invoke_def io_simps wrap_result_def on_world_def now_call_def w1_def Let_def answered_def invoke_result_def
            split: sum.splits option.splits if_splits prod.splits)
      have row: "\<exists>row \<in> set (lg_revisions (w_ledger w1)). same_identity SourceModeFunction (Function_SourceUID (iv_FunctionID inp)) row
          \<and> vr_tenant row = TrimSpace (iv_TenantID inp) \<and> vr_active row \<and> snd rv = id_Namespace (rev_Identity (vr_rev row))"
        using w0(3) [OF ok(1)] by (auto simp: w1_def id q)
      have w1: "w_cluster w1 = w_cluster (sw_world v)" "w_ledger w1 = en_other env (w_tick (sw_world v1)) (w_ledger (sw_world v))"
        using w0 v1 by (simp_all add: w1_def)
      show thesis
        by (rule published [OF Inr id w1 w1_def row ok(2) [unfolded id] d(3) d(2) [unfolded q] pub rest])
    qed
  qed
qed

text \<open>An invocation always ends: the longest wait is at most \<open>fuel\<close> rounds.\<close>

lemma Invoke_ends:
  assumes clock: "mono (en_now env)" and fuel: "maxInvokeWaitSeconds * second_ns < int fuel * poll_interval interval"
    and run: "Invoke x env other done nonce api interval fuel inp v = (r, u)"
  shows "r \<noteq> Inr None"
  using run
proof (cases rule: Invoke_outcome)
  case (published q d rv key k w0 w1 p w2)
  obtain n where n: "fuel = Suc n" using fuel by (cases fuel) (auto simp: maxInvokeWaitSeconds_def)
  have wait: "iv_WaitSeconds inp \<le> maxInvokeWaitSeconds" using normalizeInput_Inr [OF published(1)] by simp
  have tick: "w_tick w1 \<le> w_tick w2"
    using published(10) by (auto simp: JobRunPublisher_Publish_def create_or_adopt_def kube_call_def io_simps Let_def split: if_splits sum.splits prod.splits)
  have "en_now env (w_tick w0) + iv_WaitSeconds inp * second_ns < en_now env m + int (Suc n) * poll_interval interval" if "w_tick w2 < m" for m
  proof -
    have "en_now env (w_tick w0) \<le> en_now env m" using monoD [OF clock] that tick published(5) by simp
    moreover have "iv_WaitSeconds inp * second_ns \<le> maxInvokeWaitSeconds * second_ns"
      using wait by simp
    ultimately show ?thesis using fuel n by simp
  qed
  note ends = await_returns [OF this, folded n]
  show ?thesis
  proof (cases p)
    case (Inl e) with published(11) show ?thesis by auto
  next
    case (Inr sc)
    obtain stored created where sc: "sc = (stored, created)" by fastforce
    let ?res = "invoke_result d rv key stored created"
    obtain ph w' where "awaitTerminalPhase env done api (poll_interval interval) (ir_Namespace ?res) (ir_Name ?res)
        (en_now env (w_tick w0) + iv_WaitSeconds inp * second_ns) fuel [] w2 = (Inr (Some ph), w')" using ends by blast
    then show ?thesis using published(11) Inr sc by (simp add: answered_def split: if_splits)
  qed
qed simp

lemma Invoke_publishes:
  fixes x :: Ext
  assumes srv: "jobrun_server api obj" and idem: "TrimSpace (iv_IdempotencyKey inp) \<noteq> []"
    and others: "\<And>k l. function_in (TrimSpace (iv_TenantID inp)) (iv_FunctionID inp) ns l \<Longrightarrow>
        function_in (TrimSpace (iv_TenantID inp)) (iv_FunctionID inp) ns (en_other env k l)"
  defines "n \<equiv> invoke_name x inp"
  shows "publishes obj (\<lambda>v. w_cluster (sw_world v)) ns n
     (\<lambda>v. function_in (TrimSpace (iv_TenantID inp)) (iv_FunctionID inp) ns (w_ledger (sw_world v)))
     (\<lambda>a. \<forall>res. a = Some res \<longrightarrow> ir_Namespace res = ns \<and> ir_Name res = n \<and> ir_OccurrenceKey res = invoke_key x inp)
     (\<lambda>a. \<exists>res. a = Some res \<and> ir_Created res) (Invoke x env other done nonce api interval fuel inp)"
  unfolding publishes_def
proof (intro allI impI)
  fix v r u
  assume pre: "function_in (TrimSpace (iv_TenantID inp)) (iv_FunctionID inp) ns (w_ledger (sw_world v))"
    and run: "Invoke x env other done nonce api interval fuel inp v = (r, u)"
  let ?goal = "function_in (TrimSpace (iv_TenantID inp)) (iv_FunctionID inp) ns (w_ledger (sw_world u)) \<and>
      only_at obj ns n (w_cluster (sw_world v)) (w_cluster (sw_world u)) \<and>
      (obj (w_cluster (sw_world v)) ns n \<noteq> None \<longrightarrow> obj (w_cluster (sw_world u)) ns n = obj (w_cluster (sw_world v)) ns n) \<and>
      (\<forall>a. r = Inr a \<longrightarrow> (\<forall>res. a = Some res \<longrightarrow> ir_Namespace res = ns \<and> ir_Name res = n \<and> ir_OccurrenceKey res = invoke_key x inp) \<and>
         obj (w_cluster (sw_world u)) ns n \<noteq> None \<and>
         ((\<exists>res. a = Some res \<and> ir_Created res) \<longrightarrow> obj (w_cluster (sw_world v)) ns n = None))"
  from run show ?goal
  proof (cases rule: Invoke_outcome)
    case (refused e) then show ?thesis using pre others by (auto simp: only_at_refl)
  next
    case (published q d rv key k w0 w1 p w2)
    have key: "key = invoke_key x inp"
      using published(7) idem normalizeInput_Inr [OF published(1)] by (auto simp: deriveOccurrenceKey_def invoke_key_def Let_def)
    have in1: "function_in (TrimSpace (iv_TenantID inp)) (iv_FunctionID inp) ns (w_ledger w1)" using others [OF pre] published(4) by simp
    with published(6) have ns: "snd rv = ns" unfolding function_in_def by metis
    have at: "om_Namespace (jo_Meta (invoke_jobRun d rv key (iv_ActorID q))) = ns" "om_Name (jo_Meta (invoke_jobRun d rv key (iv_ActorID q))) = n"
      using published(2) by (simp_all add: invoke_jobRun_def Let_def ns n_def key)
    note out = Publish_outcome [OF srv published(10) [unfolded JobRunPublisher_Publish_def], unfolded at]
    show ?thesis
    proof (cases p)
      case (Inl e) then show ?thesis using published(3,11) out in1 by auto
    next
      case (Inr sc)
      obtain stored created where sc: "sc = (stored, created)" by fastforce
      have stored: "obj (w_cluster w2) ns n = Some stored" "created \<longrightarrow> obj (w_cluster w1) ns n = None" using out(4) Inr sc by auto
      have res: "ir_Namespace (invoke_result d rv key stored created) = ns" "ir_Name (invoke_result d rv key stored created) = n"
        "ir_OccurrenceKey (invoke_result d rv key stored created) = invoke_key x inp" "ir_Created (invoke_result d rv key stored created) = created"
        using object_address [OF srv stored(1)] by (simp_all add: invoke_result_def key)
      have "w_ledger (sw_world u) = w_ledger w2 \<and> obj (w_cluster (sw_world u)) = obj (w_cluster w2) \<and>
        (\<forall>res'. r = Inr (Some res') \<longrightarrow> (\<exists>ph. res' = (invoke_result d rv key stored created)\<lparr>ir_Phase := ph\<rparr>))"
        using published(11) Inr sc answered_frame [OF srv] by simp
      then show ?thesis using published(3) out in1 stored res by (auto simp: only_at_def)
    qed
  qed
qed

subsection \<open>The synchronisation\<close>

text \<open>The interface of the synchronisation to its two stores.\<close>

locale function_sync_store = service R env S other
  for R :: "ledger \<Rightarrow> ledger \<Rightarrow> bool" and env :: env and S :: "function_db \<Rightarrow> function_db \<Rightarrow> bool" and other :: "nat \<Rightarrow> function_db \<Rightarrow> function_db" +
  assumes function_revision: "io_keeps R (ApplyRevisionForTenant j t rv)"
begin

lemma active_keeps: "io_keeps S (Function_ActiveForTenant t)"
  unfolding Function_ActiveForTenant_def listScoped_def by (intro tx_keeps io_read_keeps S_refl)

lemma ApplyFunction_keeps: "io_keeps (on_ledger R) (ApplyFunction x env d ns t a)"
  unfolding ApplyFunction_def by (auto intro!: store intros function_revision)

lemma RunTenant_keeps: "io_keeps (on_service R S) (RunTenant x env other scope)"
  unfolding RunTenant_def sync_or_skip_def by (auto intro!: sintros ssum world db active_keeps ApplyFunction_keeps)

end

lemma function_sync_wf:
  assumes "\<And>n l. wf_kept l (en_other env n l)" and "\<And>n s. functions_kept s (other n s)"
  shows "function_sync_store wf_kept env functions_kept other"
  using assms functions_kept_refl functions_kept_trans
  by unfold_locales (auto simp: reflp_def transp_def intro: wf_ApplyRevision)

lemma function_sync_evolves:
  assumes "\<And>n l. ledger_evolves l (en_other env n l)" and "\<And>n s. functions_kept s (other n s)"
  shows "function_sync_store ledger_evolves env functions_kept other"
  using assms ledger_evolves_refl ledger_evolves_trans functions_kept_refl functions_kept_trans
  by unfold_locales (auto intro: evolves_ApplyRevision)

interpretation quiet_sync: function_sync_store ledger_evolves "quiet now" functions_kept "\<lambda>_ s. s" for now
  using ledger_evolves_refl functions_kept_refl
  by (intro function_sync_evolves) (simp_all add: quiet_def reflp_def)

text \<open>A function the loop projected is invocable: its revision of the current version is the active one.\<close>

lemma ApplyFunction_active:
  assumes quiet: "undisturbed env" and wf: "ledger_wf (w_ledger w)" and run: "ApplyFunction x env d ns t a w = (Inr i, w')"
  shows "\<exists>row \<in> set (lg_revisions (w_ledger w')). rev_Generation (vr_rev row) = fd_Version d \<and> rev_ID (vr_rev row) = i
    \<and> ActiveFunctionRevision t (Function_SourceUID (fd_ID d)) (w_ledger w') = (Inr (i, id_Namespace (rev_Identity (vr_rev row))), w_ledger w')"
proof -
  let ?uid = "Function_SourceUID (fd_ID d)"
  from run obtain rv now v where rv: "Revision_New (ex_sha x) \<lparr>id_SourceMode = SourceModeFunction, id_SourceUID = ?uid, id_Namespace = ns,
        id_Name = ?uid\<rparr> (fd_Version d) (normalizeSpec x (FunctionJobSpec d)) a (fd_ResourceGroupID d) now = Inr rv"
    and call: "store_call env (\<lambda>_. ApplyRevisionForTenant (ex_jsonb x) t rv) v = (Inr i, w')" and v: "w_ledger v = w_ledger w" and t: "t \<noteq> []"
    by (auto simp: ApplyFunction_def now_call_def io_simps split: if_splits sum.splits)
  from store_call_result [OF quiet call] v have applied: "ApplyRevisionForTenant (ex_jsonb x) t rv (w_ledger w) = (Inr i, w_ledger w')" by auto
  note new = Revision_New_ok [OF rv]
  from ApplyRevision_ok [OF applied] obtain row where row: "row \<in> set (lg_revisions (w_ledger w'))" "stored_revision t rv i row" "vr_active row" by blast
  have wf': "ledger_wf (w_ledger w')" using io_keepsD' [OF wf_ApplyRevision applied] wf by simp
  have hit: "same_identity SourceModeFunction ?uid row \<and> vr_tenant row = t \<and> vr_active row" using row new by (auto simp: stored_revision_def)
  have active: "one_active (lg_revisions (w_ledger w'))" and ids: "distinct (map (\<lambda>r. rev_ID (vr_rev r)) (lg_revisions (w_ledger w')))"
    using wf' by (simp_all add: ledger_wf_def revisions_wf_def)
  have found: "find (\<lambda>r. same_identity SourceModeFunction ?uid r \<and> vr_tenant r = t \<and> vr_active r) (lg_revisions (w_ledger w')) = Some row"
  proof (rule find_unique [OF ids row(1)])
    fix r assume "r \<in> set (lg_revisions (w_ledger w'))" "same_identity SourceModeFunction ?uid r \<and> vr_tenant r = t \<and> vr_active r"
    with one_activeD [OF active this(1) row(1)] hit show "rev_ID (vr_rev r) = rev_ID (vr_rev row)"
      by (auto simp: same_identity_def rev_key_def)
  qed (rule hit)
  have "ActiveFunctionRevision t ?uid (w_ledger w') = (Inr (i, id_Namespace (rev_Identity (vr_rev row))), w_ledger w')"
    using found t row(2) by (simp add: ActiveFunctionRevision_def WithTenantTransaction_eq WithTenant_def io_simps io_get_def stored_revision_def)
  with row new show ?thesis by (auto simp: stored_revision_def)
qed

end
