(* ===== verification/Workflow_Commands.thy ===== *)
theory Workflow_Commands
  imports Run_Command_Laws
begin

section \<open>Workflows through the admin API\<close>

text \<open>
  \<open>internal/admin/http/workflow_usecase.go\<close> over the projection of workflow definitions (\<open>internal/core/store/postgres/workflow_definition_repository.go\<close>, adapted in
  \<open>cmd/admin-api/workflow_definitions.go\<close>), the workflow ledger and the publisher of workflow runs (\<open>internal/admin/kube/workflowrun.go\<close>). The shared input checks are
  those of \<open>usecase_input.go\<close>. An item returned to the client is the record it is built from, but for the fail policy and the task count, which the list item computes.
\<close>

definition defaultListPageLimit :: int where "defaultListPageLimit = 50"
definition maxListPageLimit :: int where "maxListPageLimit = 100"

definition http_normalizeTenantID :: "string \<Rightarrow> string result" where
  "http_normalizeTenantID t = (let tenantID = TrimSpace t in if length tenantID \<noteq> 26 then Inl (ValidationError ''tenant_id'') else Inr tenantID)"

definition normalizeListLimit :: "int \<Rightarrow> int" where
  "normalizeListLimit limit = (if limit < 1 then defaultListPageLimit else if limit > maxListPageLimit then maxListPageLimit else limit)"

subsection \<open>Definitions\<close>

record WorkflowDefinition =
  wd_ID :: int
  wd_Name :: string
  wd_Namespace :: string
  wd_SourceUID :: string
  wd_Generation :: int
  wd_Spec :: WorkflowJobSpec
  wd_CreatedAt :: time

definition scanWorkflowDefinition :: "Ext \<Rightarrow> RevisionRow \<Rightarrow> WorkflowDefinition result" where
  "scanWorkflowDefinition x row =
     (let rv = vr_rev row in
      rbind (wrap_result ''decode workflow spec'' (ex_decode_workflow x (rev_NormalizedSpec rv))) (\<lambda>spec.
      Inr \<lparr>wd_ID = rev_ID rv, wd_Name = id_Name (rev_Identity rv), wd_Namespace = id_Namespace (rev_Identity rv),
           wd_SourceUID = id_SourceUID (rev_Identity rv), wd_Generation = rev_Generation rv, wd_Spec = spec, wd_CreatedAt = rev_CreatedAt rv\<rparr>))"

fun scan_workflow_rows :: "Ext \<Rightarrow> RevisionRow list \<Rightarrow> WorkflowDefinition list result" where
  "scan_workflow_rows x [] = Inr []"
| "scan_workflow_rows x (row # rows) =
     rbind (scanWorkflowDefinition x row) (\<lambda>d. rbind (scan_workflow_rows x rows) (\<lambda>ds. Inr (d # ds)))"

definition active_workflow :: "string \<Rightarrow> RevisionRow \<Rightarrow> bool" where
  "active_workflow tenantID row \<longleftrightarrow> vr_tenant row = tenantID \<and> id_SourceMode (rev_Identity (vr_rev row)) = SourceModeWorkflow \<and> vr_active row"

definition ListActiveWorkflowDefinitions :: "Ext \<Rightarrow> string \<Rightarrow> int \<Rightarrow> int \<Rightarrow> (ledger, WorkflowDefinition list) io" where
  "ListActiveWorkflowDefinitions x tenantID limit offset =
     (let limit = (if limit < 1 then defaultRunPage else limit); offset = (if offset < 0 then 0 else offset) in
      io_bind (io_get (\<lambda>l. take (nat limit) (drop (nat offset)
         (sort_key (\<lambda>row. (- rev_CreatedAt (vr_rev row), - rev_ID (vr_rev row))) (filter (active_workflow tenantID) (lg_revisions l)))))) (\<lambda>rows.
       io_lift (scan_workflow_rows x rows)))"

definition ActiveWorkflowDefinition :: "Ext \<Rightarrow> string \<Rightarrow> int \<Rightarrow> (ledger, WorkflowDefinition) io" where
  "ActiveWorkflowDefinition x tenantID i =
     io_bind (io_get (\<lambda>l. find (\<lambda>row. active_workflow tenantID row \<and> rev_ID (vr_rev row) = i) (lg_revisions l))) (\<lambda>found.
      case found of
        None \<Rightarrow> io_fail (NotFoundError ''workflow'')
      | Some row \<Rightarrow> io_lift (wrap_result ''get workflow definition'' (scanWorkflowDefinition x row)))"

record WorkflowListItem =
  wli_Definition :: WorkflowDefinition
  wli_FailPolicy :: string
  wli_TaskCount :: int

definition newWorkflowListItem :: "WorkflowDefinition \<Rightarrow> WorkflowListItem" where
  "newWorkflowListItem def =
     \<lparr>wli_Definition = def,
      wli_FailPolicy = (if ws_FailPolicy (wd_Spec def) = Continue then ''Continue'' else ''FailFast''),
      wli_TaskCount = int (length (ws_Tasks (wd_Spec def)))\<rparr>"

definition ListWorkflows :: "Ext \<Rightarrow> env \<Rightarrow> string \<Rightarrow> string \<Rightarrow> int \<Rightarrow> int \<Rightarrow> ('k world, WorkflowListItem list) io" where
  "ListWorkflows x env t scope limit offset =
     io_bind (io_lift (http_normalizeTenantID t)) (\<lambda>tenantID.
     io_bind (io_lift (RequireUnscoped scope ''workflow definition'')) (\<lambda>_.
     io_bind (store_call env (\<lambda>_. ListActiveWorkflowDefinitions x tenantID (normalizeListLimit limit) offset)) (\<lambda>defs.
     io_return (map newWorkflowListItem defs))))"

record WorkflowGetInput =
  wg_ID :: int
  wg_TenantID :: string
  wg_ResourceGroupID :: string

definition get_workflow :: "Ext \<Rightarrow> env \<Rightarrow> WorkflowGetInput \<Rightarrow> ('k world, WorkflowDefinition) io" where
  "get_workflow x env inp =
     io_bind (io_lift (http_normalizeTenantID (wg_TenantID inp))) (\<lambda>tenantID.
     io_bind (io_lift (RequireUnscoped (wg_ResourceGroupID inp) ''workflow definition'')) (\<lambda>_.
     if wg_ID inp < 1 then io_fail (ValidationError ''id'')
     else store_call env (\<lambda>_. ActiveWorkflowDefinition x tenantID (wg_ID inp))))"

text \<open>The tasks of the item are those of the specification, in its order.\<close>

definition GetWorkflow :: "Ext \<Rightarrow> env \<Rightarrow> WorkflowGetInput \<Rightarrow> ('k world, WorkflowListItem \<times> WorkflowTaskSpec list) io" where
  "GetWorkflow x env inp = io_bind (get_workflow x env inp) (\<lambda>def. io_return (newWorkflowListItem def, ws_Tasks (wd_Spec def)))"

subsection \<open>Triggering\<close>

record WorkflowRunObject =
  wo_Meta :: ObjectMeta
  wo_Spec :: WorkflowRunSpec

record WorkflowRunView =
  wv_Object :: WorkflowRunObject
  wv_Phase :: string

type_synonym 'k WorkflowAPI = "('k, WorkflowRunObject, WorkflowRunView) CRApi"

definition WorkflowRunPublisher_Create :: "'k WorkflowAPI \<Rightarrow> WorkflowRunObject \<Rightarrow> ('k world, WorkflowRunView \<times> bool) io" where
  "WorkflowRunPublisher_Create = create_or_adopt ''workflow run'' wo_Meta"

definition WorkflowRunPublisher_Get :: "'k WorkflowAPI \<Rightarrow> string \<Rightarrow> string \<Rightarrow> ('k world, WorkflowRunView) io" where
  "WorkflowRunPublisher_Get = get_object ''workflow run''"

definition WorkflowRunPublisher_RequestCancel :: "'k WorkflowAPI \<Rightarrow> string \<Rightarrow> string \<Rightarrow> ('k world, unit) io" where
  "WorkflowRunPublisher_RequestCancel = patch_cancel ''workflow run''"

record WorkflowTriggerInput =
  wti_WorkflowID :: int
  wti_TenantID :: string
  wti_ActorID :: string
  wti_IdempotencyKey :: string
  wti_ResourceGroupID :: string

definition normalizeWorkflowTriggerInput :: "WorkflowTriggerInput \<Rightarrow> WorkflowTriggerInput result" where
  "normalizeWorkflowTriggerInput inp =
     (if wti_WorkflowID inp < 1 then Inl (ValidationError ''id'')
      else rbind (http_normalizeTenantID (wti_TenantID inp)) (\<lambda>tenantID.
      rbind (normalize_actor (wti_ActorID inp)) (\<lambda>actorID.
      Inr (inp\<lparr>wti_TenantID := tenantID, wti_ActorID := actorID, wti_IdempotencyKey := TrimSpace (wti_IdempotencyKey inp)\<rparr>))))"

definition workflowOccurrenceKey :: "(string \<Rightarrow> string) \<Rightarrow> string result \<Rightarrow> WorkflowTriggerInput \<Rightarrow> string \<Rightarrow> string result" where
  "workflowOccurrenceKey sha nonce inp sourceUID =
     (let base = ''workflow|'' @ wti_TenantID inp @ ''|'' @ sourceUID @ ''|'' @ itoa (wti_WorkflowID inp) in
      if wti_IdempotencyKey inp \<noteq> [] then Inr (sha (base @ ''|idem|'' @ wti_IdempotencyKey inp))
      else rbind (wrap_result ''generate workflow trigger nonce'' nonce) (\<lambda>n. Inr (sha (base @ ''|nonce|'' @ n))))"

definition manualWorkflowRun :: "WorkflowDefinition \<Rightarrow> string \<Rightarrow> string \<Rightarrow> WorkflowRunObject" where
  "manualWorkflowRun def occurrenceKey actorID =
     \<lparr>wo_Meta = \<lparr>om_Name = WorkflowRunObjectName (wd_Name def) occurrenceKey, om_Namespace = wd_Namespace def, om_UID = [], om_Labels = [],
        om_Annotations = [], om_OwnerReferences = []\<rparr>,
      wo_Spec = \<lparr>wrs_WorkflowRef = \<lparr>ref_Name = wd_Name def, ref_UID = wd_SourceUID def\<rparr>, wrs_DefinitionRevision = wd_ID def, wrs_Trigger = Manual,
        wrs_Actor = actorID, wrs_OccurrenceKey = occurrenceKey, wrs_CancelRequested = False\<rparr>\<rparr>"

definition TriggerWorkflow :: "Ext \<Rightarrow> env \<Rightarrow> string result \<Rightarrow> 'k WorkflowAPI \<Rightarrow> WorkflowTriggerInput \<Rightarrow> ('k world, TriggerResult) io" where
  "TriggerWorkflow x env nonce api inp =
     io_bind (io_lift (normalizeWorkflowTriggerInput inp)) (\<lambda>normalized.
     io_bind (get_workflow x env \<lparr>wg_ID = wti_WorkflowID normalized, wg_TenantID = wti_TenantID normalized,
        wg_ResourceGroupID = wti_ResourceGroupID normalized\<rparr>) (\<lambda>def.
     if ws_Suspend (wd_Spec def) then io_fail (ConflictError ''workflow'')
     else io_bind (io_lift (workflowOccurrenceKey (ex_sha x) nonce normalized (wd_SourceUID def))) (\<lambda>occurrenceKey.
       io_bind (io_wrap ''publish workflow run'' (WorkflowRunPublisher_Create api (manualWorkflowRun def occurrenceKey (wti_ActorID normalized)))) (\<lambda>(stored, created).
       io_return \<lparr>tr_Namespace = om_Namespace (wo_Meta (wv_Object stored)), tr_Name = om_Name (wo_Meta (wv_Object stored)),
         tr_OccurrenceKey = occurrenceKey, tr_Trigger = trigger_string Manual, tr_Phase = wv_Phase stored, tr_Created = created\<rparr>))))"

subsection \<open>Runs\<close>

definition ListWorkflowRuns :: "Ext \<Rightarrow> env \<Rightarrow> WorkflowGetInput \<Rightarrow> int \<Rightarrow> int \<Rightarrow> ('k world, Run list) io" where
  "ListWorkflowRuns x env inp limit offset =
     io_bind (io_lift (http_normalizeTenantID (wg_TenantID inp))) (\<lambda>tenantID.
     io_bind (io_lift (RequireUnscoped (wg_ResourceGroupID inp) ''workflow run'')) (\<lambda>_.
     io_bind (get_workflow x env (inp\<lparr>wg_TenantID := tenantID\<rparr>)) (\<lambda>def.
     store_call env (\<lambda>_. RunsForDefinition tenantID (wd_SourceUID def) (normalizeListLimit limit) offset))))"

definition resolveRun :: "Ext \<Rightarrow> env \<Rightarrow> WorkflowGetInput \<Rightarrow> int \<Rightarrow> ('k world, Run) io" where
  "resolveRun x env inp runID =
     (if runID < 1 then io_fail (ValidationError ''run_id'')
      else io_bind (io_lift (http_normalizeTenantID (wg_TenantID inp))) (\<lambda>tenantID.
      io_bind (io_lift (RequireUnscoped (wg_ResourceGroupID inp) ''workflow run'')) (\<lambda>_.
      io_bind (get_workflow x env (inp\<lparr>wg_TenantID := tenantID\<rparr>)) (\<lambda>def.
      io_bind (store_call env (\<lambda>_. WorkflowRunByID tenantID runID)) (\<lambda>found.
      case found of
        None \<Rightarrow> io_fail (NotFoundError ''workflow run'')
      | Some run \<Rightarrow> if wf_SourceUID run \<noteq> wd_SourceUID def then io_fail (NotFoundError ''workflow run'') else io_return run)))))"

definition GetWorkflowRun :: "Ext \<Rightarrow> env \<Rightarrow> WorkflowGetInput \<Rightarrow> int \<Rightarrow> ('k world, Run \<times> StepRun list) io" where
  "GetWorkflowRun x env inp runID =
     io_bind (resolveRun x env inp runID) (\<lambda>run.
     io_bind (io_lift (http_normalizeTenantID (wg_TenantID inp))) (\<lambda>tenantID.
     io_bind (store_call env (\<lambda>_. Steps tenantID (wf_ID run))) (\<lambda>steps. io_return (run, steps))))"

definition CancelWorkflowRun :: "Ext \<Rightarrow> env \<Rightarrow> 'k WorkflowAPI \<Rightarrow> WorkflowGetInput \<Rightarrow> int \<Rightarrow> ('k world, CancelResult) io" where
  "CancelWorkflowRun x env api inp runID =
     io_bind (resolveRun x env inp runID) (\<lambda>run.
     io_bind (get_workflow x env inp) (\<lambda>def.
     let name = WorkflowRunObjectName (wd_Name def) (wf_OccurrenceKey run);
         result = \<lparr>cx_Namespace = wd_Namespace def, cx_Name = name, cx_OccurrenceKey = wf_OccurrenceKey run,
                   cx_Phase = wphase_string (wf_Phase run)\<rparr> in
     if WTerminal (wf_Phase run) then io_return result
     else io_bind (io_wrap ''request cancel for workflow run'' (WorkflowRunPublisher_RequestCancel api (wd_Namespace def) name)) (\<lambda>_.
       io_return result)))"

subsection \<open>What the workflow commands promise\<close>

abbreviation wfrun_server :: "'k WorkflowAPI \<Rightarrow> ('k \<Rightarrow> string \<Rightarrow> string \<Rightarrow> WorkflowRunView option) \<Rightarrow> bool" where
  "wfrun_server \<equiv> run_server wo_Meta (\<lambda>v. wo_Meta (wv_Object v))"

lemma ActiveWorkflowDefinition_outcome:
  assumes "ActiveWorkflowDefinition x t i l = (r, l')"
  shows "l' = l" and "r = Inr d \<Longrightarrow> \<exists>row \<in> set (lg_revisions l). active_workflow t row \<and> rev_ID (vr_rev row) = i \<and> scanWorkflowDefinition x row = Inr d"
  using assms unfolding ActiveWorkflowDefinition_def
  by (auto simp: io_simps io_get_def wrap_result_def find_Some_iff split: if_splits option.splits sum.splits prod.splits)

lemma scanWorkflowDefinition_Inr:
  "scanWorkflowDefinition x row = Inr d \<Longrightarrow> wd_Name d = id_Name (rev_Identity (vr_rev row)) \<and> wd_Namespace d = id_Namespace (rev_Identity (vr_rev row))
     \<and> wd_SourceUID d = id_SourceUID (rev_Identity (vr_rev row)) \<and> wd_ID d = rev_ID (vr_rev row)"
  by (auto simp: scanWorkflowDefinition_def rbind_def wrap_result_def Let_def split: sum.splits)

text \<open>Reading a definition: nothing but other writers moves, and an answer is an active workflow revision of the tenant under that id.\<close>

lemma get_workflow_outcome:
  assumes run: "get_workflow x env inp w = (r, w')"
  shows "w_cluster w' = w_cluster w" and "w_ledger w' = w_ledger w \<or> (\<exists>k. w_ledger w' = en_other env k (w_ledger w))"
    and "r = Inr d \<Longrightarrow> \<exists>row \<in> set (lg_revisions (w_ledger w')). active_workflow (TrimSpace (wg_TenantID inp)) row
       \<and> rev_ID (vr_rev row) = wg_ID inp \<and> scanWorkflowDefinition x row = Inr d \<and> wg_ResourceGroupID inp = []"
proof -
  let ?t = "TrimSpace (wg_TenantID inp)"
  obtain g w1 where read: "store_call env (\<lambda>_. ActiveWorkflowDefinition x ?t (wg_ID inp)) w = (g, w1)" by fastforce
  note w1 = store_call_read [OF read, OF ActiveWorkflowDefinition_outcome(1) [OF surjective_pairing]]
  have "w' = w \<and> (\<exists>e. r = Inl e) \<or> w' = w1 \<and> r = g \<and> wg_ResourceGroupID inp = []"
    using run read by (auto simp: get_workflow_def io_simps http_normalizeTenantID_def RequireUnscoped_def Let_def split: if_splits)
  then show "w_cluster w' = w_cluster w" and "w_ledger w' = w_ledger w \<or> (\<exists>k. w_ledger w' = en_other env k (w_ledger w))"
    and "r = Inr d \<Longrightarrow> \<exists>row \<in> set (lg_revisions (w_ledger w')). active_workflow ?t row
       \<and> rev_ID (vr_rev row) = wg_ID inp \<and> scanWorkflowDefinition x row = Inr d \<and> wg_ResourceGroupID inp = []"
    using w1 ActiveWorkflowDefinition_outcome(2) [OF w1(3), of d d] by auto
qed

definition workflow_key :: "Ext \<Rightarrow> WorkflowTriggerInput \<Rightarrow> RevisionRow \<Rightarrow> string" where
  "workflow_key x inp row = ex_sha x (''workflow|'' @ TrimSpace (wti_TenantID inp) @ ''|'' @ id_SourceUID (rev_Identity (vr_rev row)) @ ''|''
     @ itoa (wti_WorkflowID inp) @ ''|idem|'' @ TrimSpace (wti_IdempotencyKey inp))"

abbreviation workflow_name :: "Ext \<Rightarrow> WorkflowTriggerInput \<Rightarrow> RevisionRow \<Rightarrow> string" where
  "workflow_name x inp row \<equiv> WorkflowRunObjectName (id_Name (rev_Identity (vr_rev row))) (workflow_key x inp row)"

lemma normalizeWorkflowTriggerInput_Inr:
  "normalizeWorkflowTriggerInput inp = Inr q \<Longrightarrow> q = inp\<lparr>wti_TenantID := TrimSpace (wti_TenantID inp), wti_ActorID := TrimSpace (wti_ActorID inp),
     wti_IdempotencyKey := TrimSpace (wti_IdempotencyKey inp)\<rparr>"
  by (auto simp: normalizeWorkflowTriggerInput_def rbind_def http_normalizeTenantID_def normalize_actor_def Let_def split: if_splits)

lemma TriggerWorkflow_publishes:
  fixes x :: Ext
  assumes srv: "wfrun_server api obj" and kept: "history_kept env" and row: "row \<in> set (lg_revisions l)" "rev_ID (vr_rev row) = wti_WorkflowID inp"
    and idem: "TrimSpace (wti_IdempotencyKey inp) \<noteq> []"
  defines "ns \<equiv> id_Namespace (rev_Identity (vr_rev row))" and "n \<equiv> workflow_name x inp row"
  shows "publishes obj w_cluster ns n (history_of l)
    (\<lambda>a. tr_Namespace a = ns \<and> tr_Name a = n \<and> tr_OccurrenceKey a = workflow_key x inp row) tr_Created (TriggerWorkflow x env nonce api inp)"
  unfolding publishes_def
proof (intro allI impI)
  fix w r w' assume hist: "history_of l w" and run: "TriggerWorkflow x env nonce api inp w = (r, w')"
  let ?goal = "history_of l w' \<and> only_at obj ns n (w_cluster w) (w_cluster w') \<and>
    (obj (w_cluster w) ns n \<noteq> None \<longrightarrow> obj (w_cluster w') ns n = obj (w_cluster w) ns n) \<and>
    (\<forall>a. r = Inr a \<longrightarrow> (tr_Namespace a = ns \<and> tr_Name a = n \<and> tr_OccurrenceKey a = workflow_key x inp row)
       \<and> obj (w_cluster w') ns n \<noteq> None \<and> (tr_Created a \<longrightarrow> obj (w_cluster w) ns n = None))"
  show ?goal
  proof (cases "normalizeWorkflowTriggerInput inp")
    case (Inl e) with run hist show ?thesis by (auto simp: TriggerWorkflow_def io_simps only_at_refl)
  next
    case (Inr q)
    note q = normalizeWorkflowTriggerInput_Inr [OF Inr]
    let ?in = "\<lparr>wg_ID = wti_WorkflowID q, wg_TenantID = wti_TenantID q, wg_ResourceGroupID = wti_ResourceGroupID q\<rparr>"
    obtain g w1 where read: "get_workflow x env ?in w = (g, w1)" by fastforce
    note w1 = get_workflow_outcome [OF read]
    have h1: "history_of l w1" using w1(2) hist history_step [OF kept hist] by auto
    show ?thesis
    proof (cases g)
      case (Inl e) with run Inr read h1 w1(1) show ?thesis by (auto simp: TriggerWorkflow_def io_simps only_at_refl)
    next
      case (Inr d)
      from w1(3) [OF Inr] obtain row' where row': "row' \<in> set (lg_revisions (w_ledger w1))"
        "rev_ID (vr_rev row') = wti_WorkflowID q" "scanWorkflowDefinition x row' = Inr d" by auto
      have same: "vr_rev row' = vr_rev row" using h1 row row' q by (intro revision_is [of "w_ledger w1" l row row']) auto
      note d = scanWorkflowDefinition_Inr [OF row'(3), unfolded same]
      have key: "workflowOccurrenceKey (ex_sha x) nonce q (wd_SourceUID d) = Inr (workflow_key x inp row)"
        using idem d by (simp add: workflowOccurrenceKey_def workflow_key_def q Let_def)
      let ?run = "manualWorkflowRun d (workflow_key x inp row) (wti_ActorID q)"
      have at: "om_Namespace (wo_Meta ?run) = ns" "om_Name (wo_Meta ?run) = n"
        using d by (simp_all add: manualWorkflowRun_def ns_def n_def)
      obtain p w2 where pub: "WorkflowRunPublisher_Create api ?run w1 = (p, w2)" by fastforce
      note out = Publish_outcome [OF srv pub [unfolded WorkflowRunPublisher_Create_def], unfolded at]
      have "w' = w1 \<and> (\<exists>e. r = Inl e) \<or> w' = w2 \<and>
        (r = (case p of Inl e \<Rightarrow> Inl (Wrapf ''publish workflow run'' e) | Inr (v, c) \<Rightarrow>
           Inr \<lparr>tr_Namespace = om_Namespace (wo_Meta (wv_Object v)), tr_Name = om_Name (wo_Meta (wv_Object v)),
             tr_OccurrenceKey = workflow_key x inp row, tr_Trigger = trigger_string Manual, tr_Phase = wv_Phase v, tr_Created = c\<rparr>))"
        using run \<open>normalizeWorkflowTriggerInput inp = Inr q\<close> read Inr key pub
        by (auto simp: TriggerWorkflow_def io_simps wrap_result_def split: if_splits sum.splits prod.splits)
      then show ?thesis
        using h1 w1(1) out object_address [OF srv] by (cases p) (auto simp: only_at_refl)
    qed
  qed
qed

text \<open>The route shows runs of the workflow it names only.\<close>

lemma resolveRun_outcome:
  assumes quiet: "undisturbed env" and run: "resolveRun x env inp i w = (Inr a, w')"
  shows "\<exists>row \<in> set (lg_revisions (w_ledger w)). active_workflow (TrimSpace (wg_TenantID inp)) row \<and> rev_ID (vr_rev row) = wg_ID inp
     \<and> wf_SourceUID a = id_SourceUID (rev_Identity (vr_rev row))
     \<and> (\<exists>b \<in> set (lg_wruns (w_ledger w)). a = scanWorkflowRunRow b \<and> wf_ID b = i \<and> wf_TenantID b = TrimSpace (wg_TenantID inp)) \<and> wg_ResourceGroupID inp = []"
proof -
  let ?t = "TrimSpace (wg_TenantID inp)"
  from run obtain d w1 where read: "get_workflow x env (inp\<lparr>wg_TenantID := ?t\<rparr>) w = (Inr d, w1)"
    and found: "store_call env (\<lambda>_. WorkflowRunByID ?t i) w1 = (Inr (Some a), w')" and uid: "wf_SourceUID a = wd_SourceUID d"
    and scope: "wg_ResourceGroupID inp = []"
    by (auto simp: resolveRun_def io_simps http_normalizeTenantID_def RequireUnscoped_def Let_def
        split: if_splits prod.splits sum.splits option.splits)
  have same: "w_ledger w1 = w_ledger w" using get_workflow_outcome(2) [OF read] quiet by (auto simp: undisturbed_def)
  from get_workflow_outcome(3) [OF read refl] obtain row where row: "row \<in> set (lg_revisions (w_ledger w))" "active_workflow ?t row"
      "rev_ID (vr_rev row) = wg_ID inp" "scanWorkflowDefinition x row = Inr d" by (auto simp: same)
  from store_call_result [OF quiet found] same have "WorkflowRunByID ?t i (w_ledger w) = (Inr (Some a), w_ledger w')" by auto
  then have "\<exists>b \<in> set (lg_wruns (w_ledger w)). a = scanWorkflowRunRow b \<and> wf_ID b = i \<and> wf_TenantID b = ?t"
    by (auto simp: WorkflowRunByID_def withTenantTx_eq WithTenantTransaction_eq WithTenant_def io_simps io_get_def wrun_by_id_def split: if_splits dest!: find_SomeD)
  with row scanWorkflowDefinition_Inr [OF row(4)] uid scope show ?thesis by auto
qed

end
