(* ===== verification/Function_Queries.thy ===== *)
theory Function_Queries
  imports Function_Invoke_Laws Workflow_Commands
begin

section \<open>Functions through the admin API\<close>

text \<open>
  \<open>internal/admin/http/function_usecase.go\<close>: the reads of definitions and of finished invocations. A row carries its resource group, so a scoped caller
  sees the rows of its group and is told that every other one does not exist.
\<close>

type_synonym ('k, 'a) function_io = "(('k, function_db) sworld, 'a) io"

text \<open>The loop over the tenant's definitions, with what was skipped and what was taken so far.\<close>

fun list_loop :: "string \<Rightarrow> int \<Rightarrow> int \<Rightarrow> FunctionDefinition list \<Rightarrow> int \<Rightarrow> FunctionDefinition list \<Rightarrow> FunctionDefinition list" where
  "list_loop scope offset limit [] skipped out = out"
| "list_loop scope offset limit (def # defs) skipped out =
     (if \<not> visibleToGroup (fd_ResourceGroupID def) scope then list_loop scope offset limit defs skipped out
      else if skipped < offset then list_loop scope offset limit defs (skipped + 1) out
      else if int (length out) = limit then out
      else list_loop scope offset limit defs skipped (out @ [def]))"

definition ListFunctions :: "env \<Rightarrow> (nat \<Rightarrow> function_db \<Rightarrow> function_db) \<Rightarrow> string \<Rightarrow> string \<Rightarrow> int \<Rightarrow> int \<Rightarrow> ('k, FunctionDefinition list) function_io" where
  "ListFunctions env other t scope limit offset =
     io_bind (io_lift (http_normalizeTenantID t)) (\<lambda>tenantID.
     io_bind (db_call env other (\<lambda>_. Function_ListForTenant tenantID)) (\<lambda>defs.
     io_return (list_loop scope offset (normalizeListLimit limit) defs 0 [])))"

record FunctionGetInput =
  fg_ID :: int
  fg_TenantID :: string
  fg_ResourceGroupID :: string

definition GetFunction :: "env \<Rightarrow> (nat \<Rightarrow> function_db \<Rightarrow> function_db) \<Rightarrow> FunctionGetInput \<Rightarrow> ('k, FunctionDefinition) function_io" where
  "GetFunction env other inp =
     io_bind (io_lift (http_normalizeTenantID (fg_TenantID inp))) (\<lambda>tenantID.
     if fg_ID inp < 1 then io_fail (ValidationError ''id'')
     else io_bind (db_call env other (\<lambda>_. Function_GetForTenant tenantID (fg_ID inp))) (\<lambda>found.
       case found of
         None \<Rightarrow> io_fail (NotFoundError ''function'')
       | Some def \<Rightarrow> if \<not> visibleToGroup (fd_ResourceGroupID def) (fg_ResourceGroupID inp) then io_fail (NotFoundError ''function'') else io_return def))"

definition ListFunctionRuns :: "env \<Rightarrow> (nat \<Rightarrow> function_db \<Rightarrow> function_db) \<Rightarrow> FunctionGetInput \<Rightarrow> int \<Rightarrow> ('k, FunctionRun list) function_io" where
  "ListFunctionRuns env other inp limit =
     io_bind (GetFunction env other inp) (\<lambda>_.
     io_bind (io_lift (http_normalizeTenantID (fg_TenantID inp))) (\<lambda>tenantID.
     db_call env other (\<lambda>_. RunsByFunction tenantID (fg_ID inp) (normalizeListLimit limit))))"

definition GetFunctionRun ::
    "(string \<Rightarrow> string option) \<Rightarrow> env \<Rightarrow> (nat \<Rightarrow> function_db \<Rightarrow> function_db) \<Rightarrow> FunctionGetInput \<Rightarrow> string \<Rightarrow> ('k, FunctionRun) function_io" where
  "GetFunctionRun uuid env other inp runID =
     io_bind (GetFunction env other inp) (\<lambda>_.
     if TrimSpace runID = [] then io_fail (ValidationError ''run_id'')
     else io_bind (io_lift (http_normalizeTenantID (fg_TenantID inp))) (\<lambda>tenantID.
       io_bind (db_call env other (\<lambda>_. RunByRunID uuid tenantID (fg_ID inp) runID)) (\<lambda>found.
       case found of None \<Rightarrow> io_fail (NotFoundError ''function run'') | Some row \<Rightarrow> io_return row)))"

subsection \<open>The loop is the page of the visible rows\<close>

lemma list_loop_skipped:
  assumes "0 \<le> limit" and "int (length out) \<le> limit" and "offset \<le> skipped"
  shows "list_loop scope offset limit defs skipped out
     = out @ take (nat limit - length out) (filter (\<lambda>d. visibleToGroup (fd_ResourceGroupID d) scope) defs)"
  using assms(2)
proof (induction defs arbitrary: out)
  case Nil then show ?case by simp
next
  case (Cons d defs)
  show ?case
  proof (cases "visibleToGroup (fd_ResourceGroupID d) scope \<and> int (length out) \<noteq> limit")
    case True
    with Cons.prems have "int (length (out @ [d])) \<le> limit" and more: "nat limit - length out = Suc (nat limit - length (out @ [d]))" by auto
    with Cons.IH [of "out @ [d]"] True assms(3) show ?thesis by (auto simp: more)
  next
    case False
    then show ?thesis using Cons assms(1,3) by auto
  qed
qed

lemma list_loop_page:
  assumes "0 \<le> limit"
  shows "list_loop scope offset limit defs skipped []
     = take (nat limit) (drop (nat (offset - skipped)) (filter (\<lambda>d. visibleToGroup (fd_ResourceGroupID d) scope) defs))"
proof (induction defs arbitrary: skipped)
  case Nil then show ?case by simp
next
  case (Cons d defs)
  show ?case
  proof (cases "skipped < offset")
    case True
    then have "nat (offset - skipped) = Suc (nat (offset - (skipped + 1)))" by simp
    with Cons.IH True show ?thesis by auto
  next
    case False
    then have "offset \<le> skipped" by simp
    from list_loop_skipped [where out = "[]" and defs = "d # defs" and scope = scope, OF assms _ this] assms
    have "list_loop scope offset limit (d # defs) skipped []
       = take (nat limit) (filter (\<lambda>d. visibleToGroup (fd_ResourceGroupID d) scope) (d # defs))" by simp
    with False show ?thesis by (simp del: list_loop.simps)
  qed
qed

text \<open>What a caller learns of a function depends on the functions of its group only.\<close>

lemma GetFunction_visible:
  assumes "\<And>n s. other n s = s" and "GetFunction env other inp v = (Inr d, u)"
  shows "\<exists>row \<in> set (fn_defs (sw_store v)). d = fw_def row \<and> live_function (TrimSpace (fg_TenantID inp)) (fg_ID inp) row
    \<and> visibleToGroup (fd_ResourceGroupID d) (fg_ResourceGroupID inp)"
proof -
  from assms(2) obtain u where "db_call env other (\<lambda>_. Function_GetForTenant (TrimSpace (fg_TenantID inp)) (fg_ID inp)) v = (Inr (Some d), u)"
    and "visibleToGroup (fd_ResourceGroupID d) (fg_ResourceGroupID inp)"
    by (auto simp: GetFunction_def io_simps http_normalizeTenantID_def Let_def split: if_splits prod.splits sum.splits option.splits)
  with db_call_InrD [OF assms(1) this(1)] show ?thesis
    by (auto simp: Function_GetForTenant_def io_simps dest!: find_SomeD)
qed

end
