(* ===== verification/Admin_Http.thy ===== *)
theory Admin_Http
  imports Admin_Monitor Function_Queries Api_Keys_Laws
begin

section \<open>The handlers of the admin API\<close>

text \<open>
  \<open>internal/admin/http\<close>: \<open>handler.go\<close>, \<open>function_handlers.go\<close>, \<open>workflow_handlers.go\<close>, \<open>requests.go\<close>, \<open>errors.go\<close>, \<open>actor.go\<close> and
  \<open>apperror/apperror.go\<close>. A handler takes its use case as an argument, as the code takes it through an interface, and what gin decoded from
  the path, the query or the body; the rules of the \<open>binding\<close> tags are predicates on the decoded request. It answers with a
  status and a body, or with a status and an error code; texts of errors are left out.
\<close>

subsection \<open>Errors\<close>

datatype Code = CodeMalformedRequest | CodeValidation | CodeUnauthorized | CodeForbidden | CodeNotFound | CodeConflict
  | CodeRateLimited | CodeInternal | CodeServiceUnavailable

fun StatusForCode :: "Code \<Rightarrow> nat" where
  "StatusForCode CodeMalformedRequest = 400"
| "StatusForCode CodeValidation = 400"
| "StatusForCode CodeUnauthorized = 401"
| "StatusForCode CodeForbidden = 403"
| "StatusForCode CodeNotFound = 404"
| "StatusForCode CodeConflict = 409"
| "StatusForCode CodeRateLimited = 429"
| "StatusForCode CodeInternal = 500"
| "StatusForCode CodeServiceUnavailable = 503"

text \<open>\<open>errors.As\<close> and \<open>errors.Is\<close> look through the wrapping.\<close>

fun toAPIError :: "err \<Rightarrow> Code" where
  "toAPIError (Wrapf _ e) = toAPIError e"
| "toAPIError (ValidationError _) = CodeValidation"
| "toAPIError (NotFoundError _) = CodeNotFound"
| "toAPIError (ConflictError _) = CodeConflict"
| "toAPIError (ScopeError _) = CodeForbidden"
| "toAPIError ErrPrivilegeEscalation = CodeForbidden"
| "toAPIError ErrPlatformPolicyImmutable = CodeForbidden"
| "toAPIError _ = CodeInternal"

datatype 'a reply = Reply nat 'a | Refuse nat Code

type_synonym ('s, 'a) response = "'s \<Rightarrow> 'a reply \<times> 's"

definition refuse :: "nat \<Rightarrow> Code \<Rightarrow> ('s, 'a) response" where
  "refuse status code = (\<lambda>s. (Refuse status code, s))"

definition writeAPIError :: "err \<Rightarrow> ('s, 'a) response" where
  "writeAPIError e = refuse (StatusForCode (toAPIError e)) (toAPIError e)"

definition serve :: "('a \<Rightarrow> nat) \<Rightarrow> ('s, 'a) io \<Rightarrow> ('s, 'a) response" where
  "serve status m = (\<lambda>s. case m s of (Inl e, s') \<Rightarrow> writeAPIError e s' | (Inr a, s') \<Rightarrow> (Reply (status a) a, s'))"

abbreviation OK :: "'a \<Rightarrow> nat" where "OK \<equiv> \<lambda>_. 200"
abbreviation StatusCreated :: "'a \<Rightarrow> nat" where "StatusCreated \<equiv> \<lambda>_. 201"
abbreviation NoContent :: "'a \<Rightarrow> nat" where "NoContent \<equiv> \<lambda>_. 204"

subsection \<open>Binding\<close>

text \<open>\<open>ShouldBindUri\<close>, \<open>ShouldBindQuery\<close> and \<open>ShouldBindJSON\<close> decode and then validate; \<open>toBindAPIError\<close> tells the two failures apart.\<close>

datatype 'r decoded = Undecodable | Decoded 'r

definition toBindAPIError :: "bool \<Rightarrow> Code" where
  "toBindAPIError validator = (if validator then CodeValidation else CodeMalformedRequest)"

definition ShouldBind :: "('r \<Rightarrow> bool) \<Rightarrow> 'r decoded \<Rightarrow> ('r \<Rightarrow> ('s, 'a) response) \<Rightarrow> ('s, 'a) response" where
  "ShouldBind valid d k =
     (case d of
        Undecodable \<Rightarrow> refuse 400 (toBindAPIError False)
      | Decoded r \<Rightarrow> if valid r then k r else refuse 400 (toBindAPIError True))"

definition positive_id :: "int \<Rightarrow> bool" where "positive_id i \<longleftrightarrow> 1 \<le> i"
definition short_id :: "string \<Rightarrow> bool" where "short_id s \<longleftrightarrow> s \<noteq> [] \<and> rune_count s \<le> 26"
definition required_max :: "nat \<Rightarrow> string \<Rightarrow> bool" where "required_max n s \<longleftrightarrow> s \<noteq> [] \<and> rune_count s \<le> n"
definition omit_tenant :: "string \<Rightarrow> bool" where "omit_tenant s \<longleftrightarrow> s = [] \<or> rune_count s = 26"
definition omit_limit :: "int \<Rightarrow> bool" where "omit_limit l \<longleftrightarrow> l = 0 \<or> 1 \<le> l \<and> l \<le> 100"
definition omit_min :: "int \<Rightarrow> int \<Rightarrow> bool" where "omit_min m i \<longleftrightarrow> i = 0 \<or> m \<le> i"
definition omit_oneof :: "string list \<Rightarrow> string \<Rightarrow> bool" where "omit_oneof vs s \<longleftrightarrow> s = [] \<or> s \<in> set vs"

text \<open>
  Seven handlers bind one struct twice, from the path and then from the query. Its field \<open>ID\<close> has no \<open>form\<close> tag, so gin binds it in the second pass
  from the query parameter of the field's name, as it documents for untagged fields: \<open>?ID=\<close> replaces the id of the path, and the
  struct is validated again. A parameter that is absent leaves the id as it was.
\<close>

definition ShouldBindBoth :: "('q \<Rightarrow> bool) \<Rightarrow> int decoded \<Rightarrow> (int option \<times> 'q) decoded \<Rightarrow> (int \<Rightarrow> 'q \<Rightarrow> ('s, 'a) response) \<Rightarrow> ('s, 'a) response" where
  "ShouldBindBoth valid uri d k = ShouldBind positive_id uri (\<lambda>path.
     ShouldBind (\<lambda>(queryID, q). positive_id (case queryID of None \<Rightarrow> path | Some j \<Rightarrow> j) \<and> valid q) d (\<lambda>(queryID, q).
     k (case queryID of None \<Rightarrow> path | Some j \<Rightarrow> j) q))"

subsection \<open>The request context\<close>

text \<open>What the middleware left in the context, and the one header a handler reads.\<close>

record gctx =
  gx_TenantID :: string
  gx_Principal :: "Principal option"
  gx_Documents :: "Document list option"
  gx_IdempotencyKey :: string

definition KindPlatform :: string where "KindPlatform = ''platform''"

definition IsPlatform :: "Principal \<Rightarrow> bool" where
  "IsPlatform p \<longleftrightarrow> prn_Kind p = KindPlatform"

text \<open>The context behind \<open>Auth.Middleware\<close>.\<close>

definition authenticated :: "Principal \<Rightarrow> Document list \<Rightarrow> string \<Rightarrow> gctx" where
  "authenticated p docs key = \<lparr>gx_TenantID = prn_TenantID p, gx_Principal = Some p, gx_Documents = Some docs, gx_IdempotencyKey = key\<rparr>"

definition ResolveTenantID :: "gctx \<Rightarrow> string \<Rightarrow> string option" where
  "ResolveTenantID c fromRequest =
     (if fromRequest \<noteq> [] then Some fromRequest
      else if gx_TenantID c = [] then None else Some (gx_TenantID c))"

definition requireTenantID :: "gctx \<Rightarrow> string \<Rightarrow> string option" where
  "requireTenantID c fromRequest =
     (case ResolveTenantID c [] of
        None \<Rightarrow> None
      | Some tenantID \<Rightarrow>
          if fromRequest = [] \<or> fromRequest = tenantID then Some tenantID
          else case gx_Principal c of
              Some p \<Rightarrow> if IsPlatform p then Some fromRequest else None
            | None \<Rightarrow> None)"

definition with_tenant :: "gctx \<Rightarrow> string \<Rightarrow> (string \<Rightarrow> ('s, 'a) response) \<Rightarrow> ('s, 'a) response" where
  "with_tenant c fromRequest k =
     (case requireTenantID c fromRequest of None \<Rightarrow> refuse 403 CodeForbidden | Some tenantID \<Rightarrow> k tenantID)"

definition requireTenantIDFor :: "gctx \<Rightarrow> string \<Rightarrow> string option" where
  "requireTenantIDFor c fromRequest =
     (case requireTenantID c [] of
        None \<Rightarrow> None
      | Some tenant \<Rightarrow> if fromRequest = [] \<or> fromRequest = tenant then Some tenant else Some fromRequest)"

definition groupFrom :: "gctx \<Rightarrow> string" where
  "groupFrom c = (case gx_Principal c of None \<Rightarrow> [] | Some p \<Rightarrow> prn_ResourceGroupID p)"

definition actorID :: "gctx \<Rightarrow> string" where
  "actorID c = (case gx_Principal c of None \<Rightarrow> [] | Some p \<Rightarrow> prn_KeyID p)"

definition callerFrom :: "gctx \<Rightarrow> Caller" where
  "callerFrom c =
     (case gx_Principal c of
        None \<Rightarrow> \<lparr>ca_TenantID = [], ca_KeyID = [], ca_ResourceGroupID = [], ca_Documents = [], ca_IsPlatform = False, ca_BoundaryPolicyID = []\<rparr>
      | Some p \<Rightarrow> \<lparr>ca_TenantID = prn_TenantID p, ca_KeyID = prn_KeyID p, ca_ResourceGroupID = prn_ResourceGroupID p,
          ca_Documents = (case gx_Documents c of None \<Rightarrow> [] | Some docs \<Rightarrow> docs), ca_IsPlatform = IsPlatform p,
          ca_BoundaryPolicyID = prn_BoundaryPolicyID p\<rparr>)"

definition maxIdempotencyKeyLen :: nat where "maxIdempotencyKeyLen = 128"

text \<open>No key and the empty key are the same to every caller.\<close>

definition parseIdempotencyKey :: "gctx \<Rightarrow> string result" where
  "parseIdempotencyKey c =
     (let key = TrimSpace (gx_IdempotencyKey c) in
      if length key > maxIdempotencyKeyLen then Inl (ValidationError ''idempotency_key'') else Inr key)"

definition with_key :: "gctx \<Rightarrow> (string \<Rightarrow> ('s, 'a) response) \<Rightarrow> ('s, 'a) response" where
  "with_key c k = (case parseIdempotencyKey c of Inl e \<Rightarrow> refuse 400 (toAPIError e) | Inr key \<Rightarrow> k key)"

subsection \<open>Jobs and runs\<close>

record ListJobsRequest =
  lj_TenantID :: string
  lj_Limit :: int
  lj_Offset :: int

definition valid_page :: "ListJobsRequest \<Rightarrow> bool" where
  "valid_page r \<longleftrightarrow> omit_tenant (lj_TenantID r) \<and> omit_limit (lj_Limit r) \<and> omit_min 0 (lj_Offset r)"

definition Handler_ListJobs :: "(ListInput \<Rightarrow> ('s, 'i) io) \<Rightarrow> gctx \<Rightarrow> ListJobsRequest decoded \<Rightarrow> ('s, 'i) response" where
  "Handler_ListJobs uc c d = ShouldBind valid_page d (\<lambda>req.
     with_tenant c (lj_TenantID req) (\<lambda>tenantID.
     serve OK (uc \<lparr>li_TenantID = tenantID, li_Phase = [], li_ResourceGroupID = groupFrom c, li_Limit = lj_Limit req, li_Offset = lj_Offset req\<rparr>)))"

text \<open>\<open>GetJobRequest\<close>, \<open>GetCheckRequest\<close>, \<open>GetFunctionRequest\<close> and \<open>GetWorkflowRequest\<close>: the id, then the tenant of the query.\<close>

definition Handler_GetJob :: "(GetInput \<Rightarrow> ('s, 'i) io) \<Rightarrow> gctx \<Rightarrow> int decoded \<Rightarrow> (int option \<times> string) decoded \<Rightarrow> ('s, 'i) response" where
  "Handler_GetJob uc c uri d = ShouldBindBoth omit_tenant uri d (\<lambda>i t.
     with_tenant c t (\<lambda>tenantID.
     serve OK (uc \<lparr>gt_TenantID = tenantID, gt_ID = i, gt_ResourceGroupID = groupFrom c\<rparr>)))"

definition Handler_TriggerJob :: "(TriggerInput \<Rightarrow> ('s, TriggerResult) io) \<Rightarrow> gctx \<Rightarrow> int decoded \<Rightarrow> ('s, TriggerResult) response" where
  "Handler_TriggerJob uc c uri = ShouldBind positive_id uri (\<lambda>i.
     with_tenant c [] (\<lambda>tenantID.
     with_key c (\<lambda>key.
     serve (\<lambda>out. if tr_Created out then 201 else 200)
       (uc \<lparr>tr_JobID = i, tr_TenantID = tenantID, tr_ActorID = actorID c, tr_IdempotencyKey = key, tr_ResourceGroupID = groupFrom c\<rparr>))))"

record ListInstancesRequest =
  ln_Phase :: string
  ln_Limit :: int
  ln_Offset :: int

definition valid_instances :: "ListInstancesRequest \<Rightarrow> bool" where
  "valid_instances r \<longleftrightarrow> omit_oneof listablePhases (ln_Phase r) \<and> omit_limit (ln_Limit r) \<and> omit_min 0 (ln_Offset r)"

definition Handler_ListInstances :: "(ListInput \<Rightarrow> ('s, 'i) io) \<Rightarrow> gctx \<Rightarrow> ListInstancesRequest decoded \<Rightarrow> ('s, 'i) response" where
  "Handler_ListInstances uc c d = ShouldBind valid_instances d (\<lambda>req.
     with_tenant c [] (\<lambda>tenantID.
     serve OK (uc \<lparr>li_TenantID = tenantID, li_Phase = ln_Phase req, li_ResourceGroupID = groupFrom c, li_Limit = ln_Limit req,
       li_Offset = ln_Offset req\<rparr>)))"

text \<open>\<open>GetInstance\<close>, \<open>CancelInstance\<close> and \<open>ListAttempts\<close> read the run id of the path and differ in the use case only.\<close>

definition Handler_GetInstance :: "(GetInput \<Rightarrow> ('s, 'i) io) \<Rightarrow> gctx \<Rightarrow> int decoded \<Rightarrow> ('s, 'i) response" where
  "Handler_GetInstance uc c uri = ShouldBind positive_id uri (\<lambda>i.
     with_tenant c [] (\<lambda>tenantID. serve OK (uc \<lparr>gt_TenantID = tenantID, gt_ID = i, gt_ResourceGroupID = groupFrom c\<rparr>)))"

definition Handler_CancelInstance :: "(GetInput \<Rightarrow> ('s, CancelResult) io) \<Rightarrow> gctx \<Rightarrow> int decoded \<Rightarrow> ('s, CancelResult) response" where
  "Handler_CancelInstance uc c uri = ShouldBind positive_id uri (\<lambda>i.
     with_tenant c [] (\<lambda>tenantID. serve OK (uc \<lparr>gt_TenantID = tenantID, gt_ID = i, gt_ResourceGroupID = groupFrom c\<rparr>)))"

definition Handler_ListAttempts :: "(GetInput \<Rightarrow> ('s, 'i) io) \<Rightarrow> gctx \<Rightarrow> int decoded \<Rightarrow> ('s, 'i) response" where
  "Handler_ListAttempts uc c uri = ShouldBind positive_id uri (\<lambda>i.
     with_tenant c [] (\<lambda>tenantID. serve OK (uc \<lparr>gt_TenantID = tenantID, gt_ID = i, gt_ResourceGroupID = groupFrom c\<rparr>)))"

subsection \<open>Checks\<close>

record CreateCheckRequest =
  cc_Name :: string
  cc_Description :: "string option"
  cc_TenantID :: string
  cc_CheckType :: string
  cc_CheckConfig :: "object option"
  cc_AssertionRules :: "AssertionRule list"
  cc_ScheduleType :: string
  cc_CronExpr :: "string option"
  cc_IntervalSec :: "int option"
  cc_Timezone :: string
  cc_TimeoutSec :: int
  cc_RetryLimit :: int
  cc_Priority :: int
  cc_Labels :: "object option"

definition valid_check :: "CreateCheckRequest \<Rightarrow> bool" where
  "valid_check r \<longleftrightarrow> required_max 128 (cc_Name r) \<and> (\<forall>s \<in> set_option (cc_Description r). rune_count s \<le> 512)
     \<and> omit_tenant (cc_TenantID r) \<and> cc_CheckType r = ''http_health'' \<and> omit_oneof [''cron'', ''interval''] (cc_ScheduleType r)
     \<and> (\<forall>i \<in> set_option (cc_IntervalSec r). 30 \<le> i) \<and> rune_count (cc_Timezone r) \<le> 64
     \<and> omit_min 1 (cc_TimeoutSec r) \<and> omit_min 0 (cc_RetryLimit r) \<and> omit_min 0 (cc_Priority r)"

definition Check_ToCreateInput :: "CreateCheckRequest \<Rightarrow> CheckCreateInput" where
  "Check_ToCreateInput r = \<lparr>cki_Name = cc_Name r, cki_Description = cc_Description r, cki_TenantID = cc_TenantID r, cki_ResourceGroupID = [],
     cki_CheckType = cc_CheckType r, cki_CheckConfig = cc_CheckConfig r, cki_AssertionRules = cc_AssertionRules r,
     cki_ScheduleType = cc_ScheduleType r, cki_CronExpr = cc_CronExpr r, cki_IntervalSec = cc_IntervalSec r, cki_Timezone = cc_Timezone r,
     cki_TimeoutSec = cc_TimeoutSec r, cki_RetryLimit = cc_RetryLimit r, cki_Priority = cc_Priority r, cki_Labels = cc_Labels r\<rparr>"

definition Handler_CreateCheck :: "(CheckCreateInput \<Rightarrow> ('s, 'i) io) \<Rightarrow> gctx \<Rightarrow> CreateCheckRequest decoded \<Rightarrow> ('s, 'i) response" where
  "Handler_CreateCheck uc c d = ShouldBind valid_check d (\<lambda>req.
     with_tenant c (cc_TenantID req) (\<lambda>tenantID.
     serve StatusCreated (uc ((Check_ToCreateInput req)\<lparr>cki_TenantID := tenantID, cki_ResourceGroupID := groupFrom c\<rparr>))))"

record ListChecksRequest =
  lc_TenantID :: string
  lc_Status :: string
  lc_Limit :: int
  lc_Offset :: int

record ListChecksInput =
  lci_TenantID :: string
  lci_Status :: "string option"
  lci_ResourceGroupID :: string
  lci_Limit :: int
  lci_Offset :: int

definition valid_checks :: "ListChecksRequest \<Rightarrow> bool" where
  "valid_checks r \<longleftrightarrow> omit_tenant (lc_TenantID r) \<and> omit_oneof [''active'', ''paused''] (lc_Status r) \<and> omit_limit (lc_Limit r)
     \<and> omit_min 0 (lc_Offset r)"

definition Checks_ToListInput :: "ListChecksRequest \<Rightarrow> ListChecksInput" where
  "Checks_ToListInput r = \<lparr>lci_TenantID = lc_TenantID r, lci_Status = (if lc_Status r \<noteq> [] then Some (lc_Status r) else None),
     lci_ResourceGroupID = [], lci_Limit = lc_Limit r, lci_Offset = lc_Offset r\<rparr>"

definition Handler_ListChecks :: "(ListChecksInput \<Rightarrow> ('s, 'i) io) \<Rightarrow> gctx \<Rightarrow> ListChecksRequest decoded \<Rightarrow> ('s, 'i) response" where
  "Handler_ListChecks uc c d = ShouldBind valid_checks d (\<lambda>req.
     with_tenant c (lc_TenantID req) (\<lambda>tenantID.
     serve OK (uc ((Checks_ToListInput req)\<lparr>lci_TenantID := tenantID, lci_ResourceGroupID := groupFrom c\<rparr>))))"

definition Handler_GetCheck ::
    "(string \<Rightarrow> string \<Rightarrow> int \<Rightarrow> ('s, 'i) io) \<Rightarrow> gctx \<Rightarrow> int decoded \<Rightarrow> (int option \<times> string) decoded \<Rightarrow> ('s, 'i) response" where
  "Handler_GetCheck uc c uri d = ShouldBindBoth omit_tenant uri d (\<lambda>i t.
     with_tenant c t (\<lambda>tenantID. serve OK (uc tenantID (groupFrom c) i)))"

text \<open>
  The body of a change of status is decoded into the struct that already holds the id, the tenant and the resource group.
  Those three fields carry no tag, so \<open>encoding/json\<close> fills them from keys of their names; a key that is absent or null leaves
  the field as it was.
\<close>

record ChangeCheckStatusBody =
  cb_ID :: "int option"
  cb_TenantID :: "string option"
  cb_ResourceGroupID :: "string option"
  cb_Version :: "int option"

definition override :: "'a \<Rightarrow> 'a option \<Rightarrow> 'a" where
  "override old new = (case new of None \<Rightarrow> old | Some v \<Rightarrow> v)"

definition bind_status :: "ChangeStatusInput \<Rightarrow> ChangeCheckStatusBody \<Rightarrow> ChangeStatusInput" where
  "bind_status req b = \<lparr>cg_TenantID = override (cg_TenantID req) (cb_TenantID b),
     cg_ResourceGroupID = override (cg_ResourceGroupID req) (cb_ResourceGroupID b),
     cg_ID = override (cg_ID req) (cb_ID b), cg_Version = override (cg_Version req) (cb_Version b)\<rparr>"

definition changeCheckStatus ::
    "(ChangeStatusInput \<Rightarrow> ('s, 'i) io) \<Rightarrow> (ChangeStatusInput \<Rightarrow> ('s, 'i) io) \<Rightarrow> gctx \<Rightarrow> int decoded
     \<Rightarrow> ChangeCheckStatusBody decoded \<Rightarrow> string \<Rightarrow> ('s, 'i) response" where
  "changeCheckStatus pause resume c uri d action = ShouldBind positive_id uri (\<lambda>i.
     with_tenant c [] (\<lambda>tenantID.
     let req = \<lparr>cg_TenantID = tenantID, cg_ResourceGroupID = groupFrom c, cg_ID = i, cg_Version = 0\<rparr> in
     ShouldBind (\<lambda>b. 1 \<le> cg_Version (bind_status req b)) d (\<lambda>b.
       if action = ActionPause then serve OK (pause (bind_status req b))
       else if action = ActionResume then serve OK (resume (bind_status req b))
       else refuse (StatusForCode CodeInternal) CodeInternal)))"

definition Handler_PauseCheck where
  "Handler_PauseCheck pause resume c uri d = changeCheckStatus pause resume c uri d ActionPause"

definition Handler_ResumeCheck where
  "Handler_ResumeCheck pause resume c uri d = changeCheckStatus pause resume c uri d ActionResume"

text \<open>The bodies of the other versioned routes hold the version only.\<close>

definition Handler_DeleteCheck ::
    "(ChangeStatusInput \<Rightarrow> ('s, unit) io) \<Rightarrow> gctx \<Rightarrow> int decoded \<Rightarrow> int decoded \<Rightarrow> ('s, unit) response" where
  "Handler_DeleteCheck uc c uri d = ShouldBind positive_id uri (\<lambda>i. ShouldBind positive_id d (\<lambda>version.
     with_tenant c [] (\<lambda>tenantID.
     serve OK (uc \<lparr>cg_TenantID = tenantID, cg_ResourceGroupID = groupFrom c, cg_ID = i, cg_Version = version\<rparr>))))"

record ListCheckRunsRequest =
  lk_TenantID :: string
  lk_CheckID :: int
  lk_Status :: string
  lk_Limit :: int
  lk_Offset :: int

record ListCheckRunsInput =
  lki_TenantID :: string
  lki_CheckID :: "int option"
  lki_Status :: "string option"
  lki_Limit :: int
  lki_Offset :: int

definition valid_check_runs :: "ListCheckRunsRequest \<Rightarrow> bool" where
  "valid_check_runs r \<longleftrightarrow> omit_tenant (lk_TenantID r) \<and> omit_min 1 (lk_CheckID r)
     \<and> omit_oneof [''pending'', ''running'', ''success'', ''failed''] (lk_Status r) \<and> omit_limit (lk_Limit r) \<and> omit_min 0 (lk_Offset r)"

definition CheckRuns_ToListInput :: "ListCheckRunsRequest \<Rightarrow> ListCheckRunsInput" where
  "CheckRuns_ToListInput r = \<lparr>lki_TenantID = lk_TenantID r, lki_CheckID = (if lk_CheckID r > 0 then Some (lk_CheckID r) else None),
     lki_Status = (if lk_Status r \<noteq> [] then Some (lk_Status r) else None), lki_Limit = lk_Limit r, lki_Offset = lk_Offset r\<rparr>"

definition Handler_ListCheckRuns :: "(ListCheckRunsInput \<Rightarrow> ('s, 'i) io) \<Rightarrow> gctx \<Rightarrow> ListCheckRunsRequest decoded \<Rightarrow> ('s, 'i) response" where
  "Handler_ListCheckRuns uc c d = ShouldBind valid_check_runs d (\<lambda>req.
     with_tenant c (lk_TenantID req) (\<lambda>tenantID. serve OK (uc ((CheckRuns_ToListInput req)\<lparr>lki_TenantID := tenantID\<rparr>))))"

definition Handler_GetCheckRun :: "(string \<Rightarrow> int \<Rightarrow> ('s, 'i) io) \<Rightarrow> gctx \<Rightarrow> int decoded \<Rightarrow> ('s, 'i) response" where
  "Handler_GetCheckRun uc c uri = ShouldBind positive_id uri (\<lambda>i. with_tenant c [] (\<lambda>tenantID. serve OK (uc tenantID i)))"

subsection \<open>Indicators and objectives\<close>

record CreateSLIRequest =
  cs_Name :: string
  cs_Description :: "string option"
  cs_SLIType :: string
  cs_SourceType :: string
  cs_SourceConfig :: "object option"
  cs_Aggregation :: string
  cs_GoodEventCriteria :: object

definition valid_sli :: "CreateSLIRequest \<Rightarrow> bool" where
  "valid_sli r \<longleftrightarrow> required_max 128 (cs_Name r) \<and> cs_SLIType r \<in> {''availability'', ''latency'', ''quality'', ''custom''}
     \<and> omit_oneof [''job_run''] (cs_SourceType r) \<and> omit_oneof [''ratio'', ''count''] (cs_Aggregation r)"

definition SLI_ToCreateInput :: "CreateSLIRequest \<Rightarrow> SLICreateInput" where
  "SLI_ToCreateInput r = \<lparr>sii_Name = cs_Name r, sii_ResourceGroupID = [], sii_Description = cs_Description r, sii_SLIType = cs_SLIType r,
     sii_SourceType = cs_SourceType r, sii_SourceConfig = cs_SourceConfig r, sii_Aggregation = cs_Aggregation r,
     sii_GoodEventCriteria = cs_GoodEventCriteria r\<rparr>"

definition Handler_CreateSLI :: "(string \<Rightarrow> SLICreateInput \<Rightarrow> ('s, 'i) io) \<Rightarrow> gctx \<Rightarrow> CreateSLIRequest decoded \<Rightarrow> ('s, 'i) response" where
  "Handler_CreateSLI uc c d = ShouldBind valid_sli d (\<lambda>req.
     with_tenant c [] (\<lambda>tenantID.
     serve StatusCreated (uc tenantID ((SLI_ToCreateInput req)\<lparr>sii_ResourceGroupID := groupFrom c\<rparr>))))"

text \<open>\<open>ListSLIsRequest\<close>, \<open>ListSLOsRequest\<close> and \<open>ListSLOBudgetsRequest\<close>: the form supplies the defaults, the page must be in range.\<close>

definition valid_window :: "ListJobsRequest \<Rightarrow> bool" where
  "valid_window r \<longleftrightarrow> 1 \<le> lj_Limit r \<and> lj_Limit r \<le> 100 \<and> 0 \<le> lj_Offset r"

definition Handler_ListSLIs :: "(string \<Rightarrow> string \<Rightarrow> int \<Rightarrow> int \<Rightarrow> ('s, 'i) io) \<Rightarrow> gctx \<Rightarrow> ListJobsRequest decoded \<Rightarrow> ('s, 'i) response" where
  "Handler_ListSLIs uc c d = ShouldBind valid_window d (\<lambda>req.
     with_tenant c (lj_TenantID req) (\<lambda>tenantID. serve OK (uc tenantID (groupFrom c) (lj_Limit req) (lj_Offset req))))"

definition Handler_GetSLI :: "(string \<Rightarrow> string \<Rightarrow> int \<Rightarrow> ('s, 'i) io) \<Rightarrow> gctx \<Rightarrow> int decoded \<Rightarrow> ('s, 'i) response" where
  "Handler_GetSLI uc c uri = ShouldBind positive_id uri (\<lambda>i.
     with_tenant c [] (\<lambda>tenantID. serve OK (uc tenantID (groupFrom c) i)))"

definition Handler_DeleteSLI ::
    "(ChangeStatusInput \<Rightarrow> ('s, unit) io) \<Rightarrow> gctx \<Rightarrow> int decoded \<Rightarrow> int decoded \<Rightarrow> ('s, unit) response" where
  "Handler_DeleteSLI uc c uri d = ShouldBind positive_id uri (\<lambda>i. ShouldBind positive_id d (\<lambda>version.
     with_tenant c [] (\<lambda>tenantID.
     serve OK (uc \<lparr>cg_TenantID = tenantID, cg_ResourceGroupID = groupFrom c, cg_ID = i, cg_Version = version\<rparr>))))"

record CreateSLORequest =
  cl_Name :: string
  cl_Description :: "string option"
  cl_SLIID :: int
  cl_Target :: float64
  cl_WindowType :: string
  cl_WindowDuration :: string
  cl_AlertFastBurnRate :: float64
  cl_AlertSlowBurnRate :: float64

definition valid_slo :: "CreateSLORequest \<Rightarrow> bool" where
  "valid_slo r \<longleftrightarrow> required_max 128 (cl_Name r) \<and> 1 \<le> cl_SLIID r \<and> f64 (1 / 10000) \<le> cl_Target r \<and> cl_Target r \<le> 1
     \<and> omit_oneof [''rolling'', ''calendar'', ''quarterly''] (cl_WindowType r) \<and> cl_WindowDuration r \<noteq> []
     \<and> (cl_AlertFastBurnRate r = 0 \<or> f64 (1 / 10) \<le> cl_AlertFastBurnRate r)
     \<and> (cl_AlertSlowBurnRate r = 0 \<or> f64 (1 / 10) \<le> cl_AlertSlowBurnRate r)"

definition SLO_ToCreateInput :: "(string \<Rightarrow> duration result) \<Rightarrow> CreateSLORequest \<Rightarrow> SLOCreateInput result" where
  "SLO_ToCreateInput parseDuration r =
     rbind (wrap_result ''invalid window_duration'' (parseDuration (cl_WindowDuration r))) (\<lambda>dur.
     Inr \<lparr>soi_Name = cl_Name r, soi_ResourceGroupID = [], soi_Description = cl_Description r, soi_SLIID = cl_SLIID r, soi_Target = cl_Target r,
       soi_WindowType = cl_WindowType r, soi_WindowDuration = dur, soi_AlertFastBurnRate = cl_AlertFastBurnRate r,
       soi_AlertSlowBurnRate = cl_AlertSlowBurnRate r\<rparr>)"

definition Handler_CreateSLO ::
    "(string \<Rightarrow> duration result) \<Rightarrow> (string \<Rightarrow> SLOCreateInput \<Rightarrow> ('s, 'i) io) \<Rightarrow> gctx \<Rightarrow> CreateSLORequest decoded \<Rightarrow> ('s, 'i) response" where
  "Handler_CreateSLO parseDuration uc c d = ShouldBind valid_slo d (\<lambda>req.
     case SLO_ToCreateInput parseDuration req of
       Inl _ \<Rightarrow> refuse 400 (toBindAPIError False)
     | Inr inp \<Rightarrow> with_tenant c [] (\<lambda>tenantID. serve StatusCreated (uc tenantID (inp\<lparr>soi_ResourceGroupID := groupFrom c\<rparr>))))"

definition Handler_ListSLOs :: "(string \<Rightarrow> string \<Rightarrow> int \<Rightarrow> int \<Rightarrow> ('s, 'i) io) \<Rightarrow> gctx \<Rightarrow> ListJobsRequest decoded \<Rightarrow> ('s, 'i) response" where
  "Handler_ListSLOs uc c d = ShouldBind valid_window d (\<lambda>req.
     with_tenant c (lj_TenantID req) (\<lambda>tenantID. serve OK (uc tenantID (groupFrom c) (lj_Limit req) (lj_Offset req))))"

definition Handler_GetSLO :: "(string \<Rightarrow> string \<Rightarrow> int \<Rightarrow> ('s, 'i) io) \<Rightarrow> gctx \<Rightarrow> int decoded \<Rightarrow> ('s, 'i) response" where
  "Handler_GetSLO uc c uri = ShouldBind positive_id uri (\<lambda>i.
     with_tenant c [] (\<lambda>tenantID. serve OK (uc tenantID (groupFrom c) i)))"

definition changeSLOStatus ::
    "(ChangeStatusInput \<Rightarrow> ('s, 'i) io) \<Rightarrow> (ChangeStatusInput \<Rightarrow> ('s, 'i) io) \<Rightarrow> gctx \<Rightarrow> int decoded \<Rightarrow> int decoded \<Rightarrow> string
     \<Rightarrow> ('s, 'i) response" where
  "changeSLOStatus pause resume c uri d action = ShouldBind positive_id uri (\<lambda>i. ShouldBind positive_id d (\<lambda>version.
     with_tenant c [] (\<lambda>tenantID.
     let inp = \<lparr>cg_TenantID = tenantID, cg_ResourceGroupID = groupFrom c, cg_ID = i, cg_Version = version\<rparr> in
     if action = ''pause'' then serve OK (pause inp)
     else if action = ''resume'' then serve OK (resume inp)
     else refuse (StatusForCode CodeInternal) CodeInternal)))"

definition Handler_PauseSLO where
  "Handler_PauseSLO pause resume c uri d = changeSLOStatus pause resume c uri d ''pause''"

definition Handler_ResumeSLO where
  "Handler_ResumeSLO pause resume c uri d = changeSLOStatus pause resume c uri d ''resume''"

definition Handler_DeleteSLO ::
    "(ChangeStatusInput \<Rightarrow> ('s, unit) io) \<Rightarrow> gctx \<Rightarrow> int decoded \<Rightarrow> int decoded \<Rightarrow> ('s, unit) response" where
  "Handler_DeleteSLO uc c uri d = ShouldBind positive_id uri (\<lambda>i. ShouldBind positive_id d (\<lambda>version.
     with_tenant c [] (\<lambda>tenantID.
     serve OK (uc \<lparr>cg_TenantID = tenantID, cg_ResourceGroupID = groupFrom c, cg_ID = i, cg_Version = version\<rparr>))))"

definition Handler_GetSLOBudget :: "(string \<Rightarrow> int \<Rightarrow> ('s, 'i) io) \<Rightarrow> gctx \<Rightarrow> int decoded \<Rightarrow> ('s, 'i) response" where
  "Handler_GetSLOBudget uc c uri = ShouldBind positive_id uri (\<lambda>i. with_tenant c [] (\<lambda>tenantID. serve OK (uc tenantID i)))"

definition Handler_ListSLOBudgets ::
    "(string \<Rightarrow> int \<Rightarrow> int \<Rightarrow> int \<Rightarrow> ('s, 'i) io) \<Rightarrow> gctx \<Rightarrow> int decoded \<Rightarrow> ListJobsRequest decoded \<Rightarrow> ('s, 'i) response" where
  "Handler_ListSLOBudgets uc c uri d = ShouldBind positive_id uri (\<lambda>i. ShouldBind valid_window d (\<lambda>req.
     with_tenant c (lj_TenantID req) (\<lambda>tenantID. serve OK (uc tenantID i (lj_Limit req) (lj_Offset req)))))"

definition Handler_GetSLOAlert :: "(string \<Rightarrow> int \<Rightarrow> ('s, 'i) io) \<Rightarrow> gctx \<Rightarrow> int decoded \<Rightarrow> ('s, 'i) response" where
  "Handler_GetSLOAlert uc c uri = ShouldBind positive_id uri (\<lambda>i. with_tenant c [] (\<lambda>tenantID. serve OK (uc tenantID i)))"

record ListSLOAlertsRequest = ListJobsRequest +
  la_SLOID :: "int option"
  la_Status :: "string option"

definition Handler_ListSLOAlerts ::
    "(string \<Rightarrow> int option \<Rightarrow> string option \<Rightarrow> int \<Rightarrow> int \<Rightarrow> ('s, 'i) io) \<Rightarrow> gctx \<Rightarrow> ListSLOAlertsRequest decoded \<Rightarrow> ('s, 'i) response" where
  "Handler_ListSLOAlerts uc c d = ShouldBind (valid_window \<circ> ListJobsRequest.truncate) d (\<lambda>req.
     with_tenant c (lj_TenantID req) (\<lambda>tenantID.
     serve OK (uc tenantID (la_SLOID req) (la_Status req) (lj_Limit req) (lj_Offset req))))"

subsection \<open>Tenants, keys, policies and groups\<close>

record TenantCreateInput =
  tc_Slug :: string
  tc_Name :: string
  tc_Status :: string

definition valid_tenant :: "TenantCreateInput \<Rightarrow> bool" where
  "valid_tenant r \<longleftrightarrow> required_max 64 (tc_Slug r) \<and> required_max 128 (tc_Name r) \<and> omit_oneof [''active'', ''suspended''] (tc_Status r)"

definition Handler_CreateTenant :: "(TenantCreateInput \<Rightarrow> ('s, 'i) io) \<Rightarrow> gctx \<Rightarrow> TenantCreateInput decoded \<Rightarrow> ('s, 'i) response" where
  "Handler_CreateTenant uc c d = with_tenant c [] (\<lambda>_. ShouldBind valid_tenant d (\<lambda>req. serve StatusCreated (uc req)))"

definition Handler_ListTenants :: "(string \<Rightarrow> int \<Rightarrow> int \<Rightarrow> ('s, 'i) io) \<Rightarrow> gctx \<Rightarrow> (int \<times> int) decoded \<Rightarrow> ('s, 'i) response" where
  "Handler_ListTenants uc c d = ShouldBind (\<lambda>(limit, offset). omit_limit limit \<and> omit_min 0 offset) d (\<lambda>(limit, offset).
     with_tenant c [] (\<lambda>tenantID. serve OK (uc tenantID limit offset)))"

definition Handler_GetTenant :: "(string \<Rightarrow> string \<Rightarrow> ('s, 'i) io) \<Rightarrow> gctx \<Rightarrow> string decoded \<Rightarrow> ('s, 'i) response" where
  "Handler_GetTenant uc c uri = ShouldBind short_id uri (\<lambda>i. with_tenant c [] (\<lambda>tenantID. serve OK (uc tenantID i)))"

record CreateAPIKeyRequest =
  ka_Policies :: "string list"
  ka_BoundaryPolicyID :: string
  ka_ResourceGroupID :: string

definition APIKey_ToCreateInput :: "CreateAPIKeyRequest \<Rightarrow> string \<Rightarrow> Caller \<Rightarrow> CreateInput" where
  "APIKey_ToCreateInput r tenantID caller = \<lparr>ci_TenantID = tenantID, ci_ResourceGroupID = ka_ResourceGroupID r, ci_PolicyIDs = ka_Policies r,
     ci_BoundaryPolicyID = ka_BoundaryPolicyID r, ci_Caller = caller\<rparr>"

definition with_tenant_for :: "gctx \<Rightarrow> string \<Rightarrow> (string \<Rightarrow> ('s, 'a) response) \<Rightarrow> ('s, 'a) response" where
  "with_tenant_for c fromRequest k =
     (case requireTenantIDFor c fromRequest of None \<Rightarrow> refuse 403 CodeForbidden | Some tenantID \<Rightarrow> k tenantID)"

definition Handler_CreateAPIKey ::
    "(CreateInput \<Rightarrow> ('s, 'i) io) \<Rightarrow> gctx \<Rightarrow> string decoded \<Rightarrow> CreateAPIKeyRequest decoded \<Rightarrow> ('s, 'i) response" where
  "Handler_CreateAPIKey uc c uri d = ShouldBind short_id uri (\<lambda>i.
     with_tenant_for c i (\<lambda>tenantID.
     ShouldBind (\<lambda>_. True) d (\<lambda>req. serve StatusCreated (uc (APIKey_ToCreateInput req tenantID (callerFrom c))))))"

definition Handler_ListAPIKeys :: "(string \<Rightarrow> ('s, 'i) io) \<Rightarrow> gctx \<Rightarrow> string decoded \<Rightarrow> ('s, 'i) response" where
  "Handler_ListAPIKeys uc c uri = ShouldBind short_id uri (\<lambda>i. with_tenant_for c i (\<lambda>tenantID. serve OK (uc tenantID)))"

definition DefaultTenantID :: string where "DefaultTenantID = ''00000000000000000000000001''"

definition Handler_RevokeAPIKey ::
    "(string \<Rightarrow> string \<Rightarrow> string \<Rightarrow> ('s, unit) io) \<Rightarrow> (string \<Rightarrow> ('s, unit) io) \<Rightarrow> gctx \<Rightarrow> string decoded \<Rightarrow> ('s, unit) response" where
  "Handler_RevokeAPIKey revoke revokeAsAdmin c uri = ShouldBind short_id uri (\<lambda>i.
     with_tenant c [] (\<lambda>tenantID.
     serve OK (if tenantID = DefaultTenantID then revokeAsAdmin i else revoke tenantID i (actorID c))))"

record CreatePolicyRequest =
  cp_Name :: string
  cp_Description :: string
  cp_Document :: string

definition valid_policy :: "CreatePolicyRequest \<Rightarrow> bool" where
  "valid_policy r \<longleftrightarrow> required_max 128 (cp_Name r) \<and> rune_count (cp_Description r) \<le> 2000 \<and> cp_Document r \<noteq> []"

definition Handler_CreatePolicy :: "(PolicyCreateInput \<Rightarrow> ('s, 'i) io) \<Rightarrow> gctx \<Rightarrow> CreatePolicyRequest decoded \<Rightarrow> ('s, 'i) response" where
  "Handler_CreatePolicy uc c d = with_tenant c [] (\<lambda>tenantID. ShouldBind valid_policy d (\<lambda>req.
     serve StatusCreated (uc \<lparr>pci_TenantID = tenantID, pci_Name = cp_Name req, pci_Description = cp_Description req,
       pci_Document = cp_Document req, pci_ActorID = actorID c\<rparr>)))"

definition Handler_ListPolicies :: "(string \<Rightarrow> ('s, 'i) io) \<Rightarrow> gctx \<Rightarrow> ('s, 'i) response" where
  "Handler_ListPolicies uc c = with_tenant c [] (\<lambda>tenantID. serve OK (uc tenantID))"

definition Handler_GetPolicy :: "(string \<Rightarrow> string \<Rightarrow> ('s, 'i) io) \<Rightarrow> gctx \<Rightarrow> string decoded \<Rightarrow> ('s, 'i) response" where
  "Handler_GetPolicy uc c uri = ShouldBind short_id uri (\<lambda>i. with_tenant c [] (\<lambda>tenantID. serve OK (uc tenantID i)))"

definition Handler_DeletePolicy :: "(string \<Rightarrow> string \<Rightarrow> string \<Rightarrow> ('s, unit) io) \<Rightarrow> gctx \<Rightarrow> string decoded \<Rightarrow> ('s, unit) response" where
  "Handler_DeletePolicy uc c uri = ShouldBind short_id uri (\<lambda>i.
     with_tenant c [] (\<lambda>tenantID. serve NoContent (uc tenantID i (actorID c))))"

record GroupCreateInput =
  rg_TenantID :: string
  rg_Slug :: string
  rg_Name :: string
  rg_ActorID :: string

definition Handler_CreateResourceGroup :: "(GroupCreateInput \<Rightarrow> ('s, 'i) io) \<Rightarrow> gctx \<Rightarrow> (string \<times> string) decoded \<Rightarrow> ('s, 'i) response" where
  "Handler_CreateResourceGroup uc c d = with_tenant c [] (\<lambda>tenantID.
     ShouldBind (\<lambda>(slug, name). required_max 64 slug \<and> required_max 128 name) d (\<lambda>(slug, name).
     serve StatusCreated (uc \<lparr>rg_TenantID = tenantID, rg_Slug = slug, rg_Name = name, rg_ActorID = actorID c\<rparr>)))"

definition Handler_ListResourceGroups :: "(string \<Rightarrow> ('s, 'i) io) \<Rightarrow> gctx \<Rightarrow> ('s, 'i) response" where
  "Handler_ListResourceGroups uc c = with_tenant c [] (\<lambda>tenantID. serve OK (uc tenantID))"

subsection \<open>Functions and workflows\<close>

definition Handler_ListFunctions :: "(string \<Rightarrow> string \<Rightarrow> int \<Rightarrow> int \<Rightarrow> ('s, 'i) io) \<Rightarrow> gctx \<Rightarrow> ListJobsRequest decoded \<Rightarrow> ('s, 'i) response" where
  "Handler_ListFunctions uc c d = ShouldBind valid_page d (\<lambda>req.
     with_tenant c (lj_TenantID req) (\<lambda>tenantID. serve OK (uc tenantID (groupFrom c) (lj_Limit req) (lj_Offset req))))"

definition Handler_GetFunction :: "(FunctionGetInput \<Rightarrow> ('s, 'i) io) \<Rightarrow> gctx \<Rightarrow> int decoded \<Rightarrow> (int option \<times> string) decoded \<Rightarrow> ('s, 'i) response" where
  "Handler_GetFunction uc c uri d = ShouldBindBoth omit_tenant uri d (\<lambda>i t.
     with_tenant c t (\<lambda>tenantID. serve OK (uc \<lparr>fg_ID = i, fg_TenantID = tenantID, fg_ResourceGroupID = groupFrom c\<rparr>)))"

definition Handler_InvokeFunction ::
    "(InvokeInput \<Rightarrow> ('s, InvokeResult) io) \<Rightarrow> gctx \<Rightarrow> int decoded \<Rightarrow> (int option \<times> int) decoded \<Rightarrow> ('s, InvokeResult) response" where
  "Handler_InvokeFunction uc c uri d = ShouldBindBoth (\<lambda>w. 0 \<le> w \<and> w \<le> 60) uri d (\<lambda>i wait.
     with_tenant c [] (\<lambda>tenantID.
     with_key c (\<lambda>key.
     serve (\<lambda>out. if ir_Created out then 201 else 200)
       (uc \<lparr>iv_TenantID = tenantID, iv_FunctionID = i, iv_ActorID = actorID c, iv_IdempotencyKey = key,
         iv_ResourceGroupID = groupFrom c, iv_WaitSeconds = wait\<rparr>))))"

definition Handler_ListFunctionRuns ::
    "(FunctionGetInput \<Rightarrow> int \<Rightarrow> ('s, 'i) io) \<Rightarrow> gctx \<Rightarrow> int decoded \<Rightarrow> (int option \<times> string \<times> int) decoded \<Rightarrow> ('s, 'i) response" where
  "Handler_ListFunctionRuns uc c uri d = ShouldBindBoth (\<lambda>(t, limit). omit_tenant t \<and> omit_limit limit) uri d (\<lambda>i (t, limit).
     with_tenant c t (\<lambda>tenantID. serve OK (uc \<lparr>fg_ID = i, fg_TenantID = tenantID, fg_ResourceGroupID = groupFrom c\<rparr> limit)))"

definition Handler_GetFunctionRun ::
    "(FunctionGetInput \<Rightarrow> string \<Rightarrow> ('s, 'i) io) \<Rightarrow> gctx \<Rightarrow> (int \<times> string) decoded \<Rightarrow> ('s, 'i) response" where
  "Handler_GetFunctionRun uc c uri = ShouldBind (\<lambda>(i, runID). positive_id i \<and> required_max 64 runID) uri (\<lambda>(i, runID).
     with_tenant c [] (\<lambda>tenantID. serve OK (uc \<lparr>fg_ID = i, fg_TenantID = tenantID, fg_ResourceGroupID = groupFrom c\<rparr> runID)))"

definition Handler_ListWorkflows :: "(string \<Rightarrow> string \<Rightarrow> int \<Rightarrow> int \<Rightarrow> ('s, 'i) io) \<Rightarrow> gctx \<Rightarrow> ListJobsRequest decoded \<Rightarrow> ('s, 'i) response" where
  "Handler_ListWorkflows uc c d = ShouldBind valid_page d (\<lambda>req.
     with_tenant c (lj_TenantID req) (\<lambda>tenantID. serve OK (uc tenantID (groupFrom c) (lj_Limit req) (lj_Offset req))))"

definition Handler_GetWorkflow :: "(WorkflowGetInput \<Rightarrow> ('s, 'i) io) \<Rightarrow> gctx \<Rightarrow> int decoded \<Rightarrow> (int option \<times> string) decoded \<Rightarrow> ('s, 'i) response" where
  "Handler_GetWorkflow uc c uri d = ShouldBindBoth omit_tenant uri d (\<lambda>i t.
     with_tenant c t (\<lambda>tenantID. serve OK (uc \<lparr>wg_ID = i, wg_TenantID = tenantID, wg_ResourceGroupID = groupFrom c\<rparr>)))"

definition Handler_TriggerWorkflow ::
    "(WorkflowTriggerInput \<Rightarrow> ('s, TriggerResult) io) \<Rightarrow> gctx \<Rightarrow> int decoded \<Rightarrow> ('s, TriggerResult) response" where
  "Handler_TriggerWorkflow uc c uri = ShouldBind positive_id uri (\<lambda>i.
     with_tenant c [] (\<lambda>tenantID.
     with_key c (\<lambda>key.
     serve (\<lambda>out. if tr_Created out then 201 else 200)
       (uc \<lparr>wti_WorkflowID = i, wti_TenantID = tenantID, wti_ActorID = actorID c, wti_IdempotencyKey = key,
         wti_ResourceGroupID = groupFrom c\<rparr>))))"

definition Handler_ListWorkflowRuns ::
    "(WorkflowGetInput \<Rightarrow> int \<Rightarrow> int \<Rightarrow> ('s, 'i) io) \<Rightarrow> gctx \<Rightarrow> int decoded \<Rightarrow> (int option \<times> ListJobsRequest) decoded \<Rightarrow> ('s, 'i) response" where
  "Handler_ListWorkflowRuns uc c uri d = ShouldBindBoth valid_page uri d (\<lambda>i req.
     with_tenant c (lj_TenantID req) (\<lambda>tenantID.
     serve OK (uc \<lparr>wg_ID = i, wg_TenantID = tenantID, wg_ResourceGroupID = groupFrom c\<rparr> (lj_Limit req) (lj_Offset req))))"

definition Handler_GetWorkflowRun ::
    "(WorkflowGetInput \<Rightarrow> int \<Rightarrow> ('s, 'i) io) \<Rightarrow> gctx \<Rightarrow> (int \<times> int) decoded \<Rightarrow> ('s, 'i) response" where
  "Handler_GetWorkflowRun uc c uri = ShouldBind (\<lambda>(i, runID). positive_id i \<and> positive_id runID) uri (\<lambda>(i, runID).
     with_tenant c [] (\<lambda>tenantID. serve OK (uc \<lparr>wg_ID = i, wg_TenantID = tenantID, wg_ResourceGroupID = groupFrom c\<rparr> runID)))"

definition Handler_CancelWorkflowRun ::
    "(WorkflowGetInput \<Rightarrow> int \<Rightarrow> ('s, CancelResult) io) \<Rightarrow> gctx \<Rightarrow> (int \<times> int) decoded \<Rightarrow> ('s, CancelResult) response" where
  "Handler_CancelWorkflowRun uc c uri = ShouldBind (\<lambda>(i, runID). positive_id i \<and> positive_id runID) uri (\<lambda>(i, runID).
     with_tenant c [] (\<lambda>tenantID. serve OK (uc \<lparr>wg_ID = i, wg_TenantID = tenantID, wg_ResourceGroupID = groupFrom c\<rparr> runID)))"

end
