(* ===== verification/Rate_Limit.thy ===== *)
theory Rate_Limit
  imports Go_Float Go_Strings
begin

section \<open>The rate limiter of the admin API\<close>

text \<open>
  \<open>internal/admin/http/middleware/ratelimit.go\<close>: a token bucket per endpoint group and tenant. The tokens are binary64
  values, so the bound on the requests let through carries the rounding of each call; the product and the sum round separately,
  as on amd64. The mutex makes \<open>tryAllow\<close> and the reaper atomic: a history of the limiter is the sequence of their executions.
  The time of a request is the reading its caller took just before the mutex, so the order of a history is the order of the lock; two
  callers may take the lock in the other order of their readings, and the bound below is stated for histories whose readings are in order.
\<close>

datatype endpointGroup = groupRead | groupWrite | groupTrigger | groupPublic

record groupConfig =
  gc_rps :: int
  gc_burst :: int

record tokenBucket =
  tb_tokens :: float64
  tb_lastTime :: time
  tb_lastUsed :: time

record RateLimiter =
  rl_limits :: "endpointGroup \<rightharpoonup> groupConfig"
  rl_buckets :: "endpointGroup \<rightharpoonup> (string \<rightharpoonup> tokenBucket)"

definition defaultLimits :: "endpointGroup \<rightharpoonup> groupConfig" where
  "defaultLimits = [groupRead \<mapsto> \<lparr>gc_rps = 100, gc_burst = 100\<rparr>, groupWrite \<mapsto> \<lparr>gc_rps = 10, gc_burst = 10\<rparr>,
     groupTrigger \<mapsto> \<lparr>gc_rps = 5, gc_burst = 5\<rparr>]"

fun groupEnvKey :: "endpointGroup \<Rightarrow> string" where
  "groupEnvKey groupRead = ''RATELIMIT_READ_RPS''"
| "groupEnvKey groupWrite = ''RATELIMIT_WRITE_RPS''"
| "groupEnvKey groupTrigger = ''RATELIMIT_TRIGGER_RPS''"
| "groupEnvKey groupPublic = ''''"

definition loadEnvInt :: "(string \<Rightarrow> string) \<Rightarrow> string \<Rightarrow> int \<Rightarrow> int" where
  "loadEnvInt getenv key fallback =
     (let raw = getenv key in
      if raw = '''' then fallback
      else case parse_int64 raw of Inl _ \<Rightarrow> fallback | Inr v \<Rightarrow> if v < 1 then fallback else v)"

definition NewRateLimiter :: "(string \<Rightarrow> string) \<Rightarrow> RateLimiter" where
  "NewRateLimiter getenv =
     \<lparr>rl_limits = (\<lambda>g. map_option (\<lambda>c. \<lparr>gc_rps = loadEnvInt getenv (groupEnvKey g) (gc_rps c),
        gc_burst = loadEnvInt getenv (groupEnvKey g) (gc_burst c)\<rparr>) (defaultLimits g)),
      rl_buckets = Map.empty\<rparr>"

definition classifyEndpoint :: "string \<Rightarrow> string \<Rightarrow> endpointGroup" where
  "classifyEndpoint meth path =
     (if path \<in> {''/healthz'', ''/openapi.json'', ''/metrics''} then groupPublic
      else if path \<in> {''/api/v1/jobs/:id/trigger'', ''/api/v1/instances/:run_id/cancel''} then groupTrigger
      else if meth = ''GET'' \<or> meth = ''HEAD'' then groupRead
      else groupWrite)"

text \<open>\<open>time.Duration.Seconds\<close>: whole seconds and the fraction are converted apart; integer division truncates.\<close>

definition Seconds :: "duration \<Rightarrow> float64" where
  "Seconds d =
     (let sec = sgn d * (\<bar>d\<bar> div 10 ^ 9); nsec = sgn d * (\<bar>d\<bar> mod 10 ^ 9)
      in fadd (float64_of_int sec) (fdiv (float64_of_int nsec) (10 ^ 9)))"

definition refill :: "groupConfig \<Rightarrow> time \<Rightarrow> tokenBucket \<Rightarrow> float64" where
  "refill cfg now b =
     (let elapsed = Seconds (time_Sub now (tb_lastTime b));
          tokens = fadd (tb_tokens b) (fmul elapsed (float64_of_int (gc_rps cfg)))
      in if tokens > float64_of_int (gc_burst cfg) then float64_of_int (gc_burst cfg) else tokens)"

definition tryAllow :: "time \<Rightarrow> endpointGroup \<Rightarrow> string \<Rightarrow> groupConfig \<Rightarrow> RateLimiter \<Rightarrow> bool \<times> RateLimiter" where
  "tryAllow now grp tenantID cfg rl =
     (let groupBuckets = (case rl_buckets rl grp of None \<Rightarrow> Map.empty | Some bs \<Rightarrow> bs);
          bucket = (case groupBuckets tenantID of
              None \<Rightarrow> \<lparr>tb_tokens = float64_of_int (gc_burst cfg), tb_lastTime = now, tb_lastUsed = 0\<rparr>
            | Some b \<Rightarrow> b);
          tokens = refill cfg now bucket;
          allowed = (tokens \<ge> 1);
          bucket' = \<lparr>tb_tokens = (if allowed then fsub tokens 1 else tokens), tb_lastTime = now, tb_lastUsed = now\<rparr>
      in (allowed, rl\<lparr>rl_buckets := (rl_buckets rl)(grp \<mapsto> groupBuckets(tenantID \<mapsto> bucket'))\<rparr>))"

definition reapInterval :: duration where
  "reapInterval = 30 * 60 * 10 ^ 9"

definition reap :: "time \<Rightarrow> duration \<Rightarrow> RateLimiter \<Rightarrow> RateLimiter" where
  "reap now interval rl =
     (let cutoff = now - interval in
      rl\<lparr>rl_buckets := (\<lambda>g. map_option (\<lambda>bs tid. case bs tid of
           None \<Rightarrow> None
         | Some entry \<Rightarrow> if tb_lastUsed entry < cutoff then None else Some entry) (rl_buckets rl g))\<rparr>)"

text \<open>The middleware: the request goes on, or is answered 429. A group without limits reads as the zero configuration.\<close>

definition limit_of :: "RateLimiter \<Rightarrow> endpointGroup \<Rightarrow> groupConfig" where
  "limit_of rl g = (case rl_limits rl g of None \<Rightarrow> \<lparr>gc_rps = 0, gc_burst = 0\<rparr> | Some c \<Rightarrow> c)"

definition RateLimiter_Middleware :: "time \<Rightarrow> string \<Rightarrow> string \<Rightarrow> string \<Rightarrow> RateLimiter \<Rightarrow> nat option \<times> RateLimiter" where
  "RateLimiter_Middleware now meth fullPath tenantID rl =
     (let grp = classifyEndpoint meth fullPath in
      if grp = groupPublic then (None, rl)
      else case tryAllow now grp tenantID (limit_of rl grp) rl of
          (True, rl') \<Rightarrow> (None, rl')
        | (False, rl') \<Rightarrow> (Some 429, rl'))"

subsection \<open>Histories\<close>

datatype limiter_event = Request (ev_time: time) string string string | ReapTick (ev_time: time)

text \<open>The requests let through for one group and tenant, and the limiter afterwards.\<close>

fun limiter_step :: "endpointGroup \<Rightarrow> string \<Rightarrow> limiter_event \<Rightarrow> RateLimiter \<Rightarrow> nat \<times> RateLimiter" where
  "limiter_step g t (Request now meth path tenant) rl =
     (let (ans, rl') = RateLimiter_Middleware now meth path tenant rl
      in (if classifyEndpoint meth path = g \<and> tenant = t \<and> ans = None then 1 else 0, rl'))"
| "limiter_step g t (ReapTick now) rl = (0, reap now reapInterval rl)"

fun limiter_run :: "endpointGroup \<Rightarrow> string \<Rightarrow> limiter_event list \<Rightarrow> RateLimiter \<Rightarrow> nat \<times> RateLimiter" where
  "limiter_run g t [] rl = (0, rl)"
| "limiter_run g t (e # es) rl =
     (let (n, rl') = limiter_step g t e rl; (m, rl'') = limiter_run g t es rl' in (n + m, rl''))"

subsection \<open>Rounding\<close>

text \<open>One rounding of a value that is not negative, subnormal numbers included.\<close>

lemma f64_upper:
  assumes "0 \<le> x"
  shows "f64 x \<le> x + x / 2 ^ 53 + 1 / 2 ^ 60"
proof (cases "2 powi - 1022 \<le> x")
  case True
  from f64_error [OF this] have "f64 x \<le> x + x / 2 ^ 53" by linarith
  also have "\<dots> \<le> x + x / 2 ^ 53 + 1 / 2 ^ 60" by simp
  finally show ?thesis .
next
  case False
  have one: "f64 (2 powi - 1022) = 2 powi - 1022" using f64_exact [of 1 "- 1022"] by simp
  have small: "(2::rat) powi - 1022 \<le> 2 powi - 60" by (rule two_powi_mono) simp
  have "f64 x \<le> 2 powi - 1022" using f64_mono [of x "2 powi - 1022"] False one by simp
  also have "\<dots> \<le> 1 / 2 ^ 60" using small by (simp add: power_int_minus power_int_numeral divide_simps)
  also have "\<dots> \<le> x + x / 2 ^ 53 + 1 / 2 ^ 60" using assms by simp
  finally show ?thesis .
qed

text \<open>A rounded value is representable: rounding it again changes nothing.\<close>

lemma f64_idem: "f64 (f64 x) = f64 x"
proof -
  have pos: "f64 (f64_pos x) = f64_pos x" if x: "0 < x" for x
  proof -
    have "x < 2 powi (rat_log2 x + 1)" by (rule rat_log2_bounds(2) [OF x])
    also have "\<dots> \<le> 2 powi (53 + f64_exp x)" by (rule two_powi_mono) (simp add: f64_exp_def)
    finally have "x \<le> 2 ^ 53 * 2 powi f64_exp x" by (simp add: two_powi_add power_int_numeral)
    then have "x / 2 powi f64_exp x \<le> of_int (2 ^ 53)" by (simp add: divide_le_eq)
    then have "round_even (x / 2 powi f64_exp x) \<le> 2 ^ 53" using round_even_mono round_even_of_int by metis
    moreover have "0 \<le> round_even (x / 2 powi f64_exp x)" using x by (intro round_even_nonneg) simp
    ultimately show ?thesis unfolding f64_pos_def by (intro f64_exact) (auto simp: f64_exp_def)
  qed
  show ?thesis
    using pos [of x] pos [of "- x"] by (cases "x = 0"; cases "0 < x") (simp_all add: f64_def [of x] f64_uminus)
qed

text \<open>The elapsed seconds are close to the exact quotient.\<close>

lemma Seconds_bounds:
  assumes "0 \<le> d" and "d < 2 ^ 63"
  shows "0 \<le> Seconds d" and "Seconds d \<le> of_int d / 10 ^ 9 * (1 + 3 / 2 ^ 53) + 3 / 2 ^ 60"
    and "10 ^ 9 \<le> d \<Longrightarrow> 1 \<le> Seconds d"
proof -
  define q m where "q = d div 10 ^ 9" and "m = d mod 10 ^ 9"
  have d: "d = q * 10 ^ 9 + m" and q: "0 \<le> q" "q \<le> 2 ^ 53" and m: "0 \<le> m" "m < 10 ^ 9"
    using assms by (auto simp: q_def m_def)
  define h :: rat where "h = of_int m / 10 ^ 9"
  have h: "0 \<le> h" "h < 1" using m by (auto simp: h_def divide_simps)
  have eq: "of_int d / 10 ^ 9 = of_int q + h" by (simp add: d h_def divide_simps)
  have fq: "float64_of_int q = of_int q" and fm: "float64_of_int m = of_int m"
    using q m by (auto simp: float64_of_int_def intro!: f64_of_int)
  have "sgn d * (\<bar>d\<bar> div 10 ^ 9) = q" and "sgn d * (\<bar>d\<bar> mod 10 ^ 9) = m"
    unfolding q_def m_def using assms(1) by (cases "d = 0"; simp)+
  then have s: "Seconds d = f64 (of_int q + f64 h)" by (simp only: Seconds_def Let_def fadd_def fdiv_def fq fm h_def)
  have fh: "0 \<le> f64 h" "f64 h \<le> h + h / 2 ^ 53 + 1 / 2 ^ 60" using f64_nonneg f64_upper h by auto
  have q0: "(0::rat) \<le> of_int q" using q by simp
  show "0 \<le> Seconds d" unfolding s using q0 fh by (intro f64_nonneg) linarith
  have "Seconds d \<le> (of_int q + f64 h) + (of_int q + f64 h) / 2 ^ 53 + 1 / 2 ^ 60"
    unfolding s using q0 fh by (intro f64_upper) linarith
  also have "\<dots> \<le> (of_int q + h) * (1 + 3 / 2 ^ 53) + 3 / 2 ^ 60" using fh h q0 by (simp add: field_simps)
  finally show "Seconds d \<le> of_int d / 10 ^ 9 * (1 + 3 / 2 ^ 53) + 3 / 2 ^ 60" by (simp only: eq)
  assume "10 ^ 9 \<le> d"
  then have "1 \<le> q" unfolding q_def by simp
  then have "1 \<le> of_int q + f64 h" using fh(1) by (metis add_increasing2 of_int_1_le_iff)
  then show "1 \<le> Seconds d" unfolding s using f64_mono [of 1] by simp
qed

subsection \<open>One call\<close>

text \<open>A call finds at most what the bucket held and what the elapsed time earned, up to the rounding of four operations.\<close>

lemma refill_bounds:
  assumes tok: "0 \<le> tb_tokens b" "tb_tokens b \<le> B" and B: "1 \<le> B"
    and cfg: "float64_of_int (gc_rps cfg) = B" "float64_of_int (gc_burst cfg) = B" and now: "tb_lastTime b \<le> now"
  shows "0 \<le> refill cfg now b" and "refill cfg now b \<le> B"
    and "refill cfg now b \<le> tb_tokens b + B * (of_int (now - tb_lastTime b) / 10 ^ 9) + 8 * B / 2 ^ 53"
proof -
  define d where "d = time_Sub now (tb_lastTime b)"
  have d: "0 \<le> d" "d < 2 ^ 63" "d \<le> now - tb_lastTime b" using now by (auto simp: d_def time_Sub_def)
  define tok s where "tok = tb_tokens b" and "s = Seconds d"
  have s: "0 \<le> s" "s \<le> of_int d / 10 ^ 9 * (1 + 3 / 2 ^ 53) + 3 / 2 ^ 60"
    unfolding s_def by (rule Seconds_bounds [OF d(1,2)])+
  have r: "refill cfg now b = (if B < f64 (tok + f64 (s * B)) then B else f64 (tok + f64 (s * B)))"
    by (simp add: refill_def Let_def cfg fadd_def fmul_def tok_def s_def d_def)
  have sB: "0 \<le> s * B" using s(1) B by simp
  have pos: "0 \<le> f64 (s * B)" by (rule f64_nonneg [OF sB])
  have "0 \<le> f64 (tok + f64 (s * B))" using tok(1) pos by (intro f64_nonneg) (simp add: tok_def)
  then show "0 \<le> refill cfg now b" using B by (simp add: r)
  show le: "refill cfg now b \<le> B" by (simp add: r)
  define e where "e = B * (of_int d / 10 ^ 9)"
  have "e \<le> B * (of_int (now - tb_lastTime b) / 10 ^ 9)"
    unfolding e_def using B d(3) by (intro mult_left_mono divide_right_mono) (simp_all only: of_int_le_iff, simp_all)
  moreover have "refill cfg now b \<le> tok + e + 8 * B / 2 ^ 53"
  proof (cases "B \<le> e")
    case True
    have "0 \<le> tok" "0 \<le> 8 * B / 2 ^ 53" using tok(1) B by (simp_all add: tok_def)
    with le True show ?thesis by linarith
  next
    case False
    have e: "0 \<le> e" using B d(1) by (simp add: e_def)
    have "s * B \<le> (of_int d / 10 ^ 9 * (1 + 3 / 2 ^ 53) + 3 / 2 ^ 60) * B" using s(2) B by (intro mult_right_mono) auto
    also have "\<dots> = e * (1 + 3 / 2 ^ 53) + 3 * B / 2 ^ 60" by (simp add: e_def field_simps)
    finally have sB': "s * B \<le> e * (1 + 3 / 2 ^ 53) + 3 * B / 2 ^ 60" .
    define x where "x = f64 (s * B)"
    have x: "0 \<le> x" "x \<le> s * B + s * B / 2 ^ 53 + 1 / 2 ^ 60" using pos f64_upper [OF sB] by (simp_all add: x_def)
    have "x \<le> e + 5 * B / 2 ^ 53" using x sB' e False B by (simp add: field_simps)
    moreover have "f64 (tok + x) \<le> (tok + x) + (tok + x) / 2 ^ 53 + 1 / 2 ^ 60"
      using tok(1) x(1) by (intro f64_upper) (simp add: tok_def)
    moreover have "tok \<le> B" using tok by (simp add: tok_def)
    ultimately have "f64 (tok + x) \<le> tok + e + 8 * B / 2 ^ 53" using False B e by (simp add: field_simps)
    then show ?thesis unfolding r x_def by auto
  qed
  ultimately show "refill cfg now b \<le> tb_tokens b + B * (of_int (now - tb_lastTime b) / 10 ^ 9) + 8 * B / 2 ^ 53"
    unfolding tok_def by linarith
qed

subsection \<open>The potential of a bucket\<close>

text \<open>\<open>capacity\<close> is what a tenant could spend at an instant, in exact arithmetic: a missing bucket is a full one.\<close>

definition bucket_of :: "endpointGroup \<Rightarrow> string \<Rightarrow> RateLimiter \<Rightarrow> tokenBucket option" where
  "bucket_of g t rl = (case rl_buckets rl g of None \<Rightarrow> None | Some bs \<Rightarrow> bs t)"

definition capacity :: "rat \<Rightarrow> time \<Rightarrow> tokenBucket option \<Rightarrow> rat" where
  "capacity B now b = (case b of None \<Rightarrow> B
     | Some b \<Rightarrow> min B (tb_tokens b + B * (of_int (now - tb_lastTime b) / 10 ^ 9)))"

definition bucket_ok :: "rat \<Rightarrow> time \<Rightarrow> tokenBucket option \<Rightarrow> bool" where
  "bucket_ok B now b \<longleftrightarrow> (\<forall>c. b = Some c \<longrightarrow>
     0 \<le> tb_tokens c \<and> tb_tokens c \<le> B \<and> tb_lastUsed c = tb_lastTime c \<and> tb_lastTime c \<le> now)"

definition limit_is :: "rat \<Rightarrow> groupConfig \<Rightarrow> bool" where
  "limit_is B cfg \<longleftrightarrow> 1 \<le> B \<and> float64_of_int (gc_rps cfg) = B \<and> float64_of_int (gc_burst cfg) = B"

lemma bucket_ok_later: "bucket_ok B now b \<Longrightarrow> now \<le> t \<Longrightarrow> bucket_ok B t b"
  by (auto simp: bucket_ok_def)

lemma capacity_full: "capacity B now b \<le> B"
  by (auto simp: capacity_def split: option.split)

lemma capacity_nonneg: "bucket_ok B now b \<Longrightarrow> 0 \<le> B \<Longrightarrow> 0 \<le> capacity B now b"
  by (auto simp: capacity_def bucket_ok_def split: option.split)

lemma capacity_later:
  assumes "0 \<le> B" and "now \<le> t"
  shows "capacity B t b \<le> capacity B now b + B * (of_int (t - now) / 10 ^ 9)"
proof (cases b)
  case None
  then show ?thesis using assms by (simp add: capacity_def)
next
  case (Some c)
  have q: "0 \<le> B * (of_int (t - now) / 10 ^ 9)" using assms by simp
  have cut: "0 \<le> q \<Longrightarrow> min B (x + (p + q)) \<le> min B (x + p) + q" for x p q :: rat by (simp add: min_def)
  have "B * (of_int (t - tb_lastTime c) / 10 ^ 9)
    = B * (of_int (now - tb_lastTime c) / 10 ^ 9) + B * (of_int (t - now) / 10 ^ 9)" by (simp add: field_simps)
  with cut [OF q] show ?thesis unfolding Some capacity_def option.case by metis
qed

lemma tryAllow_other: "(g, t) \<noteq> (g', t') \<Longrightarrow> bucket_of g t (snd (tryAllow now g' t' cfg rl)) = bucket_of g t rl"
  by (auto simp: tryAllow_def Let_def bucket_of_def split: option.split)

lemma tryAllow_spends:
  assumes ok: "bucket_ok B now (bucket_of g t rl)" and lim: "limit_is B cfg" and res: "tryAllow now g t cfg rl = (a, rl')"
  shows "bucket_ok B now (bucket_of g t rl')"
    and "(if a then 1 else 0) + capacity B now (bucket_of g t rl') \<le> capacity B now (bucket_of g t rl) + B / 2 ^ 49"
proof -
  define b where "b = (case bucket_of g t rl of None \<Rightarrow> \<lparr>tb_tokens = B, tb_lastTime = now, tb_lastUsed = 0\<rparr> | Some b \<Rightarrow> b)"
  define y where "y = refill cfg now b"
  define z where "z = (if 1 \<le> y then f64 (y - 1) else y)"
  have B: "1 \<le> B" and cfg: "float64_of_int (gc_rps cfg) = B" "float64_of_int (gc_burst cfg) = B"
    using lim by (simp_all add: limit_is_def)
  have tok: "0 \<le> tb_tokens b" "tb_tokens b \<le> B" and last: "tb_lastTime b \<le> now"
    using ok B by (auto simp: b_def bucket_ok_def split: option.split)
  have a: "a = (1 \<le> y)" and b': "bucket_of g t rl' = Some \<lparr>tb_tokens = z, tb_lastTime = now, tb_lastUsed = now\<rparr>"
    using res by (auto simp: tryAllow_def Let_def bucket_of_def cfg y_def z_def b_def fsub_def split: option.splits)
  note y = refill_bounds [OF tok B cfg last, folded y_def]
  have cap: "capacity B now (bucket_of g t rl) = min B (tb_tokens b + B * (of_int (now - tb_lastTime b) / 10 ^ 9))"
    using B by (auto simp: capacity_def b_def split: option.split)
  have zs: "(if a then 1 else 0) + z \<le> y + 2 * B / 2 ^ 53"
  proof (cases "1 \<le> y")
    case True
    then have "f64 (y - 1) \<le> (y - 1) + (y - 1) / 2 ^ 53 + 1 / 2 ^ 60" by (intro f64_upper) simp
    with True y(2) B show ?thesis by (simp add: a z_def field_simps)
  qed (use B in \<open>simp add: a z_def\<close>)
  have z0: "0 \<le> z" using y(1) f64_nonneg [of "y - 1"] by (simp add: z_def)
  have "f64 B = B" using cfg(2) by (metis f64_idem float64_of_int_def)
  then have zB: "z \<le> B" using f64_mono [of "y - 1" B] y(2) by (simp add: z_def)
  show "bucket_ok B now (bucket_of g t rl')" using z0 zB by (simp add: b' bucket_ok_def)
  have "y \<le> capacity B now (bucket_of g t rl) + 8 * B / 2 ^ 53" using y(2,3) B unfolding cap by (simp add: min_def)
  with zs have "(if a then 1 else 0) + z \<le> capacity B now (bucket_of g t rl) + 10 * B / 2 ^ 53" by simp
  moreover have "capacity B now (bucket_of g t rl') \<le> z" by (simp add: capacity_def b')
  moreover have "10 * B / 2 ^ 53 \<le> B / 2 ^ 49" using B by simp
  ultimately show "(if a then 1 else 0) + capacity B now (bucket_of g t rl') \<le> capacity B now (bucket_of g t rl) + B / 2 ^ 49"
    by linarith
qed

text \<open>The reaper drops only buckets that are full again: half an hour earns more than the burst.\<close>

lemma reap_neutral:
  assumes "bucket_ok B now (bucket_of g t rl)" and "0 \<le> B"
  shows "bucket_ok B now (bucket_of g t (reap now reapInterval rl))"
    and "capacity B now (bucket_of g t (reap now reapInterval rl)) = capacity B now (bucket_of g t rl)"
proof -
  have full: "capacity B now (Some c) = B" if "0 \<le> tb_tokens c" "tb_lastTime c < now - reapInterval" for c
  proof -
    have "(10 ^ 9 :: rat) \<le> of_int (now - tb_lastTime c)"
      using that(2) unfolding reapInterval_def by (simp flip: of_int_le_iff)
    then have "1 \<le> of_int (now - tb_lastTime c) / (10 ^ 9 :: rat)" by simp
    then have "B * 1 \<le> B * (of_int (now - tb_lastTime c) / 10 ^ 9)" using assms(2) by (rule mult_left_mono)
    then show ?thesis using that(1) by (simp add: capacity_def)
  qed
  have b: "bucket_of g t (reap now reapInterval rl) = (case bucket_of g t rl of None \<Rightarrow> None
      | Some c \<Rightarrow> if tb_lastUsed c < now - reapInterval then None else Some c)"
    by (auto simp: bucket_of_def reap_def Let_def split: option.split)
  show "bucket_ok B now (bucket_of g t (reap now reapInterval rl))"
    using assms(1) by (auto simp: b bucket_ok_def split: option.splits if_splits)
  show "capacity B now (bucket_of g t (reap now reapInterval rl)) = capacity B now (bucket_of g t rl)"
  proof (cases "bucket_of g t rl")
    case (Some c)
    then have c: "0 \<le> tb_tokens c" "tb_lastUsed c = tb_lastTime c" using assms(1) by (auto simp: bucket_ok_def)
    show ?thesis
    proof (cases "tb_lastUsed c < now - reapInterval")
      case True
      then have "capacity B now (Some c) = B" using c by (intro full) auto
      with True Some show ?thesis by (simp add: b capacity_def)
    qed (simp add: b Some)
  qed (simp add: b)
qed

subsection \<open>Histories spend no more than their time\<close>

lemma limits_kept: "rl_limits (snd (limiter_step g t e rl)) = rl_limits rl"
proof (cases e)
  case (Request now meth path tenant)
  have "rl_limits (snd (tryAllow now g' t' c rl)) = rl_limits rl" for g' t' c by (simp add: tryAllow_def Let_def)
  then show ?thesis by (simp add: Request RateLimiter_Middleware_def Let_def split: prod.split bool.split)
      (metis snd_conv)
qed (simp add: reap_def Let_def)

lemma limiter_step_spends:
  assumes "bucket_ok B now (bucket_of g t rl)" and "now \<le> ev_time e" and "limit_is B (limit_of rl g)" and "g \<noteq> groupPublic"
  shows "bucket_ok B (ev_time e) (bucket_of g t (snd (limiter_step g t e rl)))"
    and "of_nat (fst (limiter_step g t e rl)) + capacity B (ev_time e) (bucket_of g t (snd (limiter_step g t e rl)))
      \<le> capacity B (ev_time e) (bucket_of g t rl) + B / 2 ^ 49"
proof -
  have ok: "bucket_ok B (ev_time e) (bucket_of g t rl)" by (rule bucket_ok_later [OF assms(1,2)])
  have B: "0 \<le> B" using assms(3) by (simp add: limit_is_def)
  have "bucket_ok B (ev_time e) (bucket_of g t (snd (limiter_step g t e rl)))
    \<and> of_nat (fst (limiter_step g t e rl)) + capacity B (ev_time e) (bucket_of g t (snd (limiter_step g t e rl)))
      \<le> capacity B (ev_time e) (bucket_of g t rl) + B / 2 ^ 49"
  proof (cases e)
    case (Request at' meth path tenant)
    let ?g = "classifyEndpoint meth path"
    obtain a rl' where call: "tryAllow at' ?g tenant (limit_of rl ?g) rl = (a, rl')" by fastforce
    show ?thesis
    proof (cases "?g = g \<and> tenant = t")
      case True
      then have "tryAllow at' g t (limit_of rl g) rl = (a, rl')" using call by simp
      note spend = tryAllow_spends [OF _ assms(3) this]
      from True call assms(4) have "limiter_step g t e rl = (if a then 1 else 0, rl')"
        by (cases a) (auto simp: Request RateLimiter_Middleware_def Let_def)
      then show ?thesis using spend ok by (auto simp: Request)
    next
      case False
      have "bucket_of g t (snd (limiter_step g t e rl)) = bucket_of g t rl"
        using tryAllow_other [of g t ?g tenant at' "limit_of rl ?g" rl] False call
        by (cases a) (auto simp: Request RateLimiter_Middleware_def Let_def)
      moreover have "fst (limiter_step g t e rl) = 0" using False by (auto simp: Request split: prod.split)
      ultimately show ?thesis using ok B by simp
    qed
  next
    case (ReapTick at')
    then show ?thesis using reap_neutral ok B by simp
  qed
  then show "bucket_ok B (ev_time e) (bucket_of g t (snd (limiter_step g t e rl)))"
    and "of_nat (fst (limiter_step g t e rl)) + capacity B (ev_time e) (bucket_of g t (snd (limiter_step g t e rl)))
      \<le> capacity B (ev_time e) (bucket_of g t rl) + B / 2 ^ 49" by blast+
qed

lemma limiter_run_spends:
  assumes "bucket_ok B now (bucket_of g t rl)" and "limit_is B (limit_of rl g)" and "g \<noteq> groupPublic"
    and "sorted (map ev_time es)" and "\<forall>e \<in> set es. now \<le> ev_time e \<and> ev_time e \<le> until" and "now \<le> until"
  shows "limit_of (snd (limiter_run g t es rl)) g = limit_of rl g
    \<and> bucket_ok B (last (now # map ev_time es)) (bucket_of g t (snd (limiter_run g t es rl)))
    \<and> of_nat (fst (limiter_run g t es rl)) + capacity B until (bucket_of g t (snd (limiter_run g t es rl)))
      \<le> capacity B now (bucket_of g t rl) + B * (of_int (until - now) / 10 ^ 9) + of_nat (length es) * (B / 2 ^ 49)"
  using assms
proof (induction es arbitrary: now rl)
  case Nil
  have "0 \<le> B" using Nil.prems(2) by (simp add: limit_is_def)
  from capacity_later [OF this Nil.prems(6)] Nil.prems(1) show ?case by simp
next
  case (Cons e es)
  obtain n rl' where st: "limiter_step g t e rl = (n, rl')" by fastforce
  obtain m rl'' where rn: "limiter_run g t es rl' = (m, rl'')" by fastforce
  have B: "0 \<le> B" using Cons.prems(2) by (simp add: limit_is_def)
  have t: "now \<le> ev_time e" "ev_time e \<le> until" using Cons.prems(5) by auto
  note step = limiter_step_spends [OF Cons.prems(1) t(1) Cons.prems(2,3), unfolded st fst_conv snd_conv]
  have lim: "limit_of rl' g = limit_of rl g" using limits_kept [of g t e rl] st by (simp add: limit_of_def)
  have "limit_is B (limit_of rl' g)" using Cons.prems(2) lim by simp
  note IH = Cons.IH [OF step(1) this Cons.prems(3), unfolded rn fst_conv snd_conv]
  have rest: "limit_of rl'' g = limit_of rl' g \<and> bucket_ok B (last (ev_time e # map ev_time es)) (bucket_of g t rl'')
    \<and> of_nat m + capacity B until (bucket_of g t rl'') \<le> capacity B (ev_time e) (bucket_of g t rl')
        + B * (of_int (until - ev_time e) / 10 ^ 9) + of_nat (length es) * (B / 2 ^ 49)"
    using Cons.prems(4,5) t(2) by (intro IH) auto
  have "B * (of_int (until - now) / 10 ^ 9)
    = B * (of_int (until - ev_time e) / 10 ^ 9) + B * (of_int (ev_time e - now) / 10 ^ 9)" by (simp add: field_simps)
  with rest step(2) capacity_later [OF B t(1), of "bucket_of g t rl"]
  have "of_nat (n + m) + capacity B until (bucket_of g t rl'')
    \<le> capacity B now (bucket_of g t rl) + B * (of_int (until - now) / 10 ^ 9) + (B / 2 ^ 49 + of_nat (length es) * (B / 2 ^ 49))"
    by (simp only: of_nat_add) linarith
  with rest lim show ?case by (simp add: st rn algebra_simps add_divide_distrib)
qed

text \<open>The limits a process starts with: rate and burst are read from one variable, so they are equal and positive.\<close>

lemma loadEnvInt_pos: "1 \<le> fallback \<Longrightarrow> 1 \<le> loadEnvInt getenv key fallback"
  by (auto simp: loadEnvInt_def Let_def split: sum.split)

lemma NewRateLimiter_limit:
  assumes "g \<noteq> groupPublic"
  shows "limit_is (float64_of_int (gc_burst (limit_of (NewRateLimiter getenv) g))) (limit_of (NewRateLimiter getenv) g)"
proof -
  have "gc_rps (limit_of (NewRateLimiter getenv) g) = gc_burst (limit_of (NewRateLimiter getenv) g)"
    and "1 \<le> gc_burst (limit_of (NewRateLimiter getenv) g)"
    using assms by (cases g; simp add: limit_of_def NewRateLimiter_def defaultLimits_def loadEnvInt_pos)+
  then show ?thesis using f64_mono [of 1] by (simp add: limit_is_def float64_of_int_def)
qed

lemma NewRateLimiter_empty: "bucket_of g t (NewRateLimiter getenv) = None"
  by (simp add: bucket_of_def NewRateLimiter_def)

text \<open>Any window of any history: the requests let through stay within the burst and what the window earns.\<close>

lemma limiter_window:
  assumes "g \<noteq> groupPublic" and "sorted (map ev_time (past @ es))" and "\<forall>e \<in> set es. from \<le> ev_time e \<and> ev_time e \<le> until"
    and "from \<le> until" and B: "B = float64_of_int (gc_burst (limit_of (NewRateLimiter getenv) g))"
  shows "of_nat (fst (limiter_run g t es (snd (limiter_run g t past (NewRateLimiter getenv)))))
    \<le> B * (1 + of_int (until - from) / 10 ^ 9 + of_nat (length es) / 2 ^ 49)"
proof (cases es)
  case (Cons e fs)
  define rl where "rl = snd (limiter_run g t past (NewRateLimiter getenv))"
  define start where "start = (if past = [] then ev_time e else ev_time (hd past))"
  have lim: "limit_is B (limit_of (NewRateLimiter getenv) g)" unfolding B by (rule NewRateLimiter_limit [OF assms(1)])
  have srt: "sorted (map ev_time past)" "sorted (map ev_time es)" "\<forall>p \<in> set past. \<forall>e \<in> set es. ev_time p \<le> ev_time e"
    using assms(2) by (auto simp: sorted_append)
  have bd: "\<forall>p \<in> set past. start \<le> ev_time p \<and> ev_time p \<le> ev_time e" "start \<le> ev_time e"
    using srt by (cases past; auto simp: start_def Cons)+
  have "bucket_ok B start (bucket_of g t (NewRateLimiter getenv))" by (simp add: NewRateLimiter_empty bucket_ok_def)
  from limiter_run_spends [OF this lim assms(1) srt(1) bd] have rl: "limit_of rl g = limit_of (NewRateLimiter getenv) g"
    "bucket_ok B (last (start # map ev_time past)) (bucket_of g t rl)" by (simp_all add: rl_def)
  have "last (start # map ev_time past) \<le> ev_time e" using bd by (cases past rule: rev_cases) auto
  with rl(2) have ok: "bucket_ok B (ev_time e) (bucket_of g t rl)" by (rule bucket_ok_later)
  have B0: "0 \<le> B" using lim by (simp add: limit_is_def)
  have win: "\<forall>x \<in> set es. ev_time e \<le> ev_time x \<and> ev_time x \<le> until" "ev_time e \<le> until" "from \<le> ev_time e"
    using srt(2) assms(3) by (auto simp: Cons)
  from limiter_run_spends [OF ok _ assms(1) srt(2) win(1,2)] lim rl(1)
  have main: "bucket_ok B (last (ev_time e # map ev_time es)) (bucket_of g t (snd (limiter_run g t es rl)))"
      "of_nat (fst (limiter_run g t es rl)) + capacity B until (bucket_of g t (snd (limiter_run g t es rl)))
        \<le> capacity B (ev_time e) (bucket_of g t rl) + B * (of_int (until - ev_time e) / 10 ^ 9) + of_nat (length es) * (B / 2 ^ 49)"
    by auto
  have "last (ev_time e # map ev_time es) \<le> until" using win(1) by (simp add: Cons last_map)
  then have "0 \<le> capacity B until (bucket_of g t (snd (limiter_run g t es rl)))"
    using main(1) B0 bucket_ok_later capacity_nonneg by blast
  moreover have "B * (of_int (until - ev_time e) / 10 ^ 9) \<le> B * (of_int (until - from) / 10 ^ 9)"
    using win(3) B0 by (intro mult_left_mono divide_right_mono) auto
  ultimately have "of_nat (fst (limiter_run g t es rl)) \<le> B + B * (of_int (until - from) / 10 ^ 9) + of_nat (length es) * (B / 2 ^ 49)"
    using main(2) capacity_full [of B "ev_time e" "bucket_of g t rl"] by linarith
  then show ?thesis by (simp add: rl_def algebra_simps)
next
  case Nil
  have "0 \<le> B" using NewRateLimiter_limit [OF assms(1), of getenv] by (simp add: B limit_is_def)
  then show ?thesis using assms(4) by (simp add: Nil)
qed

text \<open>A tenant that leaves a second between its requests is never held back.\<close>

lemma spaced_request_allowed:
  assumes "bucket_ok B last' (bucket_of g t rl)" and "limit_is B cfg"
    and "\<forall>b. bucket_of g t rl = Some b \<longrightarrow> tb_lastTime b + 10 ^ 9 \<le> now"
  shows "fst (tryAllow now g t cfg rl)"
proof -
  define b where "b = (case bucket_of g t rl of None \<Rightarrow> \<lparr>tb_tokens = B, tb_lastTime = now, tb_lastUsed = 0\<rparr> | Some b \<Rightarrow> b)"
  have B: "1 \<le> B" and cfg: "float64_of_int (gc_rps cfg) = B" "float64_of_int (gc_burst cfg) = B"
    using assms(2) by (simp_all add: limit_is_def)
  define s where "s = Seconds (time_Sub now (tb_lastTime b))"
  have "1 \<le> tb_tokens b + f64 (s * B)"
  proof (cases "bucket_of g t rl")
    case None
    then have "s = Seconds 0" by (simp add: s_def b_def time_Sub_def)
    then have "0 \<le> s" using Seconds_bounds(1) [of 0] by simp
    then have "0 \<le> f64 (s * B)" using B by (intro f64_nonneg) simp
    then show ?thesis using None B by (simp add: b_def)
  next
    case (Some c)
    then have c: "0 \<le> tb_tokens b" "10 ^ 9 \<le> now - tb_lastTime b" using assms(1,3) by (auto simp: b_def bucket_ok_def)
    then have "1 \<le> s" unfolding s_def by (intro Seconds_bounds(3)) (auto simp: time_Sub_def)
    then have "f64 1 \<le> f64 (s * B)" using mult_mono [of 1 s 1 B] B by (intro f64_mono) simp
    then show ?thesis using c by simp
  qed
  from f64_mono [OF this] have "1 \<le> refill cfg now b"
    using B by (simp add: refill_def Let_def cfg fadd_def fmul_def flip: s_def)
  then show ?thesis by (auto simp: tryAllow_def Let_def bucket_of_def cfg b_def split: option.splits)
qed

text \<open>After any history, a tenant whose last request lies a second back gets through.\<close>

lemma rested_request_passes:
  assumes g: "classifyEndpoint meth path = g" "g \<noteq> groupPublic" and past: "sorted (map ev_time past)"
    and rest: "\<forall>e \<in> set past. ev_time e + 10 ^ 9 \<le> now"
  shows "fst (RateLimiter_Middleware now meth path t (snd (limiter_run g t past (NewRateLimiter getenv)))) = None"
proof -
  define B rl where "B = float64_of_int (gc_burst (limit_of (NewRateLimiter getenv) g))"
    and "rl = snd (limiter_run g t past (NewRateLimiter getenv))"
  define start where "start = (if past = [] then now - 10 ^ 9 else ev_time (hd past))"
  have lim: "limit_is B (limit_of (NewRateLimiter getenv) g)" unfolding B_def by (rule NewRateLimiter_limit [OF g(2)])
  have "bucket_ok B start (bucket_of g t (NewRateLimiter getenv))" by (simp add: NewRateLimiter_empty bucket_ok_def)
  moreover have "\<forall>e \<in> set past. start \<le> ev_time e \<and> ev_time e \<le> now" "start \<le> now"
    using past rest by (cases past; auto simp: start_def)+
  ultimately have run: "limit_of rl g = limit_of (NewRateLimiter getenv) g" "bucket_ok B (last (start # map ev_time past)) (bucket_of g t rl)"
    using limiter_run_spends [OF _ lim g(2) past, of start t now] by (auto simp: rl_def)
  have "last (start # map ev_time past) + 10 ^ 9 \<le> now" using rest by (cases past rule: rev_cases) (auto simp: start_def)
  with run(2) have "\<forall>b. bucket_of g t rl = Some b \<longrightarrow> tb_lastTime b + 10 ^ 9 \<le> now" by (auto simp: bucket_ok_def)
  then have "fst (tryAllow now g t (limit_of rl g) rl)" using run lim by (intro spaced_request_allowed [OF run(2)]) auto
  then show ?thesis using g by (auto simp: RateLimiter_Middleware_def Let_def rl_def split: prod.splits bool.splits)
qed

end
