(* ===== verification/Admin_Routes.thy ===== *)
theory Admin_Routes
  imports Admin_Http Rate_Limit
begin

section \<open>The routes of the admin API and the way to a handler\<close>

text \<open>
  \<open>internal/admin/http/openapi.go\<close> (the route table; of the OpenAPI operation its declared statuses), \<open>permission_router.go\<close>, \<open>bodylimit.go\<close>,
  \<open>Handler.Register\<close> and the order of the middleware in \<open>cmd/admin-api/main.go\<close>: authentication, rate limit, body limit, the
  guard of the route. Matching a path to a route and reading its parameters is gin's.
\<close>

subsection \<open>The route table\<close>

datatype resolver = TenantScoped string | TenantResource | ApiKeyResource

record routeDefinition =
  rt_method :: string
  rt_path :: string
  rt_permission :: string
  rt_resource :: resolver
  rt_handler :: string
  rt_statuses :: "nat list"

definition route :: "string \<Rightarrow> string \<Rightarrow> string \<Rightarrow> resolver \<Rightarrow> string \<Rightarrow> nat list \<Rightarrow> routeDefinition" where
  "route meth path permission res handler statuses = \<lparr>rt_method = meth, rt_path = path, rt_permission = permission, rt_resource = res,
     rt_handler = handler, rt_statuses = statuses\<rparr>"

definition jobRoutes :: "routeDefinition list" where
  "jobRoutes =
     [route ''GET'' ''/jobs'' ''job:List'' (TenantScoped ''job'') ''ListJobs'' [200, 400, 500],
      route ''GET'' ''/jobs/:id'' ''job:Get'' (TenantScoped ''job'') ''GetJob'' [200, 400, 404, 500],
      route ''POST'' ''/jobs/:id/trigger'' ''job:Trigger'' (TenantScoped ''job'') ''TriggerJob'' [201, 200, 400, 404, 409, 500],
      route ''GET'' ''/instances'' ''instance:List'' (TenantScoped ''instance'') ''ListInstances'' [200, 400, 500],
      route ''GET'' ''/instances/:run_id'' ''instance:Get'' (TenantScoped ''instance'') ''GetInstance'' [200, 400, 404, 500],
      route ''POST'' ''/instances/:run_id/cancel'' ''instance:Cancel'' (TenantScoped ''instance'') ''CancelInstance'' [200, 400, 404, 409, 500],
      route ''GET'' ''/instances/:run_id/attempts'' ''instance:Get'' (TenantScoped ''instance'') ''ListAttempts'' [200, 400, 404, 500]]"

definition checkRoutes :: "routeDefinition list" where
  "checkRoutes =
     [route ''POST'' ''/checks'' ''check:Create'' (TenantScoped ''check'') ''CreateCheck'' [201, 400, 500],
      route ''GET'' ''/checks'' ''check:List'' (TenantScoped ''check'') ''ListChecks'' [200, 400, 500],
      route ''GET'' ''/checks/:id'' ''check:Get'' (TenantScoped ''check'') ''GetCheck'' [200, 400, 404, 500],
      route ''POST'' ''/checks/:id/pause'' ''check:Pause'' (TenantScoped ''check'') ''PauseCheck'' [200, 400, 404, 409, 500],
      route ''POST'' ''/checks/:id/resume'' ''check:Resume'' (TenantScoped ''check'') ''ResumeCheck'' [200, 400, 404, 409, 500],
      route ''DELETE'' ''/checks/:id'' ''check:Delete'' (TenantScoped ''check'') ''DeleteCheck'' [200, 400, 404, 500],
      route ''GET'' ''/check-runs'' ''checkrun:List'' (TenantScoped ''checkrun'') ''ListCheckRuns'' [200, 400, 500],
      route ''GET'' ''/check-runs/:id'' ''checkrun:Get'' (TenantScoped ''checkrun'') ''GetCheckRun'' [200, 400, 404, 500]]"

definition sliRoutes :: "routeDefinition list" where
  "sliRoutes =
     [route ''POST'' ''/slis'' ''sli:Create'' (TenantScoped ''sli'') ''CreateSLI'' [201, 400, 500],
      route ''GET'' ''/slis'' ''sli:List'' (TenantScoped ''sli'') ''ListSLIs'' [200, 400, 500],
      route ''GET'' ''/slis/:id'' ''sli:Get'' (TenantScoped ''sli'') ''GetSLI'' [200, 400, 404, 500],
      route ''DELETE'' ''/slis/:id'' ''sli:Delete'' (TenantScoped ''sli'') ''DeleteSLI'' [200, 400, 404, 500]]"

definition sloRoutes :: "routeDefinition list" where
  "sloRoutes =
     [route ''POST'' ''/slos'' ''slo:Create'' (TenantScoped ''slo'') ''CreateSLO'' [201, 400, 500],
      route ''GET'' ''/slos'' ''slo:List'' (TenantScoped ''slo'') ''ListSLOs'' [200, 400, 500],
      route ''GET'' ''/slos/:id'' ''slo:Get'' (TenantScoped ''slo'') ''GetSLO'' [200, 400, 404, 500],
      route ''POST'' ''/slos/:id/pause'' ''slo:Pause'' (TenantScoped ''slo'') ''PauseSLO'' [200, 400, 404, 409, 500],
      route ''POST'' ''/slos/:id/resume'' ''slo:Resume'' (TenantScoped ''slo'') ''ResumeSLO'' [200, 400, 404, 409, 500],
      route ''DELETE'' ''/slos/:id'' ''slo:Delete'' (TenantScoped ''slo'') ''DeleteSLO'' [200, 400, 404, 500],
      route ''GET'' ''/slos/:id/budget'' ''slo:GetBudget'' (TenantScoped ''slo'') ''GetSLOBudget'' [200, 400, 404, 500],
      route ''GET'' ''/slos/:id/budgets'' ''slo:ListBudgets'' (TenantScoped ''slo'') ''ListSLOBudgets'' [200, 400, 500],
      route ''GET'' ''/slo-alerts'' ''sloalert:List'' (TenantScoped ''sloalert'') ''ListSLOAlerts'' [200, 400, 500],
      route ''GET'' ''/slo-alerts/:id'' ''sloalert:Get'' (TenantScoped ''sloalert'') ''GetSLOAlert'' [200, 400, 404, 500]]"

definition tenantRoutes :: "routeDefinition list" where
  "tenantRoutes =
     [route ''POST'' ''/tenants'' ''tenant:Create'' (TenantResource) ''CreateTenant'' [201, 400, 500],
      route ''GET'' ''/tenants'' ''tenant:List'' (TenantResource) ''ListTenants'' [200, 400, 500],
      route ''GET'' ''/tenants/:id'' ''tenant:Get'' (TenantResource) ''GetTenant'' [200, 400, 404, 500],
      route ''POST'' ''/tenants/:id/api_keys'' ''apikey:Create'' (ApiKeyResource) ''CreateAPIKey'' [201, 400, 500],
      route ''GET'' ''/tenants/:id/api_keys'' ''apikey:List'' (ApiKeyResource) ''ListAPIKeys'' [200, 400, 500],
      route ''POST'' ''/api_keys/:id/revoke'' ''apikey:Revoke'' (ApiKeyResource) ''RevokeAPIKey'' [200, 400, 404, 500]]"

definition policyRoutes :: "routeDefinition list" where
  "policyRoutes =
     [route ''POST'' ''/policies'' ''policy:Create'' (TenantScoped ''policy'') ''CreatePolicy'' [201, 400, 403, 500],
      route ''GET'' ''/policies'' ''policy:List'' (TenantScoped ''policy'') ''ListPolicies'' [200, 400, 500],
      route ''GET'' ''/policies/:id'' ''policy:Get'' (TenantScoped ''policy'') ''GetPolicy'' [200, 400, 404, 500],
      route ''DELETE'' ''/policies/:id'' ''policy:Delete'' (TenantScoped ''policy'') ''DeletePolicy'' [204, 400, 403, 404, 409, 500],
      route ''POST'' ''/resource_groups'' ''group:Create'' (TenantScoped ''group'') ''CreateResourceGroup'' [201, 400, 409, 500],
      route ''GET'' ''/resource_groups'' ''group:List'' (TenantScoped ''group'') ''ListResourceGroups'' [200, 400, 500]]"

definition functionRoutes :: "routeDefinition list" where
  "functionRoutes =
     [route ''GET'' ''/functions'' ''function:List'' (TenantScoped ''function'') ''ListFunctions'' [200, 400, 500],
      route ''GET'' ''/functions/:id'' ''function:Get'' (TenantScoped ''function'') ''GetFunction'' [200, 400, 404, 500],
      route ''POST'' ''/functions/:id/invoke'' ''function:Invoke'' (TenantScoped ''function'') ''InvokeFunction'' [201, 200, 400, 404, 409, 500],
      route ''GET'' ''/functions/:id/runs'' ''function:List'' (TenantScoped ''function'') ''ListFunctionRuns'' [200, 400, 404, 500],
      route ''GET'' ''/functions/:id/runs/:run_id'' ''function:Get'' (TenantScoped ''function'') ''GetFunctionRun'' [200, 400, 404, 500]]"

definition workflowRoutes :: "routeDefinition list" where
  "workflowRoutes =
     [route ''GET'' ''/workflows'' ''workflow:List'' (TenantScoped ''workflow'') ''ListWorkflows'' [200, 400, 403, 500],
      route ''GET'' ''/workflows/:id'' ''workflow:Get'' (TenantScoped ''workflow'') ''GetWorkflow'' [200, 400, 403, 404, 500],
      route ''POST'' ''/workflows/:id/runs'' ''workflow:Trigger'' (TenantScoped ''workflow'') ''TriggerWorkflow'' [201, 200, 400, 403, 404, 409, 500],
      route ''GET'' ''/workflows/:id/runs'' ''workflow:List'' (TenantScoped ''workflow'') ''ListWorkflowRuns'' [200, 400, 403, 404, 500],
      route ''GET'' ''/workflows/:id/runs/:run_id'' ''workflow:Get'' (TenantScoped ''workflow'') ''GetWorkflowRun'' [200, 400, 403, 404, 500],
      route ''POST'' ''/workflows/:id/runs/:run_id/cancel'' ''workflow:Trigger'' (TenantScoped ''workflow'') ''CancelWorkflowRun'' [200, 400, 403, 404, 409, 500]]"

definition adminAPIRoutes :: "routeDefinition list" where
  "adminAPIRoutes = map (\<lambda>r. r\<lparr>rt_statuses := rt_statuses r @ [401, 429]\<rparr>)
     (jobRoutes @ checkRoutes @ sliRoutes @ sloRoutes @ tenantRoutes @ policyRoutes @ functionRoutes @ workflowRoutes)"

definition adminAPIPrefix :: string where "adminAPIPrefix = ''/api/v1''"

lemmas route_defs = adminAPIRoutes_def jobRoutes_def checkRoutes_def sliRoutes_def sloRoutes_def tenantRoutes_def policyRoutes_def
  functionRoutes_def workflowRoutes_def route_def

subsection \<open>The guard\<close>

text \<open>\<open>c.Param\<close> is empty for a parameter the route does not have.\<close>

definition resolve :: "resolver \<Rightarrow> (string \<Rightarrow> string) \<Rightarrow> Principal \<Rightarrow> ARN result" where
  "resolve res param p =
     (case res of
        TenantScoped ty \<Rightarrow> Inr (tenantScoped ty (param ''id'') (param ''run_id'') p)
      | TenantResource \<Rightarrow> Inr (tenantResource (param ''id''))
      | ApiKeyResource \<Rightarrow> Inr (apiKeyResource (param ''id'') (param ''key_id'')))"

text \<open>A route that declares no permission is registered without a guard.\<close>

definition guardFor :: "routeDefinition \<Rightarrow> ((string \<Rightarrow> string) \<Rightarrow> Document list \<Rightarrow> Principal \<Rightarrow> answer) option" where
  "guardFor rt = (if rt_permission rt = [] then None else Some (\<lambda>param. Require (rt_permission rt) (resolve (rt_resource rt) param)))"

definition maxAdminRequestBody :: nat where "maxAdminRequestBody = 2 ^ 20"

text \<open>No body, a body that cannot be read, or the number of its bytes.\<close>

definition limitRequestBody :: "nat option option \<Rightarrow> (nat \<times> Code) option" where
  "limitRequestBody body =
     (case body of
        None \<Rightarrow> None
      | Some None \<Rightarrow> Some (400, CodeMalformedRequest)
      | Some (Some n) \<Rightarrow> if n > maxAdminRequestBody then Some (413, CodeMalformedRequest) else None)"

subsection \<open>The chain\<close>

record http_request =
  hq_Path :: string
  hq_Authorization :: string
  hq_Body :: "nat option option"
  hq_Param :: "string \<Rightarrow> string"

datatype chain_answer = Stop nat Code | Handle "Principal option"

fun stopped :: "answer \<Rightarrow> chain_answer" where
  "stopped Unauthorized = Stop 401 CodeUnauthorized"
| "stopped InternalError = Stop 500 CodeInternal"
| "stopped BadRequest = Stop 400 CodeMalformedRequest"
| "stopped Forbidden = Stop 403 CodeForbidden"
| "stopped (Proceed p) = Handle p"

text \<open>
  The documents are loaded once, at authentication; the guard is evaluated on the same documents, since nothing between the
  two touches the tables. Without a principal the guard finds no documents.
\<close>

definition request_chain ::
    "(string \<Rightarrow> Document result) \<Rightarrow> (string \<Rightarrow> string \<Rightarrow> bool) \<Rightarrow> time \<Rightarrow> routeDefinition \<Rightarrow> http_request \<Rightarrow> auth_store \<Rightarrow> RateLimiter
     \<Rightarrow> chain_answer \<times> RateLimiter" where
  "request_chain decode compare now rt req s rl =
     (let auth = Auth_Middleware decode compare now (hq_Path req) (hq_Authorization req) in
      case auth (\<lambda>_ p. Proceed (Some p)) s of
        Proceed caller \<Rightarrow>
          (case RateLimiter_Middleware now (rt_method rt) (adminAPIPrefix @ rt_path rt)
              (case caller of None \<Rightarrow> [] | Some p \<Rightarrow> prn_TenantID p) rl of
             (Some status, rl') \<Rightarrow> (Stop status CodeRateLimited, rl')
           | (None, rl') \<Rightarrow>
               (case limitRequestBody (hq_Body req) of
                  Some (status, code) \<Rightarrow> (Stop status code, rl')
                | None \<Rightarrow>
                    (case guardFor rt of
                       None \<Rightarrow> (Handle caller, rl')
                     | Some guard \<Rightarrow>
                         (if caller = None then Stop 500 CodeInternal else stopped (auth (guard (hq_Param req)) s), rl'))))
      | a \<Rightarrow> (stopped a, rl))"

subsection \<open>Every route is guarded\<close>

lemma routes_guarded: "rt \<in> set adminAPIRoutes \<Longrightarrow> rt_permission rt \<noteq> [] \<and> IsKnownAction (rt_permission rt)"
proof -
  have "list_all (\<lambda>rt. rt_permission rt \<noteq> [] \<and> IsKnownAction (rt_permission rt)) adminAPIRoutes" by code_simp
  then show "rt \<in> set adminAPIRoutes \<Longrightarrow> rt_permission rt \<noteq> [] \<and> IsKnownAction (rt_permission rt)" by (simp add: list_all_iff)
qed

text \<open>What a guard decides on: an empty path parameter or group stands for any. The type is the one the action names.\<close>

definition or_any :: "string \<Rightarrow> string" where
  "or_any v = (if v = [] then ''*'' else v)"

lemma resolve_target:
  assumes "resolve res param p = Inr arn"
  shows "case res of
      TenantScoped ty \<Rightarrow> arn_Tenant arn = prn_TenantID p \<and> arn_Type arn = ty \<and> arn_Group arn = or_any (prn_ResourceGroupID p)
        \<and> arn_ID arn = (if param ''id'' \<noteq> [] then param ''id'' else or_any (param ''run_id''))
    | TenantResource \<Rightarrow> arn_Tenant arn = or_any (param ''id'') \<and> arn_Group arn = ''*'' \<and> arn_ID arn = arn_Tenant arn
    | ApiKeyResource \<Rightarrow> arn_Tenant arn = or_any (param ''id'') \<and> arn_Group arn = ''*''
        \<and> arn_ID arn = (if param ''id'' = [] then ''*'' else or_any (param ''key_id''))"
  using assms by (cases res) (auto simp: resolve_def tenantScoped_def tenantResource_def apiKeyResource_def or_any_def Let_def)

definition resolver_type :: "resolver \<Rightarrow> string" where
  "resolver_type res = (case res of TenantScoped ty \<Rightarrow> ty | TenantResource \<Rightarrow> ''tenant'' | ApiKeyResource \<Rightarrow> ''apikey'')"

lemma resolve_type:
  assumes "rt \<in> set adminAPIRoutes" and "resolve (rt_resource rt) param p = Inr arn"
  shows "arn_Type arn = takeWhile (\<lambda>ch. ch \<noteq> CHR '':'') (rt_permission rt)"
proof -
  have "list_all (\<lambda>rt. resolver_type (rt_resource rt) = takeWhile (\<lambda>ch. ch \<noteq> CHR '':'') (rt_permission rt)) adminAPIRoutes" by code_simp
  then have "resolver_type (rt_resource rt) = takeWhile (\<lambda>ch. ch \<noteq> CHR '':'') (rt_permission rt)" using assms(1) by (simp add: list_all_iff)
  moreover have "arn_Type arn = resolver_type (rt_resource rt)" using assms(2)
    by (cases "rt_resource rt") (auto simp: resolve_def resolver_type_def tenantScoped_def tenantResource_def apiKeyResource_def Let_def)
  ultimately show ?thesis by simp
qed

lemma routes_distinct: "distinct (map (\<lambda>rt. (rt_method rt, rt_path rt)) adminAPIRoutes)"
  by code_simp

text \<open>A request that reaches a handler carries a live key whose documents allow the route's action on the route's target.\<close>

lemma chain_authorized:
  assumes "rt \<in> set adminAPIRoutes" and "request_chain decode compare now rt req s rl = (Handle p, rl')"
  shows "\<exists>k docs arn. k \<in> set (as_keys s) \<and> ak_revoked k = None \<and> \<not> expired now k
    \<and> compare (ak_hash k) (drop 7 (hq_Authorization req)) \<and> p = Some (principalFromRow k)
    \<and> fst (EffectiveDocuments decode (prn_TenantID (principalFromRow k)) (ak_id k) s) = Inr docs
    \<and> resolve (rt_resource rt) (hq_Param req) (principalFromRow k) = Inr arn
    \<and> Evaluate docs \<lparr>req_Action = rt_permission rt, req_Resource = arn\<rparr> = DecisionAllow"
proof -
  have guard: "guardFor rt = Some (\<lambda>param. Require (rt_permission rt) (resolve (rt_resource rt) param))"
    using routes_guarded [OF assms(1)] by (simp add: guardFor_def)
  have auth: "Auth_Middleware decode compare now (hq_Path req) (hq_Authorization req)
      (Require (rt_permission rt) (resolve (rt_resource rt) (hq_Param req))) s = Proceed p" and q: "\<not> isPublicPath (hq_Path req)"
    using assms(2) unfolding request_chain_def guard
    by (auto simp: Let_def Auth_Middleware_def split: answer.splits prod.splits option.splits if_splits sum.splits elim!: stopped.elims)
  then obtain pr docs where pr: "resolveTenant compare now (hq_Authorization req) s = Some pr"
      "fst (EffectiveDocuments decode (prn_TenantID pr) (prn_KeyID pr) s) = Inr docs"
      and req: "Require (rt_permission rt) (resolve (rt_resource rt) (hq_Param req)) docs pr = Proceed p"
    by (auto simp: Auth_Middleware_def split: option.splits sum.splits)
  from pr(1) obtain k where k: "pr = principalFromRow k" "validateAPIKey compare now (drop 7 (hq_Authorization req)) s = Some k"
    by (auto simp: resolveTenant_def split: if_splits)
  from req obtain arn where "resolve (rt_resource rt) (hq_Param req) pr = Inr arn" "p = Some pr"
      "Evaluate docs \<lparr>req_Action = rt_permission rt, req_Resource = arn\<rparr> = DecisionAllow"
    by (auto simp: Require_def split: sum.splits if_splits)
  moreover have "prn_KeyID pr = ak_id k" by (simp add: k principalFromRow_def)
  ultimately show ?thesis using validateAPIKey_row [OF k(2)] k(1) pr(2) by metis
qed

end
