(* ===== verification/Admin_Http_Laws.thy ===== *)
theory Admin_Http_Laws
  imports Admin_Routes
begin

section \<open>Whose data a handler touches\<close>

text \<open>
  A handler acts for a tenant when its answer and its effect depend on the use case only at inputs of that tenant: two use
  cases that agree there cannot be told apart. The rules follow the shape of the handlers, so each handler is one application.
\<close>

named_theorems acting

definition acts_for :: "('i \<Rightarrow> string) \<Rightarrow> string \<Rightarrow> (('i \<Rightarrow> ('s, 'a) io) \<Rightarrow> ('s, 'b) response) \<Rightarrow> bool" where
  "acts_for tenant t h \<longleftrightarrow> (\<forall>uc uc'. (\<forall>i. tenant i = t \<longrightarrow> uc i = uc' i) \<longrightarrow> h uc = h uc')"

lemma acts_refuse [acting]: "acts_for tenant t (\<lambda>uc. refuse status code)"
  by (simp add: acts_for_def)

lemma acts_serve [acting]: "tenant i = t \<Longrightarrow> acts_for tenant t (\<lambda>uc. serve status (uc i))"
  by (simp add: acts_for_def)

lemma acts_bind [acting]:
  assumes "\<And>r. valid r \<Longrightarrow> acts_for tenant t (\<lambda>uc. k uc r)"
  shows "acts_for tenant t (\<lambda>uc. ShouldBind valid d (k uc))"
  using assms unfolding acts_for_def ShouldBind_def by (auto split: decoded.split)

lemma acts_both [acting]:
  assumes "\<And>i q. acts_for tenant t (\<lambda>uc. k uc i q)"
  shows "acts_for tenant t (\<lambda>uc. ShouldBindBoth valid uri d (k uc))"
  using assms unfolding acts_for_def ShouldBindBoth_def ShouldBind_def by (auto split: decoded.split prod.split)

lemma acts_key [acting]:
  assumes "\<And>key. acts_for tenant t (\<lambda>uc. k uc key)"
  shows "acts_for tenant t (\<lambda>uc. with_key c (k uc))"
  using assms unfolding acts_for_def with_key_def by (auto split: sum.split)

text \<open>
  The schema gives a platform key no tenant, so \<open>requireTenantID\<close> refuses it before it looks at the kind, and every other key
  gets its own tenant or a refusal, whatever the request names.
\<close>

definition key_kind_ok :: "KeyRow \<Rightarrow> bool" where
  "key_kind_ok k \<longleftrightarrow> (ak_kind k = ''platform'' \<and> ak_tenant k = None) \<or> (ak_kind k = ''tenant'' \<and> ak_tenant k \<noteq> None)"

lemma requireTenantID_own:
  assumes "key_kind_ok k" and "requireTenantID (authenticated (principalFromRow k) docs key) r = Some t"
  shows "t = prn_TenantID (principalFromRow k)"
  using assms
  by (auto simp: requireTenantID_def ResolveTenantID_def authenticated_def IsPlatform_def KindPlatform_def key_kind_ok_def
      principalFromRow_def split: if_splits option.splits)

lemma platform_refused:
  assumes "key_kind_ok k" and "ak_kind k = ''platform''"
  shows "with_tenant (authenticated (principalFromRow k) docs key) r f = refuse 403 CodeForbidden"
  using assms by (auto simp: with_tenant_def requireTenantID_def ResolveTenantID_def authenticated_def principalFromRow_def key_kind_ok_def)

lemma acts_tenant [acting]:
  assumes "key_kind_ok k"
    and "acts_for tenant (prn_TenantID (principalFromRow k)) (\<lambda>uc. f uc (prn_TenantID (principalFromRow k)))"
  shows "acts_for tenant (prn_TenantID (principalFromRow k)) (\<lambda>uc. with_tenant (authenticated (principalFromRow k) docs key) r (f uc))"
  using assms(2) requireTenantID_own [OF assms(1), of docs key r] unfolding acts_for_def with_tenant_def
  by (auto split: option.split)

lemma acts_pair [acting]:
  assumes "\<And>a b. r = (a, b) \<Longrightarrow> acts_for tenant t (\<lambda>uc. f uc a b)"
  shows "acts_for tenant t (\<lambda>uc. case r of (a, b) \<Rightarrow> f uc a b)"
  using assms by (cases r) simp

subsection \<open>The handlers\<close>

text \<open>A use case with several arguments is seen through the tuple of them; its first component is the tenant.\<close>

lemma run_handlers_act:
  assumes k: "key_kind_ok k" and t: "t = prn_TenantID (principalFromRow k)" and c: "c = authenticated (principalFromRow k) docs key"
  shows "acts_for li_TenantID t (\<lambda>uc. Handler_ListJobs uc c pg)"
    and "acts_for gt_TenantID t (\<lambda>uc. Handler_GetJob uc c uri q)"
    and "acts_for tr_TenantID t (\<lambda>uc. Handler_TriggerJob uc c uri)"
    and "acts_for li_TenantID t (\<lambda>uc. Handler_ListInstances uc c inst)"
    and "acts_for gt_TenantID t (\<lambda>uc. Handler_GetInstance uc c uri)"
    and "acts_for gt_TenantID t (\<lambda>uc. Handler_CancelInstance uc c uri)"
    and "acts_for gt_TenantID t (\<lambda>uc. Handler_ListAttempts uc c uri)"
  unfolding t c Handler_ListJobs_def Handler_GetJob_def Handler_TriggerJob_def Handler_ListInstances_def
    Handler_GetInstance_def Handler_CancelInstance_def Handler_ListAttempts_def
  by (intro acting k; simp)+

lemma check_handlers_act:
  assumes k: "key_kind_ok k" and t: "t = prn_TenantID (principalFromRow k)" and c: "c = authenticated (principalFromRow k) docs key"
  shows "acts_for cki_TenantID t (\<lambda>uc. Handler_CreateCheck uc c new)"
    and "acts_for lci_TenantID t (\<lambda>uc. Handler_ListChecks uc c checks)"
    and "acts_for fst t (\<lambda>uc. Handler_GetCheck (\<lambda>t g i. uc (t, g, i)) c uri q)"
    and "acts_for cg_TenantID t (\<lambda>uc. Handler_DeleteCheck uc c uri version)"
    and "acts_for lki_TenantID t (\<lambda>uc. Handler_ListCheckRuns uc c runs)"
    and "acts_for fst t (\<lambda>uc. Handler_GetCheckRun (\<lambda>t i. uc (t, i)) c uri)"
  unfolding t c Handler_CreateCheck_def Handler_ListChecks_def Handler_GetCheck_def Handler_DeleteCheck_def
    Handler_ListCheckRuns_def Handler_GetCheckRun_def
  by (intro acting k; simp)+

lemma level_handlers_act:
  assumes k: "key_kind_ok k" and t: "t = prn_TenantID (principalFromRow k)" and c: "c = authenticated (principalFromRow k) docs key"
  shows "acts_for fst t (\<lambda>uc. Handler_CreateSLI (\<lambda>t i. uc (t, i)) c sli)"
    and "acts_for fst t (\<lambda>uc. Handler_ListSLIs (\<lambda>t g l o'. uc (t, g, l, o')) c pg)"
    and "acts_for fst t (\<lambda>uc. Handler_GetSLI (\<lambda>t g i. uc (t, g, i)) c uri)"
    and "acts_for cg_TenantID t (\<lambda>uc. Handler_DeleteSLI uc c uri version)"
    and "acts_for fst t (\<lambda>uc. Handler_ListSLOs (\<lambda>t g l o'. uc (t, g, l, o')) c pg)"
    and "acts_for fst t (\<lambda>uc. Handler_GetSLO (\<lambda>t g i. uc (t, g, i)) c uri)"
    and "acts_for cg_TenantID t (\<lambda>uc. Handler_DeleteSLO uc c uri version)"
    and "acts_for fst t (\<lambda>uc. Handler_GetSLOBudget (\<lambda>t i. uc (t, i)) c uri)"
    and "acts_for fst t (\<lambda>uc. Handler_ListSLOBudgets (\<lambda>t i l o'. uc (t, i, l, o')) c uri pg)"
    and "acts_for fst t (\<lambda>uc. Handler_GetSLOAlert (\<lambda>t i. uc (t, i)) c uri)"
    and "acts_for fst t (\<lambda>uc. Handler_ListSLOAlerts (\<lambda>t s st l o'. uc (t, s, st, l, o')) c alerts)"
  unfolding t c Handler_CreateSLI_def Handler_ListSLIs_def Handler_GetSLI_def Handler_DeleteSLI_def Handler_ListSLOs_def
    Handler_GetSLO_def Handler_DeleteSLO_def Handler_GetSLOBudget_def Handler_ListSLOBudgets_def Handler_GetSLOAlert_def
    Handler_ListSLOAlerts_def
  by (intro acting k; simp)+

lemma objective_handlers_act:
  assumes k: "key_kind_ok k" and t: "t = prn_TenantID (principalFromRow k)" and c: "c = authenticated (principalFromRow k) docs key"
  shows "acts_for fst t (\<lambda>uc. Handler_CreateSLO pd (\<lambda>t i. uc (t, i)) c slo)"
    and "acts_for cg_TenantID t (\<lambda>uc. Handler_PauseSLO uc uc c uri version)"
    and "acts_for cg_TenantID t (\<lambda>uc. Handler_ResumeSLO uc uc c uri version)"
proof -
  show "acts_for fst t (\<lambda>uc. Handler_CreateSLO pd (\<lambda>t i. uc (t, i)) c slo)"
    unfolding t c Handler_CreateSLO_def
  proof (rule acts_bind)
    fix r show "acts_for fst (prn_TenantID (principalFromRow k)) (\<lambda>uc. case SLO_ToCreateInput pd r of
        Inl _ \<Rightarrow> refuse 400 (toBindAPIError False)
      | Inr inp \<Rightarrow> with_tenant (authenticated (principalFromRow k) docs key) [] (\<lambda>tenantID.
          serve StatusCreated (uc (tenantID, inp\<lparr>soi_ResourceGroupID := groupFrom (authenticated (principalFromRow k) docs key)\<rparr>))))"
      by (cases "SLO_ToCreateInput pd r") (simp_all, (intro acting k; simp)+)
  qed
  show "acts_for cg_TenantID t (\<lambda>uc. Handler_PauseSLO uc uc c uri version)"
    and "acts_for cg_TenantID t (\<lambda>uc. Handler_ResumeSLO uc uc c uri version)"
    unfolding t c Handler_PauseSLO_def Handler_ResumeSLO_def changeSLOStatus_def Let_def
    by (simp_all, (intro acting k; simp)+)
qed

lemma access_handlers_act:
  assumes k: "key_kind_ok k" and t: "t = prn_TenantID (principalFromRow k)" and c: "c = authenticated (principalFromRow k) docs key"
  shows "acts_for fst t (\<lambda>uc. Handler_ListTenants (\<lambda>t l o'. uc (t, l, o')) c pg)"
    and "acts_for fst t (\<lambda>uc. Handler_GetTenant (\<lambda>t i. uc (t, i)) c sid)"
    and "acts_for fst t (\<lambda>uc. Handler_RevokeAPIKey (\<lambda>t i a. uc (t, i, a)) admin c sid)"
    and "acts_for pci_TenantID t (\<lambda>uc. Handler_CreatePolicy uc c pol)"
    and "acts_for id t (\<lambda>uc. Handler_ListPolicies uc c)"
    and "acts_for fst t (\<lambda>uc. Handler_GetPolicy (\<lambda>t i. uc (t, i)) c sid)"
    and "acts_for fst t (\<lambda>uc. Handler_DeletePolicy (\<lambda>t i a. uc (t, i, a)) c sid)"
    and "acts_for rg_TenantID t (\<lambda>uc. Handler_CreateResourceGroup uc c grp)"
    and "acts_for id t (\<lambda>uc. Handler_ListResourceGroups uc c)"
proof -
  show "acts_for fst t (\<lambda>uc. Handler_RevokeAPIKey (\<lambda>t i a. uc (t, i, a)) admin c sid)"
    unfolding t c Handler_RevokeAPIKey_def
    by (intro acting k) (simp add: acts_for_def)
qed (unfold t c Handler_ListTenants_def Handler_GetTenant_def Handler_CreatePolicy_def Handler_ListPolicies_def
    Handler_GetPolicy_def Handler_DeletePolicy_def Handler_CreateResourceGroup_def Handler_ListResourceGroups_def,
    (intro acting k; simp)+)

lemma function_handlers_act:
  assumes k: "key_kind_ok k" and t: "t = prn_TenantID (principalFromRow k)" and c: "c = authenticated (principalFromRow k) docs key"
  shows "acts_for fst t (\<lambda>uc. Handler_ListFunctions (\<lambda>t g l o'. uc (t, g, l, o')) c pg)"
    and "acts_for fg_TenantID t (\<lambda>uc. Handler_GetFunction uc c uri q)"
    and "acts_for iv_TenantID t (\<lambda>uc. Handler_InvokeFunction uc c uri wait)"
    and "acts_for (fg_TenantID \<circ> fst) t (\<lambda>uc. Handler_ListFunctionRuns (\<lambda>i l. uc (i, l)) c uri fruns)"
    and "acts_for (fg_TenantID \<circ> fst) t (\<lambda>uc. Handler_GetFunctionRun (\<lambda>i r. uc (i, r)) c frun)"
    and "acts_for fst t (\<lambda>uc. Handler_ListWorkflows (\<lambda>t g l o'. uc (t, g, l, o')) c pg)"
    and "acts_for wg_TenantID t (\<lambda>uc. Handler_GetWorkflow uc c uri q)"
    and "acts_for wti_TenantID t (\<lambda>uc. Handler_TriggerWorkflow uc c uri)"
    and "acts_for (wg_TenantID \<circ> fst) t (\<lambda>uc. Handler_ListWorkflowRuns (\<lambda>i l o'. uc (i, l, o')) c uri wpg)"
    and "acts_for (wg_TenantID \<circ> fst) t (\<lambda>uc. Handler_GetWorkflowRun (\<lambda>i r. uc (i, r)) c wrun)"
    and "acts_for (wg_TenantID \<circ> fst) t (\<lambda>uc. Handler_CancelWorkflowRun (\<lambda>i r. uc (i, r)) c wrun)"
  unfolding t c Handler_ListFunctions_def Handler_GetFunction_def Handler_InvokeFunction_def Handler_ListFunctionRuns_def
    Handler_GetFunctionRun_def Handler_ListWorkflows_def Handler_GetWorkflow_def Handler_TriggerWorkflow_def
    Handler_ListWorkflowRuns_def Handler_GetWorkflowRun_def Handler_CancelWorkflowRun_def
  by (intro acting k; simp)+

end
