(* ===== verification/Admin_Access.thy ===== *)
theory Admin_Access
  imports Admin_Http "HOL-Library.List_Lexorder" "HOL-Library.Char_ord" "HOL-Library.Product_Lexorder"
begin

section \<open>Tenants, resource groups and the lists of access control\<close>

text \<open>
  \<open>internal/core/domain/tenant\<close>, \<open>internal/core/domain/resourcegroup\<close>, the use cases under \<open>internal/admin/app/tenant\<close>, \<open>resourcegroup\<close>, \<open>policy/query\<close> and
  \<open>apikey/query\<close>, and their repositories. The access-control tables of \<open>Api_Keys\<close> see of a tenant its id and status and of a group its id
  and tenant; here the two tables have their remaining columns.
\<close>

record Tenant =
  tn_ID :: string
  tn_Slug :: string
  tn_Name :: string
  tn_Status :: string
  tn_CreatedAt :: time

record Group =
  gr_ID :: string
  gr_TenantID :: string
  gr_Slug :: string
  gr_Name :: string

record directory =
  di_tenants :: "Tenant list"
  di_groups :: "Group list"
  di_auth :: auth_store

definition auth_view :: "directory \<Rightarrow> auth_store" where
  "auth_view d = (di_auth d)\<lparr>as_tenants := map (\<lambda>t. (tn_ID t, tn_Status t)) (di_tenants d),
     as_groups := map (\<lambda>g. (gr_ID g, gr_TenantID g)) (di_groups d)\<rparr>"

subsection \<open>Tenants\<close>

definition NormalizeCreateTenant :: "string \<Rightarrow> string \<Rightarrow> (string \<times> string) result" where
  "NormalizeCreateTenant rawSlug rawName =
     (let slug = TrimSpace rawSlug; name = TrimSpace rawName in
      if slug = [] then Inl (ValidationError ''slug'')
      else if length slug > 64 then Inl (ValidationError ''slug'')
      else if name = [] then Inl (ValidationError ''name'')
      else if length name > 128 then Inl (ValidationError ''name'')
      else Inr (slug, name))"

definition Tenant_Validate :: "Tenant \<Rightarrow> unit result" where
  "Tenant_Validate t =
     (if tn_Slug t = [] then Inl (ValidationError ''slug'')
      else if tn_Name t = [] then Inl (ValidationError ''name'')
      else if tn_Status t \<noteq> [] \<and> tn_Status t \<noteq> ''active'' \<and> tn_Status t \<noteq> ''suspended'' then Inl (ValidationError ''status'')
      else Inr ())"

text \<open>The insert with the constraints of the table; the two unique ones share the answer.\<close>

definition TenantRepository_Create :: "time \<Rightarrow> Tenant \<Rightarrow> (directory, unit) io" where
  "TenantRepository_Create now t = transaction (\<lambda>d.
     if tn_Slug t = [] \<or> tn_Name t = [] \<or> tn_Status t \<notin> {''active'', ''suspended''} \<or> rune_count (tn_Slug t) > 64 \<or> rune_count (tn_Name t) > 128
       then (Inl (Wrapf ''insert tenant'' (DbError ''check constraint'')), d)
     else if \<exists>r \<in> set (di_tenants d). tn_Slug r = tn_Slug t \<or> tn_ID r = tn_ID t then (Inl (ConflictError ''tenant''), d)
     else (Inr (), d\<lparr>di_tenants := di_tenants d @ [t\<lparr>tn_CreatedAt := now\<rparr>]\<rparr>))"

definition CreateTenant :: "time \<Rightarrow> string \<Rightarrow> TenantCreateInput \<Rightarrow> (directory, Tenant) io" where
  "CreateTenant now newID inp =
     io_bind (io_lift (NormalizeCreateTenant (tc_Slug inp) (tc_Name inp))) (\<lambda>(slug, name).
     let t = \<lparr>tn_ID = newID, tn_Slug = slug, tn_Name = name, tn_Status = (if tc_Status inp = [] then ''active'' else tc_Status inp), tn_CreatedAt = 0\<rparr> in
     io_bind (io_lift (Tenant_Validate t)) (\<lambda>_.
     io_bind (io_wrap ''create tenant'' (TenantRepository_Create now t)) (\<lambda>_. io_return t)))"

text \<open>Row security leaves a tenant its own row.\<close>

definition TenantRepository_List :: "string \<Rightarrow> int \<Rightarrow> int \<Rightarrow> (directory, Tenant list) io" where
  "TenantRepository_List tenantID limit offset = transaction (io_read (\<lambda>d.
     take (nat limit) (drop (nat offset) (sort_key (\<lambda>t. - tn_CreatedAt t) (filter (\<lambda>t. tn_ID t = tenantID) (di_tenants d))))))"

definition ListTenants :: "string \<Rightarrow> int \<Rightarrow> int \<Rightarrow> (directory, Tenant list) io" where
  "ListTenants tenantID limit offset = TenantRepository_List tenantID (query_limit limit) (if offset < 0 then 0 else offset)"

definition TenantRepository_Get :: "string \<Rightarrow> string \<Rightarrow> (directory, Tenant) io" where
  "TenantRepository_Get tenantID i = transaction
     (io_bind (io_read (\<lambda>d. find (\<lambda>t. tn_ID t = i \<and> tn_ID t = tenantID) (di_tenants d))) (\<lambda>found.
      case found of None \<Rightarrow> io_fail (NotFoundError ''tenant'') | Some t \<Rightarrow> io_return t))"

subsection \<open>Resource groups\<close>

text \<open>
  \<open>strings.ToLower\<close> as far as the slug pattern can tell: ASCII letters, and the two characters outside ASCII whose lower case is
  ASCII, the Kelvin sign and the dotted capital I. Any other character stays outside ASCII and the pattern refuses it.
\<close>

fun ToLower :: "string \<Rightarrow> string" where
  "ToLower [] = []"
| "ToLower (a # b # c # s) =
     (if of_char a = (226::nat) \<and> of_char b = (132::nat) \<and> of_char c = (170::nat) then CHR ''k'' # ToLower s
      else if of_char a = (196::nat) \<and> of_char b = (176::nat) then CHR ''i'' # ToLower (c # s)
      else (if 65 \<le> (of_char a :: nat) \<and> (of_char a :: nat) \<le> 90 then char_of ((of_char a :: nat) + 32) else a) # ToLower (b # c # s))"
| "ToLower (a # s) =
     (if of_char a = (196::nat) \<and> s = [char_of (176::nat)] then ''i''
      else (if 65 \<le> (of_char a :: nat) \<and> (of_char a :: nat) \<le> 90 then char_of ((of_char a :: nat) + 32) else a) # ToLower s)"

definition slug_char :: "char \<Rightarrow> bool" where
  "slug_char c \<longleftrightarrow> 97 \<le> (of_char c :: nat) \<and> (of_char c :: nat) \<le> 122 \<or> is_digit c"

definition slugPattern :: "string \<Rightarrow> bool" where
  "slugPattern s = (case s of [] \<Rightarrow> False | c # cs \<Rightarrow> slug_char c \<and> list_all (\<lambda>x. slug_char x \<or> x = CHR ''-'') cs \<and> length cs \<le> 62)"

definition Group_New :: "string \<Rightarrow> string \<Rightarrow> string \<Rightarrow> string \<Rightarrow> Group result" where
  "Group_New i tenantID rawSlug rawName =
     (let slug = ToLower (TrimSpace rawSlug); name = TrimSpace rawName in
      if \<not> slugPattern slug then Inl (ValidationError ''slug'')
      else if name = [] then Inl (ValidationError ''name'')
      else if length name > 128 then Inl (ValidationError ''name'')
      else Inr \<lparr>gr_ID = i, gr_TenantID = tenantID, gr_Slug = slug, gr_Name = name\<rparr>)"

definition ResourceGroupRepository_Create :: "Group \<Rightarrow> AuditEvent \<Rightarrow> (directory, unit) io" where
  "ResourceGroupRepository_Create g ev = transaction (\<lambda>d.
     if gr_Slug g = [] \<or> rune_count (gr_Slug g) > 64 \<or> rune_count (gr_Name g) > 128
       then (Inl (Wrapf ''insert resource group'' (DbError ''check constraint'')), d)
     else if gr_TenantID g \<notin> tn_ID ` set (di_tenants d) then (Inl (Wrapf ''insert resource group'' (DbError ''foreign key'')), d)
     else if \<exists>r \<in> set (di_groups d). gr_ID r = gr_ID g \<or> gr_TenantID r = gr_TenantID g \<and> gr_Slug r = gr_Slug g
       then (Inl (ConflictError ''resource_group''), d)
     else case insertAuditEvent ev (auth_view d) of
         (Inl e, _) \<Rightarrow> (Inl e, d)
       | (Inr _, s) \<Rightarrow> (Inr (), d\<lparr>di_groups := di_groups d @ [g], di_auth := s\<rparr>))"

definition CreateResourceGroup :: "string \<Rightarrow> GroupCreateInput \<Rightarrow> (directory, Group) io" where
  "CreateResourceGroup newID inp =
     io_bind (io_lift (Group_New newID (rg_TenantID inp) (rg_Slug inp) (rg_Name inp))) (\<lambda>g.
     io_bind (ResourceGroupRepository_Create g
       \<lparr>ev_TenantID = rg_TenantID inp, ev_ActorID = rg_ActorID inp, ev_EventType = ''create'', ev_ResourceType = ''resource_group'',
        ev_ResourceID = gr_ID g, ev_Diff = GroupDiff (gr_Slug g) (gr_Name g)\<rparr>) (\<lambda>_. io_return g))"

definition ListResourceGroups :: "string \<Rightarrow> (directory, Group list) io" where
  "ListResourceGroups tenantID = transaction (io_read (\<lambda>d. sort_key gr_Slug (filter (\<lambda>g. gr_TenantID g = tenantID) (di_groups d))))"

subsection \<open>Lists of policies and keys\<close>

fun parse_policies :: "(string \<Rightarrow> Document result) \<Rightarrow> string \<Rightarrow> PolicyRow list \<Rightarrow> PolicyRecord list result" where
  "parse_policies decode tenantID [] = Inr []"
| "parse_policies decode tenantID (p # ps) =
     rbind (policy_record decode tenantID p) (\<lambda>rec. rbind (parse_policies decode tenantID ps) (\<lambda>recs. Inr (rec # recs)))"

definition PolicyRepository_List :: "(string \<Rightarrow> Document result) \<Rightarrow> string \<Rightarrow> (auth_store, PolicyRecord list) io" where
  "PolicyRepository_List decode tenantID = admin_tx
     (io_bind (auth_get (\<lambda>s. sort_key (\<lambda>p. (pol_tenant p \<noteq> None, pol_name p)) (filter (visible tenantID) (as_policies s))))
       (\<lambda>rows. io_lift (parse_policies decode tenantID rows)))"

definition ListPolicies :: "(string \<Rightarrow> Document result) \<Rightarrow> string \<Rightarrow> (auth_store, (PolicyRecord \<times> bool) list) io" where
  "ListPolicies decode tenantID =
     io_bind (PolicyRepository_List decode tenantID) (\<lambda>recs. io_return (map (\<lambda>rec. (rec, IsPlatformPreset rec)) recs))"

definition GetPolicy :: "(string \<Rightarrow> Document result) \<Rightarrow> string \<Rightarrow> string \<Rightarrow> (auth_store, PolicyRecord \<times> bool) io" where
  "GetPolicy decode tenantID i = io_bind (Policy_Get decode tenantID i) (\<lambda>rec. io_return (rec, IsPlatformPreset rec))"

definition ListAPIKeys :: "string \<Rightarrow> (auth_store, (string \<times> string \<times> time \<times> time option) list) io" where
  "ListAPIKeys tenantID = io_bind (APIKey_ListByTenant tenantID)
     (\<lambda>ks. io_return (map (\<lambda>k. (ak_id k, ak_prefix k, ak_created_at k, ak_revoked k)) ks))"

subsection \<open>What creation keeps\<close>

definition directory_wf :: "directory \<Rightarrow> bool" where
  "directory_wf d \<longleftrightarrow> distinct (map tn_ID (di_tenants d)) \<and> distinct (map tn_Slug (di_tenants d)) \<and> distinct (map gr_ID (di_groups d))
     \<and> distinct (map (\<lambda>g. (gr_TenantID g, gr_Slug g)) (di_groups d)) \<and> gr_TenantID ` set (di_groups d) \<subseteq> tn_ID ` set (di_tenants d)
     \<and> list_all (slugPattern \<circ> gr_Slug) (di_groups d)"

lemma CreateTenant_wf: "io_keeps (\<lambda>d d'. directory_wf d \<longrightarrow> directory_wf d') (CreateTenant now i inp)"
  by (auto simp: io_keeps_def CreateTenant_def TenantRepository_Create_def Let_def io_simps directory_wf_def
      split: sum.splits prod.splits if_splits)

lemma Group_New_ok: "Group_New i t s n = Inr g \<Longrightarrow> gr_ID g = i \<and> gr_TenantID g = t \<and> slugPattern (gr_Slug g)"
  by (auto simp: Group_New_def Let_def split: if_splits)

lemma Group_Create_ok:
  assumes "ResourceGroupRepository_Create g ev d = (Inr u, d')"
  shows "di_groups d' = di_groups d @ [g]" and "di_tenants d' = di_tenants d" and "gr_TenantID g \<in> tn_ID ` set (di_tenants d)"
    and "gr_ID g \<notin> gr_ID ` set (di_groups d)" and "(gr_TenantID g, gr_Slug g) \<notin> (\<lambda>r. (gr_TenantID r, gr_Slug r)) ` set (di_groups d)"
  using assms by (auto simp: ResourceGroupRepository_Create_def io_simps split: if_splits prod.splits sum.splits)

lemma CreateResourceGroup_ok:
  assumes "CreateResourceGroup i inp d = (Inr g, d')"
  shows "Group_New i (rg_TenantID inp) (rg_Slug inp) (rg_Name inp) = Inr g"
    and "\<exists>ev. ResourceGroupRepository_Create g ev d = (Inr (), d')"
  using assms by (auto simp: CreateResourceGroup_def io_simps split: sum.splits prod.splits)

lemma CreateResourceGroup_wf: "io_keeps (\<lambda>d d'. directory_wf d \<longrightarrow> directory_wf d') (CreateResourceGroup i inp)"
  unfolding io_keeps_def
proof (intro allI impI)
  fix d assume wf: "directory_wf d"
  obtain r d' where res: "CreateResourceGroup i inp d = (r, d')" by fastforce
  show "directory_wf (snd (CreateResourceGroup i inp d))"
  proof (cases r)
    case (Inl e)
    then have "d' = d" using res
      by (auto simp: CreateResourceGroup_def io_simps split: sum.splits prod.splits dest: tx_atomic [of _ _ _ d'])
         (auto simp: ResourceGroupRepository_Create_def dest: tx_atomic)
    with res wf show ?thesis by simp
  next
    case (Inr g)
    with res have ok: "CreateResourceGroup i inp d = (Inr g, d')" by simp
    obtain ev where "ResourceGroupRepository_Create g ev d = (Inr (), d')" using CreateResourceGroup_ok(2) [OF ok] by blast
    from Group_Create_ok [OF this] Group_New_ok [OF CreateResourceGroup_ok(1) [OF ok]] wf
    show ?thesis by (auto simp: res directory_wf_def)
  qed
qed

text \<open>A created group can at once scope a key, and its slug is one segment of a resource name.\<close>

lemma created_group_exists:
  assumes "CreateResourceGroup i inp d = (Inr g, d')"
  shows "ResourceGroup_Exists (rg_TenantID inp) i (auth_view d') = (Inr True, auth_view d')"
proof -
  obtain ev where "ResourceGroupRepository_Create g ev d = (Inr (), d')" using CreateResourceGroup_ok(2) [OF assms] by blast
  from Group_Create_ok(1) [OF this] Group_New_ok [OF CreateResourceGroup_ok(1) [OF assms]]
  show ?thesis by (auto simp: ResourceGroup_Exists_def admin_tx_eq auth_get_def auth_view_def)
qed

lemma slug_segment: "slugPattern s \<Longrightarrow> CHR '':'' \<notin> set s \<and> CHR ''/'' \<notin> set s \<and> CHR ''*'' \<notin> set s"
  by (auto simp: slugPattern_def slug_char_def is_digit_def list_all_iff split: list.splits)

end
