(* ===== verification/Service_Samples.thy ===== *)
theory Service_Samples
  imports Samples Slo_Alerts Monitor_History Admin_Monitor Function_Queries Admin_Http_Laws Admin_Access
begin

section \<open>A concrete installation of the services\<close>

text \<open>
  One check that is due, one indicator and one objective on its runs, one function with its revision, and an API server that keeps the objects it was
  given: the states at which the properties of the services are instantiated.
\<close>

subsection \<open>Checks, indicators and objectives\<close>

definition sample_libs :: Libs where
  "sample_libs = \<lparr>lb_url = (\<lambda>_. Inr (''http'', ''h'')), lb_zone = (\<lambda>_. True), lb_cron = (\<lambda>_. Inr (\<lambda>_ t. t + minute_ns))\<rparr>"

definition sample_tenant :: string where "sample_tenant = ''tttttttttttttttttttttttttt''"

definition sample_check_input :: CheckCreateInput where
  "sample_check_input = \<lparr>cki_Name = ''n'', cki_Description = None, cki_TenantID = sample_tenant, cki_ResourceGroupID = [],
     cki_CheckType = ''http_health'', cki_CheckConfig = Some [(''url'', AStr ''http://h'')], cki_AssertionRules = [],
     cki_ScheduleType = ''interval'', cki_CronExpr = None, cki_IntervalSec = Some 60, cki_Timezone = [], cki_TimeoutSec = 0,
     cki_RetryLimit = 0, cki_Priority = 0, cki_Labels = None\<rparr>"

definition sample_check_spec :: CheckCreateSpec where
  "sample_check_spec = (case Check_NormalizeCreate sample_libs 7 sample_check_input of Inr spec \<Rightarrow> spec)"

definition sample_check :: CheckSnapshot where
  "sample_check = \<lparr>ck_ID = 1, ck_Name = ''n'', ck_Description = None, ck_TenantID = ''t'', ck_ResourceGroupID = [], ck_Status = ''active'',
     ck_CheckType = ''http_health'', ck_CheckConfig = [(''url'', AStr ''http://h'')], ck_AssertionRules = [], ck_ScheduleType = ''interval'',
     ck_CronExpr = None, ck_IntervalSec = Some 60, ck_Timezone = ''UTC'', ck_TimeoutSec = 30, ck_RetryLimit = 2, ck_Priority = 5,
     ck_Labels = [], ck_NextRunAt = Some 5, ck_Version = 1, ck_CreatedAt = 1, ck_UpdatedAt = 1\<rparr>"

definition sample_sli :: SLISnapshot where
  "sample_sli = \<lparr>si_ID = 1, si_TenantID = ''t'', si_Name = ''s'', si_Description = None, si_SLIType = ''availability'', si_SourceType = ''job_run'',
     si_SourceConfig = [(''source_uid'', AStr ''u'')], si_Aggregation = ''ratio'', si_GoodEventCriteria = [], si_Version = 1,
     si_CreatedAt = 1, si_UpdatedAt = 1\<rparr>"

definition sample_slo :: SLOSnapshot where
  "sample_slo = \<lparr>so_ID = 1, so_TenantID = ''t'', so_Name = ''o'', so_Description = None, so_SLIID = 1, so_Target = 1 / 2,
     so_WindowType = ''rolling'', so_WindowDuration = hour_ns, so_AlertFastBurnRate = 2, so_AlertSlowBurnRate = 1, so_Status = ''active'',
     so_Version = 1, so_CreatedAt = 1, so_UpdatedAt = 1\<rparr>"

definition sample_monitor :: monitor where
  "sample_monitor = (empty_monitor [''t''])\<lparr>mo_checks := [\<lparr>kr_snap = sample_check, kr_deleted = None\<rparr>],
     mo_slis := [\<lparr>lr_snap = sample_sli, lr_group = [], lr_deleted = None\<rparr>],
     mo_slos := [\<lparr>lo_snap = sample_slo, lo_group = [], lo_deleted = None\<rparr>],
     mo_snapshots := [\<lparr>ps_tenant = ''t'', ps_sli = 1, ps_start = 0, ps_end = defaultSnapshotWindow, ps_good = 0, ps_total = 8\<rparr>],
     mo_check_seq := 2, mo_sli_seq := 2, mo_slo_seq := 2\<rparr>"

lemma sample_monitor_wf: "monitor_wf sample_monitor"
  by (simp add: sample_monitor_def empty_monitor_def monitor_wf_def checks_ok_def check_runs_ok_def slis_ok_def slos_ok_def snapshots_ok_def
      budgets_ok_def alerts_ok_def check_row_ok_def sample_check_def sample_sli_def sample_slo_def check_constants sli_ids_def slo_ids_def
      snapshot_key_def TrimSpace_def is_space_def)

definition sample_scope :: Scope where "sample_scope = \<lparr>sp_TenantID = ''t'', sp_Namespace = ''n''\<rparr>"

definition sample_tick :: "(KubeJob list) CheckTick" where
  "sample_tick = \<lparr>tk_publisher = sample_cr, tk_rfc3339 = itoa\<rparr>"

definition monitor_world :: "(KubeJob list, monitor) sworld" where
  "monitor_world = \<lparr>sw_world = sample_world, sw_store = sample_monitor\<rparr>"

definition sample_outcome :: TerminalOutcome where
  "sample_outcome = \<lparr>to_RunID = 2, to_SourceUID = ''u'', to_OccurrenceKey = ''f'', to_ScheduledFor = 1, to_Phase = Succeeded,
     to_StartedAt = 2, to_CompletedAt = 3\<rparr>"

subsection \<open>An API server and a function\<close>

definition sample_objects :: "JobRunView list \<Rightarrow> string \<Rightarrow> string \<Rightarrow> JobRunView option" where
  "sample_objects k ns n = find (\<lambda>v. om_Namespace (jo_Meta (jv_Object v)) = ns \<and> om_Name (jo_Meta (jv_Object v)) = n) k"

definition sample_api :: "(JobRunView list) RunAPI" where
  "sample_api = \<lparr>ra_Create = (\<lambda>run k. if sample_objects k (om_Namespace (jo_Meta run)) (om_Name (jo_Meta run)) = None
        then (Inr \<lparr>jv_Object = run, jv_Phase = []\<rparr>, k @ [\<lparr>jv_Object = run, jv_Phase = []\<rparr>]) else (Inl ApiAlreadyExists, k)),
     ra_Get = (\<lambda>ns n k. (case sample_objects k ns n of Some v \<Rightarrow> Inr v | None \<Rightarrow> Inl ApiNotFound, k)),
     ra_Cancel = (\<lambda>ns n k. (if sample_objects k ns n = None then Inl ApiNotFound else Inr (),
        map (\<lambda>v. if om_Namespace (jo_Meta (jv_Object v)) = ns \<and> om_Name (jo_Meta (jv_Object v)) = n
          then v\<lparr>jv_Object := (jv_Object v)\<lparr>jo_Spec := (jo_Spec (jv_Object v))\<lparr>js_CancelRequested := True\<rparr>\<rparr>\<rparr> else v) k))\<rparr>"

lemma find_append_some: "find P (xs @ ys) = (case find P xs of None \<Rightarrow> find P ys | Some x \<Rightarrow> Some x)"
  by (induction xs) simp_all

lemma find_map_same: "(\<And>x. x \<in> set xs \<Longrightarrow> P (f x) = P x \<and> (P x \<longrightarrow> f x = x)) \<Longrightarrow> find P (map f xs) = find P xs"
  by (induction xs) auto

lemma sample_server: "jobrun_server sample_api sample_objects"
  unfolding run_server_def
proof (intro conjI)
  show "server_creates jo_Meta sample_api sample_objects"
    unfolding server_creates_def sample_api_def
    by (auto simp: sample_objects_def find_append_some split: option.splits if_splits)
  show "server_reads sample_api sample_objects"
    by (auto simp: server_reads_def sample_api_def split: option.splits)
  show "server_patches sample_api sample_objects"
    unfolding server_patches_def sample_api_def sample_objects_def by (auto intro!: find_map_same)
  show "server_names (\<lambda>v. jo_Meta (jv_Object v)) sample_objects"
    by (auto simp: server_names_def sample_objects_def dest!: find_SomeD)
qed

definition tenant_ledger :: ledger where
  "tenant_ledger = (empty_ledger [sample_tenant])\<lparr>lg_revisions := [\<lparr>vr_tenant = sample_tenant, vr_rev = sample_revision, vr_active = True\<rparr>],
     lg_runs := [sample_run\<lparr>rn_tenant := sample_tenant, rn_phase := Pending, rn_attempt := 0\<rparr>], lg_rev_seq := 2, lg_run_seq := 2\<rparr>"

lemma tenant_wf: "ledger_wf tenant_ledger"
  by (simp add: tenant_ledger_def empty_ledger_def sample_defs ledger_wf_def revisions_wf_def runs_wf_def attempts_wf_def wruns_wf_def
      one_active_def rev_ids_def run_ids_def wrun_ids_def rev_key_def)

definition api_world :: "(JobRunView list) world" where
  "api_world = \<lparr>w_ledger = tenant_ledger, w_cluster = [], w_tick = 0\<rparr>"

definition sample_trigger :: TriggerInput where
  "sample_trigger = \<lparr>tr_JobID = 1, tr_TenantID = sample_tenant, tr_ActorID = ''a'', tr_IdempotencyKey = ''i'', tr_ResourceGroupID = []\<rparr>"

definition sample_function :: FunctionDefinition where
  "sample_function = \<lparr>fd_ID = 4, fd_TenantID = sample_tenant, fd_ResourceGroupID = [], fd_Name = ''f'', fd_Description = [], fd_Status = ''active'',
     fd_Image = ''m'', fd_Command = [], fd_Args = [], fd_TimeoutSeconds = 60, fd_RetryLimit = 0, fd_HistorySuccess = 1, fd_HistoryFailed = 1,
     fd_Labels = [], fd_Version = 1, fd_CreatedAt = 1, fd_UpdatedAt = 1\<rparr>"

definition sample_functions :: function_db where
  "sample_functions = empty_functions\<lparr>fn_tenants := [sample_tenant], fn_defs := [\<lparr>fw_def = sample_function, fw_deleted = None\<rparr>], fn_def_seq := 5\<rparr>"

definition function_ledger :: ledger where
  "function_ledger = w_ledger (snd (ApplyFunction sample_ext (quiet 7) sample_function ''n'' sample_tenant ActorFunctionSync api_world))"

definition function_world :: "(JobRunView list, function_db) sworld" where
  "function_world = \<lparr>sw_world = \<lparr>w_ledger = function_ledger, w_cluster = [], w_tick = 0\<rparr>, sw_store = sample_functions\<rparr>"

definition sample_invoke :: InvokeInput where
  "sample_invoke = \<lparr>iv_TenantID = sample_tenant, iv_FunctionID = 4, iv_ActorID = ''a'', iv_IdempotencyKey = ''i'', iv_ResourceGroupID = [], iv_WaitSeconds = 0\<rparr>"

text \<open>A clock that advances by a second with every call.\<close>

definition ticking :: env where
  "ticking = \<lparr>en_now = (\<lambda>n. int n * second_ns), en_fault = (\<lambda>_. NoFault), en_other = (\<lambda>_ l. l)\<rparr>"

subsection \<open>A request\<close>

text \<open>The key of the access-control sample reads one job.\<close>

definition job_route :: routeDefinition where
  "job_route = (route ''GET'' ''/jobs/:id'' ''job:Get'' (TenantScoped ''job'') ''GetJob'' [200, 400, 404, 500, 401, 429])"

definition get_job_request :: http_request where
  "get_job_request = \<lparr>hq_Path = ''/api/v1/jobs/j'', hq_Authorization = ''Bearer otj_12345678'', hq_Body = None,
     hq_Param = (\<lambda>n. if n = ''id'' then ''j'' else [])\<rparr>"

lemma get_job_reaches_handler:
  "\<exists>rl'. request_chain sample_decode (\<lambda>_ _. True) 5 job_route get_job_request sample_auth (NewRateLimiter (\<lambda>_. []))
     = (Handle (Some (principalFromRow sample_key)), rl')"
proof -
  let ?auth = "Auth_Middleware sample_decode (\<lambda>_ _. True) 5 (hq_Path get_job_request) (hq_Authorization get_job_request)"
  have auth: "?auth (\<lambda>_ p. Proceed (Some p)) sample_auth = Proceed (Some (principalFromRow sample_key))" by code_simp
  have guard: "?auth (Require ''job:Get'' (resolve (TenantScoped ''job'') (hq_Param get_job_request))) sample_auth
    = Proceed (Some (principalFromRow sample_key))" by code_simp
  have "classifyEndpoint ''GET'' (adminAPIPrefix @ ''/jobs/:id'') = groupRead" by code_simp
  from rested_request_passes [OF this, of "[]" 5 "prn_TenantID (principalFromRow sample_key)" "\<lambda>_. []"]
  obtain rl' where "RateLimiter_Middleware 5 ''GET'' (adminAPIPrefix @ ''/jobs/:id'') (prn_TenantID (principalFromRow sample_key))
      (NewRateLimiter (\<lambda>_. [])) = (None, rl')" by (auto simp: prod_eq_iff)
  with auth guard show ?thesis
    by (auto simp: request_chain_def Let_def limitRequestBody_def guardFor_def get_job_request_def job_route_def route_def)
qed

end
