(* ===== verification/Spec2Isabelle.thy ===== *)
theory Spec2Isabelle
  imports Service_Samples
begin

text \<open>
  OrbitJob is a Kubernetes-native job control plane. Definitions (\<open>ScheduledJob\<close>, \<open>WorkflowJob\<close>, functions) are
  projected into immutable \<^emph>\<open>revisions\<close>; a scheduler, a user or a workflow creates \<^emph>\<open>runs\<close> pinned to a revision; the
  operator starts each run's \<^emph>\<open>attempts\<close> as Kubernetes Jobs, observes them, and records what happened in a PostgreSQL
  ledger that is the only source of truth. Several processes write that ledger concurrently.

  \<^bold>\<open>Layout.\<close> Each theory follows files under \<open>src/\<close>; definitions keep the Go names.

  \<^item> \<open>Orbit_Prelude\<close>, \<open>Go_Strings\<close>: errors and their wrapping, computations that may fail over a state (\<open>io\<close>), instants and
    durations, decimal conversion, \<open>strings.TrimSpace\<close>.
  \<^item> \<open>Job_Run\<close>: \<open>internal/core/domain/jobrun\<close>, phases, the transition table, the attempt budget.
  \<^item> \<open>Workload_Types\<close>: \<open>api/kubernetes/workloads/v1alpha1\<close>, the custom resources and the validation of workflow specs.
  \<^item> \<open>Workflow_Domain\<close>, \<open>Workflow_Dag\<close>, \<open>Workflow_Order\<close>: \<open>internal/core/domain/workflow\<close>, conditions and their meaning, the
    phase roll-up, the depth-first cycle search, Kahn's algorithm, validation.
  \<^item> \<open>Revision_Domain\<close>: \<open>internal/core/domain/revision\<close> and \<open>coordination\<close>, revisions and occurrence keys.
  \<^item> \<open>Ledger\<close>, \<open>Workflow_Ledger\<close>: \<open>internal/core/store/postgres\<close>, the tables as lists of rows in one record \<open>ledger\<close>, every SQL
    statement as a function on it (constraints and partial indexes included), and every repository operation inside
    \<open>WithTenantTransaction\<close>, which rolls back on error. \<open>tenant_transaction\<close> is the same transaction with a failing begin or commit; a
    commit whose outcome the caller never learns is the fault \<open>FailAfter\<close>. The operations are written for the case without a
    fault, and the call of an operation by a process adds the faults (\<open>store_call\<close> below, equal to the transaction with the fault by
    \<open>tenant_transaction_call\<close>). \<open>Ledger_Laws\<close>, \<open>Ledger_Invariant\<close>, \<open>Workflow_Ledger_Laws\<close>, \<open>Ledger_Facts\<close>,
    \<open>Ledger_Behaviour\<close>, \<open>Ledger_History\<close> and \<open>Ledger_Audit\<close> prove the schema invariant \<open>ledger_wf\<close>, the evolution order \<open>ledger_evolves\<close>, atomicity,
    the completeness of the audit trail, tenant framing and the behaviour of each operation; \<open>ledger_step\<close> is the step relation of the store and \<open>history\<close> its
    reachability.
  \<^item> \<open>Execution\<close>: \<open>internal/core/app/execution\<close>, Job names and bodies, ownership, the idempotent Job adapter.
  \<^item> \<open>World\<close>: what a process sees. A \<open>world\<close> is the ledger, an abstract cluster and a tick; before every call to the store the
    environment \<open>env\<close> may let other processes change the ledger, and it may make the call fail before or after its effect. A
    process is thus verified against arbitrary interleaving and crashes at the granularity of store and API calls.
  \<^item> \<open>Projection\<close>: \<open>internal/core/app/projection\<close>. \<open>Reconcile\<close>: \<open>internal/operator/runtime.go\<close>, \<open>job_handler.go\<close>, \<open>cancel.go\<close>,
    \<open>publisher.go\<close>, \<open>tenant.go\<close> and the function hooks of \<open>workflow.go\<close>. \<open>Reconcile_Laws\<close>, \<open>Reconcile_Budget\<close> and \<open>Reconcile_Safety\<close> hold the
    contracts as locales (\<open>operator_store\<close>, \<open>bounded_environment\<close>, \<open>cancel_environment\<close>) with their interpretations.
  \<^item> \<open>Scheduling\<close>, \<open>Scheduling_Laws\<close>: \<open>internal/core/app/controlplane\<close>, the schedule window, misfire and concurrency policies, the
    scheduler's tick, run retention.
  \<^item> \<open>Workflow_Walker\<close>, \<open>Walker_Plan\<close>, \<open>Walker_Laws\<close>: \<open>internal/operator/workflow.go\<close>, \<open>workflow_walker.go\<close>, \<open>workflow_retention.go\<close>; \<open>plan\<close> is
    the pure specification the walker's sweep is proved to implement. \<open>Walker_Starts\<close>: a whole pass read off the run table.
  \<^item> \<open>Go_Split\<close>, \<open>Policy\<close>, \<open>Policy_Laws\<close>: \<open>internal/core/domain/policy\<close>, the decision on a request, what a caller may delegate,
    permission boundaries, tenant documents. \<open>Api_Keys\<close>, \<open>Api_Keys_Laws\<close>: \<open>internal/admin/store/postgres/policy_repository.go\<close> and
    \<open>apikey_repository.go\<close>, the commands under \<open>internal/admin/app/apikey\<close> and \<open>internal/admin/app/policy\<close>, and the authentication and
    authorization middleware; \<open>auth_step\<close> is the step relation of the access-control tables.
  \<^item> \<open>Go_Float\<close>, \<open>Go_Json\<close>, \<open>Go_Calendar\<close>: float64 as the rational nearest to the exact result, ties to even (overflow to infinity is
    outside the range of every value computed here); decoded JSON values and the number conversions of Go; days, months, quarters.
  \<^item> \<open>Service_World\<close>, \<open>Service_Hoare\<close>: the world of the services beside the ledger (their own tables as a state parameter), and
    the rules for proving a postcondition of a process call by call under interference.
  \<^item> \<open>Check_Domain\<close>, \<open>Slo_Domain\<close>: \<open>internal/core/domain/check\<close>, \<open>checkrun\<close>, \<open>sli\<close>, \<open>slo\<close>, admission of checks, indicators and objectives,
    windows, error budget, burn rate. \<open>Monitor_Store\<close>: the repositories of checks, check runs, indicators, objectives, budgets
    and alerts on one record \<open>monitor\<close>; \<open>Monitor_Laws\<close> and \<open>Monitor_History\<close> prove its invariant and the life of a check row.
  \<^item> \<open>Check_Scheduling\<close>, \<open>Check_Firing\<close>: \<open>internal/core/app/checkschedule\<close>. \<open>Check_Observe\<close>: \<open>internal/core/app/checkobserve\<close>.
    \<open>Slo_Evaluate\<close>, \<open>Slo_Alerts\<close>: \<open>internal/core/app/sloevaluate\<close>.
  \<^item> \<open>Function_Store\<close>, \<open>Function_Invoke\<close>, \<open>Function_Invoke_Laws\<close>: \<open>internal/core/store/postgres/function_repository.go\<close>,
    \<open>internal/core/app/functioninvoke\<close> and \<open>functionsync\<close>.
  \<^item> \<open>Run_Commands\<close>, \<open>Run_Command_Laws\<close>, \<open>Workflow_Commands\<close>: manual trigger and cancellation of jobs and workflow runs
    (\<open>internal/admin/app/job\<close>, \<open>internal/admin/app/run\<close>, \<open>internal/admin/kube\<close>, \<open>internal/admin/http/workflow_usecase.go\<close>); what they rely
    on of the API server is the predicate \<open>run_server\<close>.
  \<^item> \<open>Function_Queries\<close>, \<open>Admin_Monitor\<close>: the read models and commands under \<open>internal/admin/app\<close> and \<open>internal/admin/store/postgres\<close>.
  \<^item> \<open>Rate_Limit\<close>: \<open>internal/admin/http/middleware/ratelimit.go\<close>, token buckets on binary64 values and their histories.
  \<^item> \<open>Admin_Http\<close>, \<open>Admin_Http_Laws\<close>: the handlers of \<open>internal/admin/http\<close> with their request types, binding rules, tenant resolution and
    error mapping; a handler is a function of its use case, and \<open>acts_for\<close> says whose data it touches. \<open>Admin_Routes\<close>: the route
    table, the guards and the chain of middleware in front of a handler.
  \<^item> \<open>Admin_Access\<close>: tenants, resource groups, and the lists of policies and keys.
  \<^item> \<open>Samples\<close>, \<open>Service_Samples\<close>: concrete data for the instances below.

  \<^bold>\<open>Parameters.\<close> Code outside the repository is an argument of the model: SHA-256 in hexadecimal (\<open>ex_sha\<close>), the RFC 3339 time
  format (\<open>ex_rfc\<close>), bcrypt and the generators of keys and ids, the JSON encoding of specs and policies and the text PostgreSQL returns for a stored document (\<open>ex_encode\<close>, \<open>ex_decode\<close>,
  \<open>ex_jsonb\<close>), the cron parser, the URL parser, the duration parser and the time zone database, the rounding of a DECIMAL column, the random nonce of an
  unkeyed trigger, and the Kubernetes API as records of calls on an abstract cluster type.
  Log output, metrics, contexts and the counts returned beside an error are not modelled. Loops over lists are structural recursion or
  \<open>fun\<close> with a termination proof (the cycle search, Kahn's queue, the minutes of the schedule window). The one loop with fuel is the
  wait of a function invocation, \<open>awaitTerminalPhase\<close>, which polls until a deadline at most 60 seconds ahead. Its sleep between two
  polls advances every later clock reading by the interval (\<open>after_sleep\<close>), so for a clock that never goes back a fuel of more than
  the wait divided by the interval is enough, which is proved.
  Error values keep their identity and wrapping; their formatted arguments are dropped.

  \<^bold>\<open>What is shown.\<close> The ledger: invariant, finality, no change without an audit row, isolation, idempotence, retention. The operator's processes under
  interference and faults: attempt budget, nothing started unasked, confirmed cancellation, evolution of the ledger. The scheduler: what
  fires, once, and when it is held back. Workflows: cycle search, order, conditions, roll-up, the walker against its plan, only ready tasks started, no stuck
  workflow. Names, identities and quoting. Access control: a key is covered by its creator (and, in the creator's tenant, by its boundary), boundaries narrow, tenant policies stay
  in the tenant, revocation is final. Checks and objectives: the invariant of their tables, admission, one run per due instant, events
  counted once, alerts that follow the burn rate. Triggers, invocations and cancellation: one object per idempotency key, an end to
  every wait, no write on a finished run. The admin API: the rate limit in both directions, no handler reached without an allowing
  key, the handlers confined to the tenant of the key, but for the named exceptions. The last section holds behaviours in which the code departs from its own documentation.

  \<^bold>\<open>Not modelled.\<close> What gin, the validator and encoding/json do when they decode a request (the decoded value is an argument), the
  rendering of answers and error texts, the generation of the OpenAPI document by reflection, leader election (session locks and
  timers around the modelled loops), the informers of the operator, configuration, metrics, logging, migrations, the command-line
  programs and the load-test scripts: input and output around the modelled code.
\<close>

section \<open>The ledger\<close>

text \<open>C1: Every ledger the operations can produce, in any order, by any caller, with any arguments, is
  well formed: identities and occurrence keys are unique, foreign keys resolve, one revision per
  definition is active, counters are in range.\<close>

theorem ledger_reachable_wf:
  assumes "history (empty_ledger tenants) l"
  shows "ledger_wf l"
  using history_wf [OF assms empty_ledger_wf] .

theorem ledger_reachable_wf_witness:
  "ledger_wf (snd (CreateOccurrenceForTenant ''t'' sample_job 3 ''a'' (empty_ledger [''t''])))"
  by (rule ledger_reachable_wf [of "[''t'']"])
     (rule r_into_rtranclp, rule step_CreateOccurrence, rule prod.collapse [symmetric])

text \<open>C2: A run that has finished is never changed again: whatever is called afterwards, as long as its
  row exists it is the same row.\<close>

theorem run_terminal_final:
  assumes "ledger_wf l" and "history l m" and "r \<in> set (lg_runs l)" and "Terminal (rn_phase r)"
    and "s \<in> set (lg_runs m)" and "rn_id s = rn_id r"
  shows "s = r"
  using evolves_run [OF history_evolves [OF assms(2)] assms(1,3,5,6)] assms(4) by (simp add: run_evolves_def)

theorem run_terminal_final_witness:
  "lg_runs (snd (UpdateRunPhase 5 ''t'' 2 Running 2 sample_ledger)) ! 1 = sample_finished"
proof (rule run_terminal_final [OF sample_wf])
  show "history sample_ledger (snd (UpdateRunPhase 5 ''t'' 2 Running 2 sample_ledger))"
    by (rule r_into_rtranclp, rule step_UpdateRunPhase, rule prod.collapse [symmetric])
  show "lg_runs (snd (UpdateRunPhase 5 ''t'' 2 Running 2 sample_ledger)) ! 1
      \<in> set (lg_runs (snd (UpdateRunPhase 5 ''t'' 2 Running 2 sample_ledger)))" by code_simp
  show "rn_id (lg_runs (snd (UpdateRunPhase 5 ''t'' 2 Running 2 sample_ledger)) ! 1) = rn_id sample_finished"
    by code_simp
qed (simp_all add: sample_defs)

text \<open>C3: Two callers that ask for the same occurrence get the same run: the first call creates it, in
  \<open>Pending\<close> with no attempt, with the retry budget it was given and an audit row; every later call
  returns that row and changes nothing.\<close>

theorem occurrence_created_once:
  assumes "ledger_wf l" and "t \<noteq> []" and "t \<in> set (lg_tenants l)" and "creatable run actor rid"
    and "rid \<in> rev_ids (lg_revisions l)"
    and "(jr_SourceUID run, jr_OccurrenceKey run) \<notin> (\<lambda>r. (rn_source_uid r, rn_occurrence_key r)) ` set (lg_runs l)"
  shows "\<exists>row l'. CreateOccurrenceForTenant t run n actor l = (Inr (stored_of row, True), l') \<and>
    lg_runs l' = lg_runs l @ [row] \<and> rn_phase row = Pending \<and> rn_attempt row = 0 \<and>
    rn_max_attempts row = max 1 n \<and> rn_revision_id row = rid \<and>
    length (lg_audit l') = length (lg_audit l) + 1 \<and>
    CreateOccurrenceForTenant t run k actor l' = (Inr (stored_of row, False), l')"
proof -
  have new: "\<forall>row \<in> set (lg_runs l). (rn_source_uid row, rn_occurrence_key row) \<noteq> (jr_SourceUID run, jr_OccurrenceKey run)"
    using assms(6) by force
  obtain row l' where ok: "CreateOccurrenceForTenant t run n actor l = (Inr (stored_of row, True), l')"
      and runs: "lg_runs l' = lg_runs l @ [row]" and au: "length (lg_audit l') = length (lg_audit l) + 1"
      and row: "rn_tenant row = t" "rn_source_uid row = jr_SourceUID run" "rn_occurrence_key row = jr_OccurrenceKey run"
        "rn_revision_id row = rid" "rn_phase row = Pending" "rn_attempt row = 0" "rn_max_attempts row = max 1 n"
    by (rule CreateOccurrence_fresh [OF assms(1-5) new, of n]) metis
  have "wf_kept l l'" using wf_CreateOccurrence ok by (rule io_keepsD')
  then have "ledger_wf l'" using assms(1) by simp
  from CreateOccurrence_existing [OF this assms(2,4), of row k] runs row
  have "CreateOccurrenceForTenant t run k actor l' = (Inr (stored_of row, False), l')" by simp
  with ok runs au row show ?thesis by blast
qed

theorem occurrence_created_once_witness:
  "\<exists>row l'. CreateOccurrenceForTenant ''t'' sample_job 3 ''a'' sample_ledger = (Inr (stored_of row, True), l') \<and>
    lg_runs l' = lg_runs sample_ledger @ [row] \<and> rn_phase row = Pending \<and> rn_attempt row = 0 \<and>
    rn_max_attempts row = max 1 3 \<and> rn_revision_id row = 1 \<and>
    length (lg_audit l') = length (lg_audit sample_ledger) + 1 \<and>
    CreateOccurrenceForTenant ''t'' sample_job 3 ''a'' l' = (Inr (stored_of row, False), l')"
  by (rule occurrence_created_once [OF sample_wf _ _ sample_creatable])
     (simp_all add: sample_defs rev_ids_def sample_job_def JobRun_zero_def)

text \<open>C4: Nothing changes silently: as long as a history of calls adds no audit row, whatever they were and whichever of them
  failed, it changed no run, created, activated or retired no revision, moved no workflow run to another phase and neither
  added nor moved an attempt. (The resource version of an observed Job, and the decisions recorded while a workflow run stays in
  its phase, are written without an audit row.)\<close>

theorem no_silent_change:
  assumes "ledger_wf l" and "history l m" and "lg_audit m = lg_audit l"
  shows "lg_runs m = lg_runs l \<and> lg_revisions m = lg_revisions l \<and>
    map (\<lambda>w. (wf_ID w, wf_TenantID w, wf_Phase w)) (lg_wruns m) = map (\<lambda>w. (wf_ID w, wf_TenantID w, wf_Phase w)) (lg_wruns l) \<and>
    map (\<lambda>a. (ta_id a, ta_run a, ta_number a, ta_job_name a, ta_job_uid a, phase_string (ta_phase a))) (lg_attempts m)
      = map (\<lambda>a. (ta_id a, ta_run a, ta_number a, ta_job_name a, ta_job_uid a, phase_string (ta_phase a))) (lg_attempts l)"
  using history_accounted [OF assms(2,1)] assms(3) by (simp add: accounted_def audited_state_def)

theorem no_silent_change_witness:
  "lg_runs (snd (UpdateRunPhase 9 ''t'' 2 Running 1 (snd (DeleteRun ''t'' 1 sample_ledger)))) = lg_runs sample_ledger"
proof -
  let ?l = "snd (DeleteRun ''t'' 1 sample_ledger)" and ?m = "snd (UpdateRunPhase 9 ''t'' 2 Running 1 (snd (DeleteRun ''t'' 1 sample_ledger)))"
  have "ledger_step sample_ledger ?l" by (rule step_DeleteRun, rule prod.collapse [symmetric])
  moreover have "ledger_step ?l ?m" by (rule step_UpdateRunPhase, rule prod.collapse [symmetric])
  ultimately have "history sample_ledger ?m" by (meson r_into_rtranclp rtranclp_trans)
  moreover have "lg_audit ?m = lg_audit sample_ledger" by code_simp
  ultimately show ?thesis using no_silent_change [OF sample_wf] by blast
qed

text \<open>C5: An operation called for one tenant leaves every row of every other tenant as it was: runs,
  attempts, revisions, workflow runs and audit rows.\<close>

theorem ledger_tenant_isolation:
  assumes "ledger_wf l"
  shows "tenant_frame t l (snd (ApplyRevisionForTenant j t rv l)) \<and>
    tenant_frame t l (snd (CreateOccurrenceForTenant t run m a l)) \<and>
    tenant_frame t l (snd (UpdateRunPhase now t i p n l)) \<and>
    tenant_frame t l (snd (CreateAttemptForTenant now t i att p l)) \<and>
    tenant_frame t l (snd (UpdateAttemptPhase now t job ph u v l)) \<and>
    tenant_frame t l (snd (CreateRunForTenant t wrun l)) \<and>
    tenant_frame t l (snd (CreateStepForTenant t i st m a l)) \<and>
    tenant_frame t l (snd (UpdatePhase now t i wp d l)) \<and>
    tenant_frame t l (snd (DeleteRun t i l)) \<and> tenant_frame t l (snd (PruneRun t i l))"
  using assms io_keepsD [OF frame_removals(1) [of t i], of l] io_keepsD [OF frame_removals(2) [of t i], of l]
  by (intro conjI frame_operations [THEN io_keepsD]) simp_all

theorem ledger_tenant_isolation_witness:
  "tenant_frame ''x'' sample_ledger (snd (UpdateRunPhase 5 ''x'' 1 Failed 1 sample_ledger))
   \<and> tenant_frame ''t'' sample_ledger (snd (DeleteRun ''t'' 2 sample_ledger))"
  using ledger_tenant_isolation [OF sample_wf] by blast

text \<open>C6: The audit trail only grows, and a stored revision is never rewritten: after any further
  calls the earlier audit rows are a prefix of the trail, and a pinned revision reads back the same.\<close>

theorem audit_grows_revisions_pinned:
  assumes "ledger_wf l" and "history l m" and "RevisionByID t i l = (Inr rv, l)"
  shows "prefix (lg_audit l) (lg_audit m) \<and> RevisionByID t i m = (Inr rv, m)"
proof -
  have ev: "ledger_evolves l m" using assms(2) by (rule history_evolves)
  moreover have "ledger_wf m" using history_wf assms by blast
  ultimately show ?thesis using RevisionByID_stable assms(3) by (auto simp: ledger_evolves_def)
qed

theorem audit_grows_revisions_pinned_witness:
  "prefix (lg_audit sample_ledger) (lg_audit (snd (DeleteRun ''t'' 2 sample_ledger))) \<and>
   RevisionByID ''t'' 1 (snd (DeleteRun ''t'' 2 sample_ledger)) = (Inr sample_revision, snd (DeleteRun ''t'' 2 sample_ledger))"
proof (rule audit_grows_revisions_pinned [OF sample_wf])
  show "history sample_ledger (snd (DeleteRun ''t'' 2 sample_ledger))"
    by (rule r_into_rtranclp, rule step_DeleteRun, rule prod.collapse [symmetric])
  show "RevisionByID ''t'' 1 sample_ledger = (Inr sample_revision, sample_ledger)"
    by (simp add: RevisionByID_def WithTenantTransaction_eq WithTenant_def io_simps io_get_def sample_defs scanRevision_def)
qed

text \<open>C7: What a phase write does, by case: no such run; a finished run, where only the identical
  write is accepted and it changes nothing; the same phase and attempt; and otherwise the row gets the
  phase, the attempt and the time, every other run is untouched, one audit row is added, and the
  caller learns whether the phase moved.\<close>

theorem update_run_phase_behaviour:
  assumes "ledger_wf l" and "t \<in> set (lg_tenants l)" and "t \<noteq> []" and "0 \<le> n"
  shows "case run_by_id t i l of
      None \<Rightarrow> UpdateRunPhase now t i p n l = (Inl (NotFoundError ''job_run''), l)
    | Some row \<Rightarrow>
        if rn_phase row = p \<and> rn_attempt row = n then UpdateRunPhase now t i p n l = (Inr False, l)
        else if Terminal (rn_phase row) then UpdateRunPhase now t i p n l = (Inl ErrRunTerminal, l)
        else \<exists>l'. UpdateRunPhase now t i p n l = (Inr (rn_phase row \<noteq> p), l')
          \<and> run_by_id t i l' = Some (row\<lparr>rn_phase := p, rn_attempt := n, rn_updated_at := now\<rparr>)
          \<and> length (lg_audit l') = length (lg_audit l) + 1
          \<and> filter (\<lambda>r. rn_id r \<noteq> i) (lg_runs l') = filter (\<lambda>r. rn_id r \<noteq> i) (lg_runs l)"
proof (cases "run_by_id t i l")
  case None
  then show ?thesis using UpdateRunPhase_missing [OF assms(3)] by simp
next
  case (Some row)
  consider (same) "rn_phase row = p \<and> rn_attempt row = n"
    | (final) "\<not> (rn_phase row = p \<and> rn_attempt row = n)" "Terminal (rn_phase row)"
    | (live) "rn_phase row \<noteq> p \<or> rn_attempt row \<noteq> n" "\<not> Terminal (rn_phase row)" by blast
  then show ?thesis
  proof cases
    case same
    then show ?thesis using UpdateRunPhase_same [OF assms(1,3) Some] Some by simp
  next
    case final
    then show ?thesis using UpdateRunPhase_terminal [OF assms(1,3) Some] Some by simp
  next
    case live
    obtain l' where "UpdateRunPhase now t i p n l = (Inr (rn_phase row \<noteq> p), l')"
      "run_by_id t i l' = Some (row\<lparr>rn_phase := p, rn_attempt := n, rn_updated_at := now\<rparr>)"
      "length (lg_audit l') = length (lg_audit l) + 1"
      "filter (\<lambda>r. rn_id r \<noteq> i) (lg_runs l') = filter (\<lambda>r. rn_id r \<noteq> i) (lg_runs l)"
      by (rule UpdateRunPhase_writes [OF assms(1,3,2) Some live(2,1) assms(4)])
    then show ?thesis using Some live by auto
  qed
qed

theorem update_run_phase_behaviour_witness:
  "UpdateRunPhase 9 ''t'' 2 Running 1 sample_ledger = (Inl ErrRunTerminal, sample_ledger)
   \<and> (\<exists>l'. UpdateRunPhase 9 ''t'' 1 RetryWaiting 1 sample_ledger = (Inr True, l')
        \<and> run_by_id ''t'' 1 l' = Some (sample_run\<lparr>rn_phase := RetryWaiting, rn_attempt := 1, rn_updated_at := 9\<rparr>))"
proof -
  have t: "''t'' \<in> set (lg_tenants sample_ledger)" "''t'' \<noteq> []" "0 \<le> (1::int)" by (simp_all add: sample_defs)
  have rows: "run_by_id ''t'' 1 sample_ledger = Some sample_run" "run_by_id ''t'' 2 sample_ledger = Some sample_finished"
    by (simp_all add: run_by_id_def sample_defs)
  have ph: "rn_phase sample_run = Running" "rn_phase sample_finished = Succeeded" by (simp_all add: sample_defs)
  from update_run_phase_behaviour [OF sample_wf t, where i = 1 and now = 9 and p = RetryWaiting]
    update_run_phase_behaviour [OF sample_wf t, where i = 2 and now = 9 and p = Running]
  show ?thesis by (auto simp: rows ph)
qed

text \<open>Starting an attempt is all or nothing: when it succeeds the run was not finished, the attempt
  row with its Kubernetes Job exists, the run's counter names it, and one audit row records it.\<close>

theorem create_attempt_atomic:
  assumes "ledger_wf l" and "CreateAttemptForTenant now t i a p l = (Inr (), l')"
  shows "\<exists>row b. run_by_id t i l = Some row \<and> \<not> Terminal (rn_phase row) \<and>
    run_by_id t i l' = Some (row\<lparr>rn_phase := p, rn_attempt := at_Number a, rn_updated_at := now\<rparr>) \<and>
    b \<in> set (lg_attempts l') \<and> ta_run b = i \<and> ta_number b = at_Number a \<and> ta_tenant b = t \<and>
    ta_job_name b = at_KubernetesJobName a \<and> ta_job_uid b = at_KubernetesJobUID a \<and>
    length (lg_audit l') = length (lg_audit l) + 1"
  using CreateAttempt_ok [OF assms] by metis

theorem create_attempt_atomic_witness:
  "\<exists>row b. run_by_id ''t'' 1 sample_ledger = Some row \<and> \<not> Terminal (rn_phase row) \<and>
    run_by_id ''t'' 1 (snd (CreateAttemptForTenant 9 ''t'' 1 sample_next_attempt Running sample_ledger))
      = Some (row\<lparr>rn_phase := Running, rn_attempt := at_Number sample_next_attempt, rn_updated_at := 9\<rparr>) \<and>
    b \<in> set (lg_attempts (snd (CreateAttemptForTenant 9 ''t'' 1 sample_next_attempt Running sample_ledger))) \<and>
    ta_run b = 1 \<and> ta_number b = at_Number sample_next_attempt \<and> ta_tenant b = ''t'' \<and>
    ta_job_name b = at_KubernetesJobName sample_next_attempt \<and> ta_job_uid b = at_KubernetesJobUID sample_next_attempt \<and>
    length (lg_audit (snd (CreateAttemptForTenant 9 ''t'' 1 sample_next_attempt Running sample_ledger)))
      = length (lg_audit sample_ledger) + 1"
proof (rule create_attempt_atomic [OF sample_wf])
  have "fst (CreateAttemptForTenant 9 ''t'' 1 sample_next_attempt Running sample_ledger) = Inr ()" by code_simp
  then show "CreateAttemptForTenant 9 ''t'' 1 sample_next_attempt Running sample_ledger
      = (Inr (), snd (CreateAttemptForTenant 9 ''t'' 1 sample_next_attempt Running sample_ledger))"
    by (metis prod.collapse)
qed

text \<open>C8: A generation is projected once: repeating the call returns the same active revision and changes nothing, not
  even the audit trail, and the same generation with another spec is refused and changes nothing.\<close>

theorem apply_revision_once:
  assumes "ledger_wf l" and "ApplyRevisionForTenant j t rv l = (Inr i, l')"
    and "rev_Identity rv' = rev_Identity rv" and "rev_Generation rv' = rev_Generation rv"
    and "rev_SpecHash rv' \<noteq> rev_SpecHash rv" and "validateActor (rev_Actor rv') = Inr ()"
    and "j (rev_NormalizedSpec rv') \<noteq> None"
  shows "ApplyRevisionForTenant j t rv l' = (Inr i, l') \<and>
    (\<exists>row \<in> set (lg_revisions l'). stored_revision t rv i row \<and> vr_active row) \<and>
    ApplyRevisionForTenant j t rv' l' = (Inl ErrRevisionConflict, l')"
proof -
  from ApplyRevision_ok [OF assms(2)] obtain row where "row \<in> set (lg_revisions l')" "stored_revision t rv i row" by blast
  moreover have "ledger_wf l'" using io_keepsD' [OF wf_ApplyRevision assms(2)] assms(1) by simp
  ultimately have "ApplyRevisionForTenant j t rv' l' = (Inl ErrRevisionConflict, l')"
    using ApplyRevision_guards [OF assms(2)] assms(3-7)
    by (intro ApplyRevision_conflict [where row = row]) (auto simp: stored_revision_def)
  then show ?thesis using ApplyRevision_replay [OF assms(1,2)] ApplyRevision_ok [OF assms(2)] by blast
qed

theorem apply_revision_once_witness:
  "fst (ApplyRevisionForTenant Some ''t'' (sample_revision\<lparr>rev_Generation := 2, rev_SpecHash := ''g''\<rparr>)
     (snd (ApplyRevisionForTenant Some ''t'' (sample_revision\<lparr>rev_Generation := 2\<rparr>) sample_ledger)))
   = Inl ErrRevisionConflict"
proof -
  let ?m = "ApplyRevisionForTenant Some ''t'' (sample_revision\<lparr>rev_Generation := 2\<rparr>) sample_ledger"
  have "fst ?m = Inr 2" by code_simp
  then have ok: "?m = (Inr 2, snd ?m)" by (metis prod.collapse)
  have "ApplyRevisionForTenant Some ''t'' (sample_revision\<lparr>rev_Generation := 2, rev_SpecHash := ''g''\<rparr>) (snd ?m)
      = (Inl ErrRevisionConflict, snd ?m)"
    using apply_revision_once [OF sample_wf ok, of "sample_revision\<lparr>rev_Generation := 2, rev_SpecHash := ''g''\<rparr>"]
    by (simp add: sample_defs validateActor_def TrimSpace_def is_space_def rune_count_def maxActorLength_def)
  then show ?thesis by simp
qed

text \<open>C9: What a retention sweep selects: of the runs of a definition that ended in one phase, outside
  workflows, exactly the smaller of \<open>keep\<close> and their number is spared, and those are the newest: every run that is spared was
  created after every run that is selected, ties going to the larger id.\<close>

theorem retention_keeps_newest:
  assumes "ledger_wf l" and "Terminal p \<or> p = CancelUnknown"
    and "keep = (if p = Succeeded then ks else kf)" and "0 \<le> keep"
  shows "card (retained_rows t uid p l - set (prunable_rows t uid ks kf l))
           = min (nat keep) (card (retained_rows t uid p l)) \<and>
    (\<forall>r q. r \<in> retained_rows t uid p l - set (prunable_rows t uid ks kf l) \<and>
        q \<in> retained_rows t uid p l \<inter> set (prunable_rows t uid ks kf l) \<longrightarrow>
      rn_created_at q < rn_created_at r \<or> rn_created_at q = rn_created_at r \<and> rn_id q < rn_id r)"
  using prunable_keeps [OF assms] prunable_older [OF assms(1,2)] by blast

theorem retention_keeps_newest_witness:
  "card (retained_rows ''t'' ''u'' Succeeded sample_ledger - set (prunable_rows ''t'' ''u'' 3 3 sample_ledger))
     = min (nat 3) (card (retained_rows ''t'' ''u'' Succeeded sample_ledger))"
  using retention_keeps_newest [OF sample_wf, of Succeeded 3 3 3 "''t''" "''u''"] by simp

text \<open>C10: A workflow run that has finished never changes again, and no recorded decision about a task is
  ever lost.\<close>

theorem workflow_run_final:
  assumes "ledger_wf l" and "history l m" and "w \<in> set (lg_wruns l)" and "v \<in> set (lg_wruns m)" and "wf_ID v = wf_ID w"
  shows "(WTerminal (wf_Phase w) \<longrightarrow> v = w) \<and> dom (map_of (wf_TaskDecisions w)) \<subseteq> dom (map_of (wf_TaskDecisions v))"
  using evolves_wrun [OF history_evolves [OF assms(2)] assms(1,3,4,5)] by (simp add: wrun_evolves_def)

theorem workflow_run_final_witness:
  "lg_wruns (snd (UpdatePhase 5 ''t'' 1 PhaseRunning [] sample_ledger)) ! 0 = sample_wrun"
proof -
  let ?m = "snd (UpdatePhase 5 ''t'' 1 PhaseRunning [] sample_ledger)"
  have h: "history sample_ledger ?m"
    by (rule r_into_rtranclp, rule step_UpdatePhase, rule prod.collapse [symmetric])
  have w: "sample_wrun \<in> set (lg_wruns sample_ledger)" "WTerminal (wf_Phase sample_wrun)"
    by (simp_all add: sample_defs WTerminal_def)
  have v: "lg_wruns ?m ! 0 \<in> set (lg_wruns ?m)" "wf_ID (lg_wruns ?m ! 0) = wf_ID sample_wrun" by code_simp+
  from workflow_run_final [OF sample_wf h w(1) v] w(2) show ?thesis by blast
qed

section \<open>The operator\<close>

text \<open>C11: No run ever gets an attempt beyond its budget. Every process keeps the invariant, on every
  path, whatever fails and whatever the other processes commit in between, although each decides from a
  read that may be stale.\<close>

theorem attempt_budget_kept:
  assumes "bounded_others env" and "good (w_ledger w)"
  shows "good (w_ledger (snd (ReconcileJobRun x env rt obj w))) \<and>
    good (w_ledger (snd (ReconcileJob x env rt job w))) \<and>
    good (w_ledger (snd (Scheduler_Tick x env s w))) \<and> good (w_ledger (snd (Retainer_Sweep x env r w))) \<and>
    good (w_ledger (snd (ReconcileWorkflowRun x env rt wobj w))) \<and>
    good (w_ledger (snd (Walker_Tick x env wk w))) \<and> good (w_ledger (snd (WorkflowRetainer_Sweep x env wr w)))"
proof -
  have env: "bounded_environment env" using assms(1) by unfold_locales
  show ?thesis
    using htr_run [OF bounded_environment.ReconcileJobRun_htr [OF env] assms(2)]
      htr_run [OF bounded_environment.ReconcileJob_htr [OF env] assms(2)]
      good_run [OF bounded_environment.budget_Tick [OF env] assms(2)]
      good_run [OF bounded_environment.budget_Sweep [OF env] assms(2)]
      good_run [OF bounded_environment.budget_ReconcileWorkflowRun [OF env] assms(2)]
      good_run [OF bounded_environment.budget_Walker [OF env] assms(2)]
      good_run [OF bounded_environment.budget_Workflow_Sweep [OF env] assms(2)]
    by blast
qed

theorem attempt_budget_kept_witness:
  "good (w_ledger (snd (ReconcileJobRun sample_ext (quiet 7) (sample_runtime sample_client) (sample_object Manual ''m'') sample_world)))
   \<and> good (w_ledger (snd (Scheduler_Tick sample_ext (quiet 7) sample_scheduler sample_world)))"
proof -
  have "good (w_ledger sample_world)" using sample_good by (simp add: sample_world_def)
  from attempt_budget_kept [OF bounded_quiet this] show ?thesis by blast
qed

text \<open>C12: A run that has started an attempt is recorded as \<open>Canceled\<close> only after its Kubernetes Job was
  observed gone: while every observation still answers with the Job, a cancellation never makes a
  run \<open>Canceled\<close>.\<close>

theorem cancel_waits_for_job:
  assumes "\<And>n l. uncanceled l (en_other env n l)" and "sr_Attempt s \<noteq> 0"
    and "\<And>k k'. Adapter_Get (rt_Client rt) (om_Namespace obj)
      (JobName (ex_sha x) (name_identity (om_Name obj) (sr_Attempt s))) k \<noteq> (Inr None, k')"
  shows "uncanceled (w_ledger w) (w_ledger (snd (reconcileCancellation x env rt t obj s w)))"
proof -
  have "cancel_environment env" using assms(1) by unfold_locales
  from cancel_environment.cancellation_uncanceled [OF this assms(2,3)]
  have "io_keeps (on_ledger uncanceled) (reconcileCancellation x env rt t obj s)" .
  from io_keepsD [OF this, of w] show ?thesis by (simp add: on_ledger_def)
qed

theorem cancel_waits_for_job_witness:
  "uncanceled sample_ledger (w_ledger (snd (reconcileCancellation sample_ext (quiet 7) (sample_runtime stuck_client) ''t''
     sample_meta (stored_of sample_run) sample_world)))"
proof -
  have get: "Adapter_Get (rt_Client (sample_runtime stuck_client)) ns n k \<noteq> (Inr None, k')" for ns n k k'
    by (simp add: Adapter_Get_def sample_runtime_def stuck_client_def io_simps)
  have at: "sr_Attempt (stored_of sample_run) \<noteq> 0" by (simp add: stored_of_def StoredRun_zero_def sample_defs)
  have others: "uncanceled l (en_other (quiet 7) n l)" for n l by (auto simp: quiet_def uncanceled_def)
  have world: "w_ledger sample_world = sample_ledger" by (simp add: sample_world_def)
  show ?thesis using cancel_waits_for_job [OF others at get, where w = sample_world] by (simp only: world)
qed

text \<open>C13: What a JobRun object may cause, by what the ledger has for it. Nothing recorded and a trigger only the control plane
  uses: the object is forged or stale and is dropped, no run is created, the ledger is what the other writers made it and the
  cluster is untouched. A run that has finished, or whose attempt is in flight and not being stopped: nothing is started and
  nothing written to the ledger, the stored state is projected onto the object.\<close>

theorem reconcile_starts_nothing_unasked:
  assumes "jobRunSpecFromUnstructured obj = Inr spec" and "Resolve (rt_Tenants rt) (cr_Meta obj) = Inr t"
    and "store_call env (\<lambda>_. RunByOccurrence t (ref_UID (js_ScheduledJobRef spec)) (js_OccurrenceKey spec)) w = (Inr found, v)"
    and "case found of None \<Rightarrow> js_Trigger spec \<notin> {Manual, Function}
      | Some s \<Rightarrow> Terminal (sr_Phase s) \<or> AttemptInFlight s \<and> sr_Phase s \<noteq> CancelRequested \<and> \<not> js_CancelRequested spec"
  shows "w_ledger (snd (ReconcileJobRun x env rt obj w)) = en_other env (w_tick w) (w_ledger w) \<and>
    (case found of
       None \<Rightarrow> fst (ReconcileJobRun x env rt obj w) = Inr () \<and> w_cluster (snd (ReconcileJobRun x env rt obj w)) = w_cluster w
     | Some s \<Rightarrow> ReconcileJobRun x env rt obj w = patchRunStatus rt (cr_Meta obj) s v)"
proof (cases found)
  case None
  then show ?thesis
    using ReconcileJobRun_unknown [OF assms(1,2), of env w v x] RunByOccurrence_call_frame [OF assms(3)] assms(3,4) by simp
next
  case (Some s)
  have "ReconcileJobRun x env rt obj w = patchRunStatus rt (cr_Meta obj) s v"
    using ReconcileJobRun_found [OF assms(1,2), of env w s v x] assms(3,4) Some by (auto simp: drive_run_def)
  moreover have "w_ledger (snd (patchRunStatus rt (cr_Meta obj) s v)) = w_ledger v"
    by (auto simp: patchRunStatus_def patchStatus_def io_wrap_apply kube_call_def split: prod.splits)
  ultimately show ?thesis using RunByOccurrence_call_frame(1) [OF assms(3)] Some by simp
qed

theorem reconcile_starts_nothing_unasked_witness:
  "fst (ReconcileJobRun sample_ext (quiet 7) (sample_runtime sample_client) (sample_object Schedule ''forged'') sample_world) = Inr () \<and>
   ReconcileJobRun sample_ext (quiet 7) (sample_runtime sample_client) (sample_object Schedule ''f'') sample_world
     = patchRunStatus (sample_runtime sample_client) sample_meta (stored_of sample_finished) (sample_world\<lparr>w_tick := 1\<rparr>)"
proof -
  let ?rt = "sample_runtime sample_client"
  have spec: "jobRunSpecFromUnstructured (sample_object tr k) = Inr (projr (cr_Spec (sample_object tr k)))" if "k \<in> {''f'', ''forged''}" for tr k
    using that by (auto simp: jobRunSpecFromUnstructured_def sample_object_def TrimSpace_def is_space_def)
  have tenant: "Resolve (rt_Tenants ?rt) (cr_Meta (sample_object tr k)) = Inr ''t''" for tr k
    by (simp add: sample_runtime_def sample_object_def sample_meta_def)
  have none: "store_call (quiet 7) (\<lambda>_. RunByOccurrence ''t'' (ref_UID (js_ScheduledJobRef (projr (cr_Spec (sample_object Schedule ''forged'')))))
      (js_OccurrenceKey (projr (cr_Spec (sample_object Schedule ''forged''))))) sample_world = (Inr None, sample_world\<lparr>w_tick := 1\<rparr>)"
    and final: "store_call (quiet 7) (\<lambda>_. RunByOccurrence ''t'' (ref_UID (js_ScheduledJobRef (projr (cr_Spec (sample_object Schedule ''f'')))))
      (js_OccurrenceKey (projr (cr_Spec (sample_object Schedule ''f''))))) sample_world
      = (Inr (Some (stored_of sample_finished)), sample_world\<lparr>w_tick := 1\<rparr>)"
    by (simp_all add: store_call_eq quiet_def RunByOccurrence_def WithTenantTransaction_eq WithTenant_def io_simps io_get_def
        scanStoredRun_def stored_of_def sample_world_def sample_object_def sample_defs)
  have guards: "js_Trigger (projr (cr_Spec (sample_object Schedule ''forged''))) \<notin> {Manual, Function}" "Terminal (sr_Phase (stored_of sample_finished))"
    "cr_Meta (sample_object Schedule ''f'') = sample_meta"
    by (simp_all add: sample_object_def stored_of_def StoredRun_zero_def sample_defs)
  from reconcile_starts_nothing_unasked [OF spec tenant none, of sample_ext] reconcile_starts_nothing_unasked [OF spec tenant final, of sample_ext]
  show ?thesis using guards by simp
qed

text \<open>Whatever a process of the control plane does, on every path and under every fault, its effect on
  the ledger is an evolution: finished runs and workflows stay as they are, identities and pinned
  revisions are kept, sequences and the audit trail only grow; provided the other writers do the same.\<close>

theorem processes_evolve_ledger:
  assumes "\<And>n l. ledger_evolves l (en_other env n l)"
  shows "ledger_evolves (w_ledger w) (w_ledger (snd (ReconcileScheduledJob x env rt sj w))) \<and>
    ledger_evolves (w_ledger w) (w_ledger (snd (ReconcileWorkflowJob x env rt wj w))) \<and>
    ledger_evolves (w_ledger w) (w_ledger (snd (ReconcileJobRun x env rt obj w))) \<and>
    ledger_evolves (w_ledger w) (w_ledger (snd (ReconcileJob x env rt job w))) \<and>
    ledger_evolves (w_ledger w) (w_ledger (snd (ReconcileWorkflowRun x env rt wobj w))) \<and>
    ledger_evolves (w_ledger w) (w_ledger (snd (Scheduler_Tick x env s w))) \<and>
    ledger_evolves (w_ledger w) (w_ledger (snd (Retainer_Sweep x env r w))) \<and>
    ledger_evolves (w_ledger w) (w_ledger (snd (Walker_Tick x env wk w))) \<and>
    ledger_evolves (w_ledger w) (w_ledger (snd (WorkflowRetainer_Sweep x env wr w)))"
proof -
  note operator = operator_store_evolves [OF assms] and walker = walker_store_evolves [OF assms]
    and retention = retention_store_evolves [OF assms]
  show ?thesis
    using io_keepsD [OF operator_store.ReconcileScheduledJob_keeps [OF operator]]
      io_keepsD [OF operator_store.ReconcileWorkflowJob_keeps [OF operator]]
      io_keepsD [OF operator_store.ReconcileJobRun_keeps [OF operator]]
      io_keepsD [OF operator_store.ReconcileJob_keeps [OF operator]]
      io_keepsD [OF walker_store.ReconcileWorkflowRun_keeps [OF walker]]
      io_keepsD [OF operator_store.schedule_Tick_keeps [OF operator]]
      io_keepsD [OF retention_store.Sweep_keeps [OF retention]]
      io_keepsD [OF walker_store.Walker_Tick_keeps [OF walker]]
      io_keepsD [OF walker_store.Workflow_Sweep_keeps [OF walker]]
    by (auto simp: on_ledger_def)
qed

theorem processes_evolve_ledger_witness:
  "ledger_evolves sample_ledger (w_ledger (snd (Scheduler_Tick sample_ext (quiet 7) sample_scheduler sample_world)))
   \<and> ledger_evolves sample_ledger (w_ledger (snd (ReconcileJob sample_ext (quiet 7) (sample_runtime sample_client) stuck_job sample_world)))"
proof -
  have others: "ledger_evolves l (en_other (quiet 7) n l)" for n l
    using ledger_evolves_refl by (simp add: quiet_def reflp_def)
  have world: "w_ledger sample_world = sample_ledger" by (simp add: sample_world_def)
  show ?thesis using processes_evolve_ledger [OF others, where w = sample_world] unfolding world by blast
qed

section \<open>The scheduler\<close>

text \<open>C14: What a tick may fire: every selected instant is an activation of the schedule on a whole minute, not in
  the future and not older than the grace window (rounded to its minute); the selection is in order without repeats
  and at most the catch-up bound long, at least one being allowed.\<close>

theorem selected_occurrences_bounded:
  "set (selectOccurrences sched policy now grace k) \<subseteq>
     {t. sched t \<and> minute_ns dvd t \<and> t \<le> now \<and> now - grace - minute_ns < t} \<and>
   sorted_wrt (<) (selectOccurrences sched policy now grace k) \<and>
   int (length (selectOccurrences sched policy now grace k)) \<le> max 1 k"
  using selectOccurrences_sound [of _ sched policy now grace k] selectOccurrences_length
    suffix_sorted [OF selectOccurrences_suffix matchesInWindow_sorted] by blast

text \<open>How activations are chosen: one in the current minute always fires, alone, whatever the policy. If the newest
  one was missed, \<open>Skip\<close> fires nothing, \<open>FireOnce\<close> fires the newest, and \<open>CatchUpBounded\<close> fires as many of the
  newest as the bound and the window allow.\<close>

theorem activations_by_policy:
  assumes "0 \<le> grace"
  shows "(sched (time_Truncate now minute_ns) \<longrightarrow>
      selectOccurrences sched policy now grace k = [time_Truncate now minute_ns]) \<and>
    (matchesInWindow sched now grace \<noteq> [] \<and> minute_ns \<le> now - last (matchesInWindow sched now grace) \<longrightarrow>
      selectOccurrences sched Skip now grace k = [] \<and>
      selectOccurrences sched FireOnce now grace k = [last (matchesInWindow sched now grace)] \<and>
      suffix (selectOccurrences sched CatchUpBounded now grace k) (matchesInWindow sched now grace) \<and>
      length (selectOccurrences sched CatchUpBounded now grace k)
        = min (nat (max 1 k)) (length (matchesInWindow sched now grace)))"
  using selectOccurrences_on_time [OF assms, of sched now policy k] selectOccurrences_misfire [of sched now grace k]
    selectOccurrences_suffix [of sched CatchUpBounded now grace k] by blast

theorem activations_by_policy_witness:
  "selectOccurrences (\<lambda>t. t mod (3 * minute_ns) = 0) Skip (6 * minute_ns + 5) hour_ns 2 = [time_Truncate (6 * minute_ns + 5) minute_ns]
   \<and> selectOccurrences (\<lambda>t. t = 4 * minute_ns) Skip (6 * minute_ns) (5 * minute_ns) 2 = []"
proof
  show "selectOccurrences (\<lambda>t. t mod (3 * minute_ns) = 0) Skip (6 * minute_ns + 5) hour_ns 2 = [time_Truncate (6 * minute_ns + 5) minute_ns]"
    using activations_by_policy [of hour_ns "\<lambda>t. t mod (3 * minute_ns) = 0" "6 * minute_ns + 5" Skip 2]
    by (simp add: time_Truncate_def)
  have m: "matchesInWindow (\<lambda>t. t = 4 * minute_ns) (6 * minute_ns) (5 * minute_ns) = [4 * minute_ns]" by code_simp
  show "selectOccurrences (\<lambda>t. t = 4 * minute_ns) Skip (6 * minute_ns) (5 * minute_ns) 2 = []"
    using activations_by_policy [of "5 * minute_ns" "\<lambda>t. t = 4 * minute_ns" "6 * minute_ns" Skip 2] unfolding m by simp
qed

text \<open>C15: What a firing that reports success did, as long as no other process writes in between. A suspended or unscheduled
  definition, and one that does not allow concurrent runs while one of its runs is open, fire nothing and leave the ledger as it
  is. Otherwise every selected occurrence is recorded, whatever calls failed before; and firing the same definition again for the
  same selection creates nothing and leaves the ledger as it is.\<close>

theorem firing_records_each_occurrence_once:
  assumes "undisturbed env" and "fireDefinition x env s t rv now grace w = (Inr k, v)"
    and "ex_decode x (rev_NormalizedSpec rv) = Inr spec" and "Scheduler_parse s (ss_Schedule spec) = Inr sched"
  shows "if ss_Suspend spec \<or> ss_Schedule spec = [] \<or>
      ss_ConcurrencyPolicy spec \<notin> {Allow, OtherConcurrency []} \<and> open_rows t (id_SourceUID (rev_Identity rv)) (w_ledger w) \<noteq> []
    then k = 0 \<and> w_ledger v = w_ledger w
    else (\<forall>due \<in> set (selectOccurrences sched (ss_MisfirePolicy spec) now grace (sc_MaxCatchUp s)).
        recorded t (id_SourceUID (rev_Identity rv)) (fire_key x rv due) (w_ledger v)) \<and>
      (\<forall>k' v'. fireDefinition x env s t rv now grace v = (Inr k', v') \<longrightarrow> k' = 0 \<and> w_ledger v' = w_ledger v)"
proof (cases "ss_Suspend spec \<or> ss_Schedule spec = [] \<or>
      ss_ConcurrencyPolicy spec \<notin> {Allow, OtherConcurrency []} \<and> open_rows t (id_SourceUID (rev_Identity rv)) (w_ledger w) \<noteq> []")
  case True
  have "k = 0 \<and> w_ledger v = w_ledger w"
  proof (cases "ss_Suspend spec \<or> ss_Schedule spec = []")
    case True
    with assms(2,3) show ?thesis by (auto simp: fireDefinition_def io_return_apply)
  next
    case False
    with assms True show ?thesis by (auto elim!: fireDefinition_cases)
  qed
  then show ?thesis unfolding if_P [OF True] .
next
  case False
  let ?occ = "selectOccurrences sched (ss_MisfirePolicy spec) now grace (sc_MaxCatchUp s)"
  have rec: "\<forall>due \<in> set ?occ. recorded t (id_SourceUID (rev_Identity rv)) (fire_key x rv due) (w_ledger v)"
    using assms
  proof (cases rule: fireDefinition_cases)
    case idle
    then show ?thesis using False by auto
  next
    case (fired w1)
    then show ?thesis using fire_sum_recorded [OF assms(1) fired(2)] by blast
  qed
  have "k' = 0 \<and> w_ledger v' = w_ledger v" if "fireDefinition x env s t rv now grace v = (Inr k', v')" for k' v'
    using assms(1) that assms(3,4)
  proof (cases rule: fireDefinition_cases)
    case idle
    then show ?thesis by simp
  next
    case (fired w1)
    then have "\<forall>due \<in> set ?occ. recorded t (id_SourceUID (rev_Identity rv)) (fire_key x rv due) (w_ledger w1)" using rec by simp
    from fire_sum_again [OF assms(1) this fired(2)] fired(1) show ?thesis by simp
  qed
  with rec show ?thesis unfolding if_not_P [OF False] by blast
qed

theorem firing_records_each_occurrence_once_witness:
  "recorded ''t'' ''u'' (fire_key sample_ext sample_revision 0)
     (w_ledger (snd (fireDefinition sample_ext (quiet 3) sample_scheduler ''t'' sample_revision 3 0 sample_world))) \<and>
   w_ledger (snd (fireDefinition (sample_ext\<lparr>ex_decode := \<lambda>_. Inr (sample_spec\<lparr>ss_ConcurrencyPolicy := Forbid\<rparr>)\<rparr>) (quiet 3)
      sample_scheduler ''t'' sample_revision 3 0 sample_world)) = sample_ledger"
proof
  have sched: "Scheduler_parse sample_scheduler e = Inr (\<lambda>_. True)" for e by (simp add: Scheduler_parse_def sample_scheduler_def)
  have uid: "id_SourceUID (rev_Identity sample_revision) = ''u''" by (simp add: sample_defs)
  let ?m = "fireDefinition sample_ext (quiet 3) sample_scheduler ''t'' sample_revision 3 0 sample_world"
  have "fst ?m = Inr 1" by code_simp
  then have ok: "?m = (Inr 1, snd ?m)" by (metis prod.collapse)
  have spec: "ex_decode sample_ext (rev_NormalizedSpec sample_revision) = Inr sample_spec" by (simp add: sample_ext_def)
  have "selectOccurrences (\<lambda>_. True) (ss_MisfirePolicy sample_spec) 3 0 (sc_MaxCatchUp sample_scheduler) = [0]"
    using selectOccurrences_on_time [of 0 "\<lambda>_. True" 3] by (simp add: time_Truncate_def)
  with firing_records_each_occurrence_once [OF undisturbed_quiet ok spec sched] uid
  show "recorded ''t'' ''u'' (fire_key sample_ext sample_revision 0) (w_ledger (snd ?m))"
    by (simp add: sample_spec_def)
  let ?x = "sample_ext\<lparr>ex_decode := \<lambda>_. Inr (sample_spec\<lparr>ss_ConcurrencyPolicy := Forbid\<rparr>)\<rparr>"
  let ?n = "fireDefinition ?x (quiet 3) sample_scheduler ''t'' sample_revision 3 0 sample_world"
  have "fst ?n = Inr 0" by code_simp
  then have held: "?n = (Inr 0, snd ?n)" by (metis prod.collapse)
  have "open_rows ''t'' ''u'' (w_ledger sample_world) \<noteq> []" by (simp add: open_rows_def sample_world_def sample_defs)
  with firing_records_each_occurrence_once [OF undisturbed_quiet held _ sched, of "sample_spec\<lparr>ss_ConcurrencyPolicy := Forbid\<rparr>"] uid
  have "w_ledger (snd ?n) = w_ledger sample_world" by simp
  also have "\<dots> = sample_ledger" by (simp add: sample_world_def)
  finally show "w_ledger (snd ?n) = sample_ledger" .
qed

section \<open>Workflows\<close>

text \<open>C16: The depth-first cycle search is right: it reports a cycle exactly when the dependency graph of the
  tasks has one.\<close>

theorem hasCycle_correct: "hasCycle dag \<longleftrightarrow> \<not> acyclic (dep_edges (dag_Tasks dag))"
  by (rule hasCycle_iff)

text \<open>C17: A DAG that passes validation can be ordered, and the order is a permutation of the tasks in which
  every task comes after all its dependencies.\<close>

theorem validated_dag_sorts:
  assumes "ValidateDAG dag = Inr ()"
  shows "\<exists>order. TopologicalSort dag = Inr order \<and> distinct order \<and> set order = set (task_names (dag_Tasks dag))
    \<and> dep_ordered (dag_Tasks dag) order"
proof -
  obtain order where o: "TopologicalSort dag = Inr order" using ValidateDAG_sorts [OF assms] by blast
  with TopologicalSort_order [OF ValidateDAG_well_named(1) [OF assms]] show ?thesis by blast
qed

theorem validated_dag_sorts_witness:
  "\<exists>order. TopologicalSort sample_dag = Inr order \<and> distinct order \<and> set order = set (task_names (dag_Tasks sample_dag))
    \<and> dep_ordered (dag_Tasks sample_dag) order"
proof (rule validated_dag_sorts)
  show "ValidateDAG sample_dag = Inr ()" by code_simp
qed

text \<open>A condition the API admits is decided, never refused, once its task's dependencies have a state, and it
  means what it says: all rules hold, or some rule holds.\<close>

theorem condition_meaning:
  assumes "validateCondition spec deps = Inr ()" and "set deps \<subseteq> dom states"
  shows "EvaluateCondition (Some (cond_of_spec spec)) states =
    Inr (if wc_Type spec = ConditionAll then \<forall>r \<in> set (wc_Rules spec). rule_holds states r
         else \<exists>r \<in> set (wc_Rules spec). rule_holds states r)"
proof -
  have rules: "\<forall>r \<in> set (wc_Rules spec). validate_rule r deps = Inr ()" "wc_Rules spec \<noteq> []"
    and type: "wc_Type spec = ConditionAll \<or> wc_Type spec = ConditionAny"
    using assms(1) by (auto simp: validateCondition_def validate_rules_all split: if_splits)
  from evaluate_valid [OF rules(1) assms(2)] rules(2) type show ?thesis
    by (auto simp: EvaluateCondition_def cond_of_spec_def)
qed

theorem condition_meaning_witness:
  "EvaluateCondition (Some (cond_of_spec \<lparr>wc_Type = ConditionAny, wc_Rules = [\<lparr>wr_Task = ''a'', wr_Field = FieldAttempts,
       wr_Operator = OpGt, wr_Values = [], wr_Number = Some 1\<rparr>]\<rparr>))
     [''a'' \<mapsto> \<lparr>ss_Phase = Failed, ss_Attempt = 2, ss_DurationMs = 0\<rparr>] = Inr True"
  by (subst condition_meaning [where deps = "[''a'']"])
     (simp_all add: validateCondition_def validate_rule_def is_numeric_op_def rule_holds_def)

text \<open>The phase of a workflow run as a function of its tasks: an unconfirmed stop dominates; an unaccounted
  task keeps it running; then a failure, then a cancellation, then success decides.\<close>

theorem derive_phase_meaning:
  "DerivePhase ts steps ds =
     (if \<exists>t \<in> set ts. task_unknown steps t then (PhaseCancelUnknown, False)
      else if \<exists>t \<in> set ts. \<not> task_accounted steps ds t then (PhaseRunning, False)
      else if \<exists>t \<in> set ts. task_failed steps t then (PhaseFailed, True)
      else if \<exists>t \<in> set ts. task_canceled steps ds t then (PhaseCanceled, True)
      else (PhaseSucceeded, True))"
  by (rule DerivePhase_eq)

text \<open>C18: One pass of the walker implements the plan: if it succeeds, its decisions are the plan's, it counts as
  many new steps as the plan starts, and its effect is creating exactly those steps in the plan's order.\<close>

theorem advance_refines_plan:
  assumes "advance_loop x env w t run index dag stepByTask states stop order [] 0 v = (Inr (ds, n), v')"
  shows "\<exists>starts. plan run dag stepByTask states stop order [] = Inr (ds, starts) \<and> n = int (length starts) \<and>
    io_iter (\<lambda>task. createStep x env w t run task index) starts v = (Inr (), v')"
  using advance_loop_refines [OF assms] by simp

theorem advance_refines_plan_witness:
  "\<exists>starts. plan sample_wrun sample_dag Map.empty Map.empty ReasonCanceled [''a'', ''b'', ''c''] []
      = Inr ([(''a'', \<lparr>td_Skipped = True, td_Reason = ReasonCanceled\<rparr>), (''b'', \<lparr>td_Skipped = True, td_Reason = ReasonCanceled\<rparr>),
              (''c'', \<lparr>td_Skipped = True, td_Reason = ReasonCanceled\<rparr>)], starts) \<and> 0 = int (length starts) \<and>
    io_iter (\<lambda>task. createStep sample_ext (quiet 3) sample_walker ''t'' sample_wrun task Map.empty) starts sample_world
      = (Inr (), sample_world)"
  by (rule advance_refines_plan)
     (simp add: dagTask_def sample_dag_def sample_tasks_def sample_wrun_def dependenciesResolved_def ReasonCanceled_def io_return_def io_lift_def io_bind_def)

text \<open>C19: A pass of the walker starts only ready tasks: every run it adds to the ledger, whether the pass then succeeds or fails,
  is the step of a task of the run's pinned DAG that was ready by the rows the ledger held before. The task was undecided, the run
  was not being canceled, under the fail-fast policy no step had failed, every dependency had a resolved step, and the task's
  condition held in the state read from those steps; as long as no other process writes during the pass.\<close>

theorem walker_starts_only_ready_tasks:
  assumes "undisturbed env" and "advanceRun x env w t run index v = (r, v')"
    and "row \<in> set (lg_runs (w_ledger v'))" and "row \<notin> set (lg_runs (w_ledger v))"
  shows "\<exists>dag u task. pinnedDAG x env t run v = (Inr dag, u) \<and> step_ready x t run dag (w_ledger v) task
    \<and> rn_tenant row = t \<and> rn_workflow row = Some (wf_ID run)
    \<and> rn_occurrence_key row = StepOccurrenceKey (ex_sha x) (wf_SourceUID run) (wf_OccurrenceKey run) (tk_Name task)"
  using advanceRun_new [OF assms] unfolding started_def step_key_def by blast

theorem walker_starts_only_ready_tasks_witness:
  "\<exists>dag task. step_ready sample_ext ''t'' walker_run dag (w_ledger walker_world) task
     \<and> rn_occurrence_key (last (lg_runs (w_ledger (snd (advanceRun sample_ext (quiet 3) sample_walker ''t'' walker_run
         (definitionIndex [sample_revision]) walker_world)))))
       = StepOccurrenceKey (ex_sha sample_ext) (wf_SourceUID walker_run) (wf_OccurrenceKey walker_run) (tk_Name task)"
proof -
  let ?rows = "lg_runs (w_ledger (snd (advanceRun sample_ext (quiet 3) sample_walker ''t'' walker_run
      (definitionIndex [sample_revision]) walker_world)))"
  have "length ?rows = 4" by code_simp
  then have "last ?rows \<in> set ?rows" by (intro last_in_set) auto
  moreover have "rn_occurrence_key (last ?rows) \<notin> set (map rn_occurrence_key (lg_runs (w_ledger walker_world)))" by code_simp
  then have "last ?rows \<notin> set (lg_runs (w_ledger walker_world))" by auto
  ultimately show ?thesis
    using walker_starts_only_ready_tasks [OF undisturbed_quiet prod.collapse [symmetric], of "last ?rows"] by blast
qed

text \<open>C20: A workflow cannot get stuck: when none of its steps is in flight and a pass starts nothing new, every
  task is accounted for, and the phase the pass records is terminal (or the unconfirmed stop).\<close>

theorem walker_never_stuck:
  assumes "ValidateDAG dag = Inr ()" and "TopologicalSort dag = Inr order"
    and "\<And>n st. stepByTask n = Some st \<Longrightarrow> n \<in> dom states" and "skips_only (wf_TaskDecisions run)"
    and "plan run dag stepByTask states stop order [] = Inr (ds, [])"
  shows "WTerminal (next_workflow_phase run dag steps states ds n)
    \<or> next_workflow_phase run dag steps states ds n = PhaseCancelUnknown"
  using assms by (rule walker_progress_phase)

theorem walker_never_stuck_witness:
  "WTerminal (next_workflow_phase (sample_wrun\<lparr>wf_Phase := PhaseCancelRequested\<rparr>) sample_dag [] Map.empty
     [(''a'', \<lparr>td_Skipped = True, td_Reason = ReasonCanceled\<rparr>), (''b'', \<lparr>td_Skipped = True, td_Reason = ReasonCanceled\<rparr>),
      (''c'', \<lparr>td_Skipped = True, td_Reason = ReasonCanceled\<rparr>)] 0)
   \<or> next_workflow_phase (sample_wrun\<lparr>wf_Phase := PhaseCancelRequested\<rparr>) sample_dag [] Map.empty
     [(''a'', \<lparr>td_Skipped = True, td_Reason = ReasonCanceled\<rparr>), (''b'', \<lparr>td_Skipped = True, td_Reason = ReasonCanceled\<rparr>),
      (''c'', \<lparr>td_Skipped = True, td_Reason = ReasonCanceled\<rparr>)] 0 = PhaseCancelUnknown"
proof (rule walker_never_stuck)
  show "ValidateDAG sample_dag = Inr ()" by code_simp
  show "TopologicalSort sample_dag = Inr [''a'', ''b'', ''c'']" by code_simp
  show "skips_only (wf_TaskDecisions (sample_wrun\<lparr>wf_Phase := PhaseCancelRequested\<rparr>))"
    by (simp add: skips_only_def sample_wrun_def)
  show "plan (sample_wrun\<lparr>wf_Phase := PhaseCancelRequested\<rparr>) sample_dag Map.empty Map.empty ReasonCanceled [''a'', ''b'', ''c''] []
      = Inr ([(''a'', \<lparr>td_Skipped = True, td_Reason = ReasonCanceled\<rparr>), (''b'', \<lparr>td_Skipped = True, td_Reason = ReasonCanceled\<rparr>),
      (''c'', \<lparr>td_Skipped = True, td_Reason = ReasonCanceled\<rparr>)], [])"
    by (simp add: dagTask_def sample_dag_def sample_tasks_def sample_wrun_def dependenciesResolved_def ReasonCanceled_def)
qed simp

text \<open>A pass over a workflow whose spec passed validation never fails on a condition or a missing task: the plan
  exists whatever the state of the run.\<close>

theorem admitted_workflow_plans:
  assumes "WorkflowJobSpec_Validate spec = Inr ()" and "TopologicalSort (DAGFromSpec spec) = Inr order"
    and "ValidateDAG (DAGFromSpec spec) = Inr ()"
  shows "\<exists>ds starts. plan run (DAGFromSpec spec) stepByTask states stop order [] = Inr (ds, starts)"
proof (rule plan_decides [OF Validate_conditions_valid [OF assms(1)]])
  show "set order \<subseteq> set (taskNames (DAGFromSpec spec))"
    using TopologicalSort_order(2) [OF ValidateDAG_well_named(1) [OF assms(3)] assms(2)]
    by (simp add: taskNames_def task_names_def)
qed

theorem admitted_workflow_plans_witness:
  "\<exists>ds starts. plan sample_wrun (DAGFromSpec sample_workflow) Map.empty
     [''a'' \<mapsto> \<lparr>ss_Phase = Failed, ss_Attempt = 2, ss_DurationMs = 0\<rparr>] [] [''a'', ''b''] [] = Inr (ds, starts)"
proof (rule admitted_workflow_plans)
  show "WorkflowJobSpec_Validate sample_workflow = Inr ()" by code_simp
  show "TopologicalSort (DAGFromSpec sample_workflow) = Inr [''a'', ''b'']" by code_simp
  show "ValidateDAG (DAGFromSpec sample_workflow) = Inr ()" by code_simp
qed

section \<open>Lifecycle, Kubernetes objects and keys\<close>

text \<open>C33: A Job's name identifies its run and attempt: whatever the run is called it respects the 63-byte limit of
  Kubernetes, and as long as names fit the limit unabridged, two attempts share a name only if they are the same attempt
  of the same run.\<close>

theorem job_name_identifies_attempt:
  assumes "length (itoa (ji_Attempt i)) \<le> 50"
  shows "int (length (JobName sha i)) \<le> maxJobNameLength \<and>
    (\<forall>j. int (length (ji_RunName i) + length (itoa (ji_Attempt i))) \<le> 59 \<and>
         int (length (ji_RunName j) + length (itoa (ji_Attempt j))) \<le> 59 \<and>
         0 \<le> ji_Attempt i \<and> 0 \<le> ji_Attempt j \<and> JobName sha i = JobName sha j \<longrightarrow>
      ji_RunName i = ji_RunName j \<and> ji_Attempt i = ji_Attempt j)"
  using length_JobName [OF assms] JobName_short_inject [of i _ sha] by blast

theorem job_name_identifies_attempt_witness:
  "int (length (JobName (\<lambda>s. ''0123456789abcdef'') (name_identity (replicate 200 CHR ''x'') 1))) \<le> maxJobNameLength \<and>
   JobName (\<lambda>s. s) (name_identity ''r-1'' 1) \<noteq> JobName (\<lambda>s. s) (name_identity ''r'' 11)"
proof -
  have digits: "length (itoa 1) = 1" "length (itoa 11) = 2" by code_simp+
  have "JobName (\<lambda>s. s) (name_identity ''r-1'' 1) = JobName (\<lambda>s. s) (name_identity ''r'' 11) \<Longrightarrow> False"
    using job_name_identifies_attempt [of "name_identity ''r-1'' 1" "\<lambda>s. s"] digits
    by (force simp: name_identity_def)
  then show ?thesis
    using job_name_identifies_attempt [of "name_identity (replicate 200 CHR ''x'') 1" "\<lambda>s. ''0123456789abcdef''"] digits
    by (auto simp: name_identity_def)
qed

text \<open>C21: The identity written on a Job is the identity read back from it, and the ownership check accepts the Job for exactly the
  identities of that attempt: the same run name, the same attempt, and either no object UID to compare or the same UID. Every other
  identity is refused as foreign. The revision is not compared.\<close>

theorem job_identity_roundtrip:
  assumes "ji_RunName i \<noteq> []" and "1 \<le> ji_Attempt i" and "ji_Attempt i < 2 ^ 63"
  shows "IdentityFromJob (BuildJob sha i ns tmpl) = Inr i \<and>
    (if ji_RunName j = ji_RunName i \<and> ji_Attempt j = ji_Attempt i \<and> (ji_RunUID j = [] \<or> ji_RunUID j = ji_RunUID i)
     then ValidateOwnership (BuildJob sha i ns tmpl) j = Inr ()
     else \<exists>m. ValidateOwnership (BuildJob sha i ns tmpl) j = Inl (Wrapf m ErrForeignJob))"
  using IdentityFromJob_BuildJob [OF assms] ValidateOwnership_same [of j i] ValidateOwnership_other [of i j] by auto

theorem job_identity_roundtrip_witness:
  "IdentityFromJob stuck_job = Inr (name_identity ''r'' 1) \<and> ValidateOwnership stuck_job (name_identity ''r'' 1) = Inr ()
   \<and> (\<exists>m. ValidateOwnership stuck_job (name_identity ''r'' 2) = Inl (Wrapf m ErrForeignJob))"
  using job_identity_roundtrip [of "name_identity ''r'' 1" "\<lambda>s. s" "''n''" _ "name_identity ''r'' 2"]
    job_identity_roundtrip [of "name_identity ''r'' 1" "\<lambda>s. s" "''n''" _ "name_identity ''r'' 1"]
  unfolding stuck_job_def by (simp add: name_identity_def)

text \<open>The occurrence key separates occurrences: among texts on which the digest has no collision, and for
  instants the time format tells apart, the same revision and instant is the only source of a key.\<close>

theorem occurrence_key_identifies:
  assumes "inj_on sha texts" and "{occurrence_text rfc uid r t, occurrence_text rfc uid r' t'} \<subseteq> texts"
    and "rfc t = rfc t' \<longleftrightarrow> t = t'" and "OccurrenceKey sha rfc uid r t = OccurrenceKey sha rfc uid r' t'"
  shows "r = r' \<and> t = t'"
  using assms by (rule OccurrenceKey_inject)

theorem occurrence_key_identifies_witness:
  "OccurrenceKey (\<lambda>s. s) itoa ''u'' 1 12 \<noteq> OccurrenceKey (\<lambda>s. s) itoa ''u'' 11 2"
proof
  assume eq: "OccurrenceKey (\<lambda>s. s) itoa ''u'' 1 12 = OccurrenceKey (\<lambda>s. s) itoa ''u'' 11 2"
  have "inj_on (\<lambda>s::string. s) UNIV" "(itoa 12 = itoa 2) = (12 = (2::int))" by (simp_all add: inj_def)
  from occurrence_key_identifies [OF this(1) _ this(2) eq] show False by simp
qed

text \<open>A probe's URL cannot escape into the script: a POSIX shell reads the quoted text as one word that is
  the URL, whatever bytes it holds, and goes on after it.\<close>

theorem probe_url_stays_an_argument:
  assumes "rest = [] \<or> hd rest \<notin> {CHR 0x27, CHR 0x5C}"
  shows "sh_word False (shSingleQuote url @ rest) = Some (url, rest)"
  using assms by (rule sh_word_shSingleQuote)

theorem probe_url_stays_an_argument_witness:
  "sh_word False (shSingleQuote (''a'' @ [CHR 0x27] @ '';rm -rf'') @ ''); x'') = Some (''a'' @ [CHR 0x27] @ '';rm -rf'', ''); x'')"
  by (rule probe_url_stays_an_argument) simp

section \<open>Access control\<close>

text \<open>C22: A key can do no more than its creator: a request its effective documents allow is covered by an allow of the
  creator's documents, so the creator may make it too unless one of its own denies names it. When the key is created in the creator's
  own tenant, the request is also covered by the boundary the creator is subject to (a boundary does not follow a key into another
  tenant). No document may name the probe that stands for a wildcard.\<close>

theorem created_key_within_caller:
  assumes "auth_wf s" and "Creator_Create decode gen hash newID inp s = (Inr r, s')"
    and "EffectiveDocuments decode (ci_TenantID inp) newID s' = (Inr docs, v)" and "Evaluate docs req = DecisionAllow"
    and "probe_free (ca_Documents (ci_Caller inp))" and "probe_free (stored_documents decode (ci_TenantID inp) s)"
  shows "(Evaluate (ca_Documents (ci_Caller inp)) req = DecisionAllow \<or> denied (ca_Documents (ci_Caller inp)) req) \<and>
    (\<forall>b. ca_TenantID (ci_Caller inp) = ci_TenantID inp \<and> ca_BoundaryPolicyID (ci_Caller inp) \<noteq> [] \<and>
        Policy_Get decode (ci_TenantID inp) (ca_BoundaryPolicyID (ci_Caller inp)) s = (Inr b, s) \<longrightarrow>
      granted [rec_Document b] req)"
proof -
  from assms(4) have allowed: "granted docs req" by (simp add: Evaluate_allow)
  have "probe_free [d]" if "policy_document decode (ci_TenantID inp) s i d" for i d
    using probe_free_member [OF assms(6) policy_document_stored [OF that]] .
  then show ?thesis
    using created_key_covered [OF assms(1-3) allowed assms(5)] created_key_bounded [OF assms(1-3) allowed] Policy_Get_ok
    by (auto simp: Evaluate_allow)
qed

theorem created_key_within_caller_witness:
  "Evaluate (ca_Documents (ci_Caller sample_create)) (job_request ''x'') = DecisionAllow \<or>
   denied (ca_Documents (ci_Caller sample_create)) (job_request ''x'')"
proof -
  let ?run = "Creator_Create sample_decode (Inr ''otj_abcdefgh'') Inr ''n'' sample_create sample_auth"
  let ?eff = "EffectiveDocuments sample_decode ''t'' ''n'' sample_created"
  have "fst ?run = Inr (''n'', ''otj_abcdefgh'', ''otj_abcdefgh'')" by code_simp
  then have run: "?run = (Inr (''n'', ''otj_abcdefgh'', ''otj_abcdefgh''), sample_created)"
    unfolding sample_created_def by (metis prod.collapse)
  have t: "ci_TenantID sample_create = ''t''" by (simp add: sample_create_def)
  have "fst ?eff = Inr [ResolveSelf allow_jobs ''t'']" by code_simp
  then have eff: "EffectiveDocuments sample_decode (ci_TenantID sample_create) ''n'' sample_created
      = (Inr [ResolveSelf allow_jobs ''t''], snd ?eff)" unfolding t by (metis prod.collapse)
  have "Evaluate [ResolveSelf allow_jobs ''t''] (job_request ''x'') = DecisionAllow"
    "probe_free (ca_Documents (ci_Caller sample_create))" "probe_free (stored_documents sample_decode ''t'' sample_auth)"
    by code_simp+
  with created_key_within_caller [OF sample_auth_wf run eff] show ?thesis unfolding t by blast
qed

text \<open>C23: A permission boundary only ever narrows: what survives it is allowed by the documents and by the boundary, and a
  deny of either side still denies.\<close>

theorem boundary_only_narrows:
  assumes "probe_free [b]" and "Evaluate (Intersect docs b) req = DecisionAllow"
  shows "Evaluate docs req = DecisionAllow \<and> Evaluate [b] req = DecisionAllow"
  using assms by (rule Intersect_narrows)

theorem boundary_only_narrows_witness:
  "Evaluate [ResolveSelf allow_jobs ''t'', ResolveSelf deny_secret ''t''] (job_request ''x'') = DecisionAllow \<and>
   Evaluate [ResolveSelf allow_jobs ''t''] (job_request ''x'') = DecisionAllow"
  by (rule boundary_only_narrows) code_simp+

text \<open>C24: A policy written by a tenant stays in the tenant: once it passed validation, and resolved for that tenant, it
  allows only actions the platform knows, on resources of that tenant.\<close>

theorem tenant_policy_confined:
  assumes "ValidateTenantDocument doc = Inr ()" and "t \<noteq> ''*''" and "Evaluate [ResolveSelf doc t] req = DecisionAllow"
  shows "arn_Tenant (req_Resource req) = t \<and> IsKnownAction (req_Action req)"
  using tenant_document_confined [OF assms(1) _ assms(2)] assms(3) by (simp add: Evaluate_allow)

theorem tenant_policy_confined_witness:
  "arn_Tenant (req_Resource (job_request ''x'')) = ''t'' \<and> IsKnownAction (req_Action (job_request ''x''))"
  by (rule tenant_policy_confined [of allow_jobs]) code_simp+

text \<open>C25: A revoked key never authenticates again, whatever is done to the tables afterwards.\<close>

theorem revoked_key_never_authenticates:
  assumes "auth_wf s" and "APIKey_Revoke now t i ev s = (Inr (), s')" and "auth_history s' s''"
    and "validateAPIKey compare later key s'' = Some r"
  shows "ak_id r \<noteq> i"
  using revoked_never_validates [OF auth_history_revoked [OF assms(3) Revoke_revokes [OF assms(1,2)]] assms(4)] .

theorem revoked_key_never_authenticates_witness:
  "\<exists>r. validateAPIKey (=) 9 ''otj_abcdefgh'' (snd (APIKey_Revoke 8 ''t'' ''k''
       (newGrantEvent ''t'' [] ''revoke'' ''apikey'' ''k'' NoDiff) sample_created)) = Some r \<and> ak_id r \<noteq> ''k''"
proof -
  let ?ev = "newGrantEvent ''t'' [] ''revoke'' ''apikey'' ''k'' NoDiff"
  let ?m = "APIKey_Revoke 8 ''t'' ''k'' ?ev sample_created"
  let ?run = "Creator_Create sample_decode (Inr ''otj_abcdefgh'') Inr ''n'' sample_create sample_auth"
  have "fst ?run = Inr (''n'', ''otj_abcdefgh'', ''otj_abcdefgh'')" by code_simp
  then have "?run = (Inr (''n'', ''otj_abcdefgh'', ''otj_abcdefgh''), sample_created)"
    unfolding sample_created_def by (metis prod.collapse)
  from Creator_Create_wf [OF this sample_auth_wf] have wf: "auth_wf sample_created" .
  have "fst ?m = Inr ()" by code_simp
  then have m: "?m = (Inr (), snd ?m)" by (metis prod.collapse)
  have "validateAPIKey (=) 9 ''otj_abcdefgh'' (snd ?m) \<noteq> None" by code_simp
  then obtain r where "validateAPIKey (=) 9 ''otj_abcdefgh'' (snd ?m) = Some r" by blast
  with revoked_key_never_authenticates [OF wf m rtranclp.rtrancl_refl this] show ?thesis by blast
qed

section \<open>Checks, indicators and objectives\<close>

text \<open>C26: Every state of the monitoring tables that the writers of checks, indicators, objectives, budgets and alerts can produce, in any order and
  with any arguments, satisfies the constraints of the schema: identities are unique, references resolve, rows pass their \<open>CHECK\<close> constraints.\<close>

theorem monitor_reachable_wf:
  assumes "monitor_reachable dec s"
  shows "monitor_wf s"
  using assms by (rule reachable_wf)

theorem monitor_reachable_wf_witness:
  "monitor_wf (snd (CheckRepository_Create sample_check_spec ((empty_monitor [])\<lparr>mo_tenants := [sample_tenant]\<rparr>)))"
proof (rule monitor_reachable_wf [of "\<lambda>x. x"])
  have "monitor_step (\<lambda>x. x) (empty_monitor []) ((empty_monitor [])\<lparr>mo_tenants := [sample_tenant]\<rparr>)"
    using step_tenant [of "\<lambda>x. x" "empty_monitor []" sample_tenant] by (simp add: empty_monitor_def)
  then show "monitor_reachable (\<lambda>x. x) (snd (CheckRepository_Create sample_check_spec ((empty_monitor [])\<lparr>mo_tenants := [sample_tenant]\<rparr>)))"
    unfolding monitor_reachable_def monitor_history_def by (rule converse_rtranclp_into_rtranclp) (rule r_into_rtranclp, rule step_check_create)
qed

text \<open>C27: Whatever is called afterwards, a check keeps what it was created with: only its status, its cursor and its version change, a change of status
  and a deletion always take a new version, and a deleted check is frozen.\<close>

theorem check_row_history:
  assumes "monitor_wf s" and "monitor_history dec s t" and "r \<in> set (mo_checks s)" and "r' \<in> set (mo_checks t)"
    and "ck_ID (kr_snap r') = ck_ID (kr_snap r)"
  shows "kr_snap r' = (kr_snap r)\<lparr>ck_Status := ck_Status (kr_snap r'), ck_NextRunAt := ck_NextRunAt (kr_snap r'),
       ck_Version := ck_Version (kr_snap r'), ck_UpdatedAt := ck_UpdatedAt (kr_snap r')\<rparr> \<and>
     ck_Version (kr_snap r) \<le> ck_Version (kr_snap r') \<and>
     (ck_Status (kr_snap r') \<noteq> ck_Status (kr_snap r) \<or> kr_deleted r' \<noteq> kr_deleted r \<longrightarrow> ck_Version (kr_snap r) < ck_Version (kr_snap r')) \<and>
     (kr_deleted r \<noteq> None \<longrightarrow> r' = r)"
  using check_row_evolves [OF assms] by (simp add: check_evolves_def)

theorem check_row_history_witness:
  "ck_Version sample_check < ck_Version (kr_snap (hd (mo_checks (snd (CheckRepository_ChangeStatus ''t'' [] 1 1 ''pause'' sample_monitor)))))"
proof -
  let ?m = "snd (CheckRepository_ChangeStatus ''t'' [] 1 1 ''pause'' sample_monitor)"
  have mem: "\<lparr>kr_snap = sample_check, kr_deleted = None\<rparr> \<in> set (mo_checks sample_monitor)" by (simp add: sample_monitor_def)
  have ne: "mo_checks ?m \<noteq> []" and id: "ck_ID (kr_snap (hd (mo_checks ?m))) = 1" and st: "ck_Status (kr_snap (hd (mo_checks ?m))) \<noteq> ''active''"
    by code_simp+
  have "monitor_history (\<lambda>x. x) sample_monitor ?m" unfolding monitor_history_def by (rule r_into_rtranclp [of "monitor_step (\<lambda>x. x)", OF step_check_status])
  from check_row_history [OF sample_monitor_wf this mem hd_in_set [OF ne]] id st show ?thesis by (simp add: sample_check_def)
qed

text \<open>C28: What the validation of a new check accepts, the table stores: the row satisfies every constraint, is active at version one, and the projector
  renders a Job from it. The one refusal is a value its column cannot hold: a number out of the column's range, a text that is not UTF-8 or has a zero byte, a
  group id that is too long, or a document with a zero character; then nothing is stored.\<close>

theorem check_accepted_is_storable:
  assumes "Check_NormalizeCreate lb now inp = Inr spec" and "cks_TenantID spec \<in> set (mo_tenants s)"
  shows "if check_values_fit spec
    then \<exists>c s'. CheckRepository_Create spec s = (Inr c, s') \<and> mo_checks s' = mo_checks s @ [\<lparr>kr_snap = c, kr_deleted = None\<rparr>]
      \<and> check_row_ok c \<and> ck_ID c = mo_check_seq s \<and> ck_Status c = StatusActive \<and> ck_Version c = 1
      \<and> (\<exists>j. CheckJobSpec lb c = Inr j \<and> ss_TimeoutSeconds j = ck_TimeoutSec c \<and> jt_Image (ss_JobTemplate j) = ProbeImage)
    else CheckRepository_Create spec s = (Inl (Wrapf ''insert check'' (DbError ''value not of the column type'')), s)"
  by (rule accepted_check_created [OF assms])

theorem check_accepted_is_storable_witness:
  "\<exists>c s'. CheckRepository_Create sample_check_spec (empty_monitor [sample_tenant]) = (Inr c, s') \<and> check_row_ok c \<and> ck_Version c = 1"
proof -
  have "Check_NormalizeCreate sample_libs 7 sample_check_input = Inr sample_check_spec" and fit: "check_values_fit sample_check_spec"
    and "cks_TenantID sample_check_spec \<in> set (mo_tenants (empty_monitor [sample_tenant]))" by code_simp+
  from check_accepted_is_storable [OF this(1,3)] fit show ?thesis by auto
qed

text \<open>C29: A check fired any number of times for one due instant, with any faults before, between and after its calls, gets at most one run.\<close>

theorem check_fired_once:
  assumes "undisturbed env" and "ck_NextRunAt c = Some due" and "ledger_wf (w_ledger (sw_world v))"
    and "io_iter (\<lambda>now. io_bind (io_try (fireCheck lb x env other uc sc c now)) (\<lambda>_. io_return ())) nows v = (r, u)"
  shows "length (runs_of (CheckSourceUID (ck_ID c)) (w_ledger (sw_world u)))
    \<le> Suc (length (runs_of (CheckSourceUID (ck_ID c)) (w_ledger (sw_world v))))"
  by (rule firings_one_more [OF assms])

theorem check_fired_once_witness:
  "length (runs_of (CheckSourceUID 1) (w_ledger (sw_world (snd (io_iter (\<lambda>now. io_bind (io_try (fireCheck sample_libs sample_ext (quiet 7)
     (\<lambda>_ s. s) sample_tick sample_scope sample_check now)) (\<lambda>_. io_return ())) [7, 8] monitor_world))))) \<le> 1"
proof -
  have c: "ck_NextRunAt sample_check = Some 5" "ck_ID sample_check = 1" by (simp_all add: sample_check_def)
  have wf: "ledger_wf (w_ledger (sw_world monitor_world))" using sample_wf by (simp add: monitor_world_def sample_world_def)
  have "runs_of (CheckSourceUID 1) (w_ledger (sw_world monitor_world)) = []" by code_simp
  with check_fired_once [OF undisturbed_quiet c(1) wf prod.collapse [symmetric]] show ?thesis by (simp add: c(2) del: io_iter.simps)
qed

text \<open>C30: A firing that returns has recorded a run for the due instant, and has moved the cursor past the instant of the firing; except that a run that
  had already finished leaves the cursor where it was.\<close>

theorem check_firing_advances:
  assumes "undisturbed env" and "\<And>n s. other n s = s" and "ck_NextRunAt c = Some due"
    and "fireCheck lb x env other uc sc c now v = (Inr k, u)"
    and "\<And>e sched. ck_CronExpr c = Some e \<Longrightarrow> lb_cron lb e = Inr sched \<Longrightarrow> now < sched DefaultTimezone now"
    and "\<And>n. ck_IntervalSec c = Some n \<Longrightarrow> 1 \<le> n \<and> int4 n"
    and "row \<in> set (mo_checks (sw_store v))" and "live_check (sp_TenantID sc) (ck_ID c) row"
  shows "\<exists>i run. run \<in> set (lg_runs (w_ledger (sw_world u))) \<and> rn_tenant run = sp_TenantID sc \<and> rn_source_uid run = CheckSourceUID (ck_ID c) \<and>
    rn_occurrence_key run = OccurrenceKey (ex_sha x) (ex_rfc x) (CheckSourceUID (ck_ID c)) i due \<and>
    (Terminal (rn_phase run) \<and> k = 0 \<and> sw_store u = sw_store v \<or>
     row\<lparr>kr_snap := (kr_snap row)\<lparr>ck_NextRunAt := Some (nextRunAt lb c now), ck_UpdatedAt := mo_clock (sw_store v)\<rparr>\<rparr> \<in> set (mo_checks (sw_store u))
     \<and> now < nextRunAt lb c now)"
proof -
  from assms(1-4) obtain i st isNew l m where create: "CreateOccurrenceForTenant (sp_TenantID sc) (check_run (CheckSourceUID (ck_ID c)) i
        (OccurrenceKey (ex_sha x) (ex_rfc x) (CheckSourceUID (ck_ID c)) i due) due) (ck_RetryLimit c + 1) ActorCheckScheduler l
      = (Inr (st, isNew), m)" and m: "w_ledger (sw_world u) = m" and k: "k = (if isNew then 1 else 0)"
    and cursor: "if \<not> isNew \<and> Terminal (sr_Phase st) then sw_store u = sw_store v
         else CheckRepository_UpdateNextRunAt (sp_TenantID sc) (ck_ID c) (nextRunAt lb c now) (sw_store v) = (Inr (), sw_store u)"
    by (rule fireCheck_InrD)
  from CreateOccurrence_row [OF create] obtain run where run: "run \<in> set (lg_runs m)" "st = stored_of run" "rn_tenant run = sp_TenantID sc"
      "rn_source_uid run = CheckSourceUID (ck_ID c)"
      "rn_occurrence_key run = OccurrenceKey (ex_sha x) (ex_rfc x) (CheckSourceUID (ck_ID c)) i due"
    by (auto simp: check_run_def)
  have "Terminal (rn_phase run) \<and> k = 0 \<and> sw_store u = sw_store v \<or>
     row\<lparr>kr_snap := (kr_snap row)\<lparr>ck_NextRunAt := Some (nextRunAt lb c now), ck_UpdatedAt := mo_clock (sw_store v)\<rparr>\<rparr> \<in> set (mo_checks (sw_store u))
     \<and> now < nextRunAt lb c now"
  proof (cases "\<not> isNew \<and> Terminal (sr_Phase st)")
    case True with cursor k run(2) show ?thesis by (simp add: stored_of_def StoredRun_zero_def)
  next
    case False
    have "now < nextRunAt lb c now" using assms(5,6) by (rule nextRunAt_after)
    moreover have "mo_checks (sw_store u) = map (\<lambda>row. if live_check (sp_TenantID sc) (ck_ID c) row
        then row\<lparr>kr_snap := (kr_snap row)\<lparr>ck_NextRunAt := Some (nextRunAt lb c now), ck_UpdatedAt := mo_clock (sw_store v)\<rparr>\<rparr> else row)
        (mo_checks (sw_store v))"
    proof -
      from cursor False have "CheckRepository_UpdateNextRunAt (sp_TenantID sc) (ck_ID c) (nextRunAt lb c now) (sw_store v) = (Inr (), sw_store u)"
        by (simp only: if_False)
      from UpdateNextRunAt_store [OF this] show ?thesis by simp
    qed
    ultimately show ?thesis using assms(7,8) by auto
  qed
  with run m show ?thesis by blast
qed

theorem check_firing_advances_witness:
  "\<exists>row \<in> set (mo_checks (sw_store (snd (fireCheck sample_libs sample_ext (quiet 7) (\<lambda>_ s. s) sample_tick sample_scope sample_check 7 monitor_world)))).
     ck_NextRunAt (kr_snap row) = Some (nextRunAt sample_libs sample_check 7)"
proof -
  let ?run = "fireCheck sample_libs sample_ext (quiet 7) (\<lambda>_ s. s) sample_tick sample_scope sample_check 7 monitor_world"
  let ?row = "\<lparr>kr_snap = sample_check, kr_deleted = None\<rparr>"
  have "fst ?run = Inr 1" by code_simp
  then have run: "?run = (Inr 1, snd ?run)" by (metis prod.collapse)
  have due: "ck_NextRunAt sample_check = Some 5" by (simp add: sample_check_def)
  have cron: "ck_CronExpr sample_check = Some e \<Longrightarrow> lb_cron sample_libs e = Inr sched \<Longrightarrow> 7 < sched DefaultTimezone 7" for e sched
    by (simp add: sample_check_def)
  have iv: "ck_IntervalSec sample_check = Some n \<Longrightarrow> 1 \<le> n \<and> int4 n" for n by (auto simp: sample_check_def int4_def)
  have row: "?row \<in> set (mo_checks (sw_store monitor_world))" "live_check (sp_TenantID sample_scope) (ck_ID sample_check) ?row" by code_simp+
  have "\<exists>i r. r \<in> set (lg_runs (w_ledger (sw_world (snd ?run)))) \<and> rn_tenant r = sp_TenantID sample_scope \<and>
      rn_source_uid r = CheckSourceUID (ck_ID sample_check) \<and>
      rn_occurrence_key r = OccurrenceKey (ex_sha sample_ext) (ex_rfc sample_ext) (CheckSourceUID (ck_ID sample_check)) i 5 \<and>
      (Terminal (rn_phase r) \<and> (1::int) = 0 \<and> sw_store (snd ?run) = sw_store monitor_world \<or>
       ?row\<lparr>kr_snap := (kr_snap ?row)\<lparr>ck_NextRunAt := Some (nextRunAt sample_libs sample_check 7), ck_UpdatedAt := mo_clock (sw_store monitor_world)\<rparr>\<rparr>
         \<in> set (mo_checks (sw_store (snd ?run))) \<and> 7 < nextRunAt sample_libs sample_check 7)"
    by (rule check_firing_advances [OF undisturbed_quiet refl due run]) (fact cron iv row)+
  then show ?thesis by force
qed

text \<open>C31: Recording a finished run adds it once to the current window of every indicator that sources from it, as good exactly when its criteria say so;
  an indicator that cannot be evaluated, every other indicator and every other window stay as they are.\<close>

theorem sli_events_counted:
  assumes "calm env other" and "monitor_wf (sw_store v)" and "t \<in> set (mo_tenants (sw_store v))" and "row \<in> set (mo_slis (sw_store v))"
    and "recordSLIEvents env other t out v = (r, u)"
  shows "r = Inr () \<and> (\<forall>start. counted t (si_ID (lr_snap row)) start (sw_store u) =
      (if sources_from t (to_SourceUID out) row \<and> start = time_Truncate (en_now env (w_tick (sw_world v) + 1)) snapshotWindow then
         (fst (counted t (si_ID (lr_snap row)) start (sw_store v)) + fst (event_counts (outcome_event out) (lr_snap row)),
          snd (counted t (si_ID (lr_snap row)) start (sw_store v)) + snd (event_counts (outcome_event out) (lr_snap row)))
       else counted t (si_ID (lr_snap row)) start (sw_store v)))"
  using recordSLIEvents_counted [OF assms(1-3), of out] assms(4,5) by (metis (no_types, lifting) Pair_inject)

theorem sli_events_counted_witness:
  "counted ''t'' 1 0 (sw_store (snd (recordSLIEvents (quiet 7) (\<lambda>_ s. s) ''t'' sample_outcome monitor_world))) = (1, 9)"
proof -
  let ?row = "\<lparr>lr_snap = sample_sli, lr_group = [], lr_deleted = None\<rparr>"
  have wf: "monitor_wf (sw_store monitor_world)" using sample_monitor_wf by (simp add: monitor_world_def)
  have t: "''t'' \<in> set (mo_tenants (sw_store monitor_world))" and row: "?row \<in> set (mo_slis (sw_store monitor_world))" by code_simp+
  have "sources_from ''t'' (to_SourceUID sample_outcome) ?row" and "time_Truncate 7 snapshotWindow = 0" and "event_counts (outcome_event sample_outcome) sample_sli = (1, 1)"
    and "counted ''t'' 1 0 (sw_store monitor_world) = (0, 8)" by code_simp+
  moreover have "en_now (quiet 7) n = 7" and "si_ID (lr_snap ?row) = 1" for n by (simp_all add: quiet_def sample_sli_def)
  ultimately show ?thesis using sli_events_counted [OF calm_quiet wf t row prod.collapse [symmetric], of 7 sample_outcome] by simp
qed

text \<open>C32: After an evaluation of an objective whose window has events, an alert of each kind is active exactly when the burn rate has reached its
  threshold, and none is raised twice.\<close>

theorem slo_alerts_match_burn_rate:
  assumes "\<And>n s. other n s = s" and "evaluateSLO dec env other t s v = (Inr u, v')" and "now = en_now env (w_tick (sw_world v))"
    and "wa_TotalEventsCount (window_events t (so_SLIID s) (slo_window s now) (sw_store v)) \<noteq> 0"
    and "rate = bu_BurnRate (window_budget t s (slo_window s now) (window_events t (so_SLIID s) (slo_window s now) (sw_store v)) now)"
  shows "(active_of t (so_ID s) ''fast_burn'' (sw_store v') \<noteq> [] \<longleftrightarrow> so_AlertFastBurnRate s \<le> rate) \<and>
    (active_of t (so_ID s) ''slow_burn'' (sw_store v') \<noteq> [] \<longleftrightarrow> so_AlertSlowBurnRate s \<le> rate) \<and>
    length (active_of t (so_ID s) ty (sw_store v')) \<le> max 1 (length (active_of t (so_ID s) ty (sw_store v)))"
proof -
  from evaluateSLO_InrD [OF assms(1,2) assms(4) [unfolded assms(3)]] obtain b v1 where man: "manageAlerts dec env other t s b v1 = (Inr u, v')"
    and same: "mo_alerts (sw_store v1) = mo_alerts (sw_store v)" and rate: "bu_BurnRate b = rate"
    unfolding assms(5) assms(3) by blast
  from same have "active_of t (so_ID s) ty (sw_store v1) = active_of t (so_ID s) ty (sw_store v)" by (simp add: active_of_def)
  with manageAlerts_ok(1,2) [OF assms(1) man] manageAlerts_ok(3) [OF assms(1) man, of ty] rate show ?thesis by simp
qed

theorem slo_alerts_match_burn_rate_witness:
  "active_of ''t'' 1 ''fast_burn'' (sw_store (snd (evaluateSLO (\<lambda>x. x) (quiet 7) (\<lambda>_ s. s) ''t'' sample_slo monitor_world))) \<noteq> []"
proof -
  let ?run = "evaluateSLO (\<lambda>x. x) (quiet 7) (\<lambda>_ s. s) ''t'' sample_slo monitor_world"
  have "fst ?run = Inr ()" by code_simp
  then have run: "?run = (Inr (), snd ?run)" by (metis prod.collapse)
  let ?e = "window_events ''t'' (so_SLIID sample_slo) (slo_window sample_slo 7) (sw_store monitor_world)"
  have n: "wa_TotalEventsCount ?e \<noteq> 0" and rate: "so_AlertFastBurnRate sample_slo \<le> bu_BurnRate (window_budget ''t'' sample_slo (slo_window sample_slo 7) ?e 7)"
    by code_simp+
  have now: "7 = en_now (quiet 7) (w_tick (sw_world monitor_world))" by (simp add: quiet_def)
  from slo_alerts_match_burn_rate [OF _ run now n refl] rate show ?thesis by (simp add: sample_slo_def)
qed

text \<open>The check scheduler, the recorder of outcomes, the evaluator of objectives and every monitoring command of the admin API keep the schema of the
  monitoring tables and only evolve the ledger, on every path and under every fault, provided the other writers do.\<close>

theorem services_keep_invariants:
  assumes "\<And>n l. ledger_evolves l (en_other env n l)" and "\<And>n s. monitor_kept s (other n s)"
  shows "io_keeps (on_service ledger_evolves monitor_kept) (Check_RunBatch lb x env other uc sc k) \<and>
    io_keeps (on_service ledger_evolves monitor_kept) (RecordTerminalPhase x env other t i p) \<and>
    io_keeps (on_service ledger_evolves monitor_kept) (EvaluateAll dec env other t) \<and>
    io_keeps (on_service ledger_evolves monitor_kept) (CreateCheck lb env other cin) \<and>
    io_keeps (on_service ledger_evolves monitor_kept) (PauseCheck env other inp) \<and>
    io_keeps (on_service ledger_evolves monitor_kept) (ResumeCheck env other inp) \<and>
    io_keeps (on_service ledger_evolves monitor_kept) (DeleteCheck env other inp) \<and>
    io_keeps (on_service ledger_evolves monitor_kept) (CreateSLI env other t lin) \<and>
    io_keeps (on_service ledger_evolves monitor_kept) (DeleteSLI env other inp) \<and>
    io_keeps (on_service ledger_evolves monitor_kept) (CreateSLO dec env other t oin) \<and>
    io_keeps (on_service ledger_evolves monitor_kept) (DeleteSLO env other inp) \<and>
    io_keeps (on_service ledger_evolves monitor_kept) (PauseSLO env other inp) \<and>
    io_keeps (on_service ledger_evolves monitor_kept) (ResumeSLO env other inp)"
proof -
  have checks: "check_scheduling_store ledger_evolves env monitor_kept other" and observe: "observation_store ledger_evolves env monitor_kept other"
    and evaluate: "evaluation_store ledger_evolves env monitor_kept other dec" and admin: "admin_monitor_store ledger_evolves env monitor_kept other dec"
    using assms by (rule check_scheduling_evolves observation_evolves evaluation_evolves admin_monitor_evolves)+
  show ?thesis
    by (intro conjI check_scheduling_store.RunBatch_keeps [OF checks] observation_store.RecordTerminalPhase_keeps [OF observe]
        evaluation_store.EvaluateAll_keeps [OF evaluate] admin_monitor_store.commands_keep [OF admin])
qed

theorem services_keep_invariants_witness:
  "on_service ledger_evolves monitor_kept monitor_world (snd (Check_RunBatch sample_libs sample_ext (quiet 7) (\<lambda>_ s. s) sample_tick sample_scope 5 monitor_world))"
proof -
  have "ledger_evolves l (en_other (quiet 7) n l)" and "monitor_kept s s" for n l s
    using ledger_evolves_refl by (simp_all add: quiet_def reflp_def monitor_kept_def)
  from services_keep_invariants [of "quiet 7" "\<lambda>_ s. s", OF this, THEN conjunct1, THEN io_keepsD] show ?thesis .
qed

section \<open>Triggers, invocations and cancellation\<close>

text \<open>C34: However often a trigger with one idempotency key is sent, and whatever fails in between, at most one run object is created, every answer names
  it, and no other object changes.\<close>

theorem trigger_one_object:
  assumes "jobrun_server api obj" and "history_kept env" and "ledger_wf (w_ledger w)"
    and "row \<in> set (lg_revisions (w_ledger w))" and "rev_ID (vr_rev row) = tr_JobID inp" and "TrimSpace (tr_IdempotencyKey inp) \<noteq> []"
    and "all_calls (map (\<lambda>nonce. Trigger x env nonce api inp) nonces) w = (Inr rs, w')"
    and "ns = id_Namespace (rev_Identity (vr_rev row))" and "n = trigger_name x inp row"
  shows "(\<forall>a \<in> set (answers rs). tr_Namespace a = ns \<and> tr_Name a = n \<and> tr_OccurrenceKey a = trigger_key x inp row) \<and>
    length (filter tr_Created (answers rs)) \<le> 1 \<and>
    (\<forall>a b. (a, b) \<noteq> (ns, n) \<longrightarrow> obj (w_cluster w') a b = obj (w_cluster w) a b) \<and>
    (obj (w_cluster w) ns n \<noteq> None \<longrightarrow> obj (w_cluster w') ns n = obj (w_cluster w) ns n)"
proof -
  have "history_of (w_ledger w) w" using assms(3) by (simp add: revisions_kept_def)
  moreover have "\<forall>m \<in> set (map (\<lambda>nonce. Trigger x env nonce api inp) nonces). publishes obj w_cluster ns n (history_of (w_ledger w))
      (\<lambda>a. tr_Namespace a = ns \<and> tr_Name a = n \<and> tr_OccurrenceKey a = trigger_key x inp row) tr_Created m"
    unfolding assms(8,9) using Trigger_publishes [OF assms(1,2,4,5,6)] by auto
  note calls = all_calls_publish [where P = "history_of (w_ledger w)", OF this _ assms(7)]
  ultimately have "only_at obj ns n (w_cluster w) (w_cluster w') \<and> (obj (w_cluster w) ns n \<noteq> None \<longrightarrow> obj (w_cluster w') ns n = obj (w_cluster w) ns n)
    \<and> list_all (\<lambda>a. tr_Namespace a = ns \<and> tr_Name a = n \<and> tr_OccurrenceKey a = trigger_key x inp row) (answers rs)
    \<and> length (filter tr_Created (answers rs)) \<le> (if obj (w_cluster w) ns n = None then 1 else 0)" using calls by blast
  then show ?thesis by (auto simp: only_at_def list_all_iff split: if_splits)
qed

theorem trigger_one_object_witness:
  "\<exists>rs w'. all_calls [Trigger sample_ext (quiet 7) (Inr ''x'') sample_api sample_trigger, Trigger sample_ext (quiet 7) (Inr ''y'') sample_api sample_trigger] api_world = (Inr rs, w')
     \<and> length (answers rs) = 2 \<and> length (filter tr_Created (answers rs)) \<le> 1"
proof -
  let ?run = "all_calls (map (\<lambda>nonce. Trigger sample_ext (quiet 7) nonce sample_api sample_trigger) [Inr ''x'', Inr ''y'']) api_world"
  let ?row = "\<lparr>vr_tenant = sample_tenant, vr_rev = sample_revision, vr_active = True\<rparr>"
  obtain rs w' where run: "?run = (Inr rs, w')" using all_calls_InrD by (metis prod.exhaust)
  have "(case fst ?run of Inr rs \<Rightarrow> length (answers rs) = 2 | _ \<Rightarrow> False)" by code_simp
  then have two: "length (answers rs) = 2" unfolding run by simp
  have kept: "history_kept (quiet 7)" using ledger_evolves_refl by (simp add: history_kept_def quiet_def reflp_def)
  have wf: "ledger_wf (w_ledger api_world)" using tenant_wf by (simp add: api_world_def)
  have row: "?row \<in> set (lg_revisions (w_ledger api_world))" "rev_ID (vr_rev ?row) = tr_JobID sample_trigger" "TrimSpace (tr_IdempotencyKey sample_trigger) \<noteq> []"
    by (simp_all add: api_world_def tenant_ledger_def sample_revision_def sample_trigger_def TrimSpace_def is_space_def)
  from trigger_one_object [OF sample_server kept wf row run refl refl] run two show ?thesis by (simp del: all_calls.simps)
qed

text \<open>However often a function is invoked with one idempotency key, at most one run object is created, every answer names it, and no other object
  changes, as long as the function stays projected into one namespace.\<close>

theorem invoke_one_object:
  assumes "jobrun_server api obj" and "TrimSpace (iv_IdempotencyKey inp) \<noteq> []"
    and "\<And>k l. function_in (TrimSpace (iv_TenantID inp)) (iv_FunctionID inp) ns l \<Longrightarrow>
        function_in (TrimSpace (iv_TenantID inp)) (iv_FunctionID inp) ns (en_other env k l)"
    and "function_in (TrimSpace (iv_TenantID inp)) (iv_FunctionID inp) ns (w_ledger (sw_world v))"
    and "all_calls (map (\<lambda>nonce. Invoke x env other done nonce api interval fuel inp) nonces) v = (Inr rs, v')"
    and "n = invoke_name x inp"
  shows "(\<forall>res. Some res \<in> set (answers rs) \<longrightarrow> ir_Namespace res = ns \<and> ir_Name res = n \<and> ir_OccurrenceKey res = invoke_key x inp) \<and>
    length (filter (\<lambda>a. \<exists>res. a = Some res \<and> ir_Created res) (answers rs)) \<le> 1 \<and>
    (\<forall>a b. (a, b) \<noteq> (ns, n) \<longrightarrow> obj (w_cluster (sw_world v')) a b = obj (w_cluster (sw_world v)) a b) \<and>
    (obj (w_cluster (sw_world v)) ns n \<noteq> None \<longrightarrow> obj (w_cluster (sw_world v')) ns n = obj (w_cluster (sw_world v)) ns n)"
proof -
  let ?P = "\<lambda>v. function_in (TrimSpace (iv_TenantID inp)) (iv_FunctionID inp) ns (w_ledger (sw_world v))"
  let ?G = "\<lambda>a. \<forall>res. a = Some res \<longrightarrow> ir_Namespace res = ns \<and> ir_Name res = n \<and> ir_OccurrenceKey res = invoke_key x inp"
  have "publishes obj (\<lambda>v. w_cluster (sw_world v)) ns n ?P ?G (\<lambda>a. \<exists>res. a = Some res \<and> ir_Created res)
      (Invoke x env other done nonce api interval fuel inp)" for nonce
    unfolding assms(6) using assms(1,2,3) by (rule Invoke_publishes)
  then have "\<forall>m \<in> set (map (\<lambda>nonce. Invoke x env other done nonce api interval fuel inp) nonces). publishes obj (\<lambda>v. w_cluster (sw_world v)) ns n ?P ?G
      (\<lambda>a. \<exists>res. a = Some res \<and> ir_Created res) m" by auto
  from all_calls_publish [where P = ?P, OF this assms(4,5)]
  show ?thesis by (auto simp: only_at_def list_all_iff split: if_splits)
qed

theorem invoke_one_object_witness:
  "\<exists>rs v'. all_calls (map (\<lambda>nonce. Invoke sample_ext (quiet 7) (\<lambda>_ s. s) (\<lambda>_. False) nonce sample_api 0 1 sample_invoke) [Inr ''x'', Inr ''y'']) function_world = (Inr rs, v')
     \<and> length (answers rs) = 2 \<and> length (filter (\<lambda>a. \<exists>res. a = Some res \<and> ir_Created res) (answers rs)) \<le> 1"
proof -
  let ?run = "all_calls (map (\<lambda>nonce. Invoke sample_ext (quiet 7) (\<lambda>_ s. s) (\<lambda>_. False) nonce sample_api 0 1 sample_invoke) [Inr ''x'', Inr ''y'']) function_world"
  obtain rs v' where run: "?run = (Inr rs, v')" using all_calls_InrD by (metis prod.exhaust)
  have "(case fst ?run of Inr rs \<Rightarrow> length (answers rs) = 2 | _ \<Rightarrow> False)" by code_simp
  then have two: "length (answers rs) = 2" unfolding run by simp
  have key: "TrimSpace (iv_IdempotencyKey sample_invoke) \<noteq> []" by code_simp
  have others: "function_in (TrimSpace (iv_TenantID sample_invoke)) (iv_FunctionID sample_invoke) ''n'' l \<Longrightarrow>
      function_in (TrimSpace (iv_TenantID sample_invoke)) (iv_FunctionID sample_invoke) ''n'' (en_other (quiet 7) k l)" for k l by (simp add: quiet_def)
  have here: "function_in (TrimSpace (iv_TenantID sample_invoke)) (iv_FunctionID sample_invoke) ''n'' (w_ledger (sw_world function_world))" by code_simp
  from invoke_one_object [OF sample_server key others here run refl] run two show ?thesis by (simp del: all_calls.simps)
qed

text \<open>C35: An invocation that waits for its run ends. The clock need only never go back; between two polls the process sleeps for the polling
  interval, so the deadline, at most 60 seconds after the first reading, is passed before the fuel that covers it is used up.\<close>

theorem invoke_ends:
  assumes "mono (en_now env)" and "maxInvokeWaitSeconds * second_ns < int fuel * poll_interval interval"
  shows "\<exists>r u. Invoke x env other done nonce api interval fuel inp v = (r, u) \<and> r \<noteq> Inr None"
  using Invoke_ends [OF assms prod.collapse [symmetric]] by (metis prod.collapse)

theorem invoke_ends_witness:
  "\<exists>r u. Invoke sample_ext ticking (\<lambda>_ s. s) (\<lambda>_. False) (Inr ''x'') sample_api 0 61 (sample_invoke\<lparr>iv_WaitSeconds := 60\<rparr>) function_world = (r, u) \<and> r \<noteq> Inr None"
  by (rule invoke_ends) (simp_all add: mono_def ticking_def poll_interval_def invokePollInterval_def maxInvokeWaitSeconds_def)

text \<open>C36: A request to cancel a run writes nothing to the ledger, and patches no object or the object of an unfinished run that the ledger has
  under that tenant and id.\<close>

theorem cancel_patches_open_run_only:
  assumes "Cancel env api inp w = (r, w')" and "l = en_other env (w_tick w) (w_ledger w)"
  shows "(w_ledger w' = w_ledger w \<or> w_ledger w' = l) \<and>
    (w_cluster w' = w_cluster w \<or> (\<exists>row rv. run_by_id (TrimSpace (gt_TenantID inp)) (gt_ID inp) l = Some row \<and> rv \<in> set (lg_revisions l)
       \<and> rev_ID (vr_rev rv) = rn_revision_id row \<and> \<not> Terminal (rn_phase row) \<and> gt_ResourceGroupID inp = []
       \<and> w_cluster w' = snd (ra_Cancel api (id_Namespace (rev_Identity (vr_rev rv)))
            (RunObjectName (id_Name (rev_Identity (vr_rev rv))) (rn_occurrence_key row)) (w_cluster w))))"
  using Cancel_outcome [OF assms(1)] unfolding assms(2) by blast

theorem cancel_patches_open_run_only_witness:
  "w_ledger (snd (Cancel (quiet 7) sample_api \<lparr>gt_TenantID = sample_tenant, gt_ID = 1, gt_ResourceGroupID = []\<rparr> api_world)) = tenant_ledger"
  using cancel_patches_open_run_only [OF prod.collapse [symmetric] refl, of "quiet 7" sample_api "\<lparr>gt_TenantID = sample_tenant, gt_ID = 1, gt_ResourceGroupID = []\<rparr>" api_world]
  by (auto simp: quiet_def api_world_def)

text \<open>A function the synchronisation projected is invocable: the active revision an invocation reads is the one of the current version.\<close>

theorem synced_function_invocable:
  assumes "undisturbed env" and "ledger_wf (w_ledger w)" and "ApplyFunction x env d ns t a w = (Inr i, w')"
  shows "\<exists>row \<in> set (lg_revisions (w_ledger w')). rev_Generation (vr_rev row) = fd_Version d \<and> rev_ID (vr_rev row) = i
    \<and> ActiveFunctionRevision t (Function_SourceUID (fd_ID d)) (w_ledger w') = (Inr (i, id_Namespace (rev_Identity (vr_rev row))), w_ledger w')"
  using assms by (rule ApplyFunction_active)

theorem synced_function_invocable_witness:
  "\<exists>i ns. ActiveFunctionRevision sample_tenant (Function_SourceUID 4) function_ledger = (Inr (i, ns), function_ledger)"
proof -
  let ?run = "ApplyFunction sample_ext (quiet 7) sample_function ''n'' sample_tenant ActorFunctionSync api_world"
  have "fst ?run = Inr 2" by code_simp
  then have run: "?run = (Inr 2, snd ?run)" by (metis prod.collapse)
  have "ledger_wf (w_ledger api_world)" using tenant_wf by (simp add: api_world_def)
  from synced_function_invocable [OF undisturbed_quiet this run] show ?thesis by (auto simp: function_ledger_def sample_function_def)
qed

text \<open>C37: The loop that lists functions returns the page of the definitions the caller may see, from the smallest id to the
  largest, so the oldest come first (the comment of the loop calls the order newest first).\<close>

theorem function_list_is_page:
  assumes "calm env other" and "length (TrimSpace t) = 26"
  shows "fst (ListFunctions env other t scope limit offset v) =
    Inr (take (nat (normalizeListLimit limit)) (drop (nat offset) (filter (\<lambda>d. visibleToGroup (fd_ResourceGroupID d) scope)
      (sort_key fd_ID (map fw_def (filter (\<lambda>r. fd_TenantID (fw_def r) = TrimSpace t \<and> fw_deleted r = None) (fn_defs (sw_store v))))))))"
proof -
  have "0 \<le> normalizeListLimit limit" by (simp add: normalizeListLimit_def defaultListPageLimit_def maxListPageLimit_def)
  note page = list_loop_page [OF this, of scope offset _ 0]
  show ?thesis using assms
    by (simp add: ListFunctions_def io_simps http_normalizeTenantID_def db_call_calm Function_ListForTenant_def listScoped_def page)
qed

theorem function_list_is_page_witness:
  "fst (ListFunctions (quiet 7) (\<lambda>_ s. s) sample_tenant [] 10 0 function_world) = Inr [sample_function]"
proof -
  have "take (nat (normalizeListLimit 10)) (drop (nat 0) (filter (\<lambda>d. visibleToGroup (fd_ResourceGroupID d) [])
      (sort_key fd_ID (map fw_def (filter (\<lambda>r. fd_TenantID (fw_def r) = TrimSpace sample_tenant \<and> fw_deleted r = None) (fn_defs (sw_store function_world))))))) = [sample_function]"
    and "length (TrimSpace sample_tenant) = 26" by code_simp+
  with function_list_is_page [OF calm_quiet, of sample_tenant 7 "[]" 10 0 function_world] show ?thesis by simp
qed

section \<open>The admin API\<close>

text \<open>C38: The rate limiter keeps its promise in both directions, whatever the environment configures. In any window of any
  history of requests and reaper ticks, in the order of their clock readings, the requests of one tenant let through in one
  endpoint group are at most the burst plus the rate times the length of the window, up to the rounding of the bucket's
  binary64 arithmetic, which is below one part in 2^49 of the burst per event; deleting idle buckets does not widen it. And a
  request that comes a second or more after the last event is let through.\<close>

theorem rate_limit_enforced:
  assumes "classifyEndpoint meth path = g" and "g \<noteq> groupPublic" and "sorted (map ev_time (past @ es))"
    and "\<forall>e \<in> set es. from \<le> ev_time e \<and> ev_time e \<le> until" and "from \<le> until" and "\<forall>e \<in> set past. ev_time e + 10 ^ 9 \<le> now"
  shows "of_nat (fst (limiter_run g t es (snd (limiter_run g t past (NewRateLimiter getenv)))))
      \<le> float64_of_int (gc_burst (limit_of (NewRateLimiter getenv) g))
         * (1 + of_int (until - from) / 10 ^ 9 + of_nat (length es) / 2 ^ 49)
    \<and> fst (RateLimiter_Middleware now meth path t (snd (limiter_run g t past (NewRateLimiter getenv)))) = None"
proof (rule conjI)
  show "of_nat (fst (limiter_run g t es (snd (limiter_run g t past (NewRateLimiter getenv)))))
      \<le> float64_of_int (gc_burst (limit_of (NewRateLimiter getenv) g))
         * (1 + of_int (until - from) / 10 ^ 9 + of_nat (length es) / 2 ^ 49)"
    by (rule limiter_window [OF assms(2-5) refl])
  have "sorted (map ev_time past)" using assms(3) by (simp add: sorted_append)
  then show "fst (RateLimiter_Middleware now meth path t (snd (limiter_run g t past (NewRateLimiter getenv)))) = None"
    by (rule rested_request_passes [OF assms(1,2) _ assms(6)])
qed

theorem rate_limit_enforced_witness:
  "of_nat (fst (limiter_run groupRead ''t'' [Request 5 ''GET'' ''/api/v1/jobs'' ''t'', ReapTick 6, Request 7 ''GET'' ''/api/v1/jobs'' ''t'']
      (snd (limiter_run groupRead ''t'' [] (NewRateLimiter (\<lambda>_. []))))))
    \<le> float64_of_int (gc_burst (limit_of (NewRateLimiter (\<lambda>_. [])) groupRead)) * (1 + of_int (7 - 5) / 10 ^ 9 + of_nat (length [1, 2, 3::nat]) / 2 ^ 49)"
  using rate_limit_enforced [of "''GET''" "''/api/v1/jobs''" groupRead "[]" "[Request 5 ''GET'' ''/api/v1/jobs'' ''t'', ReapTick 6,
      Request 7 ''GET'' ''/api/v1/jobs'' ''t'']" 5 7 0 "''t''" "\<lambda>_. []"]
  by (simp add: classifyEndpoint_def)

text \<open>C39: No request reaches a handler of the admin API unless it carries a key that is stored, neither revoked nor expired and
  matches its hash, and the effective documents of that key allow the known action of the route on the resource of the route. For
  the routes scoped to a tenant that resource is the tenant and group of the key, the type the action names, and the id or run id of
  the path, or any; for the tenant routes it is the tenant of the path, or any; for the key routes it is the keys of the tenant
  the path names. (The revocation route has the id of a key at that place of its path, and its guard reads it as a tenant.)\<close>

theorem admin_request_authorized:
  assumes "rt \<in> set adminAPIRoutes" and "request_chain decode compare now rt req s rl = (Handle p, rl')"
  shows "IsKnownAction (rt_permission rt) \<and> (\<exists>k docs arn. k \<in> set (as_keys s) \<and> ak_revoked k = None \<and> \<not> expired now k
    \<and> compare (ak_hash k) (drop 7 (hq_Authorization req)) \<and> p = Some (principalFromRow k)
    \<and> fst (EffectiveDocuments decode (prn_TenantID (principalFromRow k)) (ak_id k) s) = Inr docs
    \<and> Evaluate docs \<lparr>req_Action = rt_permission rt, req_Resource = arn\<rparr> = DecisionAllow
    \<and> arn_Type arn = takeWhile (\<lambda>ch. ch \<noteq> CHR '':'') (rt_permission rt)
    \<and> (case rt_resource rt of
         TenantScoped ty \<Rightarrow> arn_Tenant arn = prn_TenantID (principalFromRow k) \<and> arn_Type arn = ty
           \<and> arn_Group arn = or_any (prn_ResourceGroupID (principalFromRow k))
           \<and> arn_ID arn = (if hq_Param req ''id'' \<noteq> [] then hq_Param req ''id'' else or_any (hq_Param req ''run_id''))
       | TenantResource \<Rightarrow> arn_Tenant arn = or_any (hq_Param req ''id'') \<and> arn_Group arn = ''*'' \<and> arn_ID arn = arn_Tenant arn
       | ApiKeyResource \<Rightarrow> arn_Tenant arn = or_any (hq_Param req ''id'') \<and> arn_Group arn = ''*''
           \<and> arn_ID arn = (if hq_Param req ''id'' = [] then ''*'' else or_any (hq_Param req ''key_id''))))"
proof -
  from chain_authorized [OF assms] obtain k docs arn where k: "k \<in> set (as_keys s)" "ak_revoked k = None" "\<not> expired now k"
      "compare (ak_hash k) (drop 7 (hq_Authorization req))" "p = Some (principalFromRow k)"
      "fst (EffectiveDocuments decode (prn_TenantID (principalFromRow k)) (ak_id k) s) = Inr docs"
      "resolve (rt_resource rt) (hq_Param req) (principalFromRow k) = Inr arn"
      "Evaluate docs \<lparr>req_Action = rt_permission rt, req_Resource = arn\<rparr> = DecisionAllow" by blast
  from k resolve_target [OF k(7)] resolve_type [OF assms(1) k(7)] routes_guarded [OF assms(1)] show ?thesis by blast
qed

theorem admin_request_authorized_witness:
  "\<exists>docs. fst (EffectiveDocuments sample_decode ''t'' ''k'' sample_auth) = Inr docs
     \<and> Evaluate docs \<lparr>req_Action = ''job:Get'', req_Resource = \<lparr>arn_Tenant = ''t'', arn_Group = ''*'', arn_Type = ''job'', arn_ID = hq_Param get_job_request ''id''\<rparr>\<rparr>
       = DecisionAllow"
proof -
  obtain rl' where chain: "request_chain sample_decode (\<lambda>_ _. True) 5 job_route get_job_request sample_auth (NewRateLimiter (\<lambda>_. []))
      = (Handle (Some (principalFromRow sample_key)), rl')" using get_job_reaches_handler by blast
  have "job_route \<in> set adminAPIRoutes" by code_simp
  from admin_request_authorized [OF this chain] obtain k docs arn where k: "k \<in> set (as_keys sample_auth)"
      "fst (EffectiveDocuments sample_decode (prn_TenantID (principalFromRow k)) (ak_id k) sample_auth) = Inr docs"
      "Evaluate docs \<lparr>req_Action = rt_permission job_route, req_Resource = arn\<rparr> = DecisionAllow"
      and arn: "arn_Tenant arn = prn_TenantID (principalFromRow k)" "arn_Type arn = ''job''"
      "arn_Group arn = or_any (prn_ResourceGroupID (principalFromRow k))"
      "arn_ID arn = (if hq_Param get_job_request ''id'' \<noteq> [] then hq_Param get_job_request ''id'' else or_any (hq_Param get_job_request ''run_id''))"
    by (auto simp: job_route_def route_def)
  have key: "k = sample_key" using k(1) by (simp add: sample_auth_def)
  have "arn = \<lparr>arn_Tenant = ''t'', arn_Group = ''*'', arn_Type = ''job'', arn_ID = hq_Param get_job_request ''id''\<rparr>"
    using arn unfolding key by (cases arn) (simp add: principalFromRow_def sample_key_def or_any_def get_job_request_def)
  with k show ?thesis unfolding key by (auto simp: principalFromRow_def sample_key_def job_route_def route_def)
qed

text \<open>C40: The handlers listed here act for the tenant of the authenticated key and for no other: whatever the path, the query and the
  body name, the answer and the effect depend on the use case only at inputs of that tenant. Three groups of handlers are not in the
  list: the change of status of a check (pause and resume), whose body overrides the scope, the key routes, whose guard decides on
  the tenant of the path, and the creation of tenants.\<close>

theorem handlers_act_for_own_tenant:
  assumes "key_kind_ok k" and "t = prn_TenantID (principalFromRow k)" and "c = authenticated (principalFromRow k) docs key"
  shows "acts_for li_TenantID t (\<lambda>uc. Handler_ListJobs uc c pg) \<and> acts_for gt_TenantID t (\<lambda>uc. Handler_GetJob uc c uri q)
      \<and> acts_for tr_TenantID t (\<lambda>uc. Handler_TriggerJob uc c uri) \<and> acts_for li_TenantID t (\<lambda>uc. Handler_ListInstances uc c inst)
      \<and> acts_for gt_TenantID t (\<lambda>uc. Handler_GetInstance uc c uri) \<and> acts_for gt_TenantID t (\<lambda>uc. Handler_CancelInstance uc c uri)
      \<and> acts_for gt_TenantID t (\<lambda>uc. Handler_ListAttempts uc c uri)
      \<and> acts_for cki_TenantID t (\<lambda>uc. Handler_CreateCheck uc c new) \<and> acts_for lci_TenantID t (\<lambda>uc. Handler_ListChecks uc c checks)
      \<and> acts_for fst t (\<lambda>uc. Handler_GetCheck (\<lambda>t g i. uc (t, g, i)) c uri q) \<and> acts_for cg_TenantID t (\<lambda>uc. Handler_DeleteCheck uc c uri version)
      \<and> acts_for lki_TenantID t (\<lambda>uc. Handler_ListCheckRuns uc c runs) \<and> acts_for fst t (\<lambda>uc. Handler_GetCheckRun (\<lambda>t i. uc (t, i)) c uri)
      \<and> acts_for fst t (\<lambda>uc. Handler_CreateSLI (\<lambda>t i. uc (t, i)) c sli) \<and> acts_for fst t (\<lambda>uc. Handler_ListSLIs (\<lambda>t g l n. uc (t, g, l, n)) c pg)
      \<and> acts_for fst t (\<lambda>uc. Handler_GetSLI (\<lambda>t g i. uc (t, g, i)) c uri) \<and> acts_for cg_TenantID t (\<lambda>uc. Handler_DeleteSLI uc c uri version)
      \<and> acts_for fst t (\<lambda>uc. Handler_CreateSLO pd (\<lambda>t i. uc (t, i)) c slo) \<and> acts_for fst t (\<lambda>uc. Handler_ListSLOs (\<lambda>t g l n. uc (t, g, l, n)) c pg)
      \<and> acts_for fst t (\<lambda>uc. Handler_GetSLO (\<lambda>t g i. uc (t, g, i)) c uri) \<and> acts_for cg_TenantID t (\<lambda>uc. Handler_PauseSLO uc uc c uri version)
      \<and> acts_for cg_TenantID t (\<lambda>uc. Handler_ResumeSLO uc uc c uri version) \<and> acts_for cg_TenantID t (\<lambda>uc. Handler_DeleteSLO uc c uri version)
      \<and> acts_for fst t (\<lambda>uc. Handler_GetSLOBudget (\<lambda>t i. uc (t, i)) c uri)
      \<and> acts_for fst t (\<lambda>uc. Handler_ListSLOBudgets (\<lambda>t i l n. uc (t, i, l, n)) c uri pg)
      \<and> acts_for fst t (\<lambda>uc. Handler_GetSLOAlert (\<lambda>t i. uc (t, i)) c uri)
      \<and> acts_for fst t (\<lambda>uc. Handler_ListSLOAlerts (\<lambda>t s st l n. uc (t, s, st, l, n)) c alerts)
      \<and> acts_for fst t (\<lambda>uc. Handler_ListTenants (\<lambda>t l n. uc (t, l, n)) c tpg) \<and> acts_for fst t (\<lambda>uc. Handler_GetTenant (\<lambda>t i. uc (t, i)) c sid)
      \<and> acts_for pci_TenantID t (\<lambda>uc. Handler_CreatePolicy uc c pol) \<and> acts_for id t (\<lambda>uc. Handler_ListPolicies uc c)
      \<and> acts_for fst t (\<lambda>uc. Handler_GetPolicy (\<lambda>t i. uc (t, i)) c sid) \<and> acts_for fst t (\<lambda>uc. Handler_DeletePolicy (\<lambda>t i a. uc (t, i, a)) c sid)
      \<and> acts_for rg_TenantID t (\<lambda>uc. Handler_CreateResourceGroup uc c grp) \<and> acts_for id t (\<lambda>uc. Handler_ListResourceGroups uc c)
      \<and> acts_for fst t (\<lambda>uc. Handler_ListFunctions (\<lambda>t g l n. uc (t, g, l, n)) c pg) \<and> acts_for fg_TenantID t (\<lambda>uc. Handler_GetFunction uc c uri q)
      \<and> acts_for iv_TenantID t (\<lambda>uc. Handler_InvokeFunction uc c uri wait)
      \<and> acts_for (fg_TenantID \<circ> fst) t (\<lambda>uc. Handler_ListFunctionRuns (\<lambda>i l. uc (i, l)) c uri fruns)
      \<and> acts_for (fg_TenantID \<circ> fst) t (\<lambda>uc. Handler_GetFunctionRun (\<lambda>i r. uc (i, r)) c frun)
      \<and> acts_for fst t (\<lambda>uc. Handler_ListWorkflows (\<lambda>t g l n. uc (t, g, l, n)) c pg) \<and> acts_for wg_TenantID t (\<lambda>uc. Handler_GetWorkflow uc c uri q)
      \<and> acts_for wti_TenantID t (\<lambda>uc. Handler_TriggerWorkflow uc c uri)
      \<and> acts_for (wg_TenantID \<circ> fst) t (\<lambda>uc. Handler_ListWorkflowRuns (\<lambda>i l n. uc (i, l, n)) c uri wpg)
      \<and> acts_for (wg_TenantID \<circ> fst) t (\<lambda>uc. Handler_GetWorkflowRun (\<lambda>i r. uc (i, r)) c wrun)
      \<and> acts_for (wg_TenantID \<circ> fst) t (\<lambda>uc. Handler_CancelWorkflowRun (\<lambda>i r. uc (i, r)) c wrun)"
  by (intro conjI; (rule run_handlers_act [OF assms] check_handlers_act [OF assms] level_handlers_act [OF assms]
      objective_handlers_act [OF assms] access_handlers_act [OF assms] function_handlers_act [OF assms]))

theorem handlers_act_for_own_tenant_witness:
  "acts_for gt_TenantID ''t'' (\<lambda>uc. Handler_GetJob (uc :: GetInput \<Rightarrow> (unit, unit) io)
     (authenticated (principalFromRow sample_key) [] []) (Decoded 1) (Decoded (None, ''u'')))"
proof -
  have "key_kind_ok sample_key" and "''t'' = prn_TenantID (principalFromRow sample_key)"
    by (simp_all add: key_kind_ok_def sample_key_def principalFromRow_def)
  then show ?thesis by (rule handlers_act_for_own_tenant [OF _ _ refl, THEN conjunct2, THEN conjunct1])
qed

section \<open>Behaviours that differ from the documentation\<close>

text \<open>A late observation of an earlier attempt rewinds the run: attempt 2 is running, the failed Job of attempt 1 is
  observed again, and the run is back at attempt 1, waiting for a retry.\<close>

theorem stale_observation_rewinds_run:
  "map (\<lambda>row. (rn_phase row, rn_attempt row)) (lg_runs (w_ledger (snd
     (ReconcileJob sample_ext (quiet 7) (sample_runtime sample_client) stale_job stale_world))))
   = [(RetryWaiting, 1)]"
  by code_simp

text \<open>Retention selects a \<open>CancelUnknown\<close> run, but the delete that follows never removes it.\<close>

theorem cancel_unknown_never_deleted:
  "map rn_phase (prunable_rows ''t'' ''u'' 0 0 unknown_ledger) = [CancelUnknown] \<and>
   DeleteRun ''t'' 1 unknown_ledger = (Inr False, unknown_ledger)"
  by code_simp

text \<open>A cyclic workflow is projected and becomes the active revision; only its runs are refused.\<close>

theorem cyclic_workflow_projects:
  "hasCycle (DAGFromSpec cyclic_workflow) \<and>
   fst (ReconcileWorkflowJob sample_ext (quiet 7) (sample_runtime sample_client) cyclic_object sample_world) = Inr ()"
  by code_simp

text \<open>The check on delegated policies does not see a deny that names one resource: a caller who is denied one job may
  grant a policy that allows it.\<close>

theorem narrow_deny_escapes_delegation:
  "CheckGrantable (ca_Documents (ci_Caller sample_create)) [ResolveSelf allow_jobs ''t''] = Inr () \<and>
   Evaluate [ResolveSelf allow_jobs ''t''] (job_request ''s'') = DecisionAllow \<and>
   Evaluate (ca_Documents (ci_Caller sample_create)) (job_request ''s'') = DecisionDeny"
  by code_simp

text \<open>Deleting a policy that is bound to a key succeeds and silently unbinds it; when the policy is a deny, the key can do
  more afterwards.\<close>

theorem deleting_bound_policy_widens_key:
  "fst (Policy_Delete ''t'' ''D'' (newGrantEvent ''t'' ''k'' ''delete'' ''policy'' ''D'' NoDiff) sample_auth) = Inr () \<and>
   map_sum id (\<lambda>docs. Evaluate docs (job_request ''s'')) (fst (EffectiveDocuments sample_decode ''t'' ''k'' sample_auth)) = Inr DecisionDeny \<and>
   map_sum id (\<lambda>docs. Evaluate docs (job_request ''s'')) (fst (EffectiveDocuments sample_decode ''t'' ''k''
     (snd (Policy_Delete ''t'' ''D'' (newGrantEvent ''t'' ''k'' ''delete'' ''policy'' ''D'' NoDiff) sample_auth)))) = Inr DecisionAllow"
  by code_simp

text \<open>The body of a pause names its target alone: whatever the id of the path and the tenant and group of the key, a caller of
  any tenant pauses the check that the keys of the body name, in the tenant they name.\<close>

theorem status_body_overrides_scope:
  assumes "prn_TenantID p \<noteq> []" and "1 \<le> i" and "1 \<le> v"
  shows "Handler_PauseCheck pause resume (authenticated p docs key) (Decoded i)
       (Decoded \<lparr>cb_ID = Some j, cb_TenantID = Some u, cb_ResourceGroupID = Some g, cb_Version = Some v\<rparr>)
     = serve OK (pause \<lparr>cg_TenantID = u, cg_ResourceGroupID = g, cg_ID = j, cg_Version = v\<rparr>)"
  using assms by (simp add: Handler_PauseCheck_def changeCheckStatus_def ShouldBind_def positive_id_def with_tenant_def requireTenantID_def
      ResolveTenantID_def authenticated_def bind_status_def override_def ActionPause_def Let_def)

text \<open>The id is bound twice: six reads and the invocation of a function bind the path and then the query into one request, whose id
  has no name of its own in the query, so a query parameter \<open>ID\<close> replaces the id of the path after the guard has decided on the
  id of the path. Here a caller gets a job, and invokes a function, other than the one the guard allowed.\<close>

theorem query_id_overrides_path:
  assumes "prn_TenantID p \<noteq> []" and "1 \<le> i" and "1 \<le> j" and "0 \<le> wait" and "wait \<le> 60"
  shows "Handler_GetJob get (authenticated p docs key) (Decoded i) (Decoded (Some j, []))
      = serve OK (get \<lparr>gt_TenantID = prn_TenantID p, gt_ID = j, gt_ResourceGroupID = prn_ResourceGroupID p\<rparr>)
    \<and> Handler_InvokeFunction invoke (authenticated p docs key) (Decoded i) (Decoded (Some j, wait))
      = Handler_InvokeFunction invoke (authenticated p docs key) (Decoded j) (Decoded (None, wait))"
  using assms by (simp add: Handler_GetJob_def Handler_InvokeFunction_def ShouldBindBoth_def ShouldBind_def positive_id_def omit_tenant_def
      with_tenant_def requireTenantID_def ResolveTenantID_def authenticated_def groupFrom_def Let_def)

text \<open>A platform key has no tenant, and every handler that asks for one refuses it before it looks at the kind of the key, whatever
  tenant the request names.\<close>

theorem platform_key_refused:
  assumes "key_kind_ok k" and "ak_kind k = ''platform''"
  shows "with_tenant (authenticated (principalFromRow k) docs key) r f = refuse 403 CodeForbidden"
  using assms by (rule platform_refused)

end
